(* ===== verification/Prelude.thy ===== *)
theory Prelude
  imports Main
begin

text \<open>
  Shared vocabulary of the development.

  The theory holds the parts of Python and of the web stack that every component uses:
  the string operations of \<^verbatim>\<open>str\<close> (on 8-bit characters), the integer parser \<^verbatim>\<open>int(s)\<close> and
  the decimal printer \<^verbatim>\<open>str(n)\<close>, JSON values with Python's truth test, instants and
  durations (microseconds as \<open>int\<close>, as \<^verbatim>\<open>datetime\<close> and \<^verbatim>\<open>timedelta\<close> keep them), HTTP
  outcomes (\<^verbatim>\<open>utils/response.py\<close>), and database tables as lists of rows in the order of
  their primary keys. Two interfaces are stated as locales: \<open>keyed_rows\<close>, the laws of a
  table that is read and written by primary key, and \<open>invariant_system\<close>, a deterministic
  step function with an invariant, whose lemma carries the invariant to every run.
\<close>

named_theorems ucm_simps \<open>unfolding rules the component proofs share\<close>

subsection \<open>Time\<close>

type_synonym time = int

definition seconds :: "int \<Rightarrow> time" where
  "seconds n = n * 1000000"

definition minutes :: "int \<Rightarrow> time" where
  "minutes n = seconds (n * 60)"

definition hours :: "int \<Rightarrow> time" where
  "hours n = seconds (n * 3600)"

definition days :: "int \<Rightarrow> time" where
  "days n = hours (n * 24)"

subsection \<open>Strings\<close>

definition startswith :: "string \<Rightarrow> string \<Rightarrow> bool" where
  "startswith s p = (take (length p) s = p)"

definition endswith :: "string \<Rightarrow> string \<Rightarrow> bool" where
  "endswith s p = startswith (rev s) (rev p)"

fun contains :: "string \<Rightarrow> string \<Rightarrow> bool" where
  "contains sub [] = (sub = [])"
| "contains sub (c # cs) = (startswith (c # cs) sub \<or> contains sub cs)"

fun split_on :: "char \<Rightarrow> string \<Rightarrow> string list" where
  "split_on d [] = [[]]"
| "split_on d (c # cs) =
     (if c = d then [] # split_on d cs
      else (case split_on d cs of [] \<Rightarrow> [[c]] | w # ws \<Rightarrow> (c # w) # ws))"

fun join_with :: "string \<Rightarrow> string list \<Rightarrow> string" where
  "join_with d [] = []"
| "join_with d [w] = w"
| "join_with d (w # v # ws) = w @ d @ join_with d (v # ws)"

definition is_space :: "char \<Rightarrow> bool" where
  "is_space c = (let n = of_char c :: nat in n = 32 \<or> (9 \<le> n \<and> n \<le> 13) \<or> (28 \<le> n \<and> n \<le> 31)
                  \<or> n = 133 \<or> n = 160)"

definition strip :: "string \<Rightarrow> string" where
  "strip s = rev (dropWhile is_space (rev (dropWhile is_space s)))"

definition lower_char :: "char \<Rightarrow> char" where
  "lower_char c = (let n = of_char c :: nat in if 65 \<le> n \<and> n \<le> 90 then char_of (n + 32) else c)"

definition upper_char :: "char \<Rightarrow> char" where
  "upper_char c = (let n = of_char c :: nat in if 97 \<le> n \<and> n \<le> 122 then char_of (n - 32) else c)"

definition lower :: "string \<Rightarrow> string" where
  "lower s = map lower_char s"

definition upper :: "string \<Rightarrow> string" where
  "upper s = map upper_char s"

definition is_digit :: "char \<Rightarrow> bool" where
  "is_digit c = (let n = of_char c :: nat in 48 \<le> n \<and> n \<le> 57)"

definition is_upper :: "char \<Rightarrow> bool" where
  "is_upper c = (let n = of_char c :: nat in 65 \<le> n \<and> n \<le> 90)"

definition is_lower :: "char \<Rightarrow> bool" where
  "is_lower c = (let n = of_char c :: nat in 97 \<le> n \<and> n \<le> 122)"

definition digit_value :: "nat \<Rightarrow> char \<Rightarrow> nat option" where
  "digit_value base c =
     (let n = of_char c :: nat;
          v = (if 48 \<le> n \<and> n \<le> 57 then n - 48
               else if 97 \<le> n \<and> n \<le> 122 then n - 87
               else if 65 \<le> n \<and> n \<le> 90 then n - 55 else base)
      in if v < base then Some v else None)"

text \<open>
  The digits of \<^verbatim>\<open>int(s, base)\<close>: single underscores may stand between digits. The flag
  says whether the last character read was a digit.
\<close>

fun parse_digits :: "nat \<Rightarrow> int \<Rightarrow> bool \<Rightarrow> string \<Rightarrow> int option" where
  "parse_digits base acc after_digit [] = (if after_digit then Some acc else None)"
| "parse_digits base acc after_digit (c # cs) =
     (case digit_value base c of
        Some d \<Rightarrow> parse_digits base (acc * int base + int d) True cs
      | None \<Rightarrow> if c = CHR ''_'' \<and> after_digit then parse_digits base acc False cs else None)"

definition parse_magnitude :: "nat \<Rightarrow> string \<Rightarrow> int option" where
  "parse_magnitude base s =
     (if base = 16 \<and> (startswith s ''0x'' \<or> startswith s ''0X'')
      then (let r = drop 2 s in parse_digits base 0 False (if startswith r ''_'' then tl r else r))
      else parse_digits base 0 False s)"

definition py_int :: "nat \<Rightarrow> string \<Rightarrow> int option" where
  "py_int base s =
     (case strip s of
        [] \<Rightarrow> None
      | c # cs \<Rightarrow>
          if c = CHR ''-'' then map_option uminus (parse_magnitude base cs)
          else if c = CHR ''+'' then parse_magnitude base cs
          else parse_magnitude base (c # cs))"

fun str_nat :: "nat \<Rightarrow> string" where
  "str_nat n =
     (if n < 10 then [char_of (48 + n)] else str_nat (n div 10) @ [char_of (48 + n mod 10)])"

declare str_nat.simps [simp del]

definition str_int :: "int \<Rightarrow> string" where
  "str_int i = (if i < 0 then ''-'' @ str_nat (nat (- i)) else str_nat (nat i))"

definition str_bool :: "bool \<Rightarrow> string" where
  "str_bool b = (if b then ''True'' else ''False'')"

subsection \<open>JSON values\<close>

datatype json =
    JNull
  | JBool bool
  | JInt int
  | JStr string
  | JList "json list"
  | JObj "(string \<times> json) list"

definition truthy :: "json \<Rightarrow> bool" where
  "truthy j = (case j of JNull \<Rightarrow> False | JBool b \<Rightarrow> b | JInt i \<Rightarrow> i \<noteq> 0
               | JStr s \<Rightarrow> s \<noteq> [] | JList js \<Rightarrow> js \<noteq> [] | JObj kvs \<Rightarrow> kvs \<noteq> [])"

text \<open>\<^verbatim>\<open>key in d\<close>, \<^verbatim>\<open>d.get(key)\<close> and \<^verbatim>\<open>d.get(key, default)\<close> on a parsed request body.\<close>

definition jhas :: "(string \<times> json) list \<Rightarrow> string \<Rightarrow> bool" where
  "jhas d k = (map_of d k \<noteq> None)"

definition jget :: "(string \<times> json) list \<Rightarrow> string \<Rightarrow> json" where
  "jget d k = (case map_of d k of None \<Rightarrow> JNull | Some v \<Rightarrow> v)"

definition jget_or :: "(string \<times> json) list \<Rightarrow> string \<Rightarrow> json \<Rightarrow> json" where
  "jget_or d k dflt = (case map_of d k of None \<Rightarrow> dflt | Some v \<Rightarrow> v)"

text \<open>\<^verbatim>\<open>int(v)\<close> on a JSON value.\<close>

datatype int_of = Int_value int | Bad_value | Bad_type

definition json_to_int :: "json \<Rightarrow> int_of" where
  "json_to_int j =
     (case j of JInt i \<Rightarrow> Int_value i | JBool b \<Rightarrow> Int_value (if b then 1 else 0)
      | JStr s \<Rightarrow> (case py_int 10 s of None \<Rightarrow> Bad_value | Some i \<Rightarrow> Int_value i) | _ \<Rightarrow> Bad_type)"

subsection \<open>Truth of optional strings\<close>

text \<open>Python's \<^verbatim>\<open>if s:\<close> on a string that may be \<^verbatim>\<open>None\<close>.\<close>

definition nonempty :: "string option \<Rightarrow> bool" where
  "nonempty so = (case so of None \<Rightarrow> False | Some s \<Rightarrow> s \<noteq> [])"

subsection \<open>Dictionaries\<close>

text \<open>
  A dictionary is its list of items in insertion order: assigning to a key that is present
  keeps its place, a new key goes to the end.
\<close>

fun dict_set :: "'k \<Rightarrow> 'v \<Rightarrow> ('k \<times> 'v) list \<Rightarrow> ('k \<times> 'v) list" where
  "dict_set k v [] = [(k, v)]"
| "dict_set k v ((j, w) # d) = (if j = k then (k, v) # d else (j, w) # dict_set k v d)"

definition dict_del :: "'k \<Rightarrow> ('k \<times> 'v) list \<Rightarrow> ('k \<times> 'v) list" where
  "dict_del k d = filter (\<lambda>(j, _). j \<noteq> k) d"

text \<open>A computation that goes on with the result of another, or ends with its error.\<close>

definition and_then :: "'e + 'a \<Rightarrow> ('a \<Rightarrow> 'e + 'b) \<Rightarrow> 'e + 'b" where
  "and_then x f = (case x of Inl e \<Rightarrow> Inl e | Inr a \<Rightarrow> f a)"

subsection \<open>HTTP outcomes\<close>

text \<open>
  \<^verbatim>\<open>success_response\<close> and \<^verbatim>\<open>error_response\<close> of \<^verbatim>\<open>utils/response.py\<close>: the data, message and
  status of a handler's answer. \<open>Raised\<close> is an exception that leaves the handler.
\<close>

datatype 'a http =
    Success 'a string nat
  | Error string nat
  | Raised string

definition success_response :: "'a \<Rightarrow> string \<Rightarrow> 'a http" where
  "success_response d msg = Success d msg 200"

definition error_response :: "string \<Rightarrow> nat \<Rightarrow> 'a http" where
  "error_response msg code = Error msg code"

definition status_code :: "'a http \<Rightarrow> nat" where
  "status_code r = (case r of Success _ _ n \<Rightarrow> n | Error _ n \<Rightarrow> n | Raised _ \<Rightarrow> 500)"

subsection \<open>Tables\<close>

text \<open>
  A table is the list of its rows in the order of their primary keys; \<open>key\<close> reads the
  primary key. \<^verbatim>\<open>query.get(id)\<close> is \<open>row_get\<close>, an update of a loaded object that is
  committed is \<open>row_update\<close>, \<^verbatim>\<open>session.delete\<close> is \<open>row_delete\<close>, and a new row gets
  \<open>next_id\<close>, one above the greatest key, as an \<^verbatim>\<open>INTEGER PRIMARY KEY\<close> column does.
\<close>

definition row_get :: "('r \<Rightarrow> int) \<Rightarrow> 'r list \<Rightarrow> int \<Rightarrow> 'r option" where
  "row_get key rows i = find (\<lambda>r. key r = i) rows"

definition row_update :: "('r \<Rightarrow> int) \<Rightarrow> int \<Rightarrow> ('r \<Rightarrow> 'r) \<Rightarrow> 'r list \<Rightarrow> 'r list" where
  "row_update key i f rows = map (\<lambda>r. if key r = i then f r else r) rows"

definition row_delete :: "('r \<Rightarrow> int) \<Rightarrow> int \<Rightarrow> 'r list \<Rightarrow> 'r list" where
  "row_delete key i rows = filter (\<lambda>r. key r \<noteq> i) rows"

definition next_id :: "('r \<Rightarrow> int) \<Rightarrow> 'r list \<Rightarrow> int" where
  "next_id key rows = foldr (\<lambda>r m. max (key r + 1) m) rows 1"

definition keys_ok :: "('r \<Rightarrow> int) \<Rightarrow> 'r list \<Rightarrow> bool" where
  "keys_ok key rows = (distinct (map key rows) \<and> list_all (\<lambda>r. 0 < key r) rows)"

subsection \<open>Interfaces\<close>

locale keyed_rows =
  fixes key :: "'r \<Rightarrow> int"
    and get :: "'r list \<Rightarrow> int \<Rightarrow> 'r option"
    and upd :: "int \<Rightarrow> ('r \<Rightarrow> 'r) \<Rightarrow> 'r list \<Rightarrow> 'r list"
    and del :: "int \<Rightarrow> 'r list \<Rightarrow> 'r list"
  assumes get_key: "get rows i = Some r \<Longrightarrow> key r = i"
    and get_upd: "(\<And>r. key (f r) = key r) \<Longrightarrow> get (upd i f rows) i = map_option f (get rows i)"
    and get_upd_other: "(\<And>r. key (f r) = key r) \<Longrightarrow> j \<noteq> i \<Longrightarrow> get (upd i f rows) j = get rows j"
    and get_del: "get (del i rows) i = None"
    and get_del_other: "j \<noteq> i \<Longrightarrow> get (del i rows) j = get rows j"
begin

lemma upd_del_commute_get:
  assumes "\<And>r. key (f r) = key r" "i \<noteq> j"
  shows "get (upd i f (del j rows)) i = get (del j (upd i f rows)) i"
  using assms by (simp add: get_upd get_del_other)

lemma get_upd_iff:
  assumes "\<And>r. key (f r) = key r"
  shows "get (upd i f rows) j = (if i = j then map_option f (get rows j) else get rows j)"
  using assms by (auto simp: get_upd get_upd_other)

end

locale invariant_system =
  fixes step :: "'s \<Rightarrow> 'e \<Rightarrow> 's"
    and inv :: "'s \<Rightarrow> bool"
  assumes step_inv: "inv s \<Longrightarrow> inv (step s e)"
begin

lemma run_inv: "inv s \<Longrightarrow> inv (foldl step s es)"
  by (induction es arbitrary: s) (simp_all add: step_inv)

end

subsection \<open>Lemmas\<close>

lemma startswith_append [simp]: "startswith (p @ s) p"
  by (simp add: startswith_def)

lemma startswith_iff: "startswith s p \<longleftrightarrow> (\<exists>r. s = p @ r)"
  unfolding startswith_def by (metis append_eq_conv_conj append_take_drop_id)

lemma startswith_Nil [simp]: "startswith s []"
  by (simp add: startswith_def)

lemma split_on_not_Nil [simp]: "split_on d s \<noteq> []"
  by (induction s) (auto split: list.splits)

lemma split_on_no_sep: "d \<notin> set s \<Longrightarrow> split_on d s = [s]"
  by (induction s) auto

lemma split_on_append: "d \<notin> set s \<Longrightarrow> split_on d (s @ d # t) = s # split_on d t"
  by (induction s) auto

lemma join_split_on: "join_with [d] (split_on d s) = s"
proof (induction s)
  case (Cons c s)
  then show ?case
    by (cases "split_on d s" rule: remdups_adj.cases) auto
qed simp

lemma split_on_parts: "w \<in> set (split_on d s) \<Longrightarrow> d \<notin> set w"
  by (induction s arbitrary: w) (force split: list.splits if_splits)+

lemma length_split_on: "length (split_on d s) = Suc (count_list s d)"
  by (induction s) (auto split: list.splits simp: neq_Nil_conv)

lemma contains_iff: "contains sub s \<longleftrightarrow> (\<exists>pre post. s = pre @ sub @ post)"
proof (induction s)
  case Nil
  then show ?case by auto
next
  case (Cons c cs)
  have "(\<exists>pre post. c # cs = pre @ sub @ post) \<longleftrightarrow>
        (\<exists>post. c # cs = sub @ post) \<or> (\<exists>pre post. cs = pre @ sub @ post)"
    by (auto simp: Cons_eq_append_conv)
  then show ?case by (simp add: Cons startswith_iff)
qed

lemma contains_append1: "contains sub s \<Longrightarrow> contains sub (s @ t)"
  unfolding contains_iff by (metis append_assoc)

lemma contains_append2: "contains sub s \<Longrightarrow> contains sub (t @ s)"
  unfolding contains_iff by (metis append_assoc)

lemma contains_length: "contains sub s \<Longrightarrow> length sub \<le> length s"
  by (auto simp: contains_iff)

lemma length_lower [simp]: "length (lower s) = length s"
  by (simp add: lower_def)

lemma map_of_dict_set: "map_of (dict_set k v d) = (map_of d)(k \<mapsto> v)"
  by (induction k v d rule: dict_set.induct) auto

lemma map_of_dict_del: "map_of (dict_del k d) = (map_of d)(k := None)"
  unfolding dict_del_def by (induction d) auto

lemma keys_dict_set: "fst ` set (dict_set k v d) = insert k (fst ` set d)"
  by (induction k v d rule: dict_set.induct) auto

lemma distinct_dict_set: "distinct (map fst d) \<Longrightarrow> distinct (map fst (dict_set k v d))"
  by (induction k v d rule: dict_set.induct) (auto simp: keys_dict_set)

lemma distinct_dict_del: "distinct (map fst d) \<Longrightarrow> distinct (map fst (dict_del k d))"
  unfolding dict_del_def by (rule distinct_map_filter)

lemma find_map_same:
  assumes "\<And>x. P (g x) = P x"
  shows "find P (map g xs) = map_option g (find P xs)"
  by (induction xs) (simp_all add: assms)

lemma find_row_update:
  assumes "\<And>x. P (f x) = P x"
  shows "find P (row_update key i f rows) = map_option (\<lambda>x. if key x = i then f x else x) (find P rows)"
  unfolding row_update_def by (rule find_map_same) (simp add: assms)

lemma row_get_Some: "row_get key rows i = Some r \<Longrightarrow> r \<in> set rows \<and> key r = i"
  by (auto simp: row_get_def find_Some_iff)

lemma row_get_None: "row_get key rows i = None \<longleftrightarrow> (\<forall>r \<in> set rows. key r \<noteq> i)"
  by (auto simp: row_get_def find_None_iff)

lemma row_get_update:
  assumes "\<And>r. key (f r) = key r"
  shows "row_get key (row_update key i f rows) j =
         (if i = j then map_option f (row_get key rows j) else row_get key rows j)"
  unfolding row_get_def row_update_def by (induction rows) (auto simp: assms)

lemma row_get_put:
  assumes "key v = i"
  shows "row_get key (row_update key i (\<lambda>_. v) rows) j =
         (if j = i then map_option (\<lambda>_. v) (row_get key rows i) else row_get key rows j)"
  unfolding row_get_def row_update_def by (induction rows) (auto simp: assms)

lemma row_get_delete:
  "row_get key (row_delete key i rows) j = (if i = j then None else row_get key rows j)"
  unfolding row_get_def row_delete_def by (induction rows) auto

interpretation table: keyed_rows key "row_get key" "row_update key" "row_delete key"
  for key :: "'r \<Rightarrow> int"
  by unfold_locales
    (auto simp: row_get_update row_get_delete dest: row_get_Some)

lemma next_id_pos: "0 < next_id key rows"
  unfolding next_id_def by (induction rows) auto

lemma next_id_greater: "r \<in> set rows \<Longrightarrow> key r < next_id key rows"
  unfolding next_id_def by (induction rows) auto

lemma keys_ok_append:
  assumes "keys_ok key rows" "key r = next_id key rows"
  shows "keys_ok key (rows @ [r])"
proof -
  have "key r \<notin> key ` set rows"
    using assms(2) next_id_greater [of _ rows key] by force
  with assms show ?thesis
    by (simp add: keys_ok_def next_id_pos)
qed

lemma row_update_names:
  assumes "distinct (map nm rows)" "distinct (map key rows)"
    and "\<And>r s. r \<in> set rows \<Longrightarrow> key r = i \<Longrightarrow> s \<in> set rows \<Longrightarrow> key s \<noteq> i \<Longrightarrow> nm (f r) \<noteq> nm s"
  shows "distinct (map nm (row_update key i f rows))"
proof -
  let ?g = "\<lambda>r. if key r = i then f r else r"
  have "inj_on (nm \<circ> ?g) (set rows)"
  proof (rule inj_onI)
    fix r s assume rs: "r \<in> set rows" "s \<in> set rows" "(nm \<circ> ?g) r = (nm \<circ> ?g) s"
    consider "key r = i" "key s = i" | "key r = i" "key s \<noteq> i" | "key r \<noteq> i" "key s = i"
      | "key r \<noteq> i" "key s \<noteq> i" by blast
    then show "r = s"
    proof cases
      case 1
      have "inj_on key (set rows)" using assms(2) by (simp add: distinct_map)
      then show ?thesis by (rule inj_onD) (use 1 rs in simp_all)
    next
      case 4
      have "inj_on nm (set rows)" using assms(1) by (simp add: distinct_map)
      then show ?thesis by (rule inj_onD) (use 4 rs in simp_all)
    qed (use rs assms(3) in \<open>auto simp: eq_commute\<close>)
  qed
  then show ?thesis
    using assms(2) by (simp add: row_update_def distinct_map comp_def)
qed

lemma map_row_update:
  "(\<And>r. r \<in> set rows \<Longrightarrow> key r = i \<Longrightarrow> g (f r) = g r) \<Longrightarrow> map g (row_update key i f rows) = map g rows"
  by (auto simp: row_update_def)

lemma keys_ok_update:
  assumes "keys_ok key rows" "\<And>r. key (f r) = key r"
  shows "keys_ok key (row_update key i f rows)"
proof -
  have "map key (row_update key i f rows) = map key rows"
    by (simp add: row_update_def assms(2))
  then have "key ` set (row_update key i f rows) = key ` set rows"
    by (metis list.set_map)
  with \<open>map key (row_update key i f rows) = map key rows\<close> show ?thesis
    using assms(1) unfolding keys_ok_def list_all_iff by (metis imageE imageI)
qed

lemma and_then_Inr: "and_then x f = Inr b \<longleftrightarrow> (\<exists>a. x = Inr a \<and> f a = Inr b)"
  by (cases x) (simp_all add: and_then_def)

lemma keys_ok_put:
  assumes "keys_ok key rows" "key v = i"
  shows "keys_ok key (row_update key i (\<lambda>_. v) rows)"
proof -
  have keys: "map key (row_update key i (\<lambda>_. v) rows) = map key rows" using assms(2) by (intro map_row_update) simp
  have "0 < key r" if "r \<in> set (row_update key i (\<lambda>_. v) rows)" for r
    using assms that by (auto simp: keys_ok_def list_all_iff row_update_def)
  then show ?thesis using assms(1) keys by (simp add: keys_ok_def list_all_iff)
qed

lemma keys_ok_filter: "keys_ok key rows \<Longrightarrow> keys_ok key (filter P rows)"
  by (auto simp: keys_ok_def list_all_iff distinct_map intro: inj_on_subset)

lemma find_append: "find P (xs @ ys) = (case find P xs of None \<Rightarrow> find P ys | Some x \<Rightarrow> Some x)"
  by (induction xs) auto

lemma find_Some_in: "find P xs = Some x \<Longrightarrow> x \<in> set xs \<and> P x"
  by (auto simp: find_Some_iff)

lemma strip_no_space: "(\<And>c. c \<in> set s \<Longrightarrow> \<not> is_space c) \<Longrightarrow> strip s = s"
proof -
  assume *: "\<And>c. c \<in> set s \<Longrightarrow> \<not> is_space c"
  have "dropWhile is_space xs = xs" if "set xs \<subseteq> set s" for xs
    using that * by (cases xs) auto
  then show ?thesis by (simp add: strip_def)
qed

lemma parse_digits_snoc:
  assumes "parse_digits base acc b xs = Some v" "digit_value base c = Some d"
  shows "parse_digits base acc b (xs @ [c]) = Some (v * int base + int d)"
  using assms by (induction xs arbitrary: acc b) (auto split: option.splits if_splits)

lemma digit_value_char: "d < 10 \<Longrightarrow> digit_value 10 (char_of (48 + d)) = Some d"
  by (simp add: digit_value_def)

lemma parse_str_nat: "parse_digits 10 0 False (str_nat n) = Some (int n)"
proof (induction n rule: str_nat.induct)
  case (1 n)
  show ?case
  proof (cases "n < 10")
    case True
    then show ?thesis by (simp add: str_nat.simps [of n] digit_value_char)
  next
    case False
    then have "parse_digits 10 0 False (str_nat (n div 10) @ [char_of (48 + n mod 10)])
        = Some (int (n div 10) * int 10 + int (n mod 10))"
      using 1 by (intro parse_digits_snoc digit_value_char) simp_all
    moreover have "int (n div 10) * 10 + int (n mod 10) = int n"
      by presburger
    ultimately show ?thesis
      using False by (simp add: str_nat.simps [of n])
  qed
qed

lemma str_nat_digits: "c \<in> set (str_nat n) \<Longrightarrow> is_digit c"
proof (induction n rule: str_nat.induct)
  case (1 n)
  show ?case
    using 1 by (cases "n < 10") (auto simp: str_nat.simps [of n] is_digit_def)
qed

lemma str_nat_not_Nil [simp]: "str_nat n \<noteq> []"
  by (simp add: str_nat.simps [of n])

lemma digit_not_space: "is_digit c \<Longrightarrow> \<not> is_space c"
  by (auto simp: is_digit_def is_space_def Let_def)

lemma py_int_str_nat: "py_int 10 (str_nat n) = Some (int n)"
proof -
  obtain c cs where s: "str_nat n = c # cs" by (cases "str_nat n") auto
  have "is_digit c" using str_nat_digits [of c n] s by simp
  then have "c \<noteq> CHR ''-''" "c \<noteq> CHR ''+''" by (auto simp: is_digit_def)
  moreover have "strip (str_nat n) = str_nat n"
    using str_nat_digits digit_not_space by (intro strip_no_space) blast
  ultimately show ?thesis
    using parse_str_nat [of n] by (simp add: py_int_def parse_magnitude_def s)
qed

lemma py_int_str_int: "0 \<le> i \<Longrightarrow> py_int 10 (str_int i) = Some i"
  by (simp add: str_int_def py_int_str_nat)

lemma colon_not_digit: "CHR '':'' \<notin> set (str_nat n)"
  using str_nat_digits [of "CHR '':''" n] by (auto simp: is_digit_def)

lemmas table_simps = row_get_update row_get_delete

declare seconds_def [ucm_simps] hours_def [ucm_simps] days_def [ucm_simps]

end
