(* ===== verification/Auth.thy ===== *)
theory Auth
  imports Prelude
begin

text \<open>
  Authentication and permission checks: \<^verbatim>\<open>auth/permissions.py\<close> (the role table and the
  role check) and \<^verbatim>\<open>auth/unified.py\<close> (API keys, sessions, the \<^verbatim>\<open>require_auth\<close> decorator).

  The database part is the record \<open>auth_db\<close> (users, API keys, \<^verbatim>\<open>SystemConfig\<close> rows); the
  Flask session is the record \<open>session\<close>. \<open>sha256\<close> (the hex digest) is a parameter, and so
  are the instant \<open>now\<close> of a call and the random part of a new key. A session time stamp is
  \<open>Iso t\<close> when \<^verbatim>\<open>datetime.fromisoformat\<close> reads it and \<open>Bad_iso\<close> when it raises; the JSON
  text of a key's permissions is \<open>None\<close> when \<^verbatim>\<open>json.loads\<close> raises.
  The locale \<open>permission_policy\<close> states what a permission check promises; both checks of
  the program are interpretations of it.
\<close>

subsection \<open>Roles\<close>

definition ROLE_PERMISSIONS :: "(string \<times> string list) list" where
  "ROLE_PERMISSIONS =
    [(''admin'', [''*'']),
     (''operator'',
       [''read:certificates'', ''write:certificates'',
        ''read:user_certificates'', ''write:user_certificates'', ''delete:user_certificates'',
        ''read:cas'', ''write:cas'',
        ''read:csrs'', ''write:csrs'', ''delete:csrs'',
        ''read:templates'',
        ''read:truststore'', ''write:truststore'',
        ''read:crl'', ''write:crl'',
        ''read:acme'', ''write:acme'',
        ''read:scep'',
        ''read:est'',
        ''read:hsm'',
        ''read:policies'', ''read:approvals'', ''write:approvals'',
        ''read:audit'',
        ''read:settings'', ''write:settings'',
        ''read:groups'', ''write:groups'']),
     (''auditor'',
       [''read:certificates'',
        ''read:user_certificates'',
        ''read:cas'',
        ''read:csrs'',
        ''read:templates'',
        ''read:truststore'',
        ''read:crl'',
        ''read:acme'',
        ''read:scep'',
        ''read:est'',
        ''read:hsm'',
        ''read:policies'', ''read:approvals'',
        ''read:audit'',
        ''read:groups'']),
     (''viewer'',
       [''read:certificates'',
        ''read:user_certificates'',
        ''read:cas'',
        ''read:csrs'',
        ''read:templates'',
        ''read:truststore''])]"

definition get_role_permissions :: "string \<Rightarrow> string list" where
  "get_role_permissions role = (case map_of ROLE_PERMISSIONS role of None \<Rightarrow> [] | Some ps \<Rightarrow> ps)"

text \<open>The body of \<^verbatim>\<open>permissions.has_permission\<close> after the role's list is fetched.\<close>

definition perms_grant :: "string \<Rightarrow> string list \<Rightarrow> bool" where
  "perms_grant required_permission permissions =
     (if ''*'' \<in> set permissions then True
      else if required_permission \<in> set permissions then True
      else
        (let parts = (if contains '':'' required_permission
                      then split_on (CHR '':'') required_permission
                      else [required_permission, ''*'']);
             action = parts ! 0;
             resource = (if length parts > 1 then parts ! 1 else ''*'')
         in list_ex (\<lambda>perm. perm = action @ '':*'' \<or> perm = ''*:'' @ resource) permissions))"

definition role_has_permission :: "string \<Rightarrow> string \<Rightarrow> bool" where
  "role_has_permission user_role required_permission =
     perms_grant required_permission (get_role_permissions user_role)"

subsection \<open>Rows and session\<close>

record user =
  u_id :: int
  username :: string
  email :: string
  password_hash :: string
  full_name :: "string option"
  role :: string
  custom_role_id :: "int option"
  active :: bool
  mfa_enabled :: bool
  totp_secret :: "string option"
  totp_confirmed :: bool
  backup_codes :: "string option"
  force_password_change :: bool
  password_reset_token :: "string option"
  password_reset_expires :: "time option"
  u_created_at :: "time option"
  last_login :: "time option"
  login_count :: "int option"
  failed_logins :: "int option"
  locked_until :: "time option"

record api_key =
  k_id :: int
  k_user_id :: int
  key_hash :: string
  k_name :: string
  k_permissions :: "string list option"
  k_created_at :: time
  k_expires_at :: "time option"
  last_used_at :: "time option"
  is_active :: bool

record auth_db =
  users :: "user list"
  api_keys :: "api_key list"
  sys_config :: "(string \<times> string option) list"

datatype iso_text = Iso time | Bad_iso

record session =
  s_user_id :: "int option"
  s_username :: "string option"
  s_login_time :: "iso_text option"
  s_last_activity :: "iso_text option"
  s_expires_at :: "string option"
  s_permanent :: bool

definition session_clear :: session where
  "session_clear = \<lparr>s_user_id = None, s_username = None, s_login_time = None,
                    s_last_activity = None, s_expires_at = None, s_permanent = False\<rparr>"

record auth_result =
  ar_user_id :: int
  ar_user :: "user option"
  auth_method :: string
  ar_permissions :: "string list"
  ar_api_key_id :: "int option"
  ar_api_key_name :: "string option"
  ar_session_expires :: "string option"

subsection \<open>The authentication manager\<close>

definition config_int :: "(string \<times> string option) list \<Rightarrow> string \<Rightarrow> int \<Rightarrow> int" where
  "config_int cfg k dflt =
     (case map_of cfg k of
        Some (Some v) \<Rightarrow> if v = [] then dflt
                        else (case py_int 10 v of Some n \<Rightarrow> n | None \<Rightarrow> dflt)
      | _ \<Rightarrow> dflt)"

definition get_session_timeout :: "(string \<times> string option) list \<Rightarrow> int" where
  "get_session_timeout cfg = config_int cfg ''session_timeout'' 28800"

definition get_session_max_lifetime :: "(string \<times> string option) list \<Rightarrow> int" where
  "get_session_max_lifetime cfg = config_int cfg ''session_max_lifetime'' 86400"

definition verify_api_key ::
  "(string \<Rightarrow> string) \<Rightarrow> time \<Rightarrow> auth_db \<Rightarrow> string \<Rightarrow> auth_result option \<times> auth_db" where
  "verify_api_key sha256 now db key =
     (case find (\<lambda>k. key_hash k = sha256 key \<and> is_active k) (api_keys db) of
        None \<Rightarrow> (None, db)
      | Some api_key \<Rightarrow>
          if (case k_expires_at api_key of Some e \<Rightarrow> e < now | None \<Rightarrow> False) then (None, db)
          else
            (Some \<lparr>ar_user_id = k_user_id api_key,
                   ar_user = row_get u_id (users db) (k_user_id api_key),
                   auth_method = ''api_key'',
                   ar_permissions = (case k_permissions api_key of Some ps \<Rightarrow> ps | None \<Rightarrow> []),
                   ar_api_key_id = Some (k_id api_key),
                   ar_api_key_name = Some (k_name api_key),
                   ar_session_expires = None\<rparr>,
             db\<lparr>api_keys := row_update k_id (k_id api_key)
                               (\<lambda>k. k\<lparr>last_used_at := Some now\<rparr>) (api_keys db)\<rparr>))"

text \<open>
  An age check of \<^verbatim>\<open>verify_session\<close>: a stamp that is absent or does not parse is not checked.
\<close>

definition too_old :: "time \<Rightarrow> iso_text option \<Rightarrow> int \<Rightarrow> bool" where
  "too_old now stamp limit_s =
     (case stamp of Some (Iso t) \<Rightarrow> now - t > seconds limit_s | _ \<Rightarrow> False)"

definition verify_session ::
  "time \<Rightarrow> auth_db \<Rightarrow> session \<Rightarrow> auth_result option \<times> session" where
  "verify_session now db s =
     (case s_user_id s of
        None \<Rightarrow> (None, s)
      | Some user_id \<Rightarrow>
          if user_id = 0 then (None, s)
          else (case row_get u_id (users db) user_id of
              None \<Rightarrow> (None, s)
            | Some user \<Rightarrow>
                if \<not> active user then (None, s)
                else if too_old now (s_login_time s) (get_session_max_lifetime (sys_config db))
                then (None, session_clear)
                else if too_old now (s_last_activity s) (get_session_timeout (sys_config db))
                then (None, session_clear)
                else
                  (Some \<lparr>ar_user_id = u_id user, ar_user = Some user,
                         auth_method = ''session'',
                         ar_permissions = get_role_permissions (role user),
                         ar_api_key_id = None, ar_api_key_name = None,
                         ar_session_expires = s_expires_at s\<rparr>,
                   s\<lparr>s_last_activity := Some (Iso now)\<rparr>)))"

definition authenticate_request ::
  "(string \<Rightarrow> string) \<Rightarrow> time \<Rightarrow> auth_db \<Rightarrow> session \<Rightarrow> string option
     \<Rightarrow> auth_result option \<times> auth_db \<times> session" where
  "authenticate_request sha256 now db s x_api_key =
     (let (r1, db1) = (case x_api_key of
                         Some k \<Rightarrow> if k \<noteq> [] then verify_api_key sha256 now db k else (None, db)
                       | None \<Rightarrow> (None, db))
      in case r1 of
           Some r \<Rightarrow> (Some r, db1, s)
         | None \<Rightarrow>
             if s_user_id s \<noteq> None
             then (let (r2, s2) = verify_session now db1 s in (r2, db1, s2))
             else (None, db1, s))"

text \<open>\<^verbatim>\<open>unified.has_permission\<close>.\<close>

definition has_permission :: "string \<Rightarrow> string list \<Rightarrow> bool" where
  "has_permission required user_permissions =
     (if ''*'' \<in> set user_permissions then True
      else if required \<in> set user_permissions then True
      else if contains '':'' required
      then (let category = split_on (CHR '':'') required ! 0
            in category @ '':*'' \<in> set user_permissions)
      else False)"

record g_context =
  g_current_user :: "user option"
  g_auth_method :: string
  g_permissions :: "string list"
  g_user_id :: int

definition g_of :: "auth_result \<Rightarrow> g_context" where
  "g_of r = \<lparr>g_current_user = ar_user r, g_auth_method = auth_method r,
             g_permissions = ar_permissions r, g_user_id = ar_user_id r\<rparr>"

datatype 'r guarded =
    Unauthorized
  | Forbidden string "string list"
  | Handled 'r

text \<open>
  The wrapper that \<^verbatim>\<open>require_auth(permissions)\<close> puts around a route \<open>f\<close>; no permissions
  (\<^verbatim>\<open>None\<close>) is the empty list.
\<close>

definition require_auth ::
  "(string \<Rightarrow> string) \<Rightarrow> time \<Rightarrow> string list \<Rightarrow> string option
     \<Rightarrow> (g_context \<Rightarrow> auth_db \<times> session \<Rightarrow> 'r \<times> auth_db \<times> session)
     \<Rightarrow> auth_db \<times> session \<Rightarrow> 'r guarded \<times> auth_db \<times> session" where
  "require_auth sha256 now permissions x_api_key f st =
     (let (auth_result, db, s) = authenticate_request sha256 now (fst st) (snd st) x_api_key
      in case auth_result of
           None \<Rightarrow> (Unauthorized, db, s)
         | Some r \<Rightarrow>
             (case (if permissions \<noteq> [] \<and> ''*'' \<notin> set (ar_permissions r)
                    then find (\<lambda>perm. \<not> has_permission perm (ar_permissions r)) permissions
                    else None) of
                Some perm \<Rightarrow> (Forbidden perm (ar_permissions r), db, s)
              | None \<Rightarrow> (let (resp, st') = f (g_of r) (db, s) in (Handled resp, st'))))"

definition verify_request_auth ::
  "(string \<Rightarrow> string) \<Rightarrow> time \<Rightarrow> auth_db \<Rightarrow> session \<Rightarrow> string option
     \<Rightarrow> (auth_result \<times> g_context) option \<times> auth_db \<times> session" where
  "verify_request_auth sha256 now db s x_api_key =
     (let (r, db', s') = authenticate_request sha256 now db s x_api_key
      in (map_option (\<lambda>r. (r, g_of r)) r, db', s'))"

definition role_require_permission :: "string \<Rightarrow> user option \<Rightarrow> (unit \<Rightarrow> 'r) \<Rightarrow> 'r guarded" where
  "role_require_permission permission current_user f =
     (case current_user of
        None \<Rightarrow> Unauthorized
      | Some u \<Rightarrow> if \<not> role_has_permission (role u) permission then Forbidden permission []
                  else Handled (f ()))"

subsection \<open>Creating credentials\<close>

record new_key =
  nk_key :: string
  nk_id :: int
  nk_name :: string
  nk_permissions :: "string list"
  nk_created_at :: time
  nk_expires_at :: time

text \<open>
  \<open>token\<close> is what \<^verbatim>\<open>secrets.token_urlsafe(32)\<close> drew. The column \<^verbatim>\<open>key_hash\<close> is unique, so
  the commit raises when the digest is there already.
\<close>

definition create_api_key ::
  "(string \<Rightarrow> string) \<Rightarrow> time \<Rightarrow> string \<Rightarrow> auth_db \<Rightarrow> int \<Rightarrow> string \<Rightarrow> string list \<Rightarrow> int
     \<Rightarrow> (string + new_key) \<times> auth_db" where
  "create_api_key sha256 now token db user_id name permissions expires_days =
     (let key = ''ucm_ak_'' @ token;
          row = \<lparr>k_id = next_id k_id (api_keys db), k_user_id = user_id,
                 key_hash = sha256 key, k_name = name, k_permissions = Some permissions,
                 k_created_at = now, k_expires_at = Some (now + days expires_days),
                 last_used_at = None, is_active = True\<rparr>
      in if list_ex (\<lambda>k. key_hash k = sha256 key) (api_keys db)
         then (Inl ''IntegrityError'', db)
         else (Inr \<lparr>nk_key = key, nk_id = k_id row, nk_name = name,
                    nk_permissions = permissions, nk_created_at = now,
                    nk_expires_at = now + days expires_days\<rparr>,
               db\<lparr>api_keys := api_keys db @ [row]\<rparr>))"

definition create_session_for_user :: "time \<Rightarrow> user \<Rightarrow> session \<Rightarrow> session" where
  "create_session_for_user now user s =
     s\<lparr>s_user_id := Some (u_id user), s_username := Some (username user),
       s_login_time := Some (Iso now), s_last_activity := Some (Iso now),
       s_permanent := True\<rparr>"

subsection \<open>What a permission check promises\<close>

locale permission_policy =
  fixes grants :: "string \<Rightarrow> string list \<Rightarrow> bool"
  assumes grants_star: "''*'' \<in> set ps \<Longrightarrow> grants p ps"
    and grants_exact: "p \<in> set ps \<Longrightarrow> grants p ps"
    and grants_mono: "set ps \<subseteq> set qs \<Longrightarrow> grants p ps \<Longrightarrow> grants p qs"
begin

lemma grants_set_cong: "set ps = set qs \<Longrightarrow> grants p ps = grants p qs"
  using grants_mono by blast

lemma grants_append: "grants p ps \<or> grants p qs \<Longrightarrow> grants p (ps @ qs)"
  by (metis Un_upper1 Un_upper2 grants_mono set_append)

lemma role_included:
  "set (get_role_permissions a) \<subseteq> set (get_role_permissions b) \<Longrightarrow>
   grants p (get_role_permissions a) \<Longrightarrow> grants p (get_role_permissions b)"
  by (rule grants_mono)

end

interpretation unified: permission_policy has_permission
proof
  fix p and ps qs :: "string list"
  assume "set ps \<subseteq> set qs" "has_permission p ps"
  then show "has_permission p qs"
    unfolding has_permission_def Let_def by (auto split: if_splits)
qed (auto simp: has_permission_def)

interpretation roles: permission_policy perms_grant
proof
  fix p and ps qs :: "string list"
  assume "set ps \<subseteq> set qs" "perms_grant p ps"
  then show "perms_grant p qs"
    unfolding perms_grant_def Let_def list_ex_iff by (auto split: if_splits)
qed (auto simp: perms_grant_def)

subsection \<open>Lemmas on the role table\<close>

lemma role_perms_admin: "get_role_permissions ''admin'' = [''*'']"
  by (simp add: get_role_permissions_def ROLE_PERMISSIONS_def)

lemma viewer_sub_auditor:
  "set (get_role_permissions ''viewer'') \<subseteq> set (get_role_permissions ''auditor'')"
  by (simp add: get_role_permissions_def ROLE_PERMISSIONS_def)

lemma auditor_sub_operator:
  "set (get_role_permissions ''auditor'') \<subseteq> set (get_role_permissions ''operator'')"
  by (simp add: get_role_permissions_def ROLE_PERMISSIONS_def)

text \<open>No permission of a role other than the administrator's ends in a wildcard or starts with one.\<close>

definition no_wildcards :: "string list \<Rightarrow> bool" where
  "no_wildcards ps = list_all (\<lambda>p. p \<noteq> ''*'' \<and> \<not> endswith p '':*'' \<and> \<not> startswith p ''*:'') ps"

lemma role_perms_cases: "get_role_permissions r = [''*''] \<or> no_wildcards (get_role_permissions r)"
proof -
  have "list_all (\<lambda>(r, ps). ps = [''*''] \<or> no_wildcards ps) ROLE_PERMISSIONS"
    unfolding ROLE_PERMISSIONS_def no_wildcards_def endswith_def startswith_def by simp
  moreover have "get_role_permissions r = [] \<or>
      (r, get_role_permissions r) \<in> set ROLE_PERMISSIONS"
    unfolding get_role_permissions_def by (auto split: option.splits dest: map_of_SomeD)
  ultimately show ?thesis
    by (auto simp: list_all_iff no_wildcards_def)
qed

lemma no_wildcards_grant:
  assumes "no_wildcards ps"
  shows "perms_grant p ps = (p \<in> set ps)" and "has_permission p ps = (p \<in> set ps)"
proof -
  have "a @ '':*'' \<notin> set ps" and "''*:'' @ a \<notin> set ps" and "''*'' \<notin> set ps" for a
    using assms by (auto simp: no_wildcards_def list_all_iff endswith_def startswith_def)
  then show "perms_grant p ps = (p \<in> set ps)" and "has_permission p ps = (p \<in> set ps)"
    by (auto simp: perms_grant_def has_permission_def Let_def list_ex_iff)
qed

subsection \<open>Lemmas on authentication\<close>

lemma verify_session_cases:
  assumes "verify_session now db s = (Some r, s')"
  obtains uid u where "s_user_id s = Some uid" "uid \<noteq> 0"
    "row_get u_id (users db) uid = Some u" "active u"
    "\<not> too_old now (s_login_time s) (get_session_max_lifetime (sys_config db))"
    "\<not> too_old now (s_last_activity s) (get_session_timeout (sys_config db))"
    "ar_user r = Some u" "ar_user_id r = u_id u"
    "ar_permissions r = get_role_permissions (role u)" "auth_method r = ''session''"
    "s' = s\<lparr>s_last_activity := Some (Iso now)\<rparr>"
  using assms unfolding verify_session_def
  by (auto split: option.splits if_splits)

lemma verify_api_key_Some:
  assumes "verify_api_key sha now db key = (Some r, db')"
  shows "\<exists>k \<in> set (api_keys db). key_hash k = sha key \<and> is_active k \<and>
           (\<forall>e. k_expires_at k = Some e \<longrightarrow> now \<le> e) \<and>
           ar_user_id r = k_user_id k \<and>
           ar_permissions r = (case k_permissions k of Some ps \<Rightarrow> ps | None \<Rightarrow> []) \<and>
           users db' = users db"
proof (cases "find (\<lambda>k. key_hash k = sha key \<and> is_active k) (api_keys db)")
  case None
  with assms show ?thesis by (simp add: verify_api_key_def)
next
  case (Some k)
  from find_Some_in [OF Some] assms show ?thesis
    unfolding verify_api_key_def Some
    by (intro bexI [of _ k]) (auto split: option.splits if_splits)
qed

subsection \<open>Properties\<close>

text \<open>The permission check of \<^verbatim>\<open>require_auth\<close> is exactly: the wildcard \<^verbatim>\<open>*\<close> is held, or the
  permission itself is held, or the permission has a colon and the wildcard of the part before its
  first colon is held.\<close>

theorem has_permission_spec:
  "has_permission p ps \<longleftrightarrow>
     ''*'' \<in> set ps \<or> p \<in> set ps \<or>
     (\<exists>category rest. CHR '':'' \<notin> set category \<and> p = category @ '':'' @ rest \<and>
        category @ '':*'' \<in> set ps)"
proof (cases "CHR '':'' \<in> set p")
  case True
  then obtain c r where p: "p = c @ CHR '':'' # r" "CHR '':'' \<notin> set c"
    by (metis split_list_first)
  have first: "split_on (CHR '':'') (c' @ CHR '':'' # r') ! 0 = c'" if "CHR '':'' \<notin> set c'" for c' r'
    using that by (simp add: split_on_append)
  have "contains '':'' p"
    using p by (auto simp: contains_iff)
  moreover have "(\<exists>category rest. CHR '':'' \<notin> set category \<and> p = category @ '':'' @ rest \<and>
      category @ '':*'' \<in> set ps) \<longleftrightarrow> split_on (CHR '':'') p ! 0 @ '':*'' \<in> set ps"
    using p first by (metis append_Cons append_Nil)
  ultimately show ?thesis by (simp add: has_permission_def)
next
  case False
  then have "\<not> contains '':'' p" and "p \<noteq> c @ '':'' @ r" for c r
    by (auto simp: contains_iff)
  then show ?thesis by (simp add: has_permission_def)
qed

text \<open>The built-in roles form a chain: whatever a viewer may do, an auditor may do; whatever an
  auditor may do, an operator may do; an administrator may do everything.\<close>

theorem role_hierarchy:
  "(has_permission p (get_role_permissions ''viewer'') \<longrightarrow>
      has_permission p (get_role_permissions ''auditor'')) \<and>
   (has_permission p (get_role_permissions ''auditor'') \<longrightarrow>
      has_permission p (get_role_permissions ''operator'')) \<and>
   has_permission p (get_role_permissions ''admin'')"
  using unified.role_included [OF viewer_sub_auditor] unified.role_included [OF auditor_sub_operator]
  by (simp add: role_perms_admin unified.grants_star)

theorem role_hierarchy_witness:
  "has_permission ''read:cas'' (get_role_permissions ''operator'') \<and>
   \<not> has_permission ''read:audit'' (get_role_permissions ''viewer'')"
proof -
  have "has_permission ''read:cas'' (get_role_permissions ''viewer'')"
    by (rule unified.grants_exact) (simp add: get_role_permissions_def ROLE_PERMISSIONS_def)
  then have "has_permission ''read:cas'' (get_role_permissions ''operator'')"
    using role_hierarchy [of "''read:cas''"] by blast
  then show ?thesis
    by (simp add: has_permission_def get_role_permissions_def ROLE_PERMISSIONS_def)
qed

text \<open>The two permission checks of the program, \<^verbatim>\<open>permissions.has_permission\<close> on a role and
  \<^verbatim>\<open>unified.has_permission\<close> on the role's permission list, decide the same for every role and every
  permission string.\<close>

theorem role_checks_agree:
  "role_has_permission r p = has_permission p (get_role_permissions r)"
  using role_perms_cases [of r] no_wildcards_grant [of "get_role_permissions r" p]
  by (auto simp: role_has_permission_def roles.grants_star unified.grants_star)

text \<open>C3. A protected route runs only for an authenticated caller who holds every permission the
  route requires: when \<^verbatim>\<open>require_auth\<close> calls the route, the request authenticated and
  \<^verbatim>\<open>has_permission\<close> holds of each required permission and the caller's permissions.\<close>

theorem require_auth_safe:
  assumes "require_auth sha256 now perms hdr f (db, s) = (Handled resp, st')"
  shows "\<exists>r db' s'. authenticate_request sha256 now db s hdr = (Some r, db', s') \<and>
           (\<forall>p \<in> set perms. has_permission p (ar_permissions r)) \<and>
           f (g_of r) (db', s') = (resp, st')"
  using assms unfolding require_auth_def Let_def
  by (fastforce split: prod.splits option.splits if_splits simp: find_None_iff unified.grants_star)

definition demo_user :: user where
  "demo_user = \<lparr>u_id = 1, username = ''alice'', email = ''a@x'', password_hash = ''h'',
     full_name = None, role = ''auditor'', custom_role_id = None, active = True,
     mfa_enabled = False, totp_secret = None, totp_confirmed = False, backup_codes = None,
     force_password_change = False, password_reset_token = None, password_reset_expires = None,
     u_created_at = None, last_login = None, login_count = None, failed_logins = Some 0,
     locked_until = None\<rparr>"

definition demo_db :: auth_db where
  "demo_db = \<lparr>users = [demo_user], api_keys = [], sys_config = []\<rparr>"

definition demo_session :: session where
  "demo_session = create_session_for_user 1000 demo_user session_clear"

lemmas demo_simps = demo_user_def demo_db_def demo_session_def create_session_for_user_def
  session_clear_def

theorem require_auth_safe_witness:
  "\<exists>r db' s'. authenticate_request id 2000 demo_db demo_session None = (Some r, db', s') \<and>
     (\<forall>p \<in> set [''read:audit'']. has_permission p (ar_permissions r)) \<and>
     (\<lambda>g st. (g_user_id g, st)) (g_of r) (db', s') = (1, demo_db, demo_session\<lparr>s_last_activity := Some (Iso 2000)\<rparr>)"
proof (rule require_auth_safe)
  show "require_auth id 2000 [''read:audit''] None (\<lambda>g st. (g_user_id g, st)) (demo_db, demo_session)
     = (Handled 1, demo_db, demo_session\<lparr>s_last_activity := Some (Iso 2000)\<rparr>)"
    by (simp add: require_auth_def authenticate_request_def verify_session_def demo_simps
        row_get_def too_old_def get_session_timeout_def get_session_max_lifetime_def
        config_int_def ucm_simps has_permission_def get_role_permissions_def
        ROLE_PERMISSIONS_def g_of_def)
qed

text \<open>C6. A session that verifies belongs to an existing active user. If it carries a stamp of its login that can be read, it is no older than
  the absolute lifetime; if it carries a stamp of its last use that can be read, it was used within the inactivity timeout; a stamp that is absent
  or cannot be read is not checked. The caller gets exactly the permissions of the user's role, and the activity stamp is set to the current
  instant, so that the next check of the timeout is not left out.\<close>

theorem verify_session_sound:
  assumes "verify_session now db s = (Some r, s')"
  shows "(\<exists>u \<in> set (users db). s_user_id s = Some (u_id u) \<and> active u \<and> ar_permissions r = get_role_permissions (role u)) \<and>
    (\<forall>login. s_login_time s = Some (Iso login) \<longrightarrow> now - login \<le> seconds (get_session_max_lifetime (sys_config db))) \<and>
    (\<forall>seen. s_last_activity s = Some (Iso seen) \<longrightarrow> now - seen \<le> seconds (get_session_timeout (sys_config db))) \<and>
    s' = s\<lparr>s_last_activity := Some (Iso now)\<rparr>"
  using assms by (auto elim!: verify_session_cases simp: too_old_def dest!: row_get_Some)

theorem verify_session_sound_witness:
  "(\<exists>u \<in> set (users demo_db). s_user_id demo_session = Some (u_id u) \<and> active u \<and>
     ar_permissions (the (fst (verify_session 2000 demo_db demo_session))) = get_role_permissions (role u)) \<and>
   (2000::time) - 1000 \<le> seconds (get_session_timeout (sys_config demo_db)) \<and>
   snd (verify_session 2000 demo_db demo_session) = demo_session\<lparr>s_last_activity := Some (Iso 2000)\<rparr>"
proof -
  have "verify_session 2000 demo_db demo_session =
     (Some (the (fst (verify_session 2000 demo_db demo_session))), snd (verify_session 2000 demo_db demo_session))"
    by (simp add: verify_session_def demo_simps row_get_def too_old_def
        get_session_timeout_def get_session_max_lifetime_def config_int_def ucm_simps)
  moreover have "s_last_activity demo_session = Some (Iso 1000)" by (simp add: demo_simps)
  ultimately show ?thesis using verify_session_sound by blast
qed

text \<open>C16. Round trip of API keys: the key string that \<^verbatim>\<open>create_api_key\<close> returns authenticates until it
  expires, as the user it was made for and with exactly the permissions it was given; the use is
  recorded on the new row.\<close>

theorem api_key_roundtrip:
  assumes "create_api_key sha256 t token db uid name perms d = (Inr nk, db')"
    and "now \<le> t + days d"
  shows "\<exists>r db''. verify_api_key sha256 now db' (nk_key nk) = (Some r, db'') \<and>
           ar_user_id r = uid \<and> ar_permissions r = perms \<and> ar_api_key_id r = Some (nk_id nk) \<and>
           map_option last_used_at (row_get k_id (api_keys db'') (nk_id nk)) = Some (Some now)"
proof -
  define row where "row = \<lparr>k_id = next_id k_id (api_keys db), k_user_id = uid,
    key_hash = sha256 (''ucm_ak_'' @ token), k_name = name, k_permissions = Some perms,
    k_created_at = t, k_expires_at = Some (t + days d), last_used_at = None, is_active = True\<rparr>"
  have db': "db' = db\<lparr>api_keys := api_keys db @ [row]\<rparr>"
    and nk: "nk_key nk = ''ucm_ak_'' @ token" "nk_id nk = k_id row"
    and fresh: "\<not> list_ex (\<lambda>k. key_hash k = key_hash row) (api_keys db)"
    using assms(1) by (auto simp: create_api_key_def Let_def row_def split: if_splits)
  have "find (\<lambda>k. key_hash k = sha256 (nk_key nk) \<and> is_active k) (api_keys db) = None"
    using fresh nk by (auto simp: find_None_iff list_ex_iff row_def)
  then have found: "find (\<lambda>k. key_hash k = sha256 (nk_key nk) \<and> is_active k) (api_keys db') = Some row"
    using nk by (simp add: db' find_append row_def)
  have "row_get k_id (api_keys db) (k_id row) = None"
    using next_id_greater [of _ "api_keys db" k_id] by (fastforce simp: row_get_None row_def)
  then have here: "row_get k_id (api_keys db') (k_id row) = Some row"
    by (simp add: db' row_get_def find_append)
  show ?thesis
    unfolding verify_api_key_def found option.case
    using assms(2) here nk by (auto simp: row_get_update row_def)
qed

theorem api_key_roundtrip_witness:
  "\<exists>r db''. verify_api_key id 50 (snd (create_api_key id 7 ''tok'' demo_db 1 ''ci'' [''read:cas''] 365))
       (nk_key (projr (fst (create_api_key id 7 ''tok'' demo_db 1 ''ci'' [''read:cas''] 365))))
       = (Some r, db'') \<and>
     ar_user_id r = 1 \<and> ar_permissions r = [''read:cas''] \<and>
     ar_api_key_id r = Some (nk_id (projr (fst (create_api_key id 7 ''tok'' demo_db 1 ''ci'' [''read:cas''] 365)))) \<and>
     map_option last_used_at (row_get k_id (api_keys db'')
       (nk_id (projr (fst (create_api_key id 7 ''tok'' demo_db 1 ''ci'' [''read:cas''] 365))))) = Some (Some 50)"
  by (rule api_key_roundtrip [where t = 7 and token = "''tok''" and db = demo_db and name = "''ci''" and d = 365])
     (simp_all add: create_api_key_def demo_simps Let_def ucm_simps)

end
