(* ===== verification/Rbac.thy ===== *)
theory Rbac
  imports Auth
begin

text \<open>
  Custom roles with inheritance: \<^verbatim>\<open>models/rbac.py\<close>, the group model \<^verbatim>\<open>models/group.py\<close> and the
  handlers of \<^verbatim>\<open>api/v2/rbac.py\<close>.

  \<^verbatim>\<open>CustomRole.get_all_permissions\<close> recurses over the parent relation, which nothing keeps
  acyclic; its first argument is the number of nested calls the interpreter allows, and
  \<open>None\<close> is the \<^verbatim>\<open>RecursionError\<close>. Without a cycle, one call more than there are roles is
  enough (\<open>get_all_permissions_terminates\<close>); with a cycle no number is
  (\<open>cyclic_role_never_returns\<close>). Permission sets are lists without duplicates, since Python's
  \<^verbatim>\<open>list(set)\<close> has no fixed order; the statements are about their elements. A request body is
  a record of the keys it may carry, \<open>None\<close> for a key that is absent. Deleting a role clears
  \<^verbatim>\<open>inherits_from\<close> of its children, as the \<^verbatim>\<open>children\<close> relationship does on flush.
\<close>

definition AVAILABLE_PERMISSIONS :: "string list" where
  "AVAILABLE_PERMISSIONS =
    [''read:cas'', ''write:cas'', ''delete:cas'', ''admin:cas'',
     ''read:certs'', ''write:certs'', ''delete:certs'', ''revoke:certs'',
     ''read:csrs'', ''write:csrs'', ''delete:csrs'', ''sign:csrs'',
     ''read:users'', ''write:users'', ''delete:users'', ''admin:users'',
     ''read:groups'', ''write:groups'', ''delete:groups'', ''admin:groups'',
     ''read:settings'', ''write:settings'', ''admin:system'',
     ''read:audit'', ''export:audit'',
     ''read:acme'', ''write:acme'', ''delete:acme'',
     ''read:scep'', ''write:scep'', ''delete:scep'',
     ''read:truststore'', ''write:truststore'', ''delete:truststore'',
     ''read:hsm'', ''write:hsm'', ''delete:hsm'',
     ''read:sso'', ''write:sso'', ''delete:sso'',
     ''read:templates'', ''write:templates'', ''delete:templates'',
     ''read:policies'', ''write:policies'', ''delete:policies'',
     ''read:approvals'', ''write:approvals'']"

subsection \<open>Rows\<close>

record custom_role =
  r_id :: int
  r_name :: string
  r_description :: string
  r_permissions :: "string list"
  inherits_from :: "int option"
  is_system :: bool
  r_created_at :: time
  r_updated_at :: time

record group =
  gr_id :: int
  gr_name :: string
  gr_description :: string
  gr_permissions :: "string list"
  gr_created_at :: time
  gr_updated_at :: time

record group_member =
  gm_id :: int
  gm_group_id :: int
  gm_user_id :: int
  gm_role :: string
  gm_joined_at :: time

record rbac_db =
  rb_users :: "user list"
  roles :: "custom_role list"
  groups :: "group list"
  members :: "group_member list"

subsection \<open>The role model\<close>

definition parent :: "custom_role list \<Rightarrow> custom_role \<Rightarrow> custom_role option" where
  "parent rs r = (case inherits_from r of None \<Rightarrow> None | Some i \<Rightarrow> row_get r_id rs i)"

fun get_all_permissions :: "nat \<Rightarrow> custom_role list \<Rightarrow> custom_role \<Rightarrow> string list option" where
  "get_all_permissions 0 rs r = None"
| "get_all_permissions (Suc depth) rs r =
     (case parent rs r of
        None \<Rightarrow> Some (remdups (r_permissions r))
      | Some p \<Rightarrow>
          (case get_all_permissions depth rs p of
             None \<Rightarrow> None
           | Some inherited \<Rightarrow> Some (remdups (r_permissions r @ inherited))))"

record role_view =
  v_id :: int
  v_name :: string
  v_description :: string
  v_permissions :: "string list"
  v_all_permissions :: "string list"
  v_inherits_from :: "int option"
  v_parent_name :: "string option"
  v_is_system :: bool
  v_user_count :: nat
  v_created_at :: time
  v_updated_at :: time

definition user_count :: "rbac_db \<Rightarrow> int \<Rightarrow> nat" where
  "user_count db i = length (filter (\<lambda>u. custom_role_id u = Some i) (rb_users db))"

definition role_to_dict :: "nat \<Rightarrow> rbac_db \<Rightarrow> custom_role \<Rightarrow> role_view option" where
  "role_to_dict depth db r =
     (case get_all_permissions depth (roles db) r of
        None \<Rightarrow> None
      | Some ps \<Rightarrow>
          Some \<lparr>v_id = r_id r, v_name = r_name r, v_description = r_description r,
                v_permissions = r_permissions r, v_all_permissions = ps,
                v_inherits_from = inherits_from r,
                v_parent_name = map_option r_name (parent (roles db) r),
                v_is_system = is_system r, v_user_count = user_count db (r_id r),
                v_created_at = r_created_at r, v_updated_at = r_updated_at r\<rparr>)"

definition respond_role :: "nat \<Rightarrow> rbac_db \<Rightarrow> custom_role \<Rightarrow> string \<Rightarrow> role_view http" where
  "respond_role depth db r msg =
     (case role_to_dict depth db r of
        None \<Rightarrow> Raised ''RecursionError''
      | Some v \<Rightarrow> success_response v msg)"

subsection \<open>Handlers\<close>

record role_body =
  b_name :: "string option"
  b_description :: "string option"
  b_permissions :: "string list option"
  b_inherits_from :: "int option option"

fun all_views :: "nat \<Rightarrow> rbac_db \<Rightarrow> custom_role list \<Rightarrow> role_view list option" where
  "all_views depth db [] = Some []"
| "all_views depth db (r # rs) =
     (case role_to_dict depth db r of
        None \<Rightarrow> None
      | Some v \<Rightarrow> map_option (Cons v) (all_views depth db rs))"

definition list_permissions :: "string list http" where
  "list_permissions = success_response AVAILABLE_PERMISSIONS []"

definition list_custom_roles :: "nat \<Rightarrow> rbac_db \<Rightarrow> role_view list http" where
  "list_custom_roles depth db =
     (case all_views depth db (roles db) of
        None \<Rightarrow> Raised ''RecursionError''
      | Some vs \<Rightarrow> success_response vs [])"

definition create_custom_role ::
  "nat \<Rightarrow> time \<Rightarrow> role_body \<Rightarrow> rbac_db \<Rightarrow> role_view http \<times> rbac_db" where
  "create_custom_role depth now data db =
     (if \<not> nonempty (b_name data) then (error_response ''Role name is required'' 400, db)
      else if list_ex (\<lambda>r. Some (r_name r) = b_name data) (roles db)
      then (error_response ''Role already exists'' 409, db)
      else
        (let role = \<lparr>r_id = next_id r_id (roles db), r_name = the (b_name data),
                     r_description = (case b_description data of None \<Rightarrow> [] | Some d \<Rightarrow> d),
                     r_permissions = (case b_permissions data of None \<Rightarrow> [] | Some ps \<Rightarrow> ps),
                     inherits_from = (case b_inherits_from data of None \<Rightarrow> None | Some i \<Rightarrow> i),
                     is_system = False, r_created_at = now, r_updated_at = now\<rparr>;
             db' = db\<lparr>roles := roles db @ [role]\<rparr>
         in (respond_role depth db' role ''Custom role created'', db')))"

definition get_custom_role :: "nat \<Rightarrow> rbac_db \<Rightarrow> int \<Rightarrow> role_view http" where
  "get_custom_role depth db i =
     (case row_get r_id (roles db) i of
        None \<Rightarrow> error_response ''Not Found'' 404
      | Some r \<Rightarrow> respond_role depth db r [])"

definition apply_role_body :: "time \<Rightarrow> role_body \<Rightarrow> custom_role \<Rightarrow> custom_role" where
  "apply_role_body now data r =
     (let r1 = (case b_name data of None \<Rightarrow> r | Some n \<Rightarrow> r\<lparr>r_name := n\<rparr>);
          r2 = (case b_description data of None \<Rightarrow> r1 | Some d \<Rightarrow> r1\<lparr>r_description := d\<rparr>);
          r3 = (case b_permissions data of None \<Rightarrow> r2 | Some ps \<Rightarrow> r2\<lparr>r_permissions := ps\<rparr>);
          r4 = (case b_inherits_from data of None \<Rightarrow> r3 | Some i \<Rightarrow> r3\<lparr>inherits_from := i\<rparr>)
      in r4\<lparr>r_updated_at := now\<rparr>)"

text \<open>The name column is unique: a commit that would give two roles one name raises.\<close>

definition update_custom_role ::
  "nat \<Rightarrow> time \<Rightarrow> int \<Rightarrow> role_body \<Rightarrow> rbac_db \<Rightarrow> role_view http \<times> rbac_db" where
  "update_custom_role depth now i data db =
     (case row_get r_id (roles db) i of
        None \<Rightarrow> (error_response ''Not Found'' 404, db)
      | Some r \<Rightarrow>
          if (case b_name data of None \<Rightarrow> False
              | Some n \<Rightarrow> list_ex (\<lambda>q. r_id q \<noteq> i \<and> r_name q = n) (roles db))
          then (Raised ''IntegrityError'', db)
          else
            (let db' = db\<lparr>roles := row_update r_id i (apply_role_body now data) (roles db)\<rparr>
             in (respond_role depth db' (apply_role_body now data r) ''Role updated'', db')))"

definition detach_children :: "int \<Rightarrow> custom_role list \<Rightarrow> custom_role list" where
  "detach_children i rs =
     map (\<lambda>r. if inherits_from r = Some i then r\<lparr>inherits_from := None\<rparr> else r) rs"

definition delete_custom_role :: "int \<Rightarrow> rbac_db \<Rightarrow> unit http \<times> rbac_db" where
  "delete_custom_role i db =
     (case row_get r_id (roles db) i of
        None \<Rightarrow> (error_response ''Not Found'' 404, db)
      | Some r \<Rightarrow>
          if is_system r then (error_response ''System roles cannot be deleted'' 403, db)
          else if user_count db i > 0
          then (error_response (''Role is assigned to '' @ str_nat (user_count db i)
                 @ '' user(s). Remove assignments first.'') 409, db)
          else (success_response () ''Role deleted'',
                db\<lparr>roles := detach_children i (row_delete r_id i (roles db))\<rparr>))"

definition user_groups :: "rbac_db \<Rightarrow> user \<Rightarrow> group list" where
  "user_groups db u =
     List.map_filter (\<lambda>m. row_get gr_id (groups db) (gm_group_id m))
       (filter (\<lambda>m. gm_user_id m = u_id u) (members db))"

definition base_permissions :: "string \<Rightarrow> string list" where
  "base_permissions r =
     (if r = ''admin'' then AVAILABLE_PERMISSIONS
      else if r = ''operator''
      then [''read:cas'', ''read:certs'', ''write:certs'', ''read:csrs'', ''sign:csrs'']
      else [''read:cas'', ''read:certs''])"

text \<open>\<^verbatim>\<open>if getattr(user, 'custom_role_id', None)\<close>: absent or 0 means no custom role.\<close>

definition get_effective_permissions :: "nat \<Rightarrow> rbac_db \<Rightarrow> int \<Rightarrow> string list http" where
  "get_effective_permissions depth db uid =
     (case row_get u_id (rb_users db) uid of
        None \<Rightarrow> error_response ''Not Found'' 404
      | Some user \<Rightarrow>
          (case (case custom_role_id user of
                   None \<Rightarrow> Some []
                 | Some cid \<Rightarrow>
                     if cid = 0 then Some []
                     else (case row_get r_id (roles db) cid of
                             None \<Rightarrow> Some []
                           | Some cr \<Rightarrow> get_all_permissions depth (roles db) cr)) of
             None \<Rightarrow> Raised ''RecursionError''
           | Some custom \<Rightarrow>
               success_response
                 (remdups (base_permissions (role user) @ custom
                    @ concat (map gr_permissions (user_groups db user)))) []))"

subsection \<open>Ancestors\<close>

fun nth_ancestor :: "custom_role list \<Rightarrow> nat \<Rightarrow> custom_role \<Rightarrow> custom_role option" where
  "nth_ancestor rs 0 r = Some r"
| "nth_ancestor rs (Suc n) r = (case parent rs r of None \<Rightarrow> None | Some p \<Rightarrow> nth_ancestor rs n p)"

definition lineage :: "custom_role list \<Rightarrow> custom_role \<Rightarrow> custom_role set" where
  "lineage rs r = {a. \<exists>n. nth_ancestor rs n r = Some a}"

definition acyclic_roles :: "custom_role list \<Rightarrow> bool" where
  "acyclic_roles rs = (\<forall>r \<in> set rs. \<forall>n. nth_ancestor rs (Suc n) r \<noteq> Some r)"

lemma parent_in: "parent rs r = Some p \<Longrightarrow> p \<in> set rs"
  by (auto simp: parent_def split: option.splits dest: row_get_Some)

lemma nth_ancestor_add:
  "nth_ancestor rs (m + n) r = (case nth_ancestor rs m r of None \<Rightarrow> None | Some a \<Rightarrow> nth_ancestor rs n a)"
  by (induction m arbitrary: r) (auto split: option.splits)

lemma nth_ancestor_in: "nth_ancestor rs (Suc n) r = Some a \<Longrightarrow> a \<in> set rs"
proof -
  assume "nth_ancestor rs (Suc n) r = Some a"
  then have "nth_ancestor rs (n + 1) r = Some a" by simp
  then obtain b where "nth_ancestor rs 1 b = Some a"
    unfolding nth_ancestor_add by (auto split: option.splits)
  then show ?thesis by (auto split: option.splits dest: parent_in)
qed

lemma nth_ancestor_prefix:
  assumes "nth_ancestor rs n r \<noteq> None" "m \<le> n"
  shows "nth_ancestor rs m r \<noteq> None"
  using assms nth_ancestor_add [of rs m "n - m" r] by (auto split: option.splits)

lemma lineage_unfold:
  "lineage rs r = insert r (case parent rs r of None \<Rightarrow> {} | Some p \<Rightarrow> lineage rs p)"
proof -
  have "(\<exists>n. nth_ancestor rs n r = Some a) \<longleftrightarrow>
        a = r \<or> (\<exists>n. nth_ancestor rs (Suc n) r = Some a)" for a
    by (metis nth_ancestor.simps(1) not0_implies_Suc option.inject)
  then show ?thesis by (auto simp: lineage_def split: option.splits)
qed

lemma get_all_permissions_None:
  "get_all_permissions depth rs r = None \<longleftrightarrow> nth_ancestor rs depth r \<noteq> None"
proof (induction depth arbitrary: r)
  case (Suc depth)
  show ?case
  proof (cases "parent rs r")
    case (Some p)
    with Suc.IH [of p] show ?thesis
      by (cases "get_all_permissions depth rs p") auto
  qed simp
qed simp

lemma get_all_permissions_set:
  "get_all_permissions depth rs r = Some ps \<Longrightarrow> set ps = (\<Union>a \<in> lineage rs r. set (r_permissions a))"
proof (induction depth arbitrary: r ps)
  case (Suc depth)
  then show ?case
    by (subst lineage_unfold) (fastforce split: option.splits)
qed simp

lemma acyclic_bounded:
  assumes "acyclic_roles rs"
  shows "nth_ancestor rs (Suc (length rs)) r = None"
proof (rule ccontr)
  let ?n = "Suc (length rs)" and ?f = "\<lambda>i. the (nth_ancestor rs i r)"
  assume "nth_ancestor rs ?n r \<noteq> None"
  then have def: "nth_ancestor rs i r = Some (?f i)" if "i \<le> ?n" for i
    using nth_ancestor_prefix [OF _ that] by auto
  have "?f ` {1..?n} \<subseteq> set rs"
    using def nth_ancestor_in by (fastforce simp: Suc_le_eq gr0_conv_Suc)
  then have "card (?f ` {1..?n}) \<le> length rs"
    by (meson card_length card_mono finite_set le_trans)
  then have "card (?f ` {1..?n}) < card {1..?n}" by simp
  then obtain i j where ij: "i < j" "1 \<le> i" "j \<le> ?n" "?f i = ?f j"
    using pigeonhole [of ?f "{1..?n}"] unfolding inj_on_def by (metis atLeastAtMost_iff linorder_neqE_nat)
  obtain a where a: "nth_ancestor rs i r = Some a"
    using def [of i] ij by simp
  have "nth_ancestor rs j r = nth_ancestor rs (j - i) (?f i)"
    using nth_ancestor_add [of rs i "j - i" r] ij(1) by (simp add: a del: nth_ancestor.simps)
  then have "nth_ancestor rs (Suc (j - i - 1)) (?f i) = Some (?f i)"
    using def [of j] ij by (metis Suc_diff_Suc diff_Suc_1 minus_nat.diff_0 diff_diff_left plus_1_eq_Suc add.commute)
  moreover have "?f i \<in> set rs"
    using ij \<open>?f ` {1..?n} \<subseteq> set rs\<close> by auto
  ultimately show False
    using assms by (auto simp: acyclic_roles_def)
qed


subsection \<open>The invariant of the role table\<close>

datatype role_op =
    Create_role role_body
  | Update_role int role_body
  | Delete_role int

definition role_step :: "nat \<Rightarrow> time \<Rightarrow> rbac_db \<Rightarrow> role_op \<Rightarrow> rbac_db" where
  "role_step depth now db op =
     (case op of
        Create_role data \<Rightarrow> snd (create_custom_role depth now data db)
      | Update_role i data \<Rightarrow> snd (update_custom_role depth now i data db)
      | Delete_role i \<Rightarrow> snd (delete_custom_role i db))"

definition roles_ok :: "rbac_db \<Rightarrow> bool" where
  "roles_ok db = (keys_ok r_id (roles db) \<and> distinct (map r_name (roles db)))"

lemma apply_role_body_id [simp]: "r_id (apply_role_body now data r) = r_id r"
  by (simp add: apply_role_body_def Let_def split: option.splits)

lemma apply_role_body_name:
  "r_name (apply_role_body now data r) = (case b_name data of None \<Rightarrow> r_name r | Some n \<Rightarrow> n)"
  by (simp add: apply_role_body_def Let_def split: option.splits)

lemma create_roles_ok: "roles_ok db \<Longrightarrow> roles_ok (snd (create_custom_role depth now data db))"
  by (auto simp: roles_ok_def create_custom_role_def Let_def list_ex_iff nonempty_def
      intro!: keys_ok_append split: option.splits)

lemma update_roles_ok: "roles_ok db \<Longrightarrow> roles_ok (snd (update_custom_role depth now i data db))"
proof (cases "b_name data")
  case None
  then have "map r_name (row_update r_id i (apply_role_body now data) rs) = map r_name rs" for rs
    by (simp add: row_update_def apply_role_body_name)
  then show "roles_ok db \<Longrightarrow> ?thesis"
    by (auto simp: roles_ok_def update_custom_role_def Let_def None
        intro!: keys_ok_update split: option.splits)
next
  case (Some n)
  assume ok: "roles_ok db"
  let ?rs = "row_update r_id i (apply_role_body now data) (roles db)"
  have "keys_ok r_id ?rs"
    using ok by (simp add: roles_ok_def keys_ok_update)
  moreover have "distinct (map r_name ?rs)"
    if "\<forall>q \<in> set (roles db). r_id q = i \<or> r_name q \<noteq> n"
    by (rule row_update_names) (use ok that in \<open>auto simp: roles_ok_def keys_ok_def apply_role_body_name Some\<close>)
  ultimately show ?thesis
    using ok by (auto simp: roles_ok_def update_custom_role_def Let_def Some list_ex_iff
        split: option.splits)
qed

lemma map_detach:
  "map r_id (detach_children i rs) = map r_id rs" "map r_name (detach_children i rs) = map r_name rs"
  by (simp_all add: detach_children_def)

lemma delete_roles_ok: "roles_ok db \<Longrightarrow> roles_ok (snd (delete_custom_role i db))"
proof -
  assume ok: "roles_ok db"
  have "keys_ok r_id (row_delete r_id i (roles db))"
    using ok by (simp add: roles_ok_def row_delete_def keys_ok_filter)
  then have "keys_ok r_id (detach_children i (row_delete r_id i (roles db)))"
    unfolding keys_ok_def map_detach by (auto simp: detach_children_def list_all_iff)
  moreover have "distinct (map r_name (detach_children i (row_delete r_id i (roles db))))"
    using ok by (simp add: roles_ok_def map_detach row_delete_def distinct_map_filter)
  ultimately show ?thesis
    using ok by (auto simp: delete_custom_role_def roles_ok_def split: option.splits)
qed

interpretation role_table: invariant_system "role_step depth now" roles_ok for depth now
  by unfold_locales
    (auto simp: role_step_def create_roles_ok update_roles_ok delete_roles_ok split: role_op.splits)

subsection \<open>Properties\<close>

text \<open>Inherited permissions: when no role is its own ancestor, \<^verbatim>\<open>get_all_permissions\<close> returns, within
  one call more than there are roles, exactly the union of the permissions of the role and of all
  its ancestors.\<close>

theorem get_all_permissions_terminates:
  assumes "acyclic_roles rs" and "length rs < depth"
  shows "\<exists>ps. get_all_permissions depth rs r = Some ps \<and> distinct ps \<and>
           set ps = (\<Union>a \<in> lineage rs r. set (r_permissions a))"
proof -
  have "nth_ancestor rs depth r = None"
    using acyclic_bounded [OF assms(1), of r] nth_ancestor_prefix [of rs depth r "Suc (length rs)"]
      assms(2) by (metis Suc_leI)
  then obtain ps where ps: "get_all_permissions depth rs r = Some ps"
    using get_all_permissions_None [of depth rs r] by auto
  moreover have "distinct ps"
    using ps by (cases depth) (auto split: option.splits)
  ultimately show ?thesis by (simp add: get_all_permissions_set)
qed

definition demo_roles :: "custom_role list" where
  "demo_roles =
    [\<lparr>r_id = 1, r_name = ''base'', r_description = [], r_permissions = [''read:cas''],
      inherits_from = None, is_system = True, r_created_at = 0, r_updated_at = 0\<rparr>,
     \<lparr>r_id = 2, r_name = ''ops'', r_description = [], r_permissions = [''write:cas''],
      inherits_from = Some 1, is_system = False, r_created_at = 0, r_updated_at = 0\<rparr>]"

lemma demo_roles_acyclic: "acyclic_roles demo_roles"
proof -
  have "nth_ancestor demo_roles (Suc (Suc n)) r = None" if "r \<in> set demo_roles" for n r
    using that by (auto simp: demo_roles_def parent_def row_get_def)
  moreover have "nth_ancestor demo_roles (Suc 0) r \<noteq> Some r" if "r \<in> set demo_roles" for r
    using that by (auto simp: demo_roles_def parent_def row_get_def)
  ultimately show ?thesis
    unfolding acyclic_roles_def by (metis not0_implies_Suc option.distinct(1))
qed

theorem get_all_permissions_terminates_witness:
  "acyclic_roles demo_roles \<and> length demo_roles < 3 \<and>
   (\<exists>ps. get_all_permissions 3 demo_roles (demo_roles ! 1) = Some ps \<and> distinct ps \<and>
      set ps = (\<Union>a \<in> lineage demo_roles (demo_roles ! 1). set (r_permissions a)))"
  using get_all_permissions_terminates [OF demo_roles_acyclic, of 3 "demo_roles ! 1"]
    demo_roles_acyclic by (simp add: demo_roles_def)

text \<open>Nothing stops a role from inheriting from itself: after an update that sets
  \<^verbatim>\<open>inherits_from\<close> of an existing role to its own id, reading that role raises
  \<^verbatim>\<open>RecursionError\<close> whatever the recursion limit.\<close>

theorem cyclic_role_never_returns:
  assumes "row_get r_id (roles db) i = Some r"
    and "data = \<lparr>b_name = None, b_description = None, b_permissions = None,
                 b_inherits_from = Some (Some i)\<rparr>"
  shows "get_custom_role limit (snd (update_custom_role depth now i data db)) i
         = Raised ''RecursionError''"
proof -
  let ?rs = "row_update r_id i (apply_role_body now data) (roles db)"
    and ?r = "apply_role_body now data r"
  have "inherits_from ?r = Some i"
    by (simp add: assms(2) apply_role_body_def)
  moreover have here: "row_get r_id ?rs i = Some ?r"
    using assms(1) by (simp add: row_get_update)
  ultimately have "parent ?rs ?r = Some ?r"
    by (simp add: parent_def)
  then have "nth_ancestor ?rs n ?r = Some ?r" for n
    by (induction n) simp_all
  then have "get_all_permissions limit ?rs ?r = None"
    by (simp add: get_all_permissions_None)
  then show ?thesis
    using assms here
    by (simp add: update_custom_role_def get_custom_role_def respond_role_def role_to_dict_def Let_def)
qed

definition demo_rbac :: rbac_db where
  "demo_rbac = \<lparr>rb_users = [demo_user\<lparr>role := ''operator''\<rparr>], roles = demo_roles,
                groups = [], members = []\<rparr>"

theorem cyclic_role_never_returns_witness:
  "get_custom_role 1000
     (snd (update_custom_role 1000 5 2 \<lparr>b_name = None, b_description = None, b_permissions = None,
             b_inherits_from = Some (Some 2)\<rparr> demo_rbac)) 2 = Raised ''RecursionError''"
  by (rule cyclic_role_never_returns [where r = "demo_roles ! 1"])
     (simp_all add: demo_rbac_def demo_roles_def row_get_def)

text \<open>Deleting a custom role succeeds only for a role that is not built in and that no user has;
  afterwards the role is gone, no role inherits from it, and every other role is still there with
  its own permissions.\<close>

theorem delete_custom_role_safe:
  assumes "delete_custom_role i db = (Success () msg code, db')"
  shows "(\<exists>r. row_get r_id (roles db) i = Some r \<and> \<not> is_system r) \<and>
         (\<forall>u \<in> set (rb_users db). custom_role_id u \<noteq> Some i) \<and>
         row_get r_id (roles db') i = None \<and>
         (\<forall>r \<in> set (roles db'). inherits_from r \<noteq> Some i) \<and>
         (\<forall>j. j \<noteq> i \<longrightarrow> map_option r_permissions (row_get r_id (roles db') j)
                        = map_option r_permissions (row_get r_id (roles db) j))"
proof -
  have db': "roles db' = detach_children i (row_delete r_id i (roles db))"
    and r: "\<exists>r. row_get r_id (roles db) i = Some r \<and> \<not> is_system r"
    and none: "user_count db i = 0"
    using assms by (auto simp: delete_custom_role_def success_response_def error_response_def
        split: option.splits if_splits)
  have get: "row_get r_id (detach_children i rs) j =
      map_option (\<lambda>r. if inherits_from r = Some i then r\<lparr>inherits_from := None\<rparr> else r)
        (row_get r_id rs j)" for rs j
    unfolding row_get_def detach_children_def by (induction rs) auto
  have "\<forall>u \<in> set (rb_users db). custom_role_id u \<noteq> Some i"
    using none by (auto simp: user_count_def filter_empty_conv)
  moreover have "row_get r_id (roles db') i = None"
    by (simp add: db' get row_get_delete)
  moreover have "\<forall>r \<in> set (roles db'). inherits_from r \<noteq> Some i"
    by (auto simp: db' detach_children_def)
  moreover have "\<forall>j. j \<noteq> i \<longrightarrow> map_option r_permissions (row_get r_id (roles db') j)
                        = map_option r_permissions (row_get r_id (roles db) j)"
    by (auto simp: db' get row_get_delete option.map_comp comp_def intro!: option.map_cong0)
  ultimately show ?thesis using r by blast
qed

theorem delete_custom_role_safe_witness:
  "row_get r_id (roles (snd (delete_custom_role 2 demo_rbac))) 2 = None"
proof -
  have "delete_custom_role 2 demo_rbac =
      (Success () ''Role deleted'' 200, snd (delete_custom_role 2 demo_rbac))"
    by (simp add: delete_custom_role_def demo_rbac_def demo_roles_def row_get_def user_count_def
        demo_user_def success_response_def)
  from delete_custom_role_safe [OF this] show ?thesis by blast
qed

text \<open>Every sequence of role operations keeps the role table well formed: primary keys stay
  positive and distinct, and so do role names.\<close>

theorem role_operations_keep_names_unique:
  "roles_ok db \<Longrightarrow> roles_ok (foldl (role_step depth now) db ops)"
  by (rule role_table.run_inv)

theorem role_operations_keep_names_unique_witness:
  "roles_ok (foldl (role_step 10 5) demo_rbac
     [Create_role \<lparr>b_name = Some ''audit'', b_description = None, b_permissions = None,
                   b_inherits_from = None\<rparr>, Delete_role 2])"
  by (rule role_operations_keep_names_unique)
     (simp add: demo_rbac_def demo_roles_def roles_ok_def keys_ok_def)

text \<open>The permissions the effective-permissions endpoint reports are not those the request guard
  enforces: for every operator it reports \<^verbatim>\<open>sign:csrs\<close> and \<^verbatim>\<open>read:certs\<close>, and the operator's session
  permissions grant neither.\<close>

theorem effective_permissions_not_enforced:
  assumes "row_get u_id (rb_users db) uid = Some u" and "role u = ''operator''"
    and "get_effective_permissions depth db uid = Success ps msg code"
  shows "''sign:csrs'' \<in> set ps \<and> ''read:certs'' \<in> set ps \<and>
         \<not> has_permission ''sign:csrs'' (get_role_permissions (role u)) \<and>
         \<not> has_permission ''read:certs'' (get_role_permissions (role u))"
proof -
  have "set (base_permissions ''operator'') \<subseteq> set ps"
    using assms
    by (auto simp: get_effective_permissions_def success_response_def error_response_def
        split: option.splits if_splits)
  then have "''sign:csrs'' \<in> set ps \<and> ''read:certs'' \<in> set ps"
    by (simp add: base_permissions_def)
  moreover have "\<not> has_permission ''sign:csrs'' (get_role_permissions ''operator'') \<and>
      \<not> has_permission ''read:certs'' (get_role_permissions ''operator'')"
    by (simp add: has_permission_def get_role_permissions_def ROLE_PERMISSIONS_def)
  ultimately show ?thesis using assms(2) by simp
qed

theorem effective_permissions_not_enforced_witness:
  "\<exists>ps. get_effective_permissions 10 demo_rbac 1 = Success ps [] 200 \<and>
        ''sign:csrs'' \<in> set ps \<and> \<not> has_permission ''sign:csrs'' (get_role_permissions ''operator'')"
proof -
  obtain ps where ps: "get_effective_permissions 10 demo_rbac 1 = Success ps [] 200"
    by (simp add: get_effective_permissions_def demo_rbac_def demo_user_def row_get_def
        success_response_def)
  have "row_get u_id (rb_users demo_rbac) 1 = Some (demo_user\<lparr>role := ''operator''\<rparr>)"
    by (simp add: demo_rbac_def demo_user_def row_get_def)
  from effective_permissions_not_enforced [OF this _ ps] ps show ?thesis by auto
qed

end
