(* ===== verification/Rate_Limit.thy ===== *)
theory Rate_Limit
  imports Complex_Main Prelude
begin

text \<open>
  The request rate limiter, \<^verbatim>\<open>security/rate_limiter.py\<close>: the configuration class
  \<^verbatim>\<open>RateLimitConfig\<close> (record \<open>rl_config\<close>, its class attributes), the token buckets with their
  sliding window of \<^verbatim>\<open>RateLimiter\<close> (record \<open>limiter\<close>), the middleware and the decorator.

  \<open>env\<close> is \<^verbatim>\<open>os.environ\<close>. Clock readings and token counts, which the program keeps as
  floats, are rationals: rounding is not modelled. The per-bucket part of
  \<^verbatim>\<open>check_rate_limit\<close> is the function \<open>bucket_step\<close>, and \<open>bucket_run\<close> is its
  reference behaviour on one bucket; the lemmas show that interleaved requests of many clients
  refine it (\<open>run_checks_refines_bucket_run\<close>), and that it keeps the sliding-window and the
  token-bucket bounds.
\<close>

subsection \<open>Configuration\<close>

record limit =
  rpm :: int
  burst :: int

text \<open>
  The dictionary \<^verbatim>\<open>_default_limits\<close> is kept in two fields: the items under path patterns, in
  order, and the one under the key \<^verbatim>\<open>_default\<close>, which every loop over the dictionary skips.
\<close>

record rl_config =
  limits_loaded :: bool
  default_limits :: "(string \<times> limit) list"
  fallback_limit :: limit
  enabled :: "bool option"
  custom_limits :: "(string \<times> limit) list"
  whitelist :: "string set"

definition get_env_int :: "(string \<times> string) list \<Rightarrow> string \<Rightarrow> int \<Rightarrow> int" where
  "get_env_int env key dflt =
     (case map_of env key of
        None \<Rightarrow> dflt
      | Some v \<Rightarrow> (case py_int 10 v of Some n \<Rightarrow> n | None \<Rightarrow> dflt))"

definition get_env_bool :: "(string \<times> string) list \<Rightarrow> string \<Rightarrow> bool \<Rightarrow> bool" where
  "get_env_bool env key dflt =
     (let val = lower (case map_of env key of None \<Rightarrow> str_bool dflt | Some v \<Rightarrow> v)
      in val \<in> {''true'', ''1'', ''yes'', ''on''})"

abbreviation lim :: "int \<Rightarrow> int \<Rightarrow> limit" where
  "lim r b \<equiv> \<lparr>rpm = r, burst = b\<rparr>"

definition load_limits :: "(string \<times> string) list \<Rightarrow> rl_config \<Rightarrow> rl_config" where
  "load_limits env cfg =
     (if limits_loaded cfg then cfg
      else
        (let auth_rpm = get_env_int env ''RATE_LIMIT_AUTH_RPM'' 30;
             auth_burst = get_env_int env ''RATE_LIMIT_AUTH_BURST'' 10;
             heavy_rpm = get_env_int env ''RATE_LIMIT_HEAVY_RPM'' 60;
             heavy_burst = get_env_int env ''RATE_LIMIT_HEAVY_BURST'' 15;
             standard_rpm = get_env_int env ''RATE_LIMIT_STANDARD_RPM'' 300;
             standard_burst = get_env_int env ''RATE_LIMIT_STANDARD_BURST'' 50;
             protocol_rpm = get_env_int env ''RATE_LIMIT_PROTOCOL_RPM'' 500;
             protocol_burst = get_env_int env ''RATE_LIMIT_PROTOCOL_BURST'' 100;
             limits =
               [(''/api/v2/auth/login'', lim auth_rpm auth_burst),
                (''/api/v2/auth/register'', lim (auth_rpm div 2) (auth_burst - 1)),
                (''/api/v2/auth/reset-password'', lim (auth_rpm div 2) (auth_burst - 1)),
                (''/api/v2/sso/callback'', lim auth_rpm auth_burst),
                (''/api/v2/sso/ldap/login'', lim auth_rpm auth_burst),
                (''/api/v2/auth/email-configured'', lim 1000 100),
                (''/api/v2/sso/available'', lim 1000 100),
                (''/api/v2/certificates/issue'', lim heavy_rpm heavy_burst),
                (''/api/v2/cas'', lim heavy_rpm heavy_burst),
                (''/api/v2/csrs/sign'', lim (heavy_rpm div 2) heavy_burst),
                (''/api/v2/import'', lim (heavy_rpm div 3) 2),
                (''/api/v2/export'', lim (heavy_rpm div 3) 2),
                (''/api/v2/backup'', lim (heavy_rpm div 6) 2),
                (''/api/v2/users'', lim (standard_rpm div 2) (standard_burst div 2)),
                (''/api/v2/certificates'', lim standard_rpm standard_burst),
                (''/api/v2/audit'', lim (standard_rpm div 2) (standard_burst div 2)),
                (''/acme/'', lim (protocol_rpm div 2) (protocol_burst div 2)),
                (''/scep/'', lim (protocol_rpm div 2) (protocol_burst div 2)),
                (''/ocsp'', lim protocol_rpm protocol_burst),
                (''/cdp/'', lim protocol_rpm protocol_burst)];
             whitelist_str = (case map_of env ''RATE_LIMIT_WHITELIST'' of
                                None \<Rightarrow> ''127.0.0.1,::1'' | Some v \<Rightarrow> v);
             ips = (if whitelist_str = [] then []
                    else filter (\<lambda>ip. ip \<noteq> []) (map strip (split_on (CHR '','') whitelist_str)))
         in cfg\<lparr>default_limits := limits, fallback_limit := lim standard_rpm standard_burst,
                whitelist := whitelist cfg \<union> set ips,
                limits_loaded := True\<rparr>))"

definition is_enabled :: "(string \<times> string) list \<Rightarrow> rl_config \<Rightarrow> bool \<times> rl_config" where
  "is_enabled env cfg =
     (case enabled cfg of
        Some b \<Rightarrow> (b, cfg)
      | None \<Rightarrow> (let b = get_env_bool env ''RATE_LIMIT_ENABLED'' True
                 in (b, cfg\<lparr>enabled := Some b\<rparr>)))"

definition set_enabled :: "bool \<Rightarrow> rl_config \<Rightarrow> rl_config" where
  "set_enabled b cfg = cfg\<lparr>enabled := Some b\<rparr>"

definition match_limit :: "string \<Rightarrow> (string \<times> limit) list \<Rightarrow> (string \<times> limit) option" where
  "match_limit path limits = find (\<lambda>(pattern, _). startswith path pattern) limits"

definition get_limit :: "rl_config \<Rightarrow> string \<Rightarrow> limit" where
  "get_limit cfg path =
     (case match_limit path (custom_limits cfg) of
        Some (_, l) \<Rightarrow> l
      | None \<Rightarrow>
          (case match_limit path (default_limits cfg) of
             Some (_, l) \<Rightarrow> l
           | None \<Rightarrow> fallback_limit cfg))"

definition set_custom_limit :: "string \<Rightarrow> int \<Rightarrow> int \<Rightarrow> rl_config \<Rightarrow> rl_config" where
  "set_custom_limit path r b cfg =
     cfg\<lparr>custom_limits := dict_set path (lim r b) (custom_limits cfg)\<rparr>"

definition remove_custom_limit :: "string \<Rightarrow> rl_config \<Rightarrow> rl_config" where
  "remove_custom_limit path cfg = cfg\<lparr>custom_limits := dict_del path (custom_limits cfg)\<rparr>"

definition add_whitelist :: "string \<Rightarrow> rl_config \<Rightarrow> rl_config" where
  "add_whitelist ip cfg = cfg\<lparr>whitelist := insert ip (whitelist cfg)\<rparr>"

definition remove_whitelist :: "string \<Rightarrow> rl_config \<Rightarrow> rl_config" where
  "remove_whitelist ip cfg = cfg\<lparr>whitelist := whitelist cfg - {ip}\<rparr>"

definition reload :: "(string \<times> string) list \<Rightarrow> rl_config \<Rightarrow> rl_config" where
  "reload env cfg =
     load_limits env (cfg\<lparr>limits_loaded := False, enabled := None, whitelist := {}\<rparr>)"

definition initial_config :: rl_config where
  "initial_config = \<lparr>limits_loaded = False, default_limits = [], fallback_limit = lim 0 0, enabled = None,
                     custom_limits = [], whitelist = {}\<rparr>"

subsection \<open>Buckets\<close>

record bucket =
  tokens :: rat
  last_update :: rat
  requests :: "rat list"

record limiter =
  buckets :: "(string \<times> bucket) list"
  total_requests :: nat
  rate_limited :: nat
  by_endpoint :: "(string \<times> nat \<times> nat) list"

definition new_limiter :: limiter where
  "new_limiter = \<lparr>buckets = [], total_requests = 0, rate_limited = 0, by_endpoint = []\<rparr>"

definition window :: rat where
  "window = 60"

definition get_key :: "rl_config \<Rightarrow> string \<Rightarrow> string \<Rightarrow> string" where
  "get_key cfg ip path =
     (case match_limit path (default_limits cfg) of
        Some (pattern, _) \<Rightarrow> ip @ '':'' @ pattern
      | None \<Rightarrow> ip @ '':_default'')"

definition fresh_bucket :: "limit \<Rightarrow> rat \<Rightarrow> bucket" where
  "fresh_bucket l now = \<lparr>tokens = of_int (burst l), last_update = now, requests = []\<rparr>"

text \<open>
  The work on one bucket: drop requests outside the window, replenish the tokens, and take
  a token if there is one and the window has room.
\<close>

definition replenish :: "limit \<Rightarrow> rat \<Rightarrow> bucket \<Rightarrow> bucket" where
  "replenish l now b =
     (let elapsed = now - last_update b;
          tokens_to_add = (elapsed / window) * of_int (rpm l)
      in \<lparr>tokens = min (of_int (burst l)) (tokens b + tokens_to_add), last_update = now,
          requests = filter (\<lambda>t. now - t < window) (requests b)\<rparr>)"

definition bucket_step :: "limit \<Rightarrow> rat \<Rightarrow> bucket \<Rightarrow> bool \<times> bucket" where
  "bucket_step l now b0 =
     (let b = replenish l now b0
      in if tokens b \<ge> 1 \<and> int (length (requests b)) < rpm l
         then (True, b\<lparr>tokens := tokens b - 1, requests := requests b @ [now]\<rparr>)
         else (False, b))"

text \<open>\<^verbatim>\<open>int(x)\<close> on a float truncates towards zero.\<close>

definition trunc :: "rat \<Rightarrow> int" where
  "trunc x = (if x < 0 then - floor (- x) else floor x)"

datatype rl_info =
    Not_enabled
  | Whitelisted
  | Allowed (remaining: int) (limit_of: int) (reset: int)
  | Limited (limit_of: int) (retry_after: int)

definition bump :: "bool \<Rightarrow> string \<Rightarrow> limiter \<Rightarrow> limiter" where
  "bump allowed path rl =
     (let (a, b) = (case map_of (by_endpoint rl) path of None \<Rightarrow> (0, 0) | Some p \<Rightarrow> p)
      in if allowed then rl\<lparr>by_endpoint := dict_set path (a + 1, b) (by_endpoint rl)\<rparr>
         else rl\<lparr>rate_limited := rate_limited rl + 1,
                 by_endpoint := dict_set path (a, b + 1) (by_endpoint rl)\<rparr>)"

definition check_bucket ::
  "limit \<Rightarrow> string \<Rightarrow> rat \<Rightarrow> string \<Rightarrow> limiter \<Rightarrow> (bool \<times> rl_info) \<times> limiter" where
  "check_bucket l key now path rl0 =
     (let rl = rl0\<lparr>total_requests := total_requests rl0 + 1\<rparr>;
          b0 = (case map_of (buckets rl) key of None \<Rightarrow> fresh_bucket l now | Some b \<Rightarrow> b);
          (ok, b) = bucket_step l now b0;
          rl1 = bump ok path (rl\<lparr>buckets := dict_set key b (buckets rl)\<rparr>);
          oldest = (case requests b of [] \<Rightarrow> now | t # _ \<Rightarrow> t)
      in if ok
         then ((True, Allowed (trunc (tokens b)) (rpm l) (trunc (now + window - oldest))), rl1)
         else ((False, Limited (rpm l)
                  (case requests b of [] \<Rightarrow> trunc window
                   | t # _ \<Rightarrow> trunc (window - (now - t)) + 1)), rl1))"

definition check_rate_limit ::
  "(string \<times> string) list \<Rightarrow> rat \<Rightarrow> string \<Rightarrow> string \<Rightarrow> rl_config \<times> limiter
     \<Rightarrow> (bool \<times> rl_info) \<times> rl_config \<times> limiter" where
  "check_rate_limit env now ip path st =
     (let (on, cfg1) = is_enabled env (fst st)
      in if \<not> on then ((True, Not_enabled), cfg1, snd st)
         else
           (let cfg = load_limits env cfg1
            in if ip \<in> whitelist cfg then ((True, Whitelisted), cfg, snd st)
               else
                 (let (res, rl) = check_bucket (get_limit cfg path) (get_key cfg ip path) now path
                                    (snd st)
                  in (res, cfg, rl))))"

definition reset_stats :: "limiter \<Rightarrow> limiter" where
  "reset_stats rl = rl\<lparr>total_requests := 0, rate_limited := 0, by_endpoint := []\<rparr>"

text \<open>\<^verbatim>\<open>clear_bucket(ip)\<close>: with an address, the buckets whose key starts with it and a colon;
  without one (or with an empty one), all of them.\<close>

definition clear_bucket :: "string option \<Rightarrow> limiter \<Rightarrow> limiter" where
  "clear_bucket ip rl =
     (case ip of
        Some a \<Rightarrow>
          if a \<noteq> [] then rl\<lparr>buckets := filter (\<lambda>(k, _). \<not> startswith k (a @ '':'')) (buckets rl)\<rparr>
          else rl\<lparr>buckets := []\<rparr>
      | None \<Rightarrow> rl\<lparr>buckets := []\<rparr>)"

subsection \<open>Middleware and decorator\<close>

record http_request =
  req_path :: string
  x_forwarded_for :: "string option"
  remote_addr :: string

definition client_ip :: "http_request \<Rightarrow> string" where
  "client_ip req =
     (let ip = (case x_forwarded_for req of None \<Rightarrow> remote_addr req | Some h \<Rightarrow> h)
      in if ip \<noteq> [] \<and> contains '','' ip then strip (split_on (CHR '','') ip ! 0) else ip)"

datatype rl_response =
    Pass "rl_info option"
  | Too_many_requests int "(string \<times> string) list"

text \<open>
  The before-request hook; a blocked request also leaves one audit entry, whose detail is the
  third component.
\<close>

definition rate_limit_middleware ::
  "(string \<times> string) list \<Rightarrow> rat \<Rightarrow> http_request \<Rightarrow> rl_config \<times> limiter
     \<Rightarrow> rl_response \<times> (rl_config \<times> limiter) \<times> string list" where
  "rate_limit_middleware env now req st =
     (if startswith (req_path req) ''/static''
         \<or> req_path req \<in> {''/health'', ''/api/health'', ''/api/v2/health''}
      then (Pass None, st, [])
      else
        (let ((allowed, info), st') = check_rate_limit env now (client_ip req) (req_path req) st
         in if \<not> allowed
            then (Too_many_requests (retry_after info)
                    [(''Retry-After'', str_int (retry_after info)),
                     (''X-RateLimit-Limit'', str_int (limit_of info)),
                     (''X-RateLimit-Remaining'', ''0'')],
                  st', [''Rate limited: '' @ req_path req])
            else (Pass (Some info), st', [])))"

definition add_rate_limit_headers :: "rl_info option \<Rightarrow> (string \<times> string) list" where
  "add_rate_limit_headers info =
     (case info of
        Some (Allowed rem l rst) \<Rightarrow>
          [(''X-RateLimit-Limit'', str_int l), (''X-RateLimit-Remaining'', str_int rem),
           (''X-RateLimit-Reset'', str_int rst)]
      | _ \<Rightarrow> [])"

text \<open>The decorator: \<open>f\<close> is the route, its result wrapped; \<open>Inl\<close> is the 429 answer.\<close>

definition rate_limit ::
  "(string \<times> string) list \<Rightarrow> rat \<Rightarrow> int option \<Rightarrow> int option \<Rightarrow> http_request \<Rightarrow> (unit \<Rightarrow> 'r)
     \<Rightarrow> rl_config \<times> limiter \<Rightarrow> (int + 'r) \<times> rl_config \<times> limiter" where
  "rate_limit env now r b req f st =
     (let cfg = (case r of
                   None \<Rightarrow> fst st
                 | Some n \<Rightarrow> set_custom_limit (req_path req) n
                     (case b of Some m \<Rightarrow> if m \<noteq> 0 then m else n div 3 | None \<Rightarrow> n div 3) (fst st));
          ((allowed, info), st') = check_rate_limit env now (client_ip req) (req_path req) (cfg, snd st)
      in if \<not> allowed then (Inl (retry_after info), st') else (Inr (f ()), st'))"


subsection \<open>One bucket: the reference behaviour\<close>

text \<open>
  \<open>bucket_run l b ts\<close> is the list of decisions for requests at the instants \<open>ts\<close> on one bucket;
  \<open>grants\<close> are the instants that were let through.
\<close>

fun bucket_run :: "limit \<Rightarrow> bucket option \<Rightarrow> rat list \<Rightarrow> bool list" where
  "bucket_run l b [] = []"
| "bucket_run l b (t # ts) =
     (let (ok, b') = bucket_step l t (case b of None \<Rightarrow> fresh_bucket l t | Some b0 \<Rightarrow> b0)
      in ok # bucket_run l (Some b') ts)"

definition granted :: "rat list \<Rightarrow> bool list \<Rightarrow> rat list" where
  "granted ts oks = map fst (filter snd (zip ts oks))"

definition in_window :: "rat \<Rightarrow> rat list \<Rightarrow> rat list" where
  "in_window T ts = filter (\<lambda>t. T - window < t \<and> t \<le> T) ts"

lemma granted_simps [simp]:
  "granted [] oks = []"
  "granted (t # ts) (ok # oks) = (if ok then t # granted ts oks else granted ts oks)"
  by (simp_all add: granted_def)

text \<open>
  What a bucket knows of the past: its window list is the granted instants of the last
  minute before its last update.
\<close>

definition remembers :: "bucket \<Rightarrow> rat list \<Rightarrow> bool" where
  "remembers b past =
     (requests b = filter (\<lambda>t. last_update b - t < window) past \<and> (\<forall>t \<in> set past. t \<le> last_update b))"

definition window_ok :: "limit \<Rightarrow> rat list \<Rightarrow> bool" where
  "window_ok l past = (\<forall>T. int (length (in_window T past)) \<le> max 0 (rpm l))"

lemma replenish_remembers:
  assumes "remembers b past" "last_update b \<le> now"
  shows "remembers (replenish l now b) past"
proof -
  have "filter (\<lambda>t. now - t < window) (filter (\<lambda>t. last_update b - t < window) past)
        = filter (\<lambda>t. now - t < window) past"
    using assms(2) by (auto intro!: filter_cong)
  with assms show ?thesis
    by (auto simp: remembers_def replenish_def Let_def)
qed

lemma window_ok_snoc:
  assumes "window_ok l past" "remembers b past" "last_update b = now"
    and "int (length (requests b)) < rpm l"
  shows "window_ok l (past @ [now])"
  unfolding window_ok_def
proof
  fix T
  show "int (length (in_window T (past @ [now]))) \<le> max 0 (rpm l)"
  proof (cases "now \<le> T")
    case True
    have "in_window T past = filter (\<lambda>t. T - window < t) (requests b)"
      using assms(2,3) True by (auto simp: in_window_def remembers_def intro!: filter_cong)
    then have "length (in_window T past) \<le> length (requests b)"
      by simp
    then show ?thesis
      using assms(4) by (simp add: in_window_def)
  next
    case False
    then have "in_window T (past @ [now]) = in_window T past"
      by (simp add: in_window_def)
    then show ?thesis using assms(1) by (simp add: window_ok_def)
  qed
qed

lemma bucket_step_window:
  assumes "remembers b past" "window_ok l past" "last_update b \<le> now"
    and "bucket_step l now b = (ok, b')"
  shows "remembers b' (if ok then past @ [now] else past)"
    and "window_ok l (if ok then past @ [now] else past)"
    and "last_update b' = now"
proof -
  let ?b = "replenish l now b"
  have rem: "remembers ?b past" and upd: "last_update ?b = now"
    using assms replenish_remembers by (auto simp: replenish_def Let_def)
  show "last_update b' = now"
    using assms(4) upd by (auto simp: bucket_step_def Let_def split: if_splits)
  show "remembers b' (if ok then past @ [now] else past)"
    using assms(4) rem upd
    by (auto simp: bucket_step_def Let_def remembers_def window_def split: if_splits)
  show "window_ok l (if ok then past @ [now] else past)"
    using assms(4) window_ok_snoc [OF assms(2) rem upd] assms(2)
    by (auto simp: bucket_step_def Let_def split: if_splits)
qed

lemma bucket_run_window:
  assumes "remembers b past" "window_ok l past" "sorted (last_update b # ts)"
  shows "window_ok l (past @ granted ts (bucket_run l (Some b) ts))"
  using assms
proof (induction ts arbitrary: b past)
  case (Cons t ts)
  obtain ok b' where step: "bucket_step l t b = (ok, b')" by force
  note st = bucket_step_window [OF Cons.prems(1,2) _ step]
  have "window_ok l ((if ok then past @ [t] else past) @ granted ts (bucket_run l (Some b') ts))"
    using Cons.prems(3) st by (intro Cons.IH) auto
  then show ?case by (simp add: step split: if_splits)
qed simp

text \<open>Tokens as a potential: what is granted is paid from the tokens and the time elapsed.\<close>

lemma bucket_step_tokens:
  assumes "bucket_step l now b = (ok, b')" "0 \<le> tokens b" "last_update b \<le> now"
    and "0 \<le> rpm l" "0 \<le> burst l"
  shows "0 \<le> tokens b'"
    and "tokens b' + (if ok then 1 else 0)
         \<le> tokens b + (now - last_update b) / window * of_int (rpm l)"
    and "last_update b' = now"
proof -
  have "0 \<le> (now - last_update b) / window * of_int (rpm l)"
    using assms(3,4) by (simp add: window_def)
  then have "0 \<le> tokens (replenish l now b)"
    using assms(2,5) by (simp add: replenish_def Let_def)
  moreover have "tokens (replenish l now b)
      \<le> tokens b + (now - last_update b) / window * of_int (rpm l)"
    by (simp add: replenish_def Let_def)
  moreover have "last_update (replenish l now b) = now"
    by (simp add: replenish_def Let_def)
  ultimately show "0 \<le> tokens b'" and "last_update b' = now"
    and "tokens b' + (if ok then 1 else 0)
         \<le> tokens b + (now - last_update b) / window * of_int (rpm l)"
    using assms(1) by (auto simp: bucket_step_def Let_def split: if_splits)
qed

lemma bucket_run_tokens:
  assumes "0 \<le> tokens b" "sorted (last_update b # ts)" "0 \<le> rpm l" "0 \<le> burst l"
  shows "of_nat (length (granted ts (bucket_run l (Some b) ts)))
         \<le> tokens b + (last (last_update b # ts) - last_update b) / window * of_int (rpm l)"
  using assms(1,2)
proof (induction ts arbitrary: b)
  case (Cons t ts)
  obtain ok b' where step: "bucket_step l t b = (ok, b')" by force
  note st = bucket_step_tokens [OF step Cons.prems(1) _ assms(3,4)]
  let ?r = "of_int (rpm l) :: rat" and ?e = "last (t # ts)"
  have le: "last_update b \<le> t" and t: "last_update b' = t"
    using Cons.prems(2) st(3) by auto
  have "of_nat (length (granted ts (bucket_run l (Some b') ts)))
      \<le> tokens b' + (?e - t) / window * ?r"
    using Cons.IH [of b'] st(1) [OF le] Cons.prems(2) by (simp add: t)
  moreover have "tokens b' + (if ok then 1 else 0) \<le> tokens b + (t - last_update b) / window * ?r"
    using st(2) [OF le] .
  moreover have "(?e - last_update b) / window * ?r
      = (?e - t) / window * ?r + (t - last_update b) / window * ?r"
    by (simp add: field_simps window_def)
  ultimately show ?case
    by (auto simp: step split: if_splits)
qed simp

lemma bucket_run_fresh: "bucket_run l None (t # ts) = bucket_run l (Some (fresh_bucket l t)) (t # ts)"
  by simp

subsection \<open>Interleaved requests\<close>

type_synonym request_event = "rat \<times> string \<times> string"

fun run_checks :: "(string \<times> string) list \<Rightarrow> rl_config \<times> limiter \<Rightarrow> request_event list \<Rightarrow> bool list" where
  "run_checks env st [] = []"
| "run_checks env st ((now, ip, path) # evs) =
     (let ((ok, _), st') = check_rate_limit env now ip path st in ok # run_checks env st' evs)"

definition ready :: "rl_config \<Rightarrow> bool" where
  "ready cfg = (limits_loaded cfg \<and> enabled cfg = Some True)"

definition on_key :: "rl_config \<Rightarrow> string \<Rightarrow> request_event \<Rightarrow> bool" where
  "on_key cfg k e = (fst (snd e) \<notin> whitelist cfg \<and> get_key cfg (fst (snd e)) (snd (snd e)) = k)"

definition decisions_on :: "rl_config \<Rightarrow> string \<Rightarrow> request_event list \<Rightarrow> bool list \<Rightarrow> bool list" where
  "decisions_on cfg k evs oks = map snd (filter (on_key cfg k \<circ> fst) (zip evs oks))"

lemma decisions_on_Cons:
  "decisions_on cfg k (e # evs) (ok # oks)
   = (if on_key cfg k e then ok # decisions_on cfg k evs oks else decisions_on cfg k evs oks)"
  by (simp add: decisions_on_def)

lemma check_ready:
  assumes "ready cfg"
  shows "check_rate_limit env now ip path (cfg, rl) =
    (if ip \<in> whitelist cfg then ((True, Whitelisted), cfg, rl)
     else (let (res, rl') = check_bucket (get_limit cfg path) (get_key cfg ip path) now path rl
           in (res, cfg, rl')))"
  using assms by (simp add: ready_def check_rate_limit_def is_enabled_def load_limits_def)

lemma buckets_bump [simp]: "buckets (bump ok path rl) = buckets rl"
  by (simp add: bump_def split: prod.splits)

lemma check_bucket_outcome:
  assumes "check_bucket l k now path rl = ((ok, info), rl')"
  shows "\<exists>b. bucket_step l now (case map_of (buckets rl) k of None \<Rightarrow> fresh_bucket l now | Some b \<Rightarrow> b)
             = (ok, b) \<and> buckets rl' = dict_set k b (buckets rl)"
  using assms by (auto simp: check_bucket_def Let_def split: prod.splits if_splits)

lemma run_checks_decisions:
  assumes "ready cfg" and "\<And>e. e \<in> set evs \<Longrightarrow> on_key cfg k e \<Longrightarrow> get_limit cfg (snd (snd e)) = l"
  shows "decisions_on cfg k evs (run_checks env (cfg, rl) evs)
         = bucket_run l (map_of (buckets rl) k) (map fst (filter (on_key cfg k) evs))"
  using assms(2)
proof (induction evs arbitrary: rl)
  case (Cons e evs)
  obtain now ip path where e: "e = (now, ip, path)" by (cases e)
  show ?case
  proof (cases "ip \<in> whitelist cfg")
    case True
    then show ?thesis
      using Cons by (simp add: e check_ready [OF assms(1)] on_key_def decisions_on_def comp_def)
  next
    case False
    let ?k = "get_key cfg ip path"
    obtain ok info rl' where chk: "check_bucket (get_limit cfg path) ?k now path rl = ((ok, info), rl')"
      by (metis surj_pair)
    from check_bucket_outcome [OF chk] obtain b where
      b: "bucket_step (get_limit cfg path) now
            (case map_of (buckets rl) ?k of None \<Rightarrow> fresh_bucket (get_limit cfg path) now | Some b \<Rightarrow> b)
          = (ok, b)" "buckets rl' = dict_set ?k b (buckets rl)" by blast
    have run: "run_checks env (cfg, rl) (e # evs) = ok # run_checks env (cfg, rl') evs"
      using False by (simp add: e check_ready [OF assms(1)] chk)
    have IH: "decisions_on cfg k evs (run_checks env (cfg, rl') evs)
        = bucket_run l (map_of (buckets rl') k) (map fst (filter (on_key cfg k) evs))"
      using Cons by simp
    show ?thesis
    proof (cases "?k = k")
      case True
      then have "get_limit cfg path = l"
        using Cons.prems [of e] False by (simp add: e on_key_def)
      moreover have "on_key cfg k e"
        using True False by (simp add: e on_key_def)
      ultimately show ?thesis
        using IH b True unfolding run
        by (cases "map_of (buckets rl) k") (simp_all add: decisions_on_Cons map_of_dict_set e)
    next
      case other: False
      then have "\<not> on_key cfg k e"
        by (simp add: e on_key_def)
      then show ?thesis
        using IH b other unfolding run by (simp add: decisions_on_Cons map_of_dict_set)
    qed
  qed
qed (simp add: decisions_on_def)

subsection \<open>Properties\<close>

text \<open>C32. Refinement: whatever requests of other clients and endpoints are interleaved, the decisions
  on one bucket key are those of a single bucket fed with that key's requests alone. The
  configuration is loaded and enabled, and all requests on the key fall under one limit.\<close>

theorem run_checks_refines_bucket_run:
  assumes "ready cfg" and "map_of (buckets rl) k = None"
    and "\<forall>e \<in> set evs. on_key cfg k e \<longrightarrow> get_limit cfg (snd (snd e)) = l"
  shows "decisions_on cfg k evs (run_checks env (cfg, rl) evs)
         = bucket_run l None (map fst (filter (on_key cfg k) evs))"
  using run_checks_decisions [of cfg evs k l env rl] assms by simp

definition demo_config :: rl_config where
  "demo_config = snd (is_enabled [] (load_limits [] initial_config))"

lemma demo_config_ready: "ready demo_config"
  by code_simp

lemma demo_login_limit: "get_limit demo_config ''/api/v2/auth/login'' = lim 30 10"
  by (simp add: demo_config_def load_limits_def initial_config_def is_enabled_def get_limit_def
      match_limit_def startswith_def get_env_int_def Let_def)

theorem run_checks_refines_bucket_run_witness:
  "decisions_on demo_config ''10.0.0.9:/api/v2/auth/login''
      [(0, ''10.0.0.9'', ''/api/v2/auth/login''), (1, ''10.0.0.9'', ''/api/v2/auth/login'')]
      (run_checks [] (demo_config, new_limiter)
         [(0, ''10.0.0.9'', ''/api/v2/auth/login''), (1, ''10.0.0.9'', ''/api/v2/auth/login'')])
   = bucket_run (lim 30 10) None
       (map fst (filter (on_key demo_config ''10.0.0.9:/api/v2/auth/login'')
          [(0, ''10.0.0.9'', ''/api/v2/auth/login''), (1, ''10.0.0.9'', ''/api/v2/auth/login'')]))"
  by (rule run_checks_refines_bucket_run [OF demo_config_ready])
     (simp_all add: new_limiter_def demo_login_limit)

text \<open>C12. Sliding window: on one bucket, with a clock that does not go back, no window of sixty seconds
  ever holds more granted requests than the limit's requests per minute.\<close>

theorem sliding_window_bound:
  assumes "sorted ts"
  shows "int (length (in_window T (granted ts (bucket_run l None ts)))) \<le> max 0 (rpm l)"
proof (cases ts)
  case Nil
  then show ?thesis by (simp add: in_window_def)
next
  case (Cons t us)
  have "remembers (fresh_bucket l t) []" and "window_ok l []"
    by (simp_all add: remembers_def fresh_bucket_def window_ok_def in_window_def)
  from bucket_run_window [OF this, of ts] assms
  have "window_ok l (granted ts (bucket_run l (Some (fresh_bucket l t)) ts))"
    by (simp add: Cons fresh_bucket_def)
  then show ?thesis
    unfolding window_ok_def Cons bucket_run_fresh by blast
qed

theorem sliding_window_bound_witness:
  "int (length (in_window 3 (granted [0, 1, 2, 3] (bucket_run (lim 2 5) None [0, 1, 2, 3])))) \<le> 2"
  using sliding_window_bound [of "[0, 1, 2, 3]" 3 "lim 2 5"] by simp

text \<open>Token bucket: from the first request at instant \<open>t\<close> to the last, a bucket grants at most its
  burst plus its per-minute rate times the minutes elapsed.\<close>

theorem token_bucket_bound:
  assumes "sorted (t # ts)" and "0 \<le> rpm l" and "0 \<le> burst l"
  shows "of_nat (length (granted (t # ts) (bucket_run l None (t # ts))))
         \<le> of_int (burst l) + (last (t # ts) - t) / window * of_int (rpm l)"
  using bucket_run_tokens [of "fresh_bucket l t" "t # ts" l] assms
  unfolding bucket_run_fresh by (simp add: fresh_bucket_def)

theorem token_bucket_bound_witness:
  "of_nat (length (granted [0, 0, 0] (bucket_run (lim 60 2) None [0, 0, 0])))
   \<le> of_int (burst (lim 60 2)) + (last [0, 0, 0] - 0) / window * of_int (rpm (lim 60 2))"
  by (rule token_bucket_bound) simp_all

text \<open>The address a client puts in \<^verbatim>\<open>X-Forwarded-For\<close> is taken at its word: with the default
  configuration, a request whose header is \<^verbatim>\<open>127.0.0.1\<close> always passes the middleware and spends
  nothing, whatever address it came from and whatever the buckets hold.\<close>

theorem forwarded_header_bypasses_limit:
  assumes "x_forwarded_for req = Some ''127.0.0.1''"
    and "map_of env ''RATE_LIMIT_WHITELIST'' = None" and "\<not> limits_loaded cfg"
  shows "\<exists>info cfg'. rate_limit_middleware env now req (cfg, rl) = (Pass info, (cfg', rl), [])"
proof -
  have ip: "client_ip req = ''127.0.0.1''"
    using assms(1) by (simp add: client_ip_def startswith_def)
  have "''127.0.0.1'' \<in> whitelist (load_limits env c)" if "\<not> limits_loaded c" for c
    using that assms(2) by (simp add: load_limits_def Let_def strip_def is_space_def)
  moreover have "\<not> limits_loaded (snd (is_enabled env cfg))"
    using assms(3) by (simp add: is_enabled_def Let_def split: option.splits)
  ultimately show ?thesis
    by (auto simp: rate_limit_middleware_def check_rate_limit_def ip split: prod.splits)
qed

theorem forwarded_header_bypasses_limit_witness:
  "\<exists>info cfg'. rate_limit_middleware [] 0
      \<lparr>req_path = ''/api/v2/auth/login'', x_forwarded_for = Some ''127.0.0.1'',
       remote_addr = ''203.0.113.5''\<rparr> (initial_config, new_limiter)
    = (Pass info, (cfg', new_limiter), [])"
  by (rule forwarded_header_bypasses_limit) (simp_all add: initial_config_def)

end
