(* ===== verification/Text_Format.thy ===== *)
theory Text_Format
  imports Prelude
begin

text \<open>
  Text the program renders: \<^verbatim>\<open>str(datetime)\<close> and \<^verbatim>\<open>isoformat()\<close> of an instant (microseconds
  since 1970-01-01, proleptic Gregorian calendar), \<^verbatim>\<open>json.dumps\<close> with its default
  separators and ASCII escapes, \<^verbatim>\<open>str.title\<close> and \<^verbatim>\<open>str.replace\<close> with single characters, the
  rendering of optional values in f-strings, and the SQL pattern match \<^verbatim>\<open>ILIKE\<close> that
  searches use.
\<close>

subsection \<open>Dates\<close>

definition civil_from_days :: "int \<Rightarrow> int \<times> int \<times> int" where
  "civil_from_days n =
     (let z = n + 719468;
          era = z div 146097;
          doe = z mod 146097;
          yoe = (doe - doe div 1460 + doe div 36524 - doe div 146096) div 365;
          doy = doe - (365 * yoe + yoe div 4 - yoe div 100);
          mp = (5 * doy + 2) div 153;
          d = doy - (153 * mp + 2) div 5 + 1;
          m = (if mp < 10 then mp + 3 else mp - 9);
          y = yoe + era * 400
      in (if m \<le> 2 then y + 1 else y, m, d))"

definition pad :: "nat \<Rightarrow> int \<Rightarrow> string" where
  "pad w i = (let s = str_int i in replicate (w - length s) (CHR ''0'') @ s)"

definition datetime_text :: "char \<Rightarrow> time \<Rightarrow> string" where
  "datetime_text sep t =
     (let us = t mod 1000000;
          s = t div 1000000;
          sod = s mod 86400;
          (y, m, d) = civil_from_days (s div 86400)
      in pad 4 y @ ''-'' @ pad 2 m @ ''-'' @ pad 2 d @ [sep]
         @ pad 2 (sod div 3600) @ '':'' @ pad 2 (sod div 60 mod 60) @ '':'' @ pad 2 (sod mod 60)
         @ (if us = 0 then [] else ''.'' @ pad 6 us))"

definition str_datetime :: "time \<Rightarrow> string" where
  "str_datetime = datetime_text (CHR '' '')"

definition isoformat :: "time \<Rightarrow> string" where
  "isoformat = datetime_text (CHR ''T'')"

lemma str_datetime_example: "str_datetime (seconds 1709210096 + 7) = ''2024-02-29 12:34:56.000007''"
  by code_simp

lemma isoformat_example: "isoformat (days 20454) = ''2026-01-01T00:00:00''"
  by code_simp

subsection \<open>JSON text\<close>

definition hex_digit :: "nat \<Rightarrow> char" where
  "hex_digit n = (if n < 10 then char_of (48 + n) else char_of (87 + n))"

definition json_char :: "char \<Rightarrow> string" where
  "json_char c =
     (let n = of_char c :: nat
      in if n = 34 then [CHR 0x5C, CHR 0x22]
         else if n = 92 then [CHR 0x5C, CHR 0x5C]
         else if n = 10 then [CHR 0x5C, CHR ''n'']
         else if n = 13 then [CHR 0x5C, CHR ''r'']
         else if n = 9 then [CHR 0x5C, CHR ''t'']
         else if n = 12 then [CHR 0x5C, CHR ''f'']
         else if n = 8 then [CHR 0x5C, CHR ''b'']
         else if n < 32 \<or> n > 126
         then [CHR 0x5C, CHR ''u'', CHR ''0'', CHR ''0'', hex_digit (n div 16), hex_digit (n mod 16)]
         else [c])"

definition json_string :: "string \<Rightarrow> string" where
  "json_string s = [CHR 0x22] @ concat (map json_char s) @ [CHR 0x22]"

fun json_dumps :: "json \<Rightarrow> string" where
  "json_dumps JNull = ''null''"
| "json_dumps (JBool b) = (if b then ''true'' else ''false'')"
| "json_dumps (JInt i) = str_int i"
| "json_dumps (JStr s) = json_string s"
| "json_dumps (JList js) = ''['' @ join_with '', '' (map json_dumps js) @ '']''"
| "json_dumps (JObj kvs) =
     ''{'' @ join_with '', '' (map (\<lambda>(k, v). json_string k @ '': '' @ json_dumps v) kvs) @ ''}''"

lemma json_dumps_example:
  "json_dumps (JObj [(''a'', JList [JInt 1, JBool True]), (''b'', JNull)])
   = [CHR ''{'', CHR 0x22, CHR ''a'', CHR 0x22] @ '': [1, true], ''
     @ [CHR 0x22, CHR ''b'', CHR 0x22] @ '': null}''"
  by code_simp

subsection \<open>Words and optional values\<close>

definition replace_char :: "char \<Rightarrow> char \<Rightarrow> string \<Rightarrow> string" where
  "replace_char a b s = map (\<lambda>c. if c = a then b else c) s"

fun title_from :: "bool \<Rightarrow> string \<Rightarrow> string" where
  "title_from in_word [] = []"
| "title_from in_word (c # cs) =
     (if is_upper c \<or> is_lower c
      then (if in_word then lower_char c else upper_char c) # title_from True cs
      else c # title_from False cs)"

definition title :: "string \<Rightarrow> string" where
  "title s = title_from False s"

lemma title_example: "title (replace_char (CHR ''_'') (CHR '' '') ''cert_issue'') = ''Cert Issue''"
  by code_simp

text \<open>\<^verbatim>\<open>f"{x}"\<close> on a string that may be \<^verbatim>\<open>None\<close>, and \<^verbatim>\<open>x or y\<close>.\<close>

definition str_opt :: "string option \<Rightarrow> string" where
  "str_opt so = (case so of None \<Rightarrow> ''None'' | Some s \<Rightarrow> s)"

definition or_else :: "string option \<Rightarrow> string \<Rightarrow> string" where
  "or_else so d = (case so of None \<Rightarrow> d | Some s \<Rightarrow> if s = [] then d else s)"

subsection \<open>SQL patterns\<close>

fun like :: "string \<Rightarrow> string \<Rightarrow> bool" where
  "like [] s = (s = [])"
| "like (p # ps) [] = (p = CHR ''%'' \<and> like ps [])"
| "like (p # ps) (c # cs) =
     (if p = CHR ''%'' then like ps (c # cs) \<or> like (p # ps) cs
      else (p = CHR ''_'' \<or> p = c) \<and> like ps cs)"

definition ilike :: "string option \<Rightarrow> string \<Rightarrow> bool" where
  "ilike so pat = (case so of None \<Rightarrow> False | Some s \<Rightarrow> like (lower pat) (lower s))"

lemma like_any_prefix: "like ps s \<Longrightarrow> like (CHR ''%'' # ps) (xs @ s)"
proof (induction xs)
  case Nil
  then show ?case by (cases s) auto
qed simp

text \<open>A pattern without wildcards between two per cent signs is the substring test.\<close>

definition plain :: "string \<Rightarrow> bool" where
  "plain p = (CHR ''%'' \<notin> set p \<and> CHR ''_'' \<notin> set p)"

lemma like_percent: "like [CHR ''%''] s"
  by (induction s) auto

lemma like_plain_prefix:
  "plain p \<Longrightarrow> like (p @ [CHR ''%'']) s = startswith s p"
proof (induction p arbitrary: s)
  case Nil
  then show ?case by (simp add: like_percent startswith_def)
next
  case (Cons a p)
  then show ?case by (cases s) (auto simp: plain_def startswith_def)
qed

lemma like_contains: "plain p \<Longrightarrow> like (CHR ''%'' # p @ [CHR ''%'']) s = contains p s"
proof (induction s)
  case Nil
  then show ?case using like_plain_prefix [of p "[]"] by (auto simp: startswith_def)
next
  case (Cons c s)
  then show ?case using like_plain_prefix [of p "c # s"] by simp
qed

end
