(* ===== verification/Audit_Log.thy ===== *)
theory Audit_Log
  imports Text_Format
begin

text \<open>
  The audit log: \<^verbatim>\<open>models/__init__.py\<close> (class \<^verbatim>\<open>AuditLog\<close>), \<^verbatim>\<open>services/audit_service.py\<close>,
  \<^verbatim>\<open>services/retention_service.py\<close> and the endpoints of \<^verbatim>\<open>api/v2/audit.py\<close> that change the log
  or verify it. A log is the list of its rows in the order of their identifiers; each row
  carries the hash of its predecessor and its own.

  SHA-256 is the parameter \<open>sha256\<close>, from text to hexadecimal text; the database's refusal of a
  write is the flag \<open>db_fails\<close>. The lemmas characterise \<^verbatim>\<open>verify_integrity\<close> as a chain
  condition, show that every history of \<^verbatim>\<open>log_action\<close> calls satisfies it, that the last hash
  commits to the whole history, and which changes of the table it does and does not report.
\<close>

subsection \<open>Rows\<close>

record audit_log =
  al_id :: int
  al_timestamp :: time
  al_username :: "string option"
  al_action :: string
  al_resource_type :: "string option"
  al_resource_id :: "string option"
  al_resource_name :: "string option"
  al_details :: "string option"
  al_ip_address :: "string option"
  al_user_agent :: "string option"
  al_success :: bool
  al_prev_hash :: "string option"
  al_entry_hash :: "string option"

definition hash_data :: "audit_log \<Rightarrow> string option \<Rightarrow> string" where
  "hash_data l prev =
     str_int (al_id l) @ ''|'' @ str_datetime (al_timestamp l) @ ''|'' @ str_opt (al_username l) @ ''|''
     @ al_action l @ ''|'' @ str_opt (al_resource_type l) @ ''|'' @ str_opt (al_resource_id l) @ ''|''
     @ str_opt (al_details l) @ ''|'' @ str_bool (al_success l) @ ''|'' @ or_else prev []"

definition compute_hash :: "(string \<Rightarrow> string) \<Rightarrow> audit_log \<Rightarrow> string option \<Rightarrow> string" where
  "compute_hash sha256 l prev = sha256 (hash_data l prev)"

definition zero_hash :: string where
  "zero_hash = replicate 64 (CHR ''0'')"

subsection \<open>Writing\<close>

text \<open>
  What the callers pass: identifiers are numbers or text, names and details are text or (by
  mistake of the caller, which the code repairs) dictionaries.
\<close>

datatype ident = No_id | Num_id int | Txt_id string

datatype text_arg = No_text | Txt string | Dct "(string \<times> json) list"

definition ident_text :: "ident \<Rightarrow> string option" where
  "ident_text i = (case i of
       No_id \<Rightarrow> None
     | Num_id n \<Rightarrow> if n = 0 then None else Some (str_int n)
     | Txt_id s \<Rightarrow> if s = [] then None else Some s)"

definition arg_text :: "text_arg \<Rightarrow> string option" where
  "arg_text t = (case t of
       No_text \<Rightarrow> None
     | Txt s \<Rightarrow> if s = [] then None else Some s
     | Dct kvs \<Rightarrow> Some (json_dumps (JObj kvs)))"

record audit_args =
  arg_action :: string
  arg_resource_type :: "string option"
  arg_resource_id :: ident
  arg_resource_name :: text_arg
  arg_details :: text_arg
  arg_success :: bool
  arg_username :: "string option"

record audit_request =
  aq_forwarded_for :: "string option"
  aq_remote_addr :: "string option"
  aq_user_agent :: "string option"

record audit_ctx =
  ctx_username :: "string option"
  ctx_request :: "audit_request option"

definition audit_ip :: "audit_request \<Rightarrow> string option" where
  "audit_ip rq =
     (case (case aq_forwarded_for rq of None \<Rightarrow> aq_remote_addr rq | Some h \<Rightarrow> Some h) of
        None \<Rightarrow> None
      | Some ip \<Rightarrow> Some (if contains '','' ip then strip (split_on (CHR '','') ip ! 0) else ip))"

definition log_action ::
  "(string \<Rightarrow> string) \<Rightarrow> time \<Rightarrow> audit_ctx \<Rightarrow> bool \<Rightarrow> audit_args \<Rightarrow> audit_log list
     \<Rightarrow> audit_log option \<times> audit_log list" where
  "log_action sha256 now ctx db_fails a rows =
     (if db_fails then (None, rows)
      else
        (let username = (case arg_username a of None \<Rightarrow> ctx_username ctx | Some u \<Rightarrow> Some u);
             i = next_id al_id rows;
             l = \<lparr>al_id = i, al_timestamp = now, al_username = Some (or_else username ''anonymous''),
                  al_action = arg_action a, al_resource_type = arg_resource_type a,
                  al_resource_id = ident_text (arg_resource_id a),
                  al_resource_name = arg_text (arg_resource_name a),
                  al_details = arg_text (arg_details a),
                  al_ip_address = (case ctx_request ctx of None \<Rightarrow> None | Some rq \<Rightarrow> audit_ip rq),
                  al_user_agent = (case ctx_request ctx of None \<Rightarrow> None
                     | Some rq \<Rightarrow> Some (take 500 (case aq_user_agent rq of None \<Rightarrow> [] | Some s \<Rightarrow> s))),
                  al_success = arg_success a, al_prev_hash = None, al_entry_hash = None\<rparr>;
             prev_hash = (case rev (filter (\<lambda>r. al_id r < i) rows) of
                            [] \<Rightarrow> zero_hash
                          | r # _ \<Rightarrow> or_else (al_entry_hash r) zero_hash);
             l1 = l\<lparr>al_prev_hash := Some prev_hash,
                    al_entry_hash := Some (compute_hash sha256 l (Some prev_hash))\<rparr>
         in (Some l1, rows @ [l1])))"

text \<open>
  The helpers the rest of the program calls. A certificate, CA or CSR is seen through its
  description, subject and identifier.
\<close>

record named_object =
  no_descr :: "string option"
  no_subject :: "string option"
  no_id :: int

definition object_name :: "string \<Rightarrow> named_object \<Rightarrow> string" where
  "object_name kind ob = or_else (no_descr ob) (or_else (no_subject ob) (kind @ '' #'' @ str_int (no_id ob)))"

definition action_title :: "string \<Rightarrow> string" where
  "action_title action = title (replace_char (CHR ''_'') (CHR '' '') action)"

abbreviation audit_call ::
  "string \<Rightarrow> string option \<Rightarrow> ident \<Rightarrow> text_arg \<Rightarrow> text_arg \<Rightarrow> bool \<Rightarrow> string option \<Rightarrow> audit_args" where
  "audit_call act rt rid rn d ok u \<equiv> \<lparr>arg_action = act, arg_resource_type = rt, arg_resource_id = rid,
     arg_resource_name = rn, arg_details = d, arg_success = ok, arg_username = u\<rparr>"

definition log_certificate :: "string \<Rightarrow> named_object \<Rightarrow> string option \<Rightarrow> bool \<Rightarrow> audit_args" where
  "log_certificate action cert details success =
     (let name = object_name ''Cert'' cert
      in audit_call action (Some ''certificate'') (Num_id (no_id cert)) (Txt name)
           (Txt (or_else details (action_title action @ '': '' @ name))) success None)"

definition log_ca :: "string \<Rightarrow> named_object \<Rightarrow> string option \<Rightarrow> bool \<Rightarrow> audit_args" where
  "log_ca action ca details success =
     (let name = object_name ''CA'' ca
      in audit_call action (Some ''ca'') (Num_id (no_id ca)) (Txt name)
           (Txt (or_else details (action_title action @ '': '' @ name))) success None)"

definition log_csr :: "string \<Rightarrow> named_object \<Rightarrow> string option \<Rightarrow> bool \<Rightarrow> audit_args" where
  "log_csr action csr details success =
     (let name = object_name ''CSR'' csr
      in audit_call action (Some ''csr'') (Num_id (no_id csr)) (Txt name)
           (Txt (or_else details (action_title action @ '': '' @ name))) success None)"

definition log_user :: "string \<Rightarrow> string option \<Rightarrow> int \<Rightarrow> string option \<Rightarrow> bool \<Rightarrow> audit_args" where
  "log_user action username uid details success =
     (let name = or_else username (''User #'' @ str_int uid)
      in audit_call action (Some ''user'') (Num_id uid) (Txt name)
           (Txt (or_else details (action_title action @ '': '' @ name))) success None)"

definition log_auth :: "string \<Rightarrow> string \<Rightarrow> int option \<Rightarrow> string option \<Rightarrow> bool \<Rightarrow> audit_args" where
  "log_auth action username uid details success =
     audit_call action (Some ''user'') (case uid of None \<Rightarrow> No_id | Some i \<Rightarrow> Num_id i) (Txt username)
       (Txt (or_else details (action_title action @ '' for '' @ username))) success (Some username)"

definition log_acme :: "string \<Rightarrow> string \<Rightarrow> string option \<Rightarrow> string option \<Rightarrow> bool \<Rightarrow> string \<Rightarrow> audit_args" where
  "log_acme action resource_name rid details success username =
     audit_call action (Some ''acme'') (case rid of None \<Rightarrow> No_id | Some s \<Rightarrow> Txt_id s) (Txt resource_name)
       (Txt (or_else details (''ACME '' @ replace_char (CHR ''_'') (CHR '' '') action @ '': '' @ resource_name)))
       success (Some username)"

definition log_scep :: "string \<Rightarrow> string \<Rightarrow> string option \<Rightarrow> string option \<Rightarrow> bool \<Rightarrow> string \<Rightarrow> audit_args" where
  "log_scep action resource_name rid details success username =
     audit_call action (Some ''scep'') (case rid of None \<Rightarrow> No_id | Some s \<Rightarrow> Txt_id s) (Txt resource_name)
       (Txt (or_else details (''SCEP '' @ replace_char (CHR ''_'') (CHR '' '') action @ '': '' @ resource_name)))
       success (Some username)"

definition log_system :: "string \<Rightarrow> string \<Rightarrow> bool \<Rightarrow> audit_args" where
  "log_system action details success =
     audit_call action (Some ''system'') No_id No_text (Txt details) success (Some ''system'')"

subsection \<open>Verification\<close>

datatype chain_error =
    Prev_hash_mismatch int string string
  | Entry_hash_mismatch int string string

record integrity =
  valid :: bool
  checked :: nat
  errors :: "chain_error list"

text \<open>The loop of \<^verbatim>\<open>verify_integrity\<close>; \<open>prev\<close> is the variable \<^verbatim>\<open>prev_hash\<close>.\<close>

definition entry_errors :: "(string \<Rightarrow> string) \<Rightarrow> string \<Rightarrow> audit_log \<Rightarrow> string \<Rightarrow> chain_error list" where
  "entry_errors sha256 prev l h =
     (case al_prev_hash l of
        Some p \<Rightarrow> if p \<noteq> [] \<and> p \<noteq> prev then [Prev_hash_mismatch (al_id l) prev p] else []
      | None \<Rightarrow> [])
     @ (let computed = compute_hash sha256 l (al_prev_hash l)
        in if computed \<noteq> h then [Entry_hash_mismatch (al_id l) computed h] else [])"

fun verify_loop :: "(string \<Rightarrow> string) \<Rightarrow> string \<Rightarrow> audit_log list \<Rightarrow> chain_error list" where
  "verify_loop sha256 prev [] = []"
| "verify_loop sha256 prev (l # ls) =
     (if \<not> nonempty (al_entry_hash l) then verify_loop sha256 zero_hash ls
      else (let h = the (al_entry_hash l)
            in entry_errors sha256 prev l h @ verify_loop sha256 h ls))"

definition verify_integrity ::
  "(string \<Rightarrow> string) \<Rightarrow> int option \<Rightarrow> int option \<Rightarrow> audit_log list \<Rightarrow> integrity" where
  "verify_integrity sha256 start_id end_id rows =
     (let after = (case start_id of
                     Some n \<Rightarrow> if n \<noteq> 0 then filter (\<lambda>l. al_id l \<ge> n) rows else rows
                   | None \<Rightarrow> rows);
          logs = (case end_id of
                    Some n \<Rightarrow> if n \<noteq> 0 then filter (\<lambda>l. al_id l \<le> n) after else after
                  | None \<Rightarrow> after)
      in if logs = [] then \<lparr>valid = True, checked = 0, errors = []\<rparr>
         else (let errs = verify_loop sha256 zero_hash logs
               in \<lparr>valid = (length errs = 0), checked = length logs, errors = errs\<rparr>))"

subsection \<open>Queries\<close>

definition CATEGORIES :: "(string \<times> string list) list" where
  "CATEGORIES =
     [(''auth'', [''login_success'', ''login_failure'', ''logout'', ''session_expired'', ''mfa_enable'',
                  ''mfa_disable'', ''password_change'']),
      (''users'', [''user_create'', ''user_update'', ''user_delete'', ''role_change'', ''user_activate'',
                   ''user_deactivate'']),
      (''certificates'', [''cert_issue'', ''cert_revoke'', ''cert_renew'', ''cert_export'', ''cert_delete'']),
      (''cas'', [''ca_create'', ''ca_update'', ''ca_delete'', ''ca_import'', ''ca_export'']),
      (''csrs'', [''csr_upload'', ''csr_sign'', ''csr_reject'', ''csr_delete'']),
      (''settings'', [''settings_update'', ''backup_create'', ''backup_restore'', ''backup_delete'']),
      (''api_keys'', [''api_key_create'', ''api_key_revoke'', ''api_key_delete'']),
      (''security'', [''permission_denied'', ''invalid_token'', ''rate_limited'', ''suspicious_activity''])]"

record log_filter =
  f_username :: "string option"
  f_action :: "string option"
  f_resource_type :: "string option"
  f_success :: "bool option"
  f_date_from :: "time option"
  f_date_to :: "time option"
  f_search :: "string option"
  f_category :: "string option"

definition wanted :: "string option \<Rightarrow> (string \<Rightarrow> bool) \<Rightarrow> bool" where
  "wanted so test = (nonempty so \<longrightarrow> test (the so))"

definition log_matches :: "log_filter \<Rightarrow> audit_log \<Rightarrow> bool" where
  "log_matches f l =
     (wanted (f_username f) (\<lambda>u. ilike (al_username l) (''%'' @ u @ ''%''))
      \<and> wanted (f_action f) (\<lambda>a. al_action l = a)
      \<and> wanted (f_category f) (\<lambda>c. case map_of CATEGORIES c of None \<Rightarrow> True
                                    | Some acts \<Rightarrow> al_action l \<in> set acts)
      \<and> wanted (f_resource_type f) (\<lambda>t. al_resource_type l = Some t)
      \<and> (case f_success f of None \<Rightarrow> True | Some b \<Rightarrow> al_success l = b)
      \<and> (case f_date_from f of None \<Rightarrow> True | Some d \<Rightarrow> al_timestamp l \<ge> d)
      \<and> (case f_date_to f of None \<Rightarrow> True | Some d \<Rightarrow> al_timestamp l \<le> d)
      \<and> wanted (f_search f) (\<lambda>q. let pat = ''%'' @ q @ ''%'' in
           ilike (al_username l) pat \<or> ilike (Some (al_action l)) pat \<or> ilike (al_details l) pat
           \<or> ilike (al_resource_type l) pat \<or> ilike (al_ip_address l) pat))"

text \<open>
  Newest first; rows of the same instant, whose order SQL leaves open, stay in table order.
  A negative offset counts as zero and a negative limit as none, as SQLite has it.
\<close>

definition newest_first :: "audit_log list \<Rightarrow> audit_log list" where
  "newest_first rows = sort_key (\<lambda>l. - al_timestamp l) rows"

definition page_of :: "int \<Rightarrow> int \<Rightarrow> 'a list \<Rightarrow> 'a list" where
  "page_of page per_page xs =
     (let rest = drop (nat ((page - 1) * per_page)) xs
      in if per_page < 0 then rest else take (nat per_page) rest)"

definition get_logs ::
  "int \<Rightarrow> int \<Rightarrow> log_filter \<Rightarrow> audit_log list \<Rightarrow> (string + audit_log list \<times> int \<times> int)" where
  "get_logs page per_page f rows =
     (let query = newest_first (filter (log_matches f) rows);
          total = int (length query)
      in if per_page = 0 then Inl ''ZeroDivisionError''
         else Inr (page_of page per_page query, total, (total + per_page - 1) div per_page))"

definition get_log_by_id :: "audit_log list \<Rightarrow> int \<Rightarrow> audit_log option" where
  "get_log_by_id = row_get al_id"

subsection \<open>Retention\<close>

definition cleanup_old_logs :: "time \<Rightarrow> int \<Rightarrow> audit_log list \<Rightarrow> nat \<times> audit_log list" where
  "cleanup_old_logs now retention_days rows =
     (let cutoff = now - days retention_days;
          kept = filter (\<lambda>l. \<not> al_timestamp l < cutoff) rows
      in (length rows - length kept, kept))"

text \<open>The endpoint \<^verbatim>\<open>POST /api/v2/audit/cleanup\<close>: the deletion, then one more entry.\<close>

definition cleanup_logs ::
  "(string \<Rightarrow> string) \<Rightarrow> time \<Rightarrow> audit_ctx \<Rightarrow> bool \<Rightarrow> (string \<times> json) list \<Rightarrow> audit_log list
     \<Rightarrow> nat http \<times> audit_log list" where
  "cleanup_logs sha256 now ctx db_fails data rows =
     (case (case jget_or data ''retention_days'' (JInt 90) of
              JInt n \<Rightarrow> Some (max n 30) | JBool b \<Rightarrow> Some 30 | _ \<Rightarrow> None) of
        None \<Rightarrow> (Raised ''TypeError'', rows)
      | Some retention_days \<Rightarrow>
          (let (deleted, kept) = cleanup_old_logs now retention_days rows;
               (_, rows') = log_action sha256 now ctx db_fails
                 (audit_call ''audit_cleanup'' (Some ''audit_log'') No_id No_text
                    (Txt (''Cleaned up '' @ str_nat deleted @ '' logs older than ''
                          @ str_int retention_days @ '' days'')) True None) kept
           in (success_response deleted (''Cleaned up '' @ str_nat deleted @ '' old audit logs''), rows')))"

record retention_settings =
  retention_days :: int
  auto_cleanup :: bool
  archive_before_delete :: bool
  last_cleanup :: "time option"
  total_deleted :: nat

definition default_settings :: retention_settings where
  "default_settings = \<lparr>retention_days = 90, auto_cleanup = True, archive_before_delete = False,
                       last_cleanup = None, total_deleted = 0\<rparr>"

definition MIN_RETENTION_DAYS :: int where "MIN_RETENTION_DAYS = 7"

definition MAX_RETENTION_DAYS :: int where "MAX_RETENTION_DAYS = 365 * 5"

text \<open>\<^verbatim>\<open>int(v)\<close> on a JSON value: text is parsed, other shapes raise.\<close>

definition int_of_json :: "json \<Rightarrow> int option" where
  "int_of_json j = (case j of JInt n \<Rightarrow> Some n | JBool b \<Rightarrow> Some (if b then 1 else 0)
                    | JStr s \<Rightarrow> py_int 10 s | _ \<Rightarrow> None)"

definition update_settings ::
  "(string \<times> json) list \<Rightarrow> retention_settings \<Rightarrow> retention_settings option" where
  "update_settings kwargs st =
     (case (if jhas kwargs ''retention_days''
            then (case int_of_json (jget kwargs ''retention_days'') of
                    None \<Rightarrow> None
                  | Some d \<Rightarrow> Some (st\<lparr>retention_days :=
                      (if d < MIN_RETENTION_DAYS then MIN_RETENTION_DAYS
                       else if d > MAX_RETENTION_DAYS then MAX_RETENTION_DAYS else d)\<rparr>))
            else Some st) of
        None \<Rightarrow> None
      | Some st1 \<Rightarrow>
          (let st2 = (if jhas kwargs ''auto_cleanup''
                      then st1\<lparr>auto_cleanup := truthy (jget kwargs ''auto_cleanup'')\<rparr> else st1)
           in Some (if jhas kwargs ''archive_before_delete''
                    then st2\<lparr>archive_before_delete := truthy (jget kwargs ''archive_before_delete'')\<rparr>
                    else st2)))"

text \<open>
  \<^verbatim>\<open>cleanup_audit_logs\<close>. The batched deletion \<^verbatim>\<open>query.limit(n).delete()\<close> is an operation of the
  database library: \<open>limited_delete n cutoff rows\<close> is either the exception it raises or the
  number of rows it deleted with the remaining table. The loop runs while full batches are
  deleted; \<open>fuel\<close> bounds its iterations and running out of it is \<open>None\<close>.
\<close>

datatype cleanup_result =
    Nothing_to_clean int time
  | Cleaned nat int time
  | Cleanup_failed string

fun delete_batches ::
  "nat \<Rightarrow> (nat \<Rightarrow> time \<Rightarrow> audit_log list \<Rightarrow> string + nat \<times> audit_log list) \<Rightarrow> time \<Rightarrow> nat
     \<Rightarrow> audit_log list \<Rightarrow> (string + nat) option \<times> audit_log list" where
  "delete_batches 0 limited_delete cutoff acc rows = (None, rows)"
| "delete_batches (Suc fuel) limited_delete cutoff acc rows =
     (case limited_delete 1000 cutoff rows of
        Inl e \<Rightarrow> (Some (Inl e), rows)
      | Inr (deleted, rows') \<Rightarrow>
          if deleted < 1000 then (Some (Inr (acc + deleted)), rows')
          else delete_batches fuel limited_delete cutoff (acc + deleted) rows')"

definition cleanup_audit_logs ::
  "nat \<Rightarrow> (nat \<Rightarrow> time \<Rightarrow> audit_log list \<Rightarrow> string + nat \<times> audit_log list) \<Rightarrow> time \<Rightarrow> int option
     \<Rightarrow> retention_settings \<times> audit_log list
     \<Rightarrow> cleanup_result option \<times> retention_settings \<times> audit_log list" where
  "cleanup_audit_logs fuel limited_delete now override st =
     (let d = (case override of None \<Rightarrow> retention_days (fst st) | Some n \<Rightarrow> n);
          cutoff = now - days d;
          to_delete = length (filter (\<lambda>l. al_timestamp l < cutoff) (snd st))
      in if to_delete = 0 then (Some (Nothing_to_clean d cutoff), st)
         else
           (case delete_batches fuel limited_delete cutoff 0 (snd st) of
              (None, rows) \<Rightarrow> (None, fst st, rows)
            | (Some (Inl e), rows) \<Rightarrow> (Some (Cleanup_failed e), fst st, rows)
            | (Some (Inr n), rows) \<Rightarrow>
                (Some (Cleaned n d cutoff),
                 (fst st)\<lparr>last_cleanup := Some now, total_deleted := total_deleted (fst st) + n\<rparr>, rows)))"

definition scheduled_audit_cleanup ::
  "nat \<Rightarrow> (nat \<Rightarrow> time \<Rightarrow> audit_log list \<Rightarrow> string + nat \<times> audit_log list) \<Rightarrow> time
     \<Rightarrow> retention_settings \<times> audit_log list \<Rightarrow> retention_settings \<times> audit_log list" where
  "scheduled_audit_cleanup fuel limited_delete now st =
     (if \<not> auto_cleanup (fst st) then st else snd (cleanup_audit_logs fuel limited_delete now None st))"

subsection \<open>Hash chains\<close>

text \<open>
  The contract of a hash chain: an entry's hashed text determines the predecessor's hash. The
  texts of a chain and its last hash:
\<close>

fun chain_trace :: "('d \<Rightarrow> 'h) \<Rightarrow> ('e \<Rightarrow> 'h \<Rightarrow> 'd) \<Rightarrow> 'h \<Rightarrow> 'e list \<Rightarrow> 'd list" where
  "chain_trace digest msg p [] = []"
| "chain_trace digest msg p (e # es) = msg e p # chain_trace digest msg (digest (msg e p)) es"

definition chain_end :: "('d \<Rightarrow> 'h) \<Rightarrow> ('e \<Rightarrow> 'h \<Rightarrow> 'd) \<Rightarrow> 'h \<Rightarrow> 'e list \<Rightarrow> 'h" where
  "chain_end digest msg p es = foldl (\<lambda>h e. digest (msg e h)) p es"

lemma chain_trace_snoc:
  "chain_trace digest msg p (es @ [e])
   = chain_trace digest msg p es @ [msg e (chain_end digest msg p es)]"
  by (induction es arbitrary: p) (simp_all add: chain_end_def)

lemma chain_end_snoc:
  "chain_end digest msg p (es @ [e]) = digest (msg e (chain_end digest msg p es))"
  by (simp add: chain_end_def)

lemma chain_end_Nil [simp]: "chain_end digest msg p [] = p"
  by (simp add: chain_end_def)

locale hash_chain =
  fixes msg :: "'e \<Rightarrow> 'h \<Rightarrow> 'd"
    and proper :: "'h \<Rightarrow> bool"
    and genesis :: 'h
  assumes text_prev: "proper p \<Longrightarrow> proper q \<Longrightarrow> msg e p = msg f q \<Longrightarrow> p = q"
    and genesis_proper: "proper genesis"
begin

lemma end_proper:
  assumes "\<And>d. proper (digest d)"
  shows "proper (chain_end digest msg genesis es)"
  by (cases es rule: rev_cases) (simp_all add: chain_end_snoc assms genesis_proper)

lemma end_commits:
  assumes "\<And>d. proper (digest d)"
    and "inj_on digest (set (chain_trace digest msg genesis es) \<union> set (chain_trace digest msg genesis fs))"
    and "genesis \<notin> digest ` (set (chain_trace digest msg genesis es) \<union> set (chain_trace digest msg genesis fs))"
    and "chain_end digest msg genesis es = chain_end digest msg genesis fs"
  shows "chain_trace digest msg genesis es = chain_trace digest msg genesis fs"
  using assms(2-4)
proof (induction es arbitrary: fs rule: rev_induct)
  case Nil
  then show ?case
    by (cases fs rule: rev_cases) (auto simp: chain_end_snoc chain_trace_snoc)
next
  case (snoc e es)
  show ?case
  proof (cases fs rule: rev_cases)
    case Nil
    then show ?thesis
      using snoc.prems by (auto simp: chain_end_snoc chain_trace_snoc)
  next
    case (snoc gs g)
    let ?h = "chain_end digest msg genesis es" and ?k = "chain_end digest msg genesis gs"
    have eq: "msg e ?h = msg g ?k"
      using snoc.prems(3) unfolding snoc chain_end_snoc
      by (rule inj_onD [OF snoc.prems(1)]) (simp_all add: snoc chain_trace_snoc)
    then have hk: "?h = ?k"
      by (rule text_prev [OF end_proper [OF assms(1)] end_proper [OF assms(1)]])
    have "chain_trace digest msg genesis es = chain_trace digest msg genesis gs"
      using snoc.prems(1,2) hk unfolding snoc chain_trace_snoc
      by (intro snoc.IH) (auto intro: inj_on_subset)
    then show ?thesis
      using eq by (simp add: snoc chain_trace_snoc)
  qed
qed

end

abbreviation proper_hash :: "string \<Rightarrow> bool" where
  "proper_hash h \<equiv> length h = 64"

abbreviation linked_text :: "audit_log \<Rightarrow> string \<Rightarrow> string" where
  "linked_text l p \<equiv> hash_data l (Some p)"

lemma hash_data_suffix: "\<exists>x. hash_data l (Some p) = x @ p"
  by (rule exI [of _ "str_int (al_id l) @ ''|'' @ str_datetime (al_timestamp l) @ ''|''
        @ str_opt (al_username l) @ ''|'' @ al_action l @ ''|'' @ str_opt (al_resource_type l) @ ''|''
        @ str_opt (al_resource_id l) @ ''|'' @ str_opt (al_details l) @ ''|''
        @ str_bool (al_success l) @ ''|''"])
     (simp add: hash_data_def or_else_def)

interpretation audit_chain: hash_chain linked_text proper_hash zero_hash
proof
  fix p q :: string and e f :: audit_log
  assume "proper_hash p" "proper_hash q" "linked_text e p = linked_text f q"
  then show "p = q"
    using hash_data_suffix [of e p] hash_data_suffix [of f q] by auto
qed (simp add: zero_hash_def)

subsection \<open>Verification as a chain condition\<close>

definition last_hash :: "string \<Rightarrow> audit_log list \<Rightarrow> string" where
  "last_hash prev rows = (if rows = [] then prev else or_else (al_entry_hash (last rows)) zero_hash)"

lemma verify_loop_append:
  "verify_loop sha256 prev (xs @ ys)
   = verify_loop sha256 prev xs @ verify_loop sha256 (last_hash prev xs) ys"
proof (induction xs arbitrary: prev)
  case (Cons l xs)
  have "last_hash prev (l # xs) = last_hash (or_else (al_entry_hash l) zero_hash) xs"
    by (simp add: last_hash_def)
  moreover have "nonempty (al_entry_hash l) \<Longrightarrow> or_else (al_entry_hash l) zero_hash = the (al_entry_hash l)"
    "\<not> nonempty (al_entry_hash l) \<Longrightarrow> or_else (al_entry_hash l) zero_hash = zero_hash"
    by (auto simp: nonempty_def or_else_def split: option.splits)
  ultimately show ?case
    using Cons by (simp add: Let_def)
qed (simp add: last_hash_def)

lemma verify_all:
  "valid (verify_integrity sha256 None None rows) \<longleftrightarrow> verify_loop sha256 zero_hash rows = []"
  "checked (verify_integrity sha256 None None rows) = length rows"
  "errors (verify_integrity sha256 None None rows) = verify_loop sha256 zero_hash rows"
  by (auto simp: verify_integrity_def Let_def)

definition fully_hashed :: "audit_log list \<Rightarrow> bool" where
  "fully_hashed rows = list_all (\<lambda>l. nonempty (al_entry_hash l) \<and> nonempty (al_prev_hash l)) rows"

definition texts :: "audit_log list \<Rightarrow> string list" where
  "texts rows = map (\<lambda>l. hash_data l (al_prev_hash l)) rows"

lemma verify_loop_chain:
  assumes "verify_loop sha256 prev rows = []" "fully_hashed rows"
  shows "texts rows = chain_trace sha256 linked_text prev rows
         \<and> last_hash prev rows = chain_end sha256 linked_text prev rows"
  using assms
proof (induction rows arbitrary: prev)
  case (Cons l rows)
  obtain q h where qh: "al_prev_hash l = Some q" "al_entry_hash l = Some h" "q \<noteq> []" "h \<noteq> []"
    using Cons.prems(2) by (auto simp: fully_hashed_def nonempty_def split: option.splits)
  have "q = prev" and "sha256 (hash_data l (Some q)) = h" and "verify_loop sha256 h rows = []"
    using Cons.prems(1) qh
    by (auto simp: entry_errors_def nonempty_def compute_hash_def Let_def split: if_splits)
  then show ?case
    using Cons.IH [of h] Cons.prems(2) qh
    by (auto simp: texts_def last_hash_def fully_hashed_def chain_end_def or_else_def)
qed (simp add: texts_def last_hash_def)

subsection \<open>Histories\<close>

record audit_event =
  ev_time :: time
  ev_ctx :: audit_ctx
  ev_db_fails :: bool
  ev_args :: audit_args

definition audit_step :: "(string \<Rightarrow> string) \<Rightarrow> audit_log list \<Rightarrow> audit_event \<Rightarrow> audit_log list" where
  "audit_step sha256 rows ev =
     snd (log_action sha256 (ev_time ev) (ev_ctx ev) (ev_db_fails ev) (ev_args ev) rows)"

definition log_ok :: "(string \<Rightarrow> string) \<Rightarrow> audit_log list \<Rightarrow> bool" where
  "log_ok sha256 rows = (keys_ok al_id rows \<and> verify_loop sha256 zero_hash rows = [])"

lemma filter_below_next: "filter (\<lambda>r. key r < next_id key rows) rows = rows"
  by (simp add: next_id_greater filter_id_conv)

lemma log_action_appends:
  "log_action sha256 now ctx db_fails a rows = (None, rows) \<or>
   (\<exists>l. log_action sha256 now ctx db_fails a rows = (Some l, rows @ [l])
      \<and> al_id l = next_id al_id rows \<and> al_timestamp l = now
      \<and> al_prev_hash l = Some (last_hash zero_hash rows)
      \<and> al_entry_hash l = Some (compute_hash sha256 l (Some (last_hash zero_hash rows))))"
proof -
  have *: "(case rev rows of [] \<Rightarrow> zero_hash | r # _ \<Rightarrow> or_else (al_entry_hash r) zero_hash)
      = last_hash zero_hash rows"
    by (cases rows rule: rev_cases) (simp_all add: last_hash_def)
  show ?thesis
    by (simp add: log_action_def Let_def filter_below_next [of al_id rows] * compute_hash_def
        hash_data_def)
qed

lemma log_action_ok:
  assumes "log_ok sha256 rows"
  shows "log_ok sha256 (snd (log_action sha256 now ctx db_fails a rows))"
  using log_action_appends [of sha256 now ctx db_fails a rows]
proof (elim disjE exE conjE)
  fix l assume l: "log_action sha256 now ctx db_fails a rows = (Some l, rows @ [l])"
    "al_id l = next_id al_id rows" "al_prev_hash l = Some (last_hash zero_hash rows)"
    "al_entry_hash l = Some (compute_hash sha256 l (Some (last_hash zero_hash rows)))"
  have "verify_loop sha256 (last_hash zero_hash rows) [l] = []"
    using l(3,4) by (simp add: entry_errors_def)
  then show ?thesis
    using assms l(1,2) by (simp add: log_ok_def verify_loop_append keys_ok_append)
qed (use assms in simp)

interpretation audit_history: invariant_system "audit_step sha256" "log_ok sha256"
  for sha256 :: "string \<Rightarrow> string"
  by unfold_locales (simp add: audit_step_def log_action_ok)

lemma history_fully_hashed:
  assumes "\<And>t. sha256 t \<noteq> []" "fully_hashed rows"
  shows "fully_hashed (foldl (audit_step sha256) rows evs)"
  using assms(2)
proof (induction evs arbitrary: rows)
  case (Cons ev evs)
  have "nonempty (Some (last_hash zero_hash rows))"
    using Cons.prems by (cases rows rule: rev_cases)
      (auto simp: last_hash_def zero_hash_def nonempty_def or_else_def fully_hashed_def split: option.splits)
  then have "fully_hashed (audit_step sha256 rows ev)"
    using log_action_appends [of sha256 "ev_time ev" "ev_ctx ev" "ev_db_fails ev" "ev_args ev" rows]
      Cons.prems assms(1)
    by (auto simp: audit_step_def fully_hashed_def nonempty_def compute_hash_def)
  then show ?case using Cons.IH by simp
qed simp

lemma concat_chunks: "concat (map (\<lambda>i. take k (drop (i * k) xs)) [0..<n]) = take (n * k) xs"
proof (induction n)
  case (Suc n)
  have "take (n * k) xs @ take k (drop (n * k) xs) = take (Suc n * k) xs"
    by (metis add.commute mult_Suc take_add)
  then show ?case using Suc by simp
qed simp

lemma pages_enough:
  fixes k :: int
  assumes "0 < k"
  shows "n \<le> nat ((int n + k - 1) div k) * nat k"
proof -
  let ?d = "(int n + k - 1) div k"
  have d: "0 \<le> ?d" using assms by (simp add: pos_imp_zdiv_nonneg_iff)
  have "int n + k - 1 = k * ?d + (int n + k - 1) mod k"
    by simp
  moreover have "(int n + k - 1) mod k < k"
    using assms by simp
  ultimately have "int n \<le> k * ?d" by linarith
  also have "\<dots> = int (nat ?d * nat k)"
    using d assms by (simp add: mult.commute)
  finally show ?thesis by linarith
qed

text \<open>The hashed text leaves out the name of the resource, the address and the user agent.\<close>

definition relabel ::
  "(audit_log \<Rightarrow> string option) \<Rightarrow> (audit_log \<Rightarrow> string option) \<Rightarrow> (audit_log \<Rightarrow> string option)
     \<Rightarrow> audit_log list \<Rightarrow> audit_log list" where
  "relabel name ip ua rows =
     map (\<lambda>l. l\<lparr>al_resource_name := name l, al_ip_address := ip l, al_user_agent := ua l\<rparr>) rows"

lemma verify_loop_relabel:
  "verify_loop sha256 prev (relabel name ip ua rows) = verify_loop sha256 prev rows"
  by (induction rows arbitrary: prev)
    (auto simp: relabel_def entry_errors_def compute_hash_def hash_data_def Let_def split: option.splits)

lemma relabel_Nil: "relabel name ip ua rows = [] \<longleftrightarrow> rows = []"
  by (simp add: relabel_def)

lemma texts_relabel: "texts (relabel name ip ua rows) = texts rows"
  by (simp add: texts_def relabel_def hash_data_def)

lemma fully_hashed_relabel: "fully_hashed (relabel name ip ua rows) = fully_hashed rows"
  by (simp add: fully_hashed_def relabel_def list.pred_map comp_def)

subsection \<open>Properties\<close>

text \<open>C10. Whatever is logged, by whom, at what times and with which failed writes in between, the log
  that results verifies: no error, every row checked, and identifiers are distinct.\<close>

theorem audit_history_verifies:
  "let rows = foldl (audit_step sha256) [] evs; res = verify_integrity sha256 None None rows
   in valid res \<and> checked res = length rows \<and> distinct (map al_id rows)"
proof -
  have "log_ok sha256 (foldl (audit_step sha256) [] evs)"
    by (rule audit_history.run_inv) (simp add: log_ok_def keys_ok_def)
  then show ?thesis
    by (simp add: log_ok_def keys_ok_def verify_all Let_def)
qed

text \<open>C11. The last hash commits to the whole log: if two logs that are not empty verify, all their rows carry both hashes (as
  those do that the service writes; the verification skips a row without an entry hash), and their last rows have the same hash, then the hashed texts of all rows agree, unless SHA-256
  has a collision among those texts or maps one of them to the zero hash.\<close>

theorem last_hash_commits:
  assumes "\<forall>t. length (sha256 t) = 64"
    and "inj_on sha256 (set (texts A) \<union> set (texts B))"
    and "zero_hash \<notin> sha256 ` (set (texts A) \<union> set (texts B))"
    and "valid (verify_integrity sha256 None None A)" "valid (verify_integrity sha256 None None B)"
    and "fully_hashed A" "fully_hashed B"
    and "A \<noteq> []" "B \<noteq> []" "al_entry_hash (last A) = al_entry_hash (last B)"
  shows "texts A = texts B"
proof -
  have *: "texts X = chain_trace sha256 linked_text zero_hash X"
    "last_hash zero_hash X = chain_end sha256 linked_text zero_hash X"
    if "valid (verify_integrity sha256 None None X)" "fully_hashed X" for X
    using verify_loop_chain [of sha256 zero_hash X] that by (simp_all add: verify_all)
  have "last_hash zero_hash A = last_hash zero_hash B"
    using assms(8-10) by (simp add: last_hash_def)
  then show ?thesis
    using audit_chain.end_commits [of sha256 A B] assms(1-7) by (simp add: *)
qed

definition demo_sha :: "string \<Rightarrow> string" where
  "demo_sha s = CHR ''x'' # take 63 (s @ replicate 63 (CHR ''x''))"

definition demo_ctx :: audit_ctx where
  "demo_ctx = \<lparr>ctx_username = Some ''admin'', ctx_request = Some
     \<lparr>aq_forwarded_for = None, aq_remote_addr = Some ''10.0.0.1'', aq_user_agent = Some ''curl''\<rparr>\<rparr>"

definition demo_log :: "audit_log list" where
  "demo_log = foldl (audit_step demo_sha) []
     [\<lparr>ev_time = 0, ev_ctx = demo_ctx, ev_db_fails = False, ev_args = log_system ''startup'' ''boot'' True\<rparr>,
      \<lparr>ev_time = days 100, ev_ctx = demo_ctx, ev_db_fails = False,
       ev_args = log_auth ''logout'' ''admin'' (Some 1) None True\<rparr>]"

definition demo_altered :: "audit_log list" where
  "demo_altered = relabel al_resource_name (\<lambda>_. Some ''10.9.9.9'') al_user_agent demo_log"

lemma replicate_eq_Cons: "replicate 64 c \<noteq> d # xs" if "c \<noteq> d"
  using that by (auto simp: numeral_eq_Suc)

lemma demo_sha_length: "length (demo_sha t) = 64"
  by (simp add: demo_sha_def)

lemma demo_log_ok: "log_ok demo_sha demo_log" "fully_hashed demo_log"
proof -
  show "log_ok demo_sha demo_log"
    unfolding demo_log_def by (rule audit_history.run_inv) (simp add: log_ok_def keys_ok_def)
  show "fully_hashed demo_log"
    unfolding demo_log_def
    by (rule history_fully_hashed) (auto simp: fully_hashed_def demo_sha_def)
qed

lemma demo_log_ids: "map al_id demo_log = [1, 2]"
  by code_simp

lemma demo_log_ips: "map al_ip_address demo_log = [Some ''10.0.0.1'', Some ''10.0.0.1'']"
  by code_simp

lemma demo_texts: "\<exists>s t. texts demo_log = [CHR ''1'' # s, CHR ''2'' # t]"
proof -
  have "str_int 1 = ''1''" "str_int 2 = ''2''" by code_simp+
  moreover obtain a b where ab: "demo_log = [a, b]" "al_id a = 1" "al_id b = 2"
    using demo_log_ids by (auto simp: map_eq_Cons_conv)
  ultimately show ?thesis
    by (simp add: texts_def hash_data_def ab)
qed

lemma demo_altered_differs: "demo_altered \<noteq> demo_log"
proof
  assume "demo_altered = demo_log"
  then have "map al_ip_address demo_altered = map al_ip_address demo_log" by simp
  then show False
    using demo_log_ips by (auto simp: demo_altered_def relabel_def map_eq_Cons_conv)
qed

theorem last_hash_commits_witness: "demo_altered \<noteq> demo_log \<and> texts demo_log = texts demo_altered"
proof -
  obtain s t where ts: "texts demo_log = [CHR ''1'' # s, CHR ''2'' # t]"
    using demo_texts by blast
  have "texts demo_log = texts demo_altered"
  proof (rule last_hash_commits [of demo_sha])
    show "inj_on demo_sha (set (texts demo_log) \<union> set (texts demo_altered))"
      by (simp add: demo_altered_def texts_relabel ts demo_sha_def)
    show "zero_hash \<notin> demo_sha ` (set (texts demo_log) \<union> set (texts demo_altered))"
      by (simp add: demo_altered_def texts_relabel ts demo_sha_def zero_hash_def replicate_eq_Cons)
    show "al_entry_hash (last demo_log) = al_entry_hash (last demo_altered)"
      using demo_log_ids by (cases "demo_log = []") (simp_all add: demo_altered_def relabel_def last_map)
  qed (use demo_log_ok demo_log_ids in
       \<open>auto simp: demo_sha_length verify_all demo_altered_def verify_loop_relabel fully_hashed_relabel
          log_ok_def relabel_Nil\<close>)
  then show ?thesis using demo_altered_differs by simp
qed

text \<open>Paging loses and repeats nothing: the pages one to the reported number of pages, joined, are
  all matching rows, newest first, and the reported total is their number.\<close>

theorem pages_partition:
  assumes "0 < per_page"
  shows "case get_logs 1 per_page f rows of
           Inl e \<Rightarrow> False
         | Inr (_, total_count, total_pages) \<Rightarrow>
             concat (map (\<lambda>i. case get_logs (1 + int i) per_page f rows of Inr (logs, _) \<Rightarrow> logs | Inl _ \<Rightarrow> [])
                  [0..<nat total_pages])
             = newest_first (filter (log_matches f) rows)
             \<and> total_count = int (length (filter (log_matches f) rows))"
proof -
  let ?q = "newest_first (filter (log_matches f) rows)"
  let ?n = "(int (length ?q) + per_page - 1) div per_page"
  have get: "get_logs p per_page f rows = Inr (page_of p per_page ?q, int (length ?q), ?n)" for p
    using assms by (simp add: get_logs_def Let_def)
  have "page_of (1 + int i) per_page ?q = take (nat per_page) (drop (i * nat per_page) ?q)" for i
    using assms by (simp add: page_of_def Let_def nat_mult_distrib)
  then show ?thesis
    using pages_enough [OF assms, of "length ?q"]
    by (simp add: get concat_chunks) (simp add: newest_first_def)
qed

definition logout_filter :: log_filter where
  "logout_filter = \<lparr>f_username = None, f_action = Some ''logout'', f_resource_type = None, f_success = None,
     f_date_from = None, f_date_to = None, f_search = None, f_category = Some ''auth''\<rparr>"

theorem pages_partition_witness:
  "case get_logs 1 25 logout_filter demo_log of
     Inl e \<Rightarrow> False
   | Inr (_, total_count, total_pages) \<Rightarrow>
       concat (map (\<lambda>i. case get_logs (1 + int i) 25 logout_filter demo_log of Inr (logs, _) \<Rightarrow> logs | Inl _ \<Rightarrow> [])
            [0..<nat total_pages])
       = newest_first (filter (log_matches logout_filter) demo_log)
       \<and> total_count = int (length (filter (log_matches logout_filter) demo_log))"
  by (rule pages_partition) simp

text \<open>The verification does not cover every column: rewriting resource names, client addresses and
  user agents of any rows changes nothing it reports, whatever range is verified.\<close>

theorem verification_ignores_columns:
  "verify_integrity sha256 start_id end_id (relabel name ip ua rows)
   = verify_integrity sha256 start_id end_id rows"
proof -
  have "filter (\<lambda>l. n \<le> al_id l) (relabel name ip ua xs) = relabel name ip ua (filter (\<lambda>l. n \<le> al_id l) xs)"
    "filter (\<lambda>l. al_id l \<le> n) (relabel name ip ua xs) = relabel name ip ua (filter (\<lambda>l. al_id l \<le> n) xs)"
    for n xs by (induction xs) (simp_all add: relabel_def)
  moreover have "relabel name ip ua xs = [] \<longleftrightarrow> xs = []" "length (relabel name ip ua xs) = length xs" for xs
    by (simp_all add: relabel_def)
  ultimately show ?thesis
    unfolding verify_integrity_def
    by (cases start_id; cases end_id) (simp_all add: verify_loop_relabel Let_def)
qed

text \<open>Retention and verification contradict each other: when the cleanup of a log that verifies
  deletes rows from its beginning, the remaining, untouched rows no longer verify; exactly one
  mismatch is reported, on the oldest row kept.\<close>

theorem cleanup_breaks_chain:
  assumes "log_ok sha256 (old @ l # rest)" and "fully_hashed (old @ l # rest)" and "old \<noteq> []"
    and "zero_hash \<notin> range sha256"
    and "snd (cleanup_old_logs now retention (old @ l # rest)) = l # rest"
  shows "errors (verify_integrity sha256 None None (snd (cleanup_old_logs now retention (old @ l # rest))))
         = [Prev_hash_mismatch (al_id l) zero_hash (the (al_prev_hash l))]"
proof -
  have old: "verify_loop sha256 zero_hash old = []" "fully_hashed old"
    and rest: "verify_loop sha256 (last_hash zero_hash old) (l # rest) = []"
    using assms(1,2) by (auto simp: log_ok_def verify_loop_append fully_hashed_def)
  obtain xs x where "old = xs @ [x]"
    using assms(3) by (cases old rule: rev_cases) auto
  then have ne: "last_hash zero_hash old \<noteq> zero_hash"
    using verify_loop_chain [OF old] assms(4) by (simp add: chain_end_snoc) (metis rangeI)
  obtain q h where qh: "al_prev_hash l = Some q" "al_entry_hash l = Some h" "q \<noteq> []" "h \<noteq> []"
    using assms(2) by (auto simp: fully_hashed_def nonempty_def split: option.splits)
  have "verify_loop sha256 zero_hash (l # rest) = [Prev_hash_mismatch (al_id l) zero_hash q]"
    using rest ne qh by (auto simp: entry_errors_def nonempty_def Let_def split: if_splits)
  then show ?thesis
    unfolding assms(5) by (simp add: verify_all qh)
qed

theorem cleanup_breaks_chain_witness:
  "\<exists>q. errors (verify_integrity demo_sha None None (snd (cleanup_old_logs (days 101) 30 demo_log)))
       = [Prev_hash_mismatch 2 zero_hash q]"
proof -
  obtain a b where ab: "demo_log = [a] @ b # []" "al_id b = 2"
    using demo_log_ids by (auto simp: map_eq_Cons_conv)
  have "map al_timestamp demo_log = [0, days 100]"
    by code_simp
  then have "snd (cleanup_old_logs (days 101) 30 ([a] @ b # [])) = b # []"
    by (simp add: ab cleanup_old_logs_def Let_def ucm_simps)
  moreover have "zero_hash \<notin> range demo_sha"
    by (auto simp: zero_hash_def demo_sha_def replicate_eq_Cons)
  ultimately have "errors (verify_integrity demo_sha None None (snd (cleanup_old_logs (days 101) 30 ([a] @ b # []))))
      = [Prev_hash_mismatch (al_id b) zero_hash (the (al_prev_hash b))]"
    by (intro cleanup_breaks_chain) (use demo_log_ok in \<open>simp_all add: ab\<close>)
  then show ?thesis using ab by auto
qed

text \<open>The batched retention job cannot delete anything: the database library refuses \<^verbatim>\<open>delete()\<close> on
  a query with a \<^verbatim>\<open>limit()\<close>, so whenever a row has expired the job reports a failure, deletes
  nothing and leaves its settings unchanged.\<close>

theorem batched_cleanup_fails:
  assumes "\<forall>n cutoff rows. limited_delete n cutoff rows = Inl e"
    and "l \<in> set rows" and "al_timestamp l < now - days (retention_days st)" and "0 < fuel"
  shows "cleanup_audit_logs fuel limited_delete now None (st, rows) = (Some (Cleanup_failed e), st, rows)"
proof -
  have "filter (\<lambda>l. al_timestamp l < now - days (retention_days st)) rows \<noteq> []"
    using assms(2,3) by (auto simp: filter_empty_conv)
  then show ?thesis
    using assms(1,4) by (cases fuel) (simp_all add: cleanup_audit_logs_def Let_def)
qed

theorem batched_cleanup_fails_witness:
  "cleanup_audit_logs 1 (\<lambda>n cutoff rows. Inl ''InvalidRequestError'') (days 101) None (default_settings, demo_log)
   = (Some (Cleanup_failed ''InvalidRequestError''), default_settings, demo_log)"
proof -
  have "map al_timestamp demo_log = [0, days 100]"
    by code_simp
  then obtain a b where ab: "demo_log = [a, b]" "al_timestamp a = 0"
    by (auto simp: map_eq_Cons_conv)
  then have "a \<in> set demo_log" "al_timestamp a < days 101 - days (retention_days default_settings)"
    by (simp_all add: ab default_settings_def ucm_simps)
  then show ?thesis
    by (intro batched_cleanup_fails [of _ "''InvalidRequestError''" a]) simp_all
qed

definition settings_step :: "retention_settings \<Rightarrow> (string \<times> json) list \<Rightarrow> retention_settings" where
  "settings_step st kwargs = (case update_settings kwargs st of None \<Rightarrow> st | Some st' \<Rightarrow> st')"

definition retention_ok :: "retention_settings \<Rightarrow> bool" where
  "retention_ok st = (7 \<le> retention_days st \<and> retention_days st \<le> 1825)"

interpretation retention_history: invariant_system settings_step retention_ok
  by unfold_locales
    (auto simp: settings_step_def retention_ok_def update_settings_def MIN_RETENTION_DAYS_def
      MAX_RETENTION_DAYS_def Let_def split: option.splits if_splits)

text \<open>Whatever values are submitted as settings, the retention period stays between a week and five
  years; a value that is no integer is refused without a change.\<close>

theorem retention_period_bounded:
  "7 \<le> retention_days (foldl settings_step default_settings requests)
   \<and> retention_days (foldl settings_step default_settings requests) \<le> 1825"
  using retention_history.run_inv [of default_settings requests]
  by (simp add: retention_ok_def default_settings_def)

end
