(* ===== verification/Csrf.thy ===== *)
theory Csrf
  imports Auth
begin

text \<open>
  CSRF protection, \<^verbatim>\<open>security/csrf.py\<close>: tokens \<open>timestamp:nonce:signature\<close>, their validation, the
  exempt paths, the route decorator and the global before-request check.

  HMAC-SHA256 is the parameter \<open>hmac\<close>, from a key and a message to hexadecimal text; the clock
  \<open>now\<close> is in whole seconds, \<^verbatim>\<open>int(time.time())\<close>; \<open>nonce\<close> is the random text. The
  environment and the class attribute \<^verbatim>\<open>_enabled\<close> enter through \<open>csrf_enabled\<close>. A request body is
  the JSON value \<^verbatim>\<open>get_json(silent=True)\<close> yields, if the request is JSON with content.
\<close>

subsection \<open>Tokens\<close>

definition CSRF_TOKEN_LIFETIME :: int where
  "CSRF_TOKEN_LIFETIME = 3600 * 24"

definition CSRF_PROTECTED_METHODS :: "string list" where
  "CSRF_PROTECTED_METHODS = [''POST'', ''PUT'', ''DELETE'', ''PATCH'']"

definition CSRF_EXEMPT_PATHS :: "string list" where
  "CSRF_EXEMPT_PATHS =
     [''/api/v2/auth/login'', ''/api/v2/auth/forgot'', ''/api/v2/auth/reset'', ''/api/v2/auth/methods'',
      ''/api/v2/sso/'', ''/acme/'', ''/scep/'', ''/.well-known/acme'', ''/ocsp'', ''/cdp/'', ''/api/health'',
      ''/api/v2/health'', ''/api/v2/mtls/'']"

definition csrf_enabled :: "bool \<Rightarrow> string option \<Rightarrow> bool" where
  "csrf_enabled flag csrf_disabled =
     (flag \<and> lower (case csrf_disabled of None \<Rightarrow> [] | Some v \<Rightarrow> v) \<noteq> ''true'')"

definition csrf_message :: "string \<Rightarrow> string \<Rightarrow> int \<Rightarrow> string" where
  "csrf_message ts nonce user_id = ts @ '':'' @ nonce @ '':'' @ str_int user_id"

definition csrf_signature :: "(string \<Rightarrow> string \<Rightarrow> string) \<Rightarrow> string \<Rightarrow> string \<Rightarrow> string" where
  "csrf_signature hmac secret message = take 32 (hmac secret message)"

definition generate_token ::
  "(string \<Rightarrow> string \<Rightarrow> string) \<Rightarrow> string \<Rightarrow> int \<Rightarrow> string \<Rightarrow> int \<Rightarrow> string" where
  "generate_token hmac secret now nonce user_id =
     (let ts = str_int now
      in ts @ '':'' @ nonce @ '':'' @ csrf_signature hmac secret (csrf_message ts nonce user_id))"

definition ascii :: "string \<Rightarrow> bool" where
  "ascii s = list_all (\<lambda>c. of_char c < (128 :: nat)) s"

text \<open>
  A token from a JSON body need not be text; splitting any other truthy value raises, and so
  does \<^verbatim>\<open>compare_digest\<close> on text that is not ASCII. Every exception is one answer.
\<close>

definition validate_token ::
  "(string \<Rightarrow> string \<Rightarrow> string) \<Rightarrow> string \<Rightarrow> int \<Rightarrow> json \<Rightarrow> int \<Rightarrow> bool \<times> string" where
  "validate_token hmac secret now token user_id =
     (if \<not> truthy token then (False, ''Missing CSRF token'')
      else
        (case token of
           JStr tok \<Rightarrow>
             (case split_on (CHR '':'') tok of
                [ts, nonce, provided_sig] \<Rightarrow>
                  (case py_int 10 ts of
                     None \<Rightarrow> (False, ''Token validation failed'')
                   | Some t \<Rightarrow>
                       (let token_age = now - t
                        in if token_age > CSRF_TOKEN_LIFETIME then (False, ''CSRF token expired'')
                           else if token_age < 0 then (False, ''Invalid token timestamp'')
                           else
                             (let expected_sig = csrf_signature hmac secret (csrf_message ts nonce user_id)
                              in if \<not> (ascii provided_sig \<and> ascii expected_sig)
                                 then (False, ''Token validation failed'')
                                 else if provided_sig \<noteq> expected_sig
                                 then (False, ''Invalid CSRF token'')
                                 else (True, []))))
              | _ \<Rightarrow> (False, ''Invalid token format''))
         | _ \<Rightarrow> (False, ''Token validation failed'')))"

definition is_exempt :: "string \<Rightarrow> bool" where
  "is_exempt path = list_ex (\<lambda>p. startswith path p) CSRF_EXEMPT_PATHS"

subsection \<open>Decorator and middleware\<close>

record csrf_request =
  cq_method :: string
  cq_path :: string
  cq_api_key :: "string option"
  cq_token :: "string option"
  cq_body :: "json option"
  cq_g_user :: "int option"
  cq_session_user :: "int option"

text \<open>\<^verbatim>\<open>getattr(g, 'user_id', None) or session.get('user_id')\<close>, with zero as false.\<close>

definition request_user :: "csrf_request \<Rightarrow> int option" where
  "request_user rq =
     (case cq_g_user rq of
        Some u \<Rightarrow> if u \<noteq> 0 then Some u else cq_session_user rq
      | None \<Rightarrow> cq_session_user rq)"

definition request_token :: "csrf_request \<Rightarrow> json" where
  "request_token rq =
     (let header = (case cq_token rq of None \<Rightarrow> JNull | Some t \<Rightarrow> JStr t)
      in if truthy header then header
         else (case cq_body rq of
                 Some (JObj d) \<Rightarrow> if d \<noteq> [] then jget d ''_csrf_token'' else header
               | _ \<Rightarrow> header))"

definition token_check ::
  "(string \<Rightarrow> string \<Rightarrow> string) \<Rightarrow> string \<Rightarrow> int \<Rightarrow> csrf_request \<Rightarrow> int \<Rightarrow> unit http option" where
  "token_check hmac secret now rq user_id =
     (let (is_valid, err) = validate_token hmac secret now (request_token rq) user_id
      in if \<not> is_valid then Some (error_response (''CSRF validation failed: '' @ err) 403) else None)"

text \<open>\<^verbatim>\<open>None\<close> lets the request through; otherwise the answer is sent.\<close>

definition check_csrf ::
  "(string \<Rightarrow> string \<Rightarrow> string) \<Rightarrow> string \<Rightarrow> bool \<Rightarrow> int \<Rightarrow> csrf_request \<Rightarrow> unit http option" where
  "check_csrf hmac secret on now rq =
     (if \<not> on then None
      else if cq_method rq \<notin> set CSRF_PROTECTED_METHODS then None
      else if is_exempt (cq_path rq) then None
      else if nonempty (cq_api_key rq) then None
      else (case request_user rq of
              None \<Rightarrow> None
            | Some u \<Rightarrow> if u = 0 then None else token_check hmac secret now rq u))"

definition csrf_protect ::
  "(string \<Rightarrow> string \<Rightarrow> string) \<Rightarrow> string \<Rightarrow> bool \<Rightarrow> int \<Rightarrow> csrf_request \<Rightarrow> (unit \<Rightarrow> 'r)
     \<Rightarrow> unit http + 'r" where
  "csrf_protect hmac secret on now rq f =
     (if \<not> on then Inr (f ())
      else if cq_method rq \<notin> set CSRF_PROTECTED_METHODS then Inr (f ())
      else if is_exempt (cq_path rq) then Inr (f ())
      else (case request_user rq of
              None \<Rightarrow> Inr (f ())
            | Some u \<Rightarrow>
                if u = 0 then Inr (f ())
                else (case token_check hmac secret now rq u of Some e \<Rightarrow> Inl e | None \<Rightarrow> Inr (f ()))))"

subsection \<open>Lemmas\<close>

lemma split_three:
  "split_on d s = [a, b, c] \<longleftrightarrow> s = a @ d # b @ d # c \<and> d \<notin> set a \<and> d \<notin> set b \<and> d \<notin> set c"
proof
  assume *: "split_on d s = [a, b, c]"
  have "join_with [d] (split_on d s) = s"
    by (rule join_split_on)
  with * show "s = a @ d # b @ d # c \<and> d \<notin> set a \<and> d \<notin> set b \<and> d \<notin> set c"
    using split_on_parts [of _ d s] by auto
qed (auto simp: split_on_append split_on_no_sep)

definition valid_token ::
  "(string \<Rightarrow> string \<Rightarrow> string) \<Rightarrow> string \<Rightarrow> int \<Rightarrow> string \<Rightarrow> int \<Rightarrow> bool" where
  "valid_token hmac secret now tok user_id \<longleftrightarrow>
     (\<exists>ts nonce sig t. tok = ts @ '':'' @ nonce @ '':'' @ sig
        \<and> CHR '':'' \<notin> set ts \<and> CHR '':'' \<notin> set nonce \<and> CHR '':'' \<notin> set sig
        \<and> py_int 10 ts = Some t \<and> t \<le> now \<and> now \<le> t + 24 * 3600
        \<and> ascii sig \<and> sig = take 32 (hmac secret (ts @ '':'' @ nonce @ '':'' @ str_int user_id)))"

lemma validate_token_iff:
  "fst (validate_token hmac secret now (JStr tok) user_id) \<longleftrightarrow> valid_token hmac secret now tok user_id"
  (is "?L \<longleftrightarrow> ?R")
proof
  assume L: ?L
  then obtain ts nonce sig where sp: "split_on (CHR '':'') tok = [ts, nonce, sig]"
    by (auto simp: validate_token_def split: if_splits list.splits)
  obtain t where t: "py_int 10 ts = Some t"
    using L sp by (auto simp: validate_token_def split: if_splits option.splits)
  have "t \<le> now \<and> now \<le> t + 24 * 3600 \<and> ascii sig
      \<and> sig = take 32 (hmac secret (ts @ '':'' @ nonce @ '':'' @ str_int user_id))"
    using L sp t by (auto simp: validate_token_def csrf_signature_def csrf_message_def
        CSRF_TOKEN_LIFETIME_def Let_def split: if_splits)
  moreover have "tok = ts @ '':'' @ nonce @ '':'' @ sig" "CHR '':'' \<notin> set ts" "CHR '':'' \<notin> set nonce"
    "CHR '':'' \<notin> set sig"
    using sp by (simp_all add: split_three)
  ultimately show ?R
    unfolding valid_token_def using t by blast
next
  assume ?R
  then obtain ts nonce sig t where tok: "tok = ts @ '':'' @ nonce @ '':'' @ sig"
    and c: "CHR '':'' \<notin> set ts" "CHR '':'' \<notin> set nonce" "CHR '':'' \<notin> set sig"
    and t: "py_int 10 ts = Some t" "t \<le> now" "now \<le> t + 24 * 3600"
    and sig: "ascii sig" "sig = take 32 (hmac secret (ts @ '':'' @ nonce @ '':'' @ str_int user_id))"
    unfolding valid_token_def by blast
  have "split_on (CHR '':'') tok = [ts, nonce, sig]"
    using tok c by (simp add: split_three)
  moreover have "csrf_signature hmac secret (csrf_message ts nonce user_id) = sig"
    by (simp add: csrf_signature_def csrf_message_def sig(2))
  ultimately show ?L
    using t sig(1) tok by (simp add: validate_token_def CSRF_TOKEN_LIFETIME_def truthy_def)
qed

subsection \<open>Properties\<close>

text \<open>C26. A token validates exactly if it is a fresh timestamp, a nonce and the truncated MAC of the
  two and of the user: forging one for another user or a later time means forging the MAC.\<close>

theorem validate_token_spec:
  "fst (validate_token hmac secret now (JStr tok) user_id) \<longleftrightarrow>
     (\<exists>ts nonce sig t. tok = ts @ '':'' @ nonce @ '':'' @ sig
        \<and> CHR '':'' \<notin> set ts \<and> CHR '':'' \<notin> set nonce \<and> CHR '':'' \<notin> set sig
        \<and> py_int 10 ts = Some t \<and> t \<le> now \<and> now \<le> t + 24 * 3600
        \<and> ascii sig \<and> sig = take 32 (hmac secret (ts @ '':'' @ nonce @ '':'' @ str_int user_id)))"
  unfolding validate_token_iff valid_token_def ..

definition is_hex :: "string \<Rightarrow> bool" where
  "is_hex s = list_all (\<lambda>c. is_digit c \<or> c \<in> set ''abcdef'') s"

lemma hex_plain: "is_hex s \<Longrightarrow> CHR '':'' \<notin> set s \<and> ascii s"
  by (fastforce simp: is_hex_def ascii_def list_all_iff is_digit_def Let_def)

text \<open>Round trip: a generated token validates for its user for the next 24 hours and is refused as
  expired from then on. The nonce and the MAC are hexadecimal text.\<close>

theorem token_roundtrip:
  assumes "\<forall>k m. is_hex (hmac k m)" and "is_hex nonce" and "0 \<le> issued" and "issued \<le> now"
  shows "validate_token hmac secret now (JStr (generate_token hmac secret issued nonce user_id)) user_id
         = (if now - issued \<le> 24 * 3600 then (True, []) else (False, ''CSRF token expired''))"
proof -
  let ?sig = "csrf_signature hmac secret (csrf_message (str_int issued) nonce user_id)"
  have "is_hex ?sig"
    using assms(1) unfolding csrf_signature_def is_hex_def list_all_iff by (meson in_set_takeD)
  moreover have "CHR '':'' \<notin> set (str_int issued)"
    using assms(3) colon_not_digit by (simp add: str_int_def)
  ultimately have "split_on (CHR '':'') (generate_token hmac secret issued nonce user_id)
      = [str_int issued, nonce, ?sig]"
    using hex_plain [of nonce] hex_plain [of ?sig] assms(2) by (simp add: generate_token_def split_three Let_def)
  then show ?thesis
    using py_int_str_int [OF assms(3)] hex_plain [OF \<open>is_hex ?sig\<close>] assms(4)
    by (auto simp: validate_token_def truthy_def generate_token_def CSRF_TOKEN_LIFETIME_def Let_def)
qed

definition demo_hmac :: "string \<Rightarrow> string \<Rightarrow> string" where
  "demo_hmac k m = filter (\<lambda>c. is_digit c) (k @ m)"

theorem token_roundtrip_witness:
  "validate_token demo_hmac ''k1'' 5000 (JStr (generate_token demo_hmac ''k1'' 4000 ''a7'' 3)) 3 = (True, [])"
proof -
  have "is_hex (demo_hmac k m)" for k m
    by (auto simp: is_hex_def demo_hmac_def list_all_iff)
  then show ?thesis
    by (subst token_roundtrip) (simp_all add: is_hex_def is_digit_def)
qed

text \<open>The global check: with protection on, a state-changing request of a known user outside the
  exempt paths and without an API-key header passes exactly if its token validates; otherwise it is
  answered with 403.\<close>

theorem check_csrf_enforced:
  assumes "cq_method rq \<in> set CSRF_PROTECTED_METHODS" and "\<not> is_exempt (cq_path rq)"
    and "\<not> nonempty (cq_api_key rq)" and "request_user rq = Some u" and "u \<noteq> 0"
  shows "(check_csrf hmac secret True now rq = None
            \<longleftrightarrow> (\<exists>tok. request_token rq = JStr tok \<and> tok \<noteq> [] \<and> valid_token hmac secret now tok u))
       \<and> (case check_csrf hmac secret True now rq of None \<Rightarrow> True | Some answer \<Rightarrow> status_code answer = 403)"
proof -
  have "fst (validate_token hmac secret now j u)
      \<longleftrightarrow> (\<exists>tok. j = JStr tok \<and> tok \<noteq> [] \<and> valid_token hmac secret now tok u)" for j
  proof (cases j)
    case (JStr tok)
    then show ?thesis
      using validate_token_iff [of hmac secret now tok u] by (auto simp: valid_token_def)
  qed (simp_all add: validate_token_def)
  then show ?thesis
    using assms
    by (auto simp: check_csrf_def token_check_def error_response_def status_code_def case_prod_beta)
qed

definition demo_post :: csrf_request where
  "demo_post = \<lparr>cq_method = ''POST'', cq_path = ''/api/v2/users'', cq_api_key = None,
     cq_token = Some (generate_token demo_hmac ''k1'' 4000 ''a7'' 3), cq_body = None, cq_g_user = None,
     cq_session_user = Some 3\<rparr>"

theorem check_csrf_enforced_witness:
  "(check_csrf demo_hmac ''k1'' True 5000 demo_post = None
      \<longleftrightarrow> (\<exists>tok. request_token demo_post = JStr tok \<and> tok \<noteq> [] \<and> valid_token demo_hmac ''k1'' 5000 tok 3))
   \<and> (case check_csrf demo_hmac ''k1'' True 5000 demo_post of None \<Rightarrow> True | Some answer \<Rightarrow> status_code answer = 403)"
  by (rule check_csrf_enforced)
    (simp_all add: demo_post_def CSRF_PROTECTED_METHODS_def is_exempt_def CSRF_EXEMPT_PATHS_def
      startswith_def nonempty_def request_user_def)

text \<open>Any non-empty API-key header switches the check off, and authentication then still falls back
  to the session cookie: a state-changing request with a meaningless key and no token is carried
  out with the permissions of the session.\<close>

theorem api_key_header_disables_csrf:
  assumes "cq_api_key rq = Some k" and "k \<noteq> []"
    and "verify_api_key sha256 now db k = (None, db)"
    and "s_user_id s \<noteq> None" and "verify_session now db s = (Some r, s')"
  shows "check_csrf hmac secret True clock rq = None
       \<and> authenticate_request sha256 now db s (cq_api_key rq) = (Some r, db, s')"
  using assms by (simp add: check_csrf_def authenticate_request_def nonempty_def)

theorem api_key_header_disables_csrf_witness:
  "check_csrf demo_hmac ''k1'' True 5000 (demo_post\<lparr>cq_api_key := Some ''x'', cq_token := None\<rparr>) = None
   \<and> (\<exists>r. authenticate_request id 2000 demo_db demo_session (Some ''x'')
          = (Some r, demo_db, demo_session\<lparr>s_last_activity := Some (Iso 2000)\<rparr>))"
proof -
  obtain r where "verify_session 2000 demo_db demo_session
      = (Some r, demo_session\<lparr>s_last_activity := Some (Iso 2000)\<rparr>)"
    by (simp add: verify_session_def demo_simps row_get_def too_old_def
        get_session_timeout_def get_session_max_lifetime_def config_int_def ucm_simps)
  moreover have "verify_api_key id 2000 demo_db ''x'' = (None, demo_db)"
    by (simp add: verify_api_key_def demo_simps)
  moreover have "s_user_id demo_session \<noteq> None"
    by (simp add: demo_simps)
  ultimately show ?thesis
    using api_key_header_disables_csrf [of "demo_post\<lparr>cq_api_key := Some ''x'', cq_token := None\<rparr>" "''x''"]
    by auto
qed

end
