(* ===== verification/Password_Policy.thy ===== *)
theory Password_Policy
  imports Text_Format
begin

text \<open>
  The password policy, \<^verbatim>\<open>security/password_policy.py\<close>: the policy record with its defaults, the
  validation with its list of errors, the two pattern detectors, the strength score and the
  description of the rules. Passwords are 8-bit text; letter case is that of ASCII. The detectors
  are shown equivalent to their declarative reading, and the validation to the conjunction of the
  rules.
\<close>

subsection \<open>Policy\<close>

record password_policy =
  min_length :: int
  max_length :: int
  require_uppercase :: bool
  require_lowercase :: bool
  require_digit :: bool
  require_special :: bool
  special_chars :: string
  blacklist :: "string list"

definition DEFAULT_POLICY :: password_policy where
  "DEFAULT_POLICY =
     \<lparr>min_length = 8, max_length = 128, require_uppercase = True, require_lowercase = True,
      require_digit = True, require_special = True,
      special_chars = ''!@#$%^&*()_+-=[]{}|;:,.<>?'',
      blacklist = [''password'', ''password1'', ''password123'', ''12345678'', ''123456789'', ''1234567890'',
        ''qwerty'', ''qwerty123'', ''letmein'', ''admin'', ''admin123'', ''administrator'', ''changeme'',
        ''changeme123'', ''welcome'', ''abc123'', ''monkey'', ''dragon'', ''master'', ''password!'',
        ''P@ssword1'', ''P@ssw0rd'']\<rparr>"

subsection \<open>Pattern detectors\<close>

definition sequences :: "string list" where
  "sequences = [''abcdefghijklmnopqrstuvwxyz'', ''ABCDEFGHIJKLMNOPQRSTUVWXYZ'', ''0123456789'', ''qwertyuiop'',
                ''asdfghjkl'', ''zxcvbnm'']"

definition has_sequential_chars :: "string \<Rightarrow> nat \<Rightarrow> bool" where
  "has_sequential_chars password min_seq =
     list_ex (\<lambda>s. list_ex (\<lambda>i. let w = take min_seq (drop i s)
                            in contains w password \<or> contains (rev w) password)
                   [0..<length s + 1 - min_seq]) sequences"

definition has_repeated_chars :: "string \<Rightarrow> nat \<Rightarrow> bool" where
  "has_repeated_chars password min_repeat =
     list_ex (\<lambda>i. card (set (take min_repeat (drop i password))) = 1)
       [0..<length password + 1 - min_repeat]"

subsection \<open>Validation\<close>

definition err_if :: "bool \<Rightarrow> string \<Rightarrow> string list" where
  "err_if b msg = (if b then [msg] else [])"

definition username_errors :: "string \<Rightarrow> string \<Rightarrow> string list" where
  "username_errors username password =
     (let u = lower username; p = lower password
      in err_if (contains u p) ''Password cannot contain your username''
         @ err_if (contains p u \<and> length password < length username)
             ''Password is too similar to username'')"

text \<open>An empty set of special characters makes an invalid regular expression, which raises.\<close>

definition validate_password ::
  "string option \<Rightarrow> password_policy option \<Rightarrow> string option \<Rightarrow> string + bool \<times> string list" where
  "validate_password pw pol username =
     (let p = (case pol of None \<Rightarrow> DEFAULT_POLICY | Some q \<Rightarrow> q)
      in if \<not> nonempty pw then Inr (False, [''Password is required''])
         else if require_special p \<and> special_chars p = [] then Inl ''re.error''
         else
           (let password = the pw;
                n = int (length password);
                errs =
                  err_if (n < min_length p)
                    (''Password must be at least '' @ str_int (min_length p) @ '' characters'')
                  @ err_if (n > max_length p)
                    (''Password must be at most '' @ str_int (max_length p) @ '' characters'')
                  @ err_if (require_uppercase p \<and> \<not> list_ex is_upper password)
                    ''Password must contain at least one uppercase letter''
                  @ err_if (require_lowercase p \<and> \<not> list_ex is_lower password)
                    ''Password must contain at least one lowercase letter''
                  @ err_if (require_digit p \<and> \<not> list_ex is_digit password)
                    ''Password must contain at least one digit''
                  @ err_if (require_special p \<and> \<not> list_ex (\<lambda>c. c \<in> set (special_chars p)) password)
                    (''Password must contain at least one special character ('' @ special_chars p @ '')'')
                  @ err_if (lower password \<in> set (map lower (blacklist p)))
                    ''Password is too common, please choose a stronger one''
                  @ (if nonempty username then username_errors (the username) password else [])
                  @ err_if (has_sequential_chars password 4)
                    ''Password cannot contain 4 or more sequential characters''
                  @ err_if (has_repeated_chars password 4)
                    ''Password cannot contain 4 or more repeated characters''
            in Inr (length errs = 0, errs)))"

subsection \<open>Strength\<close>

record strength =
  score :: int
  level :: string
  feedback :: "string list"

definition level_of :: "int \<Rightarrow> string" where
  "level_of s = (if s \<ge> 80 then ''strong'' else if s \<ge> 60 then ''good'' else if s \<ge> 40 then ''fair'' else ''weak'')"

abbreviation pts :: "bool \<Rightarrow> int \<Rightarrow> int" where
  "pts b n \<equiv> (if b then n else 0)"

definition has_special_char :: "string \<Rightarrow> bool" where
  "has_special_char password = list_ex (\<lambda>c. c \<in> set ''!@#$%^&*()_+-=[]{}|;:,.<>?'') password"

definition length_points :: "nat \<Rightarrow> int" where
  "length_points n = pts (n \<ge> 8) 10 + pts (n \<ge> 12) 10 + pts (n \<ge> 16) 10"

definition variety_points :: "string \<Rightarrow> int" where
  "variety_points password =
     pts (list_ex is_upper password) 10 + pts (list_ex is_lower password) 10
     + pts (list_ex is_digit password) 10 + pts (has_special_char password) 10"

definition unique_points :: "nat \<Rightarrow> nat \<Rightarrow> int" where
  "unique_points uniq n = (if 10 * uniq > 7 * n then 20 else if 2 * uniq > n then 10 else 0)"

definition get_password_strength :: "string option \<Rightarrow> strength" where
  "get_password_strength pw =
     (if \<not> nonempty pw then \<lparr>score = 0, level = ''weak'', feedback = [''Password is empty'']\<rparr>
      else
        (let password = the pw;
             n = length password;
             uniq = card (set password);
             score0 = length_points n + variety_points password + unique_points uniq n;
             feedback0 = err_if (n < 8) ''Use at least 8 characters''
               @ err_if (\<not> list_ex is_upper password) ''Add uppercase letters''
               @ err_if (\<not> list_ex is_lower password) ''Add lowercase letters''
               @ err_if (\<not> list_ex is_digit password) ''Add numbers''
               @ err_if (\<not> has_special_char password) ''Add special characters''
               @ err_if (unique_points uniq n = 0) ''Use more varied characters'';
             common = (lower password \<in> set (blacklist DEFAULT_POLICY));
             score1 = (if common then min score0 10 else score0);
             feedback1 = (if common then [''This password is too common''] else feedback0);
             sequential = has_sequential_chars password 4;
             repeated = has_repeated_chars password 3;
             score2 = score1 - pts sequential 10 - pts repeated 10;
             feedback2 = feedback1 @ err_if sequential ''Avoid sequential characters''
               @ err_if repeated ''Avoid repeated characters'';
             score3 = max 0 (min 100 score2)
         in \<lparr>score = score3, level = level_of score3,
             feedback = (if feedback2 \<noteq> [] then feedback2 else [''Password looks good!''])\<rparr>))"

record requirements =
  rq_min_length :: int
  rq_max_length :: int
  rq_rules :: "string list"

definition get_policy_requirements :: "password_policy option \<Rightarrow> requirements" where
  "get_policy_requirements pol =
     (let p = (case pol of None \<Rightarrow> DEFAULT_POLICY | Some q \<Rightarrow> q)
      in \<lparr>rq_min_length = min_length p, rq_max_length = max_length p,
          rq_rules = [''At least '' @ str_int (min_length p) @ '' characters'']
            @ err_if (require_uppercase p) ''At least one uppercase letter (A-Z)''
            @ err_if (require_lowercase p) ''At least one lowercase letter (a-z)''
            @ err_if (require_digit p) ''At least one number (0-9)''
            @ err_if (require_special p) (''At least one special character ('' @ special_chars p @ '')'')\<rparr>)"

subsection \<open>The detectors, declaratively\<close>

lemma contains_slice:
  "(\<exists>i < length s + 1 - k. w = take k (drop i s)) \<longleftrightarrow> length w = k \<and> contains w s" if "k \<le> length s"
proof
  assume "\<exists>i < length s + 1 - k. w = take k (drop i s)"
  then obtain i where i: "i < length s + 1 - k" "w = take k (drop i s)" by blast
  have "s = take i s @ w @ drop k (drop i s)"
    unfolding i(2) by (metis append_take_drop_id)
  then show "length w = k \<and> contains w s"
    unfolding contains_iff using i that by auto
next
  assume "length w = k \<and> contains w s"
  then obtain pre post where s: "s = pre @ w @ post" and "length w = k"
    by (auto simp: contains_iff)
  then have "length pre < length s + 1 - k" "w = take k (drop (length pre) s)"
    by auto
  then show "\<exists>i < length s + 1 - k. w = take k (drop i s)" by blast
qed

lemma slices_iff:
  assumes "k \<le> length s"
  shows "list_ex (\<lambda>i. P (take k (drop i s))) [0..<length s + 1 - k]
         \<longleftrightarrow> (\<exists>w. length w = k \<and> contains w s \<and> P w)"
proof -
  have "list_ex (\<lambda>i. P (take k (drop i s))) [0..<length s + 1 - k]
      \<longleftrightarrow> (\<exists>w. (\<exists>i < length s + 1 - k. w = take k (drop i s)) \<and> P w)"
    unfolding list_ex_iff by (metis atLeastLessThan_iff set_upt zero_le)
  then show ?thesis
    unfolding contains_slice [OF assms] by blast
qed

lemma sequential_chars_iff:
  assumes "k \<le> 7"
  shows "has_sequential_chars p k \<longleftrightarrow>
    (\<exists>s \<in> set sequences. \<exists>w. length w = k \<and> contains w s \<and> (contains w p \<or> contains (rev w) p))"
proof -
  have "k \<le> length s" if "s \<in> set sequences" for s
    using that assms by (auto simp: sequences_def)
  then show ?thesis
    unfolding has_sequential_chars_def Let_def list_ex_iff [of _ sequences]
    using slices_iff [where P = "\<lambda>w. contains w p \<or> contains (rev w) p"] by blast
qed

lemma card_one_replicate: "card (set w) = 1 \<longleftrightarrow> (\<exists>c. w = replicate (length w) c \<and> w \<noteq> [])"
proof
  assume "card (set w) = 1"
  then obtain c where "set w = {c}" by (auto simp: card_1_singleton_iff)
  then show "\<exists>c. w = replicate (length w) c \<and> w \<noteq> []"
    by (metis empty_iff empty_set insertI1 replicate_length_same singletonD)
next
  assume "\<exists>c. w = replicate (length w) c \<and> w \<noteq> []"
  then obtain c where "w = replicate (length w) c" "w \<noteq> []" by blast
  then have "set w = {c}" by (metis length_greater_0_conv less_not_refl set_replicate)
  then show "card (set w) = 1" by simp
qed

lemma repeated_chars_iff:
  assumes "0 < k"
  shows "has_repeated_chars p k \<longleftrightarrow> (\<exists>c. contains (replicate k c) p)"
proof (cases "k \<le> length p")
  case True
  have "has_repeated_chars p k \<longleftrightarrow> (\<exists>w. length w = k \<and> contains w p \<and> card (set w) = 1)"
    unfolding has_repeated_chars_def using slices_iff [OF True, of "\<lambda>w. card (set w) = 1"] .
  also have "\<dots> \<longleftrightarrow> (\<exists>c. contains (replicate k c) p)"
    unfolding card_one_replicate using assms by (metis length_0_conv length_replicate not_gr_zero)
  finally show ?thesis .
next
  case False
  then show ?thesis
    using contains_length [of "replicate k _" p] by (auto simp: has_repeated_chars_def)
qed

lemma err_if_Nil [simp]: "err_if b m = [] \<longleftrightarrow> \<not> b"
  by (simp add: err_if_def)

lemma username_errors_Nil:
  "username_errors u p = [] \<longleftrightarrow>
     \<not> contains (lower u) (lower p) \<and> \<not> (contains (lower p) (lower u) \<and> length p < length u)"
  by (simp add: username_errors_def Let_def)

subsection \<open>Properties\<close>

text \<open>The default policy accepts a password exactly if it has 8 to 128 characters, each of the four
  character classes, is no variant of a blacklisted word, neither contains the username nor is
  a part of it, and contains no run of four sequential (forwards or backwards) or four equal
  characters.\<close>

theorem default_policy_accepts:
  "validate_password (Some pw) None (Some u) = Inr (True, []) \<longleftrightarrow>
     8 \<le> length pw \<and> length pw \<le> 128 \<and> list_ex is_upper pw \<and> list_ex is_lower pw \<and> list_ex is_digit pw
     \<and> list_ex (\<lambda>c. c \<in> set (special_chars DEFAULT_POLICY)) pw
     \<and> lower pw \<notin> lower ` set (blacklist DEFAULT_POLICY)
     \<and> (if u = [] then True
        else \<not> contains (lower u) (lower pw) \<and> \<not> (contains (lower pw) (lower u) \<and> length pw < length u))
     \<and> \<not> (\<exists>s \<in> set sequences. \<exists>w. length w = 4 \<and> contains w s \<and> (contains w pw \<or> contains (rev w) pw))
     \<and> \<not> (\<exists>c. contains (replicate 4 c) pw)"
proof -
  have sp: "special_chars DEFAULT_POLICY \<noteq> []" and req: "require_special DEFAULT_POLICY"
    "require_uppercase DEFAULT_POLICY" "require_lowercase DEFAULT_POLICY" "require_digit DEFAULT_POLICY"
    "min_length DEFAULT_POLICY = 8" "max_length DEFAULT_POLICY = 128"
    by (simp_all add: DEFAULT_POLICY_def)
  have seq: "has_sequential_chars pw 4 \<longleftrightarrow> (\<exists>s \<in> set sequences. \<exists>w. length w = 4 \<and> contains w s
      \<and> (contains w pw \<or> contains (rev w) pw))"
    by (rule sequential_chars_iff) simp
  have rep: "has_repeated_chars pw 4 \<longleftrightarrow> (\<exists>c. contains (replicate 4 c) pw)"
    by (rule repeated_chars_iff) simp
  show ?thesis
    unfolding seq [symmetric] rep [symmetric]
    by (cases "pw = []"; cases "u = []")
      (simp_all add: validate_password_def nonempty_def sp req Let_def username_errors_Nil; linarith?)+
qed

lemma strength_score:
  "score (get_password_strength (Some pw))
      \<le> max 0 (length_points (length pw) + variety_points pw + unique_points (card (set pw)) (length pw))"
  by (simp add: get_password_strength_def Let_def nonempty_def; intro conjI impI; linarith)

lemma level_strength:
  "level (get_password_strength pw) = level_of (score (get_password_strength pw))
   \<and> 0 \<le> score (get_password_strength pw)"
proof (cases "nonempty pw")
  case True
  then show ?thesis unfolding get_password_strength_def Let_def by simp
next
  case False
  then show ?thesis unfolding get_password_strength_def by (simp add: level_of_def)
qed

lemma points_bounds: "variety_points pw \<le> 40" "unique_points u n \<le> 20" "length_points n \<le> 30"
  "n < 12 \<Longrightarrow> length_points n \<le> 10"
  by (simp_all add: variety_points_def unique_points_def length_points_def)

text \<open>The strength score lies between 0 and 90, the level is the one of the score, and no password of
  fewer than twelve characters is called strong.\<close>

theorem strength_levels:
  "0 \<le> score (get_password_strength (Some pw)) \<and> score (get_password_strength (Some pw)) \<le> 90
   \<and> level (get_password_strength (Some pw)) = level_of (score (get_password_strength (Some pw)))
   \<and> (length pw < 12 \<longrightarrow> level (get_password_strength (Some pw)) \<noteq> ''strong'')"
proof -
  let ?s = "score (get_password_strength (Some pw))"
  have "?s \<le> max 0 (length_points (length pw) + 40 + 20)"
    using strength_score [of pw] points_bounds(1) [of pw] points_bounds(2) [of "card (set pw)" "length pw"]
    by auto
  then have "?s \<le> 90" "length pw < 12 \<Longrightarrow> ?s < 80"
    using points_bounds(3,4) [of "length pw"] by linarith+
  then show ?thesis
    using level_strength [of "Some pw"] by (auto simp: level_of_def)
qed

theorem strength_levels_witness:
  "level (get_password_strength (Some ''Ab1!Ab1!'')) \<noteq> ''strong''"
proof -
  have "length ''Ab1!Ab1!'' < 12" by simp
  then show ?thesis using strength_levels [of "''Ab1!Ab1!''"] by blast
qed

text \<open>The two functions disagree on common passwords: a blacklisted word with capital letters is
  refused by the validation as too common, but the strength meter, which compares the lowered
  password with the list as written, rates it good and asks for nothing.\<close>

theorem common_password_rated_good:
  "validate_password (Some ''P@ssw0rd'') None None
     = Inr (False, [''Password is too common, please choose a stronger one''])
   \<and> get_password_strength (Some ''P@ssw0rd'')
     = \<lparr>score = 70, level = ''good'', feedback = [''Password looks good!'']\<rparr>"
  by code_simp

end
