(* ===== verification/Policy_Approval.thy ===== *)
theory Policy_Approval
  imports Text_Format
begin

text \<open>
  Certificate policies and approval requests: \<^verbatim>\<open>models/policy.py\<close> and \<^verbatim>\<open>api/v2/policies.py\<close>.
  The columns that hold JSON text are modelled by the JSON value, the list of approvals by a list
  of records. A request body is a record of the fields it may carry, absent ones being \<open>None\<close>;
  \<open>db_fails\<close> is a commit the database refuses, and \<open>who\<close> the attribute \<^verbatim>\<open>request.current_user\<close>,
  \<open>None\<close> when the request has no such attribute. The endpoints answer with the row.
\<close>

subsection \<open>Data\<close>

record cert_policy =
  cp_id :: int
  cp_name :: string
  cp_description :: "string option"
  cp_policy_type :: "string option"
  cp_ca_id :: "int option"
  cp_template_id :: "int option"
  cp_rules :: json
  cp_requires_approval :: bool
  cp_approval_group_id :: "int option"
  cp_min_approvers :: int
  cp_notify_on_violation :: bool
  cp_notification_emails :: "json option"
  cp_is_active :: bool
  cp_priority :: int
  cp_created_at :: time
  cp_created_by :: "string option"
  cp_updated_at :: "time option"

record approval_entry =
  ae_user_id :: "int option"
  ae_username :: string
  ae_action :: string
  ae_comment :: "string option"
  ae_timestamp :: time

record approval_request =
  apr_id :: int
  apr_request_type :: string
  apr_certificate_id :: "int option"
  apr_policy_id :: "int option"
  apr_requester_id :: int
  apr_requester_comment :: "string option"
  apr_status :: string
  apr_approvals :: "approval_entry list"
  apr_required_approvals :: int
  apr_created_at :: time
  apr_expires_at :: "time option"
  apr_resolved_at :: "time option"

record policy_db =
  policies :: "cert_policy list"
  approval_requests :: "approval_request list"

record request_principal =
  rp_id :: "int option"
  rp_username :: "string option"

subsection \<open>Policies\<close>

record policy_body =
  pb_name :: "string option"
  pb_description :: "string option option"
  pb_policy_type :: "string option option"
  pb_ca_id :: "int option option"
  pb_template_id :: "int option option"
  pb_requires_approval :: "bool option"
  pb_approval_group_id :: "int option option"
  pb_min_approvers :: "int option"
  pb_notify_on_violation :: "bool option"
  pb_is_active :: "bool option"
  pb_priority :: "int option"
  pb_rules :: "json option"
  pb_notification_emails :: "json option"

abbreviation given :: "'a \<Rightarrow> 'a option \<Rightarrow> 'a" where
  "given d o' \<equiv> (case o' of None \<Rightarrow> d | Some v \<Rightarrow> v)"

definition policy_named :: "string \<Rightarrow> cert_policy list \<Rightarrow> cert_policy option" where
  "policy_named nm ps = find (\<lambda>p. cp_name p = nm) ps"

definition list_policies :: "policy_db \<Rightarrow> cert_policy list http" where
  "list_policies db = success_response (sort_key cp_priority (policies db)) []"

definition get_policy :: "policy_db \<Rightarrow> int \<Rightarrow> cert_policy http" where
  "get_policy db i =
     (case row_get cp_id (policies db) i of
        None \<Rightarrow> error_response ''Not Found'' 404
      | Some p \<Rightarrow> success_response p [])"

definition create_policy ::
  "time \<Rightarrow> request_principal option \<Rightarrow> policy_body \<Rightarrow> policy_db \<Rightarrow> cert_policy http \<times> policy_db" where
  "create_policy now who data db =
     (if \<not> nonempty (pb_name data) then (error_response ''Policy name is required'' 400, db)
      else if policy_named (the (pb_name data)) (policies db) \<noteq> None
      then (error_response ''Policy name already exists'' 400, db)
      else
        (let p = \<lparr>cp_id = next_id cp_id (policies db), cp_name = the (pb_name data),
                  cp_description = given None (pb_description data),
                  cp_policy_type = given (Some ''issuance'') (pb_policy_type data),
                  cp_ca_id = given None (pb_ca_id data), cp_template_id = given None (pb_template_id data),
                  cp_rules = (case pb_rules data of
                                Some j \<Rightarrow> if truthy j then j else JObj [] | None \<Rightarrow> JObj []),
                  cp_requires_approval = given False (pb_requires_approval data),
                  cp_approval_group_id = given None (pb_approval_group_id data),
                  cp_min_approvers = given 1 (pb_min_approvers data),
                  cp_notify_on_violation = given True (pb_notify_on_violation data),
                  cp_notification_emails = (case pb_notification_emails data of
                                Some j \<Rightarrow> if truthy j then Some j else None | None \<Rightarrow> None),
                  cp_is_active = given True (pb_is_active data), cp_priority = given 100 (pb_priority data),
                  cp_created_at = now,
                  cp_created_by = (case who of None \<Rightarrow> None | Some u \<Rightarrow> rp_username u),
                  cp_updated_at = None\<rparr>
         in (success_response p ''Policy created'', db\<lparr>policies := policies db @ [p]\<rparr>)))"

definition apply_policy_body :: "policy_body \<Rightarrow> cert_policy \<Rightarrow> cert_policy" where
  "apply_policy_body data p =
     p\<lparr>cp_name := given (cp_name p) (pb_name data),
       cp_description := given (cp_description p) (pb_description data),
       cp_policy_type := given (cp_policy_type p) (pb_policy_type data),
       cp_ca_id := given (cp_ca_id p) (pb_ca_id data),
       cp_template_id := given (cp_template_id p) (pb_template_id data),
       cp_requires_approval := given (cp_requires_approval p) (pb_requires_approval data),
       cp_approval_group_id := given (cp_approval_group_id p) (pb_approval_group_id data),
       cp_min_approvers := given (cp_min_approvers p) (pb_min_approvers data),
       cp_notify_on_violation := given (cp_notify_on_violation p) (pb_notify_on_violation data),
       cp_is_active := given (cp_is_active p) (pb_is_active data),
       cp_priority := given (cp_priority p) (pb_priority data),
       cp_rules := given (cp_rules p) (pb_rules data),
       cp_notification_emails :=
         (case pb_notification_emails data of None \<Rightarrow> cp_notification_emails p | Some j \<Rightarrow> Some j)\<rparr>"

text \<open>The column \<^verbatim>\<open>updated_at\<close> is set by the database layer when the row is written and differs.\<close>

definition touch :: "time \<Rightarrow> cert_policy \<Rightarrow> cert_policy \<Rightarrow> cert_policy" where
  "touch now old p = (if p = old then old else p\<lparr>cp_updated_at := Some now\<rparr>)"

definition update_policy ::
  "time \<Rightarrow> int \<Rightarrow> policy_body \<Rightarrow> policy_db \<Rightarrow> cert_policy http \<times> policy_db" where
  "update_policy now i data db =
     (case row_get cp_id (policies db) i of
        None \<Rightarrow> (error_response ''Not Found'' 404, db)
      | Some p \<Rightarrow>
          if (case pb_name data of
                None \<Rightarrow> False
              | Some nm \<Rightarrow> (case policy_named nm (policies db) of
                             None \<Rightarrow> False | Some e \<Rightarrow> cp_id e \<noteq> i))
          then (error_response ''Policy name already exists'' 400, db)
          else
            (let f = (\<lambda>q. touch now q (apply_policy_body data q))
             in (success_response (f p) ''Policy updated'',
                 db\<lparr>policies := row_update cp_id i f (policies db)\<rparr>)))"

definition pending_for :: "int \<Rightarrow> approval_request list \<Rightarrow> nat" where
  "pending_for i rs = length (filter (\<lambda>r. apr_policy_id r = Some i \<and> apr_status r = ''pending'') rs)"

definition delete_policy :: "bool \<Rightarrow> int \<Rightarrow> policy_db \<Rightarrow> unit http \<times> policy_db" where
  "delete_policy db_fails i db =
     (case row_get cp_id (policies db) i of
        None \<Rightarrow> (error_response ''Not Found'' 404, db)
      | Some p \<Rightarrow>
          (let pending = pending_for i (approval_requests db)
           in if pending > 0
              then (error_response (''Cannot delete policy with '' @ str_nat pending
                      @ '' pending approval requests'') 400, db)
              else if db_fails then (error_response ''Failed to delete policy'' 500, db)
              else (success_response () ''Policy deleted'',
                    db\<lparr>approval_requests :=
                         filter (\<lambda>r. apr_policy_id r \<noteq> Some i) (approval_requests db),
                       policies := row_delete cp_id i (policies db)\<rparr>)))"

definition toggle_policy :: "bool \<Rightarrow> time \<Rightarrow> int \<Rightarrow> policy_db \<Rightarrow> cert_policy http \<times> policy_db" where
  "toggle_policy db_fails now i db =
     (case row_get cp_id (policies db) i of
        None \<Rightarrow> (error_response ''Not Found'' 404, db)
      | Some p \<Rightarrow>
          if db_fails then (error_response ''Failed to update policy'' 500, db)
          else
            (let f = (\<lambda>q. q\<lparr>cp_is_active := \<not> cp_is_active q, cp_updated_at := Some now\<rparr>)
             in (success_response (f p)
                   (''Policy '' @ (if cp_is_active (f p) then ''enabled'' else ''disabled'')),
                 db\<lparr>policies := row_update cp_id i f (policies db)\<rparr>)))"

subsection \<open>Approvals\<close>

definition count_action :: "string \<Rightarrow> approval_entry list \<Rightarrow> nat" where
  "count_action act es = length (filter (\<lambda>e. ae_action e = act) es)"

definition add_approval ::
  "time \<Rightarrow> int option \<Rightarrow> string \<Rightarrow> string \<Rightarrow> string option \<Rightarrow> approval_request \<Rightarrow> approval_request" where
  "add_approval now user_id username action comment r =
     (let es = apr_approvals r @ [\<lparr>ae_user_id = user_id, ae_username = username, ae_action = action,
                                  ae_comment = comment, ae_timestamp = now\<rparr>];
          r1 = r\<lparr>apr_approvals := es\<rparr>
      in if int (count_action ''approve'' es) \<ge> apr_required_approvals r
         then r1\<lparr>apr_status := ''approved'', apr_resolved_at := Some now\<rparr>
         else if count_action ''reject'' es > 0
         then r1\<lparr>apr_status := ''rejected'', apr_resolved_at := Some now\<rparr>
         else r1)"

definition list_approvals :: "string option \<Rightarrow> policy_db \<Rightarrow> approval_request list http" where
  "list_approvals status_arg db =
     (let st = (case status_arg of None \<Rightarrow> ''pending'' | Some s \<Rightarrow> s);
          rs = (if st \<noteq> ''all'' then filter (\<lambda>r. apr_status r = st) (approval_requests db)
                else approval_requests db)
      in success_response (sort_key (\<lambda>r. - apr_created_at r) rs) [])"

definition get_approval :: "policy_db \<Rightarrow> int \<Rightarrow> approval_request http" where
  "get_approval db i =
     (case row_get apr_id (approval_requests db) i of
        None \<Rightarrow> error_response ''Not Found'' 404
      | Some r \<Rightarrow> success_response r [])"

definition principal_id :: "request_principal option \<Rightarrow> int option" where
  "principal_id who = (case who of None \<Rightarrow> None | Some u \<Rightarrow> rp_id u)"

definition principal_name :: "request_principal option \<Rightarrow> string" where
  "principal_name who = (case who of None \<Rightarrow> ''system''
                         | Some u \<Rightarrow> (case rp_username u of None \<Rightarrow> ''system'' | Some n \<Rightarrow> n))"

definition approve_request ::
  "time \<Rightarrow> request_principal option \<Rightarrow> int \<Rightarrow> string option \<Rightarrow> policy_db
     \<Rightarrow> approval_request http \<times> policy_db" where
  "approve_request now who i comment db =
     (case row_get apr_id (approval_requests db) i of
        None \<Rightarrow> (error_response ''Not Found'' 404, db)
      | Some r \<Rightarrow>
          if apr_status r \<noteq> ''pending''
          then (error_response (''Request is already '' @ apr_status r) 400, db)
          else
            (let f = add_approval now (principal_id who) (principal_name who) ''approve'' comment
             in (success_response (f r) ''Approval recorded'',
                 db\<lparr>approval_requests := row_update apr_id i f (approval_requests db)\<rparr>)))"

definition reject_request ::
  "time \<Rightarrow> request_principal option \<Rightarrow> int \<Rightarrow> string option \<Rightarrow> policy_db
     \<Rightarrow> approval_request http \<times> policy_db" where
  "reject_request now who i comment db =
     (case row_get apr_id (approval_requests db) i of
        None \<Rightarrow> (error_response ''Not Found'' 404, db)
      | Some r \<Rightarrow>
          if apr_status r \<noteq> ''pending''
          then (error_response (''Request is already '' @ apr_status r) 400, db)
          else if \<not> nonempty comment
          then (error_response ''Rejection reason is required'' 400, db)
          else
            (let f = add_approval now (principal_id who) (principal_name who) ''reject'' comment
             in (success_response (f r) ''Request rejected'',
                 db\<lparr>approval_requests := row_update apr_id i f (approval_requests db)\<rparr>)))"

definition status_count :: "string \<Rightarrow> policy_db \<Rightarrow> nat" where
  "status_count st db = length (filter (\<lambda>r. apr_status r = st) (approval_requests db))"

definition approval_stats :: "policy_db \<Rightarrow> (nat \<times> nat \<times> nat \<times> nat) http" where
  "approval_stats db =
     (let pending = status_count ''pending'' db;
          approved = status_count ''approved'' db;
          rejected = status_count ''rejected'' db
      in success_response (pending, approved, rejected, pending + approved + rejected) [])"

subsection \<open>The workflow as a system\<close>

datatype policy_op =
    Create_policy time "request_principal option" policy_body
  | Update_policy time int policy_body
  | Delete_policy bool int
  | Toggle_policy bool time int
  | Approve time "request_principal option" int "string option"
  | Reject time "request_principal option" int "string option"

fun policy_step :: "policy_db \<Rightarrow> policy_op \<Rightarrow> policy_db" where
  "policy_step db (Create_policy now who data) = snd (create_policy now who data db)"
| "policy_step db (Update_policy now i data) = snd (update_policy now i data db)"
| "policy_step db (Delete_policy fails i) = snd (delete_policy fails i db)"
| "policy_step db (Toggle_policy fails now i) = snd (toggle_policy fails now i db)"
| "policy_step db (Approve now who i c) = snd (approve_request now who i c db)"
| "policy_step db (Reject now who i c) = snd (reject_request now who i c db)"

text \<open>A request is sound if its status says what its approvals say.\<close>

definition sound_request :: "approval_request \<Rightarrow> bool" where
  "sound_request r =
     (let a = int (count_action ''approve'' (apr_approvals r)); x = count_action ''reject'' (apr_approvals r)
      in if apr_status r = ''pending'' then apr_resolved_at r = None \<and> a < apr_required_approvals r \<and> x = 0
         else if apr_status r = ''approved'' then apr_resolved_at r \<noteq> None \<and> a \<ge> apr_required_approvals r
         else apr_status r = ''rejected'' \<and> apr_resolved_at r \<noteq> None \<and> a < apr_required_approvals r \<and> x > 0)"

definition policies_ok :: "cert_policy list \<Rightarrow> bool" where
  "policies_ok ps = (keys_ok cp_id ps \<and> distinct (map cp_name ps))"

definition refs_ok :: "int set \<Rightarrow> approval_request list \<Rightarrow> bool" where
  "refs_ok ids rs = list_all (\<lambda>r. set_option (apr_policy_id r) \<subseteq> ids) rs"

definition policy_ok :: "policy_db \<Rightarrow> bool" where
  "policy_ok db =
     (policies_ok (policies db) \<and> keys_ok apr_id (approval_requests db)
      \<and> list_all sound_request (approval_requests db)
      \<and> refs_ok (cp_id ` set (policies db)) (approval_requests db))"

lemma add_approval_fields [simp]:
  "apr_id (add_approval now u n act c r) = apr_id r"
  "apr_policy_id (add_approval now u n act c r) = apr_policy_id r"
  "apr_required_approvals (add_approval now u n act c r) = apr_required_approvals r"
  by (simp_all add: add_approval_def Let_def)

lemma add_approval_sound:
  assumes "sound_request r" "apr_status r = ''pending''"
  shows "sound_request (add_approval now u n act c r)"
  using assms by (auto simp: add_approval_def sound_request_def Let_def count_action_def)

lemma policy_named_None: "policy_named nm ps = None \<longleftrightarrow> nm \<notin> cp_name ` set ps"
  by (auto simp: policy_named_def find_None_iff)

lemma create_policy_cases:
  "snd (create_policy now who data db) = db \<or>
   (\<exists>p. snd (create_policy now who data db) = db\<lparr>policies := policies db @ [p]\<rparr>
      \<and> cp_id p = next_id cp_id (policies db) \<and> cp_name p \<notin> cp_name ` set (policies db))"
proof (cases "nonempty (pb_name data) \<and> policy_named (the (pb_name data)) (policies db) = None")
  case False
  then have "snd (create_policy now who data db) = db"
    by (auto simp: create_policy_def)
  then show ?thesis ..
next
  case True
  then show ?thesis
    unfolding policy_named_None [symmetric]
    by (simp add: create_policy_def Let_def) (rule disjI2, rule exI, intro conjI, rule refl, simp_all)
qed

lemma policies_ok_append:
  "policies_ok ps \<Longrightarrow> cp_id p = next_id cp_id ps \<Longrightarrow> cp_name p \<notin> cp_name ` set ps \<Longrightarrow> policies_ok (ps @ [p])"
  by (simp add: policies_ok_def keys_ok_append)

lemma touch_fields: "cp_id (touch now old p) = cp_id p" "cp_name (touch now old p) = cp_name p"
  by (auto simp: touch_def)

lemma update_policy_cases:
  assumes "policies_ok (policies db)"
  obtains "snd (update_policy now i data db) = db"
  | f where "snd (update_policy now i data db) = db\<lparr>policies := row_update cp_id i f (policies db)\<rparr>"
      "\<And>q. cp_id (f q) = cp_id q" "policies_ok (row_update cp_id i f (policies db))"
proof (cases "row_get cp_id (policies db) i")
  case None
  then show ?thesis using that(1) by (simp add: update_policy_def)
next
  case (Some p)
  let ?f = "\<lambda>q. touch now q (apply_policy_body data q)"
  show ?thesis
  proof (cases "case pb_name data of None \<Rightarrow> False
      | Some nm \<Rightarrow> (case policy_named nm (policies db) of None \<Rightarrow> False | Some e \<Rightarrow> cp_id e \<noteq> i)")
    case True
    then show ?thesis using that(1) Some by (simp add: update_policy_def)
  next
    case False
    have id: "cp_id (?f q) = cp_id q" and nm: "cp_name (?f q) = given (cp_name q) (pb_name data)" for q
      by (simp_all add: touch_fields apply_policy_body_def)
    have names: "distinct (map cp_name (policies db))" "distinct (map cp_id (policies db))"
      using assms by (simp_all add: policies_ok_def keys_ok_def)
    have "cp_name (?f r) \<noteq> cp_name s"
      if "r \<in> set (policies db)" "cp_id r = i" "s \<in> set (policies db)" "cp_id s \<noteq> i" for r s
    proof (cases "pb_name data")
      case None
      then show ?thesis using that names by (auto simp: nm distinct_map dest: inj_onD)
    next
      case (Some new)
      then show ?thesis
        using False that names(1)
        by (auto simp: nm policy_named_def find_None_iff split: option.splits
            dest!: find_Some_in dest: inj_onD simp: distinct_map)
    qed
    then have "policies_ok (row_update cp_id i ?f (policies db))"
      using assms names id unfolding policies_ok_def by (auto intro: keys_ok_update row_update_names)
    then show ?thesis
      using that(2) [of ?f] Some False id by (simp add: update_policy_def Let_def)
  qed
qed

lemma decide_ok:
  assumes "policy_ok db" "row_get apr_id (approval_requests db) i = Some r" "apr_status r = ''pending''"
  shows "policy_ok (db\<lparr>approval_requests :=
           row_update apr_id i (add_approval now u n act c) (approval_requests db)\<rparr>)"
proof -
  let ?rs = "approval_requests db" and ?f = "add_approval now u n act c"
  have d: "distinct (map apr_id ?rs)" and r: "r \<in> set ?rs" "apr_id r = i"
    using assms(1,2) by (auto simp: policy_ok_def keys_ok_def dest: row_get_Some)
  have "q = r" if "q \<in> set ?rs" "apr_id q = i" for q
    using that r d by (metis distinct_map inj_onD)
  then have "list_all sound_request (row_update apr_id i ?f ?rs)"
    using assms by (auto simp: policy_ok_def list_all_iff row_update_def intro: add_approval_sound)
  moreover have "refs_ok ids ?rs \<Longrightarrow> refs_ok ids (row_update apr_id i ?f ?rs)" for ids
    by (auto simp: refs_ok_def row_update_def list_all_iff)
  ultimately show ?thesis
    using assms(1) by (simp add: policy_ok_def keys_ok_update)
qed

lemma refs_mono: "refs_ok ids rs \<Longrightarrow> ids \<subseteq> ids' \<Longrightarrow> refs_ok ids' rs"
  by (auto simp: refs_ok_def list_all_iff)

lemma row_update_keys:
  assumes "\<And>q. key (f q) = key q"
  shows "key ` set (row_update key i f rows) = key ` set rows"
proof -
  have "map key (row_update key i f rows) = map key rows"
    by (simp add: row_update_def assms)
  then show ?thesis by (metis list.set_map)
qed

lemma policies_step_ok:
  assumes "policy_ok db" "policies_ok ps" "cp_id ` set (policies db) \<subseteq> cp_id ` set ps"
  shows "policy_ok (db\<lparr>policies := ps\<rparr>)"
  using assms refs_mono [of "cp_id ` set (policies db)"] by (auto simp: policy_ok_def)

lemma delete_policy_ok:
  assumes "policy_ok db"
  shows "policy_ok (snd (delete_policy fails i db))"
proof (cases "snd (delete_policy fails i db) = db")
  case False
  let ?rs = "filter (\<lambda>r. apr_policy_id r \<noteq> Some i) (approval_requests db)"
  have eq: "snd (delete_policy fails i db)
      = db\<lparr>approval_requests := ?rs, policies := row_delete cp_id i (policies db)\<rparr>"
    using False by (auto simp: delete_policy_def Let_def split: option.splits if_splits)
  have "cp_id ` set (row_delete cp_id i (policies db)) = cp_id ` set (policies db) - {i}"
    by (auto simp: row_delete_def)
  moreover have "refs_ok (cp_id ` set (policies db) - {i}) ?rs"
    using assms by (auto simp: policy_ok_def refs_ok_def list_all_iff)
  ultimately show ?thesis
    using assms unfolding eq
    by (auto simp: policy_ok_def policies_ok_def row_delete_def keys_ok_filter list_all_iff
        distinct_map_filter)
qed (use assms in simp)

lemma policy_step_ok:
  assumes "policy_ok db"
  shows "policy_ok (policy_step db op)"
proof (cases op)
  case (Create_policy now who data)
  have "policies_ok (policies db)" using assms by (simp add: policy_ok_def)
  then show ?thesis
    using assms create_policy_cases [of now who data db] unfolding Create_policy
    by (auto intro!: policies_step_ok policies_ok_append)
next
  case (Update_policy now i data)
  have "policies_ok (policies db)" using assms by (simp add: policy_ok_def)
  then show ?thesis
    unfolding Update_policy policy_step.simps
  proof (rule update_policy_cases [of db now i data])
    fix f assume "snd (update_policy now i data db) = db\<lparr>policies := row_update cp_id i f (policies db)\<rparr>"
      "\<And>q. cp_id (f q) = cp_id q" "policies_ok (row_update cp_id i f (policies db))"
    then show "policy_ok (snd (update_policy now i data db))"
      using policies_step_ok [OF assms] row_update_keys [of cp_id f i "policies db"] by simp
  qed (use assms in simp)
next
  case (Toggle_policy fails now i)
  let ?f = "\<lambda>q. q\<lparr>cp_is_active := \<not> cp_is_active q, cp_updated_at := Some now\<rparr>"
  have "map cp_name (row_update cp_id i ?f (policies db)) = map cp_name (policies db)"
    by (simp add: row_update_def)
  then have "policies_ok (row_update cp_id i ?f (policies db))"
    using assms by (simp add: policy_ok_def policies_ok_def keys_ok_update)
  then have "policy_ok (db\<lparr>policies := row_update cp_id i ?f (policies db)\<rparr>)"
    using policies_step_ok [OF assms] row_update_keys [of cp_id ?f i "policies db"] by simp
  then show ?thesis
    using assms unfolding Toggle_policy by (simp add: toggle_policy_def Let_def split: option.splits)
next
  case (Delete_policy fails i)
  then show ?thesis using delete_policy_ok [OF assms] by simp
next
  case (Approve now who i c)
  then show ?thesis
    using assms by (auto simp: approve_request_def Let_def split: option.splits intro: decide_ok)
next
  case (Reject now who i c)
  then show ?thesis
    using assms by (auto simp: reject_request_def Let_def split: option.splits intro: decide_ok)
qed

interpretation policy_workflow: invariant_system policy_step policy_ok
  by unfold_locales (rule policy_step_ok)

lemma row_get_filter:
  assumes "distinct (map key rows)" "row_get key rows i = Some r"
  shows "row_get key (filter P rows) i = (if P r then Some r else None)"
proof -
  have "q = r" if "q \<in> set rows" "key q = i" for q
    using that assms row_get_Some [OF assms(2)] by (auto simp: distinct_map dest: inj_onD)
  then show ?thesis
    using row_get_Some [OF assms(2)] row_get_Some [of key "filter P rows" i]
      row_get_None [of key "filter P rows" i]
    by (cases "row_get key (filter P rows) i") auto
qed

lemma resolved_step:
  assumes "policy_ok db" "row_get apr_id (approval_requests db) i = Some r" "apr_status r \<noteq> ''pending''"
  shows "row_get apr_id (approval_requests (policy_step db op)) i \<in> {Some r, None}"
proof (cases op)
  case (Create_policy now who data)
  then show ?thesis using assms(2) create_policy_cases [of now who data db] by auto
next
  case (Update_policy now j data)
  then show ?thesis
    using assms(2) by (auto simp: update_policy_def Let_def split: option.splits if_splits)
next
  case (Delete_policy fails j)
  have "distinct (map apr_id (approval_requests db))"
    using assms(1) by (simp add: policy_ok_def keys_ok_def)
  then show ?thesis
    using assms(2) Delete_policy row_get_filter [of apr_id "approval_requests db" i r]
    by (auto simp: delete_policy_def Let_def split: option.splits)
next
  case (Toggle_policy fails now j)
  then show ?thesis
    using assms(2) by (auto simp: toggle_policy_def Let_def split: option.splits)
next
  case (Approve now who j c)
  then show ?thesis
    using assms by (cases "j = i") (auto simp: approve_request_def row_get_update Let_def split: option.splits)
next
  case (Reject now who j c)
  then show ?thesis
    using assms by (cases "j = i") (auto simp: reject_request_def row_get_update Let_def split: option.splits)
qed

lemma absent_step:
  assumes "row_get apr_id (approval_requests db) i = None"
  shows "row_get apr_id (approval_requests (policy_step db op)) i = None"
proof (cases op)
  case (Create_policy now who data)
  then show ?thesis using assms create_policy_cases [of now who data db] by auto
next
  case (Delete_policy fails j)
  then show ?thesis
    using assms by (auto simp: delete_policy_def row_get_None Let_def split: option.splits)
qed (use assms in \<open>auto simp: update_policy_def toggle_policy_def approve_request_def reject_request_def
       row_get_update Let_def split: option.splits if_splits\<close>)

lemma absent_run:
  "row_get apr_id (approval_requests db) i = None
   \<Longrightarrow> row_get apr_id (approval_requests (foldl policy_step db ops)) i = None"
  by (induction ops arbitrary: db) (simp_all add: absent_step)

lemma resolved_run:
  assumes "policy_ok db" "row_get apr_id (approval_requests db) i = Some r" "apr_status r \<noteq> ''pending''"
  shows "row_get apr_id (approval_requests (foldl policy_step db ops)) i \<in> {Some r, None}"
  using assms(1,2)
proof (induction ops arbitrary: db)
  case (Cons op ops)
  from resolved_step [OF Cons.prems assms(3), of op] show ?case
  proof (elim insertE emptyE)
    assume "row_get apr_id (approval_requests (policy_step db op)) i = Some r"
    from Cons.IH [OF policy_step_ok [OF Cons.prems(1)] this] show ?thesis by simp
  qed (simp add: absent_run)
qed simp

text \<open>Approvals given one after the other by the principals \<open>ws\<close>.\<close>

definition approve_all ::
  "time \<Rightarrow> int \<Rightarrow> request_principal option list \<Rightarrow> policy_db \<Rightarrow> policy_db" where
  "approve_all now i ws db = foldl (\<lambda>d w. snd (approve_request now w i None d)) db ws"

lemma approve_pending:
  assumes "row_get apr_id (approval_requests db) i = Some r" "apr_status r = ''pending''" "sound_request r"
  shows "\<exists>r'. row_get apr_id (approval_requests (snd (approve_request now w i c db))) i = Some r'
    \<and> sound_request r' \<and> apr_required_approvals r' = apr_required_approvals r
    \<and> count_action ''approve'' (apr_approvals r') = count_action ''approve'' (apr_approvals r) + 1
    \<and> count_action ''reject'' (apr_approvals r') = 0"
proof -
  let ?r = "add_approval now (principal_id w) (principal_name w) ''approve'' c r"
  have "row_get apr_id (approval_requests (snd (approve_request now w i c db))) i = Some ?r"
    using assms(1,2) by (simp add: approve_request_def row_get_update Let_def)
  moreover have "count_action ''approve'' (apr_approvals ?r) = count_action ''approve'' (apr_approvals r) + 1"
    "count_action ''reject'' (apr_approvals ?r) = count_action ''reject'' (apr_approvals r)"
    by (simp_all add: add_approval_def Let_def count_action_def)
  moreover have "sound_request ?r"
    using assms(2,3) by (intro add_approval_sound)
  moreover have "count_action ''reject'' (apr_approvals r) = 0"
    using assms(2,3) by (simp add: sound_request_def Let_def)
  ultimately show ?thesis by simp
qed

lemma sound_status:
  assumes "sound_request r" "count_action ''reject'' (apr_approvals r) = 0"
  shows "apr_status r = (if int (count_action ''approve'' (apr_approvals r)) \<ge> apr_required_approvals r
                         then ''approved'' else ''pending'')"
  using assms by (auto simp: sound_request_def Let_def split: if_splits)

lemma approve_all_status:
  assumes "row_get apr_id (approval_requests db) i = Some r" "sound_request r"
    "count_action ''reject'' (apr_approvals r) = 0"
  shows "\<exists>r'. row_get apr_id (approval_requests (approve_all now i ws db)) i = Some r' \<and>
    apr_status r' = (if int (count_action ''approve'' (apr_approvals r) + length ws) \<ge> apr_required_approvals r
                     then ''approved'' else ''pending'')"
  using assms
proof (induction ws arbitrary: db r)
  case Nil
  then show ?case using sound_status [of r] by (auto simp: approve_all_def)
next
  case (Cons w ws)
  show ?case
  proof (cases "apr_status r = ''pending''")
    case True
    obtain r' where r': "row_get apr_id (approval_requests (snd (approve_request now w i None db))) i = Some r'"
      "sound_request r'" "apr_required_approvals r' = apr_required_approvals r"
      "count_action ''approve'' (apr_approvals r') = count_action ''approve'' (apr_approvals r) + 1"
      "count_action ''reject'' (apr_approvals r') = 0"
      using approve_pending [OF Cons.prems(1) True Cons.prems(2), of now w None] by blast
    show ?thesis
      using Cons.IH [OF r'(1,2,5)] r'(3,4) by (simp add: approve_all_def)
  next
    case False
    then have "snd (approve_request now w i None db) = db"
      using Cons.prems(1) by (simp add: approve_request_def)
    moreover have "int (count_action ''approve'' (apr_approvals r)) \<ge> apr_required_approvals r"
      using sound_status [OF Cons.prems(2,3)] False by (auto split: if_splits)
    ultimately show ?thesis
      using Cons.IH [OF Cons.prems] by (simp add: approve_all_def)
  qed
qed

subsection \<open>Properties\<close>

text \<open>C27. Every sequence of policy and approval operations, refused commits included, keeps the tables
  consistent: identifiers and policy names are unique, every request refers to a policy that
  exists, and the status of every request is the one its recorded approvals call for (pending as
  long as too few approvals and no rejection are recorded, resolved with a time stamp otherwise).\<close>

theorem policy_workflow_consistent:
  assumes "policy_ok db"
  shows "policy_ok (foldl policy_step db ops)"
  using policy_workflow.run_inv [OF assms] .

definition demo_body :: policy_body where
  "demo_body = \<lparr>pb_name = Some ''TLS'', pb_description = None, pb_policy_type = None, pb_ca_id = None,
     pb_template_id = None, pb_requires_approval = Some True, pb_approval_group_id = None,
     pb_min_approvers = Some 2, pb_notify_on_violation = None, pb_is_active = None, pb_priority = None,
     pb_rules = None, pb_notification_emails = None\<rparr>"

definition demo_request :: approval_request where
  "demo_request = \<lparr>apr_id = 7, apr_request_type = ''certificate'', apr_certificate_id = Some 3,
     apr_policy_id = Some 1, apr_requester_id = 5, apr_requester_comment = None, apr_status = ''pending'',
     apr_approvals = [], apr_required_approvals = 2, apr_created_at = 0, apr_expires_at = None,
     apr_resolved_at = None\<rparr>"

definition demo_policies :: policy_db where
  "demo_policies = (snd (create_policy 0 None demo_body \<lparr>policies = [], approval_requests = []\<rparr>))
     \<lparr>approval_requests := [demo_request]\<rparr>"

lemma demo_policies_ok: "policy_ok demo_policies"
  by (simp add: demo_policies_def create_policy_def demo_body_def demo_request_def policy_ok_def
      policies_ok_def keys_ok_def refs_ok_def sound_request_def count_action_def next_id_def nonempty_def
      policy_named_def Let_def)

theorem policy_workflow_consistent_witness:
  "policy_ok (foldl policy_step demo_policies
     [Approve 1 None 7 None, Delete_policy False 1, Reject 2 None 7 (Some ''no''), Delete_policy False 1])"
  by (rule policy_workflow_consistent) (rule demo_policies_ok)

text \<open>A decision is final: once a request is approved or rejected, no later operation changes any of
  its columns; it can only disappear together with its policy.\<close>

theorem resolved_requests_final:
  assumes "policy_ok db" and "row_get apr_id (approval_requests db) i = Some r"
    and "apr_status r \<noteq> ''pending''"
  shows "row_get apr_id (approval_requests (foldl policy_step db ops)) i \<in> {Some r, None}"
  using resolved_run [OF assms] .

definition demo_resolved :: policy_db where
  "demo_resolved = policy_step demo_policies (Reject 5 None 7 (Some ''no''))"

theorem resolved_requests_final_witness:
  "row_get apr_id (approval_requests (foldl policy_step demo_resolved [Approve 9 None 7 None])) 7
   \<in> {Some (the (row_get apr_id (approval_requests demo_resolved) 7)), None}"
proof (rule resolved_requests_final)
  show "policy_ok demo_resolved"
    unfolding demo_resolved_def by (rule policy_step_ok) (rule demo_policies_ok)
qed (simp_all add: demo_resolved_def demo_policies_def demo_request_def reject_request_def row_get_def
      row_update_def nonempty_def add_approval_def count_action_def Let_def)

text \<open>Approving: as long as nobody rejects, a request becomes approved exactly with the approval that
  completes the required number. Nothing in it looks at who approves: the statement holds for any
  list of principals, so one user, or the unnamed principal, can give all approvals alone.\<close>

theorem approvals_needed:
  assumes "row_get apr_id (approval_requests db) i = Some r" and "sound_request r"
    and "apr_status r = ''pending''"
  shows "\<exists>r'. row_get apr_id (approval_requests (approve_all now i ws db)) i = Some r' \<and>
    apr_status r' = (if int (count_action ''approve'' (apr_approvals r) + length ws) \<ge> apr_required_approvals r
                     then ''approved'' else ''pending'')"
  using approve_all_status [OF assms(1,2)] assms(2,3) by (simp add: sound_request_def Let_def)

theorem approvals_needed_witness:
  "\<exists>r'. row_get apr_id (approval_requests (approve_all 3 7 [None, None] demo_policies)) 7 = Some r'
     \<and> apr_status r' = ''approved''"
proof -
  have "row_get apr_id (approval_requests demo_policies) 7 = Some demo_request"
    by (simp add: demo_policies_def demo_request_def row_get_def)
  from approvals_needed [OF this, of 3 "[None, None]"] show ?thesis
    by (simp add: demo_request_def sound_request_def count_action_def)
qed

text \<open>A request that requires no approvals is approved by its rejection: the number of approvals is
  compared first, and the policy endpoints accept any minimum.\<close>

theorem rejection_can_approve:
  assumes "row_get apr_id (approval_requests db) i = Some r" and "apr_status r = ''pending''"
    and "apr_required_approvals r \<le> 0" and "nonempty comment"
  shows "\<exists>r'. reject_request now who i comment db
           = (success_response r' ''Request rejected'',
              db\<lparr>approval_requests := row_update apr_id i
                   (add_approval now (principal_id who) (principal_name who) ''reject'' comment)
                   (approval_requests db)\<rparr>) \<and> apr_status r' = ''approved''"
  using assms by (simp add: reject_request_def add_approval_def success_response_def Let_def)

theorem rejection_can_approve_witness:
  "\<exists>r'. reject_request 1 None 7 (Some ''bad key'')
      \<lparr>policies = [], approval_requests = [demo_request\<lparr>apr_required_approvals := 0\<rparr>]\<rparr>
    = (success_response r' ''Request rejected'',
       \<lparr>policies = [], approval_requests = [demo_request\<lparr>apr_required_approvals := 0\<rparr>]\<rparr>
       \<lparr>approval_requests := row_update apr_id 7
          (add_approval 1 (principal_id None) (principal_name None) ''reject'' (Some ''bad key''))
          (approval_requests \<lparr>policies = [], approval_requests = [demo_request\<lparr>apr_required_approvals := 0\<rparr>]\<rparr>)\<rparr>)
    \<and> apr_status r' = ''approved''"
  by (rule rejection_can_approve [where r = "demo_request\<lparr>apr_required_approvals := 0\<rparr>"])
    (simp_all add: row_get_def demo_request_def nonempty_def)

end
