(* ===== verification/Acme.thy ===== *)
theory Acme
  imports Text_Format
begin

text \<open>
  The ACME server: \<^verbatim>\<open>models/acme_models.py\<close> (accounts, orders, authorizations, challenges and
  nonces) and \<^verbatim>\<open>services/acme/acme_service.py\<close>, with the domain tables that choose the issuing CA
  (\<^verbatim>\<open>api/v2/acme_local_domains.py\<close>, \<^verbatim>\<open>api/v2/acme_domains.py\<close>).

  Parameters stand for what the sources only call: \<open>sha_b64\<close> is the unpadded base64url text of a
  SHA-256 digest, \<open>http_get\<close> and \<open>resolve_txt\<close> the network (an error text or the answer),
  \<open>load_csr\<close> the CSR parser, \<open>sign_csr\<close> the signing service, and \<open>rand\<close> numbers the random
  tokens one call draws. Columns with JSON text hold the value. An identifier is its type and value.
\<close>

subsection \<open>Tables\<close>

record acme_account =
  ac_id :: int
  ac_account_id :: string
  ac_jwk :: "(string \<times> json) list"
  ac_jwk_thumbprint :: string
  ac_contact :: "json option"
  ac_status :: string
  ac_terms_of_service_agreed :: bool
  ac_external_account_binding :: "string option"
  ac_created_at :: time
  ac_updated_at :: time

record acme_identifier =
  id_type :: string
  id_value :: string

definition identifier_text :: "acme_identifier \<Rightarrow> string" where
  "identifier_text d = json_dumps (JObj [(''type'', JStr (id_type d)), (''value'', JStr (id_value d))])"

record acme_order =
  or_id :: int
  or_order_id :: string
  or_account_id :: string
  or_status :: string
  or_identifiers :: "acme_identifier list"
  or_not_before :: "time option"
  or_not_after :: "time option"
  or_error :: "(string \<times> string) option"
  or_csr :: "string option"
  or_certificate_id :: "int option"
  or_certificate_url :: "string option"
  or_created_at :: time
  or_expires :: time

record acme_authorization =
  az_id :: int
  az_authorization_id :: string
  az_order_id :: string
  az_identifier :: acme_identifier
  az_status :: string
  az_expires :: time
  az_wildcard :: bool
  az_created_at :: time

record acme_challenge =
  ch_id :: int
  ch_challenge_id :: string
  ch_authorization_id :: string
  ch_type :: string
  ch_status :: string
  ch_token :: string
  ch_url :: "string option"
  ch_validated :: "time option"
  ch_error :: "(string \<times> string) option"
  ch_created_at :: time

record acme_nonce =
  no_id :: int
  no_token :: string
  no_created_at :: time
  no_expires_at :: time
  no_used :: bool
  no_used_at :: "time option"

record ca_row =
  ca_id :: int
  ca_refid :: string
  ca_prv :: "string option"
  ca_crt :: "string option"
  ca_caref :: "string option"

record cert_row =
  ce_id :: int
  ce_refid :: string
  ce_descr :: string
  ce_caref :: "string option"
  ce_csr :: string
  ce_crt :: "string option"
  ce_cert_type :: string
  ce_source :: string
  ce_created_by :: string

record acme_db =
  accounts :: "acme_account list"
  orders :: "acme_order list"
  authorizations :: "acme_authorization list"
  challenges :: "acme_challenge list"
  nonces :: "acme_nonce list"
  cas :: "ca_row list"
  certs :: "cert_row list"
  local_domains :: "(string \<times> int) list"
  dns_domains :: "(string \<times> int option) list"
  acme_config :: "(string \<times> string) list"

subsection \<open>Nonces\<close>

text \<open>The column \<^verbatim>\<open>token\<close> is unique: inserting a token that is present raises.\<close>

definition generate_nonce :: "time \<Rightarrow> string \<Rightarrow> acme_db \<Rightarrow> (string + string) \<times> acme_db" where
  "generate_nonce now tok db =
     (if tok \<in> no_token ` set (nonces db) then (Inl ''IntegrityError'', db)
      else
        (Inr tok,
         db\<lparr>nonces := nonces db @ [\<lparr>no_id = next_id no_id (nonces db), no_token = tok, no_created_at = now,
              no_expires_at = now + hours 1, no_used = False, no_used_at = None\<rparr>]\<rparr>))"

definition nonce_matches :: "time \<Rightarrow> string \<Rightarrow> acme_nonce \<Rightarrow> bool" where
  "nonce_matches now tok n = (no_token n = tok \<and> \<not> no_used n \<and> no_expires_at n > now)"

definition validate_nonce :: "time \<Rightarrow> string \<Rightarrow> acme_db \<Rightarrow> bool \<times> acme_db" where
  "validate_nonce now tok db =
     (length (filter (nonce_matches now tok) (nonces db)) > 0,
      db\<lparr>nonces := map (\<lambda>n. if nonce_matches now tok n then n\<lparr>no_used := True, no_used_at := Some now\<rparr> else n)
                      (nonces db)\<rparr>)"

definition cleanup_expired_nonces :: "time \<Rightarrow> acme_db \<Rightarrow> nat \<times> acme_db" where
  "cleanup_expired_nonces now db =
     (length (filter (\<lambda>n. no_expires_at n < now) (nonces db)),
      db\<lparr>nonces := filter (\<lambda>n. \<not> no_expires_at n < now) (nonces db)\<rparr>)"

subsection \<open>Accounts\<close>

text \<open>\<^verbatim>\<open>json.dumps(d, sort_keys=True, separators=(',', ':'))\<close> on the fields of a thumbprint, which are
  listed in order.\<close>

definition compact_object :: "(string \<times> json) list \<Rightarrow> string" where
  "compact_object kvs = ''{'' @ join_with '','' (map (\<lambda>(k, v). json_string k @ '':'' @ json_dumps v) kvs) @ ''}''"

definition thumbprint_fields :: "(string \<times> json) list \<Rightarrow> string list option" where
  "thumbprint_fields jwk =
     (if jget jwk ''kty'' = JStr ''RSA'' then Some [''e'', ''kty'', ''n'']
      else if jget jwk ''kty'' = JStr ''EC'' then Some [''crv'', ''kty'', ''x'', ''y'']
      else None)"

definition compute_jwk_thumbprint ::
  "(string \<Rightarrow> string) \<Rightarrow> (string \<times> json) list \<Rightarrow> string + string" where
  "compute_jwk_thumbprint sha_b64 jwk =
     (case thumbprint_fields jwk of
        None \<Rightarrow> Inl ''ValueError''
      | Some ks \<Rightarrow>
          if list_all (jhas jwk) ks
          then Inr (sha_b64 (compact_object (map (\<lambda>k. (k, jget jwk k)) ks)))
          else Inl ''KeyError'')"

definition find_thumbprint :: "string \<Rightarrow> acme_db \<Rightarrow> acme_account option" where
  "find_thumbprint tp db = find (\<lambda>a. ac_jwk_thumbprint a = tp) (accounts db)"

definition create_account ::
  "(string \<Rightarrow> string) \<Rightarrow> time \<Rightarrow> string \<Rightarrow> (string \<times> json) list \<Rightarrow> json \<Rightarrow> bool \<Rightarrow> acme_db
     \<Rightarrow> (string + acme_account \<times> bool) \<times> acme_db" where
  "create_account sha_b64 now rand_id jwk contact terms db =
     (case compute_jwk_thumbprint sha_b64 jwk of
        Inl e \<Rightarrow> (Inl e, db)
      | Inr tp \<Rightarrow>
          (case find_thumbprint tp db of
             Some a \<Rightarrow> (Inr (a, False), db)
           | None \<Rightarrow>
               if rand_id \<in> ac_account_id ` set (accounts db) then (Inl ''IntegrityError'', db)
               else
                 (let a = \<lparr>ac_id = next_id ac_id (accounts db), ac_account_id = rand_id, ac_jwk = jwk,
                           ac_jwk_thumbprint = tp, ac_contact = (if truthy contact then Some contact else None),
                           ac_status = ''valid'', ac_terms_of_service_agreed = terms,
                           ac_external_account_binding = None, ac_created_at = now, ac_updated_at = now\<rparr>
                  in (Inr (a, True), db\<lparr>accounts := accounts db @ [a]\<rparr>))))"

definition get_account_by_kid :: "string \<Rightarrow> acme_db \<Rightarrow> acme_account option" where
  "get_account_by_kid aid db = find (\<lambda>a. ac_account_id a = aid) (accounts db)"

definition update_account :: "string \<Rightarrow> (acme_account \<Rightarrow> acme_account) \<Rightarrow> acme_db \<Rightarrow> acme_db" where
  "update_account aid f db =
     db\<lparr>accounts := map (\<lambda>a. if ac_account_id a = aid then f a else a) (accounts db)\<rparr>"

definition deactivate_account :: "time \<Rightarrow> string \<Rightarrow> acme_db \<Rightarrow> bool \<times> acme_db" where
  "deactivate_account now aid db =
     (case get_account_by_kid aid db of
        None \<Rightarrow> (False, db)
      | Some _ \<Rightarrow> (True, update_account aid (\<lambda>a. a\<lparr>ac_status := ''deactivated'', ac_updated_at := now\<rparr>) db))"

subsection \<open>Orders and authorizations\<close>

definition get_order :: "string \<Rightarrow> acme_db \<Rightarrow> acme_order option" where
  "get_order oid db = find (\<lambda>o'. or_order_id o' = oid) (orders db)"

definition update_order :: "string \<Rightarrow> (acme_order \<Rightarrow> acme_order) \<Rightarrow> acme_db \<Rightarrow> acme_db" where
  "update_order oid f db = db\<lparr>orders := map (\<lambda>o'. if or_order_id o' = oid then f o' else o') (orders db)\<rparr>"

definition order_authorizations :: "string \<Rightarrow> acme_db \<Rightarrow> acme_authorization list" where
  "order_authorizations oid db = filter (\<lambda>a. az_order_id a = oid) (authorizations db)"

definition authorization_challenges :: "string \<Rightarrow> acme_db \<Rightarrow> acme_challenge list" where
  "authorization_challenges aid db = filter (\<lambda>c. ch_authorization_id c = aid) (challenges db)"

definition all_valid :: "string \<Rightarrow> acme_db \<Rightarrow> bool" where
  "all_valid oid db = list_all (\<lambda>a. az_status a = ''valid'') (order_authorizations oid db)"

text \<open>The random values of one authorization: its identifier and, per challenge, identifier, token and
  the last part of the URL.\<close>

definition new_challenge ::
  "string \<Rightarrow> time \<Rightarrow> string \<Rightarrow> string \<Rightarrow> string \<Rightarrow> time option \<Rightarrow> string \<Rightarrow> string \<Rightarrow> string \<Rightarrow> acme_db \<Rightarrow> acme_db" where
  "new_challenge base_url now aid typ status validated cid tok url_part db =
     db\<lparr>challenges := challenges db @
       [\<lparr>ch_id = next_id ch_id (challenges db), ch_challenge_id = cid, ch_authorization_id = aid, ch_type = typ,
         ch_status = status, ch_token = tok, ch_url = Some (base_url @ ''/acme/challenge/'' @ url_part),
         ch_validated = validated, ch_error = None, ch_created_at = now\<rparr>]\<rparr>"

definition create_challenges ::
  "string \<Rightarrow> time \<Rightarrow> (nat \<Rightarrow> string) \<Rightarrow> string \<Rightarrow> string \<Rightarrow> time option \<Rightarrow> acme_db \<Rightarrow> acme_db" where
  "create_challenges base_url now rand aid status validated db =
     new_challenge base_url now aid ''dns-01'' status validated (rand 4) (rand 5) (rand 6)
       (new_challenge base_url now aid ''http-01'' status validated (rand 1) (rand 2) (rand 3) db)"

definition reusable :: "time \<Rightarrow> string \<Rightarrow> acme_identifier \<Rightarrow> acme_db \<Rightarrow> acme_authorization option" where
  "reusable now account ident db =
     (case sort_key (\<lambda>a. - az_expires a)
             (filter (\<lambda>a. (case get_order (az_order_id a) db of
                             None \<Rightarrow> False | Some o' \<Rightarrow> or_account_id o' = account)
                        \<and> identifier_text (az_identifier a) = identifier_text ident
                        \<and> az_status a = ''valid'' \<and> az_expires a > now) (authorizations db)) of
        [] \<Rightarrow> None
      | a # _ \<Rightarrow> Some a)"

definition create_authorization ::
  "string \<Rightarrow> time \<Rightarrow> (nat \<Rightarrow> string) \<Rightarrow> string \<Rightarrow> acme_identifier \<Rightarrow> string \<Rightarrow> acme_db \<Rightarrow> acme_db" where
  "create_authorization base_url now rand oid ident account db =
     (let found = (if account \<noteq> [] then reusable now account ident db else None);
          st = (case found of Some _ \<Rightarrow> ''valid'' | None \<Rightarrow> ''pending'');
          auth = \<lparr>az_id = next_id az_id (authorizations db), az_authorization_id = rand 0, az_order_id = oid,
                  az_identifier = ident, az_status = st,
                  az_expires = (case found of Some v \<Rightarrow> az_expires v | None \<Rightarrow> now + days 7),
                  az_wildcard = False, az_created_at = now\<rparr>
      in create_challenges base_url now rand (rand 0) st
           (case found of Some _ \<Rightarrow> Some now | None \<Rightarrow> None)
           (db\<lparr>authorizations := authorizations db @ [auth]\<rparr>))"

fun create_authorizations ::
  "string \<Rightarrow> time \<Rightarrow> (nat \<Rightarrow> nat \<Rightarrow> string) \<Rightarrow> nat \<Rightarrow> string \<Rightarrow> acme_identifier list \<Rightarrow> string \<Rightarrow> acme_db \<Rightarrow> acme_db" where
  "create_authorizations base_url now rand k oid [] account db = db"
| "create_authorizations base_url now rand k oid (d # ds) account db =
     create_authorizations base_url now rand (Suc k) oid ds account
       (create_authorization base_url now (rand k) oid d account db)"

text \<open>
  \<^verbatim>\<open>create_order\<close>. The relationship \<^verbatim>\<open>order.authorizations\<close> is loaded dynamically: the object is
  true whatever it holds, so the test of the reuse case is \<^verbatim>\<open>all\<close> alone.
\<close>

definition create_order ::
  "string \<Rightarrow> time \<Rightarrow> string \<Rightarrow> (nat \<Rightarrow> nat \<Rightarrow> string) \<Rightarrow> string \<Rightarrow> acme_identifier list \<Rightarrow> time option \<Rightarrow> time option
     \<Rightarrow> acme_db \<Rightarrow> acme_order \<times> acme_db" where
  "create_order base_url now oid rand account idents not_before not_after db =
     (let ord = \<lparr>or_id = next_id or_id (orders db), or_order_id = oid, or_account_id = account,
                 or_status = ''pending'', or_identifiers = idents, or_not_before = not_before,
                 or_not_after = not_after, or_error = None, or_csr = None, or_certificate_id = None,
                 or_certificate_url = None, or_created_at = now, or_expires = now + days 7\<rparr>;
          db1 = create_authorizations base_url now rand 0 oid idents account
                  (db\<lparr>orders := orders db @ [ord]\<rparr>);
          ready = all_valid oid db1
      in if ready then (ord\<lparr>or_status := ''ready''\<rparr>, update_order oid (\<lambda>o'. o'\<lparr>or_status := ''ready''\<rparr>) db1)
         else (ord, db1))"

subsection \<open>Challenges\<close>

definition get_challenge :: "string \<Rightarrow> acme_db \<Rightarrow> acme_challenge option" where
  "get_challenge cid db = find (\<lambda>c. ch_challenge_id c = cid) (challenges db)"

definition update_challenge :: "int \<Rightarrow> (acme_challenge \<Rightarrow> acme_challenge) \<Rightarrow> acme_db \<Rightarrow> acme_db" where
  "update_challenge i f db = db\<lparr>challenges := row_update ch_id i f (challenges db)\<rparr>"

definition get_authorization :: "string \<Rightarrow> acme_db \<Rightarrow> acme_authorization option" where
  "get_authorization aid db = find (\<lambda>a. az_authorization_id a = aid) (authorizations db)"

definition set_authorization_valid :: "string \<Rightarrow> acme_db \<Rightarrow> acme_db" where
  "set_authorization_valid aid db =
     db\<lparr>authorizations := map (\<lambda>a. if az_authorization_id a = aid then a\<lparr>az_status := ''valid''\<rparr> else a)
                            (authorizations db)\<rparr>"

definition update_authorization_status :: "acme_authorization \<Rightarrow> acme_db \<Rightarrow> acme_db" where
  "update_authorization_status auth db =
     (let aid = az_authorization_id auth
      in if list_ex (\<lambda>c. ch_status c = ''valid'') (authorization_challenges aid db)
         then (let db1 = set_authorization_valid aid db
               in if all_valid (az_order_id auth) db1
                  then update_order (az_order_id auth) (\<lambda>o'. o'\<lparr>or_status := ''ready''\<rparr>) db1
                  else db1)
         else db)"

definition compute_key_authorization :: "string \<Rightarrow> string \<Rightarrow> string" where
  "compute_key_authorization tok thumbprint = tok @ ''.'' @ thumbprint"

text \<open>What both validations do with the verdict on a challenge.\<close>

definition accept_challenge :: "time \<Rightarrow> acme_challenge \<Rightarrow> acme_authorization \<Rightarrow> acme_db \<Rightarrow> bool \<times> acme_db" where
  "accept_challenge now c auth db =
     (True, update_authorization_status auth
              (update_challenge (ch_id c) (\<lambda>c. c\<lparr>ch_status := ''valid'', ch_validated := Some now\<rparr>) db))"

definition refuse_challenge :: "acme_challenge \<Rightarrow> string \<Rightarrow> string \<Rightarrow> acme_db \<Rightarrow> bool \<times> acme_db" where
  "refuse_challenge c kind detail db =
     (False, update_challenge (ch_id c)
               (\<lambda>c. c\<lparr>ch_status := ''invalid'',
                      ch_error := Some (''urn:ietf:params:acme:error:'' @ kind, detail)\<rparr>) db)"

definition validate_http01_challenge ::
  "(string \<Rightarrow> string + string) \<Rightarrow> time \<Rightarrow> acme_challenge \<Rightarrow> acme_authorization \<Rightarrow> acme_account \<Rightarrow> acme_db
     \<Rightarrow> bool \<times> acme_db" where
  "validate_http01_challenge http_get now c auth account db =
     (let domain = id_value (az_identifier auth);
          key_authz = compute_key_authorization (ch_token c) (ac_jwk_thumbprint account)
      in case http_get (''http://'' @ domain @ ''/.well-known/acme-challenge/'' @ ch_token c) of
           Inr body \<Rightarrow>
             if strip body = key_authz then accept_challenge now c auth db
             else refuse_challenge c ''incorrectResponse'' ''Key authorization mismatch'' db
         | Inl e \<Rightarrow> refuse_challenge c ''connection'' e db)"

definition validate_dns01_challenge ::
  "(string \<Rightarrow> string) \<Rightarrow> (string \<Rightarrow> string + string list) \<Rightarrow> time \<Rightarrow> acme_challenge \<Rightarrow> acme_authorization
     \<Rightarrow> acme_account \<Rightarrow> acme_db \<Rightarrow> bool \<times> acme_db" where
  "validate_dns01_challenge sha_b64 resolve_txt now c auth account db =
     (let domain = id_value (az_identifier auth);
          key_authz = compute_key_authorization (ch_token c) (ac_jwk_thumbprint account);
          txt_value = sha_b64 key_authz;
          txt_record = ''_acme-challenge.'' @ domain
      in case resolve_txt txt_record of
           Inr answers \<Rightarrow>
             if list_ex (contains txt_value) answers then accept_challenge now c auth db
             else refuse_challenge c ''incorrectResponse'' (''No matching TXT record found at '' @ txt_record) db
         | Inl e \<Rightarrow> refuse_challenge c ''dns'' e db)"

subsection \<open>Choosing the CA\<close>

definition base_domain :: "string \<Rightarrow> string" where
  "base_domain d = (let l = lower (strip d) in if startswith l ''*.'' then drop 2 l else l)"

text \<open>The domain itself, then its parents from the nearest up.\<close>

definition domain_candidates :: "string \<Rightarrow> string list" where
  "domain_candidates d =
     (let b = base_domain d; parts = split_on (CHR ''.'') b
      in b # map (\<lambda>i. join_with ''.'' (drop i parts)) [1..<length parts])"

definition find_local_domain_ca :: "string \<Rightarrow> acme_db \<Rightarrow> int option" where
  "find_local_domain_ca d db =
     (case find (\<lambda>c. map_of (local_domains db) c \<noteq> None) (domain_candidates d) of
        None \<Rightarrow> None
      | Some c \<Rightarrow> map_of (local_domains db) c)"

text \<open>\<^verbatim>\<open>find_provider_for_domain\<close>: the part of its answer this component uses, the issuing CA of the
  matched domain, which may be empty.\<close>

definition find_provider_for_domain :: "string \<Rightarrow> acme_db \<Rightarrow> int option option" where
  "find_provider_for_domain d db =
     (case find (\<lambda>c. map_of (dns_domains db) c \<noteq> None) (domain_candidates d) of
        None \<Rightarrow> None
      | Some c \<Rightarrow> map_of (dns_domains db) c)"

definition usable_ca :: "ca_row option \<Rightarrow> string option" where
  "usable_ca ca = (case ca of None \<Rightarrow> None | Some c \<Rightarrow> if nonempty (ca_prv c) then Some (ca_refid c) else None)"

definition ca_by_id :: "int option \<Rightarrow> acme_db \<Rightarrow> string option" where
  "ca_by_id i db = (case i of None \<Rightarrow> None | Some n \<Rightarrow> if n = 0 then None else usable_ca (row_get ca_id (cas db) n))"

fun first_some :: "('a \<Rightarrow> 'b option) \<Rightarrow> 'a list \<Rightarrow> 'b option" where
  "first_some f [] = None"
| "first_some f (x # xs) = (case f x of Some y \<Rightarrow> Some y | None \<Rightarrow> first_some f xs)"

definition ca_by_refid :: "string \<Rightarrow> acme_db \<Rightarrow> ca_row option" where
  "ca_by_refid r db = find (\<lambda>c. ca_refid c = r) (cas db)"

definition resolve_ca_for_domains :: "string list \<Rightarrow> acme_db \<Rightarrow> string option" where
  "resolve_ca_for_domains doms db =
     (case first_some (\<lambda>d. ca_by_id (find_local_domain_ca d db) db) doms of
        Some r \<Rightarrow> Some r
      | None \<Rightarrow>
          (case first_some (\<lambda>d. case find_provider_for_domain d db of
                                 None \<Rightarrow> None | Some i \<Rightarrow> ca_by_id i db) doms of
             Some r \<Rightarrow> Some r
           | None \<Rightarrow>
               (case map_of (acme_config db) ''acme.issuing_ca_id'' of
                  None \<Rightarrow> None
                | Some v \<Rightarrow>
                    if v = [] then None
                    else (case ca_by_refid v db of
                            Some c \<Rightarrow> usable_ca (Some c)
                          | None \<Rightarrow> (case py_int 10 v of
                                      None \<Rightarrow> None
                                    | Some n \<Rightarrow> usable_ca (row_get ca_id (cas db) n))))))"

subsection \<open>Finalization\<close>

record csr =
  csr_cn :: "string list"
  csr_san :: "(bool \<times> string) list option"

definition dns_names :: "csr \<Rightarrow> string list" where
  "dns_names c = (case csr_san c of None \<Rightarrow> [] | Some ns \<Rightarrow> map snd (filter fst ns))"

definition extract_domains_from_csr :: "csr \<Rightarrow> string list" where
  "extract_domains_from_csr c =
     foldl (\<lambda>ds n. if n \<in> set ds then ds else ds @ [n]) (take 1 (csr_cn c)) (dns_names c)"

definition csr_description :: "string \<Rightarrow> (string + csr) \<Rightarrow> string" where
  "csr_description oid parsed =
     (let dflt = ''ACME Certificate - Order '' @ oid
      in case parsed of
           Inl _ \<Rightarrow> dflt
         | Inr c \<Rightarrow>
             (let cn = (case csr_cn c of [] \<Rightarrow> [] | n # _ \<Rightarrow> n);
                  nm = (if cn = [] then (case dns_names c of [] \<Rightarrow> [] | n # _ \<Rightarrow> n) else cn)
              in if nm = [] then dflt else nm))"

text \<open>\<open>sign_csr\<close> is \<^verbatim>\<open>CertificateService.sign_csr\<close>: from the certificate row and the CA to an error or
  the signed certificate text; a failure rolls the new row back.\<close>

definition sign_certificate_with_ca ::
  "(string \<Rightarrow> string + csr) \<Rightarrow> (string \<Rightarrow> string) \<Rightarrow> (cert_row \<Rightarrow> string \<Rightarrow> string + string) \<Rightarrow> string
     \<Rightarrow> acme_order \<Rightarrow> string \<Rightarrow> string option \<Rightarrow> acme_db \<Rightarrow> (string + int) \<times> acme_db" where
  "sign_certificate_with_ca load_csr b64 sign_csr refid order csr_pem ca_refid_arg db =
     (case (if nonempty ca_refid_arg then ca_by_refid (the ca_refid_arg) db
            else find (\<lambda>c. ca_prv c \<noteq> None) (cas db)) of
        None \<Rightarrow> (Inl ''No CA available for signing'', db)
      | Some ca \<Rightarrow>
          if \<not> nonempty (ca_prv ca) then (Inl (''CA '' @ ca_refid ca @ '' has no private key''), db)
          else
            (let cert = \<lparr>ce_id = next_id ce_id (certs db), ce_refid = refid,
                         ce_descr = csr_description (or_order_id order) (load_csr csr_pem),
                         ce_caref = Some (ca_refid ca), ce_csr = b64 csr_pem, ce_crt = None,
                         ce_cert_type = ''server_cert'', ce_source = ''acme'', ce_created_by = ''acme''\<rparr>
             in case sign_csr cert (ca_refid ca) of
                  Inl e \<Rightarrow> (Inl (''Certificate signing failed: '' @ e), db)
                | Inr crt \<Rightarrow> (Inr (ce_id cert), db\<lparr>certs := certs db @ [cert\<lparr>ce_crt := Some crt\<rparr>]\<rparr>)))"

datatype finalize_error =
    Order_not_found
  | Order_not_ready string
  | Invalid_csr string
  | Domain_mismatch "string list" "string list"
  | Signing_failed string

definition dns_domains_of :: "acme_order \<Rightarrow> string list" where
  "dns_domains_of order = map id_value (filter (\<lambda>d. id_type d = ''dns'') (or_identifiers order))"

definition finalize_order ::
  "string \<Rightarrow> (string \<Rightarrow> string + csr) \<Rightarrow> (string \<Rightarrow> string) \<Rightarrow> (cert_row \<Rightarrow> string \<Rightarrow> string + string) \<Rightarrow> string
     \<Rightarrow> string \<Rightarrow> string \<Rightarrow> string option \<Rightarrow> acme_db \<Rightarrow> finalize_error option \<times> acme_db" where
  "finalize_order base_url load_csr b64 sign_csr refid oid csr_pem ca_refid_arg db =
     (case get_order oid db of
        None \<Rightarrow> (Some Order_not_found, db)
      | Some order \<Rightarrow>
          if or_status order \<noteq> ''ready'' then (Some (Order_not_ready (or_status order)), db)
          else
            (case load_csr csr_pem of
               Inl e \<Rightarrow> (Some (Invalid_csr e), db)
             | Inr c \<Rightarrow>
                 (let csr_domains = extract_domains_from_csr c; order_domains = dns_domains_of order
                  in if set csr_domains \<noteq> set order_domains
                     then (Some (Domain_mismatch csr_domains order_domains), db)
                     else
                       (let ca = (if nonempty ca_refid_arg then ca_refid_arg
                                  else resolve_ca_for_domains order_domains db)
                        in case sign_certificate_with_ca load_csr b64 sign_csr refid order csr_pem ca db of
                             (Inl e, db1) \<Rightarrow>
                               (Some (Signing_failed e),
                                update_order oid
                                  (\<lambda>o'. o'\<lparr>or_status := ''invalid'',
                                    or_error := Some (''urn:ietf:params:acme:error:serverInternal'', e)\<rparr>) db1)
                           | (Inr cert_id, db1) \<Rightarrow>
                               (None,
                                update_order oid
                                  (\<lambda>o'. o'\<lparr>or_status := ''valid'', or_csr := Some csr_pem,
                                    or_certificate_id := Some cert_id,
                                    or_certificate_url := Some (base_url @ ''/acme/cert/'' @ oid)\<rparr>) db1)))))"

definition get_directory :: "string \<Rightarrow> (string \<times> string) list" where
  "get_directory base_url =
     map (\<lambda>(k, path). (k, base_url @ path))
       [(''newNonce'', ''/acme/new-nonce''), (''newAccount'', ''/acme/new-account''),
        (''newOrder'', ''/acme/new-order''), (''revokeCert'', ''/acme/revoke-cert''),
        (''keyChange'', ''/acme/key-change'')]"

subsection \<open>Invariant\<close>

text \<open>
  A challenge is valid only if it was validated; an authorization only if one of its challenges
  was; an order has an authorization for each identifier, and all of them are valid once it is
  ready.
\<close>

definition chal_ok :: "acme_challenge \<Rightarrow> bool" where
  "chal_ok c \<longleftrightarrow> ch_status c = ''valid'' \<longrightarrow> ch_validated c \<noteq> None"

definition proven :: "acme_challenge list \<Rightarrow> acme_authorization \<Rightarrow> bool" where
  "proven cs a \<longleftrightarrow> (\<exists>c \<in> set cs. ch_authorization_id c = az_authorization_id a \<and> ch_validated c \<noteq> None)"

definition auth_ok :: "acme_challenge list \<Rightarrow> acme_authorization \<Rightarrow> bool" where
  "auth_ok cs a \<longleftrightarrow> az_status a = ''valid'' \<longrightarrow> proven cs a"

definition covered :: "acme_authorization list \<Rightarrow> acme_order \<Rightarrow> bool" where
  "covered auths o' \<longleftrightarrow>
     (\<forall>d \<in> set (or_identifiers o'). \<exists>a \<in> set auths. az_order_id a = or_order_id o' \<and> az_identifier a = d)"

definition order_ok :: "acme_db \<Rightarrow> acme_order \<Rightarrow> bool" where
  "order_ok db o' \<longleftrightarrow> covered (authorizations db) o'
     \<and> (or_status o' \<in> {''ready'', ''valid''} \<longrightarrow> all_valid (or_order_id o') db)"

definition acme_ok :: "acme_db \<Rightarrow> bool" where
  "acme_ok db \<longleftrightarrow> (\<forall>o' \<in> set (orders db). order_ok db o')
     \<and> (\<forall>a \<in> set (authorizations db). auth_ok (challenges db) a) \<and> (\<forall>c \<in> set (challenges db). chal_ok c)"

lemma all_valid_iff:
  "all_valid oid db \<longleftrightarrow> (\<forall>a \<in> set (authorizations db). az_order_id a = oid \<longrightarrow> az_status a = ''valid'')"
  by (auto simp: all_valid_def order_authorizations_def list_all_iff)

lemma auth_ok_mono: "auth_ok cs a \<Longrightarrow> set cs \<subseteq> set ds \<Longrightarrow> auth_ok ds a"
  by (auto simp: auth_ok_def proven_def)

lemma create_authorization_effect:
  assumes "db' = create_authorization base_url now rand oid ident account db"
  shows "\<exists>a cs. authorizations db' = authorizations db @ [a] \<and> challenges db' = challenges db @ cs
    \<and> az_order_id a = oid \<and> az_identifier a = ident \<and> auth_ok cs a \<and> list_all chal_ok cs
    \<and> orders db' = orders db \<and> accounts db' = accounts db \<and> nonces db' = nonces db \<and> certs db' = certs db
    \<and> cas db' = cas db"
  using assms
  by (cases "if account \<noteq> [] then reusable now account ident db else None")
    (auto simp: create_authorization_def create_challenges_def new_challenge_def auth_ok_def
      proven_def chal_ok_def Let_def)

lemma create_authorizations_effect:
  "\<exists>as cs. authorizations (create_authorizations base_url now rand k oid ds account db) = authorizations db @ as
    \<and> challenges (create_authorizations base_url now rand k oid ds account db) = challenges db @ cs
    \<and> (\<forall>a \<in> set as. az_order_id a = oid \<and> auth_ok cs a) \<and> az_identifier ` set as = set ds \<and> list_all chal_ok cs
    \<and> orders (create_authorizations base_url now rand k oid ds account db) = orders db"
proof (induction ds arbitrary: k db)
  case Nil
  then show ?case by (intro exI [of _ "[]"]) simp
next
  case (Cons d ds)
  let ?db = "create_authorization base_url now (rand k) oid d account db"
  obtain a cs where e: "authorizations ?db = authorizations db @ [a]" "challenges ?db = challenges db @ cs"
    "az_order_id a = oid" "az_identifier a = d" "auth_ok cs a" "list_all chal_ok cs" "orders ?db = orders db"
    using create_authorization_effect [OF refl] by blast
  obtain as ds' where i:
    "authorizations (create_authorizations base_url now rand (Suc k) oid ds account ?db) = authorizations ?db @ as"
    "challenges (create_authorizations base_url now rand (Suc k) oid ds account ?db) = challenges ?db @ ds'"
    "\<forall>a \<in> set as. az_order_id a = oid \<and> auth_ok ds' a" "az_identifier ` set as = set ds" "list_all chal_ok ds'"
    "orders (create_authorizations base_url now rand (Suc k) oid ds account ?db) = orders ?db"
    using Cons.IH [of "Suc k" ?db] by blast
  show ?case
    using e i by (intro exI [of _ "a # as"] exI [of _ "cs @ ds'"]) (auto intro: auth_ok_mono)
qed

lemma covered_mono: "covered as o' \<Longrightarrow> covered (as @ bs) o'"
  by (fastforce simp: covered_def)

lemma extend_ok:
  assumes "acme_ok db" and "orders db' = orders db @ [ord]" and "or_order_id ord = oid"
    and "oid \<notin> or_order_id ` set (orders db)" and "or_status ord = ''pending''"
    and "authorizations db' = authorizations db @ as" and "challenges db' = challenges db @ cs"
    and "\<forall>a \<in> set as. az_order_id a = oid \<and> auth_ok cs a" and "az_identifier ` set as = set (or_identifiers ord)"
    and "list_all chal_ok cs"
  shows "acme_ok db'"
proof -
  have "covered (authorizations db') ord"
    unfolding covered_def assms(6)
  proof
    fix d assume "d \<in> set (or_identifiers ord)"
    then obtain a where "a \<in> set as" "az_identifier a = d" using assms(9) by (metis imageE)
    then show "\<exists>a \<in> set (authorizations db @ as). az_order_id a = or_order_id ord \<and> az_identifier a = d"
      using assms(3,8) by auto
  qed
  then have new: "order_ok db' ord"
    using assms(5) by (simp add: order_ok_def)
  have "order_ok db' o'" if "o' \<in> set (orders db)" for o'
  proof -
    have "or_order_id o' \<noteq> oid" using that assms(4) by blast
    then have "all_valid (or_order_id o') db' = all_valid (or_order_id o') db"
      unfolding all_valid_iff assms(6) using assms(8) by auto
    moreover have "order_ok db o'" using that assms(1) by (simp add: acme_ok_def)
    ultimately show ?thesis
      using covered_mono [of "authorizations db" o' as] by (simp add: order_ok_def assms(6))
  qed
  moreover have "auth_ok (challenges db') a" if "a \<in> set (authorizations db')" for a
    using that assms(1,6,7,8) by (auto simp: acme_ok_def intro: auth_ok_mono)
  moreover have "chal_ok c" if "c \<in> set (challenges db')" for c
    using that assms(1,7,10) by (auto simp: acme_ok_def list_all_iff)
  ultimately show ?thesis
    using new assms(2) by (auto simp: acme_ok_def)
qed

text \<open>Setting the status of an order keeps the invariant if the order is not made ready or valid too
  early.\<close>

lemma update_order_ok:
  assumes "acme_ok db" "\<And>o'. or_order_id (f o') = or_order_id o' \<and> or_identifiers (f o') = or_identifiers o'"
    and "\<And>o'. or_status (f o') \<in> {''ready'', ''valid''} \<Longrightarrow> all_valid oid db"
  shows "acme_ok (update_order oid f db)"
proof -
  have av: "all_valid i (update_order oid f db) = all_valid i db" for i
    by (simp add: all_valid_iff update_order_def)
  have "order_ok (update_order oid f db) (if or_order_id o' = oid then f o' else o')"
    if "o' \<in> set (orders db)" for o'
  proof -
    have "order_ok db o'" using that assms(1) by (simp add: acme_ok_def)
    then show ?thesis
      using assms(2) [of o'] assms(3) [of o']
      by (auto simp: order_ok_def covered_def av) (simp_all add: update_order_def)
  qed
  moreover have "set (orders (update_order oid f db))
      = (\<lambda>o'. if or_order_id o' = oid then f o' else o') ` set (orders db)"
    and "authorizations (update_order oid f db) = authorizations db"
    and "challenges (update_order oid f db) = challenges db"
    by (simp_all add: update_order_def)
  ultimately show ?thesis
    using assms(1) unfolding acme_ok_def by (simp only: ball_simps) blast
qed

lemma create_order_ok:
  assumes "acme_ok db" "oid \<notin> or_order_id ` set (orders db)"
  shows "acme_ok (snd (create_order base_url now oid rand account ds nb na db))"
proof -
  define ord where "ord = \<lparr>or_id = next_id or_id (orders db), or_order_id = oid, or_account_id = account,
    or_status = ''pending'', or_identifiers = ds, or_not_before = nb, or_not_after = na, or_error = None,
    or_csr = None, or_certificate_id = None, or_certificate_url = None, or_created_at = now,
    or_expires = now + days 7\<rparr>"
  define db1 where "db1 = create_authorizations base_url now rand 0 oid ds account (db\<lparr>orders := orders db @ [ord]\<rparr>)"
  have ord: "or_order_id ord = oid" "or_status ord = ''pending''" "or_identifiers ord = ds"
    by (simp_all add: ord_def)
  obtain as cs where "authorizations db1 = authorizations db @ as" "challenges db1 = challenges db @ cs"
    "\<forall>a \<in> set as. az_order_id a = oid \<and> auth_ok cs a" "az_identifier ` set as = set ds" "list_all chal_ok cs"
    "orders db1 = orders db @ [ord]"
    using create_authorizations_effect
      [of base_url now rand 0 oid ds account "db\<lparr>orders := orders db @ [ord]\<rparr>"]
    unfolding db1_def [symmetric] by auto
  then have ok: "acme_ok db1"
    using extend_ok [OF assms(1) _ ord(1) assms(2) ord(2)] ord(3) by simp
  have "snd (create_order base_url now oid rand account ds nb na db)
      = (if all_valid oid db1 then update_order oid (\<lambda>o'. o'\<lparr>or_status := ''ready''\<rparr>) db1 else db1)"
    by (simp add: create_order_def Let_def ord_def db1_def)
  then show ?thesis
    using ok update_order_ok [OF ok, of "\<lambda>o'. o'\<lparr>or_status := ''ready''\<rparr>" oid] by simp
qed

lemma validated_kept_ok:
  assumes "acme_ok db" "challenges db' = row_update ch_id i f (challenges db)"
    and "orders db' = orders db" "authorizations db' = authorizations db"
    and "\<And>c. ch_authorization_id (f c) = ch_authorization_id c"
    and "\<And>c. ch_validated c \<noteq> None \<Longrightarrow> ch_validated (f c) \<noteq> None" "\<And>c. chal_ok (f c)"
  shows "acme_ok db'"
proof -
  have "proven (challenges db') a" if "proven (challenges db) a" for a
  proof -
    from that obtain c where c: "c \<in> set (challenges db)" "ch_authorization_id c = az_authorization_id a"
      "ch_validated c \<noteq> None" by (auto simp: proven_def)
    let ?c = "if ch_id c = i then f c else c"
    have "?c \<in> set (challenges db')" using c(1) by (auto simp: assms(2) row_update_def)
    moreover have "ch_authorization_id ?c = az_authorization_id a" "ch_validated ?c \<noteq> None"
      using c assms(5,6) by auto
    ultimately show ?thesis unfolding proven_def by blast
  qed
  moreover have "all_valid j db' = all_valid j db" for j
    by (simp add: all_valid_iff assms(4))
  moreover have "chal_ok c" if "c \<in> set (challenges db')" for c
    using that assms(1,2,7) by (auto simp: row_update_def acme_ok_def)
  ultimately show ?thesis
    using assms(1) by (auto simp: acme_ok_def order_ok_def auth_ok_def assms(3,4))
qed

lemma set_authorization_valid_ok:
  assumes "acme_ok db" "c \<in> set (challenges db)" "ch_authorization_id c = aid" "ch_validated c \<noteq> None"
  shows "acme_ok (set_authorization_valid aid db)"
proof -
  let ?db = "set_authorization_valid aid db"
  have av: "all_valid j ?db" if "all_valid j db" for j
    using that by (auto simp: all_valid_iff set_authorization_valid_def)
  have cov: "covered (authorizations ?db) o'" if cv: "covered (authorizations db) o'" for o'
    unfolding covered_def
  proof
    fix d assume "d \<in> set (or_identifiers o')"
    then obtain a where a: "a \<in> set (authorizations db)" "az_order_id a = or_order_id o'" "az_identifier a = d"
      using cv by (auto simp: covered_def)
    let ?a = "if az_authorization_id a = aid then a\<lparr>az_status := ''valid''\<rparr> else a"
    have "?a \<in> set (authorizations ?db)" using a(1) by (auto simp: set_authorization_valid_def)
    then show "\<exists>a \<in> set (authorizations ?db). az_order_id a = or_order_id o' \<and> az_identifier a = d"
      using a by (intro bexI [of _ ?a]) auto
  qed
  have "auth_ok (challenges ?db) a" if "a \<in> set (authorizations ?db)" for a
    using that assms by (auto simp: set_authorization_valid_def acme_ok_def auth_ok_def proven_def)
  then show ?thesis
    using assms(1) av cov
    by (auto simp: acme_ok_def order_ok_def) (auto simp: set_authorization_valid_def)
qed

lemma accept_challenge_ok:
  assumes "acme_ok db"
  shows "acme_ok (snd (accept_challenge now c auth db))"
proof -
  let ?f = "\<lambda>c. c\<lparr>ch_status := ''valid'', ch_validated := Some now\<rparr>"
  define db1 where "db1 = update_challenge (ch_id c) ?f db"
  have ok1: "acme_ok db1"
    by (rule validated_kept_ok [OF assms, of _ "ch_id c" ?f]) (simp_all add: db1_def update_challenge_def chal_ok_def)
  let ?aid = "az_authorization_id auth"
  show ?thesis
  proof (cases "list_ex (\<lambda>c. ch_status c = ''valid'') (authorization_challenges ?aid db1)")
    case True
    then obtain d where "d \<in> set (challenges db1)" "ch_authorization_id d = ?aid" "ch_status d = ''valid''"
      by (auto simp: list_ex_iff authorization_challenges_def)
    then have ok2: "acme_ok (set_authorization_valid ?aid db1)"
      using ok1 by (intro set_authorization_valid_ok) (auto simp: acme_ok_def chal_ok_def)
    show ?thesis
      using True ok2 update_order_ok [OF ok2, of "\<lambda>o'. o'\<lparr>or_status := ''ready''\<rparr>" "az_order_id auth"]
      by (simp add: accept_challenge_def update_authorization_status_def db1_def [symmetric] Let_def)
  next
    case False
    then show ?thesis
      using ok1 by (simp add: accept_challenge_def update_authorization_status_def db1_def [symmetric])
  qed
qed

lemma refuse_challenge_ok:
  assumes "acme_ok db"
  shows "acme_ok (snd (refuse_challenge c kind detail db))"
  by (rule validated_kept_ok [OF assms, of _ "ch_id c"
        "\<lambda>c. c\<lparr>ch_status := ''invalid'', ch_error := Some (''urn:ietf:params:acme:error:'' @ kind, detail)\<rparr>"])
    (simp_all add: refuse_challenge_def update_challenge_def chal_ok_def)

lemma validate_http01_ok:
  "acme_ok db \<Longrightarrow> acme_ok (snd (validate_http01_challenge http_get now c auth account db))"
  by (simp add: validate_http01_challenge_def Let_def accept_challenge_ok refuse_challenge_ok split: sum.splits)

lemma validate_dns01_ok:
  "acme_ok db \<Longrightarrow> acme_ok (snd (validate_dns01_challenge sha_b64 resolve_txt now c auth account db))"
  by (simp add: validate_dns01_challenge_def Let_def accept_challenge_ok refuse_challenge_ok split: sum.splits)

lemma get_order_Some: "get_order oid db = Some o' \<Longrightarrow> o' \<in> set (orders db) \<and> or_order_id o' = oid"
  by (auto simp: get_order_def dest: find_Some_in)

lemma sign_certificate_tables:
  assumes "sign_certificate_with_ca load_csr b64 sign_csr refid order pem ca db = (res, db1)"
  shows "\<exists>cs. db1 = db\<lparr>certs := certs db @ cs\<rparr>"
  using assms
  by (auto simp: sign_certificate_with_ca_def Let_def split: option.splits sum.splits if_splits
      intro: exI [of _ "[]"])

lemma certs_ok: "acme_ok (db\<lparr>certs := cs\<rparr>) = acme_ok db"
  by (simp add: acme_ok_def order_ok_def all_valid_iff)

lemma finalize_cases:
  assumes "finalize_order base_url load_csr b64 sign_csr refid oid pem ca db = (None, db')"
  obtains order c cert_id db1 cs where "get_order oid db = Some order" "or_status order = ''ready''"
    "load_csr pem = Inr c" "set (extract_domains_from_csr c) = set (dns_domains_of order)"
    "db1 = db\<lparr>certs := certs db @ cs\<rparr>"
    "db' = update_order oid (\<lambda>o'. o'\<lparr>or_status := ''valid'', or_csr := Some pem,
        or_certificate_id := Some cert_id, or_certificate_url := Some (base_url @ ''/acme/cert/'' @ oid)\<rparr>) db1"
  using assms unfolding finalize_order_def Let_def
  by (auto split: option.splits sum.splits if_splits prod.splits dest!: sign_certificate_tables)

lemma finalize_ok:
  assumes "acme_ok db"
  shows "acme_ok (snd (finalize_order base_url load_csr b64 sign_csr refid oid pem ca db))"
proof (cases "finalize_order base_url load_csr b64 sign_csr refid oid pem ca db")
  case (Pair err db')
  show ?thesis
  proof (cases err)
    case None
    with Pair obtain order cert_id cs where o: "get_order oid db = Some order" "or_status order = ''ready''"
      "db' = update_order oid (\<lambda>o'. o'\<lparr>or_status := ''valid'', or_csr := Some pem,
        or_certificate_id := Some cert_id, or_certificate_url := Some (base_url @ ''/acme/cert/'' @ oid)\<rparr>)
        (db\<lparr>certs := certs db @ cs\<rparr>)"
      by (auto elim: finalize_cases)
    have "all_valid oid db"
      using assms get_order_Some [OF o(1)] o(2) by (auto simp: acme_ok_def order_ok_def)
    then have "acme_ok db'"
      unfolding o(3) by (intro update_order_ok) (simp_all add: certs_ok assms all_valid_iff)
    then show ?thesis by (simp add: Pair)
  next
    case (Some e)
    have inv: "acme_ok (update_order oid (\<lambda>o'. o'\<lparr>or_status := ''invalid'', or_error := x\<rparr>)
        (db\<lparr>certs := certs db @ cs\<rparr>))" for x cs
      by (intro update_order_ok) (simp_all add: certs_ok assms)
    show ?thesis
      using Pair Some inv assms unfolding finalize_order_def Let_def
      by (auto split: option.splits sum.splits if_splits prod.splits dest!: sign_certificate_tables)
  qed
qed

subsection \<open>The service as a system\<close>

record acme_env =
  env_base_url :: string
  env_sha_b64 :: "string \<Rightarrow> string"
  env_b64 :: "string \<Rightarrow> string"
  env_http_get :: "string \<Rightarrow> string + string"
  env_resolve_txt :: "string \<Rightarrow> string + string list"
  env_load_csr :: "string \<Rightarrow> string + csr"
  env_sign_csr :: "cert_row \<Rightarrow> string \<Rightarrow> string + string"

datatype acme_event =
    New_account time string "(string \<times> json) list" json bool
  | Deactivate time string
  | New_order time string "nat \<Rightarrow> nat \<Rightarrow> string" string "acme_identifier list" "time option" "time option"
  | Http01 time acme_challenge acme_authorization acme_account
  | Dns01 time acme_challenge acme_authorization acme_account
  | Finalize string string string "string option"

text \<open>One event. The identifier of a new order is random; if it is taken, the unique column refuses the
  row. The network and the signing service may answer differently at each event.\<close>

fun acme_step :: "acme_db \<Rightarrow> acme_env \<times> acme_event \<Rightarrow> acme_db" where
  "acme_step db (e, New_account now rid jwk contact terms) =
     snd (create_account (env_sha_b64 e) now rid jwk contact terms db)"
| "acme_step db (e, Deactivate now aid) = snd (deactivate_account now aid db)"
| "acme_step db (e, New_order now oid rand account idents nb na) =
     (if oid \<in> or_order_id ` set (orders db) then db
      else snd (create_order (env_base_url e) now oid rand account idents nb na db))"
| "acme_step db (e, Http01 now c auth account) =
     snd (validate_http01_challenge (env_http_get e) now c auth account db)"
| "acme_step db (e, Dns01 now c auth account) =
     snd (validate_dns01_challenge (env_sha_b64 e) (env_resolve_txt e) now c auth account db)"
| "acme_step db (e, Finalize oid pem refid ca) =
     snd (finalize_order (env_base_url e) (env_load_csr e) (env_b64 e) (env_sign_csr e) refid oid pem ca db)"

lemma accounts_ok: "acme_ok (db\<lparr>accounts := as\<rparr>) = acme_ok db"
  by (simp add: acme_ok_def order_ok_def all_valid_iff)

lemma acme_step_ok: "acme_ok db \<Longrightarrow> acme_ok (acme_step db ev)"
  by (cases "(db, ev)" rule: acme_step.cases)
    (auto simp: create_account_def deactivate_account_def update_account_def accounts_ok Let_def
      create_order_ok validate_http01_ok validate_dns01_ok finalize_ok split: sum.splits option.splits)


subsection \<open>Nonce histories\<close>

datatype nonce_event = Generate time string | Validate time string | Cleanup time

fun nonce_step :: "acme_db \<Rightarrow> nonce_event \<Rightarrow> acme_db" where
  "nonce_step db (Generate now t) = snd (generate_nonce now t db)"
| "nonce_step db (Validate now t) = snd (validate_nonce now t db)"
| "nonce_step db (Cleanup now) = snd (cleanup_expired_nonces now db)"

definition spent :: "string \<Rightarrow> acme_db \<Rightarrow> bool" where
  "spent t db = list_all (\<lambda>n. no_token n = t \<longrightarrow> no_used n) (nonces db)"

definition generates :: "string \<Rightarrow> nonce_event \<Rightarrow> bool" where
  "generates t ev = (case ev of Generate _ u \<Rightarrow> u = t | _ \<Rightarrow> False)"

lemma spent_step: "spent t db \<Longrightarrow> \<not> generates t ev \<Longrightarrow> spent t (nonce_step db ev)"
  by (cases ev) (auto simp: spent_def generates_def generate_nonce_def validate_nonce_def
      cleanup_expired_nonces_def list_all_iff)

lemma spent_run: "spent t db \<Longrightarrow> \<not> list_ex (generates t) evs \<Longrightarrow> spent t (foldl nonce_step db evs)"
  by (induction evs arbitrary: db) (simp_all add: spent_step)

lemma spent_refused: "spent t db \<Longrightarrow> \<not> fst (validate_nonce now t db)"
  by (auto simp: spent_def validate_nonce_def nonce_matches_def list_all_iff)

lemma validate_spends:
  assumes "distinct (map no_token (nonces db))" "fst (validate_nonce now t db)"
  shows "spent t (snd (validate_nonce now t db))"
proof -
  obtain n where n: "n \<in> set (nonces db)" "nonce_matches now t n"
    using assms(2) by (auto simp: validate_nonce_def length_greater_0_conv filter_empty_conv)
  have "m = n" if "m \<in> set (nonces db)" "no_token m = t" for m
    using that n assms(1) by (auto simp: nonce_matches_def distinct_map dest: inj_onD)
  then show ?thesis
    using n by (auto simp: spent_def validate_nonce_def list_all_iff)
qed

definition tokens_distinct :: "acme_db \<Rightarrow> bool" where
  "tokens_distinct db = distinct (map no_token (nonces db))"

lemma nonce_step_distinct: "tokens_distinct db \<Longrightarrow> tokens_distinct (nonce_step db ev)"
proof (cases ev)
  case (Validate now t)
  have "map no_token (nonces (nonce_step db ev)) = map no_token (nonces db)"
    by (simp add: Validate validate_nonce_def)
  then show "tokens_distinct db \<Longrightarrow> ?thesis" by (simp add: tokens_distinct_def)
qed (auto simp: tokens_distinct_def generate_nonce_def cleanup_expired_nonces_def distinct_map_filter)

interpretation nonce_runs: invariant_system nonce_step tokens_distinct
  by unfold_locales (rule nonce_step_distinct)

subsection \<open>Properties\<close>


definition empty_acme :: acme_db where
  "empty_acme = \<lparr>accounts = [], orders = [], authorizations = [], challenges = [], nonces = [],
     cas = [\<lparr>ca_id = 1, ca_refid = ''root'', ca_prv = Some ''key'', ca_crt = Some ''crt'', ca_caref = None\<rparr>],
     certs = [], local_domains = [], dns_domains = [], acme_config = []\<rparr>"

definition demo_env :: acme_env where
  "demo_env = \<lparr>env_base_url = ''https://ca'', env_sha_b64 = id, env_b64 = id, env_http_get = (\<lambda>_. Inr ''tok.tp''),
     env_resolve_txt = (\<lambda>_. Inl ''NXDOMAIN''),
     env_load_csr = (\<lambda>_. Inr \<lparr>csr_cn = [''x.org''], csr_san = Some [(True, ''x.org'')]\<rparr>),
     env_sign_csr = (\<lambda>_ _. Inr ''CRT'')\<rparr>"

definition demo_account :: acme_account where
  "demo_account = \<lparr>ac_id = 1, ac_account_id = ''acc'', ac_jwk = [], ac_jwk_thumbprint = ''tp'', ac_contact = None,
     ac_status = ''valid'', ac_terms_of_service_agreed = True, ac_external_account_binding = None,
     ac_created_at = 0, ac_updated_at = 0\<rparr>"

definition demo_ordered :: acme_db where
  "demo_ordered = acme_step empty_acme
     (demo_env, New_order 0 ''o1'' (\<lambda>_ j. if j = 2 then ''tok'' else if j = 0 then ''az'' else ''r'') ''acc''
        [\<lparr>id_type = ''dns'', id_value = ''x.org''\<rparr>] None None)"

definition demo_ready :: acme_db where
  "demo_ready = acme_step demo_ordered
     (demo_env, Http01 1 (challenges demo_ordered ! 0) (authorizations demo_ordered ! 0) demo_account)"

lemma empty_acme_ok: "acme_ok empty_acme"
  by (simp add: acme_ok_def empty_acme_def)


text \<open>C13. Anti-replay: a nonce that was accepted once is refused for ever after, whatever nonces are
  generated (other than the same random token again), validated or cleaned up in between.\<close>

theorem nonce_single_use:
  assumes "tokens_distinct db" and "fst (validate_nonce now t db)" and "\<not> list_ex (generates t) evs"
  shows "\<not> fst (validate_nonce later t (foldl nonce_step (snd (validate_nonce now t db)) evs))"
  using assms by (intro spent_refused spent_run validate_spends) (simp_all add: tokens_distinct_def)

theorem nonce_single_use_witness:
  "\<not> fst (validate_nonce 3 ''n1'' (foldl nonce_step
       (snd (validate_nonce 1 ''n1'' (snd (generate_nonce 0 ''n1'' empty_acme)))) [Generate 2 ''n2'', Cleanup 2]))"
  by (rule nonce_single_use)
    (simp_all add: tokens_distinct_def generate_nonce_def empty_acme_def validate_nonce_def nonce_matches_def
      generates_def ucm_simps)

lemma get_order_update:
  assumes "\<And>o'. or_order_id (f o') = or_order_id o'"
  shows "get_order oid (update_order oid f db) = map_option f (get_order oid db)"
proof -
  have "get_order oid (update_order oid f db)
      = map_option (\<lambda>o'. if or_order_id o' = oid then f o' else o') (get_order oid db)"
    unfolding get_order_def update_order_def by (simp add: find_map_same assms)
  then show ?thesis
    using get_order_Some [of oid db] by (cases "get_order oid db") auto
qed

lemma accept_makes_ready:
  assumes "all_valid (az_order_id auth) db" "c \<in> set (challenges db)"
    "ch_authorization_id c = az_authorization_id auth"
  shows "get_order (az_order_id auth) (snd (accept_challenge now c auth db))
    = map_option (\<lambda>o'. o'\<lparr>or_status := ''ready''\<rparr>) (get_order (az_order_id auth) db)"
proof -
  let ?f = "\<lambda>c. c\<lparr>ch_status := ''valid'', ch_validated := Some now\<rparr>"
  let ?db1 = "update_challenge (ch_id c) ?f db" and ?aid = "az_authorization_id auth"
  let ?db2 = "set_authorization_valid ?aid ?db1"
  have "?f c \<in> set (authorization_challenges ?aid ?db1)"
    using assms(2,3) by (auto simp: authorization_challenges_def update_challenge_def row_update_def image_iff)
  then have "list_ex (\<lambda>c. ch_status c = ''valid'') (authorization_challenges ?aid ?db1)"
    unfolding list_ex_iff by (rule bexI [rotated]) simp
  moreover have "all_valid (az_order_id auth) ?db2"
    using assms(1) by (auto simp: all_valid_iff set_authorization_valid_def update_challenge_def)
  ultimately have "snd (accept_challenge now c auth db)
      = update_order (az_order_id auth) (\<lambda>o'. o'\<lparr>or_status := ''ready''\<rparr>) ?db2"
    by (simp add: accept_challenge_def update_authorization_status_def Let_def)
  moreover have "get_order oid ?db2 = get_order oid db" for oid
    by (simp add: get_order_def set_authorization_valid_def update_challenge_def)
  ultimately show ?thesis by (simp add: get_order_update)
qed

text \<open>A finished order can be reopened: when the answer to one of its challenges is fetched again and
  still matches, the order goes back from valid to ready, from where it can be finalized again for
  another certificate.\<close>

theorem finished_order_reopens:
  assumes "acme_ok db" and "get_order oid db = Some ord" and "or_status ord = ''valid''"
    and "az_order_id auth = oid" and "c \<in> set (challenges db)"
    and "ch_authorization_id c = az_authorization_id auth"
    and "http_get (''http://'' @ id_value (az_identifier auth) @ ''/.well-known/acme-challenge/'' @ ch_token c)
         = Inr (ch_token c @ ''.'' @ ac_jwk_thumbprint account)"
    and "strip (ch_token c @ ''.'' @ ac_jwk_thumbprint account) = ch_token c @ ''.'' @ ac_jwk_thumbprint account"
  shows "get_order oid (snd (validate_http01_challenge http_get now c auth account db))
         = Some (ord\<lparr>or_status := ''ready''\<rparr>)"
proof -
  have "all_valid oid db"
    using assms(1,3) get_order_Some [OF assms(2)] by (auto simp: acme_ok_def order_ok_def)
  then have "get_order oid (snd (accept_challenge now c auth db)) = Some (ord\<lparr>or_status := ''ready''\<rparr>)"
    using accept_makes_ready [of auth db c now] assms(2,4,5,6) by simp
  then show ?thesis
    using assms(7,8) by (simp add: validate_http01_challenge_def compute_key_authorization_def)
qed

definition demo_finished :: acme_db where
  "demo_finished = acme_step demo_ready (demo_env, Finalize ''o1'' ''pem'' ''ref'' None)"

theorem finished_order_reopens_witness:
  "or_status (the (get_order ''o1'' demo_finished)) = ''valid''
   \<and> get_order ''o1'' (snd (validate_http01_challenge (env_http_get demo_env) 9 (challenges demo_finished ! 0)
        (authorizations demo_finished ! 0) demo_account demo_finished))
   = Some ((the (get_order ''o1'' demo_finished))\<lparr>or_status := ''ready''\<rparr>)"
proof
  show st: "or_status (the (get_order ''o1'' demo_finished)) = ''valid''" by code_simp
  show "get_order ''o1'' (snd (validate_http01_challenge (env_http_get demo_env) 9 (challenges demo_finished ! 0)
        (authorizations demo_finished ! 0) demo_account demo_finished))
   = Some ((the (get_order ''o1'' demo_finished))\<lparr>or_status := ''ready''\<rparr>)"
  proof (rule finished_order_reopens)
    show "acme_ok demo_finished"
      unfolding demo_finished_def demo_ready_def demo_ordered_def by (intro acme_step_ok empty_acme_ok)
    have "get_order ''o1'' demo_finished \<noteq> None" by code_simp
    then show "get_order ''o1'' demo_finished = Some (the (get_order ''o1'' demo_finished))" by simp
    show "or_status (the (get_order ''o1'' demo_finished)) = ''valid''" by (rule st)
    show "az_order_id (authorizations demo_finished ! 0) = ''o1''" by code_simp
    have "length (challenges demo_finished) = 2" by code_simp
    then show "challenges demo_finished ! 0 \<in> set (challenges demo_finished)" by simp
    show "ch_authorization_id (challenges demo_finished ! 0) = az_authorization_id (authorizations demo_finished ! 0)"
      by code_simp
  qed code_simp+
qed

text \<open>Registering the same key twice is idempotent: the second registration, whatever contact or
  random identifier comes with it, returns the account of the first one and changes nothing.\<close>

theorem create_account_idempotent:
  assumes "create_account sha_b64 now rid jwk contact terms db = (Inr (a, is_new), db')"
  shows "create_account sha_b64 now2 rid2 jwk contact2 terms2 db' = (Inr (a, False), db')"
  using assms
  by (auto simp: create_account_def find_thumbprint_def find_append Let_def
      split: sum.splits option.splits if_splits)

definition demo_jwk :: "(string \<times> json) list" where
  "demo_jwk = [(''kty'', JStr ''RSA''), (''n'', JStr ''AQ''), (''e'', JStr ''Aw'')]"

definition demo_registered :: acme_db where
  "demo_registered = snd (create_account id 0 ''acc'' demo_jwk JNull True empty_acme)"

theorem create_account_idempotent_witness:
  "create_account id 5 ''other'' demo_jwk (JStr ''x'') False demo_registered
   = (Inr (accounts demo_registered ! 0, False), demo_registered)"
  by (rule create_account_idempotent [where is_new = True and now = 0 and rid = "''acc''" and contact = JNull
        and terms = True and db = empty_acme])
    (simp add: demo_registered_def create_account_def compute_jwk_thumbprint_def thumbprint_fields_def
      jget_def jhas_def find_thumbprint_def empty_acme_def demo_jwk_def Let_def)

text \<open>The CA of a local domain is that of the longest mapped suffix: the domain itself if it is
  mapped, else its nearest mapped parent.\<close>

theorem local_domain_longest_match:
  assumes "find_local_domain_ca d db = Some i" and "parts = split_on (CHR ''.'') (base_domain d)"
  shows "\<exists>k < length parts. map_of (local_domains db) (join_with ''.'' (drop k parts)) = Some i
           \<and> (\<forall>j < k. map_of (local_domains db) (join_with ''.'' (drop j parts)) = None)"
proof -
  let ?s = "\<lambda>k. join_with ''.'' (drop k parts)"
  have "domain_candidates d = map ?s [0..<length parts]"
    using join_split_on [of "CHR ''.''" "base_domain d"] assms(2)
    by (simp add: domain_candidates_def Let_def upt_conv_Cons)
  then obtain k where "k < length parts" "map_of (local_domains db) (?s k) = Some i"
    "\<forall>j < k. map_of (local_domains db) (?s j) = None"
    using assms(1) by (auto simp: find_local_domain_ca_def find_Some_iff split: option.splits)
  then show ?thesis by blast
qed

theorem local_domain_longest_match_witness:
  "\<exists>k < length [''a'', ''b'', ''org'']. map_of [(''org'', 1), (''b.org'', 2 :: int)]
        (join_with ''.'' (drop k [''a'', ''b'', ''org''])) = Some 2
     \<and> (\<forall>j < k. map_of [(''org'', 1), (''b.org'', 2 :: int)] (join_with ''.'' (drop j [''a'', ''b'', ''org''])) = None)"
proof -
  have "find_local_domain_ca ''*.A.b.org'' (empty_acme\<lparr>local_domains := [(''org'', 1), (''b.org'', 2)]\<rparr>) = Some 2"
    "[''a'', ''b'', ''org''] = split_on (CHR ''.'') (base_domain ''*.A.b.org'')"
    by code_simp+
  from local_domain_longest_match [OF this] show ?thesis by simp
qed

end
