(* ===== verification/Acme_Api.thy ===== *)
theory Acme_Api
  imports Acme
begin

text \<open>
  The ACME endpoints, \<^verbatim>\<open>api/acme/acme_api.py\<close>: the verification of signed requests
  (\<^verbatim>\<open>verify_jws\<close>) and the handlers, over the tables and operations of theory \<open>Acme\<close>.

  \<open>decode\<close> takes base64url text to the JSON value it encodes, or says whether the JSON or the
  encoding is wrong; \<open>sig_text_ok\<close> says whether a signature is base64url text, \<open>key_loads\<close> whether
  the key library accepts a key and \<open>verify_sig\<close> is its signature check for an algorithm, a key, a
  signed text and a signature; \<open>parse_iso\<close> reads a date, \<open>csr_pem\<close> turns the base64url text of a DER
  request into PEM and \<open>unb64\<close> decodes stored certificates. A handler returns its reply and the tables; every reply of
  \<^verbatim>\<open>acme_response\<close> and \<^verbatim>\<open>acme_error\<close> stores a new nonce, whose random token is \<open>tok\<close>. Error
  texts that print an offending value are shortened to their fixed part.
\<close>

subsection \<open>Signed requests\<close>

datatype decoded = Decoded json | Bad_json | Bad_text

record jws_env =
  je_base_url :: string
  je_now :: time
  je_decode :: "string \<Rightarrow> decoded"
  je_sig_text_ok :: "string \<Rightarrow> bool"
  je_key_loads :: "(string \<times> json) list \<Rightarrow> bool"
  je_verify_sig :: "string \<Rightarrow> (string \<times> json) list \<Rightarrow> string \<Rightarrow> string \<Rightarrow> bool"
  je_sha_b64 :: "string \<Rightarrow> string"
  je_parse_iso :: "string \<Rightarrow> time option"
  je_csr_pem :: "string \<Rightarrow> string option"
  je_unb64 :: "string \<Rightarrow> string option"

type_synonym dict = "(string \<times> json) list"

definition SIGNATURE_ALGS :: "string list" where
  "SIGNATURE_ALGS = [''RS256'', ''RS384'', ''RS512'', ''ES256'', ''ES384'', ''ES512'']"

text \<open>The inner part: the check of the signature with a key.\<close>

definition check_signature :: "jws_env \<Rightarrow> dict \<Rightarrow> dict \<Rightarrow> json \<Rightarrow> string option" where
  "check_signature e jws protected key =
     (case key of
        JObj k \<Rightarrow>
          if jget k ''kty'' \<noteq> JStr ''RSA'' \<and> jget k ''kty'' \<noteq> JStr ''EC'' then Some ''Unsupported key type''
          else if \<not> je_key_loads e k then Some ''Signature verification error''
          else
            (case (jget jws ''protected'', jget jws ''payload'', jget_or jws ''signature'' (JStr [])) of
               (JStr p, JStr q, JStr sig) \<Rightarrow>
                 if \<not> je_sig_text_ok e sig then Some ''Signature verification error''
                 else if \<not> truthy (jget protected ''alg'') then Some ''Missing 'alg' in protected header''
                 else
                   (case jget protected ''alg'' of
                      JStr alg \<Rightarrow>
                        if alg \<in> set SIGNATURE_ALGS
                        then (if je_verify_sig e alg k (p @ ''.'' @ q) sig then None
                              else Some ''Signature verification failed'')
                        else if startswith alg ''RS'' then Some (''Unsupported RSA algorithm: '' @ alg)
                        else if startswith alg ''ES'' then Some (''Unsupported EC algorithm: '' @ alg)
                        else Some (''Unsupported signature algorithm: '' @ alg)
                    | _ \<Rightarrow> Some ''Signature verification error'')
             | _ \<Rightarrow> Some ''Signature verification error'')
      | _ \<Rightarrow> Some ''Key is not a dict'')"

text \<open>The payload: an empty one is an empty object.\<close>

definition decode_payload :: "jws_env \<Rightarrow> json \<Rightarrow> string + json" where
  "decode_payload e j =
     (case j of
        JStr s \<Rightarrow>
          if s = [] then Inr (JObj [])
          else (case je_decode e s of
                  Decoded v \<Rightarrow> Inr v
                | Bad_json \<Rightarrow> Inl ''Invalid JSON in JWS''
                | Bad_text \<Rightarrow> Inl ''JWS verification error'')
      | _ \<Rightarrow> if truthy j then Inl ''JWS verification error'' else Inr (JObj []))"

text \<open>The answer is an error or the payload with the key of the header.\<close>

definition verify_jws ::
  "jws_env \<Rightarrow> dict \<Rightarrow> string \<Rightarrow> json option \<Rightarrow> acme_db \<Rightarrow> (string + json \<times> json) \<times> acme_db" where
  "verify_jws e jws expected_url account_key db =
     (if \<not> jhas jws ''protected'' then (Inl ''Missing 'protected' field in JWS'', db)
      else
        (case jget jws ''protected'' of
           JStr p \<Rightarrow>
             (case je_decode e p of
                Bad_json \<Rightarrow> (Inl ''Invalid JSON in JWS'', db)
              | Decoded (JObj h) \<Rightarrow>
                  if jget h ''url'' \<noteq> JStr expected_url then (Inl ''URL mismatch'', db)
                  else if \<not> truthy (jget h ''nonce'') then (Inl ''Missing nonce in protected header'', db)
                  else
                    (case jget h ''nonce'' of
                       JStr n \<Rightarrow>
                         (let (fresh, db1) = validate_nonce (je_now e) n db; jwk = jget h ''jwk''
                          in if \<not> fresh then (Inl ''Invalid or expired nonce'', db1)
                             else if \<not> truthy jwk \<and> \<not> truthy (jget h ''kid'')
                             then (Inl ''Must provide either 'jwk' or 'kid' in protected header'', db1)
                             else if \<not> jhas jws ''payload''
                             then (Inl ''Missing 'payload' field in JWS'', db1)
                             else
                               (case decode_payload e (jget jws ''payload'') of
                                  Inl err \<Rightarrow> (Inl err, db1)
                                | Inr payload \<Rightarrow>
                                    if truthy jwk
                                    then (case check_signature e jws h jwk of
                                            Some err \<Rightarrow> (Inl err, db1)
                                          | None \<Rightarrow> (Inr (payload, jwk), db1))
                                    else
                                      (case account_key of
                                         Some key \<Rightarrow>
                                           if truthy key
                                           then (case check_signature e jws h key of
                                                   Some err \<Rightarrow> (Inl err, db1)
                                                 | None \<Rightarrow> (Inr (payload, jwk), db1))
                                           else (Inr (payload, jwk), db1)
                                       | None \<Rightarrow> (Inr (payload, jwk), db1))))
                     | _ \<Rightarrow> (Inl ''Invalid or expired nonce'', db))
              | _ \<Rightarrow> (Inl ''JWS verification error'', db))
         | _ \<Rightarrow> (Inl ''JWS verification error'', db)))"

subsection \<open>Replies\<close>

datatype acme_reply =
    Problem string string nat
  | Account_reply acme_account string nat
  | Order_reply acme_order "string list" string nat
  | Authorization_reply acme_authorization "acme_challenge list"
  | Challenge_reply acme_challenge
  | Pem_chain string
  | Empty_reply nat
  | Unhandled string

definition acme_response :: "jws_env \<Rightarrow> string \<Rightarrow> acme_reply \<Rightarrow> acme_db \<Rightarrow> acme_reply \<times> acme_db" where
  "acme_response e tok r db = (r, snd (generate_nonce (je_now e) tok db))"

definition acme_error :: "jws_env \<Rightarrow> string \<Rightarrow> string \<Rightarrow> string \<Rightarrow> nat \<Rightarrow> acme_db \<Rightarrow> acme_reply \<times> acme_db" where
  "acme_error e tok kind detail status db =
     acme_response e tok (Problem (''urn:ietf:params:acme:error:'' @ kind) detail status) db"

definition new_nonce :: "jws_env \<Rightarrow> string \<Rightarrow> acme_db \<Rightarrow> acme_reply \<times> acme_db" where
  "new_nonce e tok db = (Empty_reply 204, snd (generate_nonce (je_now e) tok db))"

definition account_url :: "jws_env \<Rightarrow> acme_account \<Rightarrow> string" where
  "account_url e a = je_base_url e @ ''/acme/acct/'' @ ac_account_id a"

definition order_url :: "jws_env \<Rightarrow> string \<Rightarrow> string" where
  "order_url e oid = je_base_url e @ ''/acme/order/'' @ oid"

definition authz_urls :: "jws_env \<Rightarrow> string \<Rightarrow> acme_db \<Rightarrow> string list" where
  "authz_urls e oid db =
     map (\<lambda>a. je_base_url e @ ''/acme/authz/'' @ az_authorization_id a) (order_authorizations oid db)"

text \<open>The common opening of the handlers that require a signed body: \<open>k\<close> continues with the payload and
  the key of the header.\<close>

definition with_jws ::
  "jws_env \<Rightarrow> string \<Rightarrow> dict option \<Rightarrow> string \<Rightarrow> (json \<Rightarrow> json \<Rightarrow> acme_db \<Rightarrow> acme_reply \<times> acme_db) \<Rightarrow> acme_db
     \<Rightarrow> acme_reply \<times> acme_db" where
  "with_jws e tok body url k db =
     (case body of
        None \<Rightarrow> acme_error e tok ''malformed'' ''Request body must be JWS'' 400 db
      | Some jws \<Rightarrow>
          if jws = [] then acme_error e tok ''malformed'' ''Request body must be JWS'' 400 db
          else (case verify_jws e jws url None db of
                  (Inl err, db1) \<Rightarrow> acme_error e tok ''malformed'' (''Invalid JWS: '' @ err) 400 db1
                | (Inr (payload, jwk), db1) \<Rightarrow> k payload jwk db1))"

text \<open>The handlers that verify a body only if there is one (POST-as-GET).\<close>

definition with_optional_jws ::
  "jws_env \<Rightarrow> string \<Rightarrow> dict option \<Rightarrow> string \<Rightarrow> (json option \<Rightarrow> acme_db \<Rightarrow> acme_reply \<times> acme_db) \<Rightarrow> acme_db
     \<Rightarrow> acme_reply \<times> acme_db" where
  "with_optional_jws e tok body url k db =
     (case body of
        None \<Rightarrow> k None db
      | Some jws \<Rightarrow>
          if jws = [] then k None db
          else (case verify_jws e jws url None db of
                  (Inl err, db1) \<Rightarrow> acme_error e tok ''malformed'' (''Invalid JWS: '' @ err) 400 db1
                | (Inr (payload, _), db1) \<Rightarrow> k (Some payload) db1))"

definition internal_error :: "jws_env \<Rightarrow> string \<Rightarrow> acme_db \<Rightarrow> acme_reply \<times> acme_db" where
  "internal_error e tok db = acme_error e tok ''serverInternal'' ''Internal server error'' 500 db"

subsection \<open>Accounts\<close>

definition new_account :: "jws_env \<Rightarrow> string \<Rightarrow> string \<Rightarrow> dict option \<Rightarrow> acme_db \<Rightarrow> acme_reply \<times> acme_db" where
  "new_account e tok rid body db =
     with_jws e tok body (je_base_url e @ ''/acme/new-account'')
       (\<lambda>payload jwk db1.
          if \<not> truthy jwk
          then acme_error e tok ''malformed'' ''JWK required in protected header for new-account'' 400 db1
          else
            (case (payload, jwk) of
               (JObj p, JObj k) \<Rightarrow>
                 if truthy (jget p ''onlyReturnExisting'')
                 then
                   (case compute_jwk_thumbprint (je_sha_b64 e) k of
                      Inl _ \<Rightarrow> internal_error e tok db1
                    | Inr tp \<Rightarrow>
                        (case find_thumbprint tp db1 of
                           None \<Rightarrow> acme_error e tok ''accountDoesNotExist'' ''Account does not exist'' 400 db1
                         | Some a \<Rightarrow> acme_response e tok (Account_reply a (account_url e a) 200) db1))
                 else
                   (case create_account (je_sha_b64 e) (je_now e) rid k (jget_or p ''contact'' (JList []))
                           (truthy (jget p ''termsOfServiceAgreed'')) db1 of
                      (Inl _, db2) \<Rightarrow> internal_error e tok db2
                    | (Inr (a, is_new), db2) \<Rightarrow>
                        acme_response e tok
                          (Account_reply a (account_url e a) (if is_new then 201 else 200)) db2)
             | _ \<Rightarrow> internal_error e tok db1)) db"

definition account_info :: "jws_env \<Rightarrow> string \<Rightarrow> string \<Rightarrow> dict option \<Rightarrow> acme_db \<Rightarrow> acme_reply \<times> acme_db" where
  "account_info e tok aid body db =
     (case get_account_by_kid aid db of
        None \<Rightarrow> acme_error e tok ''accountDoesNotExist'' ''Account not found'' 404 db
      | Some _ \<Rightarrow>
          with_optional_jws e tok body (je_base_url e @ ''/acme/acct/'' @ aid)
            (\<lambda>payload db1.
               let upd = (case payload of
                       Some (JObj p) \<Rightarrow>
                         (\<lambda>a. let a1 = (if jget p ''status'' = JStr ''deactivated''
                                        then a\<lparr>ac_status := ''deactivated'', ac_updated_at := je_now e\<rparr> else a)
                              in if jhas p ''contact''
                                 then a1\<lparr>ac_contact := Some (jget p ''contact''), ac_updated_at := je_now e\<rparr> else a1)
                     | _ \<Rightarrow> (\<lambda>a. a));
                   db2 = update_account aid upd db1
               in if (case payload of Some (JObj _) \<Rightarrow> False | Some j \<Rightarrow> truthy j | None \<Rightarrow> False)
                  then (Unhandled ''AttributeError'', db1)
                  else (case get_account_by_kid aid db2 of
                          None \<Rightarrow> (Unhandled ''AttributeError'', db2)
                        | Some a \<Rightarrow> acme_response e tok (Account_reply a (account_url e a) 200) db2)) db)"

text \<open>The account a request names: the last part of the header's key identifier.\<close>

definition kid_account :: "jws_env \<Rightarrow> dict \<Rightarrow> unit + string option" where
  "kid_account e jws =
     (case jget jws ''protected'' of
        JStr p \<Rightarrow>
          (case je_decode e p of
             Decoded (JObj h) \<Rightarrow>
               (case jget_or h ''kid'' (JStr []) of
                  JStr kid \<Rightarrow> Inr (if kid = [] then None else Some (last (split_on (CHR ''/'') kid)))
                | j \<Rightarrow> if truthy j then Inl () else Inr None)
           | _ \<Rightarrow> Inl ())
      | _ \<Rightarrow> Inl ())"

text \<open>Python's comparison of dictionaries, which does not look at the order of the keys.\<close>

definition dict_same :: "dict \<Rightarrow> dict \<Rightarrow> bool" where
  "dict_same a b = (set (map fst a) = set (map fst b) \<and> list_all (\<lambda>k. map_of a k = map_of b k) (map fst a))"

definition key_change :: "jws_env \<Rightarrow> string \<Rightarrow> dict option \<Rightarrow> acme_db \<Rightarrow> acme_reply \<times> acme_db" where
  "key_change e tok body db =
     with_jws e tok body (je_base_url e @ ''/acme/key-change'')
       (\<lambda>payload jwk db1.
          case payload of
            JObj p \<Rightarrow>
              if p = [] then acme_error e tok ''malformed'' ''Payload required'' 400 db1
              else
                (case jget_or p ''account'' (JStr []) of
                   JStr url \<Rightarrow>
                     (let aid = (if url = [] then [] else last (split_on (CHR ''/'') url))
                      in if aid = [] then acme_error e tok ''malformed'' ''Account URL required'' 400 db1
                         else
                           (case get_account_by_kid aid db1 of
                              None \<Rightarrow> acme_error e tok ''accountDoesNotExist'' ''Account not found'' 404 db1
                            | Some a \<Rightarrow>
                                if (case jget p ''oldKey'' of
                                      JObj old \<Rightarrow> old = [] \<or> \<not> dict_same old (ac_jwk a) | _ \<Rightarrow> True)
                                then acme_error e tok ''malformed'' ''Old key does not match account key'' 400 db1
                                else if \<not> truthy jwk
                                then acme_response e tok (Account_reply a (account_url e a) 200) db1
                                else
                                  (case jwk of
                                     JObj k \<Rightarrow>
                                       (case compute_jwk_thumbprint (je_sha_b64 e) k of
                                          Inl _ \<Rightarrow> internal_error e tok db1
                                        | Inr tp \<Rightarrow>
                                            if list_ex (\<lambda>b. ac_jwk_thumbprint b = tp \<and> ac_account_id b \<noteq> aid) (accounts db1)
                                            then internal_error e tok db1
                                            else
                                              (let a1 = a\<lparr>ac_jwk := k, ac_jwk_thumbprint := tp,
                                                          ac_updated_at := je_now e\<rparr>
                                               in acme_response e tok (Account_reply a1 (account_url e a1) 200)
                                                    (update_account aid
                                                       (\<lambda>b. b\<lparr>ac_jwk := k, ac_jwk_thumbprint := tp,
                                                              ac_updated_at := je_now e\<rparr>) db1)))
                                   | _ \<Rightarrow> internal_error e tok db1)))
                 | _ \<Rightarrow> internal_error e tok db1)
          | _ \<Rightarrow> if truthy payload then internal_error e tok db1
                 else acme_error e tok ''malformed'' ''Payload required'' 400 db1) db"

subsection \<open>Orders\<close>

text \<open>Identifiers as clients send them, with a type and a value; other shapes are outside the model and
  marked as such.\<close>

fun parse_identifiers :: "json list \<Rightarrow> acme_identifier list option" where
  "parse_identifiers [] = Some []"
| "parse_identifiers (JObj [(k, JStr t), (l, JStr v)] # js) =
     (if k = ''type'' \<and> l = ''value''
      then map_option (\<lambda>ds. \<lparr>id_type = t, id_value = v\<rparr> # ds) (parse_identifiers js) else None)"
| "parse_identifiers _ = None"

definition parse_date :: "jws_env \<Rightarrow> json \<Rightarrow> (unit + time option)" where
  "parse_date e j =
     (if \<not> truthy j then Inr None
      else (case j of
              JStr s \<Rightarrow> (case je_parse_iso e s of Some t \<Rightarrow> Inr (Some t) | None \<Rightarrow> Inl ())
            | _ \<Rightarrow> Inl ()))"

definition new_order ::
  "jws_env \<Rightarrow> string \<Rightarrow> string \<Rightarrow> (nat \<Rightarrow> nat \<Rightarrow> string) \<Rightarrow> dict option \<Rightarrow> acme_db \<Rightarrow> acme_reply \<times> acme_db" where
  "new_order e tok oid rand body db =
     with_jws e tok body (je_base_url e @ ''/acme/new-order'')
       (\<lambda>payload jwk db1.
          case kid_account e (the body) of
            Inl _ \<Rightarrow> internal_error e tok db1
          | Inr None \<Rightarrow> acme_error e tok ''malformed'' ''Account kid required in protected header'' 400 db1
          | Inr (Some aid) \<Rightarrow>
              if aid = [] then acme_error e tok ''malformed'' ''Account kid required in protected header'' 400 db1
              else
                (case get_account_by_kid aid db1 of
                   None \<Rightarrow> acme_error e tok ''accountDoesNotExist'' ''Account not found'' 404 db1
                 | Some a \<Rightarrow>
                     (case payload of
                        JObj p \<Rightarrow>
                          if \<not> truthy (jget p ''identifiers'')
                          then acme_error e tok ''malformed'' ''At least one identifier required'' 400 db1
                          else
                            (case (parse_date e (jget p ''notBefore''), parse_date e (jget p ''notAfter'')) of
                               (Inr nb, Inr na) \<Rightarrow>
                                 (case jget p ''identifiers'' of
                                    JList js \<Rightarrow>
                                      (case parse_identifiers js of
                                         None \<Rightarrow> (Unhandled ''identifiers outside the model'', db1)
                                       | Some ds \<Rightarrow>
                                           if oid \<in> or_order_id ` set (orders db1) then internal_error e tok db1
                                           else
                                             (let (ord, db2) = create_order (je_base_url e) (je_now e) oid rand
                                                                 (ac_account_id a) ds nb na db1
                                              in acme_response e tok
                                                   (Order_reply ord (authz_urls e oid db2) (order_url e oid) 201) db2))
                                  | _ \<Rightarrow> (Unhandled ''identifiers outside the model'', db1))
                             | _ \<Rightarrow> internal_error e tok db1)
                      | _ \<Rightarrow> internal_error e tok db1))) db"

definition order_info :: "jws_env \<Rightarrow> string \<Rightarrow> string \<Rightarrow> dict option \<Rightarrow> acme_db \<Rightarrow> acme_reply \<times> acme_db" where
  "order_info e tok oid body db =
     with_optional_jws e tok body (order_url e oid)
       (\<lambda>_ db1. case get_order oid db1 of
                  None \<Rightarrow> acme_error e tok ''orderDoesNotExist'' ''Order not found'' 404 db1
                | Some ord \<Rightarrow>
                    acme_response e tok (Order_reply ord (authz_urls e oid db1) (order_url e oid) 200) db1) db"

definition finalize_error_text :: "finalize_error \<Rightarrow> string" where
  "finalize_error_text err = (case err of
       Order_not_found \<Rightarrow> ''Order not found''
     | Order_not_ready st \<Rightarrow> ''Order status is '' @ st @ '', must be 'ready'' @ [CHR 0x27]
     | Invalid_csr x \<Rightarrow> ''Invalid CSR: '' @ x
     | Domain_mismatch a b \<Rightarrow> ''CSR domains don't match order domains''
     | Signing_failed x \<Rightarrow> x)"

definition finalize_endpoint ::
  "jws_env \<Rightarrow> acme_env \<Rightarrow> string \<Rightarrow> string \<Rightarrow> string \<Rightarrow> dict option \<Rightarrow> acme_db \<Rightarrow> acme_reply \<times> acme_db" where
  "finalize_endpoint e env tok refid oid body db =
     with_jws e tok body (order_url e oid @ ''/finalize'')
       (\<lambda>payload jwk db1.
          if \<not> truthy payload then acme_error e tok ''malformed'' ''Payload required for finalize'' 400 db1
          else
            (case payload of
               JObj p \<Rightarrow>
                 if \<not> truthy (jget p ''csr'') then acme_error e tok ''malformed'' ''CSR required'' 400 db1
                 else
                   (case jget p ''csr'' of
                      JStr c \<Rightarrow>
                        (case je_csr_pem e c of
                           None \<Rightarrow> internal_error e tok db1
                         | Some pem \<Rightarrow>
                             (case finalize_order (je_base_url e) (env_load_csr env) (env_b64 env)
                                     (env_sign_csr env) refid oid pem None db1 of
                                (Some err, db2) \<Rightarrow> acme_error e tok ''badCSR'' (finalize_error_text err) 400 db2
                              | (None, db2) \<Rightarrow>
                                  (case get_order oid db2 of
                                     None \<Rightarrow> internal_error e tok db2
                                   | Some ord \<Rightarrow>
                                       acme_response e tok
                                         (Order_reply ord (authz_urls e oid db2) (order_url e oid) 200) db2)))
                    | _ \<Rightarrow> internal_error e tok db1)
             | _ \<Rightarrow> internal_error e tok db1)) db"

subsection \<open>Authorizations, challenges, certificates\<close>

definition authorization_info :: "jws_env \<Rightarrow> string \<Rightarrow> string \<Rightarrow> dict option \<Rightarrow> acme_db \<Rightarrow> acme_reply \<times> acme_db" where
  "authorization_info e tok aid body db =
     with_optional_jws e tok body (je_base_url e @ ''/acme/authz/'' @ aid)
       (\<lambda>_ db1. case get_authorization aid db1 of
                  None \<Rightarrow> acme_error e tok ''authzDoesNotExist'' ''Authorization not found'' 404 db1
                | Some a \<Rightarrow>
                    acme_response e tok (Authorization_reply a (authorization_challenges aid db1)) db1) db"

text \<open>A challenge is looked up by the end of its URL, an SQL pattern, then by its identifier.\<close>

definition find_challenge :: "string \<Rightarrow> acme_db \<Rightarrow> acme_challenge option" where
  "find_challenge cid db =
     (case find (\<lambda>c. ilike (ch_url c) (''%/'' @ cid)) (challenges db) of
        Some c \<Rightarrow> Some c
      | None \<Rightarrow> get_challenge cid db)"

definition respond_to_challenge ::
  "jws_env \<Rightarrow> acme_env \<Rightarrow> string \<Rightarrow> string \<Rightarrow> dict option \<Rightarrow> acme_db \<Rightarrow> acme_reply \<times> acme_db" where
  "respond_to_challenge e env tok cid body db =
     (case body of
        None \<Rightarrow> acme_error e tok ''malformed'' ''Request body must be JWS'' 400 db
      | Some jws \<Rightarrow>
          if jws = [] then acme_error e tok ''malformed'' ''Request body must be JWS'' 400 db
          else
            (case find_challenge cid db of
               None \<Rightarrow> acme_error e tok ''challengeDoesNotExist'' ''Challenge not found'' 404 db
             | Some c \<Rightarrow>
                 with_jws e tok body (or_else (ch_url c) (je_base_url e @ ''/acme/challenge/'' @ cid))
                   (\<lambda>payload jwk db1.
                      case (case kid_account e jws of
                              Inl u \<Rightarrow> Inl u
                            | Inr None \<Rightarrow> Inr None
                            | Inr (Some aid) \<Rightarrow> Inr (get_account_by_kid aid db1)) of
                        Inl _ \<Rightarrow> internal_error e tok db1
                      | Inr None \<Rightarrow> acme_error e tok ''accountDoesNotExist'' ''Account not found'' 404 db1
                      | Inr (Some account) \<Rightarrow>
                          if ch_type c \<noteq> ''http-01'' \<and> ch_type c \<noteq> ''dns-01''
                          then acme_error e tok ''unsupportedType''
                                 (''Challenge type '' @ ch_type c @ '' not supported'') 400 db1
                          else
                            (case get_authorization (ch_authorization_id c) db1 of
                               None \<Rightarrow> internal_error e tok db1
                             | Some auth \<Rightarrow>
                                 (let (_, db2) =
                                        (if ch_type c = ''http-01''
                                         then validate_http01_challenge (env_http_get env) (je_now e) c auth account db1
                                         else validate_dns01_challenge (je_sha_b64 e) (env_resolve_txt env)
                                                (je_now e) c auth account db1)
                                  in case row_get ch_id (challenges db2) (ch_id c) of
                                       None \<Rightarrow> internal_error e tok db2
                                     | Some c' \<Rightarrow> acme_response e tok (Challenge_reply c') db2))) db))"

text \<open>The loop of \<^verbatim>\<open>download_certificate\<close> up the chain of CAs, with the set of CAs seen.\<close>

function ca_chain :: "ca_row list \<Rightarrow> string set \<Rightarrow> string option \<Rightarrow> ca_row list" where
  "ca_chain cs seen r =
     (case r of
        None \<Rightarrow> []
      | Some ref \<Rightarrow>
          if ref = [] \<or> ref \<in> seen then []
          else (case find (\<lambda>c. ca_refid c = ref) cs of
                  None \<Rightarrow> []
                | Some ca \<Rightarrow> ca # ca_chain cs (insert ref seen) (ca_caref ca)))"
  by pat_completeness auto

termination
proof (relation "measure (\<lambda>(cs, seen, r). card (ca_refid ` set cs - seen))", simp, clarsimp)
  fix cs seen ref ca
  assume *: "ref \<notin> seen" "find (\<lambda>c. ca_refid c = ref) cs = Some ca"
  then have "ref \<in> ca_refid ` set cs - seen" by (auto dest: find_Some_in)
  then show "card (ca_refid ` set cs - insert ref seen) < card (ca_refid ` set cs - seen)"
    by (intro psubset_card_mono) auto
qed

declare ca_chain.simps [simp del]

definition pem_begin :: string where
  "pem_begin = ''-----BEGIN CERTIFICATE-----''"

definition pem_of :: "jws_env \<Rightarrow> string option \<Rightarrow> string option" where
  "pem_of e crt =
     (case crt of
        None \<Rightarrow> None
      | Some b \<Rightarrow>
          (case je_unb64 e b of
             None \<Rightarrow> None
           | Some s \<Rightarrow>
               Some (strip (if startswith (strip s) pem_begin then s
                            else pem_begin @ [CHR 0x0A] @ s @ [CHR 0x0A] @ ''-----END CERTIFICATE-----''))))"

fun all_some :: "'a option list \<Rightarrow> 'a list option" where
  "all_some [] = Some []"
| "all_some (x # xs) = (case x of None \<Rightarrow> None | Some y \<Rightarrow> map_option (\<lambda>ys. y # ys) (all_some xs))"

definition download_certificate ::
  "jws_env \<Rightarrow> string \<Rightarrow> string \<Rightarrow> string \<Rightarrow> dict option \<Rightarrow> acme_db \<Rightarrow> acme_reply \<times> acme_db" where
  "download_certificate e tok meth oid body db =
     with_optional_jws e tok (if meth = ''POST'' then body else None) (je_base_url e @ ''/acme/cert/'' @ oid)
       (\<lambda>_ db1.
          case get_order oid db1 of
            None \<Rightarrow> acme_error e tok ''notFound'' ''Order not found'' 404 db1
          | Some ord \<Rightarrow>
              if or_status ord \<noteq> ''valid''
              then acme_error e tok ''orderNotReady''
                     (''Order status is '' @ or_status ord @ '', certificate not available'') 403 db1
              else
                (case or_certificate_id ord of
                   None \<Rightarrow> acme_error e tok ''serverInternal'' ''Certificate not generated'' 500 db1
                 | Some cid \<Rightarrow>
                     if cid = 0 then acme_error e tok ''serverInternal'' ''Certificate not generated'' 500 db1
                     else
                       (case row_get ce_id (certs db1) cid of
                          None \<Rightarrow> acme_error e tok ''serverInternal'' ''Certificate not found in database'' 500 db1
                        | Some ce \<Rightarrow>
                            if \<not> nonempty (ce_crt ce)
                            then acme_error e tok ''serverInternal'' ''Certificate not found in database'' 500 db1
                            else
                              (case all_some (map (pem_of e)
                                      (ce_crt ce # map ca_crt (ca_chain (cas db1) {} (ce_caref ce)))) of
                                 None \<Rightarrow> (Unhandled ''binascii.Error'', db1)
                               | Some pems \<Rightarrow>
                                   (Pem_chain (join_with [CHR 0x0A] pems @ [CHR 0x0A]),
                                    snd (generate_nonce (je_now e) tok db1)))))) db"

text \<open>
  \<^verbatim>\<open>revoke_cert\<close>: the query uses the attribute \<^verbatim>\<open>Certificate.serial\<close>, which the model class does not
  have, so every request that gets there ends in the handler for exceptions.
\<close>

definition revoke_cert :: "jws_env \<Rightarrow> string \<Rightarrow> dict option \<Rightarrow> acme_db \<Rightarrow> acme_reply \<times> acme_db" where
  "revoke_cert e tok body db =
     with_jws e tok body (je_base_url e @ ''/acme/revoke-cert'')
       (\<lambda>payload jwk db1.
          if \<not> truthy payload then acme_error e tok ''malformed'' ''Payload required'' 400 db1
          else
            (case payload of
               JObj p \<Rightarrow>
                 if \<not> truthy (jget p ''certificate'')
                 then acme_error e tok ''malformed'' ''Certificate required in payload'' 400 db1
                 else internal_error e tok db1
             | _ \<Rightarrow> internal_error e tok db1)) db"

subsection \<open>Lemmas\<close>

lemma with_optional_jws_Inr:
  assumes "verify_jws e jws url None db = (Inr (payload, jwk), db1)" "jws \<noteq> []"
  shows "with_optional_jws e tok (Some jws) url k db = k (Some payload) db1"
  using assms by (simp add: with_optional_jws_def)

lemma accounts_unchanged:
  "accounts (snd (validate_nonce now n db)) = accounts db"
  "accounts (snd (generate_nonce now n db)) = accounts db"
  by (simp_all add: validate_nonce_def generate_nonce_def)

lemma get_account_update:
  assumes "\<And>a. ac_account_id (f a) = ac_account_id a"
  shows "get_account_by_kid aid (update_account aid f db) = map_option f (get_account_by_kid aid db)"
proof -
  have "get_account_by_kid aid (update_account aid f db)
      = map_option (\<lambda>a. if ac_account_id a = aid then f a else a) (get_account_by_kid aid db)"
    unfolding get_account_by_kid_def update_account_def by (simp add: find_map_same assms)
  then show ?thesis
    by (cases "get_account_by_kid aid db") (auto simp: get_account_by_kid_def dest: find_Some_in)
qed

lemma validate_nonce_twice: "\<not> fst (validate_nonce now t (snd (validate_nonce now t db)))"
  by (auto simp: validate_nonce_def nonce_matches_def filter_empty_conv)

lemma validate_nonce_fresh:
  assumes "fst (validate_nonce now t db)"
  shows "\<exists>n \<in> set (nonces db). no_token n = t \<and> \<not> no_used n \<and> now < no_expires_at n
    \<and> n\<lparr>no_used := True, no_used_at := Some now\<rparr> \<in> set (nonces (snd (validate_nonce now t db)))"
proof -
  obtain n where n: "n \<in> set (nonces db)" "nonce_matches now t n"
    using assms by (auto simp: validate_nonce_def filter_empty_conv)
  then show ?thesis by (intro bexI [of _ n]) (force simp: validate_nonce_def nonce_matches_def)+
qed

lemma get_account_generate:
  "get_account_by_kid aid (snd (generate_nonce now t db)) = get_account_by_kid aid db"
  by (simp add: get_account_by_kid_def accounts_unchanged)

lemma verify_jws_kid:
  assumes "jget jws ''protected'' = JStr p" "je_decode e p = Decoded (JObj h)" "jget h ''url'' = JStr url"
    "jget h ''nonce'' = JStr n" "n \<noteq> []" "fst (validate_nonce (je_now e) n db)" "\<not> truthy (jget h ''jwk'')"
    "truthy (jget h ''kid'')" "jhas jws ''payload''" "decode_payload e (jget jws ''payload'') = Inr payload"
  shows "verify_jws e jws url None db = (Inr (payload, jget h ''jwk''), snd (validate_nonce (je_now e) n db))"
proof -
  have "jhas jws ''protected''"
    using assms(1) by (auto simp: jget_def jhas_def split: option.splits)
  moreover have "truthy (JStr n)" using assms(5) by (simp add: truthy_def)
  ultimately show ?thesis
    using assms unfolding verify_jws_def by (simp add: case_prod_beta Let_def)
qed

lemma check_signature_None:
  assumes "check_signature e jws h key = None"
  shows "\<exists>k p q sig alg. key = JObj k \<and> jget jws ''protected'' = JStr p \<and> jget jws ''payload'' = JStr q
    \<and> jget_or jws ''signature'' (JStr []) = JStr sig \<and> jget h ''alg'' = JStr alg \<and> alg \<in> set SIGNATURE_ALGS
    \<and> je_verify_sig e alg k (p @ ''.'' @ q) sig"
  using assms by (auto simp: check_signature_def split: json.splits if_splits)

lemma verify_jws_Inr:
  assumes "verify_jws e jws url None db = (Inr (payload, jwk), db')"
  shows "\<exists>p h n. jget jws ''protected'' = JStr p \<and> je_decode e p = Decoded (JObj h) \<and> jget h ''url'' = JStr url
    \<and> jget h ''nonce'' = JStr n \<and> fst (validate_nonce (je_now e) n db) \<and> db' = snd (validate_nonce (je_now e) n db)
    \<and> truthy (jget h ''nonce'') \<and> jwk = jget h ''jwk'' \<and> (truthy jwk \<longrightarrow> check_signature e jws h jwk = None)"
  using assms unfolding verify_jws_def
  by (simp add: case_prod_beta Let_def split: json.splits decoded.splits if_splits option.splits sum.splits)

subsection \<open>The chain\<close>

text \<open>The chain that the loop should deliver: it starts at the reference, each CA names the next one as its
  issuer, and it ends only where there is no next CA to add: no reference, an unknown one, or one that the
  chain already has.\<close>

fun issuer_links :: "ca_row list \<Rightarrow> string set \<Rightarrow> string option \<Rightarrow> ca_row list \<Rightarrow> bool" where
  "issuer_links cs seen r [] =
     (case r of None \<Rightarrow> True | Some ref \<Rightarrow> ref = [] \<or> ref \<in> seen \<or> ref \<notin> ca_refid ` set cs)"
| "issuer_links cs seen r (c # chain) =
     (r = Some (ca_refid c) \<and> issuer_links cs (insert (ca_refid c) seen) (ca_caref c) chain)"

lemma ca_chain_cases:
  obtains (stop) "ca_chain cs seen r = []" "issuer_links cs seen r []"
  | (step) ca where "r = Some (ca_refid ca)" "ca_refid ca \<noteq> []" "ca_refid ca \<notin> seen"
      "ca \<in> set cs" "find (\<lambda>c. ca_refid c = ca_refid ca) cs = Some ca"
      "ca_chain cs seen r = ca # ca_chain cs (insert (ca_refid ca) seen) (ca_caref ca)"
proof (cases "\<exists>ref. r = Some ref \<and> ref \<noteq> [] \<and> ref \<notin> seen \<and> find (\<lambda>c. ca_refid c = ref) cs \<noteq> None")
  case True
  then obtain ca where ca: "r = Some (ca_refid ca)" "ca_refid ca \<noteq> []" "ca_refid ca \<notin> seen" "ca \<in> set cs"
    "find (\<lambda>c. ca_refid c = ca_refid ca) cs = Some ca"
    using find_Some_in by fastforce
  then have "ca_chain cs seen r = ca # ca_chain cs (insert (ca_refid ca) seen) (ca_caref ca)"
    by (subst ca_chain.simps) simp
  with ca show ?thesis by (rule step)
next
  case False
  then have "ca_chain cs seen r = []"
    by (subst ca_chain.simps) (auto split: option.splits)
  moreover have "issuer_links cs seen r []"
    using False by (auto simp: find_None_iff image_iff split: option.splits)
  ultimately show ?thesis by (rule stop)
qed

lemma ca_chain_facts:
  "distinct (map ca_refid (ca_chain cs seen r)) \<and> set (map ca_refid (ca_chain cs seen r)) \<inter> seen = {}
   \<and> set (ca_chain cs seen r) \<subseteq> set cs \<and> issuer_links cs seen r (ca_chain cs seen r)"
proof (induction cs seen r rule: ca_chain.induct)
  case (1 cs seen r)
  show ?case
  proof (cases rule: ca_chain_cases [of cs seen r])
    case stop
    then show ?thesis by simp
  next
    case (step ca)
    then have "issuer_links cs (insert (ca_refid ca) seen) (ca_caref ca) (ca_chain cs (insert (ca_refid ca) seen) (ca_caref ca))
      \<and> distinct (map ca_refid (ca_chain cs (insert (ca_refid ca) seen) (ca_caref ca)))
      \<and> set (map ca_refid (ca_chain cs (insert (ca_refid ca) seen) (ca_caref ca))) \<inter> insert (ca_refid ca) seen = {}
      \<and> set (ca_chain cs (insert (ca_refid ca) seen) (ca_caref ca)) \<subseteq> set cs"
      using 1 [of "ca_refid ca" ca] by blast
    then show ?thesis
      using step(1-4) unfolding step(6) by auto
  qed
qed

text \<open>Whatever cycles the table of CAs has, the loop of \<^verbatim>\<open>download_certificate\<close> ends with a chain of
  different CAs of the table, no longer than the table, in which each is the issuer named by the one before
  (the first one by the certificate) and which stops only where there is no further CA to add.\<close>

theorem ca_chain_complete:
  "distinct (map ca_refid (ca_chain cs {} r)) \<and> set (ca_chain cs {} r) \<subseteq> set cs
   \<and> length (ca_chain cs {} r) \<le> length cs \<and> issuer_links cs {} r (ca_chain cs {} r)"
proof -
  have *: "distinct (ca_chain cs {} r)" "set (ca_chain cs {} r) \<subseteq> set cs"
    using ca_chain_facts [of cs "{}" r] distinct_map by blast+
  then have "length (ca_chain cs {} r) \<le> length cs"
    by (metis card_length card_mono distinct_card List.finite_set le_trans)
  then show ?thesis using ca_chain_facts [of cs "{}" r] by blast
qed

subsection \<open>Signed requests\<close>

definition demo_jws :: "json \<Rightarrow> dict" where
  "demo_jws header_text = [(''protected'', header_text), (''payload'', JStr ''deact''), (''signature'', JStr ''none'')]"

definition demo_key :: dict where
  "demo_key = [(''kty'', JStr ''RSA''), (''n'', JStr ''n''), (''e'', JStr ''AQAB'')]"

definition demo_decode :: "string \<Rightarrow> decoded" where
  "demo_decode s =
     (if s = ''keyed''
      then Decoded (JObj [(''alg'', JStr ''RS256''), (''jwk'', JObj demo_key), (''nonce'', JStr ''n1''),
                          (''url'', JStr ''https://ca/acme/acct/acme1'')])
      else if s = ''kid''
      then Decoded (JObj [(''alg'', JStr ''RS256''), (''kid'', JStr ''https://ca/acme/acct/acme1''),
                          (''nonce'', JStr ''n1''), (''url'', JStr ''https://ca/acme/acct/acme1'')])
      else if s = ''deact'' then Decoded (JObj [(''status'', JStr ''deactivated'')]) else Bad_text)"

definition demo_jws_env :: "bool \<Rightarrow> jws_env" where
  "demo_jws_env sig_ok =
     \<lparr>je_base_url = ''https://ca'', je_now = 0, je_decode = demo_decode, je_sig_text_ok = (\<lambda>_. True),
      je_key_loads = (\<lambda>_. True), je_verify_sig = (\<lambda>_ _ _ _. sig_ok), je_sha_b64 = (\<lambda>s. s),
      je_parse_iso = (\<lambda>_. None), je_csr_pem = (\<lambda>_. None), je_unb64 = Some\<rparr>"

definition demo_accounts :: acme_db where
  "demo_accounts = empty_acme\<lparr>accounts := [demo_account\<lparr>ac_account_id := ''acme1'', ac_status := ''valid''\<rparr>],
     nonces := [\<lparr>no_id = 1, no_token = ''n1'', no_created_at = 0, no_expires_at = 5, no_used = False, no_used_at = None\<rparr>]\<rparr>"

text \<open>C25. A request that carries its key and is accepted was made for the address it arrived at, names a nonce that the table
  held unused and unexpired and that is marked as used afterwards, and has a signature over header and payload that the key verifies, with one of
  the six supported algorithms; the same request is refused when it comes again.\<close>

theorem jws_key_requests_signed:
  assumes "verify_jws e jws url None db = (Inr (payload, jwk), db')" "truthy jwk"
  shows "\<exists>h k p q sig alg. jwk = JObj k \<and> jget jws ''protected'' = JStr p \<and> jget jws ''payload'' = JStr q
    \<and> jget_or jws ''signature'' (JStr []) = JStr sig \<and> je_decode e p = Decoded (JObj h) \<and> jget h ''url'' = JStr url
    \<and> jget h ''alg'' = JStr alg \<and> alg \<in> set SIGNATURE_ALGS \<and> je_verify_sig e alg k (p @ ''.'' @ q) sig
    \<and> (\<exists>n \<in> set (nonces db). jget h ''nonce'' = JStr (no_token n) \<and> \<not> no_used n \<and> je_now e < no_expires_at n
          \<and> n\<lparr>no_used := True, no_used_at := Some (je_now e)\<rparr> \<in> set (nonces db'))
    \<and> fst (verify_jws e jws url None db') = Inl ''Invalid or expired nonce''"
proof -
  obtain p h n where v: "jget jws ''protected'' = JStr p" "je_decode e p = Decoded (JObj h)" "jget h ''url'' = JStr url"
    "jget h ''nonce'' = JStr n" "db' = snd (validate_nonce (je_now e) n db)" "truthy (jget h ''nonce'')"
    "check_signature e jws h jwk = None" "fst (validate_nonce (je_now e) n db)"
    using verify_jws_Inr [OF assms(1)] assms(2) by blast
  have nonce: "\<exists>n \<in> set (nonces db). jget h ''nonce'' = JStr (no_token n) \<and> \<not> no_used n \<and> je_now e < no_expires_at n
      \<and> n\<lparr>no_used := True, no_used_at := Some (je_now e)\<rparr> \<in> set (nonces db')"
    using validate_nonce_fresh [OF v(8)] v(4) unfolding v(5) by metis
  have "\<not> fst (validate_nonce (je_now e) n db')"
    unfolding v(5) by (rule validate_nonce_twice)
  moreover have "jhas jws ''protected''"
    using v(1) by (auto simp: jget_def jhas_def split: option.splits)
  ultimately have "fst (verify_jws e jws url None db') = Inl ''Invalid or expired nonce''"
    using v unfolding verify_jws_def by (simp add: case_prod_beta Let_def)
  moreover obtain k p' q sig alg where "jwk = JObj k" "jget jws ''protected'' = JStr p'" "jget jws ''payload'' = JStr q"
    "jget_or jws ''signature'' (JStr []) = JStr sig" "jget h ''alg'' = JStr alg" "alg \<in> set SIGNATURE_ALGS"
    "je_verify_sig e alg k (p' @ ''.'' @ q) sig"
    using check_signature_None [OF v(7)] by blast
  moreover from this v(1) have "p' = p" by simp
  ultimately show ?thesis
    using v(2,3) nonce by (intro exI [of _ h] exI [of _ k] exI [of _ p] exI [of _ q] exI [of _ sig] exI [of _ alg]) simp
qed

lemma jws_key_requests_signed_witness:
  "\<exists>h k p q sig alg. JObj demo_key = JObj k \<and> jget (demo_jws (JStr ''keyed'')) ''protected'' = JStr p
    \<and> jget (demo_jws (JStr ''keyed'')) ''payload'' = JStr q
    \<and> jget_or (demo_jws (JStr ''keyed'')) ''signature'' (JStr []) = JStr sig
    \<and> je_decode (demo_jws_env True) p = Decoded (JObj h) \<and> jget h ''url'' = JStr ''https://ca/acme/acct/acme1''
    \<and> jget h ''alg'' = JStr alg \<and> alg \<in> set SIGNATURE_ALGS
    \<and> je_verify_sig (demo_jws_env True) alg k (p @ ''.'' @ q) sig
    \<and> (\<exists>n \<in> set (nonces demo_accounts). jget h ''nonce'' = JStr (no_token n) \<and> \<not> no_used n \<and> je_now (demo_jws_env True) < no_expires_at n
          \<and> n\<lparr>no_used := True, no_used_at := Some (je_now (demo_jws_env True))\<rparr> \<in>
            set (nonces (snd (verify_jws (demo_jws_env True) (demo_jws (JStr ''keyed'')) ''https://ca/acme/acct/acme1'' None demo_accounts))))
    \<and> fst (verify_jws (demo_jws_env True) (demo_jws (JStr ''keyed'')) ''https://ca/acme/acct/acme1'' None
          (snd (verify_jws (demo_jws_env True) (demo_jws (JStr ''keyed'')) ''https://ca/acme/acct/acme1'' None
             demo_accounts))) = Inl ''Invalid or expired nonce''"
proof (rule jws_key_requests_signed)
  let ?r = "verify_jws (demo_jws_env True) (demo_jws (JStr ''keyed'')) ''https://ca/acme/acct/acme1'' None demo_accounts"
  have "fst ?r = Inr (JObj [(''status'', JStr ''deactivated'')], JObj demo_key)" by code_simp
  then show "?r = (Inr (JObj [(''status'', JStr ''deactivated'')], JObj demo_key), snd ?r)"
    by (metis prod.collapse)
  show "truthy (JObj demo_key)" by code_simp
qed

text \<open>C40. A request that names an account instead of carrying a key is never checked against a signature:
  whoever holds a fresh nonce and knows the identifier of an account can deactivate it, whatever the
  signature library would say.\<close>

theorem kid_requests_unsigned:
  assumes "jget jws ''protected'' = JStr p" "je_decode e p = Decoded (JObj h)"
    "jget h ''url'' = JStr (je_base_url e @ ''/acme/acct/'' @ aid)" "jget h ''nonce'' = JStr n" "n \<noteq> []"
    "fst (validate_nonce (je_now e) n db)" "\<not> truthy (jget h ''jwk'')" "truthy (jget h ''kid'')"
    "jget jws ''payload'' = JStr q" "q \<noteq> []" "je_decode e q = Decoded (JObj r)"
    "jget r ''status'' = JStr ''deactivated''" "get_account_by_kid aid db = Some a"
  shows "map_option ac_status (get_account_by_kid aid (snd (account_info e tok aid (Some jws) db)))
    = Some ''deactivated''"
proof -
  let ?db1 = "snd (validate_nonce (je_now e) n db)"
  have "jws \<noteq> []" "jhas jws ''payload''"
    using assms(1,9) by (auto simp: jget_def jhas_def split: option.splits)
  moreover have "decode_payload e (jget jws ''payload'') = Inr (JObj r)"
    using assms(9-11) by (simp add: decode_payload_def)
  ultimately have v: "with_optional_jws e tok (Some jws) (je_base_url e @ ''/acme/acct/'' @ aid) k db = k (Some (JObj r)) ?db1"
    for k using verify_jws_kid [OF assms(1-8)] by (simp add: with_optional_jws_Inr)
  have "get_account_by_kid aid ?db1 = Some a"
    using assms(13) by (simp add: get_account_by_kid_def accounts_unchanged)
  then show ?thesis
    using assms(12) unfolding account_info_def assms(13) option.case v
    by (simp add: Let_def get_account_update acme_response_def get_account_generate)
qed

lemma kid_requests_unsigned_witness:
  "map_option ac_status (get_account_by_kid ''acme1'' demo_accounts) = Some ''valid''
   \<and> map_option ac_status (get_account_by_kid ''acme1''
       (snd (account_info (demo_jws_env False) ''t'' ''acme1'' (Some (demo_jws (JStr ''kid''))) demo_accounts)))
     = Some ''deactivated''"
proof
  show "map_option ac_status (get_account_by_kid ''acme1'' demo_accounts) = Some ''valid''" by code_simp
  show "map_option ac_status (get_account_by_kid ''acme1''
       (snd (account_info (demo_jws_env False) ''t'' ''acme1'' (Some (demo_jws (JStr ''kid''))) demo_accounts)))
     = Some ''deactivated''"
    by (rule kid_requests_unsigned [where p = "''kid''" and n = "''n1''" and q = "''deact''"
          and r = "[(''status'', JStr ''deactivated'')]"
          and h = "[(''alg'', JStr ''RS256''), (''kid'', JStr ''https://ca/acme/acct/acme1''),
                    (''nonce'', JStr ''n1''), (''url'', JStr ''https://ca/acme/acct/acme1'')]"
          and a = "demo_account\<lparr>ac_account_id := ''acme1'', ac_status := ''valid''\<rparr>"]; code_simp)
qed

end
