(* ===== verification/Crl.thy ===== *)
theory Crl
  imports Audit_Log
begin

text \<open>
  Revocation: \<^verbatim>\<open>revoke_certificate\<close> of \<^verbatim>\<open>services/cert_service.py\<close>, the revocation endpoints of
  \<^verbatim>\<open>api/v2/certificates.py\<close>, CRLs and delta CRLs (\<^verbatim>\<open>services/crl_service.py\<close>, \<^verbatim>\<open>models/crl.py\<close>,
  \<^verbatim>\<open>api/v2/crl.py\<close>) and the task that renews them (\<^verbatim>\<open>services/crl_scheduler_task.py\<close>).

  A CRL is stored as the text that the X.509 library signs; what it signs is a value of type
  \<open>crl_content\<close>. Loading the key of a CA (\<open>ce_load_ca\<close>) and building and signing (\<open>ce_sign\<close>) belong to
  that library and may raise. The audit log is part of the state; \<open>ce_audit_fails\<close> says that the
  database refuses its write, after which the session is rolled back. Dashes in messages are ASCII.
\<close>

subsection \<open>Tables\<close>

record authority =
  au_id :: int
  au_refid :: string
  au_descr :: string
  au_subject :: "string option"
  au_crt :: string
  au_prv :: "string option"
  au_hsm_key_id :: "int option"
  au_cdp_enabled :: bool
  au_cdp_url :: "string option"
  au_delta_crl_enabled :: bool
  au_delta_crl_interval :: "int option"
  au_ocsp_enabled :: bool

definition has_private_key :: "authority \<Rightarrow> bool" where
  "has_private_key a =
     (nonempty (au_prv a) \<or> (case au_hsm_key_id a of None \<Rightarrow> False | Some i \<Rightarrow> i \<noteq> 0))"

record certificate =
  ct_id :: int
  ct_refid :: string
  ct_descr :: string
  ct_subject :: "string option"
  ct_issuer :: "string option"
  ct_caref :: "string option"
  ct_crt :: "string option"
  ct_prv :: "string option"
  ct_valid_from :: "time option"
  ct_valid_to :: "time option"
  ct_serial_number :: "string option"
  ct_revoked :: bool
  ct_revoked_at :: "time option"
  ct_revoke_reason :: "string option"

record crl_metadata =
  cm_id :: int
  cm_ca_id :: int
  cm_crl_number :: int
  cm_this_update :: time
  cm_next_update :: time
  cm_crl_pem :: string
  cm_crl_der :: string
  cm_is_delta :: bool
  cm_base_crl_number :: "int option"
  cm_revoked_count :: nat
  cm_created_at :: time
  cm_generated_by :: string

record ocsp_response =
  os_id :: int
  os_ca_id :: int
  os_cert_serial :: string
  os_response_der :: string
  os_status :: string
  os_this_update :: time
  os_next_update :: time
  os_revocation_time :: "time option"
  os_revocation_reason :: "string option"
  os_created_at :: time
  os_updated_at :: time

record pki_db =
  authorities :: "authority list"
  certificates :: "certificate list"
  crls :: "crl_metadata list"
  ocsp_cache :: "ocsp_response list"
  logs :: "audit_log list"

definition is_stale :: "time \<Rightarrow> crl_metadata \<Rightarrow> bool" where
  "is_stale now m = (now > cm_next_update m)"

definition days_until_expiry :: "time \<Rightarrow> crl_metadata \<Rightarrow> int" where
  "days_until_expiry now m = max 0 ((cm_next_update m - now) div days 1)"

text \<open>\<^verbatim>\<open>order_by(column.desc()).first()\<close>; of rows with the same value the first of the table.\<close>

fun newest :: "('r \<Rightarrow> int) \<Rightarrow> 'r list \<Rightarrow> 'r option" where
  "newest key [] = None"
| "newest key (x # xs) =
     (case newest key xs of None \<Rightarrow> Some x | Some y \<Rightarrow> Some (if key y > key x then y else x))"

subsection \<open>Contents of a CRL\<close>

datatype reason_flag =
    R_unspecified | R_key_compromise | R_ca_compromise | R_affiliation_changed | R_superseded
  | R_cessation_of_operation | R_certificate_hold | R_remove_from_crl | R_privilege_withdrawn
  | R_aa_compromise

definition REASON_MAP :: "(string \<times> reason_flag) list" where
  "REASON_MAP =
     [(''unspecified'', R_unspecified), (''keyCompromise'', R_key_compromise),
      (''CACompromise'', R_ca_compromise), (''affiliationChanged'', R_affiliation_changed),
      (''superseded'', R_superseded), (''cessationOfOperation'', R_cessation_of_operation),
      (''certificateHold'', R_certificate_hold), (''removeFromCRL'', R_remove_from_crl),
      (''privilegeWithdrawn'', R_privilege_withdrawn), (''aACompromise'', R_aa_compromise)]"

record crl_entry =
  en_serial :: int
  en_date :: time
  en_reason :: "reason_flag option"

record crl_content =
  cc_last_update :: time
  cc_next_update :: time
  cc_entries :: "crl_entry list"
  cc_number :: int
  cc_delta_base :: "int option"
  cc_freshest :: "string option"

text \<open>The serial number of an entry: hexadecimal text, cut to 159 bits.\<close>

definition crl_serial :: "string \<Rightarrow> int option" where
  "crl_serial s =
     map_option (\<lambda>n. if \<bar>n\<bar> \<ge> 2 ^ 159 then n mod 2 ^ 159 else n)
       (py_int 16 (filter (\<lambda>c. c \<noteq> CHR '':'') s))"

definition crl_entry_of :: "time \<Rightarrow> certificate \<Rightarrow> crl_entry option" where
  "crl_entry_of now c =
     (if \<not> nonempty (ct_serial_number c) then None
      else map_option
        (\<lambda>n. \<lparr>en_serial = n,
              en_date = (case ct_revoked_at c of None \<Rightarrow> now | Some t \<Rightarrow> t),
              en_reason = (if nonempty (ct_revoke_reason c)
                           then Some (case map_of REASON_MAP (the (ct_revoke_reason c)) of
                                        None \<Rightarrow> R_unspecified | Some r \<Rightarrow> r)
                           else None)\<rparr>)
        (crl_serial (the (ct_serial_number c))))"

definition crl_entries :: "time \<Rightarrow> certificate list \<Rightarrow> crl_entry list" where
  "crl_entries now cs = List.map_filter (crl_entry_of now) cs"

text \<open>
  The address of the delta CRL, from the scheme and host of the CA's distribution point. Only addresses
  without control characters and brackets are meant, on which \<^verbatim>\<open>urlparse\<close> does not raise.
\<close>

fun replace_text :: "nat \<Rightarrow> string \<Rightarrow> string \<Rightarrow> string \<Rightarrow> string" where
  "replace_text skip old new [] = []"
| "replace_text (Suc skip) old new (c # cs) = replace_text skip old new cs"
| "replace_text 0 old new (c # cs) =
     (if startswith (c # cs) old then new @ replace_text (length old - 1) old new cs
      else c # replace_text 0 old new cs)"

definition is_scheme_char :: "char \<Rightarrow> bool" where
  "is_scheme_char c = (is_lower c \<or> is_upper c \<or> is_digit c \<or> c \<in> set ''+-.'')"

definition url_parts :: "string \<Rightarrow> string \<times> string" where
  "url_parts url =
     (let before = takeWhile (\<lambda>c. c \<noteq> CHR '':'') url;
          has_scheme = (before \<noteq> [] \<and> length before < length url \<and> (is_lower (hd url) \<or> is_upper (hd url))
                        \<and> list_all is_scheme_char before);
          rest = (if has_scheme then drop (length before + 1) url else url)
      in (if has_scheme then lower before else [],
          if startswith rest ''//'' then takeWhile (\<lambda>c. c \<notin> set ''/?#'') (drop 2 rest) else []))"

definition delta_url :: "authority \<Rightarrow> string" where
  "delta_url a =
     (let (scheme, netloc) = url_parts (replace_text 0 ''{ca_refid}'' (au_refid a) (the (au_cdp_url a)))
      in scheme @ ''://'' @ netloc @ ''/cdp/'' @ str_int (au_id a) @ ''-delta.crl'')"

subsection \<open>Generation\<close>

text \<open>An exception of the service: a \<^verbatim>\<open>ValueError\<close>, which some callers single out, or another one.\<close>

datatype py_error = Value_error string | Other_error string

definition error_text :: "py_error \<Rightarrow> string" where
  "error_text e = (case e of Value_error s \<Rightarrow> s | Other_error s \<Rightarrow> s)"

record renewed =
  rn_crt :: string
  rn_prv :: string
  rn_serial :: int
  rn_old_days :: int

record crl_env =
  ce_sha256 :: "string \<Rightarrow> string"
  ce_ctx :: audit_ctx
  ce_audit_fails :: bool
  ce_load_ca :: "authority \<Rightarrow> py_error option"
  ce_uri_ok :: "string \<Rightarrow> bool"
  ce_renew :: "certificate \<Rightarrow> authority \<Rightarrow> py_error + renewed"
  ce_sign :: "string \<Rightarrow> string option \<Rightarrow> crl_content \<Rightarrow> py_error + string \<times> string"

definition ca_object :: "authority \<Rightarrow> named_object" where
  "ca_object a = \<lparr>no_descr = Some (au_descr a), no_subject = au_subject a, no_id = au_id a\<rparr>"

definition cert_object :: "certificate \<Rightarrow> named_object" where
  "cert_object c = \<lparr>no_descr = Some (ct_descr c), no_subject = ct_subject c, no_id = ct_id c\<rparr>"

text \<open>A call of the audit service: what is pending in the session is committed with the new row, or lost
  with it.\<close>

definition audited :: "crl_env \<Rightarrow> time \<Rightarrow> audit_args \<Rightarrow> (pki_db \<Rightarrow> pki_db) \<Rightarrow> pki_db \<Rightarrow> pki_db" where
  "audited e now args pending db =
     (case log_action (ce_sha256 e) now (ce_ctx e) (ce_audit_fails e) args (logs db) of
        (None, _) \<Rightarrow> db
      | (Some _, ls) \<Rightarrow> (pending db)\<lparr>logs := ls\<rparr>)"

definition issued_by :: "authority \<Rightarrow> certificate \<Rightarrow> bool" where
  "issued_by a c = (ct_caref c = Some (au_refid a))"

definition get_revoked_certificates :: "int \<Rightarrow> pki_db \<Rightarrow> py_error + certificate list" where
  "get_revoked_certificates ca_id db =
     (case row_get au_id (authorities db) ca_id of
        None \<Rightarrow> Inl (Value_error (''CA with id '' @ str_int ca_id @ '' not found''))
      | Some a \<Rightarrow> Inr (filter (\<lambda>c. issued_by a c \<and> ct_revoked c) (certificates db)))"

definition crls_of :: "int \<Rightarrow> pki_db \<Rightarrow> crl_metadata list" where
  "crls_of ca_id db = filter (\<lambda>m. cm_ca_id m = ca_id) (crls db)"

definition next_crl_number :: "int \<Rightarrow> pki_db \<Rightarrow> int" where
  "next_crl_number ca_id db =
     (case newest cm_crl_number (crls_of ca_id db) of None \<Rightarrow> 1 | Some m \<Rightarrow> cm_crl_number m + 1)"

definition get_latest_crl :: "int \<Rightarrow> pki_db \<Rightarrow> crl_metadata option" where
  "get_latest_crl ca_id db = newest cm_crl_number (filter (\<lambda>m. \<not> cm_is_delta m) (crls_of ca_id db))"

definition get_latest_delta_crl :: "int \<Rightarrow> pki_db \<Rightarrow> crl_metadata option" where
  "get_latest_delta_crl ca_id db = newest cm_crl_number (filter cm_is_delta (crls_of ca_id db))"

definition base_content :: "crl_env \<Rightarrow> time \<Rightarrow> authority \<Rightarrow> int \<Rightarrow> pki_db \<Rightarrow> crl_content" where
  "base_content e now a validity_days db =
     \<lparr>cc_last_update = now, cc_next_update = now + days validity_days,
      cc_entries = crl_entries now (filter (\<lambda>c. issued_by a c \<and> ct_revoked c) (certificates db)),
      cc_number = next_crl_number (au_id a) db, cc_delta_base = None,
      cc_freshest = (if au_delta_crl_enabled a \<and> nonempty (au_cdp_url a) \<and> ce_uri_ok e (delta_url a)
                     then Some (delta_url a) else None)\<rparr>"

definition new_crl :: "authority \<Rightarrow> crl_content \<Rightarrow> string \<times> string \<Rightarrow> nat \<Rightarrow> string \<Rightarrow> pki_db \<Rightarrow> crl_metadata" where
  "new_crl a content signed n username db =
     \<lparr>cm_id = next_id cm_id (crls db), cm_ca_id = au_id a, cm_crl_number = cc_number content,
      cm_this_update = cc_last_update content, cm_next_update = cc_next_update content,
      cm_crl_pem = fst signed, cm_crl_der = snd signed, cm_is_delta = (cc_delta_base content \<noteq> None),
      cm_base_crl_number = cc_delta_base content, cm_revoked_count = n,
      cm_created_at = cc_last_update content, cm_generated_by = username\<rparr>"

definition generate_crl ::
  "crl_env \<Rightarrow> time \<Rightarrow> int \<Rightarrow> int \<Rightarrow> string \<Rightarrow> pki_db \<Rightarrow> (py_error + crl_metadata) \<times> pki_db" where
  "generate_crl e now ca_id validity_days username db =
     (case row_get au_id (authorities db) ca_id of
        None \<Rightarrow> (Inl (Value_error (''CA with id '' @ str_int ca_id @ '' not found'')), db)
      | Some a \<Rightarrow>
          if \<not> has_private_key a
          then (Inl (Value_error (''CA '' @ au_descr a @ '' does not have a private key - cannot sign CRL'')), db)
          else
            (case ce_load_ca e a of
               Some err \<Rightarrow> (Inl err, db)
             | None \<Rightarrow>
                 (case get_revoked_certificates ca_id db of
                    Inl err \<Rightarrow> (Inl err, db)
                  | Inr revoked \<Rightarrow>
                      (let content = base_content e now a validity_days db
                       in case ce_sign e (au_crt a) (au_prv a) content of
                            Inl err \<Rightarrow> (Inl err, db)
                          | Inr signed \<Rightarrow>
                              (let m = new_crl a content signed (length revoked) username db
                               in (Inr m,
                                   audited e now
                                     (log_ca ''generate_crl'' (ca_object a)
                                        (Some (''Generated CRL #'' @ str_int (cm_crl_number m) @ '' for CA ''
                                               @ au_descr a @ '' with '' @ str_nat (length revoked)
                                               @ '' revoked certificates'')) True)
                                     (\<lambda>d. d\<lparr>crls := crls d @ [m]\<rparr>) db))))))"

definition auto_generate_on_revocation ::
  "crl_env \<Rightarrow> time \<Rightarrow> int \<Rightarrow> string \<Rightarrow> pki_db \<Rightarrow> (py_error + crl_metadata option) \<times> pki_db" where
  "auto_generate_on_revocation e now ca_id username db =
     (case row_get au_id (authorities db) ca_id of
        None \<Rightarrow> (Inr None, db)
      | Some a \<Rightarrow>
          if \<not> au_cdp_enabled a then (Inr None, db)
          else (case generate_crl e now ca_id 7 username db of
                  (Inl err, db') \<Rightarrow> (Inl err, db')
                | (Inr m, db') \<Rightarrow> (Inr (Some m), db')))"

definition get_latest_crl_by_refid :: "string \<Rightarrow> pki_db \<Rightarrow> crl_metadata option" where
  "get_latest_crl_by_refid refid db =
     (case find (\<lambda>a. au_refid a = refid) (authorities db) of
        None \<Rightarrow> None | Some a \<Rightarrow> get_latest_crl (au_id a) db)"

definition get_crl_pem :: "string \<Rightarrow> pki_db \<Rightarrow> string option" where
  "get_crl_pem refid db = map_option cm_crl_pem (get_latest_crl_by_refid refid db)"

definition get_crl_der :: "string \<Rightarrow> pki_db \<Rightarrow> string option" where
  "get_crl_der refid db = map_option cm_crl_der (get_latest_crl_by_refid refid db)"

subsection \<open>Delta CRLs\<close>

definition newly_revoked :: "authority \<Rightarrow> time \<Rightarrow> certificate \<Rightarrow> bool" where
  "newly_revoked a since c =
     (issued_by a c \<and> ct_revoked c \<and> (case ct_revoked_at c of None \<Rightarrow> False | Some t \<Rightarrow> t > since))"

definition delta_content :: "time \<Rightarrow> authority \<Rightarrow> crl_metadata \<Rightarrow> int \<Rightarrow> pki_db \<Rightarrow> crl_content" where
  "delta_content now a base validity_hours db =
     \<lparr>cc_last_update = now, cc_next_update = now + hours validity_hours,
      cc_entries = crl_entries now (filter (newly_revoked a (cm_this_update base)) (certificates db)),
      cc_number = next_crl_number (au_id a) db, cc_delta_base = Some (cm_crl_number base),
      cc_freshest = None\<rparr>"

definition generate_delta_crl ::
  "crl_env \<Rightarrow> time \<Rightarrow> int \<Rightarrow> int \<Rightarrow> string \<Rightarrow> pki_db \<Rightarrow> (py_error + crl_metadata) \<times> pki_db" where
  "generate_delta_crl e now ca_id validity_hours username db =
     (case row_get au_id (authorities db) ca_id of
        None \<Rightarrow> (Inl (Value_error (''CA with id '' @ str_int ca_id @ '' not found'')), db)
      | Some a \<Rightarrow>
          if \<not> has_private_key a
          then (Inl (Value_error (''CA '' @ au_descr a @ '' does not have a private key'')), db)
          else if \<not> au_cdp_enabled a then (Inl (Value_error ''CDP is not enabled for this CA''), db)
          else if \<not> au_delta_crl_enabled a then (Inl (Value_error ''Delta CRL is not enabled for this CA''), db)
          else if validity_hours < 1 \<or> validity_hours > 720
          then (Inl (Value_error ''validity_hours must be between 1 and 720''), db)
          else
            (case get_latest_crl ca_id db of
               None \<Rightarrow> (Inl (Value_error (''No base CRL exists for CA '' @ au_descr a
                                          @ '' - generate a full CRL first'')), db)
             | Some base \<Rightarrow>
                 (case ce_load_ca e a of
                    Some err \<Rightarrow> (Inl err, db)
                  | None \<Rightarrow>
                      (let revoked = filter (newly_revoked a (cm_this_update base)) (certificates db);
                           content = delta_content now a base validity_hours db
                       in case ce_sign e (au_crt a) (au_prv a) content of
                            Inl err \<Rightarrow> (Inl err, db)
                          | Inr signed \<Rightarrow>
                              (let m = new_crl a content signed (length revoked) username db
                               in (Inr m,
                                   audited e now
                                     (log_ca ''generate_delta_crl'' (ca_object a)
                                        (Some (''Generated delta CRL #'' @ str_int (cm_crl_number m) @ '' (base #''
                                               @ str_int (cm_crl_number base) @ '') with ''
                                               @ str_nat (length revoked) @ '' new revocations'')) True)
                                     (\<lambda>d. d\<lparr>crls := crls d @ [m]\<rparr>) db))))))"

subsection \<open>Revocation\<close>

definition revoke_row :: "time \<Rightarrow> string \<Rightarrow> certificate \<Rightarrow> certificate" where
  "revoke_row now reason c =
     c\<lparr>ct_revoked := True, ct_revoked_at := Some now, ct_revoke_reason := Some reason\<rparr>"

definition revocation_entry :: "certificate \<Rightarrow> string \<Rightarrow> audit_args" where
  "revocation_entry c reason =
     log_certificate ''cert_revoked'' (cert_object c)
       (Some (''Revoked certificate: '' @ ct_descr c @ '' - Reason: '' @ reason)) True"

text \<open>The CRL after a revocation: a failure is logged and does not undo the revocation.\<close>

definition crl_after_revocation :: "crl_env \<Rightarrow> time \<Rightarrow> string \<Rightarrow> authority \<Rightarrow> pki_db \<Rightarrow> pki_db" where
  "crl_after_revocation e now username a db =
     (case generate_crl e now (au_id a) 7 username db of
        (Inr _, db') \<Rightarrow> db'
      | (Inl err, db') \<Rightarrow>
          audited e now
            (log_ca ''crl_auto_generation_failed'' (ca_object a)
               (Some (''Failed to auto-generate CRL after revocation: '' @ error_text err)) False)
            (\<lambda>d. d) db')"

text \<open>
  \<^verbatim>\<open>CertificateService.revoke_certificate\<close>. The step that should drop the certificate's OCSP response reads
  \<^verbatim>\<open>certificate.serial\<close>, an attribute that the model does not have; the exception is caught and logged, so
  the step leaves the cache as it is.
\<close>

definition revoke_certificate ::
  "crl_env \<Rightarrow> time \<Rightarrow> int \<Rightarrow> string \<Rightarrow> string \<Rightarrow> pki_db \<Rightarrow> (py_error + certificate) \<times> pki_db" where
  "revoke_certificate e now cert_id reason username db =
     (case row_get ct_id (certificates db) cert_id of
        None \<Rightarrow> (Inl (Value_error ''Certificate not found''), db)
      | Some c \<Rightarrow>
          if ct_revoked c then (Inl (Value_error ''Certificate already revoked''), db)
          else
            (let c' = revoke_row now reason c;
                 db1 = db\<lparr>certificates := row_update ct_id cert_id (revoke_row now reason) (certificates db)\<rparr>;
                 db2 = audited e now (revocation_entry c' reason) (\<lambda>d. d) db1
             in (Inr c',
                 case find (\<lambda>a. issued_by a c) (authorities db2) of
                   Some a \<Rightarrow> if au_cdp_enabled a then crl_after_revocation e now username a db2 else db2
                 | None \<Rightarrow> db2)))"

definition revoke_endpoint ::
  "crl_env \<Rightarrow> time \<Rightarrow> int \<Rightarrow> string option \<Rightarrow> string \<Rightarrow> pki_db \<Rightarrow> certificate http \<times> pki_db" where
  "revoke_endpoint e now cert_id reason_arg username db =
     (let reason = (case reason_arg of None \<Rightarrow> ''unspecified'' | Some r \<Rightarrow> r)
      in case row_get ct_id (certificates db) cert_id of
           None \<Rightarrow> (error_response ''Certificate not found'' 404, db)
         | Some c \<Rightarrow>
             if ct_revoked c then (error_response ''Certificate already revoked'' 400, db)
             else (case revoke_certificate e now cert_id reason username db of
                     (Inr c', db') \<Rightarrow> (success_response c' ''Certificate revoked successfully'', db')
                   | (Inl (Value_error _), db') \<Rightarrow> (error_response ''Validation failed'' 400, db')
                   | (Inl (Other_error _), db') \<Rightarrow> (error_response ''Failed to revoke certificate'' 500, db')))"

definition hold_reasons :: "string list" where
  "hold_reasons = [''certificate_hold'', ''certificateHold'']"

definition unhold_row :: "certificate \<Rightarrow> certificate" where
  "unhold_row c = c\<lparr>ct_revoked := False, ct_revoked_at := None, ct_revoke_reason := None\<rparr>"

text \<open>
  The endpoint that lifts a hold: after the commit it calls \<^verbatim>\<open>AuditService.log\<close>, which does not exist, so the
  rest of the handler, with the regeneration of the CRL, is never reached and the answer is an error.
\<close>

definition unhold_certificate :: "int \<Rightarrow> pki_db \<Rightarrow> certificate http \<times> pki_db" where
  "unhold_certificate cert_id db =
     (case row_get ct_id (certificates db) cert_id of
        None \<Rightarrow> (error_response ''Certificate not found'' 404, db)
      | Some c \<Rightarrow>
          if \<not> ct_revoked c then (error_response ''Certificate is not revoked'' 400, db)
          else if \<not> (case ct_revoke_reason c of None \<Rightarrow> False | Some r \<Rightarrow> r \<in> set hold_reasons)
          then (error_response ''Only certificates with reason \"certificateHold\" can be unheld'' 400, db)
          else (error_response ''Failed to remove certificate hold'' 500,
                db\<lparr>certificates := row_update ct_id cert_id unhold_row (certificates db)\<rparr>))"

subsection \<open>Renewal\<close>

text \<open>
  \<^verbatim>\<open>split('CN=')[1].split(',')[0]\<close> of a name, if it has a common name, and the search for the CA that issued a
  certificate: by its reference, by its issuer's name, then by the issuer's common name.
\<close>

fun before_text :: "string \<Rightarrow> string \<Rightarrow> string" where
  "before_text sub [] = []"
| "before_text sub (c # cs) = (if startswith (c # cs) sub then [] else c # before_text sub cs)"

fun after_text :: "string \<Rightarrow> string \<Rightarrow> string" where
  "after_text sub [] = []"
| "after_text sub (c # cs) =
     (if startswith (c # cs) sub then drop (length sub) (c # cs) else after_text sub cs)"

definition cn_part :: "string \<Rightarrow> string option" where
  "cn_part s = (if contains ''CN='' s
                then Some (split_on (CHR '','') (before_text ''CN='' (after_text ''CN='' s)) ! 0) else None)"

definition issuing_ca :: "certificate \<Rightarrow> pki_db \<Rightarrow> authority option" where
  "issuing_ca c db =
     (case find (\<lambda>a. issued_by a c) (authorities db) of
        Some a \<Rightarrow> Some a
      | None \<Rightarrow>
          if \<not> nonempty (ct_issuer c) then None
          else (case find (\<lambda>a. au_subject a = ct_issuer c) (authorities db) of
                  Some a \<Rightarrow> Some a
                | None \<Rightarrow>
                    find (\<lambda>a. nonempty (au_subject a) \<and> nonempty (cn_part (the (au_subject a)))
                              \<and> cn_part (the (au_subject a)) = cn_part (the (ct_issuer c))) (authorities db)))"

text \<open>\<^verbatim>\<open>format(n, 'x')\<close>.\<close>

fun hex_nat :: "nat \<Rightarrow> string" where
  "hex_nat n = (if n < 16 then [hex_digit n] else hex_nat (n div 16) @ [hex_digit (n mod 16)])"

declare hex_nat.simps [simp del]

definition format_hex :: "int \<Rightarrow> string" where
  "format_hex n = (if n < 0 then ''-'' @ hex_nat (nat (- n)) else hex_nat (nat n))"

definition renew_row :: "time \<Rightarrow> renewed \<Rightarrow> certificate \<Rightarrow> certificate" where
  "renew_row now r c =
     c\<lparr>ct_crt := Some (rn_crt r), ct_prv := Some (rn_prv r), ct_serial_number := Some (format_hex (rn_serial r)),
       ct_valid_from := Some now,
       ct_valid_to := Some (now + days (if rn_old_days r > 0 then rn_old_days r else 365)),
       ct_revoked := False, ct_revoked_at := None, ct_revoke_reason := None\<rparr>"

text \<open>The new certificate replaces the old one in its row; \<open>ce_renew\<close> makes the key pair and the certificate.\<close>

definition renew_certificate :: "crl_env \<Rightarrow> time \<Rightarrow> int \<Rightarrow> pki_db \<Rightarrow> certificate http \<times> pki_db" where
  "renew_certificate e now cert_id db =
     (case row_get ct_id (certificates db) cert_id of
        None \<Rightarrow> (error_response ''Certificate not found'' 404, db)
      | Some c \<Rightarrow>
          if \<not> nonempty (ct_crt c) then (error_response ''Certificate data not available'' 400, db)
          else
            (case issuing_ca c db of
               None \<Rightarrow> (error_response
                 ''Issuing CA not found. The CA that signed this certificate is not in the system.'' 404, db)
             | Some a \<Rightarrow>
                 if \<not> nonempty (au_prv a)
                 then (error_response
                   ''CA private key not available. Cannot renew without CA private key.'' 400, db)
                 else
                   (case ce_renew e c a of
                      Inl _ \<Rightarrow> (error_response ''Failed to renew certificate'' 500, db)
                    | Inr r \<Rightarrow>
                        (success_response (renew_row now r c) ''Certificate renewed successfully'',
                         audited e now
                           (audit_call ''certificate_renewed'' (Some ''certificate'') (Txt_id (str_int cert_id))
                              (case ct_subject c of None \<Rightarrow> No_text | Some t \<Rightarrow> Txt t)
                              (Txt (''Renewed until '' @ isoformat (the (ct_valid_to (renew_row now r c))))) True None)
                           (\<lambda>d. d)
                           (db\<lparr>certificates := row_update ct_id cert_id (renew_row now r) (certificates db)\<rparr>)))))"

subsection \<open>Endpoints\<close>

record crl_view =
  cv_crl :: crl_metadata
  cv_caref :: "string option"
  cv_delta :: "crl_metadata option"

definition list_crls :: "pki_db \<Rightarrow> crl_view list" where
  "list_crls db =
     map (\<lambda>m. \<lparr>cv_crl = m, cv_caref = map_option au_refid (row_get au_id (authorities db) (cm_ca_id m)),
               cv_delta = get_latest_delta_crl (cm_ca_id m) db\<rparr>)
       (filter (\<lambda>m. case get_latest_crl (cm_ca_id m) db of
                      None \<Rightarrow> False | Some b \<Rightarrow> cm_crl_number m = cm_crl_number b) (crls db))"

definition get_crl :: "int \<Rightarrow> pki_db \<Rightarrow> (crl_metadata \<times> string) option http" where
  "get_crl ca_id db =
     (case row_get au_id (authorities db) ca_id of
        None \<Rightarrow> error_response ''CA not found'' 404
      | Some a \<Rightarrow> success_response (map_option (\<lambda>m. (m, au_refid a)) (get_latest_crl ca_id db)) [])"

definition get_delta_crl :: "int \<Rightarrow> pki_db \<Rightarrow> (crl_metadata \<times> string) option http" where
  "get_delta_crl ca_id db =
     (case row_get au_id (authorities db) ca_id of
        None \<Rightarrow> error_response ''CA not found'' 404
      | Some a \<Rightarrow> success_response (map_option (\<lambda>m. (m, au_refid a)) (get_latest_delta_crl ca_id db)) [])"

text \<open>
  The name of the caller, \<^verbatim>\<open>getattr(g, 'user', {}).get('username', 'admin')\<close>: \<open>g_user\<close> says that the certificate
  middleware has stored a user object, which has no method \<^verbatim>\<open>get\<close>.
\<close>

definition caller_name :: "bool \<Rightarrow> string option" where
  "caller_name g_user = (if g_user then None else Some ''admin'')"

definition regenerate_crl_endpoint ::
  "crl_env \<Rightarrow> time \<Rightarrow> bool \<Rightarrow> int \<Rightarrow> pki_db \<Rightarrow> crl_metadata http \<times> pki_db" where
  "regenerate_crl_endpoint e now g_user ca_id db =
     (case row_get au_id (authorities db) ca_id of
        None \<Rightarrow> (error_response ''CA not found'' 404, db)
      | Some a \<Rightarrow>
          if \<not> has_private_key a
          then (error_response (''CA \"'' @ au_descr a @ ''\" does not have a private key - cannot sign CRL'') 400, db)
          else
            (case caller_name g_user of
               None \<Rightarrow> (error_response ''Failed to regenerate CRL'' 500, db)
             | Some username \<Rightarrow>
                 (case generate_crl e now ca_id 7 username db of
                    (Inl _, db') \<Rightarrow> (error_response ''Failed to regenerate CRL'' 500, db')
                  | (Inr m, db') \<Rightarrow>
                      (success_response m ''CRL regenerated successfully'',
                       audited e now
                         (audit_call ''crl_regenerate'' (Some ''crl'') (Txt_id (str_int ca_id)) (Txt (au_descr a))
                            (Txt (''Regenerated CRL for CA: '' @ au_descr a)) True None) (\<lambda>d. d) db'))))"

definition regenerate_delta_endpoint ::
  "crl_env \<Rightarrow> time \<Rightarrow> bool \<Rightarrow> int \<Rightarrow> pki_db \<Rightarrow> crl_metadata http \<times> pki_db" where
  "regenerate_delta_endpoint e now g_user ca_id db =
     (case row_get au_id (authorities db) ca_id of
        None \<Rightarrow> (error_response ''CA not found'' 404, db)
      | Some a \<Rightarrow>
          if \<not> has_private_key a then (error_response ''CA does not have a private key'' 400, db)
          else if \<not> au_cdp_enabled a then (error_response ''CDP is not enabled for this CA'' 400, db)
          else if \<not> au_delta_crl_enabled a then (error_response ''Delta CRL is not enabled for this CA'' 400, db)
          else
            (case caller_name g_user of
               None \<Rightarrow> (error_response ''Failed to generate delta CRL'' 500, db)
             | Some username \<Rightarrow>
                 (case generate_delta_crl e now ca_id 24 username db of
                    (Inr m, db') \<Rightarrow> (success_response m ''Delta CRL generated successfully'', db')
                  | (Inl (Value_error msg), db') \<Rightarrow>
                      (if contains ''not found'' msg then error_response ''CA not found'' 404
                       else if contains ''private key'' msg then error_response ''CA does not have a private key'' 400
                       else if contains ''base CRL'' msg
                       then error_response ''No base CRL exists - generate a full CRL first'' 400
                       else error_response ''Delta CRL generation failed'' 400, db')
                  | (Inl (Other_error _), db') \<Rightarrow> (error_response ''Failed to generate delta CRL'' 500, db'))))"

text \<open>
  A value for a Boolean column: the database library takes \<^verbatim>\<open>None\<close>, truth values and the numbers equal to
  them and raises on anything else; an absent value counts as false wherever the column is read.
\<close>

definition bool_column :: "json \<Rightarrow> bool option" where
  "bool_column j =
     (case j of JBool b \<Rightarrow> Some b | JNull \<Rightarrow> Some False
      | JInt i \<Rightarrow> if i = 0 then Some False else if i = 1 then Some True else None
      | _ \<Rightarrow> None)"

text \<open>The switch of the automatic regeneration writes its audit row itself, without hashes.\<close>

definition plain_audit_row :: "time \<Rightarrow> string \<Rightarrow> string \<Rightarrow> authority \<Rightarrow> string \<Rightarrow> string option \<Rightarrow> audit_log list \<Rightarrow> audit_log" where
  "plain_audit_row now action username a details ip ls =
     \<lparr>al_id = next_id al_id ls, al_timestamp = now, al_username = Some username, al_action = action,
      al_resource_type = Some ''ca'', al_resource_id = Some (str_int (au_id a)),
      al_resource_name = Some (au_descr a), al_details = Some details, al_ip_address = ip,
      al_user_agent = None, al_success = True, al_prev_hash = None, al_entry_hash = None\<rparr>"

definition toggle_auto_regen ::
  "time \<Rightarrow> bool \<Rightarrow> string option \<Rightarrow> int \<Rightarrow> (string \<times> json) list \<Rightarrow> pki_db \<Rightarrow> bool http \<times> pki_db" where
  "toggle_auto_regen now g_user remote_addr ca_id data db =
     (case row_get au_id (authorities db) ca_id of
        None \<Rightarrow> (error_response ''CA not found'' 404, db)
      | Some a \<Rightarrow>
          (let enabled = jget_or data ''enabled'' (JBool (\<not> au_cdp_enabled a));
               word = (\<lambda>yes no. if truthy enabled then yes else no)
           in case (caller_name g_user, bool_column enabled) of
                (Some username, Some b) \<Rightarrow>
                  (success_response b (''Automatic CRL regeneration '' @ word ''enabled'' ''disabled''),
                   db\<lparr>authorities := row_update au_id ca_id (\<lambda>x. x\<lparr>au_cdp_enabled := b\<rparr>) (authorities db),
                      logs := logs db @ [plain_audit_row now ''crl_auto_regen_toggle'' username a
                                (word ''Enabled'' ''Disabled'' @ '' automatic CRL regeneration'') remote_addr (logs db)]\<rparr>)
              | _ \<Rightarrow> (error_response ''Failed to update CRL settings'' 500, db)))"

text \<open>\<^verbatim>\<open>int(data['interval'])\<close>: numbers, truth values and text that reads as a number.\<close>

definition json_int :: "json \<Rightarrow> int option" where
  "json_int j = (case j of JInt i \<Rightarrow> Some i | JBool b \<Rightarrow> Some (if b then 1 else 0) | JStr s \<Rightarrow> py_int 10 s | _ \<Rightarrow> None)"

definition configure_delta_crl ::
  "crl_env \<Rightarrow> time \<Rightarrow> bool \<Rightarrow> int \<Rightarrow> (string \<times> json) list \<Rightarrow> pki_db \<Rightarrow> (bool \<times> int option) http \<times> pki_db" where
  "configure_delta_crl e now g_user ca_id data db =
     (case row_get au_id (authorities db) ca_id of
        None \<Rightarrow> (error_response ''CA not found'' 404, db)
      | Some a \<Rightarrow>
          (let a1 = (if jhas data ''enabled''
                     then a\<lparr>au_delta_crl_enabled := truthy (jget data ''enabled'')\<rparr> else a)
           in case (if jhas data ''interval'' then map_option Some (json_int (jget data ''interval'')) else Some None) of
                None \<Rightarrow> (error_response ''Failed to update delta CRL settings'' 500, db)
              | Some interval \<Rightarrow>
                  if (case interval of None \<Rightarrow> False | Some i \<Rightarrow> i < 1 \<or> i > 168)
                  then (error_response ''Interval must be between 1 and 168 hours'' 400, db)
                  else
                    (case caller_name g_user of
                       None \<Rightarrow> (error_response ''Failed to update delta CRL settings'' 500, db)
                     | Some _ \<Rightarrow>
                         (let a2 = (case interval of None \<Rightarrow> a1 | Some i \<Rightarrow> a1\<lparr>au_delta_crl_interval := Some i\<rparr>);
                              shown = (case au_delta_crl_interval a2 of None \<Rightarrow> ''None'' | Some i \<Rightarrow> str_int i);
                              db' = audited e now
                                      (audit_call ''delta_crl_config'' (Some ''ca'') (Txt_id (str_int (au_id a)))
                                         (Txt (au_descr a))
                                         (Txt (''Delta CRL config: enabled='' @ str_bool (au_delta_crl_enabled a2)
                                               @ '', interval='' @ shown @ ''h'')) True None)
                                      (\<lambda>d. d\<lparr>authorities := row_update au_id ca_id
                                            (\<lambda>x. x\<lparr>au_delta_crl_enabled := au_delta_crl_enabled a2,
                                                  au_delta_crl_interval := au_delta_crl_interval a2\<rparr>) (authorities d)\<rparr>) db;
                              a3 = the (row_get au_id (authorities db') ca_id)
                          in (success_response (au_delta_crl_enabled a3, au_delta_crl_interval a3)
                                ''Delta CRL configuration updated'', db')))))"

subsection \<open>The scheduled task\<close>

definition quoted :: "string \<Rightarrow> string" where
  "quoted s = [CHR 0x27] @ s @ [CHR 0x27]"

definition REGENERATION_THRESHOLD_HOURS :: int where
  "REGENERATION_THRESHOLD_HOURS = 24"

definition should_regenerate_crl :: "time \<Rightarrow> int \<Rightarrow> pki_db \<Rightarrow> bool \<times> string option" where
  "should_regenerate_crl now ca_id db =
     (case row_get au_id (authorities db) ca_id of
        None \<Rightarrow> (False, Some (''CA '' @ str_int ca_id @ '' not found''))
      | Some a \<Rightarrow>
          if \<not> has_private_key a then (False, Some (''CA '' @ quoted (au_descr a) @ '' has no private key''))
          else
            (case newest cm_created_at (crls_of ca_id db) of
               None \<Rightarrow> (True, Some (''No CRL exists for CA '' @ quoted (au_descr a) @ '' - needs generation''))
             | Some m \<Rightarrow>
                 if is_stale now m then (True, Some (''CRL is stale for CA '' @ quoted (au_descr a) @ '' - needs regeneration''))
                 else if days_until_expiry now m * 24 \<le> REGENERATION_THRESHOLD_HOURS
                 then (True, Some (''CRL expires in '' @ str_int (days_until_expiry now m * 24) @ ''.0h for CA '' @ quoted (au_descr a) @ '' (threshold: 24h)''))
                 else (False, None)))"

definition regenerate_crl :: "crl_env \<Rightarrow> time \<Rightarrow> int \<Rightarrow> pki_db \<Rightarrow> bool \<times> pki_db" where
  "regenerate_crl e now ca_id db =
     (case row_get au_id (authorities db) ca_id of
        None \<Rightarrow> (False, db)
      | Some a \<Rightarrow>
          (case generate_crl e now ca_id 7 ''scheduler'' db of (Inl _, db') \<Rightarrow> (False, db') | (Inr _, db') \<Rightarrow> (True, db')))"

text \<open>
  The task. Its queries are \<^verbatim>\<open>CA.query.filter_by(has_private_key=True, \<dots>)\<close>; \<open>has_private_key\<close> is no column but a
  Python property, and the comparison of the class's attribute with \<^verbatim>\<open>True\<close> is the constant false. \<open>constant_clause\<close>
  is what the database library makes of a constant among the conditions of a query.
\<close>

definition delta_interval :: "authority \<Rightarrow> int" where
  "delta_interval a = (case au_delta_crl_interval a of None \<Rightarrow> 4 | Some i \<Rightarrow> if i = 0 then 4 else i)"

definition need_delta :: "time \<Rightarrow> authority \<Rightarrow> pki_db \<Rightarrow> bool" where
  "need_delta now a db =
     (case get_latest_delta_crl (au_id a) db of
        None \<Rightarrow> get_latest_crl (au_id a) db \<noteq> None
      | Some d \<Rightarrow>
          is_stale now d \<or> now - cm_this_update d \<ge> hours (delta_interval a))"

definition execute :: "(bool \<Rightarrow> bool) \<Rightarrow> crl_env \<Rightarrow> time \<Rightarrow> pki_db \<Rightarrow> pki_db" where
  "execute constant_clause e now db =
     (let property_is_true = constant_clause False;
          with_keys = filter (\<lambda>a. property_is_true \<and> au_cdp_enabled a) (authorities db)
      in if with_keys = [] then db
         else
           (let db1 = foldl (\<lambda>d a. if fst (should_regenerate_crl now (au_id a) d)
                                    then snd (regenerate_crl e now (au_id a) d) else d) db with_keys;
                delta_cas = filter (\<lambda>a. property_is_true \<and> au_cdp_enabled a \<and> au_delta_crl_enabled a) (authorities db1)
            in foldl (\<lambda>d a. if need_delta now a d
                             then snd (generate_delta_crl e now (au_id a) (delta_interval a * 2) ''scheduler'' d)
                             else d) db1 delta_cas))"

subsection \<open>Serial numbers\<close>

text \<open>The two ways the program stores the serial number of a certificate it issues: the service writes
  \<^verbatim>\<open>str(cert.serial_number)\<close>, the endpoints write \<^verbatim>\<open>format(cert.serial_number, 'x')\<close>.\<close>

definition service_serial :: "int \<Rightarrow> string" where
  "service_serial n = str_int n"

lemma hex_digit_value: "d < 16 \<Longrightarrow> digit_value 16 (hex_digit d) = Some d"
  by (auto simp: digit_value_def hex_digit_def)

lemma parse_hex_nat: "parse_digits 16 0 False (hex_nat n) = Some (int n)"
proof (induction n rule: hex_nat.induct)
  case (1 n)
  show ?case
  proof (cases "n < 16")
    case True
    then show ?thesis by (simp add: hex_nat.simps [of n] hex_digit_value)
  next
    case False
    then have "parse_digits 16 0 False (hex_nat (n div 16) @ [hex_digit (n mod 16)])
        = Some (int (n div 16) * int 16 + int (n mod 16))"
      using 1 by (intro parse_digits_snoc hex_digit_value) simp_all
    moreover have "int (n div 16) * 16 + int (n mod 16) = int n" by presburger
    ultimately show ?thesis using False by (simp add: hex_nat.simps [of n])
  qed
qed

lemma hex_nat_not_Nil [simp]: "hex_nat n \<noteq> []"
  by (simp add: hex_nat.simps [of n])

text \<open>Text that starts with a digit value and has only letters and digits is read as it stands.\<close>

definition plain_digit :: "char \<Rightarrow> bool" where
  "plain_digit c = (is_digit c \<or> (97 \<le> (of_char c :: nat) \<and> (of_char c :: nat) \<le> 102))"

lemma plain_digit_hex: "d < 16 \<Longrightarrow> plain_digit (hex_digit d)"
  by (auto simp: plain_digit_def hex_digit_def is_digit_def)

lemma hex_nat_plain: "c \<in> set (hex_nat n) \<Longrightarrow> plain_digit c"
proof (induction n rule: hex_nat.induct)
  case (1 n)
  then show ?case
    by (cases "n < 16") (auto simp: hex_nat.simps [of n] plain_digit_hex)
qed

lemma py_int_plain:
  assumes "\<And>c. c \<in> set s \<Longrightarrow> plain_digit c" "s \<noteq> []"
  shows "py_int 16 (filter (\<lambda>c. c \<noteq> CHR '':'') s) = parse_digits 16 0 False s"
proof -
  have p: "c \<noteq> CHR '':''" "\<not> is_space c" "c \<noteq> CHR ''-''" "c \<noteq> CHR ''+''" "c \<noteq> CHR ''x''" "c \<noteq> CHR ''X''"
    if "plain_digit c" for c
    using that by (auto simp: plain_digit_def is_digit_def is_space_def Let_def)
  have "filter (\<lambda>c. c \<noteq> CHR '':'') s = s"
    using assms(1) p(1) by (auto simp: filter_id_conv)
  moreover have "strip s = s"
    using assms(1) p(2) by (intro strip_no_space) blast
  moreover obtain c cs where s: "s = c # cs" using assms(2) by (cases s) auto
  moreover have "c \<noteq> CHR ''-''" "c \<noteq> CHR ''+''"
    using assms(1) [of c] p(3,4) [of c] by (auto simp: s)
  moreover have "\<not> startswith s ''0x''" "\<not> startswith s ''0X''"
    using assms(1) [of "CHR ''x''"] assms(1) [of "CHR ''X''"] p(5) [of "CHR ''x''"] p(6) [of "CHR ''X''"]
    unfolding startswith_iff by auto
  ultimately show ?thesis by (simp add: py_int_def parse_magnitude_def)
qed

text \<open>What reading decimal digits as hexadecimal ones makes of a number.\<close>

fun hex_reading :: "nat \<Rightarrow> nat" where
  "hex_reading n = (if n < 10 then n else hex_reading (n div 10) * 16 + n mod 10)"

declare hex_reading.simps [simp del]

lemma parse_decimal_as_hex: "parse_digits 16 0 False (str_nat n) = Some (int (hex_reading n))"
proof (induction n rule: str_nat.induct)
  case (1 n)
  have d: "digit_value 16 (char_of (48 + d)) = Some d" if "d < 10" for d :: nat
    using that by (simp add: digit_value_def)
  show ?case
  proof (cases "n < 10")
    case True
    then show ?thesis by (simp add: str_nat.simps [of n] hex_reading.simps [of n] d)
  next
    case False
    then have "parse_digits 16 0 False (str_nat (n div 10) @ [char_of (48 + n mod 10)])
        = Some (int (hex_reading (n div 10)) * int 16 + int (n mod 10))"
      using 1 by (intro parse_digits_snoc d) simp_all
    then show ?thesis using False by (simp add: str_nat.simps [of n] hex_reading.simps [of n])
  qed
qed

lemma hex_reading_step: "10 \<le> n \<Longrightarrow> n div 10 \<le> h \<Longrightarrow> n < h * 16 + n mod 10" for n h :: nat
  using mult_div_mod_eq [of 10 n] by linarith

lemma hex_reading_ge: "n \<le> hex_reading n"
proof (induction n rule: hex_reading.induct)
  case (1 n)
  then show ?case
    by (cases "n < 10") (simp_all add: hex_reading.simps [of n] hex_reading_step order.strict_implies_order)
qed

lemma hex_reading_gt: "10 \<le> n \<Longrightarrow> n < hex_reading n"
  using hex_reading_ge [of "n div 10"] by (simp add: hex_reading.simps [of n] hex_reading_step)

lemma hex_reading_bound: "n < 10 ^ k \<Longrightarrow> hex_reading n < 16 ^ k"
proof (induction n arbitrary: k rule: hex_reading.induct)
  case (1 n)
  show ?case
  proof (cases "n < 10")
    case True
    have "n < 16 ^ k" using 1(2) power_mono [of "10::nat" 16 k] by simp
    then show ?thesis using True by (simp add: hex_reading.simps [of n])
  next
    case False
    then obtain j where k: "k = Suc j" using 1(2) by (cases k) auto
    then have "n div 10 < 10 ^ j" using 1(2) by simp
    then have "hex_reading (n div 10) < 16 ^ j" using 1(1) False by blast
    then show ?thesis using False k by (simp add: hex_reading.simps [of n])
  qed
qed

lemma str_nat_plain: "c \<in> set (str_nat n) \<Longrightarrow> plain_digit c"
  using str_nat_digits [of c n] by (simp add: plain_digit_def)

lemma crl_serial_hex: "crl_serial (hex_nat n) = Some (if int n \<ge> 2 ^ 159 then int n mod 2 ^ 159 else int n)"
proof -
  have "py_int 16 (filter (\<lambda>c. c \<noteq> CHR '':'') (hex_nat n)) = Some (int n)"
    using hex_nat_plain py_int_plain [of "hex_nat n"] parse_hex_nat [of n] by simp
  then show ?thesis by (simp add: crl_serial_def)
qed

lemma crl_serial_decimal:
  "crl_serial (str_nat n)
   = Some (if int (hex_reading n) \<ge> 2 ^ 159 then int (hex_reading n) mod 2 ^ 159 else int (hex_reading n))"
proof -
  have "py_int 16 (filter (\<lambda>c. c \<noteq> CHR '':'') (str_nat n)) = Some (int (hex_reading n))"
    using str_nat_plain py_int_plain [of "str_nat n"] parse_decimal_as_hex [of n] by simp
  then show ?thesis by (simp add: crl_serial_def)
qed

text \<open>A serial number stored in hexadecimal is listed in the CRL as it is, up to the 159 bits that the
  library allows.\<close>

theorem hex_serial_roundtrip:
  assumes "0 \<le> n" "n < 2 ^ 159"
  shows "crl_serial (format_hex n) = Some n"
  using assms by (simp add: format_hex_def crl_serial_hex)

lemma hex_serial_roundtrip_witness: "crl_serial (format_hex 48879) = Some 48879"
  by (rule hex_serial_roundtrip) simp_all

text \<open>The service stores serial numbers in decimal, and the CRL reads them as hexadecimal: every serial
  number from 10 on (shown here up to 39 decimal digits, below which nothing is cut off) is listed as
  another, greater number.\<close>

theorem decimal_serials_mislisted:
  assumes "10 \<le> n" "n < 10 ^ 39"
  shows "\<exists>m. crl_serial (service_serial n) = Some m \<and> m > n"
proof -
  obtain k where "n = int k" using assms(1) by (metis nonneg_int_cases order_trans zero_le_numeral)
  then have k: "n = int k" "10 \<le> k" using assms(1) by simp_all
  then have "k < 10 ^ 39" using assms(2) by (metis of_nat_less_iff of_nat_numeral of_nat_power)
  then have "hex_reading k < 16 ^ 39" by (rule hex_reading_bound)
  then have "int (hex_reading k) < 2 ^ 159" by simp
  then show ?thesis
    using k hex_reading_gt [of k] by (simp add: service_serial_def str_int_def crl_serial_decimal)
qed

lemma decimal_serials_mislisted_witness: "\<exists>m. crl_serial (service_serial 255) = Some m \<and> m > 255"
  by (rule decimal_serials_mislisted) simp_all

end
