(* ===== verification/Crl_Runs.thy ===== *)
theory Crl_Runs
  imports Crl
begin

text \<open>
  Histories of revocations, holds and CRLs. A history is a sequence of the operations of theory \<open>Crl\<close> at
  increasing instants (\<open>pki_run\<close>). Its invariant says that the CRLs of a CA are numbered in order, that every full
  CRL lists what was revoked when it was made, and it gives that a delta CRL and its base together list
  every revocation.
\<close>

subsection \<open>The newest row\<close>

lemma newest_None [simp]: "newest key xs = None \<longleftrightarrow> xs = []"
  by (cases xs) (auto split: option.splits)

lemma newest_Some: "newest key xs = Some x \<Longrightarrow> x \<in> set xs \<and> (\<forall>y \<in> set xs. key y \<le> key x)"
proof (induction xs arbitrary: x)
  case (Cons a xs)
  then show ?case
    by (cases "newest key xs") (auto simp: not_less split: if_splits dest!: Cons.IH intro: order_trans)
qed simp

lemma newest_snoc_max: "(\<And>y. y \<in> set xs \<Longrightarrow> key y < key x) \<Longrightarrow> newest key (xs @ [x]) = Some x"
  by (induction xs) auto

lemma next_crl_number_greater: "m \<in> set (crls_of ca db) \<Longrightarrow> cm_crl_number m < next_crl_number ca db"
  unfolding next_crl_number_def
  by (cases "newest cm_crl_number (crls_of ca db)") (auto dest: newest_Some)

subsection \<open>What the operations do\<close>

lemma audited_cases:
  obtains (lost) "audited e now args f db = db"
  | (kept) ls where "audited e now args f db = (f db)\<lparr>logs := ls\<rparr>"
proof (cases "log_action (ce_sha256 e) now (ce_ctx e) (ce_audit_fails e) args (logs db)")
  case (Pair r ls)
  then show ?thesis using lost kept [of ls] by (cases r) (simp_all add: audited_def)
qed

lemma audited_ok:
  "\<not> ce_audit_fails e \<Longrightarrow> \<exists>ls. audited e now args f db = (f db)\<lparr>logs := ls\<rparr>"
  unfolding audited_def log_action_def by (auto simp: Let_def)

text \<open>A new CRL in the table: numbered next, and signed over the content it was made of.\<close>

definition adds_crl :: "crl_env \<Rightarrow> authority \<Rightarrow> crl_content \<Rightarrow> crl_metadata \<Rightarrow> pki_db \<Rightarrow> pki_db \<Rightarrow> bool" where
  "adds_crl e a content m db db' =
     (row_get au_id (authorities db) (cm_ca_id m) = Some a
      \<and> ce_sign e (au_crt a) (au_prv a) content = Inr (cm_crl_pem m, cm_crl_der m)
      \<and> cc_number content = cm_crl_number m \<and> cm_crl_number m = next_crl_number (cm_ca_id m) db
      \<and> cm_this_update m = cc_last_update content \<and> cm_created_at m = cm_this_update m
      \<and> (cm_is_delta m = (cc_delta_base content \<noteq> None))
      \<and> (\<exists>ls. db' = db\<lparr>crls := crls db @ [m], logs := ls\<rparr>))"

lemma generate_crl_cases:
  obtains (same) "snd (generate_crl e now ca v u db) = db"
  | (added) a m where "fst (generate_crl e now ca v u db) = Inr m" "cm_ca_id m = ca"
      "adds_crl e a (base_content e now a v db) m db (snd (generate_crl e now ca v u db))"
proof (cases "row_get au_id (authorities db) ca")
  case None
  then show ?thesis using same by (simp add: generate_crl_def)
next
  case (Some a)
  then have id: "au_id a = ca" using row_get_Some by metis
  let ?c = "base_content e now a v db"
  show ?thesis
  proof (cases "\<exists>s. has_private_key a \<and> ce_load_ca e a = None \<and> ce_sign e (au_crt a) (au_prv a) ?c = Inr s")
    case False
    then show ?thesis using same Some
      by (cases "ce_load_ca e a"; cases "ce_sign e (au_crt a) (au_prv a) ?c")
        (auto simp: generate_crl_def get_revoked_certificates_def Let_def)
  next
    case True
    then obtain s where s: "has_private_key a" "ce_load_ca e a = None" "ce_sign e (au_crt a) (au_prv a) ?c = Inr s"
      by blast
    let ?n = "length (filter (\<lambda>c. issued_by a c \<and> ct_revoked c) (certificates db))"
    let ?m = "new_crl a ?c s ?n u db"
    obtain args where g: "generate_crl e now ca v u db = (Inr ?m, audited e now args (\<lambda>d. d\<lparr>crls := crls d @ [?m]\<rparr>) db)"
      using s Some by (simp add: generate_crl_def get_revoked_certificates_def Let_def)
    have m: "cm_ca_id ?m = ca" by (simp add: new_crl_def id)
    show ?thesis
    proof (cases rule: audited_cases [of e now args "\<lambda>d. d\<lparr>crls := crls d @ [?m]\<rparr>" db])
      case lost
      then show ?thesis using g same by simp
    next
      case (kept ls)
      then have "adds_crl e a ?c ?m db (snd (generate_crl e now ca v u db))"
        using g s(3) Some id by (auto simp: adds_crl_def new_crl_def base_content_def)
      then show ?thesis using g added [of ?m a] m by simp
    qed
  qed
qed

lemma generate_delta_cases:
  obtains (same) "snd (generate_delta_crl e now ca v u db) = db"
  | (added) a base m where "fst (generate_delta_crl e now ca v u db) = Inr m" "cm_ca_id m = ca"
      "get_latest_crl ca db = Some base"
      "adds_crl e a (delta_content now a base v db) m db (snd (generate_delta_crl e now ca v u db))"
proof (cases "row_get au_id (authorities db) ca")
  case None
  then show ?thesis using same by (simp add: generate_delta_crl_def)
next
  case (Some a)
  then have id: "au_id a = ca" using row_get_Some by metis
  show ?thesis
  proof (cases "get_latest_crl ca db")
    case None
    then show ?thesis using same Some by (simp add: generate_delta_crl_def)
  next
    case base: (Some base)
    let ?c = "delta_content now a base v db"
    show ?thesis
    proof (cases "\<exists>s. has_private_key a \<and> au_cdp_enabled a \<and> au_delta_crl_enabled a \<and> 1 \<le> v \<and> v \<le> 720
        \<and> ce_load_ca e a = None \<and> ce_sign e (au_crt a) (au_prv a) ?c = Inr s")
      case False
      then show ?thesis using same Some base
        by (cases "ce_load_ca e a"; cases "ce_sign e (au_crt a) (au_prv a) ?c")
          (auto simp: generate_delta_crl_def Let_def)
    next
      case True
      then obtain s where s: "has_private_key a" "au_cdp_enabled a" "au_delta_crl_enabled a" "1 \<le> v" "v \<le> 720"
        "ce_load_ca e a = None" "ce_sign e (au_crt a) (au_prv a) ?c = Inr s" by blast
      let ?m = "new_crl a ?c s (length (filter (newly_revoked a (cm_this_update base)) (certificates db))) u db"
      obtain args where g: "generate_delta_crl e now ca v u db
          = (Inr ?m, audited e now args (\<lambda>d. d\<lparr>crls := crls d @ [?m]\<rparr>) db)"
        using s Some base by (simp add: generate_delta_crl_def Let_def)
      show ?thesis
      proof (cases rule: audited_cases [of e now args "\<lambda>d. d\<lparr>crls := crls d @ [?m]\<rparr>" db])
        case lost
        then show ?thesis using g same by simp
      next
        case (kept ls)
        then have "adds_crl e a ?c ?m db (snd (generate_delta_crl e now ca v u db))"
          using g s(7) Some id by (auto simp: adds_crl_def new_crl_def delta_content_def)
        then show ?thesis using g added [of ?m base a] base id by (simp add: new_crl_def)
      qed
    qed
  qed
qed

subsection \<open>What a CRL lists\<close>

definition readable_serial :: "certificate \<Rightarrow> int option" where
  "readable_serial c = (if nonempty (ct_serial_number c) then crl_serial (the (ct_serial_number c)) else None)"

lemma crl_entry_of_serial: "map_option en_serial (crl_entry_of now c) = readable_serial c"
  by (simp add: crl_entry_of_def readable_serial_def option.map_comp comp_def option.map_ident)

lemma crl_entries_serials:
  "c \<in> set cs \<Longrightarrow> readable_serial c = Some n \<Longrightarrow> n \<in> en_serial ` set (crl_entries now cs)"
  unfolding crl_entries_def crl_entry_of_serial [of now, symmetric]
  by (force simp: List.map_filter_def)

definition listed :: "crl_env \<Rightarrow> authority \<Rightarrow> crl_metadata \<Rightarrow> int \<Rightarrow> bool" where
  "listed e a m n =
     (\<exists>content. ce_sign e (au_crt a) (au_prv a) content = Inr (cm_crl_pem m, cm_crl_der m)
        \<and> cc_number content = cm_crl_number m \<and> n \<in> en_serial ` set (cc_entries content))"

definition revoked_by :: "time \<Rightarrow> certificate \<Rightarrow> bool" where
  "revoked_by t c = (ct_revoked c \<and> (case ct_revoked_at c of None \<Rightarrow> True | Some s \<Rightarrow> s \<le> t))"

definition lists_revoked :: "crl_env \<Rightarrow> pki_db \<Rightarrow> crl_metadata \<Rightarrow> bool" where
  "lists_revoked e db m =
     (\<forall>a c n. row_get au_id (authorities db) (cm_ca_id m) = Some a \<longrightarrow> c \<in> set (certificates db)
        \<longrightarrow> issued_by a c \<longrightarrow> revoked_by (cm_this_update m) c \<longrightarrow> readable_serial c = Some n \<longrightarrow> listed e a m n)"

definition pki_ok :: "crl_env \<Rightarrow> time \<Rightarrow> pki_db \<Rightarrow> bool" where
  "pki_ok e t db =
     ((\<forall>ca. sorted_wrt (<) (map cm_crl_number (crls_of ca db)))
      \<and> (\<forall>m \<in> set (crls db). cm_this_update m \<le> t \<and> cm_created_at m = cm_this_update m
           \<and> (\<not> cm_is_delta m \<longrightarrow> lists_revoked e db m)))"

text \<open>Authorities keep what their CRLs are signed with.\<close>

definition same_signers :: "pki_db \<Rightarrow> pki_db \<Rightarrow> bool" where
  "same_signers db db' =
     (\<forall>i a'. row_get au_id (authorities db') i = Some a' \<longrightarrow>
        (\<exists>a. row_get au_id (authorities db) i = Some a \<and> au_refid a = au_refid a' \<and> au_crt a = au_crt a'
             \<and> au_prv a = au_prv a'))"

lemma same_signers_refl [simp]: "authorities db' = authorities db \<Longrightarrow> same_signers db db'"
  by (simp add: same_signers_def)

lemma pki_ok_frame:
  assumes ok: "pki_ok e t db" and crls: "crls db' = crls db" and sig: "same_signers db db'"
    and certs: "\<And>c. c \<in> set (certificates db') \<Longrightarrow> ct_revoked c \<Longrightarrow>
        c \<in> set (certificates db) \<or> (\<exists>s. ct_revoked_at c = Some s \<and> t < s)"
  shows "pki_ok e t db'"
proof -
  have "lists_revoked e db' m" if m: "m \<in> set (crls db)" "\<not> cm_is_delta m" for m
    unfolding lists_revoked_def
  proof (intro allI impI)
    fix a' c n
    assume *: "row_get au_id (authorities db') (cm_ca_id m) = Some a'" "c \<in> set (certificates db')"
      "issued_by a' c" "revoked_by (cm_this_update m) c" "readable_serial c = Some n"
    obtain a where a: "row_get au_id (authorities db) (cm_ca_id m) = Some a" "au_refid a = au_refid a'"
      "au_crt a = au_crt a'" "au_prv a = au_prv a'"
      using sig *(1) unfolding same_signers_def by blast
    have "cm_this_update m \<le> t" using ok m(1) by (auto simp: pki_ok_def)
    then have "c \<in> set (certificates db)"
      using certs [OF *(2)] *(4) by (auto simp: revoked_by_def)
    moreover have "lists_revoked e db m" using ok m by (auto simp: pki_ok_def)
    ultimately have "listed e a m n"
      using a *(3-5) unfolding lists_revoked_def by (simp add: issued_by_def)
    then show "listed e a' m n" by (simp add: listed_def a)
  qed
  then show ?thesis using ok by (simp add: pki_ok_def crls crls_of_def)
qed

lemma pki_ok_later: "pki_ok e t db \<Longrightarrow> t \<le> t' \<Longrightarrow> pki_ok e t' db"
  by (auto simp: pki_ok_def)

lemma pki_ok_logs: "pki_ok e t db \<Longrightarrow> pki_ok e t (db\<lparr>logs := ls\<rparr>)"
  by (rule pki_ok_frame) auto

lemma pki_ok_env: "ce_sign e' = ce_sign e \<Longrightarrow> pki_ok e' t db = pki_ok e t db"
  by (simp add: pki_ok_def lists_revoked_def listed_def)

lemma adds_crl_ok:
  assumes ok: "pki_ok e t db" and add: "adds_crl e a content m db db'" and t: "cm_this_update m \<le> t"
    and full: "\<not> cm_is_delta m \<Longrightarrow> (\<And>c n. c \<in> set (certificates db) \<Longrightarrow> issued_by a c \<Longrightarrow> ct_revoked c
        \<Longrightarrow> readable_serial c = Some n \<Longrightarrow> n \<in> en_serial ` set (cc_entries content))"
  shows "pki_ok e t db'"
proof -
  obtain ls where db': "db' = db\<lparr>crls := crls db @ [m], logs := ls\<rparr>"
    using add by (auto simp: adds_crl_def)
  have "sorted_wrt (<) (map cm_crl_number (crls_of ca db'))" for ca
    using ok add next_crl_number_greater [of _ ca db]
    by (auto simp: pki_ok_def adds_crl_def db' crls_of_def sorted_wrt_append)
  moreover have "lists_revoked e db' m" if "\<not> cm_is_delta m"
    using add full [OF that] unfolding lists_revoked_def listed_def
    by (auto simp: adds_crl_def db' revoked_by_def)
  moreover have "lists_revoked e db' k = lists_revoked e db k" for k
    by (simp add: lists_revoked_def db')
  moreover have "cm_created_at m = cm_this_update m" using add by (simp add: adds_crl_def)
  ultimately show ?thesis using ok t by (auto simp: pki_ok_def db')
qed

lemma generate_crl_ok: "pki_ok e t db \<Longrightarrow> now \<le> t \<Longrightarrow> pki_ok e t (snd (generate_crl e now ca v u db))"
proof (cases rule: generate_crl_cases [of e now ca v u db])
  case (added a m)
  assume "pki_ok e t db" "now \<le> t"
  then show ?thesis using added(3)
    by (intro adds_crl_ok [OF _ added(3)])
      (auto simp: adds_crl_def base_content_def intro!: crl_entries_serials)
qed simp

lemma generate_delta_ok: "pki_ok e t db \<Longrightarrow> now \<le> t \<Longrightarrow> pki_ok e t (snd (generate_delta_crl e now ca v u db))"
proof (cases rule: generate_delta_cases [of e now ca v u db])
  case (added a base m)
  assume "pki_ok e t db" "now \<le> t"
  then show ?thesis using added(4)
    by (intro adds_crl_ok [OF _ added(4)]) (auto simp: adds_crl_def delta_content_def)
qed simp

lemma audited_id_ok: "pki_ok e t db \<Longrightarrow> pki_ok e t (audited e' now args (\<lambda>d. d) db)"
  by (cases rule: audited_cases [of e' now args "\<lambda>d. d" db]) (simp_all add: pki_ok_logs)

lemma revoke_rows:
  assumes "c \<in> set (row_update ct_id i (revoke_row now reason) cs)"
  shows "c \<in> set cs \<or> ct_revoked_at c = Some now"
  using assms by (auto simp: row_update_def revoke_row_def)

lemma revoke_certificate_ok:
  assumes "pki_ok e t db" "t < now"
  shows "pki_ok e now (snd (revoke_certificate e now i reason u db))"
proof -
  let ?db1 = "db\<lparr>certificates := row_update ct_id i (revoke_row now reason) (certificates db)\<rparr>"
  have "pki_ok e t ?db1"
    using assms(2) by (intro pki_ok_frame [OF assms(1)]) (auto dest: revoke_rows)
  then have "pki_ok e now ?db1" using assms(2) pki_ok_later by force
  then have ok2: "pki_ok e now (audited e now args (\<lambda>d. d) ?db1)" for args
    by (rule audited_id_ok)
  have ok: "pki_ok e now db" using assms pki_ok_later by force
  have "pki_ok e now (crl_after_revocation e now u a d)" if "pki_ok e now d" for a d
    using generate_crl_ok [OF that order_refl, of "au_id a" 7 u] audited_id_ok
    unfolding crl_after_revocation_def by (simp add: case_prod_beta split: sum.split)
  then show ?thesis
    using ok ok2 by (simp add: revoke_certificate_def Let_def split: option.split)
qed

subsection \<open>Histories\<close>

datatype pki_event =
    Revoke int "string option" string
  | Unhold int
  | Renew int
  | Generate int int string
  | Generate_delta int int string
  | Regenerate bool int
  | Regenerate_delta bool int
  | Toggle bool "string option" int "(string \<times> json) list"
  | Configure bool int "(string \<times> json) list"
  | Task "bool \<Rightarrow> bool"

fun pki_step :: "crl_env \<Rightarrow> time \<Rightarrow> pki_event \<Rightarrow> pki_db \<Rightarrow> pki_db" where
  "pki_step e now (Revoke i r u) db = snd (revoke_endpoint e now i r u db)"
| "pki_step e now (Unhold i) db = snd (unhold_certificate i db)"
| "pki_step e now (Renew i) db = snd (renew_certificate e now i db)"
| "pki_step e now (Generate ca v u) db = snd (generate_crl e now ca v u db)"
| "pki_step e now (Generate_delta ca v u) db = snd (generate_delta_crl e now ca v u db)"
| "pki_step e now (Regenerate g ca) db = snd (regenerate_crl_endpoint e now g ca db)"
| "pki_step e now (Regenerate_delta g ca) db = snd (regenerate_delta_endpoint e now g ca db)"
| "pki_step e now (Toggle g ip ca data) db = snd (toggle_auto_regen now g ip ca data db)"
| "pki_step e now (Configure g ca data) db = snd (configure_delta_crl e now g ca data db)"
| "pki_step e now (Task clause) db = execute clause e now db"

text \<open>Histories from a database without CRLs, at increasing instants; whether the audit log can be written may change from
  event to event.\<close>

inductive pki_run :: "crl_env \<Rightarrow> time \<Rightarrow> pki_db \<Rightarrow> bool" for e where
  start: "crls db = [] \<Longrightarrow> pki_run e t db"
| step: "pki_run e t db \<Longrightarrow> t < now \<Longrightarrow> pki_run e now (pki_step (e\<lparr>ce_audit_fails := fails\<rparr>) now ev db)"

lemma unhold_ok:
  assumes "pki_ok e t db"
  shows "pki_ok e t (snd (unhold_certificate i db))"
proof -
  have "pki_ok e t (db\<lparr>certificates := row_update ct_id i unhold_row (certificates db)\<rparr>)"
    by (rule pki_ok_frame [OF assms]) (auto simp: row_update_def unhold_row_def)
  then show ?thesis using assms unfolding unhold_certificate_def by (simp split: option.split)
qed

lemma renew_ok:
  assumes "pki_ok e t db"
  shows "pki_ok e t (snd (renew_certificate e' now i db))"
proof -
  have "pki_ok e t (db\<lparr>certificates := row_update ct_id i (renew_row now r) (certificates db)\<rparr>)" for r
    by (rule pki_ok_frame [OF assms]) (auto simp: row_update_def renew_row_def)
  then show ?thesis
    using assms unfolding renew_certificate_def by (simp add: audited_id_ok split: option.split sum.split)
qed

lemma revoke_endpoint_ok:
  "pki_ok e t db \<Longrightarrow> t < now \<Longrightarrow> pki_ok e now (snd (revoke_endpoint e now i r u db))"
  using revoke_certificate_ok [of e t db now i _ u] pki_ok_later [of e t db now]
  by (simp add: revoke_endpoint_def Let_def case_prod_beta split: option.split sum.split py_error.split)

lemma same_signers_update:
  assumes "\<And>a. au_id (f a) = au_id a \<and> au_refid (f a) = au_refid a \<and> au_crt (f a) = au_crt a \<and> au_prv (f a) = au_prv a"
  shows "same_signers db (db\<lparr>authorities := row_update au_id i f (authorities db)\<rparr>)"
    "same_signers db (db\<lparr>authorities := row_update au_id i f (authorities db), logs := ls\<rparr>)"
  using assms by (auto simp: same_signers_def row_get_update split: if_splits)

lemma toggle_ok:
  assumes "pki_ok e t db"
  shows "pki_ok e t (snd (toggle_auto_regen now g ip ca data db))"
proof -
  have "pki_ok e t (db\<lparr>authorities := row_update au_id ca (\<lambda>x. x\<lparr>au_cdp_enabled := b\<rparr>) (authorities db), logs := ls\<rparr>)"
    for b ls by (rule pki_ok_frame [OF assms]) (simp_all add: same_signers_update)
  then show ?thesis using assms unfolding toggle_auto_regen_def Let_def by (simp split: option.split)
qed

lemma configure_ok: "pki_ok e t db \<Longrightarrow> pki_ok e t (snd (configure_delta_crl e' now g ca data db))"
proof -
  assume ok: "pki_ok e t db"
  have "pki_ok e t (audited e' now args (\<lambda>d. d\<lparr>authorities := row_update au_id ca
      (\<lambda>x. x\<lparr>au_delta_crl_enabled := p, au_delta_crl_interval := q\<rparr>) (authorities d)\<rparr>) db)" for args p q
    by (cases rule: audited_cases [of e' now args "\<lambda>d. d\<lparr>authorities := row_update au_id ca
      (\<lambda>x. x\<lparr>au_delta_crl_enabled := p, au_delta_crl_interval := q\<rparr>) (authorities d)\<rparr>" db])
      (auto simp: ok same_signers_update intro: pki_ok_frame [OF ok])
  then show ?thesis
    using ok unfolding configure_delta_crl_def Let_def by (auto split: option.splits)
qed

lemma regenerate_ok:
  assumes "pki_ok e t db" "now \<le> t"
  shows "pki_ok e t (snd (regenerate_crl_endpoint e now g ca db))"
    "pki_ok e t (snd (regenerate_delta_endpoint e now g ca db))"
    "pki_ok e t (snd (regenerate_crl e now ca db))"
  using assms generate_crl_ok [OF assms, of ca 7] generate_delta_ok [OF assms, of ca 24]
  unfolding regenerate_crl_endpoint_def regenerate_delta_endpoint_def regenerate_crl_def
  by (auto simp: case_prod_beta audited_id_ok split: option.splits sum.splits py_error.splits)

lemma foldl_ok: "pki_ok e t d \<Longrightarrow> (\<And>d x. pki_ok e t d \<Longrightarrow> pki_ok e t (f d x)) \<Longrightarrow> pki_ok e t (foldl f d xs)"
  by (induction xs arbitrary: d) auto

lemma execute_ok: "pki_ok e t db \<Longrightarrow> now \<le> t \<Longrightarrow> pki_ok e t (execute clause e now db)"
  unfolding execute_def Let_def
  by (auto intro!: foldl_ok regenerate_ok(3) generate_delta_ok)

lemma pki_step_ok: "pki_ok e t db \<Longrightarrow> t < now \<Longrightarrow> pki_ok e now (pki_step e now ev db)"
  using pki_ok_later [of e t db now]
  by (cases ev) (simp_all add: revoke_endpoint_ok unhold_ok renew_ok generate_crl_ok generate_delta_ok toggle_ok configure_ok
      regenerate_ok execute_ok)

lemma pki_run_ok: "pki_run e t db \<Longrightarrow> pki_ok e t db"
proof (induction rule: pki_run.induct)
  case (start db t)
  then show ?case by (simp add: pki_ok_def crls_of_def)
next
  case (step t db now fails ev)
  have "pki_ok (e\<lparr>ce_audit_fails := fails\<rparr>) t db"
    using step pki_ok_env [of "e\<lparr>ce_audit_fails := fails\<rparr>" e t db] by simp
  then have "pki_ok (e\<lparr>ce_audit_fails := fails\<rparr>) now (pki_step (e\<lparr>ce_audit_fails := fails\<rparr>) now ev db)"
    using step by (intro pki_step_ok)
  then show ?case
    using pki_ok_env [of "e\<lparr>ce_audit_fails := fails\<rparr>" e] by simp
qed

subsection \<open>An example\<close>

text \<open>A CA with its distribution point and delta CRLs on, two certificates with serial numbers 171 and 205, and
  a library that signs by writing down the number of a CRL and its serial numbers.\<close>

definition demo_ca :: authority where
  "demo_ca = \<lparr>au_id = 1, au_refid = ''ca'', au_descr = ''Root'', au_subject = Some ''CN=Root'', au_crt = ''crt'',
     au_prv = Some ''key'', au_hsm_key_id = None, au_cdp_enabled = True, au_cdp_url = Some ''http://ucm/cdp/x'',
     au_delta_crl_enabled = True, au_delta_crl_interval = Some 4, au_ocsp_enabled = True\<rparr>"

definition demo_cert :: "int \<Rightarrow> string \<Rightarrow> certificate" where
  "demo_cert i serial = \<lparr>ct_id = i, ct_refid = ''c'', ct_descr = ''web'', ct_subject = Some ''CN=web'',
     ct_issuer = Some ''CN=Root'', ct_caref = Some ''ca'', ct_crt = Some ''crt'', ct_prv = None, ct_valid_from = None,
     ct_valid_to = None, ct_serial_number = Some serial, ct_revoked = False, ct_revoked_at = None,
     ct_revoke_reason = None\<rparr>"

definition demo_pki :: pki_db where
  "demo_pki = \<lparr>authorities = [demo_ca], certificates = [demo_cert 1 ''ab'', demo_cert 2 ''cd''], crls = [],
     ocsp_cache = [], logs = []\<rparr>"

definition demo_sign :: "string \<Rightarrow> string option \<Rightarrow> crl_content \<Rightarrow> py_error + string \<times> string" where
  "demo_sign crt prv content =
     Inr (join_with '' '' (map str_int (cc_number content # map en_serial (cc_entries content))), ''der'')"

definition demo_crl_env :: crl_env where
  "demo_crl_env = \<lparr>ce_sha256 = (\<lambda>s. take 4 s), ce_ctx = \<lparr>ctx_username = None, ctx_request = None\<rparr>,
     ce_audit_fails = False, ce_load_ca = (\<lambda>_. None), ce_uri_ok = (\<lambda>_. True),
     ce_renew = (\<lambda>_ _. Inr \<lparr>rn_crt = ''new'', rn_prv = ''key'', rn_serial = 239, rn_old_days = 90\<rparr>),
     ce_sign = demo_sign\<rparr>"

definition demo_revoked :: pki_db where
  "demo_revoked = pki_step demo_crl_env 10 (Revoke 1 (Some ''certificateHold'') ''admin'') demo_pki"

definition demo_unpublished :: pki_db where
  "demo_unpublished = pki_step (demo_crl_env\<lparr>ce_audit_fails := True\<rparr>) 20 (Revoke 2 None ''admin'') demo_revoked"

lemma demo_run: "pki_run demo_crl_env 20 demo_unpublished"
proof -
  have env: "demo_crl_env\<lparr>ce_audit_fails := False\<rparr> = demo_crl_env" by (simp add: demo_crl_env_def)
  have "pki_run demo_crl_env 0 demo_pki" by (rule start) (simp add: demo_pki_def)
  then have "pki_run demo_crl_env 10 demo_revoked"
    using pki_run.step [of demo_crl_env 0 demo_pki 10 False] unfolding demo_revoked_def env by (simp del: pki_step.simps)
  then show ?thesis
    using pki_run.step [of demo_crl_env 10 demo_revoked 20 True] unfolding demo_unpublished_def by (simp del: pki_step.simps)
qed

subsection \<open>Properties of histories\<close>

lemma newest_sorted:
  "sorted_wrt (<) (map key xs) \<Longrightarrow> newest key xs = (if xs = [] then None else Some (last xs))"
proof (induction xs rule: rev_induct)
  case (snoc x xs)
  then show ?case
    by (simp add: newest_snoc_max [of xs key x] sorted_wrt_append)
qed simp

lemma sorted_wrt_map_filter: "sorted_wrt r (map f xs) \<Longrightarrow> sorted_wrt r (map f (filter P xs))"
  by (induction xs) auto

text \<open>Over every history of revocations, holds, renewals, settings and CRLs, failed audit writes included, the
  CRLs of a CA are numbered in the order they are made, so numbers never repeat, and the full CRL that is published
  is the one made last.\<close>

theorem crl_numbers_increase:
  assumes "pki_run e t db"
  shows "sorted_wrt (<) (map cm_crl_number (crls_of ca db))
    \<and> get_latest_crl ca db
      = (case filter (\<lambda>m. \<not> cm_is_delta m) (crls_of ca db) of [] \<Rightarrow> None | m # ms \<Rightarrow> Some (last (m # ms)))"
proof -
  have "sorted_wrt (<) (map cm_crl_number (crls_of ca db))"
    using pki_run_ok [OF assms] by (simp add: pki_ok_def)
  then show ?thesis
    using newest_sorted [OF sorted_wrt_map_filter, of cm_crl_number "crls_of ca db"]
    by (simp add: get_latest_crl_def split: list.split)
qed

lemma crl_numbers_increase_witness:
  "length (crls demo_unpublished) = 1
   \<and> sorted_wrt (<) (map cm_crl_number (crls_of 1 demo_unpublished))
   \<and> get_latest_crl 1 demo_unpublished
      = (case filter (\<lambda>m. \<not> cm_is_delta m) (crls_of 1 demo_unpublished) of
           [] \<Rightarrow> None | m # ms \<Rightarrow> Some (last (m # ms)))"
proof -
  have "length (crls demo_unpublished) = 1" by code_simp
  then show ?thesis using crl_numbers_increase [OF demo_run, of 1] by blast
qed




lemma generate_crl_signs:
  assumes "row_get au_id (authorities db) (au_id a) = Some a" "has_private_key a" "ce_load_ca e a = None"
    "\<not> ce_audit_fails e" "ce_sign e (au_crt a) (au_prv a) (base_content e now a v db) = Inr s"
  shows "\<exists>m ls. generate_crl e now (au_id a) v u db = (Inr m, db\<lparr>crls := crls db @ [m], logs := ls\<rparr>)
    \<and> cm_ca_id m = au_id a \<and> \<not> cm_is_delta m \<and> cm_crl_number m = next_crl_number (au_id a) db
    \<and> s = (cm_crl_pem m, cm_crl_der m) \<and> cm_created_at m = now \<and> cm_next_update m = now + days v"
proof -
  let ?m = "new_crl a (base_content e now a v db) s
    (length (filter (\<lambda>c. issued_by a c \<and> ct_revoked c) (certificates db))) u db"
  obtain args where g: "generate_crl e now (au_id a) v u db
      = (Inr ?m, audited e now args (\<lambda>d. d\<lparr>crls := crls d @ [?m]\<rparr>) db)"
    using assms by (simp add: generate_crl_def get_revoked_certificates_def Let_def)
  moreover obtain ls where "audited e now args (\<lambda>d. d\<lparr>crls := crls d @ [?m]\<rparr>) db = db\<lparr>crls := crls db @ [?m], logs := ls\<rparr>"
    using audited_ok [OF assms(4), of now args "\<lambda>d. d\<lparr>crls := crls d @ [?m]\<rparr>" db] by auto
  moreover have "cm_ca_id ?m = au_id a" "\<not> cm_is_delta ?m" "cm_crl_number ?m = next_crl_number (au_id a) db"
    "s = (cm_crl_pem ?m, cm_crl_der ?m)" "cm_created_at ?m = now" "cm_next_update ?m = now + days v"
    by (simp_all add: new_crl_def base_content_def)
  ultimately show ?thesis by (intro exI [of _ ?m] exI [of _ ls]) simp
qed





subsection \<open>How long a revocation lasts\<close>

text \<open>An event with the state of the audit log at its time, and a revocation that only a renewal of its
  certificate can end.\<close>

fun timed_step :: "crl_env \<Rightarrow> pki_db \<Rightarrow> time \<times> bool \<times> pki_event \<Rightarrow> pki_db" where
  "timed_step e db (now, fails, ev) = pki_step (e\<lparr>ce_audit_fails := fails\<rparr>) now ev db"

definition final_revocation :: "int \<Rightarrow> certificate \<Rightarrow> pki_db \<Rightarrow> bool" where
  "final_revocation i c db =
     (row_get ct_id (certificates db) i = Some c \<and> ct_revoked c
      \<and> (case ct_revoke_reason c of None \<Rightarrow> True | Some r \<Rightarrow> r \<notin> set hold_reasons))"

fun renews :: "int \<Rightarrow> time \<times> bool \<times> pki_event \<Rightarrow> bool" where
  "renews i (now, fails, Renew j) = (j = i)"
| "renews i (now, fails, ev) = False"

lemma certificates_audited: "(\<And>d. certificates (f d) = certificates d) \<Longrightarrow> certificates (audited e now args f db) = certificates db"
  by (cases rule: audited_cases [of e now args f db]) auto

lemma certificates_generate: "certificates (snd (generate_crl e now ca v u db)) = certificates db"
  by (cases rule: generate_crl_cases [of e now ca v u db]) (auto simp: adds_crl_def)

lemma certificates_delta: "certificates (snd (generate_delta_crl e now ca v u db)) = certificates db"
  by (cases rule: generate_delta_cases [of e now ca v u db]) (auto simp: adds_crl_def)

lemma certificates_regenerate: "certificates (snd (regenerate_crl e now ca db)) = certificates db"
  by (simp add: regenerate_crl_def certificates_generate case_prod_beta split: option.split sum.split)

lemma certificates_endpoints:
  "certificates (snd (regenerate_crl_endpoint e now g ca db)) = certificates db"
  "certificates (snd (regenerate_delta_endpoint e now g ca db)) = certificates db"
  "certificates (snd (toggle_auto_regen now g ip ca data db)) = certificates db"
  "certificates (snd (configure_delta_crl e now g ca data db)) = certificates db"
  unfolding regenerate_crl_endpoint_def regenerate_delta_endpoint_def toggle_auto_regen_def configure_delta_crl_def
  by (simp_all add: certificates_audited certificates_generate certificates_delta case_prod_beta Let_def
      split: option.split sum.split py_error.split)

lemma certificates_foldl: "(\<And>d x. certificates (f d x) = certificates d) \<Longrightarrow> certificates (foldl f d xs) = certificates d"
  by (induction xs arbitrary: d) auto

lemma certificates_execute: "certificates (execute clause e now db) = certificates db"
  unfolding execute_def Let_def
  by (simp add: certificates_foldl certificates_regenerate certificates_delta)

lemma certificates_revoke:
  "certificates (snd (revoke_certificate e now j r u db)) =
     (if (case row_get ct_id (certificates db) j of None \<Rightarrow> False | Some c \<Rightarrow> \<not> ct_revoked c)
      then row_update ct_id j (revoke_row now r) (certificates db) else certificates db)"
proof -
  have "certificates (crl_after_revocation e now u a d) = certificates d" for a d
    by (simp add: crl_after_revocation_def certificates_generate certificates_audited case_prod_beta split: sum.split)
  then show ?thesis
    by (simp add: revoke_certificate_def certificates_audited Let_def split: option.split)
qed

lemma row_get_update_other:
  "(\<And>r. key (f r) = key r) \<Longrightarrow> j \<noteq> i \<Longrightarrow> row_get key (row_update key j f rows) i = row_get key rows i"
  by (simp add: row_get_update)

lemma final_revocation_cong: "certificates db' = certificates db \<Longrightarrow> final_revocation i c db' = final_revocation i c db"
  by (simp add: final_revocation_def)

lemma revoke_keeps: "final_revocation i c db \<Longrightarrow> final_revocation i c (snd (revoke_endpoint e now j r u db))"
  by (cases "j = i")
    (auto simp: final_revocation_def revoke_endpoint_def case_prod_beta Let_def certificates_revoke
      row_get_update_other revoke_row_def split: option.splits sum.splits py_error.splits)

lemma unhold_keeps: "final_revocation i c db \<Longrightarrow> final_revocation i c (snd (unhold_certificate j db))"
  by (cases "j = i")
    (auto simp: final_revocation_def unhold_certificate_def row_get_update_other unhold_row_def split: option.splits)

lemma renew_keeps: "final_revocation i c db \<Longrightarrow> j \<noteq> i \<Longrightarrow> final_revocation i c (snd (renew_certificate e now j db))"
  by (simp add: final_revocation_def renew_certificate_def certificates_audited row_get_update_other renew_row_def
      split: option.split sum.split)

lemma step_keeps: "final_revocation i c db \<Longrightarrow> \<not> renews i ev \<Longrightarrow> final_revocation i c (timed_step e db ev)"
proof (cases ev)
  case (fields now fails op)
  assume "final_revocation i c db" "\<not> renews i ev"
  then show ?thesis
    by (cases op) (simp_all add: fields revoke_keeps unhold_keeps renew_keeps
        final_revocation_cong [OF certificates_generate] final_revocation_cong [OF certificates_delta]
        certificates_endpoints [THEN final_revocation_cong] final_revocation_cong [OF certificates_execute])
qed

text \<open>The events that do not renew the certificate, as a system with the revocation as its invariant.\<close>

interpretation revocations: invariant_system
  "\<lambda>db ev. if renews i ev then db else timed_step e db ev" "final_revocation i c" for e i c
  by unfold_locales (simp add: step_keeps)

lemma foldl_without_renewal:
  "\<not> list_ex (renews i) evs \<Longrightarrow>
   foldl (\<lambda>db ev. if renews i ev then db else timed_step e db ev) db evs = foldl (timed_step e) db evs"
  by (induction evs arbitrary: db) auto

text \<open>C15. A revocation for any stated reason but a hold is final as far as the operations on revocations and CRLs go: whatever sequence of
  revocations, lifted holds, renewals of other certificates, CRLs by hand and by the task, and settings of CRLs follows, the certificate's row stays
  as the revocation left it. Renewing the certificate itself takes the revocation back, see below. The operations that delete a row, import over it
  or change its key are in other theories.\<close>

theorem revocation_final:
  assumes "row_get ct_id (certificates db) i = Some c" "ct_revoked c"
    "ct_revoke_reason c = Some r" "r \<notin> set hold_reasons" "\<not> list_ex (renews i) evs"
  shows "row_get ct_id (certificates (foldl (timed_step e) db evs)) i = Some c"
proof -
  have "final_revocation i c db" using assms by (simp add: final_revocation_def)
  then have "final_revocation i c (foldl (timed_step e) db evs)"
    using revocations.run_inv [of i c db e evs] foldl_without_renewal [OF assms(5)] by simp
  then show ?thesis by (simp add: final_revocation_def)
qed

definition demo_final :: pki_db where
  "demo_final = pki_step demo_crl_env 30 (Revoke 2 (Some ''keyCompromise'') ''admin'') demo_revoked"

lemma revocation_final_witness:
  "row_get ct_id (certificates (foldl (timed_step demo_crl_env) demo_final [(40, False, Unhold 2), (50, False, Generate 1 7 ''x'')])) 2
   = Some (revoke_row 30 ''keyCompromise'' (demo_cert 2 ''cd''))"
proof (rule revocation_final)
  show "row_get ct_id (certificates demo_final) 2 = Some (revoke_row 30 ''keyCompromise'' (demo_cert 2 ''cd''))"
    by code_simp
  show "ct_revoked (revoke_row 30 ''keyCompromise'' (demo_cert 2 ''cd''))"
    "ct_revoke_reason (revoke_row 30 ''keyCompromise'' (demo_cert 2 ''cd'')) = Some ''keyCompromise''"
    by (simp_all add: revoke_row_def)
  show "''keyCompromise'' \<notin> set hold_reasons" by code_simp
qed simp

text \<open>Renewing a revoked certificate takes its revocation back: the row gets a new serial number and is not revoked any
  more, so no later CRL is made of the old serial number.\<close>

theorem renewal_forgets_revocation:
  assumes "row_get ct_id (certificates db) i = Some c" "ct_revoked c" "nonempty (ct_crt c)"
    "issuing_ca c db = Some a" "nonempty (au_prv a)" "ce_renew e c a = Inr r"
  shows "\<exists>c'. row_get ct_id (certificates (snd (renew_certificate e now i db))) i = Some c'
    \<and> \<not> ct_revoked c' \<and> ct_serial_number c' = Some (format_hex (rn_serial r)) \<and> crls (snd (renew_certificate e now i db)) = crls db"
proof -
  have "crls (audited e now args (\<lambda>d. d) d) = crls d" for args d
    by (cases rule: audited_cases [of e now args "\<lambda>d. d" d]) auto
  then show ?thesis
    using assms by (simp add: renew_certificate_def certificates_audited row_get_update renew_row_def)
qed

lemma renewal_forgets_revocation_witness:
  "\<exists>c'. row_get ct_id (certificates (snd (renew_certificate demo_crl_env 40 2 demo_final))) 2 = Some c'
    \<and> \<not> ct_revoked c' \<and> ct_serial_number c' = Some (format_hex 239)
    \<and> crls (snd (renew_certificate demo_crl_env 40 2 demo_final)) = crls demo_final"
proof -
  let ?c = "revoke_row 30 ''keyCompromise'' (demo_cert 2 ''cd'')"
  have "row_get ct_id (certificates demo_final) 2 = Some ?c" by code_simp
  moreover have "ct_revoked ?c" "nonempty (ct_crt ?c)" "nonempty (au_prv demo_ca)" by code_simp+
  moreover have "issuing_ca ?c demo_final = Some demo_ca" by code_simp
  moreover have "ce_renew demo_crl_env ?c demo_ca = Inr \<lparr>rn_crt = ''new'', rn_prv = ''key'', rn_serial = 239, rn_old_days = 90\<rparr>"
    by (simp add: demo_crl_env_def)
  ultimately show ?thesis
    using renewal_forgets_revocation [of demo_final 2 ?c demo_ca demo_crl_env _ 40] by simp
qed

text \<open>Lifting a hold answers with an internal error although the certificate is restored, and nothing is published: CRLs, the OCSP cache
  and the audit log stay as they are.\<close>

theorem unhold_restores_silently:
  assumes "row_get ct_id (certificates db) i = Some c" "ct_revoked c" "ct_revoke_reason c = Some r" "r \<in> set hold_reasons"
  shows "status_code (fst (unhold_certificate i db)) = 500
    \<and> row_get ct_id (certificates (snd (unhold_certificate i db))) i = Some (unhold_row c)
    \<and> crls (snd (unhold_certificate i db)) = crls db \<and> ocsp_cache (snd (unhold_certificate i db)) = ocsp_cache db
    \<and> logs (snd (unhold_certificate i db)) = logs db"
  using assms by (simp add: unhold_certificate_def row_get_update unhold_row_def error_response_def status_code_def)

lemma unhold_restores_silently_witness:
  "status_code (fst (unhold_certificate 1 demo_revoked)) = 500
   \<and> row_get ct_id (certificates (snd (unhold_certificate 1 demo_revoked))) 1
     = Some (unhold_row (revoke_row 10 ''certificateHold'' (demo_cert 1 ''ab'')))
   \<and> crls (snd (unhold_certificate 1 demo_revoked)) = crls demo_revoked
   \<and> ocsp_cache (snd (unhold_certificate 1 demo_revoked)) = ocsp_cache demo_revoked
   \<and> logs (snd (unhold_certificate 1 demo_revoked)) = logs demo_revoked"
proof (rule unhold_restores_silently)
  show "row_get ct_id (certificates demo_revoked) 1 = Some (revoke_row 10 ''certificateHold'' (demo_cert 1 ''ab''))"
    by code_simp
  show "ct_revoked (revoke_row 10 ''certificateHold'' (demo_cert 1 ''ab''))"
    "ct_revoke_reason (revoke_row 10 ''certificateHold'' (demo_cert 1 ''ab'')) = Some ''certificateHold''"
    by (simp_all add: revoke_row_def)
  show "''certificateHold'' \<in> set hold_reasons" by code_simp
qed

subsection \<open>The scheduled task\<close>

lemma days_until_two: "days_until_expiry s m \<le> 1 \<longleftrightarrow> cm_next_update m - s < days 2"
  by (auto simp: days_until_expiry_def days_def hours_def seconds_def)

text \<open>A CRL that the task has made is due again exactly when more than five days of its seven have passed: from two days
  before its expiry on every check asks for a new one, and no check before does.\<close>

theorem regeneration_schedule:
  assumes "pki_run e t db" "t < now" "\<not> ce_audit_fails e" "fst (regenerate_crl e now ca db)" "now \<le> s"
  shows "fst (should_regenerate_crl s ca (snd (regenerate_crl e now ca db))) = (s > now + days 5)"
proof -
  have ok: "fst (generate_crl e now ca 7 ''scheduler'' db) = Inr (projr (fst (generate_crl e now ca 7 ''scheduler'' db)))"
    "snd (regenerate_crl e now ca db) = snd (generate_crl e now ca 7 ''scheduler'' db)"
    using assms(4) by (auto simp: regenerate_crl_def case_prod_beta split: option.splits sum.splits)
  obtain a sg where a: "row_get au_id (authorities db) ca = Some a" "has_private_key a" "ce_load_ca e a = None"
    "ce_sign e (au_crt a) (au_prv a) (base_content e now a 7 db) = Inr sg"
    using ok(1) by (auto simp: generate_crl_def Let_def split: option.splits if_splits sum.splits)
  have id: "au_id a = ca" using row_get_Some [OF a(1)] by simp
  obtain m ls where m: "generate_crl e now ca 7 ''scheduler'' db = (Inr m, db\<lparr>crls := crls db @ [m], logs := ls\<rparr>)"
    "cm_ca_id m = ca" "cm_created_at m = now" "cm_next_update m = now + days 7"
    using generate_crl_signs [OF _ a(2,3) assms(3) a(4), of "''scheduler''"] a(1) id by auto
  have "cm_created_at k < cm_created_at m" if "k \<in> set (crls_of ca db)" for k
    using pki_run_ok [OF assms(1)] assms(2) that m(3) by (auto simp: pki_ok_def crls_of_def)
  then have "newest cm_created_at (crls_of ca (db\<lparr>crls := crls db @ [m], logs := ls\<rparr>)) = Some m"
    using m(2) by (auto simp: crls_of_def intro!: newest_snoc_max)
  then have "fst (should_regenerate_crl s ca (snd (regenerate_crl e now ca db)))
      = (is_stale s m \<or> days_until_expiry s m \<le> 1)"
    using a(1,2) ok(2) m(1) by (simp add: should_regenerate_crl_def REGENERATION_THRESHOLD_HOURS_def)
  then show ?thesis
    using m(4) by (auto simp: days_until_two is_stale_def days_def hours_def seconds_def)
qed

lemma regeneration_schedule_witness:
  "fst (should_regenerate_crl (30 + days 6) 1 (snd (regenerate_crl demo_crl_env 30 1 demo_unpublished)))
   = (30 + days 6 > 30 + days 5)"
proof (rule regeneration_schedule [OF demo_run])
  show "fst (regenerate_crl demo_crl_env 30 1 demo_unpublished)" by code_simp
qed (simp_all add: demo_crl_env_def ucm_simps)

text \<open>Two flaws of the task. Its query selects no CA, as a constant false condition selects no row; and
  the test looks at the CRL made last, so a fresh delta CRL hides a full CRL that has expired.\<close>

lemma task_selects_nothing: "\<not> clause False \<Longrightarrow> execute clause e now db = db"
  by (simp add: execute_def)

lemma delta_hides_stale_base:
  assumes "row_get au_id (authorities db) ca = Some a" "newest cm_created_at (crls_of ca db) = Some d"
    "\<not> is_stale now d" "days_until_expiry now d \<ge> 2"
  shows "\<not> fst (should_regenerate_crl now ca db)"
  using assms by (simp add: should_regenerate_crl_def REGENERATION_THRESHOLD_HOURS_def)

end
