(* ===== verification/Ocsp.thy ===== *)
theory Ocsp
  imports Crl
begin

text \<open>
  The OCSP responder: \<^verbatim>\<open>services/ocsp_service.py\<close>, \<^verbatim>\<open>models/ocsp.py\<close> and \<^verbatim>\<open>api/ocsp_routes.py\<close>, over the tables of
  theory \<open>Crl\<close>. Parsing requests, loading certificates and keys, hashing names and signing responses are the
  library's (\<open>ocsp_env\<close>). The lookup \<^verbatim>\<open>Certificate.query.filter_by(serial=...)\<close> names an attribute that the class
  does not have; its answer is the argument \<open>oe_find_serial\<close>, for which the database library documents an exception.
\<close>

subsection \<open>Data\<close>

record ocsp_request =
  oq_serial :: int
  oq_issuer_name_hash :: string
  oq_issuer_key_hash :: string
  oq_hash_algorithm :: string
  oq_nonce :: "string option"

datatype ocsp_status = S_good | S_revoked | S_unknown

definition status_text :: "ocsp_status \<Rightarrow> string" where
  "status_text s = (case s of S_good \<Rightarrow> ''good'' | S_revoked \<Rightarrow> ''revoked'' | S_unknown \<Rightarrow> ''unknown'')"

record ocsp_content =
  oc_cert :: "string option"
  oc_serial :: int
  oc_status :: ocsp_status
  oc_this_update :: time
  oc_next_update :: time
  oc_revocation_time :: "time option"
  oc_revocation_reason :: "reason_flag option"
  oc_nonce :: "string option"

record ocsp_env =
  oe_parse :: "string \<Rightarrow> ocsp_request option"
  oe_name_hash :: "string \<Rightarrow> string \<Rightarrow> string option"
  oe_load_ca :: "authority \<Rightarrow> py_error option"
  oe_load_cert :: "string \<Rightarrow> bool"
  oe_find_serial :: "string \<Rightarrow> certificate list \<Rightarrow> py_error + certificate option"
  oe_sign :: "authority \<Rightarrow> ocsp_content \<Rightarrow> py_error + string"
  oe_reason_value :: "reason_flag \<Rightarrow> string"

text \<open>The reasons this service knows, in both spellings.\<close>

definition OCSP_REASON_MAP :: "(string \<times> reason_flag) list" where
  "OCSP_REASON_MAP =
     [(''unspecified'', R_unspecified),
      (''key_compromise'', R_key_compromise), (''keyCompromise'', R_key_compromise),
      (''ca_compromise'', R_ca_compromise), (''caCompromise'', R_ca_compromise),
      (''affiliation_changed'', R_affiliation_changed), (''affiliationChanged'', R_affiliation_changed),
      (''superseded'', R_superseded),
      (''cessation_of_operation'', R_cessation_of_operation), (''cessationOfOperation'', R_cessation_of_operation),
      (''certificate_hold'', R_certificate_hold), (''certificateHold'', R_certificate_hold),
      (''privilege_withdrawn'', R_privilege_withdrawn), (''privilegeWithdrawn'', R_privilege_withdrawn),
      (''aa_compromise'', R_aa_compromise), (''aACompromise'', R_aa_compromise)]"

datatype ocsp_error = Malformed_request | Internal_error | Unauthorized

datatype ocsp_reply = Unsuccessful ocsp_error | Signed string

subsection \<open>The cache\<close>

definition get_cached_response :: "time \<Rightarrow> int \<Rightarrow> string \<Rightarrow> pki_db \<Rightarrow> string option" where
  "get_cached_response now ca_id serial db =
     (case find (\<lambda>r. os_ca_id r = ca_id \<and> os_cert_serial r = serial) (ocsp_cache db) of
        None \<Rightarrow> None
      | Some r \<Rightarrow> if os_next_update r < now then None else Some (os_response_der r))"

definition cache_response ::
  "time \<Rightarrow> int \<Rightarrow> string \<Rightarrow> string \<Rightarrow> string \<Rightarrow> time \<Rightarrow> time \<Rightarrow> time option \<Rightarrow> string option \<Rightarrow> pki_db \<Rightarrow> pki_db" where
  "cache_response now ca_id serial der status this_update next_update rtime rreason db =
     (case find (\<lambda>r. os_ca_id r = ca_id \<and> os_cert_serial r = serial) (ocsp_cache db) of
        Some r \<Rightarrow>
          db\<lparr>ocsp_cache := row_update os_id (os_id r)
               (\<lambda>x. x\<lparr>os_response_der := der, os_status := status, os_this_update := this_update,
                      os_next_update := next_update, os_revocation_time := rtime, os_revocation_reason := rreason,
                      os_updated_at := now\<rparr>) (ocsp_cache db)\<rparr>
      | None \<Rightarrow>
          db\<lparr>ocsp_cache := ocsp_cache db @
               [\<lparr>os_id = next_id os_id (ocsp_cache db), os_ca_id = ca_id, os_cert_serial = serial,
                 os_response_der = der, os_status = status, os_this_update = this_update,
                 os_next_update = next_update, os_revocation_time = rtime, os_revocation_reason = rreason,
                 os_created_at = now, os_updated_at = now\<rparr>]\<rparr>)"

definition cleanup_expired_responses :: "time \<Rightarrow> pki_db \<Rightarrow> pki_db" where
  "cleanup_expired_responses now db = db\<lparr>ocsp_cache := filter (\<lambda>r. \<not> os_next_update r < now) (ocsp_cache db)\<rparr>"

subsection \<open>Responses\<close>

definition ocsp_content_of :: "ocsp_env \<Rightarrow> time \<Rightarrow> int \<Rightarrow> string option \<Rightarrow> certificate option \<Rightarrow> ocsp_content" where
  "ocsp_content_of oe now serial nonce cert =
     (let common = \<lparr>oc_cert = None, oc_serial = serial, oc_status = S_unknown, oc_this_update = now,
                    oc_next_update = now + hours 24, oc_revocation_time = None, oc_revocation_reason = None,
                    oc_nonce = (if nonempty nonce then nonce else None)\<rparr>
      in case cert of
           None \<Rightarrow> common
         | Some c \<Rightarrow>
             (let base = common\<lparr>oc_cert := (if nonempty (ct_crt c) \<and> oe_load_cert oe (the (ct_crt c)) then ct_crt c else None)\<rparr>
              in if ct_revoked c
                 then base\<lparr>oc_status := S_revoked,
                           oc_revocation_time := Some (case ct_revoked_at c of None \<Rightarrow> now | Some t \<Rightarrow> t),
                           oc_revocation_reason :=
                             Some (case ct_revoke_reason c of
                                     None \<Rightarrow> R_unspecified
                                   | Some r \<Rightarrow> (case map_of OCSP_REASON_MAP r of None \<Rightarrow> R_unspecified | Some f \<Rightarrow> f))\<rparr>
                 else base\<lparr>oc_status := S_good\<rparr>))"

definition generate_response ::
  "ocsp_env \<Rightarrow> time \<Rightarrow> authority \<Rightarrow> int \<Rightarrow> string option \<Rightarrow> pki_db \<Rightarrow> (ocsp_reply \<times> string) \<times> pki_db" where
  "generate_response oe now a serial nonce db =
     (let failed = ((Unsuccessful Internal_error, ''error''), db)
      in case oe_load_ca oe a of
           Some _ \<Rightarrow> failed
         | None \<Rightarrow>
             (case oe_find_serial oe (format_hex serial) (certificates db) of
                Inl _ \<Rightarrow> failed
              | Inr cert \<Rightarrow>
                  (let content = ocsp_content_of oe now serial nonce cert
                   in case oe_sign oe a content of
                        Inl _ \<Rightarrow> failed
                      | Inr der \<Rightarrow>
                          ((Signed der, status_text (oc_status content)),
                           cache_response now (au_id a) (format_hex serial) der (status_text (oc_status content))
                             (oc_this_update content) (oc_next_update content) (oc_revocation_time content)
                             (map_option (oe_reason_value oe) (oc_revocation_reason content)) db))))"

text \<open>The search for the CA: the library is given the stored text of each CA's certificate.\<close>

definition hash_name :: "string \<Rightarrow> string" where
  "hash_name alg = (if alg = ''SHA256'' then ''SHA256'' else ''SHA1'')"

definition find_ca_by_issuer_hash :: "ocsp_env \<Rightarrow> string \<Rightarrow> string \<Rightarrow> pki_db \<Rightarrow> authority option" where
  "find_ca_by_issuer_hash oe name_hash alg db =
     find (\<lambda>a. oe_name_hash oe (hash_name alg) (au_crt a) = Some name_hash) (authorities db)"

definition process_ocsp_request :: "ocsp_env \<Rightarrow> time \<Rightarrow> string \<Rightarrow> pki_db \<Rightarrow> ocsp_reply \<times> pki_db" where
  "process_ocsp_request oe now request_der db =
     (if request_der = [] then (Unsuccessful Malformed_request, db)
      else
        (case oe_parse oe request_der of
           None \<Rightarrow> (Unsuccessful Malformed_request, db)
         | Some rq \<Rightarrow>
             (case find_ca_by_issuer_hash oe (oq_issuer_name_hash rq) (oq_hash_algorithm rq) db of
                None \<Rightarrow> (Unsuccessful Unauthorized, db)
              | Some a \<Rightarrow>
                  if \<not> au_ocsp_enabled a then (Unsuccessful Unauthorized, db)
                  else
                    (case get_cached_response now (au_id a) (format_hex (oq_serial rq)) db of
                       Some der \<Rightarrow>
                         if der \<noteq> [] then (Signed der, db)
                         else (let (r, db') = generate_response oe now a (oq_serial rq) (oq_nonce rq) db in (fst r, db'))
                     | None \<Rightarrow>
                         (let (r, db') = generate_response oe now a (oq_serial rq) (oq_nonce rq) db in (fst r, db'))))))"

datatype http_method = GET | POST

text \<open>The route \<^verbatim>\<open>/ocsp\<close>: the body of a POST, or the query string of a GET decoded by \<open>unb64\<close>.\<close>

definition ocsp_responder ::
  "ocsp_env \<Rightarrow> (string \<Rightarrow> string option) \<Rightarrow> time \<Rightarrow> http_method \<Rightarrow> string \<Rightarrow> pki_db \<Rightarrow> ocsp_reply \<times> pki_db" where
  "ocsp_responder oe unb64 now meth text db =
     (case meth of
        POST \<Rightarrow> process_ocsp_request oe now text db
      | GET \<Rightarrow>
          if text = [] then (Unsuccessful Malformed_request, db)
          else (case unb64 text of
                  None \<Rightarrow> (Unsuccessful Malformed_request, db)
                | Some der \<Rightarrow> process_ocsp_request oe now der db))"

definition get_ocsp_status :: "pki_db \<Rightarrow> bool \<times> nat" where
  "get_ocsp_status db = (let n = length (filter au_ocsp_enabled (authorities db)) in (n > 0, n))"

definition get_ocsp_stats :: "pki_db \<Rightarrow> nat" where
  "get_ocsp_stats db = length (ocsp_cache db)"

subsection \<open>Properties\<close>

lemma get_cached_fresh_at:
  "get_cached_response t ca serial (cache_response now ca serial der st tu nu rt rr db)
   = (if nu < t then None else Some der)"
proof (cases "find (\<lambda>r. os_ca_id r = ca \<and> os_cert_serial r = serial) (ocsp_cache db)")
  case None
  then show ?thesis by (simp add: cache_response_def get_cached_response_def find_append)
next
  case (Some r)
  then show ?thesis
    by (simp add: cache_response_def get_cached_response_def find_row_update)
qed

text \<open>If the lookup worked, a generated response would say what the looked-up row says: revoked exactly for a revoked certificate, with the instant of the
  revocation, good for another one and unknown for no row. The response would then be served from the cache for
  the 24 hours it is valid, and not after.\<close>

lemma ocsp_response_correct:
  assumes "oe_load_ca oe a = None" "oe_find_serial oe (format_hex serial) (certificates db) = Inr cert"
    and "\<And>content. oe_sign oe a content = Inr (sign content)"
  shows "\<exists>content. fst (generate_response oe now a serial nonce db) = (Signed (sign content), status_text (oc_status content))
    \<and> oc_status content = (case cert of None \<Rightarrow> S_unknown | Some c \<Rightarrow> if ct_revoked c then S_revoked else S_good)
    \<and> (case cert of None \<Rightarrow> True | Some c \<Rightarrow> \<not> ct_revoked c \<or> ct_revoked_at c = None \<or> oc_revocation_time content = ct_revoked_at c)
    \<and> (get_cached_response t (au_id a) (format_hex serial) (snd (generate_response oe now a serial nonce db))
       = (if now + hours 24 < t then None else Some (sign content)))"
proof -
  let ?c = "ocsp_content_of oe now serial nonce cert"
  have g: "generate_response oe now a serial nonce db
      = ((Signed (sign ?c), status_text (oc_status ?c)),
         cache_response now (au_id a) (format_hex serial) (sign ?c) (status_text (oc_status ?c))
           (oc_this_update ?c) (oc_next_update ?c) (oc_revocation_time ?c)
           (map_option (oe_reason_value oe) (oc_revocation_reason ?c)) db)"
    using assms by (simp add: generate_response_def Let_def)
  have "oc_next_update ?c = now + hours 24"
    by (simp add: ocsp_content_of_def Let_def split: option.split)
  moreover have "oc_status ?c = (case cert of None \<Rightarrow> S_unknown | Some c \<Rightarrow> if ct_revoked c then S_revoked else S_good)"
    "case cert of None \<Rightarrow> True | Some c \<Rightarrow> \<not> ct_revoked c \<or> ct_revoked_at c = None \<or> oc_revocation_time ?c = ct_revoked_at c"
    by (auto simp: ocsp_content_of_def Let_def split: option.split)
  ultimately show ?thesis
    unfolding g by (intro exI [of _ ?c]) (simp add: get_cached_fresh_at)
qed

text \<open>The lookup raises, so no response is generated and none is cached.\<close>

lemma generate_response_fails:
  assumes "\<And>serial rows. \<exists>err. oe_find_serial oe serial rows = Inl err"
  shows "generate_response oe now a serial nonce db = ((Unsuccessful Internal_error, ''error''), db)"
proof -
  obtain err where "oe_find_serial oe (format_hex serial) (certificates db) = Inl err" using assms by blast
  then show ?thesis by (simp add: generate_response_def Let_def split: option.split)
qed

text \<open>C39. The responder answers no request: the certificates of the CAs are stored in base64, which has no dash, while
  the library reads PEM text, which starts with dashes; so no CA matches any request and every well-formed
  one is refused as unauthorized.\<close>

theorem ocsp_refuses_all:
  assumes "\<And>alg s. CHR ''-'' \<notin> set s \<Longrightarrow> oe_name_hash oe alg s = None"
    and "\<forall>a \<in> set (authorities db). CHR ''-'' \<notin> set (au_crt a)"
    and "der \<noteq> []" "oe_parse oe der = Some rq"
  shows "process_ocsp_request oe now der db = (Unsuccessful Unauthorized, db)"
proof -
  have "find_ca_by_issuer_hash oe h alg db = None" for h alg
    using assms(1,2) by (auto simp: find_ca_by_issuer_hash_def find_None_iff)
  then show ?thesis using assms(3,4) by (simp add: process_ocsp_request_def)
qed

definition demo_ocsp :: ocsp_env where
  "demo_ocsp = \<lparr>oe_parse = (\<lambda>s. Some \<lparr>oq_serial = 171, oq_issuer_name_hash = s, oq_issuer_key_hash = [],
       oq_hash_algorithm = ''SHA1'', oq_nonce = None\<rparr>),
     oe_name_hash = (\<lambda>alg s. if CHR ''-'' \<in> set s then Some (alg @ s) else None),
     oe_load_ca = (\<lambda>_. None), oe_load_cert = (\<lambda>_. True),
     oe_find_serial = (\<lambda>_ _. Inl (Other_error ''InvalidRequestError'')), oe_sign = (\<lambda>_ _. Inr ''der''),
     oe_reason_value = (\<lambda>_. ''keyCompromise'')\<rparr>"

definition demo_ocsp_db :: pki_db where
  "demo_ocsp_db = \<lparr>authorities = [\<lparr>au_id = 1, au_refid = ''ca'', au_descr = ''Root'', au_subject = None,
       au_crt = ''LS0tLS1CRUdJTiBDRVJUSUZJQ0FURS0tLS0t'', au_prv = None, au_hsm_key_id = None, au_cdp_enabled = False,
       au_cdp_url = None, au_delta_crl_enabled = False, au_delta_crl_interval = None, au_ocsp_enabled = True\<rparr>],
     certificates = [], crls = [], ocsp_cache = [], logs = []\<rparr>"

lemma ocsp_refuses_all_witness:
  "process_ocsp_request demo_ocsp 5 ''request'' demo_ocsp_db = (Unsuccessful Unauthorized, demo_ocsp_db)"
proof (rule ocsp_refuses_all)
  show "oe_parse demo_ocsp ''request'' = Some \<lparr>oq_serial = 171, oq_issuer_name_hash = ''request'', oq_issuer_key_hash = [],
       oq_hash_algorithm = ''SHA1'', oq_nonce = None\<rparr>"
    by (simp add: demo_ocsp_def)
qed (simp_all add: demo_ocsp_def demo_ocsp_db_def)

end
