(* ===== verification/Anomaly.thy ===== *)
theory Anomaly
  imports Audit_Log
begin

text \<open>
  Anomaly detection, \<^verbatim>\<open>security/anomaly_detection.py\<close>: the detector's caches of failed logins, known browsers
  and bulk operations, and the anomalies it reports and logs. The dictionaries are lists of items; a missing key of
  a \<^verbatim>\<open>defaultdict\<close> reads as the empty list. The report of a credential-stuffing attack is characterised over
  histories of logins.
\<close>

subsection \<open>The detector\<close>

record detector =
  bulk_ops :: "(int \<times> (time \<times> string \<times> int) list) list"
  failed_by_ip :: "(string \<times> time list) list"
  user_agents :: "(int \<times> string list) list"

definition new_detector :: detector where
  "new_detector = \<lparr>bulk_ops = [], failed_by_ip = [], user_agents = []\<rparr>"

definition BULK_OPERATION_THRESHOLD :: int where "BULK_OPERATION_THRESHOLD = 50"

definition FAILED_LOGIN_THRESHOLD :: nat where "FAILED_LOGIN_THRESHOLD = 5"

definition UNUSUAL_HOUR_START :: int where "UNUSUAL_HOUR_START = 2"

definition UNUSUAL_HOUR_END :: int where "UNUSUAL_HOUR_END = 5"

datatype anomaly =
    Unusual_time int int string
  | New_device int string
  | Credential_stuffing nat string
  | Bulk_operation int int "string list"

definition hour_of :: "time \<Rightarrow> int" where
  "hour_of t = t div hours 1 mod 24"

fun anomaly_json :: "anomaly \<Rightarrow> (string \<times> json) list" where
  "anomaly_json (Unusual_time h uid ip) =
     [(''type'', JStr ''unusual_time_login''), (''severity'', JStr ''low''),
      (''message'', JStr (''Login at unusual hour ('' @ str_int h @ '':00 UTC)'')),
      (''user_id'', JInt uid), (''ip'', JStr ip)]"
| "anomaly_json (New_device uid ip) =
     [(''type'', JStr ''new_device''), (''severity'', JStr ''medium''),
      (''message'', JStr ''Login from new device/browser''), (''user_id'', JInt uid), (''ip'', JStr ip)]"
| "anomaly_json (Credential_stuffing n ip) =
     [(''type'', JStr ''credential_stuffing''), (''severity'', JStr ''high''),
      (''message'', JStr (''Multiple failed logins from same IP ('' @ str_nat n @ '' attempts)'')), (''ip'', JStr ip)]"
| "anomaly_json (Bulk_operation n uid ops) =
     [(''type'', JStr ''bulk_operation''), (''severity'', JStr ''high''),
      (''message'', JStr (''Bulk operations detected ('' @ str_int n @ '' items in 5 minutes)'')),
      (''user_id'', JInt uid), (''operations'', JList (map JStr ops))]"

definition anomaly_args :: "anomaly \<Rightarrow> audit_args" where
  "anomaly_args a =
     (let j = anomaly_json a;
          who = (case jget j ''user_id'' of JInt i \<Rightarrow> str_int i | _ \<Rightarrow> ''unknown'')
      in audit_call ''security_anomaly'' (Some ''security'') No_id No_text (Txt (json_dumps (JObj j))) True
           (Some (''user:'' @ who)))"

text \<open>Writing to the audit log; \<open>log\<close> is the audit service with its clock and context.\<close>

definition log_anomalies ::
  "(audit_args \<Rightarrow> audit_log list \<Rightarrow> audit_log list) \<Rightarrow> anomaly list \<Rightarrow> audit_log list \<Rightarrow> audit_log list" where
  "log_anomalies log as ls = foldl (\<lambda>l a. log (anomaly_args a) l) ls as"

definition dict_get :: "('k \<times> 'v list) list \<Rightarrow> 'k \<Rightarrow> 'v list" where
  "dict_get d k = (case map_of d k of None \<Rightarrow> [] | Some v \<Rightarrow> v)"

text \<open>A login and what is found about it; \<open>sha256\<close> digests the browser's name.\<close>

definition check_success ::
  "(string \<Rightarrow> string) \<Rightarrow> time \<Rightarrow> int \<Rightarrow> string \<Rightarrow> string \<Rightarrow> detector \<Rightarrow> anomaly list \<times> detector" where
  "check_success sha256 now uid ip ua d =
     (let ua_hash = take 16 (sha256 ua);
          odd_hour = (if UNUSUAL_HOUR_START \<le> hour_of now \<and> hour_of now < UNUSUAL_HOUR_END
                      then [Unusual_time (hour_of now) uid ip] else [])
      in case map_of (user_agents d) uid of
           Some known \<Rightarrow>
             if ua_hash \<notin> set known
             then (odd_hour @ [New_device uid ip], d\<lparr>user_agents := dict_set uid (known @ [ua_hash]) (user_agents d)\<rparr>)
             else (odd_hour, d)
         | None \<Rightarrow> (odd_hour, d\<lparr>user_agents := dict_set uid [ua_hash] (user_agents d)\<rparr>))"

definition check_failure :: "time \<Rightarrow> string \<Rightarrow> detector \<Rightarrow> anomaly list \<times> detector" where
  "check_failure now ip d =
     (let recent = filter (\<lambda>t. t > now - minutes 5) (dict_get (failed_by_ip d) ip @ [now])
      in (if length recent \<ge> FAILED_LOGIN_THRESHOLD then [Credential_stuffing (length recent) ip] else [],
          d\<lparr>failed_by_ip := dict_set ip recent (failed_by_ip d)\<rparr>))"

definition record_login ::
  "(string \<Rightarrow> string) \<Rightarrow> (audit_args \<Rightarrow> audit_log list \<Rightarrow> audit_log list) \<Rightarrow> time \<Rightarrow> int \<Rightarrow> string \<Rightarrow> string \<Rightarrow> bool
     \<Rightarrow> detector \<times> audit_log list \<Rightarrow> anomaly list \<times> detector \<times> audit_log list" where
  "record_login sha256 log now uid ip ua success st =
     (let (as, d) = (if success then check_success sha256 now uid ip ua (fst st) else check_failure now ip (fst st))
      in (as, d, log_anomalies log as (snd st)))"

definition record_bulk_operation ::
  "(audit_args \<Rightarrow> audit_log list \<Rightarrow> audit_log list) \<Rightarrow> time \<Rightarrow> int \<Rightarrow> string \<Rightarrow> int
     \<Rightarrow> detector \<times> audit_log list \<Rightarrow> anomaly option \<times> detector \<times> audit_log list" where
  "record_bulk_operation log now uid operation n st =
     (let d = fst st;
          recent = filter (\<lambda>(t, _, _). t > now - minutes 5) (dict_get (bulk_ops d) uid @ [(now, operation, n)]);
          items = sum_list (map (\<lambda>(_, _, c). c) recent)
      in if items \<ge> BULK_OPERATION_THRESHOLD
         then (let a = Bulk_operation items uid (map (\<lambda>(_, op, _). op) recent)
               in (Some a, d\<lparr>bulk_ops := dict_set uid [] (bulk_ops d)\<rparr>, log (anomaly_args a) (snd st)))
         else (None, d\<lparr>bulk_ops := dict_set uid recent (bulk_ops d)\<rparr>, snd st))"

definition get_recent_anomalies :: "time \<Rightarrow> int \<Rightarrow> audit_log list \<Rightarrow> audit_log list" where
  "get_recent_anomalies now h ls =
     newest_first (filter (\<lambda>l. al_action l = ''security_anomaly'' \<and> al_timestamp l \<ge> now - hours h) ls)"

subsection \<open>Histories of logins\<close>

record login_event =
  ev_time :: time
  ev_user :: int
  ev_ip :: string
  ev_agent :: string
  ev_success :: bool

definition login_step :: "(string \<Rightarrow> string) \<Rightarrow> (audit_args \<Rightarrow> audit_log list \<Rightarrow> audit_log list)
     \<Rightarrow> detector \<times> audit_log list \<Rightarrow> login_event \<Rightarrow> detector \<times> audit_log list" where
  "login_step sha256 log st ev =
     snd (record_login sha256 log (ev_time ev) (ev_user ev) (ev_ip ev) (ev_agent ev) (ev_success ev) st)"

text \<open>The failures from an address after an instant.\<close>

definition failures_after :: "time \<Rightarrow> string \<Rightarrow> login_event list \<Rightarrow> time list" where
  "failures_after t ip evs = map ev_time (filter (\<lambda>ev. \<not> ev_success ev \<and> ev_ip ev = ip \<and> ev_time ev > t) evs)"

lemma dict_get_set: "dict_get (dict_set k v d) j = (if j = k then v else dict_get d j)"
  by (simp add: dict_get_def map_of_dict_set)

lemma failures_after_filter:
  "s \<le> t \<Longrightarrow> filter (\<lambda>x. x > t) (failures_after s ip evs) = failures_after t ip evs"
  by (induction evs) (auto simp: failures_after_def)

lemma failures_after_append: "failures_after t ip (evs @ [ev]) = failures_after t ip evs @ failures_after t ip [ev]"
  by (simp add: failures_after_def)

text \<open>What the cache holds for an address: the failures that were recent at the last of them.\<close>

definition cache_ok :: "time \<Rightarrow> detector \<Rightarrow> login_event list \<Rightarrow> bool" where
  "cache_ok now d evs = (\<forall>ip. \<exists>s \<le> now - minutes 5. dict_get (failed_by_ip d) ip = failures_after s ip evs)"

lemma failed_by_ip_success: "failed_by_ip (snd (check_success sha256 now uid ip ua d)) = failed_by_ip d"
  by (auto simp: check_success_def Let_def split: option.splits)

lemma check_failure_recent:
  assumes "cache_ok now d evs"
  shows "dict_get (failed_by_ip (snd (check_failure now ip d))) ip = failures_after (now - minutes 5) ip evs @ [now]"
    "fst (check_failure now ip d) =
       (let n = length (failures_after (now - minutes 5) ip evs) + 1
        in if n \<ge> FAILED_LOGIN_THRESHOLD then [Credential_stuffing n ip] else [])"
proof -
  obtain s where "s \<le> now - minutes 5" "dict_get (failed_by_ip d) ip = failures_after s ip evs"
    using assms unfolding cache_ok_def by blast
  then have "filter (\<lambda>t. t > now - minutes 5) (dict_get (failed_by_ip d) ip @ [now])
      = failures_after (now - minutes 5) ip evs @ [now]"
    by (simp add: failures_after_filter minutes_def seconds_def)
  then show "dict_get (failed_by_ip (snd (check_failure now ip d))) ip = failures_after (now - minutes 5) ip evs @ [now]"
    "fst (check_failure now ip d) =
       (let n = length (failures_after (now - minutes 5) ip evs) + 1
        in if n \<ge> FAILED_LOGIN_THRESHOLD then [Credential_stuffing n ip] else [])"
    by (simp_all add: check_failure_def Let_def dict_get_set)
qed

lemma login_step_cache:
  assumes ok: "cache_ok (ev_time ev) (fst st) evs"
  shows "cache_ok (ev_time ev) (fst (login_step sha256 log st ev)) (evs @ [ev])"
  unfolding cache_ok_def
proof
  fix ip
  let ?t = "ev_time ev"
  let ?d' = "fst (login_step sha256 log st ev)"
  show "\<exists>s \<le> ?t - minutes 5. dict_get (failed_by_ip ?d') ip = failures_after s ip (evs @ [ev])"
  proof (cases "\<not> ev_success ev \<and> ev_ip ev = ip")
    case True
    then have "?d' = snd (check_failure ?t ip (fst st))"
      by (simp add: login_step_def record_login_def case_prod_beta)
    then have "dict_get (failed_by_ip ?d') ip = failures_after (?t - minutes 5) ip (evs @ [ev])"
      using check_failure_recent(1) [OF ok] True
      by (simp add: failures_after_append failures_after_def minutes_def seconds_def)
    then show ?thesis by blast
  next
    case False
    then have "dict_get (failed_by_ip ?d') ip = dict_get (failed_by_ip (fst st)) ip"
      by (auto simp: login_step_def record_login_def case_prod_beta failed_by_ip_success check_failure_def Let_def
          dict_get_set)
    moreover obtain s where "s \<le> ?t - minutes 5" "dict_get (failed_by_ip (fst st)) ip = failures_after s ip evs"
      using ok unfolding cache_ok_def by blast
    moreover have "failures_after s ip (evs @ [ev]) = failures_after s ip evs"
      using False by (auto simp: failures_after_def)
    ultimately show ?thesis by auto
  qed
qed

lemma cache_ok_later: "cache_ok t d evs \<Longrightarrow> t \<le> t' \<Longrightarrow> cache_ok t' d evs"
  unfolding cache_ok_def by (meson diff_mono order_refl order_trans)

lemma history_cache:
  "sorted (map ev_time evs) \<Longrightarrow> (\<forall>ev \<in> set evs. ev_time ev \<le> now) \<Longrightarrow>
   cache_ok now (fst (foldl (login_step sha256 log) (new_detector, ls) evs)) evs"
proof (induction evs arbitrary: now rule: rev_induct)
  case Nil
  then show ?case by (auto simp: cache_ok_def new_detector_def dict_get_def failures_after_def)
next
  case (snoc ev evs)
  then have "cache_ok (ev_time ev) (fst (foldl (login_step sha256 log) (new_detector, ls) evs)) evs"
    by (auto simp: sorted_append)
  then have "cache_ok (ev_time ev) (fst (foldl (login_step sha256 log) (new_detector, ls) (evs @ [ev]))) (evs @ [ev])"
    using login_step_cache by simp
  moreover have "ev_time ev \<le> now" using snoc.prems(2) by simp
  ultimately show ?case by (rule cache_ok_later)
qed

text \<open>Over every history of logins, a failed login is reported as credential stuffing exactly when it is at least the fifth failure
  from its address within five minutes, and the report counts those failures.\<close>

theorem stuffing_reported_exactly:
  assumes "sorted (map ev_time evs)" "\<forall>ev \<in> set evs. ev_time ev \<le> now"
  shows "fst (record_login sha256 log now uid ip ua False (foldl (login_step sha256 log) (new_detector, ls) evs)) =
    (let n = length (filter (\<lambda>ev. \<not> ev_success ev \<and> ev_ip ev = ip \<and> ev_time ev > now - minutes 5) evs) + 1
     in if n \<ge> 5 then [Credential_stuffing n ip] else [])"
  using check_failure_recent(2) [OF history_cache [OF assms, of sha256 log ls], of ip]
  by (simp add: record_login_def case_prod_beta failures_after_def FAILED_LOGIN_THRESHOLD_def)

definition demo_failures :: "login_event list" where
  "demo_failures = map (\<lambda>i. \<lparr>ev_time = seconds i, ev_user = i, ev_ip = ''10.0.0.1'', ev_agent = ''x'', ev_success = False\<rparr>)
     [0, 60, 120, 200, 280]"

lemma stuffing_reported_exactly_witness:
  "fst (record_login (\<lambda>s. s) (\<lambda>_ ls. ls) (seconds 290) 9 ''10.0.0.1'' ''x'' False
          (foldl (login_step (\<lambda>s. s) (\<lambda>_ ls. ls)) (new_detector, []) demo_failures)) =
    (let n = length (filter (\<lambda>ev. \<not> ev_success ev \<and> ev_ip ev = ''10.0.0.1'' \<and> ev_time ev > seconds 290 - minutes 5) demo_failures) + 1
     in if n \<ge> 5 then [Credential_stuffing n ''10.0.0.1''] else [])"
  by (rule stuffing_reported_exactly) (simp_all add: demo_failures_def seconds_def)

end
