(* ===== verification/Attempt_Limiter.thy ===== *)
theory Attempt_Limiter
  imports Prelude
begin

text \<open>
  What a lockout after failed attempts promises. The program has three of them, the lockouts of accounts, of second
  factors and of logins with the directory; all interpret the locale \<open>attempt_limiter\<close>. Its laws describe one attempt that fails: a lock that
  has run out starts the count anew, and the attempt that reaches the limit locks for the duration. The lemma
  bounds the failed attempts that are evaluated, rather than refused, in any window of that duration.
\<close>

locale attempt_limiter =
  fixes locked :: "'s \<Rightarrow> time \<Rightarrow> bool"
    and fail :: "'s \<Rightarrow> time \<Rightarrow> 's"
    and failures :: "'s \<Rightarrow> int"
    and until :: "'s \<Rightarrow> time option"
    and limit :: int
    and duration :: time
  assumes locked_iff: "locked s t \<longleftrightarrow> (case until s of None \<Rightarrow> False | Some u \<Rightarrow> t < u)"
    and failures_fail: "\<not> locked s t \<Longrightarrow> failures (fail s t) = (if until s = None then failures s else 0) + 1"
    and until_fail: "\<not> locked s t \<Longrightarrow>
      until (fail s t) = (if failures (fail s t) \<ge> limit then Some (t + duration) else None)"
    and limit_pos: "0 < limit"
begin

fun evaluated :: "'s \<Rightarrow> time list \<Rightarrow> time list" where
  "evaluated s [] = []"
| "evaluated s (t # ts) = (if locked s t then evaluated s ts else t # evaluated (fail s t) ts)"

definition in_window :: "time \<Rightarrow> time list \<Rightarrow> nat" where
  "in_window a ts = length (filter (\<lambda>t. a \<le> t \<and> t < a + duration) ts)"

lemma in_window_simps [simp]:
  "in_window a [] = 0"
  "in_window a (t # ts) = (if a \<le> t \<and> t < a + duration then 1 else 0) + in_window a ts"
  by (simp_all add: in_window_def)

lemma evaluated_subset: "set (evaluated s ts) \<subseteq> set ts"
  by (induction ts arbitrary: s) auto

lemma late_window: "\<forall>t \<in> set ts. a + duration \<le> t \<Longrightarrow> in_window a (evaluated s ts) = 0"
  using evaluated_subset [of s ts] by (fastforce simp: in_window_def filter_empty_conv)

lemma locked_window:
  "sorted ts \<Longrightarrow> until s = Some u \<Longrightarrow> a + duration \<le> u \<Longrightarrow> in_window a (evaluated s ts) = 0"
proof (induction ts)
  case (Cons t ts)
  show ?case
  proof (cases "locked s t")
    case True
    then show ?thesis using Cons by simp
  next
    case False
    then have "a + duration \<le> t" using Cons.prems by (simp add: locked_iff)
    then have "in_window a (evaluated (fail s t) ts) = 0"
      using Cons.prems(1) by (intro late_window) auto
    then show ?thesis using False \<open>a + duration \<le> t\<close> by simp
  qed
qed simp

lemma counting_window:
  "sorted ts \<Longrightarrow> \<forall>t \<in> set ts. a \<le> t \<Longrightarrow> until s = None \<Longrightarrow> 0 \<le> failures s \<Longrightarrow>
   int (in_window a (evaluated s ts)) \<le> max 1 (limit - failures s)"
proof (induction ts arbitrary: s)
  case (Cons t ts)
  have free: "\<not> locked s t" using Cons.prems by (simp add: locked_iff)
  have count: "failures (fail s t) = failures s + 1" using free Cons.prems by (simp add: failures_fail)
  show ?case
  proof (cases "t < a + duration")
    case False
    then have "in_window a (evaluated (fail s t) ts) = 0"
      using Cons.prems(1) by (intro late_window) auto
    then show ?thesis using free False by simp
  next
    case True
    show ?thesis
    proof (cases "failures s + 1 \<ge> limit")
      case True
      then have "until (fail s t) = Some (t + duration)" using free count by (simp add: until_fail)
      then have "in_window a (evaluated (fail s t) ts) = 0"
        using Cons.prems(1,2) by (intro locked_window) auto
      then show ?thesis using free by (simp add: le_max_iff_disj)
    next
      case False
      then have "until (fail s t) = None" using free count by (simp add: until_fail)
      then have "int (in_window a (evaluated (fail s t) ts)) \<le> max 1 (limit - failures (fail s t))"
        using Cons.prems count by (intro Cons.IH) auto
      then show ?thesis using free False count by simp
    qed
  qed
qed simp

lemma window_bound:
  "sorted ts \<Longrightarrow> 0 \<le> failures s \<Longrightarrow> int (in_window a (evaluated s ts)) \<le> limit"
proof (induction ts arbitrary: s)
  case Nil
  then show ?case using limit_pos by simp
next
  case (Cons t ts)
  have nonneg: "0 \<le> failures (fail s t)" if "\<not> locked s t"
    using that Cons.prems by (simp add: failures_fail)
  show ?case
  proof (cases "locked s t \<or> t < a")
    case True
    then show ?thesis using Cons nonneg by auto
  next
    case False
    show ?thesis
    proof (cases "until s")
      case None
      have "int (in_window a (evaluated s (t # ts))) \<le> max 1 (limit - failures s)"
        using Cons.prems False None by (intro counting_window) auto
      then show ?thesis using Cons.prems limit_pos by simp
    next
      case (Some u)
      then have count: "failures (fail s t) = 1" using False by (simp add: failures_fail)
      show ?thesis
      proof (cases "limit = 1")
        case True
        then have "until (fail s t) = Some (t + duration)" using False count by (simp add: until_fail)
        then have "in_window a (evaluated (fail s t) ts) = 0"
          using Cons.prems(1) False by (intro locked_window) auto
        then show ?thesis using False limit_pos by simp
      next
        case neq: False
        then have "until (fail s t) = None" using False count limit_pos by (simp add: until_fail)
        then have "int (in_window a (evaluated (fail s t) ts)) \<le> max 1 (limit - 1)"
          using Cons.prems(1) False count counting_window [of ts a "fail s t"] by fastforce
        then show ?thesis using False limit_pos neq by simp
      qed
    qed
  qed
qed

end

end
