(* ===== verification/Login.thy ===== *)
theory Login
  imports Auth Csrf Password_Policy Anomaly Attempt_Limiter
begin

text \<open>
  Logging in: \<^verbatim>\<open>api/v2/auth.py\<close> (password login with lockout, logout, password reset) and the password and
  second-factor logins of \<^verbatim>\<open>api/v2/auth_methods.py\<close>, over the users and sessions of theory \<open>Auth\<close>, the detector of
  theory \<open>Anomaly\<close>, the audit log, and the tokens of theory \<open>Csrf\<close>.

  The password hash functions (\<open>check_pw\<close>, \<open>hash_pw\<close>), the one-time code library (\<open>totp_ok\<close>), the reader of the
  stored recovery codes, SHA-256 and the MAC of
  CSRF tokens are parameters in \<open>login_env\<close>. Messages of the password policy, a list in the reply, are joined. A user name or password is text; other JSON values, on which the
  handlers raise, are outside the model.
\<close>

subsection \<open>State\<close>

record web_session = session +
  s_auth_method :: "string option"
  s_pending_user_id :: "int option"
  s_pending_username :: "string option"
  s_pending_method :: "string option"

definition web_clear :: web_session where
  "web_clear = session.extend session_clear
     \<lparr>s_auth_method = None, s_pending_user_id = None, s_pending_username = None, s_pending_method = None\<rparr>"

record attempts =
  at_count :: int
  at_locked_until :: "time option"

record login_state =
  ls_db :: auth_db
  ls_session :: web_session
  ls_detector :: detector
  ls_2fa :: "(string \<times> attempts) list"
  ls_logs :: "audit_log list"

record login_env =
  le_check_pw :: "string \<Rightarrow> string \<Rightarrow> bool"
  le_hash_pw :: "string \<Rightarrow> string"
  le_totp_ok :: "string option \<Rightarrow> string \<Rightarrow> bool"
  le_parse_codes :: "string \<Rightarrow> string list option"
  le_sha256 :: "string \<Rightarrow> string"
  le_hmac :: "string \<Rightarrow> string \<Rightarrow> string"
  le_secret :: string
  le_nonce :: string
  le_ctx :: audit_ctx
  le_audit_fails :: bool
  le_remote_addr :: "string option"
  le_user_agent :: "string option"

definition audit :: "login_env \<Rightarrow> time \<Rightarrow> audit_args \<Rightarrow> audit_log list \<Rightarrow> audit_log list" where
  "audit e now args ls = snd (log_action (le_sha256 e) now (le_ctx e) (le_audit_fails e) args ls)"

definition csrf_for :: "login_env \<Rightarrow> time \<Rightarrow> int \<Rightarrow> string" where
  "csrf_for e now uid = generate_token (le_hmac e) (le_secret e) (now div seconds 1) (le_nonce e) uid"

definition find_user :: "string \<Rightarrow> auth_db \<Rightarrow> user option" where
  "find_user name db = find (\<lambda>u. username u = name) (users db)"

definition update_user :: "int \<Rightarrow> (user \<Rightarrow> user) \<Rightarrow> auth_db \<Rightarrow> auth_db" where
  "update_user i f db = db\<lparr>users := row_update u_id i f (users db)\<rparr>"

subsection \<open>Lockout\<close>

definition MAX_FAILED_ATTEMPTS :: int where "MAX_FAILED_ATTEMPTS = 5"

definition LOCKOUT_DURATION_MINUTES :: int where "LOCKOUT_DURATION_MINUTES = 15"

definition unlock :: "user \<Rightarrow> user" where
  "unlock u = u\<lparr>locked_until := None, failed_logins := Some 0\<rparr>"

definition check_account_lockout :: "time \<Rightarrow> string \<Rightarrow> auth_db \<Rightarrow> bool \<times> auth_db" where
  "check_account_lockout now name db =
     (case find_user name db of
        None \<Rightarrow> (False, db)
      | Some u \<Rightarrow>
          (case locked_until u of
             None \<Rightarrow> (False, db)
           | Some t \<Rightarrow> if now < t then (True, db) else (False, update_user (u_id u) unlock db)))"

definition count_failure :: "time \<Rightarrow> user \<Rightarrow> user" where
  "count_failure now u =
     (let n = (case failed_logins u of None \<Rightarrow> 0 | Some k \<Rightarrow> k) + 1
      in if n \<ge> MAX_FAILED_ATTEMPTS
         then u\<lparr>failed_logins := Some n, locked_until := Some (now + minutes LOCKOUT_DURATION_MINUTES)\<rparr>
         else u\<lparr>failed_logins := Some n\<rparr>)"

definition record_failed_attempt :: "time \<Rightarrow> string \<Rightarrow> auth_db \<Rightarrow> auth_db" where
  "record_failed_attempt now name db =
     (case find_user name db of None \<Rightarrow> db | Some u \<Rightarrow> update_user (u_id u) (count_failure now) db)"

definition clear_failed_attempts :: "string \<Rightarrow> auth_db \<Rightarrow> auth_db" where
  "clear_failed_attempts name db =
     (case find_user name db of
        None \<Rightarrow> db
      | Some u \<Rightarrow>
          if (case failed_logins u of None \<Rightarrow> False | Some n \<Rightarrow> n \<noteq> 0) \<or> locked_until u \<noteq> None
          then update_user (u_id u) unlock db else db)"

subsection \<open>Password login of \<^verbatim>\<open>auth.py\<close>\<close>

record login_data =
  ld_user_id :: int
  ld_username :: string
  ld_csrf_token :: "string option"
  ld_force_password_change :: bool
  ld_permissions :: "string list"
  ld_requires_2fa :: bool

definition detect :: "login_env \<Rightarrow> time \<Rightarrow> int \<Rightarrow> bool \<Rightarrow> login_state \<Rightarrow> login_state" where
  "detect e now uid success st =
     (let ip = (case le_remote_addr e of None \<Rightarrow> ''unknown'' | Some a \<Rightarrow> if a = [] then ''unknown'' else a);
          ua = (case le_user_agent e of None \<Rightarrow> ''unknown'' | Some a \<Rightarrow> a);
          (_, d, l) = record_login (le_sha256 e) (audit e now) now uid ip ua success (ls_detector st, ls_logs st)
      in st\<lparr>ls_detector := d, ls_logs := l\<rparr>)"

definition start_session :: "time \<Rightarrow> user \<Rightarrow> web_session" where
  "start_session now u =
     web_clear\<lparr>s_user_id := Some (u_id u), s_username := Some (username u), s_login_time := Some (Iso now),
               s_last_activity := Some (Iso now), s_permanent := True\<rparr>"

definition login ::
  "login_env \<Rightarrow> time \<Rightarrow> string option \<Rightarrow> string option \<Rightarrow> login_state \<Rightarrow> login_data http \<times> login_state" where
  "login e now uname pw st =
     (if \<not> nonempty uname \<or> \<not> nonempty pw then (error_response ''Username and password required'' 400, st)
      else
        (let name = strip (the uname);
             (locked, db1) = check_account_lockout now name (ls_db st);
             st1 = st\<lparr>ls_db := db1\<rparr>
         in if locked then (error_response ''Account temporarily locked. Try again later.'' 429, st1)
            else
              (case find_user name db1 of
                 None \<Rightarrow>
                   (error_response ''Invalid credentials'' 401,
                    detect e now 0 False (st1\<lparr>ls_db := record_failed_attempt now name db1\<rparr>))
               | Some u \<Rightarrow>
                   if \<not> active u
                   then (error_response ''Invalid credentials'' 401,
                         detect e now 0 False (st1\<lparr>ls_db := record_failed_attempt now name db1\<rparr>))
                   else if \<not> le_check_pw e (password_hash u) (the pw)
                   then (error_response ''Invalid credentials'' 401,
                         detect e now (u_id u) False (st1\<lparr>ls_db := record_failed_attempt now name db1\<rparr>))
                   else
                     (success_response
                        \<lparr>ld_user_id = u_id u, ld_username = username u, ld_csrf_token = Some (csrf_for e now (u_id u)),
                         ld_force_password_change = force_password_change u, ld_permissions = [],
                         ld_requires_2fa = False\<rparr> ''Login successful'',
                      (detect e now (u_id u) True (st1\<lparr>ls_db := clear_failed_attempts name db1\<rparr>))
                        \<lparr>ls_session := start_session now u\<rparr>))))"

definition logout :: "login_env \<Rightarrow> time \<Rightarrow> login_state \<Rightarrow> unit http \<times> login_state" where
  "logout e now st =
     (let name = (case s_username (ls_session st) of None \<Rightarrow> ''unknown'' | Some n \<Rightarrow> n)
      in (success_response () ''Logout successful'',
          st\<lparr>ls_logs := audit e now (log_auth ''logout'' name None (Some (''User '' @ name @ '' logged out'')) True)
                           (ls_logs st), ls_session := web_clear\<rparr>))"

subsection \<open>Password reset\<close>

text \<open>
  The test for a mail server calls \<^verbatim>\<open>SystemConfig.get\<close>, which the class does not have; the exception is
  caught and the answer is no, so requests for a reset end there. The rest of the handler is modelled for
  the answer yes.
\<close>

definition is_email_configured :: "auth_db \<Rightarrow> bool" where
  "is_email_configured db = False"

definition forgot_password ::
  "login_env \<Rightarrow> time \<Rightarrow> string \<Rightarrow> string option \<Rightarrow> login_state \<Rightarrow> unit http \<times> login_state" where
  "forgot_password e now token email_arg st =
     (if \<not> is_email_configured (ls_db st)
      then (error_response ''Password reset unavailable - email not configured'' 503, st)
      else
        (let mail = lower (strip (case email_arg of None \<Rightarrow> [] | Some m \<Rightarrow> m))
         in if mail = [] then (error_response ''Email is required'' 400, st)
            else
              (success_response () ''If an account with that email exists, a password reset link has been sent.'',
               case find (\<lambda>u. lower (email u) = mail) (users (ls_db st)) of
                 Some u \<Rightarrow>
                   if active u
                   then st\<lparr>ls_db := update_user (u_id u)
                           (\<lambda>x. x\<lparr>password_reset_token := Some (le_sha256 e token),
                                  password_reset_expires := Some (now + hours 1)\<rparr>) (ls_db st)\<rparr>
                   else st
               | None \<Rightarrow> st)))"

definition reset_password ::
  "login_env \<Rightarrow> time \<Rightarrow> string option \<Rightarrow> string option \<Rightarrow> login_state \<Rightarrow> unit http \<times> login_state" where
  "reset_password e now token_arg pw_arg st =
     (let token = strip (case token_arg of None \<Rightarrow> [] | Some t \<Rightarrow> t);
          pw = (case pw_arg of None \<Rightarrow> [] | Some p \<Rightarrow> p)
      in if token = [] then (error_response ''Reset token is required'' 400, st)
         else if length pw < 8 then (error_response ''Password must be at least 8 characters'' 400, st)
         else
           (case validate_password (Some pw) None None of
              Inl err \<Rightarrow> (Raised err, st)
            | Inr (ok, msgs) \<Rightarrow>
                if \<not> ok then (error_response (join_with '', '' msgs) 400, st)
                else
                  (case find (\<lambda>u. password_reset_token u = Some (le_sha256 e token)) (users (ls_db st)) of
                     None \<Rightarrow> (error_response ''Invalid or expired reset token'' 400, st)
                   | Some u \<Rightarrow>
                       (case password_reset_expires u of
                          None \<Rightarrow> (Raised ''TypeError'', st)
                        | Some t \<Rightarrow>
                            if t < now
                            then (error_response ''Reset token has expired'' 400,
                                  st\<lparr>ls_db := update_user (u_id u)
                                      (\<lambda>x. x\<lparr>password_reset_token := None, password_reset_expires := None\<rparr>) (ls_db st)\<rparr>)
                            else
                              (success_response () ''Password has been reset successfully'',
                               st\<lparr>ls_db := update_user (u_id u)
                                    (\<lambda>x. x\<lparr>password_hash := le_hash_pw e pw, password_reset_token := None,
                                           password_reset_expires := None, force_password_change := False,
                                           failed_logins := Some 0, locked_until := None\<rparr>) (ls_db st),
                                  ls_logs := audit e now
                                    (audit_call ''password_reset'' (Some ''user'') (Txt_id (str_int (u_id u))) No_text
                                       (Txt ''Password reset via email'') True None) (ls_logs st)\<rparr>)))))"

subsection \<open>Password login of \<^verbatim>\<open>auth_methods.py\<close>\<close>

definition full_session :: "string \<Rightarrow> user \<Rightarrow> web_session" where
  "full_session meth u =
     web_clear\<lparr>s_user_id := Some (u_id u), s_username := Some (username u), s_permanent := True,
               s_auth_method := Some meth\<rparr>"

definition pending_session :: "user \<Rightarrow> web_session" where
  "pending_session u =
     web_clear\<lparr>s_permanent := True, s_pending_user_id := Some (u_id u), s_pending_username := Some (username u),
               s_pending_method := Some ''password''\<rparr>"

definition login_reply :: "login_env \<Rightarrow> time \<Rightarrow> user \<Rightarrow> login_data" where
  "login_reply e now u =
     \<lparr>ld_user_id = u_id u, ld_username = username u, ld_csrf_token = Some (csrf_for e now (u_id u)),
      ld_force_password_change = force_password_change u, ld_permissions = get_role_permissions (role u),
      ld_requires_2fa = False\<rparr>"

definition count_login :: "time \<Rightarrow> user \<Rightarrow> user" where
  "count_login now u =
     u\<lparr>last_login := Some now, login_count := Some ((case login_count u of None \<Rightarrow> 0 | Some n \<Rightarrow> n) + 1),
       failed_logins := Some 0\<rparr>"

definition login_password ::
  "login_env \<Rightarrow> time \<Rightarrow> string option \<Rightarrow> string option \<Rightarrow> login_state \<Rightarrow> login_data http \<times> login_state" where
  "login_password e now uname pw st =
     (if \<not> nonempty uname \<or> \<not> nonempty pw then (error_response ''Username and password required'' 400, st)
      else
        (let name = the uname;
             note = (\<lambda>act rid rn text ok s. s\<lparr>ls_logs := audit e now
                       (audit_call act (Some ''user'') rid rn (Txt text) ok (Some name)) (ls_logs s)\<rparr>)
         in case find_user name (ls_db st) of
              None \<Rightarrow>
                (error_response ''Invalid credentials'' 401,
                 note ''login_failure'' No_id No_text
                   (''Login failed for username: '' @ name @ '' (user not found or inactive)'') False st)
            | Some u \<Rightarrow>
                if \<not> active u
                then (error_response ''Invalid credentials'' 401,
                      note ''login_failure'' No_id No_text
                        (''Login failed for username: '' @ name @ '' (user not found or inactive)'') False st)
                else if \<not> le_check_pw e (password_hash u) (the pw)
                then (error_response ''Invalid credentials'' 401,
                      note ''login_failure'' (Num_id (u_id u)) No_text
                        (''Login failed for '' @ name @ '' (invalid password)'') False
                        (st\<lparr>ls_db := update_user (u_id u)
                              (\<lambda>x. x\<lparr>failed_logins := Some ((case failed_logins x of None \<Rightarrow> 0 | Some n \<Rightarrow> n) + 1)\<rparr>) (ls_db st)\<rparr>))
                else
                  (let st1 = st\<lparr>ls_db := update_user (u_id u) (count_login now) (ls_db st)\<rparr>
                   in if totp_confirmed u
                      then (success_response ((login_reply e now u)\<lparr>ld_requires_2fa := True, ld_csrf_token := None,
                                ld_permissions := []\<rparr>) ''2FA verification required'',
                            note ''login_2fa_required'' (Num_id (u_id u)) (Txt name)
                              (''Password verified, 2FA required for '' @ name) True
                              (st1\<lparr>ls_session := pending_session u\<rparr>))
                      else (success_response (login_reply e now u) ''Login successful'',
                            note ''login_success'' (Num_id (u_id u)) (Txt name)
                              (''Password login successful for '' @ name) True
                              (st1\<lparr>ls_session := full_session ''password'' u\<rparr>)))))"

subsection \<open>The second factor\<close>

definition MAX_2FA_ATTEMPTS :: int where "MAX_2FA_ATTEMPTS = 5"

definition LOCKOUT_2FA_SECONDS :: int where "LOCKOUT_2FA_SECONDS = 900"

definition check_2fa_lockout :: "time \<Rightarrow> string \<Rightarrow> (string \<times> attempts) list \<Rightarrow> bool \<times> (string \<times> attempts) list" where
  "check_2fa_lockout now key tracker =
     (case map_of tracker key of
        None \<Rightarrow> (False, tracker)
      | Some en \<Rightarrow>
          (case at_locked_until en of
             None \<Rightarrow> (False, tracker)
           | Some t \<Rightarrow> if now < t then (True, tracker) else (False, dict_del key tracker)))"

definition record_2fa_failure :: "time \<Rightarrow> string \<Rightarrow> (string \<times> attempts) list \<Rightarrow> (string \<times> attempts) list" where
  "record_2fa_failure now key tracker =
     (let en = (case map_of tracker key of None \<Rightarrow> \<lparr>at_count = 0, at_locked_until = None\<rparr> | Some en \<Rightarrow> en);
          n = at_count en + 1
      in dict_set key
           (if n \<ge> MAX_2FA_ATTEMPTS
            then en\<lparr>at_count := n, at_locked_until := Some (now + seconds LOCKOUT_2FA_SECONDS)\<rparr>
            else en\<lparr>at_count := n\<rparr>) tracker)"

definition clear_2fa_failures :: "string \<Rightarrow> (string \<times> attempts) list \<Rightarrow> (string \<times> attempts) list" where
  "clear_2fa_failures key tracker = dict_del key tracker"

text \<open>
  A code is good if the one-time code library accepts it or it is an unused recovery code, which it uses up. The
  result is \<open>None\<close> for a bad code, with whether the refusal is logged, or the user's new recovery codes.
\<close>

definition verify_code :: "login_env \<Rightarrow> user \<Rightarrow> string \<Rightarrow> bool + string option" where
  "verify_code e u code =
     (if le_totp_ok e (totp_secret u) code then Inr (backup_codes u)
      else if \<not> nonempty (backup_codes u) then Inl True
      else (case le_parse_codes e (the (backup_codes u)) of
              None \<Rightarrow> Inl False
            | Some codes \<Rightarrow>
                if code \<in> set codes then Inr (Some (json_dumps (JList (map JStr (remove1 code codes))))) else Inl True))"

definition login_2fa :: "login_env \<Rightarrow> time \<Rightarrow> string option \<Rightarrow> login_state \<Rightarrow> login_data http \<times> login_state" where
  "login_2fa e now code_arg st =
     (case s_pending_user_id (ls_session st) of
        None \<Rightarrow> (error_response ''No pending 2FA verification'' 401, st)
      | Some uid \<Rightarrow>
          if uid = 0 then (error_response ''No pending 2FA verification'' 401, st)
          else
            (let key = str_int uid;
                 (locked, tracker) = check_2fa_lockout now key (ls_2fa st);
                 st1 = st\<lparr>ls_2fa := tracker\<rparr>
             in if locked then (error_response ''Too many failed attempts. Try again later.'' 429, st1)
                else if \<not> nonempty code_arg then (error_response ''Verification code required'' 400, st1)
                else
                  (case row_get u_id (users (ls_db st)) uid of
                     None \<Rightarrow> (error_response ''Invalid credentials'' 401, st1\<lparr>ls_session := web_clear\<rparr>)
                   | Some u \<Rightarrow>
                       if \<not> active u then (error_response ''Invalid credentials'' 401, st1\<lparr>ls_session := web_clear\<rparr>)
                       else
                         (case verify_code e u (the code_arg) of
                            Inl logged \<Rightarrow>
                              (error_response ''Invalid verification code'' 401,
                               st1\<lparr>ls_2fa := record_2fa_failure now key tracker,
                                   ls_logs := (if logged
                                     then audit e now
                                            (audit_call ''login_2fa_failure'' (Some ''user'') (Num_id (u_id u)) No_text
                                               (Txt (''Invalid 2FA code for '' @ str_opt (s_pending_username (ls_session st))))
                                               False (s_pending_username (ls_session st))) (ls_logs st)
                                     else ls_logs st)\<rparr>)
                          | Inr codes \<Rightarrow>
                              (success_response (login_reply e now u) ''Login successful'',
                               st1\<lparr>ls_db := update_user uid (\<lambda>x. x\<lparr>backup_codes := codes\<rparr>) (ls_db st),
                                   ls_2fa := clear_2fa_failures key tracker,
                                   ls_session := full_session
                                     (case s_pending_method (ls_session st) of None \<Rightarrow> ''password'' | Some m \<Rightarrow> m) u,
                                   ls_logs := audit e now
                                     (audit_call ''login_success'' (Some ''user'') (Num_id (u_id u)) (Txt (username u))
                                        (Txt (''Login successful with 2FA for '' @ username u)) True (Some (username u)))
                                     (ls_logs st)\<rparr>)))))"

subsection \<open>Lockout as an attempt limiter\<close>

definition user_locked :: "user \<Rightarrow> time \<Rightarrow> bool" where
  "user_locked u t = (case locked_until u of None \<Rightarrow> False | Some x \<Rightarrow> t < x)"

definition user_fail :: "user \<Rightarrow> time \<Rightarrow> user" where
  "user_fail u t = count_failure t (if locked_until u = None then u else unlock u)"

definition user_failures :: "user \<Rightarrow> int" where
  "user_failures u = (case failed_logins u of None \<Rightarrow> 0 | Some n \<Rightarrow> n)"

interpretation accounts: attempt_limiter user_locked user_fail user_failures locked_until
  MAX_FAILED_ATTEMPTS "minutes LOCKOUT_DURATION_MINUTES"
  by unfold_locales
    (auto simp: user_locked_def user_fail_def user_failures_def count_failure_def unlock_def Let_def
      MAX_FAILED_ATTEMPTS_def split: option.splits)

definition entry_locked :: "attempts option \<Rightarrow> time \<Rightarrow> bool" where
  "entry_locked en t = (case en of None \<Rightarrow> False | Some a \<Rightarrow> (case at_locked_until a of None \<Rightarrow> False | Some x \<Rightarrow> t < x))"

definition entry_until :: "attempts option \<Rightarrow> time option" where
  "entry_until en = (case en of None \<Rightarrow> None | Some a \<Rightarrow> at_locked_until a)"

definition entry_failures :: "attempts option \<Rightarrow> int" where
  "entry_failures en = (case en of None \<Rightarrow> 0 | Some a \<Rightarrow> at_count a)"

definition entry_fail :: "attempts option \<Rightarrow> time \<Rightarrow> attempts option" where
  "entry_fail en t =
     map_of (record_2fa_failure t [] (case en of None \<Rightarrow> [] | Some a \<Rightarrow> if at_locked_until a = None then [([], a)] else [])) []"

interpretation second_factor: attempt_limiter entry_locked entry_fail entry_failures entry_until
  MAX_2FA_ATTEMPTS "seconds LOCKOUT_2FA_SECONDS"
  by unfold_locales
    (auto simp: entry_locked_def entry_fail_def entry_failures_def entry_until_def record_2fa_failure_def
      MAX_2FA_ATTEMPTS_def Let_def split: option.splits)

subsection \<open>Guessing passwords\<close>

lemma find_user_update:
  assumes "\<And>u. username (f u) = username u"
  shows "find_user name (update_user i f db) = map_option (\<lambda>u. if u_id u = i then f u else u) (find_user name db)"
  using assms by (simp add: find_user_def update_user_def find_row_update)

lemma users_detect [simp]: "ls_db (detect e now uid b st) = ls_db st"
  by (simp add: detect_def Let_def case_prod_beta)

lemma lockout_result:
  assumes "find_user name db = Some u"
  shows "fst (check_account_lockout now name db) = user_locked u now"
    "\<not> user_locked u now \<Longrightarrow>
       find_user name (snd (check_account_lockout now name db)) = Some (if locked_until u = None then u else unlock u)"
    "user_locked u now \<Longrightarrow> snd (check_account_lockout now name db) = db"
proof -
  have names: "username (unlock x) = username x" for x by (simp add: unlock_def)
  show "fst (check_account_lockout now name db) = user_locked u now"
    using assms by (simp add: check_account_lockout_def user_locked_def split: option.split)
  show "find_user name (snd (check_account_lockout now name db)) = Some (if locked_until u = None then u else unlock u)"
    if "\<not> user_locked u now"
    using assms that by (cases "locked_until u") (simp_all add: check_account_lockout_def user_locked_def find_user_update names)
  show "snd (check_account_lockout now name db) = db" if "user_locked u now"
    using assms that by (cases "locked_until u") (simp_all add: check_account_lockout_def user_locked_def)
qed

lemma login_wrong:
  assumes u: "find_user name (ls_db st) = Some u" "active u" and name: "name \<noteq> []" "strip name = name"
    and pw: "pw \<noteq> []" "\<not> le_check_pw e (password_hash u) pw"
  shows "status_code (fst (login e now (Some name) (Some pw) st)) = (if user_locked u now then 429 else 401)
    \<and> find_user name (ls_db (snd (login e now (Some name) (Some pw) st)))
      = Some (if user_locked u now then u else user_fail u now)"
proof -
  let ?db1 = "snd (check_account_lockout now name (ls_db st))"
  let ?u1 = "if locked_until u = None then u else unlock u"
  show ?thesis
  proof (cases "user_locked u now")
    case True
    then show ?thesis
      using u name pw lockout_result [OF u(1), of now]
      by (simp add: login_def nonempty_def case_prod_beta Let_def error_response_def status_code_def)
  next
    case False
    then have u1: "find_user name ?db1 = Some ?u1" using lockout_result(2) [OF u(1)] by simp
    moreover have "active ?u1" "password_hash ?u1 = password_hash u" using u(2) by (simp_all add: unlock_def)
    moreover have "find_user name (record_failed_attempt now name ?db1) = Some (user_fail u now)"
      using u1 by (simp add: record_failed_attempt_def find_user_update count_failure_def user_fail_def Let_def)
    ultimately show ?thesis
      using False name pw lockout_result(1) [OF u(1), of now]
      by (simp add: login_def nonempty_def case_prod_beta Let_def error_response_def status_code_def)
  qed
qed

lemma window_statuses:
  "length (filter (\<lambda>(t, s). s = n \<and> a \<le> t \<and> t < b) xs) =
   length (filter (\<lambda>t. a \<le> t \<and> t < b) (map fst (filter (\<lambda>(t, s). s = n) xs)))"
  by (induction xs) auto

text \<open>A run of login requests for one account: the instant and status of each answer.\<close>

fun login_statuses :: "login_env \<Rightarrow> string \<Rightarrow> (time \<times> string) list \<Rightarrow> login_state \<Rightarrow> (time \<times> nat) list" where
  "login_statuses e name [] st = []"
| "login_statuses e name ((t, pw) # as) st =
     (let (r, st') = login e t (Some name) (Some pw) st in (t, status_code r) # login_statuses e name as st')"

lemma login_statuses_evaluated:
  assumes "find_user name (ls_db st) = Some u" "active u" "name \<noteq> []" "strip name = name"
    "\<forall>(t, pw) \<in> set as. pw \<noteq> [] \<and> \<not> le_check_pw e (password_hash u) pw"
  shows "map fst (filter (\<lambda>(t, s). s = 401) (login_statuses e name as st)) = accounts.evaluated u (map fst as)"
  using assms
proof (induction as arbitrary: st u)
  case (Cons a as)
  obtain t pw where a: "a = (t, pw)" by fastforce
  let ?r = "login e t (Some name) (Some pw) st"
  let ?u = "if user_locked u t then u else user_fail u t"
  have r: "status_code (fst ?r) = (if user_locked u t then 429 else 401)" "find_user name (ls_db (snd ?r)) = Some ?u"
    using login_wrong [OF Cons.prems(1-4), of pw e t] Cons.prems(5) by (auto simp: a)
  have "active ?u" "password_hash ?u = password_hash u"
    using Cons.prems(2) by (simp_all add: user_fail_def count_failure_def unlock_def Let_def)
  then have "map fst (filter (\<lambda>(t, s). s = 401) (login_statuses e name as (snd ?r))) = accounts.evaluated ?u (map fst as)"
    using Cons.prems(3-5) r(2) by (intro Cons.IH) auto
  then show ?case using r(1) by (cases ?r) (auto simp: a)
qed simp

text \<open>C5. Guessing is slow: however many wrong passwords are tried for an account, at whatever instants, the login endpoint evaluates at
  most five of them in any fifteen minutes and refuses the others as locked.\<close>

theorem password_guesses_bounded:
  assumes "find_user name (ls_db st) = Some u" "active u" "name \<noteq> []" "strip name = name" "0 \<le> user_failures u"
    "sorted (map fst as)" "\<forall>(t, pw) \<in> set as. pw \<noteq> [] \<and> \<not> le_check_pw e (password_hash u) pw"
  shows "length (filter (\<lambda>(t, s). s = 401 \<and> a \<le> t \<and> t < a + minutes 15) (login_statuses e name as st)) \<le> 5"
proof -
  have "int (length (filter (\<lambda>t. a \<le> t \<and> t < a + minutes 15) (accounts.evaluated u (map fst as)))) \<le> 5"
    using accounts.window_bound [OF assms(6,5), of a, unfolded accounts.in_window_def]
    by (simp only: MAX_FAILED_ATTEMPTS_def LOCKOUT_DURATION_MINUTES_def)
  then show ?thesis unfolding window_statuses login_statuses_evaluated [OF assms(1-4,7)] by simp
qed

definition demo_login_account :: user where
  "demo_login_account = \<lparr>u_id = 1, username = ''ann'', email = ''a@x'', password_hash = ''s3cret'', full_name = None, role = ''operator'',
     custom_role_id = None, active = True, mfa_enabled = True, totp_secret = Some ''totp'', totp_confirmed = True,
     backup_codes = None, force_password_change = False, password_reset_token = None, password_reset_expires = None,
     u_created_at = None, last_login = None, login_count = None, failed_logins = None, locked_until = None\<rparr>"

definition demo_login_env :: login_env where
  "demo_login_env = \<lparr>le_check_pw = (\<lambda>h p. h = p), le_hash_pw = (\<lambda>p. p), le_totp_ok = (\<lambda>_ c. c = ''123456''),
     le_parse_codes = (\<lambda>_. None), le_sha256 = (\<lambda>s. take 4 s), le_hmac = (\<lambda>k m. k @ m), le_secret = ''k'', le_nonce = ''n'',
     le_ctx = \<lparr>ctx_username = None, ctx_request = None\<rparr>, le_audit_fails = False, le_remote_addr = Some ''10.0.0.1'',
     le_user_agent = Some ''curl''\<rparr>"

definition demo_login :: "user \<Rightarrow> login_state" where
  "demo_login u = \<lparr>ls_db = \<lparr>users = [u], api_keys = [], sys_config = []\<rparr>, ls_session = web_clear,
     ls_detector = new_detector, ls_2fa = [], ls_logs = []\<rparr>"

definition demo_guesses :: "(time \<times> string) list" where
  "demo_guesses = map (\<lambda>i. (seconds i, ''guess'')) [1, 2, 3, 4, 5, 6, 7]"

lemma password_guesses_bounded_witness:
  "length (filter (\<lambda>(t, s). s = 401 \<and> 0 \<le> t \<and> t < 0 + minutes 15)
     (login_statuses demo_login_env ''ann'' demo_guesses (demo_login demo_login_account))) \<le> 5"
  by (rule password_guesses_bounded [where u = demo_login_account])
    (simp_all add: find_user_def demo_login_def demo_login_account_def demo_login_env_def demo_guesses_def user_failures_def
      strip_def is_space_def seconds_def)

subsection \<open>Guessing second factors\<close>

lemma locked_tracker:
  "check_2fa_lockout now key tracker =
     (entry_locked (map_of tracker key) now,
      if entry_until (map_of tracker key) \<noteq> None \<and> \<not> entry_locked (map_of tracker key) now then dict_del key tracker else tracker)"
  by (simp add: check_2fa_lockout_def entry_locked_def entry_until_def split: option.split)

lemma failed_tracker:
  assumes "\<not> entry_locked (map_of tracker key) now"
  shows "map_of (record_2fa_failure now key (snd (check_2fa_lockout now key tracker))) key = entry_fail (map_of tracker key) now"
  using assms
  by (auto simp: locked_tracker entry_fail_def entry_until_def record_2fa_failure_def Let_def map_of_dict_set map_of_dict_del
      split: option.split)

lemma code_wrong:
  fixes now :: time
  assumes pend: "s_pending_user_id (ls_session st) = Some uid" "uid \<noteq> 0"
    and u: "row_get u_id (users (ls_db st)) uid = Some u" "active u"
    and code: "code \<noteq> []" "isl (verify_code e u code)"
  defines "r \<equiv> login_2fa e now (Some code) st" and "en \<equiv> map_of (ls_2fa st) (str_int uid)"
  shows "status_code (fst r) = (if entry_locked en now then 429 else 401)"
    "ls_db (snd r) = ls_db st" "ls_session (snd r) = ls_session st"
    "map_of (ls_2fa (snd r)) (str_int uid) = (if entry_locked en now then en else entry_fail en now)"
proof -
  obtain b where b: "verify_code e u code = Inl b" using code(2) by (cases "verify_code e u code") auto
  let ?c = "check_2fa_lockout now (str_int uid) (ls_2fa st)"
  have c: "fst ?c = entry_locked en now" "entry_locked en now \<Longrightarrow> snd ?c = ls_2fa st" by (simp_all add: locked_tracker en_def)
  note defs = r_def login_2fa_def pend u code(1) b nonempty_def case_prod_beta Let_def error_response_def status_code_def
  show "status_code (fst r) = (if entry_locked en now then 429 else 401)" by (simp add: defs c)
  show "ls_db (snd r) = ls_db st" by (simp add: defs)
  show "ls_session (snd r) = ls_session st" by (simp add: defs)
  show "map_of (ls_2fa (snd r)) (str_int uid) = (if entry_locked en now then en else entry_fail en now)"
    using failed_tracker [of "ls_2fa st" "str_int uid" now] by (simp add: defs c) (simp add: en_def)
qed

fun code_statuses :: "login_env \<Rightarrow> (time \<times> string) list \<Rightarrow> login_state \<Rightarrow> (time \<times> nat) list" where
  "code_statuses e [] st = []"
| "code_statuses e ((t, code) # as) st =
     (let (r, st') = login_2fa e t (Some code) st in (t, status_code r) # code_statuses e as st')"

lemma code_statuses_evaluated:
  assumes "s_pending_user_id (ls_session st) = Some uid" "uid \<noteq> 0"
    "row_get u_id (users (ls_db st)) uid = Some u" "active u"
    "\<forall>(t, code) \<in> set as. code \<noteq> [] \<and> isl (verify_code e u code)"
  shows "map fst (filter (\<lambda>(t, s). s = 401) (code_statuses e as st))
    = second_factor.evaluated (map_of (ls_2fa st) (str_int uid)) (map fst as)"
  using assms
proof (induction as arbitrary: st)
  case (Cons a as)
  obtain t code where a: "a = (t, code)" by fastforce
  let ?r = "login_2fa e t (Some code) st"
  have code: "code \<noteq> []" "isl (verify_code e u code)" using Cons.prems(5) by (auto simp: a)
  note r = code_wrong [OF Cons.prems(1-4) code, of t]
  have "map fst (filter (\<lambda>(t, s). s = 401) (code_statuses e as (snd ?r)))
      = second_factor.evaluated (map_of (ls_2fa (snd ?r)) (str_int uid)) (map fst as)"
    using Cons.prems by (intro Cons.IH) (auto simp: r(2,3))
  then show ?case using r(1) unfolding r(4) by (cases ?r) (auto simp: a)
qed simp

text \<open>Guessing second factors is slow too: of any run of wrong codes sent in a session that waits for one, at most five are
  compared in any fifteen minutes; the others are refused as locked.\<close>

theorem code_guesses_bounded:
  assumes "s_pending_user_id (ls_session st) = Some uid" "uid \<noteq> 0"
    "row_get u_id (users (ls_db st)) uid = Some u" "active u"
    "\<forall>(t, code) \<in> set as. code \<noteq> [] \<and> isl (verify_code e u code)"
    "0 \<le> entry_failures (map_of (ls_2fa st) (str_int uid))" "sorted (map fst as)"
  shows "length (filter (\<lambda>(t, s). s = 401 \<and> a \<le> t \<and> t < a + seconds 900) (code_statuses e as st)) \<le> 5"
proof -
  have "int (length (filter (\<lambda>t. a \<le> t \<and> t < a + seconds 900)
      (second_factor.evaluated (map_of (ls_2fa st) (str_int uid)) (map fst as)))) \<le> 5"
    using second_factor.window_bound [OF assms(7,6), of a, unfolded second_factor.in_window_def]
    by (simp only: MAX_2FA_ATTEMPTS_def LOCKOUT_2FA_SECONDS_def)
  then show ?thesis unfolding window_statuses code_statuses_evaluated [OF assms(1-5)] by simp
qed

definition demo_pending :: login_state where
  "demo_pending = (demo_login demo_login_account)\<lparr>ls_session := pending_session demo_login_account\<rparr>"

definition demo_codes :: "(time \<times> string) list" where
  "demo_codes = map (\<lambda>i. (seconds i, ''000000'')) [1, 2, 3, 4, 5, 6, 7]"

lemma code_guesses_bounded_witness:
  "length (filter (\<lambda>(t, s). s = 401 \<and> 0 \<le> t \<and> t < 0 + seconds 900) (code_statuses demo_login_env demo_codes demo_pending)) \<le> 5"
  by (rule code_guesses_bounded [where uid = 1 and u = demo_login_account])
    (simp_all add: demo_pending_def demo_login_def pending_session_def row_get_def demo_login_account_def demo_login_env_def demo_codes_def
      entry_failures_def verify_code_def nonempty_def seconds_def)

subsection \<open>Sessions after a login\<close>

text \<open>The requests of one browser: whether each is authenticated by the session cookie it carries.\<close>

fun session_requests :: "auth_db \<Rightarrow> time list \<Rightarrow> session \<Rightarrow> bool list" where
  "session_requests db [] s = []"
| "session_requests db (t # ts) s = (let (r, s') = verify_session t db s in (r \<noteq> None) # session_requests db ts s')"

fun no_gap :: "time \<Rightarrow> time list \<Rightarrow> time \<Rightarrow> bool" where
  "no_gap limit [] t = True"
| "no_gap limit (u # ts) t = (u - t \<le> limit \<and> no_gap limit ts u)"

lemma login_starts_session:
  assumes u: "find_user name (ls_db st) = Some u" "active u" "\<not> user_locked u now"
    and name: "name \<noteq> []" "strip name = name" and pw: "pw \<noteq> []" "le_check_pw e (password_hash u) pw"
  shows "status_code (fst (login e now (Some name) (Some pw) st)) = 200"
    "ls_session (snd (login e now (Some name) (Some pw) st)) = start_session now u"
proof -
  let ?db1 = "snd (check_account_lockout now name (ls_db st))"
  let ?u1 = "if locked_until u = None then u else unlock u"
  have u1: "find_user name ?db1 = Some ?u1" using lockout_result(2) [OF u(1,3)] .
  have same: "active ?u1" "password_hash ?u1 = password_hash u" "u_id ?u1 = u_id u" "username ?u1 = username u"
    "start_session now ?u1 = start_session now u"
    using u(2) by (simp_all add: unlock_def start_session_def)
  note defs = login_def nonempty_def name pw case_prod_beta Let_def lockout_result(1) [OF u(1), of now] u(3) u1 same
  show "status_code (fst (login e now (Some name) (Some pw) st)) = 200"
    by (simp add: defs success_response_def status_code_def)
  show "ls_session (snd (login e now (Some name) (Some pw) st)) = start_session now u"
    by (simp add: defs)
qed






subsection \<open>The two login endpoints differ\<close>

lemma login_password_result:
  assumes "find_user name (ls_db st) = Some u" "active u" "name \<noteq> []" "pw \<noteq> []"
  shows "status_code (fst (login_password e now (Some name) (Some pw) st)) = (if le_check_pw e (password_hash u) pw then 200 else 401)"
    "ls_session (snd (login_password e now (Some name) (Some pw) st)) =
       (if \<not> le_check_pw e (password_hash u) pw then ls_session st
        else if totp_confirmed u then pending_session u else full_session ''password'' u)"
  using assms
  by (simp_all add: login_password_def nonempty_def Let_def error_response_def success_response_def status_code_def)

text \<open>The second factor can be left out: for a user with a confirmed second factor, \<^verbatim>\<open>/auth/login/password\<close> only
  opens a session that waits for the code and authenticates nobody, while \<^verbatim>\<open>/auth/login\<close> with the same user name and
  password opens a session of the user.\<close>

theorem second_factor_bypass:
  assumes "find_user name (ls_db st) = Some u" "active u" "\<not> user_locked u now" "name \<noteq> []" "strip name = name" "pw \<noteq> []"
    "le_check_pw e (password_hash u) pw" "totp_confirmed u"
  shows "s_user_id (ls_session (snd (login_password e now (Some name) (Some pw) st))) = None \<and>
    fst (verify_session t db (session.truncate (ls_session (snd (login_password e now (Some name) (Some pw) st))))) = None \<and>
    s_user_id (ls_session (snd (login e now (Some name) (Some pw) st))) = Some (u_id u)"
  using login_password_result(2) [OF assms(1,2,4,6), of e now] login_starts_session(2) [OF assms(1-7)] assms(7,8)
  by (simp add: pending_session_def start_session_def web_clear_def session_clear_def session.truncate_def session.extend_def
      verify_session_def)

lemma second_factor_bypass_witness:
  "s_user_id (ls_session (snd (login demo_login_env 0 (Some ''ann'') (Some ''s3cret'') (demo_login demo_login_account)))) = Some 1
   \<and> totp_confirmed demo_login_account"
  using second_factor_bypass [where name = "''ann''" and st = "demo_login demo_login_account" and u = demo_login_account and now = 0
      and pw = "''s3cret''" and e = demo_login_env]
  by (simp add: find_user_def demo_login_def demo_login_account_def demo_login_env_def user_locked_def strip_def is_space_def)

text \<open>The lockout holds on one endpoint only: while an account is locked, \<^verbatim>\<open>/auth/login\<close> answers 429 to every
  password, and \<^verbatim>\<open>/auth/login/password\<close> evaluates it, answering 200 to the right one and 401 to a wrong one.\<close>

theorem lockout_bypass:
  assumes "find_user name (ls_db st) = Some u" "active u" "user_locked u now" "name \<noteq> []" "strip name = name" "pw \<noteq> []"
  shows "status_code (fst (login e now (Some name) (Some pw) st)) = 429 \<and>
    status_code (fst (login_password e now (Some name) (Some pw) st)) = (if le_check_pw e (password_hash u) pw then 200 else 401)"
  using login_password_result(1) [OF assms(1,2,4,6), of e now] lockout_result(1) [OF assms(1), of now] assms(3-)
  by (simp add: login_def nonempty_def case_prod_beta Let_def error_response_def status_code_def)

definition demo_locked :: user where
  "demo_locked = demo_login_account\<lparr>failed_logins := Some 5, locked_until := Some (minutes 15)\<rparr>"

lemma lockout_bypass_witness:
  "status_code (fst (login demo_login_env 0 (Some ''ann'') (Some ''s3cret'') (demo_login demo_locked))) = 429 \<and>
   status_code (fst (login_password demo_login_env 0 (Some ''ann'') (Some ''s3cret'') (demo_login demo_locked))) = 200"
  using lockout_bypass [where name = "''ann''" and st = "demo_login demo_locked" and u = demo_locked and now = 0
      and pw = "''s3cret''" and e = demo_login_env]
  by (simp add: find_user_def demo_login_def demo_locked_def demo_login_account_def demo_login_env_def user_locked_def strip_def is_space_def
      minutes_def seconds_def)

lemma no_gap_accepted:
  assumes "s_user_id s = Some uid" "uid \<noteq> 0" "row_get u_id (users db) uid = Some v" "active v" "s_login_time s = None"
    "s_last_activity s = Some (Iso t)" "no_gap (seconds (get_session_timeout (sys_config db))) ts t"
  shows "list_all (\<lambda>b. b) (session_requests db ts s)"
  using assms
proof (induction ts arbitrary: s t)
  case (Cons a ts)
  have "list_all (\<lambda>b. b) (session_requests db ts (s\<lparr>s_last_activity := Some (Iso a)\<rparr>))"
    using Cons.prems by (intro Cons.IH [of _ a]) simp_all
  then show ?case using Cons.prems by (simp add: verify_session_def too_old_def)
qed simp

text \<open>A session of \<^verbatim>\<open>/auth/login/password\<close> has no maximal lifetime: its cookie is accepted at whatever instant it is first
  used, and from then on for ever, as long as no pause is longer than the idle timeout.\<close>

theorem password_session_never_ends:
  assumes "row_get u_id (users db) (u_id u) = Some v" "active v" "u_id u \<noteq> 0"
    "no_gap (seconds (get_session_timeout (sys_config db))) ts t"
  shows "list_all (\<lambda>b. b) (session_requests db (t # ts) (session.truncate (full_session m u)))"
proof -
  let ?s = "session.truncate (full_session m u)"
  have s: "s_user_id ?s = Some (u_id u)" "s_login_time ?s = None" "s_last_activity ?s = None"
    by (simp_all add: full_session_def web_clear_def session_clear_def session.truncate_def session.extend_def)
  then have "fst (verify_session t db ?s) \<noteq> None" "snd (verify_session t db ?s) = ?s\<lparr>s_last_activity := Some (Iso t)\<rparr>"
    using assms(1-3) by (simp_all add: verify_session_def too_old_def)
  moreover have "list_all (\<lambda>b. b) (session_requests db ts (?s\<lparr>s_last_activity := Some (Iso t)\<rparr>))"
    using assms s by (intro no_gap_accepted) simp_all
  ultimately show ?thesis by (simp add: case_prod_beta Let_def)
qed

lemma password_session_never_ends_witness:
  "list_all (\<lambda>b. b) (session_requests (ls_db (demo_login demo_login_account)) (days 400 # map (\<lambda>i. days 400 + hours i) [8, 16, 24, 32])
     (session.truncate (full_session ''password'' demo_login_account)))"
  by (rule password_session_never_ends [where v = demo_login_account])
    (simp_all add: demo_login_def row_get_def demo_login_account_def get_session_timeout_def config_int_def days_def hours_def seconds_def)

end
