(* ===== verification/Scheduler.thy ===== *)
theory Scheduler
  imports Prelude
begin

text \<open>
  The background scheduler, \<^verbatim>\<open>services/scheduler_service.py\<close>: tasks with an interval, the dictionary they are registered in, and the
  loop that wakes up, runs the tasks that are due one after the other and sleeps.

  A task's function is what it does at an instant: how long it takes and the exception it ends with, if any. One
  iteration of the loop is one step; the other operations happen between two iterations. The lock is held only
  while the dictionary is read. The loop takes the number of its iterations: it runs until the scheduler is stopped.
\<close>

subsection \<open>Tasks\<close>

record task =
  tk_name :: string
  tk_func :: "time \<Rightarrow> time \<times> string option"
  tk_interval :: int
  tk_description :: string
  tk_enabled :: bool
  tk_last_run :: "time option"
  tk_next_run :: "time option"
  tk_run_count :: nat
  tk_last_error :: "string option"
  tk_last_duration :: time
  tk_created_at :: time

definition new_task :: "time \<Rightarrow> string \<Rightarrow> (time \<Rightarrow> time \<times> string option) \<Rightarrow> int \<Rightarrow> string \<Rightarrow> bool \<Rightarrow> task" where
  "new_task now name func interval description enabled =
     \<lparr>tk_name = name, tk_func = func, tk_interval = interval, tk_description = description, tk_enabled = enabled,
      tk_last_run = None, tk_next_run = None, tk_run_count = 0, tk_last_error = None, tk_last_duration = 0,
      tk_created_at = now\<rparr>"

definition should_run :: "time \<Rightarrow> task \<Rightarrow> bool" where
  "should_run now t =
     (if \<not> tk_enabled t then False
      else (case tk_last_run t of
              None \<Rightarrow> now - tk_created_at t \<ge> seconds 30
            | Some l \<Rightarrow> now - l \<ge> seconds (tk_interval t)))"

text \<open>The instant at which a run started at \<open>now\<close> ends, and the task after it.\<close>

definition run_task :: "time \<Rightarrow> task \<Rightarrow> time \<times> task" where
  "run_task now t =
     (let (duration, err) = tk_func t now; done = now + duration
      in (done,
          case err of
            None \<Rightarrow> t\<lparr>tk_last_duration := duration, tk_last_error := None, tk_run_count := tk_run_count t + 1,
                     tk_last_run := Some done, tk_next_run := Some (done + seconds (tk_interval t))\<rparr>
          | Some e \<Rightarrow> t\<lparr>tk_last_duration := duration, tk_last_error := Some e, tk_last_run := Some done\<rparr>))"

subsection \<open>The service\<close>

record scheduler =
  sc_wake_interval :: int
  sc_tasks :: "(string \<times> task) list"
  sc_running :: bool

definition register_task ::
  "time \<Rightarrow> string \<Rightarrow> (time \<Rightarrow> time \<times> string option) \<Rightarrow> int \<Rightarrow> string \<Rightarrow> bool \<Rightarrow> scheduler \<Rightarrow> scheduler" where
  "register_task now name func interval description enabled sc =
     sc\<lparr>sc_tasks := dict_set name (new_task now name func interval description enabled) (sc_tasks sc)\<rparr>"

definition unregister_task :: "string \<Rightarrow> scheduler \<Rightarrow> bool \<times> scheduler" where
  "unregister_task name sc =
     (case map_of (sc_tasks sc) name of
        None \<Rightarrow> (False, sc)
      | Some _ \<Rightarrow> (True, sc\<lparr>sc_tasks := dict_del name (sc_tasks sc)\<rparr>))"

definition set_task_enabled :: "bool \<Rightarrow> string \<Rightarrow> scheduler \<Rightarrow> bool \<times> scheduler" where
  "set_task_enabled b name sc =
     (case map_of (sc_tasks sc) name of
        None \<Rightarrow> (False, sc)
      | Some t \<Rightarrow> (True, sc\<lparr>sc_tasks := dict_set name (t\<lparr>tk_enabled := b\<rparr>) (sc_tasks sc)\<rparr>))"

definition enable_task :: "string \<Rightarrow> scheduler \<Rightarrow> bool \<times> scheduler" where
  "enable_task = set_task_enabled True"

definition disable_task :: "string \<Rightarrow> scheduler \<Rightarrow> bool \<times> scheduler" where
  "disable_task = set_task_enabled False"

definition run_task_now :: "time \<Rightarrow> string \<Rightarrow> scheduler \<Rightarrow> task option \<times> scheduler" where
  "run_task_now now name sc =
     (case map_of (sc_tasks sc) name of
        None \<Rightarrow> (None, sc)
      | Some t \<Rightarrow>
          (let t' = snd (run_task now t) in (Some t', sc\<lparr>sc_tasks := dict_set name t' (sc_tasks sc)\<rparr>)))"

definition get_task_status :: "string \<Rightarrow> scheduler \<Rightarrow> task option" where
  "get_task_status name sc = map_of (sc_tasks sc) name"

text \<open>The tasks found due are run in the order of the dictionary; the result has the instants at which they start.\<close>

fun run_tasks :: "time \<Rightarrow> (string \<times> task) list \<Rightarrow> (string \<times> task) list
     \<Rightarrow> time \<times> (string \<times> task) list \<times> (string \<times> time) list" where
  "run_tasks now [] ts = (now, ts, [])"
| "run_tasks now ((n, t) # due) ts =
     (let (now1, t1) = run_task now t;
          (now2, ts2, tr) = run_tasks now1 due (dict_set n t1 ts)
      in (now2, ts2, (n, now) # tr))"

definition scheduler_pass :: "time \<Rightarrow> scheduler \<Rightarrow> time \<times> scheduler \<times> (string \<times> time) list" where
  "scheduler_pass now sc =
     (let due = filter (\<lambda>(_, t). should_run now t) (sc_tasks sc);
          (now1, ts, tr) = run_tasks now due (sc_tasks sc)
      in (now1 + seconds (sc_wake_interval sc), sc\<lparr>sc_tasks := ts\<rparr>, tr))"

fun scheduler_loop :: "nat \<Rightarrow> time \<Rightarrow> scheduler \<Rightarrow> (string \<times> time) list" where
  "scheduler_loop 0 now sc = []"
| "scheduler_loop (Suc k) now sc =
     (if sc_running sc
      then (let (now1, sc1, tr) = scheduler_pass now sc in tr @ scheduler_loop k now1 sc1) else [])"

definition start :: "scheduler \<Rightarrow> scheduler" where
  "start sc = (if sc_running sc then sc else sc\<lparr>sc_running := True\<rparr>)"

text \<open>\<open>joined\<close> says that the thread has ended within the time given to it.\<close>

definition stop :: "bool \<Rightarrow> scheduler \<Rightarrow> bool \<times> scheduler" where
  "stop joined sc = (if \<not> sc_running sc then (True, sc) else (joined, sc\<lparr>sc_running := False\<rparr>))"

definition init_scheduler :: "int \<Rightarrow> bool \<Rightarrow> string + scheduler" where
  "init_scheduler wake_interval autostart =
     (if wake_interval \<le> 0 then Inl ''wake_interval must be > 0''
      else (let sc = \<lparr>sc_wake_interval = wake_interval, sc_tasks = [], sc_running = False\<rparr>
            in Inr (if autostart then start sc else sc)))"

subsection \<open>One iteration\<close>

text \<open>The instant from which an enabled task may run.\<close>

definition due_at :: "task \<Rightarrow> time" where
  "due_at t = (case tk_last_run t of None \<Rightarrow> tk_created_at t + seconds 30 | Some l \<Rightarrow> l + seconds (tk_interval t))"

lemma should_run_iff: "should_run now t \<longleftrightarrow> tk_enabled t \<and> due_at t \<le> now"
  by (auto simp: should_run_def due_at_def split: option.split)

definition takes_at_most :: "time \<Rightarrow> task \<Rightarrow> bool" where
  "takes_at_most d t \<longleftrightarrow> (\<forall>now. 0 \<le> fst (tk_func t now) \<and> fst (tk_func t now) \<le> d)"

lemma run_task_facts:
  "fst (run_task now t) = now + fst (tk_func t now)"
  "due_at (snd (run_task now t)) = fst (run_task now t) + seconds (tk_interval t)"
  "tk_enabled (snd (run_task now t)) = tk_enabled t" "tk_func (snd (run_task now t)) = tk_func t"
  "tk_interval (snd (run_task now t)) = tk_interval t" "tk_name (snd (run_task now t)) = tk_name t"
  by (simp_all add: run_task_def due_at_def case_prod_beta Let_def split: option.split)

lemma takes_run [simp]: "takes_at_most d (snd (run_task now t)) = takes_at_most d t"
  by (simp add: takes_at_most_def run_task_facts)

lemma run_tasks_time:
  assumes "\<forall>(n, t) \<in> set due. takes_at_most d t" "run_tasks now due ts = (now', ts', tr)"
  shows "now \<le> now' \<and> now' \<le> now + int (length due) * d \<and> (\<forall>(n, s) \<in> set tr. now \<le> s \<and> s \<le> now + int (length due) * d)"
  using assms
proof (induction now due ts arbitrary: now' ts' tr rule: run_tasks.induct)
  case (2 now n t due ts)
  obtain now1 t1 where r: "run_task now t = (now1, t1)" by fastforce
  obtain now2 ts2 tr2 where rest: "run_tasks now1 due (dict_set n t1 ts) = (now2, ts2, tr2)" by (metis prod_cases3)
  have b: "now \<le> now1" "now1 \<le> now + d"
    using "2.prems"(1) run_task_facts(1) [of now t] r by (auto simp: takes_at_most_def)
  have "now1 \<le> now2 \<and> now2 \<le> now1 + int (length due) * d \<and> (\<forall>(n, s) \<in> set tr2. now1 \<le> s \<and> s \<le> now1 + int (length due) * d)"
    using "2.IH" [OF r [symmetric] refl _ rest] "2.prems"(1) by auto
  moreover have "0 \<le> int (length due) * d" using b by simp
  moreover have "int (length ((n, t) # due)) * d = d + int (length due) * d" by (simp add: algebra_simps)
  ultimately show ?case using "2.prems"(2) b r rest by fastforce
qed simp

lemma run_tasks_effect:
  assumes "distinct (map fst due)" "run_tasks now due ts = (now', ts', tr)"
  shows "map fst tr = map fst due \<and> (\<forall>n. n \<notin> fst ` set due \<longrightarrow> map_of ts' n = map_of ts n) \<and>
    (\<forall>(n, t) \<in> set due. \<exists>s. (n, s) \<in> set tr \<and> map_of ts' n = Some (snd (run_task s t)))"
  using assms
proof (induction now due ts arbitrary: now' ts' tr rule: run_tasks.induct)
  case (2 now n t due ts)
  obtain now1 t1 where r: "run_task now t = (now1, t1)" by fastforce
  obtain now2 ts2 tr2 where rest: "run_tasks now1 due (dict_set n t1 ts) = (now2, ts2, tr2)" by (metis prod_cases3)
  note ih = "2.IH" [OF r [symmetric] refl _ rest]
  have res: "now' = now2" "ts' = ts2" "tr = (n, now) # tr2" using "2.prems"(2) r rest by auto
  have "map_of ts2 n = Some (snd (run_task now t))"
    using ih "2.prems"(1) by (auto simp: map_of_dict_set r)
  then show ?case using ih "2.prems"(1) unfolding res by (fastforce simp: map_of_dict_set)
qed simp

lemma dict_set_known: "k \<in> fst ` set d \<Longrightarrow> map fst (dict_set k v d) = map fst d"
  by (induction k v d rule: dict_set.induct) auto

lemma dict_set_subset: "set (dict_set k v d) \<subseteq> insert (k, v) (set d)"
  by (induction k v d rule: dict_set.induct) auto

lemma run_tasks_keys:
  assumes "run_tasks now due ts = (now', ts', tr)" "fst ` set due \<subseteq> fst ` set ts"
  shows "map fst ts' = map fst ts"
  using assms
proof (induction now due ts arbitrary: now' ts' tr rule: run_tasks.induct)
  case (2 now n t due ts)
  obtain now1 t1 where r: "run_task now t = (now1, t1)" by fastforce
  obtain now2 ts2 tr2 where rest: "run_tasks now1 due (dict_set n t1 ts) = (now2, ts2, tr2)" by (metis prod_cases3)
  have keys: "map fst (dict_set n t1 ts) = map fst ts" using "2.prems"(2) by (intro dict_set_known) auto
  then have "fst ` set due \<subseteq> fst ` set (dict_set n t1 ts)" using "2.prems"(2) by (metis list.set_map list.simps(15) image_insert insert_subset)
  then show ?case using "2.IH" [OF r [symmetric] refl rest] "2.prems"(1) keys by (auto simp: r rest)
qed simp

lemma run_tasks_takes:
  assumes "run_tasks now due ts = (now', ts', tr)" "\<forall>(n, t) \<in> set due. takes_at_most d t" "\<forall>(n, t) \<in> set ts. takes_at_most d t"
  shows "\<forall>(n, t) \<in> set ts'. takes_at_most d t"
  using assms
proof (induction now due ts arbitrary: now' ts' tr rule: run_tasks.induct)
  case (2 now n t due ts)
  obtain now1 t1 where r: "run_task now t = (now1, t1)" by fastforce
  obtain now2 ts2 tr2 where rest: "run_tasks now1 due (dict_set n t1 ts) = (now2, ts2, tr2)" by (metis prod_cases3)
  have "takes_at_most d t1" using "2.prems"(2) takes_run [of d now t] r by simp
  then have "\<forall>(n, t) \<in> set (dict_set n t1 ts). takes_at_most d t" using "2.prems"(3) dict_set_subset [of n t1 ts] by blast
  then show ?case using "2.IH" [OF r [symmetric] refl rest] "2.prems"(1,2) by (auto simp: r rest)
qed simp

text \<open>The scheduler runs, no two tasks have one name, and no run takes longer than \<open>d\<close>.\<close>

definition live :: "time \<Rightarrow> scheduler \<Rightarrow> bool" where
  "live d sc \<longleftrightarrow> sc_running sc \<and> 0 < sc_wake_interval sc \<and> distinct (map fst (sc_tasks sc)) \<and>
     (\<forall>(n, t) \<in> set (sc_tasks sc). takes_at_most d t)"

definition starts :: "string \<Rightarrow> (string \<times> time) list \<Rightarrow> time list" where
  "starts n tr = map snd (filter (\<lambda>(m, _). m = n) tr)"

lemma starts_append [simp]: "starts n (xs @ ys) = starts n xs @ starts n ys"
  by (simp add: starts_def)

lemma starts_once:
  assumes "distinct (map fst tr)"
  shows "(n, s) \<in> set tr \<Longrightarrow> starts n tr = [s]" "n \<notin> fst ` set tr \<Longrightarrow> starts n tr = []"
proof -
  show "n \<notin> fst ` set tr \<Longrightarrow> starts n tr = []" for tr :: "(string \<times> time) list"
    by (force simp: starts_def filter_empty_conv)
  then show "(n, s) \<in> set tr \<Longrightarrow> starts n tr = [s]"
    using assms by (induction tr) (auto simp: starts_def rev_image_eqI)
qed

lemma scheduler_pass_facts:
  assumes live: "live d sc" and pass: "scheduler_pass now sc = (now', sc', tr)"
  shows "now + seconds (sc_wake_interval sc) \<le> now'"
    "now' \<le> now + int (length (sc_tasks sc)) * d + seconds (sc_wake_interval sc)"
    "live d sc'" "sc_wake_interval sc' = sc_wake_interval sc" "length (sc_tasks sc') = length (sc_tasks sc)"
    "map_of (sc_tasks sc) n = Some t \<Longrightarrow> should_run now t \<Longrightarrow>
       \<exists>s. starts n tr = [s] \<and> now \<le> s \<and> s \<le> now + int (length (sc_tasks sc)) * d \<and>
         map_of (sc_tasks sc') n = Some (snd (run_task s t))"
    "map_of (sc_tasks sc) n = Some t \<Longrightarrow> \<not> should_run now t \<Longrightarrow> starts n tr = [] \<and> map_of (sc_tasks sc') n = Some t"
proof -
  let ?due = "filter (\<lambda>(_, t). should_run now t) (sc_tasks sc)"
  obtain now1 ts where run: "run_tasks now ?due (sc_tasks sc) = (now1, ts, tr)"
    and res: "now' = now1 + seconds (sc_wake_interval sc)" "sc' = sc\<lparr>sc_tasks := ts\<rparr>"
    using pass by (auto simp: scheduler_pass_def Let_def split: prod.splits)
  have takes: "\<forall>(n, t) \<in> set ?due. takes_at_most d t" "\<forall>(n, t) \<in> set (sc_tasks sc). takes_at_most d t"
    and dist: "distinct (map fst (sc_tasks sc))" "distinct (map fst ?due)"
    using live by (auto simp: live_def distinct_map_filter)
  have keys: "map fst ts = map fst (sc_tasks sc)" using run_tasks_keys [OF run] by auto
  have len: "length ts = length (sc_tasks sc)" using arg_cong [OF keys, of length] by simp
  have eff: "map fst tr = map fst ?due" "\<And>n. n \<notin> fst ` set ?due \<Longrightarrow> map_of ts n = map_of (sc_tasks sc) n"
    "\<And>n t. (n, t) \<in> set ?due \<Longrightarrow> \<exists>s. (n, s) \<in> set tr \<and> map_of ts n = Some (snd (run_task s t))"
    using run_tasks_effect [OF dist(2) run] by auto
  have more: "int (length ?due) * d \<le> int (length (sc_tasks sc)) * d"
  proof (cases "sc_tasks sc = []")
    case False
    then have "0 \<le> d" using takes(2) by (cases "sc_tasks sc") (auto simp: takes_at_most_def intro: order_trans)
    then show ?thesis by (simp add: mult_right_mono)
  qed simp
  note time = run_tasks_time [OF takes(1) run]
  show "now + seconds (sc_wake_interval sc) \<le> now'" using time res by simp
  show "now' \<le> now + int (length (sc_tasks sc)) * d + seconds (sc_wake_interval sc)" using time res more by linarith
  show "live d sc'" using live run_tasks_takes [OF run takes] keys by (simp add: live_def res)
  show "sc_wake_interval sc' = sc_wake_interval sc" "length (sc_tasks sc') = length (sc_tasks sc)" using len by (simp_all add: res)
  have dtr: "distinct (map fst tr)" using eff(1) dist(2) by simp
  show "\<exists>s. starts n tr = [s] \<and> now \<le> s \<and> s \<le> now + int (length (sc_tasks sc)) * d \<and>
      map_of (sc_tasks sc') n = Some (snd (run_task s t))"
    if "map_of (sc_tasks sc) n = Some t" "should_run now t"
  proof -
    have "(n, t) \<in> set ?due" using that by (auto dest: map_of_SomeD)
    then obtain s where s: "(n, s) \<in> set tr" "map_of ts n = Some (snd (run_task s t))" using eff(3) by blast
    moreover have "now \<le> s \<and> s \<le> now + int (length ?due) * d" using time s(1) by blast
    ultimately show ?thesis using starts_once(1) [OF dtr s(1)] more by (auto simp: res)
  qed
  show "starts n tr = [] \<and> map_of (sc_tasks sc') n = Some t"
    if "map_of (sc_tasks sc) n = Some t" "\<not> should_run now t"
  proof -
    have "n \<notin> fst ` set ?due" using that dist(1) by (auto dest: map_of_SomeD eq_key_imp_eq_value)
    then show ?thesis using eff(2) that(1) starts_once(2) [OF dtr] eff(1) by (auto simp: res simp flip: list.set_map)
  qed
qed

subsection \<open>Liveness and spacing\<close>

lemma loop_starts_late:
  assumes "live d sc" "map_of (sc_tasks sc) n = Some t"
  shows "(\<forall>s \<in> set (starts n (scheduler_loop k now sc)). now \<le> s \<and> due_at t \<le> s \<and> tk_enabled t) \<and>
    sorted_wrt (\<lambda>a b. a + seconds (tk_interval t) \<le> b) (starts n (scheduler_loop k now sc))"
  using assms
proof (induction k arbitrary: now sc t)
  case 0
  then show ?case by (simp add: starts_def)
next
  case (Suc k)
  obtain now1 sc1 tr where p: "scheduler_pass now sc = (now1, sc1, tr)" by (metis prod_cases3)
  note facts = scheduler_pass_facts [OF Suc.prems(1) p]
  have run: "starts n (scheduler_loop (Suc k) now sc) = starts n tr @ starts n (scheduler_loop k now1 sc1)"
    using Suc.prems(1) by (simp add: p live_def)
  have clock: "now \<le> now1" using facts(1) Suc.prems(1) by (simp add: live_def seconds_def)
  show ?case
  proof (cases "should_run now t")
    case True
    then obtain s where s: "starts n tr = [s]" "now \<le> s" "map_of (sc_tasks sc1) n = Some (snd (run_task s t))"
      using facts(6) [OF Suc.prems(2)] by blast
    have "0 \<le> fst (tk_func t s)" using Suc.prems by (auto simp: live_def takes_at_most_def dest!: map_of_SomeD)
    then have "s + seconds (tk_interval t) \<le> due_at (snd (run_task s t))" by (simp add: run_task_facts)
    moreover have "due_at t \<le> now" "tk_enabled t" using True by (auto simp: should_run_iff)
    ultimately show ?thesis
      using Suc.IH [OF facts(3) s(3), of now1, unfolded run_task_facts(3,5)] clock s(2) unfolding run s(1) by fastforce
  next
    case False
    then have "starts n tr = []" "map_of (sc_tasks sc1) n = Some t" using facts(7) [OF Suc.prems(2)] by auto
    then show ?thesis using Suc.IH [OF facts(3), of t now1] clock unfolding run by fastforce
  qed
qed

definition demo_scheduler :: scheduler where
  "demo_scheduler = register_task 0 ''crl'' (\<lambda>_. (seconds 5, None)) 3600 [] True
     (register_task 0 ''alerts'' (\<lambda>_. (seconds 1, Some ''OSError: offline'')) 120 [] True
        (start \<lparr>sc_wake_interval = 60, sc_tasks = [], sc_running = False\<rparr>))"

lemma demo_scheduler_live: "live (seconds 5) demo_scheduler"
  by (simp add: live_def demo_scheduler_def register_task_def new_task_def start_def takes_at_most_def seconds_def)

text \<open>Tasks are not run too often: in any run of the loop the starts of a task come only while it is enabled, the first not before it is
  due (thirty seconds after its registration, or its interval after its last run), and every other at least the interval after the one
  before it.\<close>

theorem task_starts_spaced:
  assumes "live d sc" "map_of (sc_tasks sc) n = Some t"
  shows "case starts n (scheduler_loop k now sc) of
      [] \<Rightarrow> True
    | s # ss \<Rightarrow> tk_enabled t \<and> due_at t \<le> s \<and> successively (\<lambda>a b. a + seconds (tk_interval t) \<le> b) (s # ss)"
  using loop_starts_late [OF assms, of k now] by (auto simp: successively_if_sorted_wrt split: list.split)

lemma task_starts_spaced_witness:
  "starts ''alerts'' (scheduler_loop 5 0 demo_scheduler) = [seconds 60, seconds 186] \<and>
   seconds 30 \<le> seconds 60 \<and> seconds 60 + seconds 120 \<le> seconds 186"
proof -
  let ?t = "new_task 0 ''alerts'' (\<lambda>_. (seconds 1, Some ''OSError: offline'')) 120 [] True"
  have t: "map_of (sc_tasks demo_scheduler) ''alerts'' = Some ?t" by (simp add: demo_scheduler_def register_task_def start_def)
  have e: "starts ''alerts'' (scheduler_loop 5 0 demo_scheduler) = [seconds 60, seconds 186]" by code_simp
  from task_starts_spaced [OF demo_scheduler_live t, of 5 0] show ?thesis
    unfolding e by (simp add: new_task_def due_at_def)
qed

lemma loop_step:
  assumes "live d sc" "scheduler_pass now sc = (now1, sc1, tr)"
  shows "scheduler_loop (Suc k) now sc = tr @ scheduler_loop k now1 sc1"
  using assms by (simp add: live_def)

text \<open>C33. A due task is run: if the scheduler runs with a positive wake interval, is not stopped and its tasks are not changed, and no run of one
  of its \<open>m\<close> tasks takes longer than \<open>d\<close>, then for an enabled task there is a number of iterations after which the loop has started it, at the
  latest two times the work \<open>m * d\<close> of an iteration and one wake interval after it was due (or the work of one iteration from now, if it is
  long due). The second work comes in when the task falls due while an iteration is at work that has passed it.\<close>

theorem due_task_starts:
  assumes "live d sc" "map_of (sc_tasks sc) n = Some t" "tk_enabled t"
  shows "\<exists>k s. s \<in> set (starts n (scheduler_loop k now sc)) \<and>
    s \<le> max now (due_at t + int (length (sc_tasks sc)) * d + seconds (sc_wake_interval sc)) + int (length (sc_tasks sc)) * d"
  using assms
proof (induction "nat (due_at t - now)" arbitrary: now sc rule: less_induct)
  case less
  obtain now1 sc1 tr where p: "scheduler_pass now sc = (now1, sc1, tr)" by (metis prod_cases3)
  note facts = scheduler_pass_facts [OF less.prems(1) p]
  show ?case
  proof (cases "due_at t \<le> now")
    case True
    then obtain s where "starts n tr = [s]" "s \<le> now + int (length (sc_tasks sc)) * d"
      using facts(6) [OF less.prems(2)] less.prems(3) by (auto simp: should_run_iff)
    then show ?thesis using loop_step [OF less.prems(1) p, of 0] by (intro exI [of _ "Suc 0"] exI [of _ s]) auto
  next
    case False
    then have t: "map_of (sc_tasks sc1) n = Some t" using facts(7) [OF less.prems(2)] by (simp add: should_run_iff)
    have "now < now1" using facts(1) less.prems(1) by (simp add: live_def seconds_def)
    then have "\<exists>k s. s \<in> set (starts n (scheduler_loop k now1 sc1)) \<and>
        s \<le> max now1 (due_at t + int (length (sc_tasks sc1)) * d + seconds (sc_wake_interval sc1)) + int (length (sc_tasks sc1)) * d"
      using False by (intro less.hyps facts(3) t less.prems(3)) simp
    then obtain k s where "s \<in> set (starts n (scheduler_loop k now1 sc1))"
      "s \<le> max now1 (due_at t + int (length (sc_tasks sc)) * d + seconds (sc_wake_interval sc)) + int (length (sc_tasks sc)) * d"
      unfolding facts(4,5) by blast
    moreover have "now1 \<le> due_at t + int (length (sc_tasks sc)) * d + seconds (sc_wake_interval sc)" using facts(2) False by simp
    ultimately have "s \<in> set (starts n (scheduler_loop k now1 sc1))"
      "s \<le> max now (due_at t + int (length (sc_tasks sc)) * d + seconds (sc_wake_interval sc)) + int (length (sc_tasks sc)) * d"
      by (auto simp: max_def algebra_simps split: if_splits)
    then show ?thesis
      using loop_step [OF less.prems(1) p, of k] by (intro exI [of _ "Suc k"] exI [of _ s]) auto
  qed
qed

lemma due_task_starts_witness:
  "\<exists>k s. s \<in> set (starts ''crl'' (scheduler_loop k 0 demo_scheduler)) \<and> s \<le> seconds 110"
proof -
  have "map_of (sc_tasks demo_scheduler) ''crl'' = Some (new_task 0 ''crl'' (\<lambda>_. (seconds 5, None)) 3600 [] True)"
    by (simp add: demo_scheduler_def register_task_def start_def)
  from due_task_starts [OF demo_scheduler_live this, of 0] show ?thesis
    by (simp add: new_task_def due_at_def demo_scheduler_def register_task_def start_def seconds_def)
qed

end
