(* ===== verification/Compliance.thy ===== *)
theory Compliance
  imports Crl Auth
begin

text \<open>
  The compliance score of a certificate, \<^verbatim>\<open>services/compliance_service.py\<close>, over the dictionary that \<^verbatim>\<open>Certificate.to_dict\<close> of
  \<^verbatim>\<open>models/__init__.py\<close> makes of a row, and its statistics in \<^verbatim>\<open>api/v2/certificates.py\<close>.

  A row's certificate and request are read by the X.509 library: \<open>cl_key\<close> is the public key in a stored text and \<open>cl_sig\<close> the
  number and name of the signature algorithm, \<open>None\<close> where the library raises. \<open>cl_json\<close> reads a JSON list of texts. Of the
  dictionary the model has the keys the score reads.
\<close>

subsection \<open>The dictionary of a certificate\<close>

record cert_dict =
  cd_id :: int
  cd_key_algorithm :: "string option"
  cd_key_algo :: "string option"
  cd_key_type :: "string option"
  cd_key_size :: "int option"
  cd_signature_algorithm :: "string option"
  cd_status :: "string option"
  cd_days_remaining :: "int option"
  cd_san_combined :: "string option"
  cd_san_dns :: "string option"
  cd_san_ip :: "string option"
  cd_san_email :: "string option"
  cd_cert_type :: "string option"
  cd_valid_from :: "iso_text option"
  cd_valid_to :: "iso_text option"

record scored_row = certificate +
  ct_csr :: "string option"
  ct_cert_type :: "string option"
  ct_key_algo :: "string option"
  ct_san_dns :: "string option"
  ct_san_ip :: "string option"
  ct_san_email :: "string option"

datatype pubkey = Rsa_key int | Ec_key string | Dsa_key int | Other_key

record cert_lib =
  cl_key :: "string \<Rightarrow> pubkey option"
  cl_sig :: "string \<Rightarrow> (string \<times> string) option"
  cl_json :: "string \<Rightarrow> string list option"

text \<open>\<^verbatim>\<open>s.split()\<close>.\<close>

fun words_from :: "string \<Rightarrow> string \<Rightarrow> string list" where
  "words_from w [] = (if w = [] then [] else [w])"
| "words_from w (c # cs) =
     (if is_space c then (if w = [] then words_from [] cs else w # words_from [] cs) else words_from (w @ [c]) cs)"

definition words :: "string \<Rightarrow> string list" where
  "words s = words_from [] s"

definition key_type :: "cert_lib \<Rightarrow> scored_row \<Rightarrow> string" where
  "key_type l c =
     (let source = (if nonempty (ct_crt c) then ct_crt c else if nonempty (ct_csr c) then ct_csr c else None)
      in case source of
           None \<Rightarrow> ''N/A''
         | Some s \<Rightarrow>
             (case cl_key l s of
                None \<Rightarrow> ''N/A''
              | Some (Rsa_key n) \<Rightarrow> ''RSA '' @ str_int n
              | Some (Ec_key curve) \<Rightarrow> ''EC '' @ curve
              | Some (Dsa_key n) \<Rightarrow> ''DSA '' @ str_int n
              | Some Other_key \<Rightarrow> ''Unknown''))"

definition key_algorithm :: "cert_lib \<Rightarrow> scored_row \<Rightarrow> string" where
  "key_algorithm l c = (if key_type l c \<noteq> ''N/A'' then words (key_type l c) ! 0 else ''Unknown'')"

definition key_size :: "cert_lib \<Rightarrow> scored_row \<Rightarrow> int" where
  "key_size l c =
     (let parts = words (key_type l c)
      in if key_type l c \<noteq> ''N/A'' \<and> length parts \<ge> 2
         then (case py_int 10 (parts ! 1) of None \<Rightarrow> 0 | Some n \<Rightarrow> n) else 0)"

definition SIG_MAP :: "(string \<times> string) list" where
  "SIG_MAP =
     [(''1.2.840.113549.1.1.11'', ''SHA256-RSA''), (''1.2.840.113549.1.1.12'', ''SHA384-RSA''),
      (''1.2.840.113549.1.1.13'', ''SHA512-RSA''), (''1.2.840.113549.1.1.5'', ''SHA1-RSA''),
      (''1.2.840.10045.4.3.2'', ''ECDSA-SHA256''), (''1.2.840.10045.4.3.3'', ''ECDSA-SHA384''),
      (''1.2.840.10045.4.3.4'', ''ECDSA-SHA512'')]"

definition signature_algorithm :: "cert_lib \<Rightarrow> scored_row \<Rightarrow> string" where
  "signature_algorithm l c =
     (if \<not> nonempty (ct_crt c) then ''N/A''
      else (case cl_sig l (the (ct_crt c)) of
              None \<Rightarrow> ''N/A''
            | Some (oid, name) \<Rightarrow> (case map_of SIG_MAP oid of None \<Rightarrow> name | Some s \<Rightarrow> s)))"

definition days_remaining :: "time \<Rightarrow> scored_row \<Rightarrow> int" where
  "days_remaining now c =
     (case ct_valid_to c of None \<Rightarrow> -1 | Some t \<Rightarrow> max 0 ((t - now) div days 1))"

definition san_part :: "cert_lib \<Rightarrow> string \<Rightarrow> string option \<Rightarrow> string list" where
  "san_part l prefix v =
     (if \<not> nonempty v then []
      else (let s = the v
            in if startswith s ''[''
               then (case cl_json l s of Some xs \<Rightarrow> map ((@) prefix) xs | None \<Rightarrow> [prefix @ s])
               else [prefix @ s]))"

definition san_combined :: "cert_lib \<Rightarrow> scored_row \<Rightarrow> string" where
  "san_combined l c =
     join_with '', '' (san_part l ''DNS:'' (ct_san_dns c) @ san_part l ''IP:'' (ct_san_ip c) @ san_part l ''Email:'' (ct_san_email c))"

definition cert_status :: "time \<Rightarrow> scored_row \<Rightarrow> string" where
  "cert_status now c =
     (if ct_revoked c then ''revoked''
      else (case ct_valid_to c of
              None \<Rightarrow> ''valid''
            | Some t \<Rightarrow>
                if t < now then ''expired'' else if t < now + days 30 then ''expiring'' else ''valid''))"

definition to_dict :: "cert_lib \<Rightarrow> time \<Rightarrow> scored_row \<Rightarrow> cert_dict" where
  "to_dict l now c =
     \<lparr>cd_id = ct_id c, cd_key_algorithm = Some (key_algorithm l c), cd_key_algo = ct_key_algo c,
      cd_key_type = Some (key_type l c), cd_key_size = Some (key_size l c),
      cd_signature_algorithm = Some (signature_algorithm l c), cd_status = Some (cert_status now c),
      cd_days_remaining = Some (days_remaining now c), cd_san_combined = Some (san_combined l c),
      cd_san_dns = ct_san_dns c, cd_san_ip = ct_san_ip c, cd_san_email = ct_san_email c,
      cd_cert_type = ct_cert_type c, cd_valid_from = map_option Iso (ct_valid_from c),
      cd_valid_to = map_option Iso (ct_valid_to c)\<rparr>"

subsection \<open>The categories\<close>

record points =
  pt_score :: int
  pt_max :: int
  pt_reason :: string

abbreviation scoring :: "int \<Rightarrow> int \<Rightarrow> string \<Rightarrow> points" where
  "scoring n m r \<equiv> \<lparr>pt_score = n, pt_max = m, pt_reason = r\<rparr>"

definition score_key_strength :: "cert_dict \<Rightarrow> points" where
  "score_key_strength d =
     (let algo0 = upper (or_else (cd_key_algorithm d) (or_else (cd_key_algo d) []));
          size = (case cd_key_size d of None \<Rightarrow> 0 | Some n \<Rightarrow> n);
          ktype = upper (or_else (cd_key_type d) []);
          algo = (if algo0 = [] \<and> ktype \<noteq> [] then ktype else algo0)
      in if contains ''EC'' algo \<or> contains ''ECDSA'' algo \<or> contains ''P-'' algo
         then (if contains ''P-521'' algo \<or> contains ''SECP521'' algo \<or> size \<ge> 521 then scoring 30 30 ''ECDSA P-521''
               else if contains ''P-384'' algo \<or> contains ''SECP384'' algo \<or> size \<ge> 384 then scoring 30 30 ''ECDSA P-384''
               else if contains ''P-256'' algo \<or> contains ''SECP256'' algo \<or> size \<ge> 256 then scoring 25 30 ''ECDSA P-256''
               else scoring 15 30 (''ECDSA ('' @ str_int size @ ''-bit)''))
         else if contains ''ED25519'' algo \<or> contains ''ED448'' algo then scoring 30 30 (strip algo)
         else if contains ''RSA'' algo
         then (if size \<ge> 4096 then scoring 30 30 (''RSA '' @ str_int size)
               else if size \<ge> 3072 then scoring 25 30 (''RSA '' @ str_int size)
               else if size \<ge> 2048 then scoring 20 30 (''RSA '' @ str_int size)
               else if size \<ge> 1024 then scoring 5 30 (''RSA '' @ str_int size @ '' (weak)'')
               else scoring 0 30 (''RSA '' @ str_int size @ '' (critical)''))
         else scoring 10 30 (if algo = [] then ''Unknown'' else algo))"

definition score_signature :: "cert_dict \<Rightarrow> points" where
  "score_signature d =
     (let algo = upper (or_else (cd_signature_algorithm d) [])
      in if algo = [] then scoring 10 25 ''Unknown''
         else if contains ''SHA512'' algo \<or> contains ''SHA-512'' algo then scoring 25 25 ''SHA-512''
         else if contains ''SHA384'' algo \<or> contains ''SHA-384'' algo then scoring 25 25 ''SHA-384''
         else if contains ''SHA256'' algo \<or> contains ''SHA-256'' algo then scoring 22 25 ''SHA-256''
         else if contains ''ED25519'' algo \<or> contains ''ED448'' algo \<or> contains ''EDDSA'' algo then scoring 25 25 (strip algo)
         else if contains ''SHA1'' algo \<or> contains ''SHA-1'' algo then scoring 0 25 ''SHA-1 (deprecated)''
         else if contains ''MD5'' algo then scoring 0 25 ''MD5 (broken)''
         else scoring 10 25 (strip algo))"

definition score_validity :: "cert_dict \<Rightarrow> points" where
  "score_validity d =
     (let status = lower (or_else (cd_status d) [])
      in if status = ''revoked'' then scoring 0 25 ''revoked''
         else if status = ''expired'' then scoring 0 25 ''expired''
         else (case cd_days_remaining d of
                 Some n \<Rightarrow>
                   if n \<le> 0 then scoring 0 25 ''expired''
                   else if n \<le> 7 then scoring 5 25 ''expires_week''
                   else if n \<le> 30 then scoring 15 25 ''expires_month''
                   else scoring 25 25 ''valid''
               | None \<Rightarrow> if status = ''valid'' then scoring 25 25 ''valid'' else scoring 15 25 ''unknown''))"

definition ca_type :: "cert_dict \<Rightarrow> bool" where
  "ca_type d = (lower (or_else (cd_cert_type d) []) \<in> {''ca'', ''root'', ''intermediate''})"

definition score_san :: "cert_dict \<Rightarrow> points" where
  "score_san d =
     (let has_sans = strip (or_else (cd_san_combined d) []) \<noteq> [] \<or>
            list_ex (\<lambda>s. s \<notin> {''[]'', [], ''null''})
              [or_else (cd_san_dns d) ''[]'', or_else (cd_san_ip d) ''[]'', or_else (cd_san_email d) ''[]'']
      in if ca_type d then scoring 10 10 ''ca_exempt''
         else if has_sans then scoring 10 10 ''present'' else scoring 0 10 ''missing'')"

definition score_lifetime :: "cert_dict \<Rightarrow> points" where
  "score_lifetime d =
     (if ca_type d then scoring 10 10 ''ca_exempt''
      else (case (cd_valid_from d, cd_valid_to d) of
              (Some (Iso a), Some (Iso b)) \<Rightarrow>
                (let n = (b - a) div days 1
                 in if n \<le> 398 then scoring 10 10 ''short'' else if n \<le> 825 then scoring 7 10 ''moderate'' else scoring 3 10 ''long'')
            | _ \<Rightarrow> scoring 5 10 ''unknown''))"

subsection \<open>Score and grade\<close>

definition GRADE_THRESHOLDS :: "(int \<times> string) list" where
  "GRADE_THRESHOLDS = [(95, ''A+''), (85, ''A''), (70, ''B''), (55, ''C''), (40, ''D''), (0, ''F'')]"

definition grade_of :: "int \<Rightarrow> string" where
  "grade_of n = (case find (\<lambda>(t, _). n \<ge> t) GRADE_THRESHOLDS of None \<Rightarrow> ''F'' | Some (_, g) \<Rightarrow> g)"

record compliance =
  co_score :: int
  co_grade :: string
  co_breakdown :: "(string \<times> points) list"

definition calculate_compliance_score :: "cert_dict \<Rightarrow> compliance" where
  "calculate_compliance_score d =
     (let breakdown = [(''key_strength'', score_key_strength d), (''signature'', score_signature d),
            (''validity'', score_validity d), (''san'', score_san d), (''lifetime'', score_lifetime d)];
          n = min (sum_list (map (pt_score \<circ> snd) breakdown)) 100
      in \<lparr>co_score = n, co_grade = grade_of n, co_breakdown = breakdown\<rparr>)"

text \<open>No category raises on a dictionary of the model, so the batch has no failed entries.\<close>

definition score_certificates_batch :: "cert_dict list \<Rightarrow> (int \<times> compliance) list" where
  "score_certificates_batch ds = foldl (\<lambda>r d. dict_set (cd_id d) (calculate_compliance_score d) r) [] ds"

subsection \<open>Statistics\<close>

record compliance_stats =
  cs_average_score :: int
  cs_distribution :: "(string \<times> nat) list"
  cs_total :: nat

definition no_grades :: "(string \<times> nat) list" where
  "no_grades = [(''A+'', 0), (''A'', 0), (''B'', 0), (''C'', 0), (''D'', 0), (''F'', 0)]"

text \<open>\<^verbatim>\<open>round(a / b)\<close>: to the nearest integer, halves to the even one. At the sizes of these sums the quotient as a float rounds as
  the exact one does.\<close>

definition round_div :: "int \<Rightarrow> int \<Rightarrow> int" where
  "round_div a b =
     (let q = a div b; r = a mod b
      in if 2 * r < b then q else if 2 * r > b then q + 1 else if even q then q else q + 1)"

definition count_score :: "int \<times> (string \<times> nat) list \<times> nat \<Rightarrow> cert_dict \<Rightarrow> int \<times> (string \<times> nat) list \<times> nat" where
  "count_score acc d =
     (let (total_score, grades, n) = acc; r = calculate_compliance_score d
      in (total_score + co_score r,
          (case map_of grades (co_grade r) of None \<Rightarrow> grades | Some k \<Rightarrow> dict_set (co_grade r) (k + 1) grades),
          n + 1))"

function batches :: "cert_dict list \<Rightarrow> nat \<Rightarrow> int \<times> (string \<times> nat) list \<times> nat \<Rightarrow> int \<times> (string \<times> nat) list \<times> nat" where
  "batches ds offset acc =
     (let batch = take 200 (drop offset ds)
      in if batch = [] then acc else batches ds (offset + 200) (foldl count_score acc batch))"
  by auto
termination by (relation "measure (\<lambda>(ds, offset, _). length ds - offset)") auto

declare batches.simps [simp del]

definition get_compliance_stats :: "cert_lib \<Rightarrow> time \<Rightarrow> scored_row list \<Rightarrow> compliance_stats" where
  "get_compliance_stats l now rows =
     (let live = filter (\<lambda>c. \<not> ct_revoked c) rows
      in if live = [] then \<lparr>cs_average_score = 0, cs_distribution = no_grades, cs_total = 0\<rparr>
         else (let (total_score, grades, n) = batches (map (to_dict l now) live) 0 (0, no_grades, 0)
               in \<lparr>cs_average_score = (if n \<noteq> 0 then round_div total_score (int n) else 0),
                   cs_distribution = grades, cs_total = n\<rparr>))"

subsection \<open>Properties\<close>

definition scored :: "int \<Rightarrow> points \<Rightarrow> bool" where
  "scored m p \<longleftrightarrow> 0 \<le> pt_score p \<and> pt_score p \<le> m"

lemma scored_pts: "0 \<le> n \<Longrightarrow> n \<le> m \<Longrightarrow> scored m (scoring n k r)"
  by (simp add: scored_def)

lemma scored_if: "scored m x \<Longrightarrow> scored m y \<Longrightarrow> scored m (if b then x else y)"
  by simp

lemma scored_option: "scored m x \<Longrightarrow> (\<And>a. scored m (f a)) \<Longrightarrow> scored m (case v of None \<Rightarrow> x | Some a \<Rightarrow> f a)"
  by (cases v) simp_all

lemma categories_scored:
  "scored 30 (score_key_strength d)" "scored 25 (score_signature d)" "scored 25 (score_validity d)" "scored 10 (score_san d)"
proof -
  show "scored 30 (score_key_strength d)"
    unfolding score_key_strength_def Let_def by (intro scored_if scored_pts) simp_all
  show "scored 25 (score_signature d)" unfolding score_signature_def Let_def by (intro scored_if scored_pts) simp_all
  show "scored 25 (score_validity d)" unfolding score_validity_def Let_def by (intro scored_if scored_option scored_pts) simp_all
  show "scored 10 (score_san d)" unfolding score_san_def Let_def by (intro scored_if scored_pts) simp_all
qed

lemma lifetime_scored: "scored 10 (score_lifetime d)"
  by (simp add: score_lifetime_def scored_def Let_def split: option.split iso_text.split)

lemmas category_bounds = categories_scored [unfolded scored_def] lifetime_scored [unfolded scored_def]

lemma score_sum:
  "co_score (calculate_compliance_score d) =
     pt_score (score_key_strength d) + pt_score (score_signature d) + pt_score (score_validity d) + pt_score (score_san d)
     + pt_score (score_lifetime d)"
  using category_bounds [of d] by (simp add: calculate_compliance_score_def Let_def)

lemma score_bounds: "0 \<le> co_score (calculate_compliance_score d) \<and> co_score (calculate_compliance_score d) \<le> 100"
  using category_bounds [of d] unfolding score_sum by linarith

lemma grade_of_cases:
  "grade_of n =
     (if 95 \<le> n then ''A+'' else if 85 \<le> n then ''A'' else if 70 \<le> n then ''B'' else if 55 \<le> n then ''C''
      else if 40 \<le> n then ''D'' else ''F'')"
  by (simp add: grade_of_def GRADE_THRESHOLDS_def)

text \<open>The score of a certificate is the sum of its five categories and lies between 0 and 100, so the cap is never used; a revoked or
  expired certificate has at most 75 points, a B, and an A+ needs at least 20 of the 25 points for validity.\<close>

theorem score_sound:
  "let r = calculate_compliance_score d in
     0 \<le> co_score r \<and> co_score r \<le> 100 \<and>
     co_score r = sum_list (map (pt_score \<circ> snd) (co_breakdown r)) \<and>
     (lower (or_else (cd_status d) []) \<in> {''revoked'', ''expired''} \<longrightarrow> co_grade r \<notin> {''A+'', ''A''}) \<and>
     (co_grade r = ''A+'' \<longrightarrow> 20 \<le> pt_score (score_validity d))"
proof -
  have zero: "pt_score (score_validity d) = 0" if "lower (or_else (cd_status d) []) \<in> {''revoked'', ''expired''}"
    using that by (auto simp: score_validity_def Let_def)
  have "co_grade (calculate_compliance_score d) = grade_of (co_score (calculate_compliance_score d))"
    "co_score (calculate_compliance_score d) = sum_list (map (pt_score \<circ> snd) (co_breakdown (calculate_compliance_score d)))"
    using score_sum [of d] by (simp_all add: calculate_compliance_score_def Let_def)
  then show ?thesis
    using zero category_bounds [of d] score_bounds [of d] score_sum [of d]
    unfolding grade_of_cases by (auto simp: Let_def split: if_splits)
qed

lemma words_from_word: "list_all (\<lambda>c. \<not> is_space c) s \<Longrightarrow> words_from w s = (if w @ s = [] then [] else [w @ s])"
  by (induction s arbitrary: w) auto

lemma words_from_two:
  "list_all (\<lambda>c. \<not> is_space c) a \<Longrightarrow> list_all (\<lambda>c. \<not> is_space c) b \<Longrightarrow> w @ a \<noteq> [] \<Longrightarrow> b \<noteq> [] \<Longrightarrow>
   words_from w (a @ '' '' @ b) = [w @ a, b]"
  by (induction a arbitrary: w) (auto simp: words_from_word is_space_def)

text \<open>The curve of a key has no influence on its score: every certificate with an elliptic-curve key gets 15 of 30 points for the key,
  with the reason \<^verbatim>\<open>ECDSA (0-bit)\<close>, for the size of the key is read from the name of the curve, which is not a number, and the
  name itself is dropped.\<close>

theorem curves_score_alike:
  assumes "nonempty (ct_crt c)" "cl_key l (the (ct_crt c)) = Some (Ec_key curve)" "curve \<noteq> []"
    "list_all (\<lambda>x. \<not> is_space x) curve" "py_int 10 curve = None"
  shows "score_key_strength (to_dict l now c) = scoring 15 30 ''ECDSA (0-bit)''"
proof -
  have kt: "key_type l c = ''EC'' @ '' '' @ curve"
    using assms(1,2) by (cases "ct_crt c") (auto simp: key_type_def nonempty_def)
  have ws: "words (key_type l c) = [''EC'', curve]"
    unfolding kt words_def using words_from_two [of "''EC''" curve "[]"] assms(3,4) by (simp add: is_space_def)
  have na: "key_type l c \<noteq> ''N/A''" by (simp add: kt)
  have "key_algorithm l c = ''EC''" "key_size l c = 0"
    using ws na assms(5) by (simp_all add: key_algorithm_def key_size_def Let_def)
  then have "score_key_strength (to_dict l now c) = score_key_strength ((to_dict l now c)\<lparr>cd_key_algorithm := Some ''EC'', cd_key_size := Some 0\<rparr>)"
    by (simp add: to_dict_def)
  also have "\<dots> = scoring 15 30 ''ECDSA (0-bit)''"
  proof -
    have "upper ''EC'' = ''EC''" "str_int 0 = ''0''" by code_simp+
    moreover have "contains ''EC'' ''EC''" "\<not> contains ''P-521'' ''EC''" "\<not> contains ''SECP521'' ''EC''" "\<not> contains ''P-384'' ''EC''"
      "\<not> contains ''SECP384'' ''EC''" "\<not> contains ''P-256'' ''EC''" "\<not> contains ''SECP256'' ''EC''"
      by code_simp+
    ultimately show ?thesis
      by (simp add: score_key_strength_def or_else_def nonempty_def Let_def del: contains.simps)
  qed
  finally show ?thesis .
qed

text \<open>The statistics without batches: what is counted of each certificate, and of all.\<close>

definition grades_of :: "cert_dict list \<Rightarrow> string list" where
  "grades_of ds = map (co_grade \<circ> calculate_compliance_score) ds"

definition scores_of :: "cert_dict list \<Rightarrow> int list" where
  "scores_of ds = map (co_score \<circ> calculate_compliance_score) ds"

lemma batches_all: "batches ds offset acc = foldl count_score acc (drop offset ds)"
proof (induction ds offset acc rule: batches.induct)
  case (1 ds offset acc)
  show ?case
  proof (cases "drop offset ds = []")
    case True
    then show ?thesis by (simp add: batches.simps [of ds offset])
  next
    case False
    have "foldl count_score acc (drop offset ds) =
        foldl count_score (foldl count_score acc (take 200 (drop offset ds))) (drop 200 (drop offset ds))"
      by (metis append_take_drop_id foldl_append)
    then show ?thesis using False 1 by (simp add: batches.simps [of ds offset] add.commute)
  qed
qed

lemma grade_known: "grade_of n \<in> fst ` set no_grades"
  by (simp add: grade_of_cases no_grades_def)

lemma count_score_all:
  assumes "fst ` set grades = fst ` set no_grades"
  shows "fst (foldl count_score (a, grades, n) ds) = a + sum_list (scores_of ds)
    \<and> snd (snd (foldl count_score (a, grades, n) ds)) = n + length ds
    \<and> (\<forall>g \<in> fst ` set no_grades. map_of (fst (snd (foldl count_score (a, grades, n) ds))) g
         = Some (the (map_of grades g) + count_list (grades_of ds) g))"
  using assms
proof (induction ds arbitrary: a grades n)
  case Nil
  then have "map_of grades g \<noteq> None" if "g \<in> fst ` set no_grades" for g
    using that by (simp add: map_of_eq_None_iff)
  then show ?case by (auto simp: scores_of_def grades_of_def)
next
  case (Cons d ds)
  let ?g = "co_grade (calculate_compliance_score d)"
  have known: "?g \<in> fst ` set no_grades"
    using grade_known by (simp add: calculate_compliance_score_def Let_def)
  then obtain k where k: "map_of grades ?g = Some k"
    using Cons.prems by (metis map_of_eq_None_iff not_None_eq)
  have keys: "fst ` set (dict_set ?g (k + 1) grades) = fst ` set no_grades"
    using Cons.prems known by (simp add: keys_dict_set insert_absorb)
  have "count_score (a, grades, n) d = (a + co_score (calculate_compliance_score d), dict_set ?g (k + 1) grades, n + 1)"
    by (simp add: count_score_def k Let_def)
  then show ?case
    using Cons.IH [OF keys, of "a + co_score (calculate_compliance_score d)" "n + 1"] k
    by (auto simp: scores_of_def grades_of_def map_of_dict_set)
qed

lemma round_div_bounds:
  assumes "0 \<le> a" "a \<le> m * b" "0 < b"
  shows "0 \<le> round_div a b \<and> round_div a b \<le> m"
proof -
  have q: "0 \<le> a div b" "a div b \<le> m"
    using assms zdiv_mono1 [of a "m * b" b] by (simp_all add: pos_imp_zdiv_nonneg_iff)
  moreover have "a mod b = 0" if "a div b = m"
    using assms that by (metis add_le_same_cancel1 div_mult_mod_eq order.antisym pos_mod_sign)
  ultimately show ?thesis using assms(3) by (cases "a div b = m") (auto simp: round_div_def Let_def)
qed

lemma scores_sum_bounds: "0 \<le> sum_list (scores_of ds) \<and> sum_list (scores_of ds) \<le> 100 * int (length ds)"
  using score_bounds by (induction ds) (auto simp: scores_of_def add_nonneg_nonneg add_mono algebra_simps)

text \<open>The statistics, computed in batches of 200, are those of one pass over the certificates that are not revoked: their number, how many have each
  grade, and the rounded mean of their scores, which lies between 0 and 100.\<close>

theorem compliance_stats_exact:
  "let ds = map (to_dict l now) (filter (\<lambda>c. \<not> ct_revoked c) rows); r = get_compliance_stats l now rows in
     cs_total r = length ds \<and>
     map (map_of (cs_distribution r)) (map snd GRADE_THRESHOLDS) = map (Some \<circ> count_list (grades_of ds)) (map snd GRADE_THRESHOLDS) \<and>
     cs_average_score r = (if ds = [] then 0 else round_div (sum_list (scores_of ds)) (int (length ds))) \<and>
     0 \<le> cs_average_score r \<and> cs_average_score r \<le> 100"
proof (cases "filter (\<lambda>c. \<not> ct_revoked c) rows = []")
  case True
  then show ?thesis
    by (simp add: get_compliance_stats_def no_grades_def GRADE_THRESHOLDS_def grades_of_def)
next
  case False
  define ds where "ds = map (to_dict l now) (filter (\<lambda>c. \<not> ct_revoked c) rows)"
  obtain t g n where r: "foldl count_score (0, no_grades, 0) ds = (t, g, n)" by (metis prod_cases3)
  have facts: "t = sum_list (scores_of ds)" "n = length ds"
    "\<And>x. x \<in> fst ` set no_grades \<Longrightarrow> map_of g x = Some (the (map_of no_grades x) + count_list (grades_of ds) x)"
    using count_score_all [of no_grades 0 0 ds] by (auto simp: r)
  have stats: "get_compliance_stats l now rows = \<lparr>cs_average_score = round_div t (int n), cs_distribution = g, cs_total = n\<rparr>"
    using False r facts(2) by (simp add: get_compliance_stats_def batches_all ds_def [symmetric] Let_def) (auto simp: ds_def)
  have "0 < int (length ds)" using False by (simp add: ds_def)
  then have "0 \<le> round_div t (int n) \<and> round_div t (int n) \<le> 100"
    using scores_sum_bounds [of ds] facts by (intro round_div_bounds) simp_all
  moreover have "map (map_of g) (map snd GRADE_THRESHOLDS) = map (Some \<circ> count_list (grades_of ds)) (map snd GRADE_THRESHOLDS)"
    using facts(3) by (simp add: GRADE_THRESHOLDS_def no_grades_def)
  ultimately show ?thesis
    using False facts(1,2) unfolding stats ds_def [symmetric] by (simp add: Let_def) (auto simp: ds_def)
qed

definition demo_cert_row :: scored_row where
  "demo_cert_row = \<lparr>ct_id = 1, ct_refid = ''r'', ct_descr = ''d'', ct_subject = None, ct_issuer = None, ct_caref = None,
     ct_crt = Some ''pem'', ct_prv = None, ct_valid_from = Some 0, ct_valid_to = Some (days 90), ct_serial_number = None,
     ct_revoked = False, ct_revoked_at = None, ct_revoke_reason = None, ct_csr = None, ct_cert_type = Some ''server'',
     ct_key_algo = Some ''EC P-384'', ct_san_dns = None, ct_san_ip = None, ct_san_email = None\<rparr>"

definition demo_cert_lib :: cert_lib where
  "demo_cert_lib = \<lparr>cl_key = (\<lambda>_. Some (Ec_key ''secp384r1'')), cl_sig = (\<lambda>_. None), cl_json = (\<lambda>_. None)\<rparr>"

lemma curves_score_alike_witness:
  "score_key_strength (to_dict demo_cert_lib 0 demo_cert_row) = scoring 15 30 ''ECDSA (0-bit)''"
proof -
  have "py_int 10 ''secp384r1'' = None" by code_simp
  then show ?thesis
    by (intro curves_score_alike [where curve = "''secp384r1''"])
      (simp_all add: demo_cert_row_def demo_cert_lib_def nonempty_def is_space_def)
qed

lemma score_sound_witness:
  "co_grade (calculate_compliance_score (to_dict demo_cert_lib 0 (demo_cert_row\<lparr>ct_revoked := True\<rparr>))) \<notin> {''A+'', ''A''}"
proof -
  have "lower ''revoked'' = ''revoked''" by code_simp
  then show ?thesis
    using score_sound [of "to_dict demo_cert_lib 0 (demo_cert_row\<lparr>ct_revoked := True\<rparr>)"]
    by (simp add: to_dict_def cert_status_def or_else_def Let_def)
qed

end
