(* ===== verification/Smart_Import.thy ===== *)
theory Smart_Import
  imports Text_Format
begin

text \<open>
  The smart import, \<^verbatim>\<open>services/smart_import\<close>: chains of the certificates in an upload (\<^verbatim>\<open>chain_builder.py\<close>), the private keys
  that belong to them (\<^verbatim>\<open>matcher.py\<close>) and the checks before they are stored (\<^verbatim>\<open>validator.py\<close>).

  What the X.509 library says of the parsed objects is a parameter: whether a certificate's signature verifies under another's key
  (\<open>verify\<close>, with the text of the exception where it does not), whether a private key has the public key of a certificate or
  request, and whether the signature of a request is valid. The builder writes a position and a depth into the objects, which
  nothing in these files reads; the writes are listed in the result.
\<close>

subsection \<open>Parsed objects\<close>

datatype object_type = CERTIFICATE | PRIVATE_KEY | CSR | PUBLIC_KEY | UNKNOWN

record parsed_object =
  po_type :: object_type
  po_raw_pem :: string
  po_subject :: string
  po_issuer :: string
  po_serial_number :: string
  po_not_before :: "string option"
  po_not_after :: "string option"
  po_is_ca :: bool
  po_is_self_signed :: bool
  po_ski :: "string option"
  po_aki :: "string option"
  po_key_algorithm :: string
  po_key_size :: int
  po_is_encrypted :: bool

record mark =
  mk_object :: parsed_object
  mk_chain_position :: string
  mk_chain_depth :: nat

record chain_info =
  ci_root :: "parsed_object option"
  ci_intermediates :: "parsed_object list"
  ci_leaf :: "parsed_object option"
  ci_is_complete :: bool
  ci_is_valid :: bool
  ci_errors :: "string list"
  ci_trust_source :: "string option"
  ci_trust_anchor :: "string option"

definition new_chain :: chain_info where
  "new_chain = \<lparr>ci_root = None, ci_intermediates = [], ci_leaf = None, ci_is_complete = False, ci_is_valid = False,
     ci_errors = [], ci_trust_source = None, ci_trust_anchor = None\<rparr>"

definition get_ordered_chain :: "chain_info \<Rightarrow> parsed_object list" where
  "get_ordered_chain ch =
     (case ci_leaf ch of None \<Rightarrow> [] | Some l \<Rightarrow> [l]) @ ci_intermediates ch @ (case ci_root ch of None \<Rightarrow> [] | Some r \<Rightarrow> [r])"

subsection \<open>The chain of a leaf\<close>

definition ski_map :: "parsed_object list \<Rightarrow> (string \<times> parsed_object) list" where
  "ski_map certs =
     foldl (\<lambda>m c. case po_ski c of None \<Rightarrow> m | Some k \<Rightarrow> if k = [] then m else dict_set k c m) [] certs"

definition subject_map :: "parsed_object list \<Rightarrow> string \<Rightarrow> parsed_object list" where
  "subject_map certs name = filter (\<lambda>c. po_subject c = name) certs"

definition prefer_ca :: "parsed_object list \<Rightarrow> parsed_object option" where
  "prefer_ca cs =
     (case cs of [] \<Rightarrow> None | c # _ \<Rightarrow> (case find po_is_ca cs of Some x \<Rightarrow> Some x | None \<Rightarrow> Some c))"

definition find_issuer :: "parsed_object list \<Rightarrow> string list \<Rightarrow> parsed_object \<Rightarrow> parsed_object option" where
  "find_issuer certs visited current =
     (let new = (\<lambda>c. po_serial_number c \<notin> set visited \<and> po_serial_number c \<noteq> po_serial_number current);
          by_key = (if nonempty (po_aki current)
                    then (case map_of (ski_map certs) (the (po_aki current)) of
                            Some c \<Rightarrow> if new c then Some c else None | None \<Rightarrow> None)
                    else None)
      in case by_key of
           Some c \<Rightarrow> Some c
         | None \<Rightarrow>
             prefer_ca (filter new (subject_map certs (po_issuer current))))"

text \<open>One turn of the loop adds an intermediate certificate or ends it. The depth of ten bounds the loop.\<close>

function walk :: "parsed_object list \<Rightarrow> parsed_object \<Rightarrow> nat \<Rightarrow> string list \<Rightarrow> chain_info \<times> mark list \<Rightarrow> chain_info \<times> mark list" where
  "walk certs current depth visited (ch, marks) =
     (case find_issuer certs visited current of
        None \<Rightarrow> (ch, marks)
      | Some c \<Rightarrow>
          if po_is_self_signed c
          then (ch\<lparr>ci_root := Some c, ci_is_complete := True\<rparr>,
                marks @ [\<lparr>mk_object = c, mk_chain_position = ''root'', mk_chain_depth = depth\<rparr>])
          else
            (let ch1 = ch\<lparr>ci_intermediates := ci_intermediates ch @ [c]\<rparr>;
                 marks1 = marks @ [\<lparr>mk_object = c, mk_chain_position = ''intermediate'', mk_chain_depth = depth\<rparr>]
             in if depth + 1 > 10
                then (ch1\<lparr>ci_errors := ci_errors ch1 @ [''Chain depth exceeds limit (possible loop)'']\<rparr>, marks1)
                else walk certs c (depth + 1) (po_serial_number c # visited) (ch1, marks1)))"
  by pat_completeness auto
termination by (relation "measure (\<lambda>(_, _, depth, _, _). 11 - depth)") auto

declare walk.simps [simp del]

definition build_chain_for_leaf :: "parsed_object list \<Rightarrow> parsed_object \<Rightarrow> chain_info \<times> mark list" where
  "build_chain_for_leaf certs leaf =
     walk certs leaf 1 [po_serial_number leaf]
       (new_chain\<lparr>ci_leaf := Some leaf\<rparr>, [\<lparr>mk_object = leaf, mk_chain_position = ''leaf'', mk_chain_depth = 0\<rparr>])"

subsection \<open>All chains\<close>

fun signature_errors :: "(parsed_object \<Rightarrow> parsed_object \<Rightarrow> string option) \<Rightarrow> parsed_object list \<Rightarrow> string list" where
  "signature_errors verify (child # parent # cs) =
     (case verify child parent of
        None \<Rightarrow> []
      | Some e \<Rightarrow>
          [''Signature verification failed: '' @ po_subject child @ '' signed by '' @ po_subject parent @ '': '' @ e])
     @ signature_errors verify (parent # cs)"
| "signature_errors verify _ = []"

definition check_chain :: "(parsed_object \<Rightarrow> parsed_object \<Rightarrow> string option) \<Rightarrow> chain_info \<Rightarrow> chain_info" where
  "check_chain verify ch =
     (let errs = signature_errors verify (get_ordered_chain ch)
      in ch\<lparr>ci_is_valid := (errs = []), ci_errors := ci_errors ch @ errs\<rparr>)"

definition ca_only_chain :: "parsed_object list \<Rightarrow> chain_info \<times> mark list" where
  "ca_only_chain certs =
     (let roots = filter (\<lambda>c. po_is_self_signed c \<and> po_is_ca c) certs;
          inters = filter (\<lambda>c. po_is_ca c \<and> \<not> po_is_self_signed c) certs
      in (new_chain\<lparr>ci_root := (if length roots = 1 then Some (hd roots) else None), ci_intermediates := inters,
                    ci_is_complete := (roots \<noteq> [])\<rparr>,
          (if length roots = 1 then [\<lparr>mk_object = hd roots, mk_chain_position = ''root'', mk_chain_depth = 0\<rparr>] else [])
          @ map (\<lambda>(i, c). \<lparr>mk_object = c, mk_chain_position = ''intermediate'', mk_chain_depth = i + 1\<rparr>)
              (List.enumerate 0 inters)))"

definition build_chains ::
  "(parsed_object \<Rightarrow> parsed_object \<Rightarrow> string option) \<Rightarrow> parsed_object list \<Rightarrow> chain_info list \<times> mark list" where
  "build_chains verify objects =
     (let certs = filter (\<lambda>o'. po_type o' = CERTIFICATE) objects;
          leaves = filter (\<lambda>c. \<not> po_is_ca c) certs;
          built = (if certs = [] then []
                   else if leaves \<noteq> [] then map (build_chain_for_leaf certs) leaves
                   else [ca_only_chain certs])
      in (map (check_chain verify \<circ> fst) built, concat (map snd built)))"

text \<open>Rows of the CA table as these files read them.\<close>

record managed_ca =
  mc_id :: int
  mc_refid :: string
  mc_subject :: "string option"
  mc_ski :: "string option"
  mc_serial_number :: "string option"

definition managed_issuer :: "managed_ca list \<Rightarrow> string option \<Rightarrow> string \<Rightarrow> managed_ca option" where
  "managed_issuer cas aki issuer =
     (case (if nonempty aki then find (\<lambda>ca. mc_ski ca = aki) cas else None) of
        Some ca \<Rightarrow> Some ca
      | None \<Rightarrow> find (\<lambda>ca. mc_subject ca = Some issuer) cas)"

definition find_issuer_in_db :: "managed_ca list \<Rightarrow> parsed_object \<Rightarrow> string option" where
  "find_issuer_in_db cas cert = map_option mc_refid (managed_issuer cas (po_aki cert) (po_issuer cert))"

subsection \<open>Soundness of chains\<close>

definition names_issuer :: "parsed_object \<Rightarrow> parsed_object \<Rightarrow> bool" where
  "names_issuer c p \<longleftrightarrow> po_aki c \<noteq> None \<and> po_ski p = po_aki c \<or> po_subject p = po_issuer c"

lemma ski_map_sound: "map_of (ski_map certs) k = Some c \<Longrightarrow> c \<in> set certs \<and> po_ski c = Some k"
proof (induction certs rule: rev_induct)
  case Nil
  then show ?case by (simp add: ski_map_def)
next
  case (snoc x certs)
  have step: "ski_map (certs @ [x]) = (if nonempty (po_ski x) then dict_set (the (po_ski x)) x (ski_map certs) else ski_map certs)"
    by (simp add: ski_map_def nonempty_def split: option.split)
  show ?case
  proof (cases "nonempty (po_ski x) \<and> the (po_ski x) = k")
    case True
    then show ?thesis using snoc.prems unfolding step by (cases "po_ski x") (simp_all add: map_of_dict_set nonempty_def)
  next
    case False
    then have "map_of (ski_map certs) k = Some c"
      using snoc.prems unfolding step by (cases "nonempty (po_ski x)") (simp_all add: map_of_dict_set)
    then show ?thesis using snoc.IH by simp
  qed
qed

lemma prefer_ca_in:
  assumes "prefer_ca cs = Some c"
  shows "c \<in> set cs"
proof (cases "find po_is_ca cs")
  case None
  then show ?thesis using assms by (cases cs) (simp_all add: prefer_ca_def)
next
  case (Some x)
  then have "x = c" using assms by (cases cs) (simp_all add: prefer_ca_def)
  then show ?thesis using find_Some_in [OF Some] by simp
qed

lemma find_issuer_sound:
  assumes "find_issuer certs visited current = Some c"
  shows "c \<in> set certs \<and> po_serial_number c \<notin> set visited \<and> names_issuer current c"
proof -
  let ?new = "\<lambda>c. po_serial_number c \<notin> set visited \<and> po_serial_number c \<noteq> po_serial_number current"
  consider (key) "nonempty (po_aki current)" "map_of (ski_map certs) (the (po_aki current)) = Some c" "?new c"
    | (name) "c \<in> set (filter ?new (subject_map certs (po_issuer current)))"
    using assms unfolding find_issuer_def Let_def
    by (auto split: option.splits if_splits dest: prefer_ca_in)
  then show ?thesis
  proof cases
    case key
    then show ?thesis using ski_map_sound [OF key(2)] by (cases "po_aki current") (auto simp: names_issuer_def nonempty_def)
  next
    case name
    then show ?thesis by (auto simp: subject_map_def names_issuer_def)
  qed
qed

definition chain_ok :: "parsed_object list \<Rightarrow> parsed_object \<Rightarrow> chain_info \<Rightarrow> bool" where
  "chain_ok certs leaf ch \<longleftrightarrow> ci_leaf ch = Some leaf \<and> set (get_ordered_chain ch) \<subseteq> set certs \<and>
     successively names_issuer (get_ordered_chain ch) \<and> distinct (map po_serial_number (get_ordered_chain ch)) \<and>
     length (get_ordered_chain ch) \<le> 11 \<and> (ci_is_complete ch \<longleftrightarrow> ci_root ch \<noteq> None) \<and>
     list_all (\<lambda>c. \<not> po_is_self_signed c) (ci_intermediates ch) \<and> (\<forall>r. ci_root ch = Some r \<longrightarrow> po_is_self_signed r)"

lemma errors_keep [simp]:
  "get_ordered_chain (ch\<lparr>ci_errors := e\<rparr>) = get_ordered_chain ch" "chain_ok certs leaf (ch\<lparr>ci_errors := e\<rparr>) = chain_ok certs leaf ch"
  by (simp_all add: get_ordered_chain_def chain_ok_def)

lemma walk_ok:
  assumes "chain_ok certs leaf ch" "ci_root ch = None" "last (get_ordered_chain ch) = current"
    "length (get_ordered_chain ch) = depth" "depth \<le> 10" "set visited = po_serial_number ` set (get_ordered_chain ch)"
  shows "chain_ok certs leaf (fst (walk certs current depth visited (ch, marks)))"
  using assms
proof (induction certs current depth visited "(ch, marks)" arbitrary: ch marks rule: walk.induct)
  case (1 certs current depth visited ch marks)
  note ok = "1.prems"(1)
  show ?case
  proof (cases "find_issuer certs visited current")
    case None
    then show ?thesis using ok by (simp add: walk.simps [of certs current])
  next
    case (Some c)
    note c = find_issuer_sound [OF Some]
    have ord: "get_ordered_chain ch = leaf # ci_intermediates ch"
      using ok "1.prems"(2) by (simp add: chain_ok_def get_ordered_chain_def)
    have leaf: "ci_leaf ch = Some leaf" "leaf \<in> set certs" using ok ord by (auto simp: chain_ok_def)
    have link: "successively names_issuer (leaf # ci_intermediates ch @ [c])"
      using ok c "1.prems"(3) ord by (simp add: chain_ok_def successively_append_iff flip: append_Cons)
    have new: "distinct (map po_serial_number (leaf # ci_intermediates ch @ [c]))"
      using ok c "1.prems"(6) ord by (auto simp: chain_ok_def)
    show ?thesis
    proof (cases "po_is_self_signed c")
      case True
      then show ?thesis
        using ok c Some link new "1.prems"(2,4,5) ord leaf
        by (simp add: walk.simps [of certs current] chain_ok_def get_ordered_chain_def)
    next
      case False
      let ?ch = "ch\<lparr>ci_intermediates := ci_intermediates ch @ [c]\<rparr>"
      have ok1: "chain_ok certs leaf ?ch" "get_ordered_chain ?ch = leaf # ci_intermediates ch @ [c]" "ci_root ?ch = None"
        using ok c link new "1.prems"(2,4,5) ord False leaf by (simp_all add: chain_ok_def get_ordered_chain_def)
      show ?thesis
      proof (cases "depth + 1 > 10")
        case True
        then show ?thesis using ok1(1) Some False by (simp add: walk.simps [of certs current] Let_def)
      next
        case deeper: False
        have "length (get_ordered_chain ?ch) = depth + 1" "last (get_ordered_chain ?ch) = c"
          "set (po_serial_number c # visited) = po_serial_number ` set (get_ordered_chain ?ch)"
          using "1.prems"(4,6) ok1(2) ord by auto
        then show ?thesis
          using "1.hyps" [OF Some False refl refl deeper ok1(1,3)] deeper Some False
          by (simp add: walk.simps [of certs current] Let_def)
      qed
    qed
  qed
qed

lemma signature_errors_Nil: "signature_errors verify cs = [] \<longleftrightarrow> successively (\<lambda>c p. verify c p = None) cs"
  by (induction verify cs rule: signature_errors.induct) (auto split: option.split)

lemma check_chain_keeps [simp]:
  "ci_leaf (check_chain v ch) = ci_leaf ch" "get_ordered_chain (check_chain v ch) = get_ordered_chain ch"
  "chain_ok certs leaf (check_chain v ch) = chain_ok certs leaf ch"
  by (simp_all add: check_chain_def get_ordered_chain_def chain_ok_def Let_def)

text \<open>A chain built for a leaf starts with that leaf, a certificate of the upload that is not a CA, and consists of certificates of the
  upload, at most eleven, with different serial numbers; each names the next as its issuer, by key identifier or by name. It is
  complete exactly if it ends in a self-signed certificate, and marked valid exactly if every signature in it verifies under the key of the
  next certificate.\<close>

theorem built_chain_sound:
  assumes "ch \<in> set (fst (build_chains verify objects))" "ci_leaf ch = Some leaf"
  defines "certs \<equiv> filter (\<lambda>x. po_type x = CERTIFICATE) objects"
  shows "leaf \<in> set certs \<and> \<not> po_is_ca leaf \<and> chain_ok certs leaf ch \<and> hd (get_ordered_chain ch) = leaf \<and>
    (ci_is_valid ch \<longleftrightarrow> successively (\<lambda>c p. verify c p = None) (get_ordered_chain ch))"
proof -
  have "\<exists>l \<in> set certs. \<not> po_is_ca l \<and> ch = check_chain verify (fst (build_chain_for_leaf certs l))"
    using assms(1,2) unfolding build_chains_def certs_def [symmetric] Let_def
    by (auto split: if_splits simp: ca_only_chain_def new_chain_def Let_def)
  then obtain l where l: "l \<in> set certs" "\<not> po_is_ca l" and ch: "ch = check_chain verify (fst (build_chain_for_leaf certs l))" by blast
  have start: "chain_ok certs l (new_chain\<lparr>ci_leaf := Some l\<rparr>)"
    "get_ordered_chain (new_chain\<lparr>ci_leaf := Some l\<rparr>) = [l]" "ci_root (new_chain\<lparr>ci_leaf := Some l\<rparr>) = None"
    using l by (simp_all add: chain_ok_def new_chain_def get_ordered_chain_def)
  have "chain_ok certs l (fst (build_chain_for_leaf certs l))"
    unfolding build_chain_for_leaf_def by (rule walk_ok [OF start(1)]) (simp_all add: start(2,3))
  then have ok: "chain_ok certs l ch" by (simp add: ch)
  moreover have "l = leaf" using ok assms(2) by (simp add: chain_ok_def)
  moreover have "hd (get_ordered_chain ch) = leaf" using assms(2) by (simp add: get_ordered_chain_def)
  moreover have "ci_is_valid ch \<longleftrightarrow> successively (\<lambda>c p. verify c p = None) (get_ordered_chain ch)"
    unfolding ch by (simp add: signature_errors_Nil [symmetric]) (simp add: check_chain_def Let_def)
  ultimately show ?thesis using l by simp
qed

definition demo_object :: parsed_object where
  "demo_object = \<lparr>po_type = CERTIFICATE, po_raw_pem = ''pem'', po_subject = ''CN=leaf'', po_issuer = ''CN=sub'', po_serial_number = ''3'',
     po_not_before = None, po_not_after = None, po_is_ca = False, po_is_self_signed = False, po_ski = None, po_aki = None,
     po_key_algorithm = ''RSA'', po_key_size = 2048, po_is_encrypted = False\<rparr>"

definition demo_upload :: "parsed_object list" where
  "demo_upload =
     [demo_object\<lparr>po_subject := ''CN=root'', po_issuer := ''CN=root'', po_serial_number := ''1'', po_is_ca := True,
        po_is_self_signed := True, po_ski := Some ''aa''\<rparr>,
      demo_object,
      demo_object\<lparr>po_subject := ''CN=sub'', po_issuer := ''CN=root'', po_serial_number := ''2'', po_is_ca := True, po_aki := Some ''aa''\<rparr>]"

definition demo_chain :: chain_info where
  "demo_chain = hd (fst (build_chains (\<lambda>_ _. None) demo_upload))"

lemma demo_chain_built:
  "demo_chain \<in> set (fst (build_chains (\<lambda>_ _. None) demo_upload))" "ci_leaf demo_chain = Some demo_object"
  "map po_serial_number (get_ordered_chain demo_chain) = [''3'', ''2'', ''1'']" "ci_is_complete demo_chain"
proof -
  have "fst (build_chains (\<lambda>_ _. None) demo_upload) \<noteq> []" by code_simp
  then show "demo_chain \<in> set (fst (build_chains (\<lambda>_ _. None) demo_upload))" unfolding demo_chain_def by (rule hd_in_set)
  show "ci_leaf demo_chain = Some demo_object" "map po_serial_number (get_ordered_chain demo_chain) = [''3'', ''2'', ''1'']"
    "ci_is_complete demo_chain"
    by code_simp+
qed

lemma built_chain_sound_witness:
  "map po_serial_number (get_ordered_chain demo_chain) = [''3'', ''2'', ''1''] \<and> ci_is_complete demo_chain \<and>
   hd (get_ordered_chain demo_chain) = demo_object \<and> successively (\<lambda>c p. names_issuer c p) (get_ordered_chain demo_chain)"
  using built_chain_sound [OF demo_chain_built(1,2)] demo_chain_built(3,4) by (simp add: chain_ok_def)

end
