(* ===== verification/Import_Checks.thy ===== *)
theory Import_Checks
  imports Smart_Import
begin

text \<open>
  The second half of the smart import: which private key belongs to which certificate or request (\<^verbatim>\<open>matcher.py\<close>), and the checks on
  the parsed objects and chains (\<^verbatim>\<open>validator.py\<close>). The encodings of public keys, the dates, the signature of a request and the
  certificates of the trust store are read by libraries (\<open>key_lib\<close>, \<open>check_lib\<close>); \<open>None\<close> is an exception, which the code catches.
\<close>

subsection \<open>Matching keys\<close>

record key_lib =
  kl_private :: "string \<Rightarrow> string option"
  kl_certificate :: "string \<Rightarrow> string option"
  kl_request :: "string \<Rightarrow> string option"

definition public_keys_equal :: "string option \<Rightarrow> string option \<Rightarrow> bool" where
  "public_keys_equal a b = (case (a, b) of (Some x, Some y) \<Rightarrow> x = y | _ \<Rightarrow> False)"

definition keys_match :: "key_lib \<Rightarrow> parsed_object \<Rightarrow> parsed_object \<Rightarrow> bool" where
  "keys_match l k c = public_keys_equal (kl_private l (po_raw_pem k)) (kl_certificate l (po_raw_pem c))"

definition key_matches_csr :: "key_lib \<Rightarrow> parsed_object \<Rightarrow> parsed_object \<Rightarrow> bool" where
  "key_matches_csr l k c = public_keys_equal (kl_private l (po_raw_pem k)) (kl_request l (po_raw_pem c))"

definition indices_of :: "object_type \<Rightarrow> parsed_object list \<Rightarrow> nat list" where
  "indices_of ty objects = filter (\<lambda>i. po_type (objects ! i) = ty) [0..<length objects]"

text \<open>One of the two loops: each key gets the first target that matches and is not taken.\<close>

fun match_keys :: "(nat \<Rightarrow> nat \<Rightarrow> bool) \<Rightarrow> nat list \<Rightarrow> nat list \<Rightarrow> nat list \<Rightarrow> (nat \<times> nat) list" where
  "match_keys fits [] targets taken = []"
| "match_keys fits (k # ks) targets taken =
     (case find (\<lambda>c. c \<notin> set taken \<and> fits k c) targets of
        None \<Rightarrow> match_keys fits ks targets taken
      | Some c \<Rightarrow> (k, c) # match_keys fits ks targets (c # taken))"

record matching =
  ma_matched_pairs :: "(nat \<times> nat) list"
  ma_orphan_keys :: "nat list"
  ma_certs_without_key :: "nat list"
  ma_csr_key_pairs :: "(nat \<times> nat) list"

definition match_all :: "key_lib \<Rightarrow> parsed_object list \<Rightarrow> matching" where
  "match_all l objects =
     (let keys = indices_of PRIVATE_KEY objects; certs = indices_of CERTIFICATE objects; csrs = indices_of CSR objects;
          pairs = match_keys (\<lambda>k c. keys_match l (objects ! k) (objects ! c)) keys certs [];
          rest = filter (\<lambda>k. k \<notin> fst ` set pairs) keys;
          csr_pairs = match_keys (\<lambda>k c. key_matches_csr l (objects ! k) (objects ! c)) rest csrs []
      in \<lparr>ma_matched_pairs = pairs,
          ma_orphan_keys = filter (\<lambda>k. k \<notin> fst ` set pairs \<union> fst ` set csr_pairs) keys,
          ma_certs_without_key = filter (\<lambda>c. c \<notin> snd ` set pairs) certs,
          ma_csr_key_pairs = map (\<lambda>(k, c). (c, k)) csr_pairs\<rparr>)"

lemma match_keys_sound:
  "set (match_keys fits ks targets taken) \<subseteq> {(k, c). k \<in> set ks \<and> c \<in> set targets \<and> c \<notin> set taken \<and> fits k c}"
proof (induction fits ks targets taken rule: match_keys.induct)
  case (2 fits k ks targets taken)
  show ?case
  proof (cases "find (\<lambda>c. c \<notin> set taken \<and> fits k c) targets")
    case None
    then show ?thesis using "2.IH"(1) [OF None] by auto
  next
    case (Some c)
    then show ?thesis using "2.IH"(2) [OF Some] find_Some_in [OF Some] by auto
  qed
qed simp

lemma match_keys_injective:
  assumes "distinct ks"
  shows "distinct (map fst (match_keys fits ks targets taken)) \<and> distinct (map snd (match_keys fits ks targets taken))"
  using assms
proof (induction fits ks targets taken rule: match_keys.induct)
  case (2 fits k ks targets taken)
  show ?case
  proof (cases "find (\<lambda>c. c \<notin> set taken \<and> fits k c) targets")
    case None
    then show ?thesis using "2.IH"(1) [OF None] "2.prems" by simp
  next
    case (Some c)
    have "k \<notin> fst ` set (match_keys fits ks targets (c # taken))" "c \<notin> snd ` set (match_keys fits ks targets (c # taken))"
      using match_keys_sound [of fits ks targets "c # taken"] "2.prems" by auto
    then show ?thesis using "2.IH"(2) [OF Some] "2.prems" Some by simp
  qed
qed simp

lemma match_keys_maximal:
  assumes "k \<in> set ks" "k \<notin> fst ` set (match_keys fits ks targets taken)" "c \<in> set targets" "c \<notin> set taken"
    "c \<notin> snd ` set (match_keys fits ks targets taken)"
  shows "\<not> fits k c"
  using assms
proof (induction fits ks targets taken rule: match_keys.induct)
  case (2 fits k' ks targets taken)
  show ?case
  proof (cases "find (\<lambda>c. c \<notin> set taken \<and> fits k' c) targets")
    case None
    have "\<forall>x \<in> set targets. x \<in> set taken \<or> \<not> fits k' x" using None by (auto simp: find_None_iff)
    then show ?thesis using "2.IH"(1) [OF None] "2.prems" None by auto
  next
    case (Some x)
    then show ?thesis using "2.IH"(2) [OF Some] "2.prems" by auto
  qed
qed simp

lemma indices_of_distinct [simp]: "distinct (indices_of ty objects)"
  by (simp add: indices_of_def)

text \<open>Matching is sound and leaves nothing out: every pair has the same public key on both sides, no key and no certificate is in two
  pairs, every key of the upload is in a pair or an orphan and not both, and no orphan key fits a certificate or a request that is left
  without one.\<close>

theorem matching_exact:
  "let r = match_all l objects; pairs = ma_matched_pairs r; csr_pairs = ma_csr_key_pairs r in
     list_all (\<lambda>(k, c). keys_match l (objects ! k) (objects ! c)) pairs \<and>
     list_all (\<lambda>(c, k). key_matches_csr l (objects ! k) (objects ! c)) csr_pairs \<and>
     distinct (map fst pairs @ map snd csr_pairs) \<and> distinct (map snd pairs) \<and> distinct (map fst csr_pairs) \<and>
     set (indices_of PRIVATE_KEY objects) = fst ` set pairs \<union> snd ` set csr_pairs \<union> set (ma_orphan_keys r) \<and>
     set (ma_orphan_keys r) \<inter> (fst ` set pairs \<union> snd ` set csr_pairs) = {} \<and>
     list_all (\<lambda>k. list_all (\<lambda>c. \<not> keys_match l (objects ! k) (objects ! c)) (ma_certs_without_key r) \<and>
       list_all (\<lambda>c. \<not> key_matches_csr l (objects ! k) (objects ! c))
         (filter (\<lambda>c. c \<notin> fst ` set csr_pairs) (indices_of CSR objects)))
       (ma_orphan_keys r)"
proof -
  define keys certs csrs where "keys = indices_of PRIVATE_KEY objects" and "certs = indices_of CERTIFICATE objects"
    and "csrs = indices_of CSR objects"
  define pairs where "pairs = match_keys (\<lambda>k c. keys_match l (objects ! k) (objects ! c)) keys certs []"
  define rest where "rest = filter (\<lambda>k. k \<notin> fst ` set pairs) keys"
  define cp where "cp = match_keys (\<lambda>k c. key_matches_csr l (objects ! k) (objects ! c)) rest csrs []"
  have r: "match_all l objects = \<lparr>ma_matched_pairs = pairs, ma_orphan_keys = filter (\<lambda>k. k \<notin> fst ` set pairs \<union> fst ` set cp) keys,
      ma_certs_without_key = filter (\<lambda>c. c \<notin> snd ` set pairs) certs, ma_csr_key_pairs = map (\<lambda>(k, c). (c, k)) cp\<rparr>"
    unfolding match_all_def Let_def keys_def [symmetric] certs_def [symmetric] csrs_def [symmetric] pairs_def [symmetric]
      rest_def [symmetric] cp_def [symmetric] ..
  have sw: "map fst (map (\<lambda>(k, c). (c, k)) cp) = map snd cp" "map snd (map (\<lambda>(k, c). (c, k)) cp) = map fst cp" by (auto simp: case_prod_beta)
  have dk: "distinct keys" "distinct rest" by (simp_all add: keys_def rest_def)
  have sound: "set pairs \<subseteq> {(k, c). k \<in> set keys \<and> keys_match l (objects ! k) (objects ! c)}"
    "set cp \<subseteq> {(k, c). k \<in> set rest \<and> key_matches_csr l (objects ! k) (objects ! c)}"
    unfolding pairs_def cp_def using match_keys_sound by fast+
  have inj: "distinct (map fst pairs)" "distinct (map snd pairs)" "distinct (map fst cp)" "distinct (map snd cp)"
    using match_keys_injective [OF dk(1)] match_keys_injective [OF dk(2)] by (simp_all add: pairs_def cp_def)
  have max: "\<not> keys_match l (objects ! k) (objects ! c)"
    if "k \<in> set keys" "k \<notin> fst ` set pairs" "c \<in> set certs" "c \<notin> snd ` set pairs" for k c
    using that match_keys_maximal [of k keys _ certs "[]" c] unfolding pairs_def by fastforce
  have max_csr: "\<not> key_matches_csr l (objects ! k) (objects ! c)"
    if "k \<in> set rest" "k \<notin> fst ` set cp" "c \<in> set csrs" "c \<notin> snd ` set cp" for k c
    using that match_keys_maximal [of k rest _ csrs "[]" c] unfolding cp_def by fastforce
  have "fst ` set cp \<subseteq> set rest" using sound(2) by auto
  moreover have "set rest = set keys - fst ` set pairs" by (auto simp: rest_def)
  ultimately have sets: "fst ` set pairs \<subseteq> set keys" "fst ` set cp \<subseteq> set keys - fst ` set pairs" using sound(1) by auto
  let ?swap = "map (\<lambda>(k, c). (c, k)) cp"
  let ?orphans = "filter (\<lambda>k. k \<notin> fst ` set pairs \<union> fst ` set cp) keys"
  have swapped: "fst ` set ?swap = snd ` set cp" "snd ` set ?swap = fst ` set cp" by force+
  have "list_all (\<lambda>(k, c). keys_match l (objects ! k) (objects ! c)) pairs"
    "list_all (\<lambda>(c, k). key_matches_csr l (objects ! k) (objects ! c)) ?swap"
    using sound by (auto simp: list_all_iff)
  moreover have "distinct (map fst pairs @ map snd ?swap)" "distinct (map fst ?swap)"
    using inj sets unfolding sw by auto
  moreover have "set keys = fst ` set pairs \<union> snd ` set ?swap \<union> set ?orphans"
    "set ?orphans \<inter> (fst ` set pairs \<union> snd ` set ?swap) = {}"
    unfolding swapped using sets by auto
  moreover have "list_all (\<lambda>k. list_all (\<lambda>c. \<not> keys_match l (objects ! k) (objects ! c)) (filter (\<lambda>c. c \<notin> snd ` set pairs) certs) \<and>
      list_all (\<lambda>c. \<not> key_matches_csr l (objects ! k) (objects ! c)) (filter (\<lambda>c. c \<notin> fst ` set ?swap) csrs)) ?orphans"
    unfolding swapped list_all_iff using max max_csr by (simp add: rest_def)
  ultimately show ?thesis
    using inj(2) unfolding r Let_def keys_def [symmetric] csrs_def [symmetric] by simp
qed

subsection \<open>Validation\<close>

record validation =
  vr_is_valid :: bool
  vr_errors :: "string list"
  vr_warnings :: "string list"
  vr_infos :: "string list"

definition no_findings :: validation where
  "no_findings = \<lparr>vr_is_valid = True, vr_errors = [], vr_warnings = [], vr_infos = []\<rparr>"

definition add_error :: "string \<Rightarrow> validation \<Rightarrow> validation" where
  "add_error m r = r\<lparr>vr_errors := vr_errors r @ [m], vr_is_valid := False\<rparr>"

definition add_warning :: "string \<Rightarrow> validation \<Rightarrow> validation" where
  "add_warning m r = r\<lparr>vr_warnings := vr_warnings r @ [m]\<rparr>"

definition add_info :: "string \<Rightarrow> validation \<Rightarrow> validation" where
  "add_info m r = r\<lparr>vr_infos := vr_infos r @ [m]\<rparr>"

record trusted_row =
  tr_name :: string
  tr_certificate_pem :: string
  tr_subject :: string

text \<open>
  \<open>vl_date\<close> reads a date; \<open>vl_csr\<close> is the verdict on a request's signature or the text of the exception; \<open>vl_trusted\<close> loads a
  trusted certificate and reads its key identifier, if it has one; \<open>vl_signed\<close> says that the signature of an object verifies under the
  key of a trusted certificate. \<open>vl_store\<close> is the table of trusted certificates, \<open>None\<close> if it cannot be read.
\<close>

record check_lib =
  vl_date :: "string \<Rightarrow> time option"
  vl_csr :: "string \<Rightarrow> string + bool"
  vl_trusted :: "string \<Rightarrow> string option option"
  vl_signed :: "parsed_object \<Rightarrow> string \<Rightarrow> bool"
  vl_store :: "trusted_row list option"
  vl_cas :: "managed_ca list"
  vl_certificates :: "(string option \<times> int) list"

definition get_cn :: "string \<Rightarrow> string" where
  "get_cn subject =
     (if subject = [] then ''Unknown''
      else (case find (\<lambda>p. startswith (upper (strip p)) ''CN='') (split_on (CHR '','') subject) of
              Some p \<Rightarrow> drop 3 (strip p)
            | None \<Rightarrow> if length subject > 30 then take 30 subject @ ''...'' else subject))"

definition check_duplicate_cert :: "check_lib \<Rightarrow> parsed_object \<Rightarrow> int option" where
  "check_duplicate_cert l obj =
     (case find (\<lambda>(s, _). s = Some (po_serial_number obj)) (vl_certificates l) of
        Some (_, i) \<Rightarrow> Some i
      | None \<Rightarrow> map_option mc_id (find (\<lambda>ca. mc_serial_number ca = Some (po_serial_number obj)) (vl_cas l)))"

definition weak_rsa :: "parsed_object \<Rightarrow> bool" where
  "weak_rsa obj = (po_key_algorithm obj = ''RSA'' \<and> po_key_size obj < 2048)"

abbreviation about_cn :: "string \<Rightarrow> parsed_object \<Rightarrow> string" where
  "about_cn what obj \<equiv> what @ [CHR 0x20, CHR 0x27] @ get_cn (po_subject obj) @ [CHR 0x27]"

definition validate_certificate :: "check_lib \<Rightarrow> time \<Rightarrow> bool \<Rightarrow> parsed_object \<Rightarrow> validation \<Rightarrow> validation" where
  "validate_certificate l now check_duplicates obj r =
     (let who = about_cn ''Certificate'' obj;
          until = (if nonempty (po_not_after obj) then vl_date l (the (po_not_after obj)) else None);
          from = (if nonempty (po_not_before obj) then vl_date l (the (po_not_before obj)) else None);
          r1 = (case until of
                  None \<Rightarrow> r
                | Some t \<Rightarrow>
                    if t < now then add_warning (who @ '' is expired (expired '' @ the (po_not_after obj) @ '')'') r
                    else if (t - now) div days 1 < 30
                    then add_warning (who @ '' expires in '' @ str_int ((t - now) div days 1) @ '' days'') r
                    else r);
          r2 = (case from of
                  None \<Rightarrow> r1
                | Some t \<Rightarrow> if t > now
                            then add_warning (who @ '' is not yet valid (valid from '' @ the (po_not_before obj) @ '')'') r1
                            else r1);
          r3 = (if weak_rsa obj
                then add_warning (who @ '' uses weak RSA key ('' @ str_int (po_key_size obj) @ '' bits)'') r2 else r2)
      in if check_duplicates
         then (case check_duplicate_cert l obj of
                 None \<Rightarrow> r3
               | Some i \<Rightarrow> add_warning (who @ '' already exists in database (ID: '' @ str_int i @ '')'') r3)
         else r3)"

definition validate_key :: "parsed_object \<Rightarrow> validation \<Rightarrow> validation" where
  "validate_key obj r =
     (let r1 = (if po_is_encrypted obj \<and> po_key_algorithm obj = ''unknown (encrypted)''
                then add_error ''Private key is encrypted and no password was provided'' r else r)
      in if weak_rsa obj
         then add_warning (''Private key uses weak RSA ('' @ str_int (po_key_size obj) @ '' bits)'') r1 else r1)"

definition validate_csr :: "check_lib \<Rightarrow> parsed_object \<Rightarrow> validation \<Rightarrow> validation" where
  "validate_csr l obj r =
     (let r1 = (if weak_rsa obj
                then add_warning (about_cn ''CSR'' obj @ '' uses weak RSA key ('' @ str_int (po_key_size obj) @ '' bits)'') r else r)
      in case vl_csr l (po_raw_pem obj) of
           Inl e \<Rightarrow> add_error (''Failed to validate CSR: '' @ e) r1
         | Inr ok \<Rightarrow> if ok then r1 else add_error (about_cn ''CSR'' obj @ '' has invalid signature'') r1)"

definition validate_object :: "check_lib \<Rightarrow> time \<Rightarrow> bool \<Rightarrow> parsed_object \<Rightarrow> validation \<Rightarrow> validation" where
  "validate_object l now check_duplicates obj r =
     (case po_type obj of
        CERTIFICATE \<Rightarrow> validate_certificate l now check_duplicates obj r
      | PRIVATE_KEY \<Rightarrow> validate_key obj r
      | CSR \<Rightarrow> validate_csr l obj r
      | _ \<Rightarrow> r)"

text \<open>The search in the trust store, by the subject first and then by parts of the name.\<close>

definition store_candidates :: "trusted_row list \<Rightarrow> parsed_object \<Rightarrow> trusted_row list" where
  "store_candidates rows cert =
     (let exact = filter (\<lambda>t. tr_subject t = po_issuer cert) rows;
          pat = ''%'' @ get_cn (po_issuer cert) @ ''%''
      in if exact \<noteq> [] then exact
         else filter (\<lambda>t. ilike (Some (tr_name t)) pat \<or> ilike (Some (tr_subject t)) pat) rows)"

definition trusts :: "check_lib \<Rightarrow> parsed_object \<Rightarrow> trusted_row \<Rightarrow> bool" where
  "trusts l cert t =
     (case vl_trusted l (tr_certificate_pem t) of
        None \<Rightarrow> False
      | Some ski \<Rightarrow>
          nonempty (po_aki cert) \<and> ski = po_aki cert \<or>
          po_raw_pem cert \<noteq> [] \<and> vl_signed l cert (tr_certificate_pem t))"

definition find_in_trust_store :: "check_lib \<Rightarrow> parsed_object \<Rightarrow> trusted_row option" where
  "find_in_trust_store l cert =
     (case vl_store l of None \<Rightarrow> None | Some rows \<Rightarrow> find (trusts l cert) (store_candidates rows cert))"

definition DN_FIELD_ALIASES :: "(string \<times> string) list" where
  "DN_FIELD_ALIASES = [(''CN'', ''commonName''), (''O'', ''organizationName''), (''OU'', ''organizationalUnitName''),
     (''C'', ''countryName''), (''ST'', ''stateOrProvinceName''), (''L'', ''localityName'')]"

definition extract_dn_field :: "string option \<Rightarrow> string \<Rightarrow> string" where
  "extract_dn_field dn field =
     (if \<not> nonempty dn then []
      else
        (let prefixes = [field @ ''='']
               @ (case map_of DN_FIELD_ALIASES field of None \<Rightarrow> [] | Some a \<Rightarrow> [a @ ''=''])
               @ (case find (\<lambda>(_, long). long = field) DN_FIELD_ALIASES of None \<Rightarrow> [] | Some (short, _) \<Rightarrow> [short @ ''='']);
             hits = List.map_filter
               (\<lambda>p. let q = strip p in map_option (\<lambda>x. drop (length x) q) (find (startswith q) prefixes))
               (split_on (CHR '','') (the dn))
         in case hits of [] \<Rightarrow> [] | h # _ \<Rightarrow> h))"

definition ca_common_name :: "managed_ca \<Rightarrow> string" where
  "ca_common_name ca = extract_dn_field (mc_subject ca) ''CN''"

definition top_of :: "parsed_object \<Rightarrow> chain_info \<Rightarrow> parsed_object" where
  "top_of leaf ch = (if ci_intermediates ch \<noteq> [] then last (ci_intermediates ch) else leaf)"

definition validate_chain :: "check_lib \<Rightarrow> chain_info \<Rightarrow> validation \<Rightarrow> chain_info \<times> validation" where
  "validate_chain l ch r =
     (let (ch1, r1) =
        (if ci_is_complete ch
         then (ch\<lparr>ci_trust_source := Some ''self_contained'',
                  ci_trust_anchor := map_option (\<lambda>x. get_cn (po_subject x)) (ci_root ch)\<rparr>, r)
         else (case ci_leaf ch of
                 None \<Rightarrow> (ch, r)
               | Some leaf \<Rightarrow>
                   (let top = top_of leaf ch; who = about_cn ''Chain for'' leaf
                    in case managed_issuer (vl_cas l) (po_aki top) (po_issuer top) of
                         Some ca \<Rightarrow>
                           (ch\<lparr>ci_trust_source := Some ''managed_ca'', ci_trust_anchor := Some (ca_common_name ca)\<rparr>,
                            add_info (who @ '' will be linked to existing CA '' @ [CHR 0x27] @ ca_common_name ca @ [CHR 0x27]) r)
                       | None \<Rightarrow>
                           (case find_in_trust_store l top of
                              Some t \<Rightarrow>
                                (ch\<lparr>ci_is_complete := True, ci_trust_source := Some ''trust_store'', ci_trust_anchor := Some (tr_name t)\<rparr>,
                                 add_info (who @ '' verified against Trust Store CA '' @ [CHR 0x27] @ tr_name t @ [CHR 0x27]) r)
                            | None \<Rightarrow>
                                (ch\<lparr>ci_trust_source := None, ci_trust_anchor := None\<rparr>,
                                 add_warning (who @ '' is incomplete - issuing CA not found in managed CAs or Trust Store'') r)))))
      in (ch1, fold add_error (ci_errors ch) r1))"

fun validate_chains :: "check_lib \<Rightarrow> chain_info list \<Rightarrow> validation \<Rightarrow> chain_info list \<times> validation" where
  "validate_chains l [] r = ([], r)"
| "validate_chains l (ch # chs) r =
     (let (ch1, r1) = validate_chain l ch r; (chs1, r2) = validate_chains l chs r1 in (ch1 # chs1, r2))"

definition validate_all ::
  "check_lib \<Rightarrow> time \<Rightarrow> parsed_object list \<Rightarrow> chain_info list \<Rightarrow> bool \<Rightarrow> chain_info list \<times> validation" where
  "validate_all l now objects chs check_duplicates =
     validate_chains l chs (fold (validate_object l now check_duplicates) objects no_findings)"

subsection \<open>What makes an upload invalid\<close>

definition object_bad :: "check_lib \<Rightarrow> parsed_object \<Rightarrow> bool" where
  "object_bad l obj \<longleftrightarrow>
     po_type obj = PRIVATE_KEY \<and> po_is_encrypted obj \<and> po_key_algorithm obj = ''unknown (encrypted)'' \<or>
     po_type obj = CSR \<and> vl_csr l (po_raw_pem obj) \<noteq> Inr True"

lemma valid_adds [simp]:
  "vr_is_valid (add_error m r) = False" "vr_is_valid (add_warning m r) = vr_is_valid r" "vr_is_valid (add_info m r) = vr_is_valid r"
  by (simp_all add: add_error_def add_warning_def add_info_def)

lemma valid_certificate: "vr_is_valid (validate_certificate l now b obj r) = vr_is_valid r"
  by (simp add: validate_certificate_def Let_def split: option.split)

lemma valid_object: "vr_is_valid (validate_object l now b obj r) \<longleftrightarrow> vr_is_valid r \<and> \<not> object_bad l obj"
  by (cases "po_type obj")
    (auto simp: validate_object_def object_bad_def valid_certificate validate_key_def validate_csr_def Let_def split: sum.split)

lemma valid_errors: "vr_is_valid (fold add_error es r) \<longleftrightarrow> vr_is_valid r \<and> es = []"
  by (induction es arbitrary: r) auto

lemma valid_chain: "vr_is_valid (snd (validate_chain l ch r)) \<longleftrightarrow> vr_is_valid r \<and> ci_errors ch = []"
  by (simp add: validate_chain_def Let_def valid_errors split: option.split)

lemma valid_chains: "vr_is_valid (snd (validate_chains l chs r)) \<longleftrightarrow> vr_is_valid r \<and> list_all (\<lambda>ch. ci_errors ch = []) chs"
proof (induction chs arbitrary: r)
  case (Cons ch chs)
  then show ?case using valid_chain [of l ch r] by (auto simp: case_prod_beta Let_def)
qed simp

text \<open>An upload is refused exactly for an encrypted private key without its password, a request whose signature does not verify, or an
  error in a chain; expired certificates, weak keys, duplicates and missing issuers are only reported.\<close>

theorem upload_invalid_iff:
  "\<not> vr_is_valid (snd (validate_all l now objects chs b)) \<longleftrightarrow>
     list_ex (object_bad l) objects \<or> list_ex (\<lambda>ch. ci_errors ch \<noteq> []) chs"
proof -
  have "vr_is_valid (fold (validate_object l now b) objects r) \<longleftrightarrow> vr_is_valid r \<and> list_all (\<lambda>x. \<not> object_bad l x) objects" for r
    by (induction objects arbitrary: r) (auto simp: valid_object)
  then show ?thesis by (simp add: validate_all_def valid_chains no_findings_def) (auto simp: list_ex_iff list_all_iff)
qed

text \<open>A key identifier is believed without a signature: an incomplete chain whose last certificate carries the key identifier of the
  first trusted certificate with its issuer's name is marked complete and verified against the trust store, whatever the signatures.\<close>

theorem identifier_trusted_unsigned:
  assumes "\<not> ci_is_complete ch" "ci_leaf ch = Some leaf" "managed_issuer (vl_cas l) (po_aki (top_of leaf ch)) (po_issuer (top_of leaf ch)) = None"
    "vl_store l = Some (t # rows)" "tr_subject t = po_issuer (top_of leaf ch)" "nonempty (po_aki (top_of leaf ch))"
    "vl_trusted l (tr_certificate_pem t) = Some (po_aki (top_of leaf ch))"
  shows "let ch' = fst (validate_chain (l\<lparr>vl_signed := \<lambda>_ _. False\<rparr>) ch r) in
    ci_is_complete ch' \<and> ci_trust_source ch' = Some ''trust_store'' \<and> ci_trust_anchor ch' = Some (tr_name t)"
proof -
  have "find_in_trust_store (l\<lparr>vl_signed := \<lambda>_ _. False\<rparr>) (top_of leaf ch) = Some t"
    using assms(4-) by (simp add: find_in_trust_store_def store_candidates_def trusts_def Let_def)
  then show ?thesis using assms(1-3) by (simp add: validate_chain_def Let_def)
qed

definition demo_forged :: chain_info where
  "demo_forged = new_chain\<lparr>ci_leaf := Some (demo_object\<lparr>po_issuer := ''CN=Public Root'', po_aki := Some ''aa''\<rparr>)\<rparr>"

definition demo_check_lib :: check_lib where
  "demo_check_lib = \<lparr>vl_date = (\<lambda>_. None), vl_csr = (\<lambda>_. Inr True), vl_trusted = (\<lambda>_. Some (Some ''aa'')), vl_signed = (\<lambda>_ _. True),
     vl_store = Some [\<lparr>tr_name = ''Public Root'', tr_certificate_pem = ''root'', tr_subject = ''CN=Public Root''\<rparr>],
     vl_cas = [], vl_certificates = []\<rparr>"

lemma identifier_trusted_unsigned_witness:
  "ci_is_complete (fst (validate_chain (demo_check_lib\<lparr>vl_signed := \<lambda>_ _. False\<rparr>) demo_forged no_findings))"
  using identifier_trusted_unsigned [where ch = demo_forged and l = demo_check_lib and r = no_findings
      and leaf = "demo_object\<lparr>po_issuer := ''CN=Public Root'', po_aki := Some ''aa''\<rparr>"
      and t = "\<lparr>tr_name = ''Public Root'', tr_certificate_pem = ''root'', tr_subject = ''CN=Public Root''\<rparr>" and rows = "[]"]
  by (simp add: demo_forged_def demo_check_lib_def new_chain_def top_of_def managed_issuer_def nonempty_def Let_def)

end
