(* ===== verification/Users.thy ===== *)
theory Users
  imports Rbac Password_Policy Audit_Log
begin

text \<open>
  The user accounts, \<^verbatim>\<open>api/v2/users.py\<close>, over the tables of theory \<open>Rbac\<close> and the audit log. The client certificates of users, which other services issue, are left out.

  \<open>ue_hash\<close> is the password hash and \<open>ue_log\<close> the audit service with its clock. Texts in request bodies are texts and flags are
  flags; other JSON values, on which the handlers or the database raise, are outside the model, except in \<^verbatim>\<open>custom_role_id\<close>. An
  early return leaves the loaded row changed in a session that is dropped at the end of the request: the tables keep their rows.
\<close>

subsection \<open>Requests\<close>

record user_env =
  ue_hash :: "string \<Rightarrow> string"
  ue_log :: "audit_args \<Rightarrow> audit_log list \<Rightarrow> audit_log list"

record user_body =
  ub_username :: "string option"
  ub_email :: "string option"
  ub_password :: "string option"
  ub_full_name :: "string option"
  ub_role :: "string option"
  ub_custom_role_id :: "json option"
  ub_active :: "bool option"

record people =
  pe_db :: rbac_db
  pe_logs :: "audit_log list"

definition valid_roles :: "string list" where
  "valid_roles = [''admin'', ''operator'', ''auditor'', ''viewer'']"

definition invalid_role :: string where
  "invalid_role = ''Invalid role. Must be one of: '' @ join_with '', '' valid_roles"

text \<open>The first complaint of the password policy, if any.\<close>

definition validate_password_strength :: "string \<Rightarrow> string option \<Rightarrow> string + string option" where
  "validate_password_strength pw uname =
     (case validate_password (Some pw) None uname of
        Inl e \<Rightarrow> Inl e
      | Inr (ok, msgs) \<Rightarrow> Inr (if ok then None else Some (case msgs of [] \<Rightarrow> ''Invalid password'' | m # _ \<Rightarrow> m)))"

definition log_user_action :: "user_env \<Rightarrow> string \<Rightarrow> int \<Rightarrow> string \<Rightarrow> string \<Rightarrow> audit_log list \<Rightarrow> audit_log list" where
  "log_user_action e act i name text ls =
     ue_log e (audit_call act (Some ''user'') (Txt_id (str_int i)) (Txt name) (Txt text) True None) ls"

definition save_user :: "int \<Rightarrow> user \<Rightarrow> people \<Rightarrow> people" where
  "save_user i u st = st\<lparr>pe_db := (pe_db st)\<lparr>rb_users := row_update u_id i (\<lambda>_. u) (rb_users (pe_db st))\<rparr>\<rparr>"

subsection \<open>Reading\<close>

definition list_users :: "user \<Rightarrow> string option \<Rightarrow> string option \<Rightarrow> string option \<Rightarrow> people \<Rightarrow> user list http" where
  "list_users me role_arg active_arg search_arg st =
     (if role me \<noteq> ''admin'' then success_response [me] []
      else
        (let pat = ''%'' @ strip (or_else search_arg []) @ ''%'';
             sel = (\<lambda>u. (nonempty role_arg \<longrightarrow> role u = the role_arg) \<and>
                        (nonempty active_arg \<longrightarrow> active u = (lower (the active_arg) = ''true'')) \<and>
                        (strip (or_else search_arg []) \<noteq> [] \<longrightarrow>
                          ilike (Some (username u)) pat \<or> ilike (Some (email u)) pat \<or> ilike (full_name u) pat))
         in success_response
              (sort_key (\<lambda>u. case u_created_at u of None \<Rightarrow> 1 | Some t \<Rightarrow> - t) (filter sel (rb_users (pe_db st)))) []))"

definition get_user :: "user \<Rightarrow> int \<Rightarrow> people \<Rightarrow> user http" where
  "get_user me i st =
     (if role me \<noteq> ''admin'' \<and> u_id me \<noteq> i then error_response ''Access denied'' 403
      else (case row_get u_id (rb_users (pe_db st)) i of
              None \<Rightarrow> error_response ''User not found'' 404
            | Some u \<Rightarrow> success_response u []))"

subsection \<open>Creating users\<close>

text \<open>
  The custom role to store, or the response that ends the request. A false value is stored as it is; an empty text, which every
  reader takes for no role, is stored here as no role.
\<close>

definition check_custom_role :: "custom_role list \<Rightarrow> json \<Rightarrow> user http + int option" where
  "check_custom_role rs j =
     (if truthy j
      then (case json_to_int j of
              Int_value i \<Rightarrow> if row_get r_id rs i = None then Inl (error_response ''Custom role not found'' 404) else Inr (Some i)
            | Bad_value \<Rightarrow> Inr None
            | Bad_type \<Rightarrow> Inl (Raised ''TypeError''))
      else (case j of
              JInt i \<Rightarrow> Inr (Some i)
            | JBool _ \<Rightarrow> Inr (Some 0)
            | JList _ \<Rightarrow> Inl (error_response ''Failed to create user'' 500)
            | JObj _ \<Rightarrow> Inl (error_response ''Failed to create user'' 500)
            | _ \<Rightarrow> Inr None))"

definition new_user :: "user_env \<Rightarrow> time \<Rightarrow> int \<Rightarrow> string \<Rightarrow> string \<Rightarrow> string \<Rightarrow> string option \<Rightarrow> string \<Rightarrow> int option \<Rightarrow> bool \<Rightarrow> user" where
  "new_user e now i name mail pw full r cr act =
     \<lparr>u_id = i, username = name, email = mail, password_hash = ue_hash e pw, full_name = full, role = r,
      custom_role_id = cr, active = act, mfa_enabled = False, totp_secret = None, totp_confirmed = False,
      backup_codes = None, force_password_change = False, password_reset_token = None, password_reset_expires = None,
      u_created_at = Some now, last_login = None, login_count = Some 0, failed_logins = Some 0, locked_until = None\<rparr>"

definition add_user :: "user \<Rightarrow> people \<Rightarrow> people" where
  "add_user u st = st\<lparr>pe_db := (pe_db st)\<lparr>rb_users := rb_users (pe_db st) @ [u]\<rparr>\<rparr>"

text \<open>The checks of a request to create a user, and the row it asks for.\<close>

definition requested_user :: "user_env \<Rightarrow> time \<Rightarrow> user_body \<Rightarrow> rbac_db \<Rightarrow> user http + user" where
  "requested_user e now b db =
     (let us = rb_users db; r = (case ub_role b of None \<Rightarrow> ''viewer'' | Some x \<Rightarrow> x) in
      if \<not> nonempty (ub_username b) then Inl (error_response ''Username is required'' 400)
      else if \<not> nonempty (ub_email b) then Inl (error_response ''Email is required'' 400)
      else if \<not> nonempty (ub_password b) then Inl (error_response ''Password is required'' 400)
      else (case validate_password_strength (the (ub_password b)) (ub_username b) of
              Inl err \<Rightarrow> Inl (Raised err)
            | Inr (Some msg) \<Rightarrow> Inl (error_response msg 400)
            | Inr None \<Rightarrow>
                if list_ex (\<lambda>u. username u = the (ub_username b)) us then Inl (error_response ''Username already exists'' 409)
                else if list_ex (\<lambda>u. email u = the (ub_email b)) us then Inl (error_response ''Email already exists'' 409)
                else if r \<notin> set valid_roles then Inl (error_response invalid_role 400)
                else (case check_custom_role (roles db) (case ub_custom_role_id b of None \<Rightarrow> JNull | Some j \<Rightarrow> j) of
                        Inl r \<Rightarrow> Inl r
                      | Inr cr \<Rightarrow>
                          Inr (new_user e now (next_id u_id us) (the (ub_username b)) (the (ub_email b)) (the (ub_password b))
                            (Some (or_else (ub_full_name b) [])) r cr (case ub_active b of None \<Rightarrow> True | Some a \<Rightarrow> a)))))"

definition create_user :: "user_env \<Rightarrow> time \<Rightarrow> user \<Rightarrow> user_body \<Rightarrow> people \<Rightarrow> user http \<times> people" where
  "create_user e now me b st =
     (if role me \<noteq> ''admin'' then (error_response ''Insufficient permissions'' 403, st)
      else (case requested_user e now b (pe_db st) of
              Inl r \<Rightarrow> (r, st)
            | Inr u \<Rightarrow>
                (Success u (''User '' @ username u @ '' created successfully'') 201,
                 (add_user u st)\<lparr>pe_logs := log_user_action e ''user_create'' (u_id u) (username u)
                    (''Created user: '' @ username u @ '' (role: '' @ role u @ '')'') (pe_logs st)\<rparr>)))"

subsection \<open>Changing users\<close>

definition put_email :: "int \<Rightarrow> user list \<Rightarrow> user_body \<Rightarrow> user \<Rightarrow> user http + user" where
  "put_email i us b u =
     (case ub_email b of
        None \<Rightarrow> Inr u
      | Some m \<Rightarrow>
          if list_ex (\<lambda>x. email x = m \<and> u_id x \<noteq> i) us then Inl (error_response ''Email already in use'' 409)
          else Inr (u\<lparr>email := m\<rparr>))"

definition put_name :: "user_body \<Rightarrow> user \<Rightarrow> user http + user" where
  "put_name b u = Inr (case ub_full_name b of None \<Rightarrow> u | Some n \<Rightarrow> u\<lparr>full_name := Some n\<rparr>)"

definition put_role :: "user \<Rightarrow> user_body \<Rightarrow> user \<Rightarrow> user http + user" where
  "put_role me b u =
     (case ub_role b of
        None \<Rightarrow> Inr u
      | Some r \<Rightarrow>
          if role me \<noteq> ''admin'' then Inl (error_response ''Only admins can change roles'' 403)
          else if r \<notin> set valid_roles then Inl (error_response invalid_role 400)
          else Inr (u\<lparr>role := r\<rparr>))"

definition put_custom_role :: "user \<Rightarrow> custom_role list \<Rightarrow> user_body \<Rightarrow> user \<Rightarrow> user http + user" where
  "put_custom_role me rs b u =
     (case ub_custom_role_id b of
        None \<Rightarrow> Inr u
      | Some j \<Rightarrow>
          if role me \<noteq> ''admin'' then Inl (error_response ''Only admins can assign custom roles'' 403)
          else if truthy j
          then (case json_to_int j of
                  Int_value i \<Rightarrow>
                    if row_get r_id rs i = None then Inl (error_response ''Custom role not found'' 404)
                    else Inr (u\<lparr>custom_role_id := Some i\<rparr>)
                | Bad_value \<Rightarrow> Inl (error_response ''Invalid custom role ID'' 400)
                | Bad_type \<Rightarrow> Inl (Raised ''TypeError''))
          else Inr (u\<lparr>custom_role_id := None\<rparr>))"

definition put_active :: "user \<Rightarrow> user_body \<Rightarrow> user \<Rightarrow> user http + user" where
  "put_active me b u =
     (case ub_active b of
        None \<Rightarrow> Inr u
      | Some a \<Rightarrow>
          if role me \<noteq> ''admin'' then Inl (error_response ''Only admins can change active status'' 403)
          else Inr (u\<lparr>active := a\<rparr>))"

definition put_password :: "user_env \<Rightarrow> user_body \<Rightarrow> user \<Rightarrow> user http + user" where
  "put_password e b u =
     (if nonempty (ub_password b)
      then (case validate_password_strength (the (ub_password b)) None of
              Inl err \<Rightarrow> Inl (Raised err)
            | Inr (Some msg) \<Rightarrow> Inl (error_response msg 400)
            | Inr None \<Rightarrow> Inr (u\<lparr>password_hash := ue_hash e (the (ub_password b))\<rparr>))
      else Inr u)"

definition update_fields :: "user_env \<Rightarrow> user \<Rightarrow> int \<Rightarrow> user_body \<Rightarrow> rbac_db \<Rightarrow> user \<Rightarrow> user http + user" where
  "update_fields e me i b db u =
     and_then (put_email i (rb_users db) b u) (\<lambda>u.
     and_then (put_name b u) (\<lambda>u.
     and_then (put_role me b u) (\<lambda>u.
     and_then (put_custom_role me (roles db) b u) (\<lambda>u.
     and_then (put_active me b u) (put_password e b)))))"

definition update_user_account :: "user_env \<Rightarrow> user \<Rightarrow> int \<Rightarrow> user_body \<Rightarrow> people \<Rightarrow> user http \<times> people" where
  "update_user_account e me i b st =
     (if role me \<noteq> ''admin'' \<and> u_id me \<noteq> i then (error_response ''Access denied'' 403, st)
      else (case row_get u_id (rb_users (pe_db st)) i of
              None \<Rightarrow> (error_response ''User not found'' 404, st)
            | Some u \<Rightarrow>
                (case update_fields e me i b (pe_db st) u of
                   Inl r \<Rightarrow> (r, st)
                 | Inr u' \<Rightarrow>
                     (success_response u' (''User '' @ username u' @ '' updated successfully''),
                      (save_user i u' st)\<lparr>pe_logs := log_user_action e ''user_update'' i (username u')
                         (''Updated user: '' @ username u') (pe_logs st)\<rparr>))))"

definition delete_user :: "user_env \<Rightarrow> user \<Rightarrow> int \<Rightarrow> people \<Rightarrow> unit http \<times> people" where
  "delete_user e me i st =
     (if role me \<noteq> ''admin'' then (error_response ''Insufficient permissions'' 403, st)
      else if u_id me = i then (error_response ''Cannot delete your own account'' 403, st)
      else (case row_get u_id (rb_users (pe_db st)) i of
              None \<Rightarrow> (error_response ''User not found'' 404, st)
            | Some u \<Rightarrow>
                (success_response () (''User '' @ username u @ '' deactivated successfully''),
                 (save_user i (u\<lparr>active := False\<rparr>) st)\<lparr>pe_logs := log_user_action e ''user_deactivate'' i (username u)
                    (''Deactivated user: '' @ username u) (pe_logs st)\<rparr>)))"

record bulk_result =
  bk_success :: "int list"
  bk_failed :: "(int \<times> string) list"

definition bulk_one :: "user \<Rightarrow> bulk_result \<times> people \<Rightarrow> int \<Rightarrow> bulk_result \<times> people" where
  "bulk_one me acc i =
     (let (r, st) = acc in
      if u_id me = i then (r\<lparr>bk_failed := bk_failed r @ [(i, ''Cannot delete your own account'')]\<rparr>, st)
      else (case row_get u_id (rb_users (pe_db st)) i of
              None \<Rightarrow> (r\<lparr>bk_failed := bk_failed r @ [(i, ''Not found'')]\<rparr>, st)
            | Some u \<Rightarrow> (r\<lparr>bk_success := bk_success r @ [i]\<rparr>, save_user i (u\<lparr>active := False\<rparr>) st)))"

definition bulk_delete_users :: "user_env \<Rightarrow> user \<Rightarrow> int list \<Rightarrow> people \<Rightarrow> bulk_result http \<times> people" where
  "bulk_delete_users e me ids st =
     (if role me \<noteq> ''admin'' then (error_response ''Insufficient permissions'' 403, st)
      else if ids = [] then (error_response ''ids array required'' 400, st)
      else
        (let (r, st1) = foldl (bulk_one me) (\<lparr>bk_success = [], bk_failed = []\<rparr>, st) ids;
             n = str_nat (length (bk_success r))
         in (success_response r (n @ '' users deactivated''),
             st1\<lparr>pe_logs := ue_log e (audit_call ''users_bulk_deactivated'' (Some ''user'')
                (Txt_id (join_with '','' (map str_int (bk_success r)))) (Txt (n @ '' users''))
                (Txt (''Bulk deactivated '' @ n @ '' users'')) True None) (pe_logs st1)\<rparr>)))"

definition reset_user_password :: "user_env \<Rightarrow> user \<Rightarrow> int \<Rightarrow> string option \<Rightarrow> people \<Rightarrow> unit http \<times> people" where
  "reset_user_password e me i pw st =
     (if role me \<noteq> ''admin'' \<and> u_id me \<noteq> i then (error_response ''Access denied'' 403, st)
      else (case row_get u_id (rb_users (pe_db st)) i of
              None \<Rightarrow> (error_response ''User not found'' 404, st)
            | Some u \<Rightarrow>
                if \<not> nonempty pw then (error_response ''New password is required'' 400, st)
                else (case validate_password_strength (the pw) None of
                        Inl err \<Rightarrow> (Raised err, st)
                      | Inr (Some msg) \<Rightarrow> (error_response msg 400, st)
                      | Inr None \<Rightarrow>
                          (success_response () (''Password reset successfully for user '' @ username u),
                           (save_user i (u\<lparr>password_hash := ue_hash e (the pw)\<rparr>) st)
                             \<lparr>pe_logs := log_user_action e ''password_change'' i (username u)
                                (''Password reset for user: '' @ username u) (pe_logs st)\<rparr>))))"

definition toggle_user_status :: "user_env \<Rightarrow> user \<Rightarrow> int \<Rightarrow> people \<Rightarrow> user http \<times> people" where
  "toggle_user_status e me i st =
     (if role me \<noteq> ''admin'' then (error_response ''Insufficient permissions'' 403, st)
      else if u_id me = i then (error_response ''Cannot toggle your own account status'' 403, st)
      else (case row_get u_id (rb_users (pe_db st)) i of
              None \<Rightarrow> (error_response ''User not found'' 404, st)
            | Some u \<Rightarrow>
                (let u' = u\<lparr>active := \<not> active u\<rparr>;
                     status = (if active u' then ''activated'' else ''deactivated'')
                 in (success_response u' (''User '' @ username u @ '' '' @ status @ '' successfully''),
                     (save_user i u' st)\<lparr>pe_logs := log_user_action e (if active u' then ''user_activate'' else ''user_deactivate'')
                        i (username u) (''User '' @ username u @ '' '' @ status) (pe_logs st)\<rparr>))))"

subsection \<open>Importing users\<close>

text \<open>
  A row of the file: \<open>None\<close> is an absent or empty column. A full name may be in no column at all, or missing from a short row. With
  the default policy the password check does not raise (\<open>strength_total\<close>), so its first branch is not taken.
\<close>

record csv_row =
  cv_username :: "string option"
  cv_email :: "string option"
  cv_password :: "string option"
  cv_full_name :: "string option option"
  cv_role :: "string option"

text \<open>The uploaded file: its name and its rows, \<open>None\<close> if it cannot be decoded.\<close>

type_synonym csv_file = "string \<times> csv_row list option"

record import_count =
  ic_imported :: nat
  ic_skipped :: nat
  ic_errors :: "string list"

definition import_role :: "csv_row \<Rightarrow> string" where
  "import_role row =
     (case cv_role row of None \<Rightarrow> ''viewer'' | Some r \<Rightarrow> if r \<in> {''admin'', ''operator'', ''viewer''} then r else ''viewer'')"

definition import_row :: "user_env \<Rightarrow> time \<Rightarrow> import_count \<times> people \<Rightarrow> csv_row \<Rightarrow> import_count \<times> people" where
  "import_row e now acc row =
     (let (n, st) = acc; us = rb_users (pe_db st);
          skip = (\<lambda>msg. (n\<lparr>ic_skipped := ic_skipped n + 1,
                          ic_errors := ic_errors n @ [''Row '' @ str_nat (ic_imported n + ic_skipped n + 1) @ '': '' @ msg]\<rparr>, st))
      in if \<not> nonempty (cv_username row) \<or> \<not> nonempty (cv_email row) \<or> \<not> nonempty (cv_password row)
         then skip ''Missing required fields''
         else (case validate_password_strength (the (cv_password row)) None of
                 Inl err \<Rightarrow> skip err
               | Inr (Some msg) \<Rightarrow> skip msg
               | Inr None \<Rightarrow>
                   if list_ex (\<lambda>u. username u = the (cv_username row)) us
                   then skip (''Username '' @ [CHR 0x27] @ the (cv_username row) @ [CHR 0x27] @ '' already exists'')
                   else if list_ex (\<lambda>u. email u = the (cv_email row)) us
                   then skip (''Email '' @ [CHR 0x27] @ the (cv_email row) @ [CHR 0x27] @ '' already exists'')
                   else (n\<lparr>ic_imported := ic_imported n + 1\<rparr>,
                         add_user (new_user e now (next_id u_id us) (the (cv_username row)) (the (cv_email row))
                           (the (cv_password row)) (case cv_full_name row of None \<Rightarrow> Some [] | Some v \<Rightarrow> v) (import_role row) None True) st)))"

definition import_users :: "user_env \<Rightarrow> time \<Rightarrow> user \<Rightarrow> csv_file option \<Rightarrow> people \<Rightarrow> import_count http \<times> people" where
  "import_users e now me file st =
     (if role me \<noteq> ''admin'' then (error_response ''Insufficient permissions'' 403, st)
      else (case file of
              None \<Rightarrow> (error_response ''No file provided'' 400, st)
            | Some (name, content) \<Rightarrow>
                if name = [] then (error_response ''No file selected'' 400, st)
                else if \<not> endswith name ''.csv'' then (error_response ''File must be CSV format'' 400, st)
                else (case content of
                        None \<Rightarrow> (error_response ''Failed to import users'' 500, st)
                      | Some rows \<Rightarrow>
                          (let (n, st1) = foldl (import_row e now) (\<lparr>ic_imported = 0, ic_skipped = 0, ic_errors = []\<rparr>, st) rows;
                               text = ''Imported '' @ str_nat (ic_imported n) @ '' users, skipped '' @ str_nat (ic_skipped n)
                           in (success_response n text,
                               st1\<lparr>pe_logs := ue_log e (audit_call ''user_import'' (Some ''user'') No_id (Txt ''CSV Import'')
                                  (Txt text) True None) (pe_logs st1)\<rparr>)))))"

subsection \<open>Histories\<close>

datatype user_op =
    Create user_body
  | Update int user_body
  | Delete int
  | Bulk_delete "int list"
  | Reset_password int "string option"
  | Toggle int
  | Import_users "csv_file option"

primrec op_permission :: "user_op \<Rightarrow> string" where
  "op_permission (Create b) = ''write:users''"
| "op_permission (Update i b) = ''write:users''"
| "op_permission (Delete i) = ''delete:users''"
| "op_permission (Bulk_delete ids) = ''delete:users''"
| "op_permission (Reset_password i pw) = ''write:users''"
| "op_permission (Toggle i) = ''write:users''"
| "op_permission (Import_users file) = ''write:users''"

primrec handle :: "user_env \<Rightarrow> time \<Rightarrow> user \<Rightarrow> user_op \<Rightarrow> people \<Rightarrow> people" where
  "handle e now me (Create b) st = snd (create_user e now me b st)"
| "handle e now me (Update i b) st = snd (update_user_account e me i b st)"
| "handle e now me (Delete i) st = snd (delete_user e me i st)"
| "handle e now me (Bulk_delete ids) st = snd (bulk_delete_users e me ids st)"
| "handle e now me (Reset_password i pw) st = snd (reset_user_password e me i pw st)"
| "handle e now me (Toggle i) st = snd (toggle_user_status e me i st)"
| "handle e now me (Import_users file) st = snd (import_users e now me file st)"

text \<open>A request: its instant, the user it is authenticated as, the permissions it carries and the operation.\<close>

type_synonym user_event = "time \<times> int \<times> string list \<times> user_op"

definition user_step :: "user_env \<Rightarrow> people \<Rightarrow> user_event \<Rightarrow> people" where
  "user_step e st ev =
     (let (now, caller, perms, op) = ev in
      case row_get u_id (rb_users (pe_db st)) caller of
        None \<Rightarrow> st
      | Some me \<Rightarrow> if has_permission (op_permission op) perms then handle e now me op st else st)"

subsection \<open>The tables stay consistent\<close>

definition users_ok :: "people \<Rightarrow> bool" where
  "users_ok st \<longleftrightarrow> keys_ok u_id (rb_users (pe_db st)) \<and> distinct (map username (rb_users (pe_db st))) \<and>
     distinct (map email (rb_users (pe_db st))) \<and> (\<forall>u \<in> set (rb_users (pe_db st)). role u \<in> set valid_roles)"

lemma pe_db_logs [simp]: "rb_users (pe_db (st\<lparr>pe_logs := ls\<rparr>)) = rb_users (pe_db st)" "users_ok (st\<lparr>pe_logs := ls\<rparr>) = users_ok st"
  by (simp_all add: users_ok_def)

lemma rb_users_save [simp]: "rb_users (pe_db (save_user i u st)) = row_update u_id i (\<lambda>_. u) (rb_users (pe_db st))"
  by (simp add: save_user_def)

lemma rb_users_add [simp]: "rb_users (pe_db (add_user u st)) = rb_users (pe_db st) @ [u]"
  by (simp add: add_user_def)

lemma add_user_ok:
  assumes "users_ok st" "u_id u = next_id u_id (rb_users (pe_db st))" "\<not> list_ex (\<lambda>x. username x = username u) (rb_users (pe_db st))"
    "\<not> list_ex (\<lambda>x. email x = email u) (rb_users (pe_db st))" "role u \<in> set valid_roles"
  shows "users_ok (add_user u st)"
  using assms keys_ok_append [of u_id "rb_users (pe_db st)" u] by (auto simp: users_ok_def list_ex_iff)

lemma save_user_ok:
  assumes ok: "users_ok st" and u: "row_get u_id (rb_users (pe_db st)) i = Some u"
    and v: "u_id v = u_id u" "username v = username u" "role v \<in> set valid_roles"
    "\<not> list_ex (\<lambda>x. email x = email v \<and> u_id x \<noteq> i) (rb_users (pe_db st))"
  shows "users_ok (save_user i v st)"
proof -
  let ?us = "rb_users (pe_db st)"
  have u': "u \<in> set ?us" "u_id u = i" using row_get_Some [OF u] by simp_all
  have same: "x = u" if "x \<in> set ?us" "u_id x = i" for x
    using ok u' that by (auto simp: users_ok_def keys_ok_def distinct_map inj_on_def)
  have ids: "map u_id (row_update u_id i (\<lambda>_. v) ?us) = map u_id ?us"
    "map username (row_update u_id i (\<lambda>_. v) ?us) = map username ?us"
    using same v u'(2) by (intro map_row_update; metis)+
  have "distinct (map email (row_update u_id i (\<lambda>_. v) ?us))"
    using ok v(4) by (intro row_update_names) (auto simp: users_ok_def keys_ok_def list_ex_iff)
  moreover have "keys_ok u_id (row_update u_id i (\<lambda>_. v) ?us)"
    using ok v(1) u'(2) by (intro keys_ok_put) (simp_all add: users_ok_def)
  moreover have "\<forall>x \<in> set (row_update u_id i (\<lambda>_. v) ?us). role x \<in> set valid_roles"
    using ok v(3) by (auto simp: users_ok_def row_update_def)
  ultimately show ?thesis using ok ids(2) by (simp add: users_ok_def)
qed

text \<open>What an update may change, and who may change what.\<close>

lemma update_fields_kept:
  assumes "update_fields e me i b db u = Inr v"
  shows "u_id v = u_id u" "username v = username u" "role v = role u \<or> role v \<in> set valid_roles"
    "email v = email u \<or> \<not> list_ex (\<lambda>x. email x = email v \<and> u_id x \<noteq> i) (rb_users db)"
    "role me \<noteq> ''admin'' \<Longrightarrow> role v = role u \<and> custom_role_id v = custom_role_id u \<and> active v = active u"
    "ub_role b = None \<Longrightarrow> role v = role u" "ub_active b = None \<Longrightarrow> active v = active u"
proof -
  obtain u1 u2 u3 u4 u5 where u: "put_email i (rb_users db) b u = Inr u1" "put_name b u1 = Inr u2" "put_role me b u2 = Inr u3"
    "put_custom_role me (roles db) b u3 = Inr u4" "put_active me b u4 = Inr u5" "put_password e b u5 = Inr v"
    using assms unfolding update_fields_def and_then_Inr by blast
  have 1: "u_id u1 = u_id u" "username u1 = username u" "role u1 = role u" "active u1 = active u" "custom_role_id u1 = custom_role_id u"
    "email u1 = email u \<or> \<not> list_ex (\<lambda>x. email x = email u1 \<and> u_id x \<noteq> i) (rb_users db)"
    using u(1) by (auto simp: put_email_def split: option.splits if_splits)
  have 2: "u_id u2 = u_id u1" "username u2 = username u1" "role u2 = role u1" "active u2 = active u1" "custom_role_id u2 = custom_role_id u1" "email u2 = email u1"
    using u(2) by (auto simp: put_name_def split: option.splits)
  have 3: "u_id u3 = u_id u2" "username u3 = username u2" "active u3 = active u2" "custom_role_id u3 = custom_role_id u2" "email u3 = email u2"
    "role u3 = role u2 \<or> role u3 \<in> set valid_roles" "role me \<noteq> ''admin'' \<Longrightarrow> role u3 = role u2" "ub_role b = None \<Longrightarrow> role u3 = role u2"
    using u(3) by (auto simp: put_role_def split: option.splits if_splits)
  have 4: "u_id u4 = u_id u3" "username u4 = username u3" "role u4 = role u3" "active u4 = active u3" "email u4 = email u3"
    "role me \<noteq> ''admin'' \<Longrightarrow> custom_role_id u4 = custom_role_id u3"
    using u(4) by (auto simp: put_custom_role_def split: option.splits if_splits int_of.splits)
  have 5: "u_id u5 = u_id u4" "username u5 = username u4" "role u5 = role u4" "custom_role_id u5 = custom_role_id u4" "email u5 = email u4"
    "role me \<noteq> ''admin'' \<Longrightarrow> active u5 = active u4" "ub_active b = None \<Longrightarrow> active u5 = active u4"
    using u(5) by (auto simp: put_active_def split: option.splits if_splits)
  have 6: "u_id v = u_id u5" "username v = username u5" "role v = role u5" "active v = active u5" "custom_role_id v = custom_role_id u5" "email v = email u5"
    using u(6) by (auto simp: put_password_def split: option.splits if_splits sum.splits)
  show "u_id v = u_id u" "username v = username u" by (simp_all add: 1 2 3(1,2) 4 5 6)
  show "role v = role u \<or> role v \<in> set valid_roles" using 3(6) by (simp add: 1 2 4 5 6)
  show "email v = email u \<or> \<not> list_ex (\<lambda>x. email x = email v \<and> u_id x \<noteq> i) (rb_users db)" using 1(6) by (simp add: 2 3(5) 4 5 6)
  show "role v = role u \<and> custom_role_id v = custom_role_id u \<and> active v = active u" if "role me \<noteq> ''admin''"
    using 3(7) 4(6) 5(6) that by (simp add: 1 2 3(3,4) 4(3,4) 5(3,4) 6)
  show "role v = role u" if "ub_role b = None" using 3(8) that by (simp add: 1 2 4 5 6)
  show "active v = active u" if "ub_active b = None" using 5(7) that by (simp add: 1 2 3(3) 4 6)
qed

lemma row_get_save:
  assumes "row_get u_id (rb_users (pe_db st)) i = Some u" "u_id v = u_id u"
  shows "row_get u_id (rb_users (pe_db (save_user i v st))) j = (if j = i then Some v else row_get u_id (rb_users (pe_db st)) j)"
proof -
  have "u_id v = i" using assms row_get_Some [OF assms(1)] by simp
  then show ?thesis using assms(1) by (simp add: row_get_put)
qed

definition saves :: "int \<Rightarrow> (user \<Rightarrow> user \<Rightarrow> bool) \<Rightarrow> people \<Rightarrow> people \<Rightarrow> bool" where
  "saves i ok st st' \<longleftrightarrow> (\<exists>u v. row_get u_id (rb_users (pe_db st)) i = Some u \<and> u_id v = u_id u \<and> username v = username u \<and> ok u v \<and>
     rb_users (pe_db st') = row_update u_id i (\<lambda>_. v) (rb_users (pe_db st)))"

text \<open>Every handler either leaves the users alone, or saves one row, or, for an administrator, adds rows or switches rows off.\<close>

lemma update_cases:
  "rb_users (pe_db (snd (update_user_account e me i b st))) = rb_users (pe_db st) \<or>
   (role me = ''admin'' \<or> u_id me = i) \<and>
   saves i (\<lambda>u v. update_fields e me i b (pe_db st) u = Inr v) st (snd (update_user_account e me i b st))"
  using update_fields_kept(1,2)
  by (auto simp: update_user_account_def saves_def split: option.split sum.split)

lemma delete_cases:
  "rb_users (pe_db (snd (delete_user e me i st))) = rb_users (pe_db st) \<or>
   role me = ''admin'' \<and> u_id me \<noteq> i \<and> saves i (\<lambda>u v. v = u\<lparr>active := False\<rparr>) st (snd (delete_user e me i st))"
  by (auto simp: delete_user_def saves_def split: option.split)

lemma reset_cases:
  "rb_users (pe_db (snd (reset_user_password e me i pw st))) = rb_users (pe_db st) \<or>
   (role me = ''admin'' \<or> u_id me = i) \<and>
   saves i (\<lambda>u v. v = u\<lparr>password_hash := ue_hash e (the pw)\<rparr>) st (snd (reset_user_password e me i pw st))"
  by (auto simp: reset_user_password_def saves_def split: option.split sum.split)

lemma toggle_cases:
  "rb_users (pe_db (snd (toggle_user_status e me i st))) = rb_users (pe_db st) \<or>
   role me = ''admin'' \<and> u_id me \<noteq> i \<and> saves i (\<lambda>u v. v = u\<lparr>active := \<not> active u\<rparr>) st (snd (toggle_user_status e me i st))"
  by (auto simp: toggle_user_status_def saves_def Let_def split: option.split)

lemma requested_user_ok:
  assumes "requested_user e now b db = Inr u"
  shows "u_id u = next_id u_id (rb_users db)" "\<not> list_ex (\<lambda>x. username x = username u) (rb_users db)"
    "\<not> list_ex (\<lambda>x. email x = email u) (rb_users db)" "role u \<in> set valid_roles"
  using assms unfolding requested_user_def Let_def by (auto split: if_splits sum.splits option.splits simp: new_user_def)

lemma create_cases:
  "rb_users (pe_db (snd (create_user e now me b st))) = rb_users (pe_db st) \<or>
   role me = ''admin'' \<and> (\<exists>u. rb_users (pe_db (snd (create_user e now me b st))) = rb_users (pe_db st) @ [u] \<and>
     (users_ok st \<longrightarrow> users_ok (add_user u st)))"
  using add_user_ok [OF _ requested_user_ok] by (auto simp: create_user_def split: sum.split)

lemma own_email:
  assumes "users_ok st" "row_get u_id (rb_users (pe_db st)) i = Some u"
  shows "\<not> list_ex (\<lambda>x. email x = email u \<and> u_id x \<noteq> i) (rb_users (pe_db st))"
  using assms row_get_Some [OF assms(2)] by (auto simp: users_ok_def list_ex_iff distinct_map inj_on_def)

lemma saves_ok:
  assumes "users_ok st" "saves i ok st st'"
    "\<And>u v. ok u v \<Longrightarrow> role v = role u \<or> role v \<in> set valid_roles"
    "\<And>u v. ok u v \<Longrightarrow> email v = email u \<or> \<not> list_ex (\<lambda>x. email x = email v \<and> u_id x \<noteq> i) (rb_users (pe_db st))"
  shows "users_ok st'"
proof -
  obtain u v where u: "row_get u_id (rb_users (pe_db st)) i = Some u" "u_id v = u_id u" "username v = username u" "ok u v"
    "rb_users (pe_db st') = row_update u_id i (\<lambda>_. v) (rb_users (pe_db st))"
    using assms(2) by (auto simp: saves_def)
  have "role u \<in> set valid_roles" using assms(1) row_get_Some [OF u(1)] by (simp add: users_ok_def)
  then have "users_ok (save_user i v st)"
    using assms(3,4) [OF u(4)] own_email [OF assms(1) u(1)] u(2,3) by (intro save_user_ok [OF assms(1) u(1)]) auto
  then show ?thesis by (simp add: users_ok_def u(5))
qed

lemma saves_row:
  assumes "saves i ok st st'"
  shows "j \<noteq> i \<Longrightarrow> row_get u_id (rb_users (pe_db st')) j = row_get u_id (rb_users (pe_db st)) j"
    "\<exists>u v. row_get u_id (rb_users (pe_db st)) i = Some u \<and> row_get u_id (rb_users (pe_db st')) i = Some v \<and> ok u v"
proof -
  obtain u v where u: "row_get u_id (rb_users (pe_db st)) i = Some u" "u_id v = u_id u" "ok u v"
    "rb_users (pe_db st') = row_update u_id i (\<lambda>_. v) (rb_users (pe_db st))"
    using assms by (auto simp: saves_def)
  then have "rb_users (pe_db st') = rb_users (pe_db (save_user i v st))" by simp
  then have "row_get u_id (rb_users (pe_db st')) j = (if j = i then Some v else row_get u_id (rb_users (pe_db st)) j)" for j
    using row_get_save [OF u(1,2)] by simp
  then show "j \<noteq> i \<Longrightarrow> row_get u_id (rb_users (pe_db st')) j = row_get u_id (rb_users (pe_db st)) j"
    "\<exists>u v. row_get u_id (rb_users (pe_db st)) i = Some u \<and> row_get u_id (rb_users (pe_db st')) i = Some v \<and> ok u v"
    using u(1,3) by auto
qed

lemma same_users_ok: "rb_users (pe_db st') = rb_users (pe_db st) \<Longrightarrow> users_ok st' = users_ok st"
  by (simp add: users_ok_def)

lemma bulk_one_facts:
  "users_ok (snd acc) \<Longrightarrow> users_ok (snd (bulk_one me acc i))"
  "row_get u_id (rb_users (pe_db (snd (bulk_one me acc i)))) (u_id me) = row_get u_id (rb_users (pe_db (snd acc))) (u_id me)"
proof -
  obtain r st where acc: "acc = (r, st)" by fastforce
  have c: "rb_users (pe_db (snd (bulk_one me acc i))) = rb_users (pe_db st) \<or>
      u_id me \<noteq> i \<and> saves i (\<lambda>u v. v = u\<lparr>active := False\<rparr>) st (snd (bulk_one me acc i))"
    by (cases "row_get u_id (rb_users (pe_db st)) i") (auto simp: acc bulk_one_def saves_def)
  show "users_ok (snd acc) \<Longrightarrow> users_ok (snd (bulk_one me acc i))"
    using c saves_ok [of st i "\<lambda>u v. v = u\<lparr>active := False\<rparr>"] same_users_ok [of "snd (bulk_one me acc i)" st]
    by (elim disjE conjE) (simp_all add: acc)
  show "row_get u_id (rb_users (pe_db (snd (bulk_one me acc i)))) (u_id me) = row_get u_id (rb_users (pe_db (snd acc))) (u_id me)"
    using c saves_row(1) by (elim disjE conjE) (simp_all add: acc)
qed

lemma bulk_facts:
  "users_ok (snd acc) \<Longrightarrow> users_ok (snd (foldl (bulk_one me) acc ids))"
  "row_get u_id (rb_users (pe_db (snd (foldl (bulk_one me) acc ids)))) (u_id me) = row_get u_id (rb_users (pe_db (snd acc))) (u_id me)"
  by (induction ids arbitrary: acc) (simp_all add: bulk_one_facts)

lemma strength_total: "\<exists>r. validate_password_strength pw uname = Inr r"
  by (simp add: validate_password_strength_def validate_password_def DEFAULT_POLICY_def Let_def)

lemma import_row_cases:
  obtains (same) "snd (import_row e now acc row) = snd acc"
  | (added) u where "snd (import_row e now acc row) = add_user u (snd acc)"
      "u_id u = next_id u_id (rb_users (pe_db (snd acc)))"
      "\<not> list_ex (\<lambda>x. username x = username u) (rb_users (pe_db (snd acc)))"
      "\<not> list_ex (\<lambda>x. email x = email u) (rb_users (pe_db (snd acc)))" "role u \<in> set valid_roles"
proof -
  obtain n st where acc: "acc = (n, st)" by fastforce
  have r: "import_role row \<in> set valid_roles" by (simp add: import_role_def valid_roles_def split: option.split)
  obtain v where v: "validate_password_strength (the (cv_password row)) None = Inr v" using strength_total by blast
  show thesis
  proof (cases "\<not> nonempty (cv_username row) \<or> \<not> nonempty (cv_email row) \<or> \<not> nonempty (cv_password row) \<or> v \<noteq> None \<or>
      list_ex (\<lambda>u. username u = the (cv_username row)) (rb_users (pe_db st)) \<or>
      list_ex (\<lambda>u. email u = the (cv_email row)) (rb_users (pe_db st))")
    case True
    then have "snd (import_row e now acc row) = snd acc"
      unfolding acc import_row_def Let_def by (cases v) (auto simp: v)
    then show thesis by (rule same)
  next
    case False
    let ?u = "new_user e now (next_id u_id (rb_users (pe_db st))) (the (cv_username row)) (the (cv_email row))
      (the (cv_password row)) (case cv_full_name row of None \<Rightarrow> Some [] | Some v \<Rightarrow> v) (import_role row) None True"
    have "snd (import_row e now acc row) = add_user ?u (snd acc)"
      using False unfolding acc import_row_def Let_def by (simp add: v)
    then show thesis by (rule added) (use False r in \<open>simp_all add: acc new_user_def\<close>)
  qed
qed

lemma row_get_append: "row_get key rows i = Some x \<Longrightarrow> row_get key (rows @ [r]) i = Some x"
  by (simp add: row_get_def find_append)

lemma import_row_facts:
  "users_ok (snd acc) \<Longrightarrow> users_ok (snd (import_row e now acc row))"
  "row_get u_id (rb_users (pe_db (snd acc))) j = Some x \<Longrightarrow>
   row_get u_id (rb_users (pe_db (snd (import_row e now acc row)))) j = Some x"
  by (cases rule: import_row_cases [of e now acc row]; simp add: add_user_ok row_get_append)+

lemma import_facts:
  "users_ok (snd acc) \<Longrightarrow> users_ok (snd (foldl (import_row e now) acc rows))"
  "row_get u_id (rb_users (pe_db (snd acc))) j = Some x \<Longrightarrow>
   row_get u_id (rb_users (pe_db (snd (foldl (import_row e now) acc rows)))) j = Some x"
  by (induction rows arbitrary: acc) (simp_all add: import_row_facts)


lemma handle_users_ok:
  assumes "users_ok st"
  shows "users_ok (handle e now me op st)"
proof (cases op)
  case (Create b)
  then show ?thesis
    using create_cases [of e now me b st] assms same_users_ok [of "handle e now me op st"] by (auto simp: users_ok_def)
next
  case (Update i b)
  then show ?thesis
    using update_cases [of e me i b st] assms same_users_ok [of "handle e now me op st" st]
      saves_ok [OF assms _ update_fields_kept(3,4)] by auto
next
  case (Delete i)
  then show ?thesis
    using delete_cases [of e me i st] assms same_users_ok [of "handle e now me op st" st]
      saves_ok [OF assms, of i "\<lambda>u v. v = u\<lparr>active := False\<rparr>"] by auto
next
  case (Bulk_delete ids)
  then show ?thesis
    using bulk_facts(1) [of "(\<lparr>bk_success = [], bk_failed = []\<rparr>, st)" me ids] assms
    by (simp add: bulk_delete_users_def Let_def split_beta)
next
  case (Reset_password i pw)
  then show ?thesis
    using reset_cases [of e me i pw st] assms same_users_ok [of "handle e now me op st" st]
      saves_ok [OF assms, of i "\<lambda>u v. v = u\<lparr>password_hash := ue_hash e (the pw)\<rparr>"] by auto
next
  case (Toggle i)
  then show ?thesis
    using toggle_cases [of e me i st] assms same_users_ok [of "handle e now me op st" st]
      saves_ok [OF assms, of i "\<lambda>u v. v = u\<lparr>active := \<not> active u\<rparr>"] by auto
next
  case (Import_users csv)
  then show ?thesis
    using import_facts(1) [of "(\<lparr>ic_imported = 0, ic_skipped = 0, ic_errors = []\<rparr>, st)" e now] assms
    by (simp add: import_users_def Let_def split_beta split: option.split)
qed

interpretation user_table: invariant_system "user_step e" users_ok for e
  by unfold_locales (auto simp: user_step_def handle_users_ok split: option.split)

subsection \<open>Privileges\<close>

text \<open>The part of a user's row that decides what the user may do.\<close>

definition privileges :: "people \<Rightarrow> (int \<times> string \<times> string \<times> int option \<times> bool) list" where
  "privileges st = map (\<lambda>u. (u_id u, username u, role u, custom_role_id u, active u)) (rb_users (pe_db st))"

lemma saves_privileges:
  assumes "users_ok st" "saves i ok st st'"
    "\<And>u v. ok u v \<Longrightarrow> role v = role u \<and> custom_role_id v = custom_role_id u \<and> active v = active u"
  shows "privileges st' = privileges st"
proof -
  obtain u v where u: "row_get u_id (rb_users (pe_db st)) i = Some u" "u_id v = u_id u" "username v = username u" "ok u v"
    "rb_users (pe_db st') = row_update u_id i (\<lambda>_. v) (rb_users (pe_db st))"
    using assms(2) by (auto simp: saves_def)
  have "x = u" if "x \<in> set (rb_users (pe_db st))" "u_id x = i" for x
    using assms(1) row_get_Some [OF u(1)] that by (auto simp: users_ok_def keys_ok_def distinct_map inj_on_def)
  then show ?thesis
    using assms(3) [OF u(4)] u(2,3) unfolding privileges_def u(5) by (intro map_row_update) auto
qed

lemma same_privileges: "rb_users (pe_db st') = rb_users (pe_db st) \<Longrightarrow> privileges st' = privileges st"
  by (simp add: privileges_def)

text \<open>A handler called by anyone but an administrator saves at most the caller's row, and not the privileges in it.\<close>

lemma non_admin_handle:
  assumes "role me \<noteq> ''admin''" "users_ok st"
  shows "privileges (handle e now me op st) = privileges st"
    "j \<noteq> u_id me \<Longrightarrow> row_get u_id (rb_users (pe_db (handle e now me op st))) j = row_get u_id (rb_users (pe_db st)) j"
proof -
  have c: "rb_users (pe_db (handle e now me op st)) = rb_users (pe_db st) \<or>
      (\<exists>ok. saves (u_id me) ok st (handle e now me op st) \<and>
        (\<forall>u v. ok u v \<longrightarrow> role v = role u \<and> custom_role_id v = custom_role_id u \<and> active v = active u))"
  proof (cases op)
    case (Update i b)
    then show ?thesis
      using update_cases [of e me i b st] update_fields_kept(5) [OF _ assms(1)] assms(1)
      by (intro disj_imp [THEN iffD2] impI exI [of _ "\<lambda>u v. update_fields e me i b (pe_db st) u = Inr v"]) simp_all
  next
    case (Reset_password i pw)
    then show ?thesis
      using reset_cases [of e me i pw st] assms(1)
      by (intro disj_imp [THEN iffD2] impI exI [of _ "\<lambda>u v. v = u\<lparr>password_hash := ue_hash e (the pw)\<rparr>"]) simp_all
  qed (simp_all add: assms(1) create_user_def delete_user_def bulk_delete_users_def toggle_user_status_def import_users_def)
  then show "privileges (handle e now me op st) = privileges st"
  proof (elim disjE exE conjE)
    fix ok assume "saves (u_id me) ok st (handle e now me op st)"
      and "\<forall>u v. ok u v \<longrightarrow> role v = role u \<and> custom_role_id v = custom_role_id u \<and> active v = active u"
    then show ?thesis by (intro saves_privileges [OF assms(2)]) blast+
  qed (rule same_privileges)
  show "row_get u_id (rb_users (pe_db (handle e now me op st))) j = row_get u_id (rb_users (pe_db st)) j" if "j \<noteq> u_id me"
    using c saves_row(1) [OF _ that] by (elim disjE exE conjE) simp_all
qed


lemma user_step_cases:
  obtains (none) "user_step e st (now, caller, perms, op) = st"
  | (handled) me where "row_get u_id (rb_users (pe_db st)) caller = Some me" "u_id me = caller"
      "user_step e st (now, caller, perms, op) = handle e now me op st"
proof (cases "row_get u_id (rb_users (pe_db st)) caller")
  case None
  then show thesis using none by (simp add: user_step_def)
next
  case (Some me)
  then show thesis using none handled row_get_Some [OF Some] by (cases "has_permission (op_permission op) perms") (simp_all add: user_step_def)
qed

text \<open>An administrator keeps its own role, and stays active, except by changing its own row.\<close>

lemma admin_update:
  assumes me: "row_get u_id (rb_users (pe_db st)) (u_id me) = Some me"
    and own: "i = u_id me \<Longrightarrow> ub_role b = None \<and> ub_active b = None"
  shows "\<exists>v. row_get u_id (rb_users (pe_db (snd (update_user_account e me i b st)))) (u_id me) = Some v \<and>
    role v = role me \<and> active v = active me"
proof -
  consider (same) "rb_users (pe_db (snd (update_user_account e me i b st))) = rb_users (pe_db st)"
    | (other) "i \<noteq> u_id me" "saves i (\<lambda>u v. update_fields e me i b (pe_db st) u = Inr v) st (snd (update_user_account e me i b st))"
    | (self) "i = u_id me" "saves i (\<lambda>u v. update_fields e me i b (pe_db st) u = Inr v) st (snd (update_user_account e me i b st))"
    using update_cases [of e me i b st] by blast
  then show ?thesis
  proof cases
    case other
    then show ?thesis using saves_row(1) [OF other(2)] me by simp
  next
    case self
    then obtain v where v: "row_get u_id (rb_users (pe_db (snd (update_user_account e me i b st)))) i = Some v"
      "update_fields e me i b (pe_db st) me = Inr v"
      using saves_row(2) me by fastforce
    then show ?thesis using update_fields_kept(6,7) [OF v(2)] own self(1) by simp
  qed (simp add: me)
qed

lemma admin_handle:
  assumes "role me = ''admin''" "active me" "row_get u_id (rb_users (pe_db st)) (u_id me) = Some me"
    and own: "\<And>b. op = Update (u_id me) b \<Longrightarrow> ub_role b = None \<and> ub_active b = None"
  shows "\<exists>v. row_get u_id (rb_users (pe_db (handle e now me op st))) (u_id me) = Some v \<and> role v = ''admin'' \<and> active v"
proof (cases op)
  case (Create b)
  then show ?thesis using create_cases [of e now me b st] assms(1,2) row_get_append [OF assms(3)] assms(3)
    by (elim disjE exE conjE) simp_all
next
  case (Update i b)
  then show ?thesis using admin_update [OF assms(3), of i b e] own assms(1,2) by auto
next
  case (Delete i)
  then show ?thesis
    using delete_cases [of e me i st] assms(1-3) saves_row(1) [of i _ st "handle e now me op st" "u_id me"]
    by (elim disjE conjE) simp_all
next
  case (Bulk_delete ids)
  then show ?thesis
    using bulk_facts(2) [of me "(\<lparr>bk_success = [], bk_failed = []\<rparr>, st)" ids] assms(1-3)
    by (simp add: bulk_delete_users_def Let_def split_beta)
next
  case (Reset_password i pw)
  show ?thesis
  proof (cases "i = u_id me")
    case True
    then show ?thesis
      using reset_cases [of e me i pw st] assms(1-3) Reset_password
        saves_row(2) [of i "\<lambda>u v. v = u\<lparr>password_hash := ue_hash e (the pw)\<rparr>" st "handle e now me op st"]
      by (elim disjE conjE) auto
  next
    case False
    then show ?thesis
      using reset_cases [of e me i pw st] assms(1-3) Reset_password saves_row(1) [of i _ st "handle e now me op st" "u_id me"]
      by (elim disjE conjE) simp_all
  qed
next
  case (Toggle i)
  then show ?thesis
    using toggle_cases [of e me i st] assms(1-3) saves_row(1) [of i _ st "handle e now me op st" "u_id me"]
    by (elim disjE conjE) simp_all
next
  case (Import_users csv)
  then show ?thesis
    using import_facts(2) [of "(\<lparr>ic_imported = 0, ic_skipped = 0, ic_errors = []\<rparr>, st)" "u_id me" me e now] assms(1-3)
    by (simp add: import_users_def Let_def split_beta split: option.split)
qed


definition has_admin :: "people \<Rightarrow> bool" where
  "has_admin st \<longleftrightarrow> list_ex (\<lambda>u. role u = ''admin'' \<and> active u) (rb_users (pe_db st))"

lemma has_admin_privileges: "has_admin st = list_ex (\<lambda>(i, n, r, c, a). r = ''admin'' \<and> a) (privileges st)"
  by (simp add: has_admin_def privileges_def list_ex_iff)

text \<open>Requests whose caller, if an administrator, is active and does not set its own role or status.\<close>

definition orderly :: "people \<Rightarrow> user_event \<Rightarrow> bool" where
  "orderly st ev =
     (let (now, caller, perms, op) = ev in
      case row_get u_id (rb_users (pe_db st)) caller of
        None \<Rightarrow> True
      | Some me \<Rightarrow> role me \<noteq> ''admin'' \<or>
          active me \<and> (case op of Update i b \<Rightarrow> i = caller \<longrightarrow> ub_role b = None \<and> ub_active b = None | _ \<Rightarrow> True))"

primrec orderly_run :: "user_env \<Rightarrow> people \<Rightarrow> user_event list \<Rightarrow> bool" where
  "orderly_run e st [] = True"
| "orderly_run e st (ev # evs) = (orderly st ev \<and> orderly_run e (user_step e st ev) evs)"

lemma step_has_admin:
  assumes "users_ok st" "has_admin st" "orderly st ev"
  shows "has_admin (user_step e st ev)"
proof -
  obtain now caller perms op where ev: "ev = (now, caller, perms, op)" using prod_cases4 by blast
  show ?thesis
  proof (cases rule: user_step_cases [of e st now caller perms op])
    case none
    then show ?thesis using assms(2) ev by simp
  next
    case (handled me)
    show ?thesis
    proof (cases "role me = ''admin''")
      case True
      then have "\<exists>v. row_get u_id (rb_users (pe_db (handle e now me op st))) (u_id me) = Some v \<and> role v = ''admin'' \<and> active v"
        using assms(3) handled(1,2) ev by (intro admin_handle) (auto simp: orderly_def)
      then obtain v where "v \<in> set (rb_users (pe_db (handle e now me op st)))" "role v = ''admin''" "active v"
        using row_get_Some by metis
      then show ?thesis using handled(3) ev by (auto simp: has_admin_def list_ex_iff)
    next
      case False
      then show ?thesis using non_admin_handle(1) [OF False assms(1)] handled(3) assms(2) ev by (simp add: has_admin_privileges)
    qed
  qed
qed

definition unprivileged :: "people \<Rightarrow> user_event \<Rightarrow> bool" where
  "unprivileged st ev = (\<forall>p \<in> set (privileges st). fst p = fst (snd ev) \<longrightarrow> fst (snd (snd p)) \<noteq> ''admin'')"

lemma unprivileged_step:
  assumes "users_ok st" "unprivileged st ev"
  shows "privileges (user_step e st ev) = privileges st"
    "j \<noteq> fst (snd ev) \<Longrightarrow> row_get u_id (rb_users (pe_db (user_step e st ev))) j = row_get u_id (rb_users (pe_db st)) j"
proof -
  obtain now caller perms op where ev: "ev = (now, caller, perms, op)" using prod_cases4 by blast
  have "privileges (user_step e st ev) = privileges st \<and>
    (\<forall>j. j \<noteq> caller \<longrightarrow> row_get u_id (rb_users (pe_db (user_step e st ev))) j = row_get u_id (rb_users (pe_db st)) j)"
  proof (cases rule: user_step_cases [of e st now caller perms op])
    case (handled me)
    have "role me \<noteq> ''admin''"
      using assms(2) row_get_Some [OF handled(1)] by (auto simp: unprivileged_def privileges_def ev)
    then show ?thesis using non_admin_handle [OF _ assms(1)] handled ev by simp
  qed (simp add: ev)
  then show "privileges (user_step e st ev) = privileges st"
    "j \<noteq> fst (snd ev) \<Longrightarrow> row_get u_id (rb_users (pe_db (user_step e st ev))) j = row_get u_id (rb_users (pe_db st)) j"
    by (simp_all add: ev)
qed


lemma unprivileged_run:
  assumes "users_ok st" "list_all (unprivileged st) evs"
  shows "privileges (foldl (user_step e) st evs) = privileges st"
    "j \<notin> (\<lambda>ev. fst (snd ev)) ` set evs \<Longrightarrow>
     row_get u_id (rb_users (pe_db (foldl (user_step e) st evs))) j = row_get u_id (rb_users (pe_db st)) j"
  using assms
proof (induction evs arbitrary: st)
  case (Cons ev evs)
  {
    case 1
    have "privileges (user_step e st ev) = privileges st" using 1 by (simp add: unprivileged_step(1))
    then show ?case using 1 Cons(1) [of "user_step e st ev"] user_table.step_inv by (simp add: unprivileged_def)
  next
    case 2
    have "privileges (user_step e st ev) = privileges st" using 2 by (simp add: unprivileged_step(1))
    then show ?case
      using 2 Cons(2) [of "user_step e st ev"] user_table.step_inv unprivileged_step(2) [of st ev j e] by (simp add: unprivileged_def)
  }
qed simp_all

subsection \<open>Properties\<close>

definition demo_person :: "int \<Rightarrow> string \<Rightarrow> string \<Rightarrow> user" where
  "demo_person i name r =
     \<lparr>u_id = i, username = name, email = name @ ''@x'', password_hash = ''h'', full_name = None, role = r,
      custom_role_id = None, active = True, mfa_enabled = False, totp_secret = None, totp_confirmed = False,
      backup_codes = None, force_password_change = False, password_reset_token = None, password_reset_expires = None,
      u_created_at = None, last_login = None, login_count = Some 0, failed_logins = Some 0, locked_until = None\<rparr>"

definition demo_people :: people where
  "demo_people = \<lparr>pe_db = \<lparr>rb_users = [demo_person 1 ''root'' ''admin'', demo_person 2 ''bob'' ''operator''],
     roles = [], groups = [], members = []\<rparr>, pe_logs = []\<rparr>"

definition demo_user_env :: user_env where
  "demo_user_env = \<lparr>ue_hash = rev, ue_log = (\<lambda>_ ls. ls)\<rparr>"

definition empty_body :: user_body where
  "empty_body = \<lparr>ub_username = None, ub_email = None, ub_password = None, ub_full_name = None, ub_role = None,
     ub_custom_role_id = None, ub_active = None\<rparr>"

definition step_down :: user_body where
  "step_down = empty_body\<lparr>ub_role := Some ''viewer''\<rparr>"

text \<open>C28. Requests of users who are not administrators, with whatever permissions, change no user's name, role, custom role or
  status, add no user, and change no row but their callers' own.\<close>

theorem non_admins_confined:
  assumes "users_ok st" "list_all (unprivileged st) evs"
  shows "privileges (foldl (user_step e) st evs) = privileges st \<and>
    (\<forall>j. j \<notin> (\<lambda>ev. fst (snd ev)) ` set evs \<longrightarrow>
      row_get u_id (rb_users (pe_db (foldl (user_step e) st evs))) j = row_get u_id (rb_users (pe_db st)) j)"
  using unprivileged_run [OF assms] by blast

theorem non_admins_confined_witness:
  "privileges (foldl (user_step demo_user_env) demo_people
     [(5, 2, [''*''], Update 1 step_down), (6, 2, [''*''], Update 2 (empty_body\<lparr>ub_role := Some ''admin''\<rparr>)),
      (7, 2, [''*''], Toggle 1), (8, 2, [''*''], Bulk_delete [1])]) = privileges demo_people"
  by (rule non_admins_confined [THEN conjunct1]) code_simp+

text \<open>A system with an active administrator keeps one, as long as no administrator acts while deactivated or sets its own role
  or status: deleting, toggling and bulk deactivation spare the caller.\<close>

theorem admin_remains:
  assumes "users_ok st" "has_admin st" "orderly_run e st evs"
  shows "has_admin (foldl (user_step e) st evs)"
  using assms by (induction evs arbitrary: st) (simp_all add: step_has_admin user_table.step_inv)

theorem admin_remains_witness:
  "has_admin (foldl (user_step demo_user_env) demo_people
     [(5, 1, [''*''], Update 2 (empty_body\<lparr>ub_role := Some ''admin''\<rparr>)), (6, 2, [''*''], Delete 1), (7, 2, [''*''], Delete 2),
      (8, 2, [''*''], Bulk_delete [1, 2])])"
  by (rule admin_remains) code_simp+

lemma step_down_users:
  assumes "row_get u_id (rb_users (pe_db st)) i = Some me" "role me = ''admin''" "has_permission ''write:users'' perms"
  shows "rb_users (pe_db (user_step e st (now, i, perms, Update i step_down))) =
    row_update u_id i (\<lambda>_. me\<lparr>role := ''viewer''\<rparr>) (rb_users (pe_db st))"
  using assms
  by (simp add: user_step_def update_user_account_def update_fields_def put_email_def put_name_def put_role_def
      put_custom_role_def put_active_def put_password_def step_down_def empty_body_def valid_roles_def and_then_def nonempty_def)

text \<open>The update of one's own row has no such guard: the only administrator can make itself a viewer, after which no sequence
  of requests brings an administrator back.\<close>

theorem last_admin_steps_down:
  assumes "users_ok st" "row_get u_id (rb_users (pe_db st)) i = Some me" "role me = ''admin''"
    and "list_all (\<lambda>u. role u = ''admin'' \<longrightarrow> u_id u = i) (rb_users (pe_db st))" "has_permission ''write:users'' perms"
  shows "\<not> has_admin (foldl (user_step e) (user_step e st (now, i, perms, Update i step_down)) evs)"
proof -
  let ?st = "user_step e st (now, i, perms, Update i step_down)"
  have v: "list_all (\<lambda>p. fst (snd (snd p)) \<noteq> ''admin'') (privileges ?st)"
    using assms(4) unfolding privileges_def step_down_users [OF assms(2,3,5)] by (auto simp: row_update_def list_all_iff)
  then have "list_all (unprivileged ?st) evs" by (auto simp: unprivileged_def list_all_iff)
  then have "privileges (foldl (user_step e) ?st evs) = privileges ?st"
    using user_table.step_inv [OF assms(1)] by (rule unprivileged_run(1) [rotated])
  then show ?thesis using v by (auto simp: has_admin_privileges list_all_iff list_ex_iff)
qed

theorem last_admin_steps_down_witness:
  "\<not> has_admin (foldl (user_step demo_user_env) (user_step demo_user_env demo_people (5, 1, [''*''], Update 1 step_down))
     [(6, 1, [''*''], Update 1 (empty_body\<lparr>ub_role := Some ''admin''\<rparr>))])"
proof -
  have "users_ok demo_people" "row_get u_id (rb_users (pe_db demo_people)) 1 = Some (demo_person 1 ''root'' ''admin'')" by code_simp+
  moreover have "role (demo_person 1 ''root'' ''admin'') = ''admin''" by code_simp
  moreover have "list_all (\<lambda>u. role u = ''admin'' \<longrightarrow> u_id u = 1) (rb_users (pe_db demo_people))" by code_simp
  moreover have "has_permission ''write:users'' [''*'']" by code_simp
  ultimately show ?thesis by (rule last_admin_steps_down)
qed

end
