(* ===== verification/User_Groups.thy ===== *)
theory User_Groups
  imports Users Text_Format "HOL-Library.Char_ord" "HOL-Library.List_Lexorder"
begin

text \<open>
  The groups of users and their members, \<^verbatim>\<open>api/v2/groups.py\<close>, over the same tables as theory \<open>Users\<close>, and the invariant of all
  these tables over mixed sequences of requests. Names and descriptions in request bodies are texts; the permissions are any JSON value.
\<close>

subsection \<open>Permissions of groups\<close>

definition VALID_GROUP_PERMISSIONS :: "string list" where
  "VALID_GROUP_PERMISSIONS =
     [''read:cas'', ''write:cas'', ''delete:cas'', ''read:certs'', ''write:certs'', ''delete:certs'',
      ''read:csrs'', ''write:csrs'', ''delete:csrs'', ''read:templates'', ''write:templates'',
      ''read:users'', ''write:users'', ''read:groups'', ''write:groups'', ''delete:groups'',
      ''read:audit'', ''export:audit'', ''read:settings'', ''write:settings'']"

text \<open>\<^verbatim>\<open>repr\<close> of parsed JSON, which the complaint about permissions prints.\<close>

definition repr_char :: "char \<Rightarrow> char \<Rightarrow> string" where
  "repr_char q c =
     (let n = of_char c :: nat in
      if c = q \<or> c = CHR 0x5C then [CHR 0x5C, c]
      else if c = CHR 0x09 then [CHR 0x5C, CHR ''t'']
      else if c = CHR 0x0A then [CHR 0x5C, CHR ''n'']
      else if c = CHR 0x0D then [CHR 0x5C, CHR ''r'']
      else if n < 32 \<or> 127 \<le> n \<and> n \<le> 160 \<or> n = 173 then [CHR 0x5C, CHR ''x'', hex_digit (n div 16), hex_digit (n mod 16)]
      else [c])"

definition repr_text :: "string \<Rightarrow> string" where
  "repr_text s =
     (let q = (if CHR 0x27 \<in> set s \<and> CHR 0x22 \<notin> set s then CHR 0x22 else CHR 0x27)
      in [q] @ concat (map (repr_char q) s) @ [q])"

fun repr_json :: "json \<Rightarrow> string" where
  "repr_json JNull = ''None''"
| "repr_json (JBool b) = (if b then ''True'' else ''False'')"
| "repr_json (JInt i) = str_int i"
| "repr_json (JStr s) = repr_text s"
| "repr_json (JList js) = ''['' @ join_with '', '' (map repr_json js) @ '']''"
| "repr_json (JObj kvs) = ''{'' @ join_with '', '' (map (\<lambda>kv. repr_text (fst kv) @ '': '' @ repr_json (snd kv)) kvs) @ ''}''"

definition text_of :: "json \<Rightarrow> string option" where
  "text_of j = (case j of JStr s \<Rightarrow> Some s | _ \<Rightarrow> None)"

definition valid_permission :: "json \<Rightarrow> bool" where
  "valid_permission j = (case text_of j of None \<Rightarrow> False | Some s \<Rightarrow> s \<in> set VALID_GROUP_PERMISSIONS)"

text \<open>The complaint, or the list of permissions.\<close>

definition validate_permissions :: "json \<Rightarrow> string + string list" where
  "validate_permissions j =
     (case j of
        JList js \<Rightarrow>
          if length js > 50 then Inl ''Too many permissions (max 50)''
          else if list_all valid_permission js then Inr (List.map_filter text_of js)
          else Inl (''Invalid permissions: '' @ repr_json (JList (filter (Not \<circ> valid_permission) js)))
      | _ \<Rightarrow> Inl ''permissions must be an array'')"

subsection \<open>Views\<close>

record member_view =
  mv_member :: group_member
  mv_username :: "string option"
  mv_email :: "string option"
  mv_full_name :: "string option"

definition member_to_dict :: "rbac_db \<Rightarrow> group_member \<Rightarrow> member_view" where
  "member_to_dict db m =
     (let u = row_get u_id (rb_users db) (gm_user_id m)
      in \<lparr>mv_member = m, mv_username = map_option username u, mv_email = map_option email u,
          mv_full_name = Option.bind u full_name\<rparr>)"

record group_view =
  gv_group :: group
  gv_member_count :: nat
  gv_members :: "member_view list option"

definition members_of :: "rbac_db \<Rightarrow> int \<Rightarrow> group_member list" where
  "members_of db i = filter (\<lambda>m. gm_group_id m = i) (members db)"

definition group_to_dict :: "rbac_db \<Rightarrow> bool \<Rightarrow> group \<Rightarrow> group_view" where
  "group_to_dict db include_members gr =
     \<lparr>gv_group = gr, gv_member_count = length (members_of db (gr_id gr)),
      gv_members = (if include_members then Some (map (member_to_dict db) (members_of db (gr_id gr))) else None)\<rparr>"

definition list_groups :: "string \<Rightarrow> people \<Rightarrow> group_view list http" where
  "list_groups search_arg st =
     (let db = pe_db st; pat = ''%'' @ strip search_arg @ ''%'';
          sel = (\<lambda>gr. strip search_arg = [] \<or> ilike (Some (gr_name gr)) pat \<or> ilike (Some (gr_description gr)) pat)
      in success_response (map (group_to_dict db False) (sort_key gr_name (filter sel (groups db)))) [])"

definition get_group :: "int \<Rightarrow> people \<Rightarrow> group_view http" where
  "get_group i st =
     (case row_get gr_id (groups (pe_db st)) i of
        None \<Rightarrow> error_response ''Group not found'' 404
      | Some gr \<Rightarrow> success_response (group_to_dict (pe_db st) True gr) [])"

definition list_group_members :: "int \<Rightarrow> people \<Rightarrow> member_view list http" where
  "list_group_members i st =
     (case row_get gr_id (groups (pe_db st)) i of
        None \<Rightarrow> error_response ''Group not found'' 404
      | Some gr \<Rightarrow> success_response (map (member_to_dict (pe_db st)) (members_of (pe_db st) i)) [])"

definition get_groups_stats :: "people \<Rightarrow> (nat \<times> nat) http" where
  "get_groups_stats st = success_response (length (groups (pe_db st)), length (members (pe_db st))) []"

subsection \<open>Changing groups\<close>

record group_body =
  gb_name :: "string option"
  gb_description :: "string option"
  gb_permissions :: "json option"

definition log_group :: "user_env \<Rightarrow> string \<Rightarrow> int \<Rightarrow> string \<Rightarrow> string \<Rightarrow> people \<Rightarrow> people" where
  "log_group e act i name text st =
     st\<lparr>pe_logs := ue_log e (audit_call act (Some ''group'') (Txt_id (str_int i)) (Txt name) (Txt text) True None) (pe_logs st)\<rparr>"

definition save_groups :: "group list \<Rightarrow> people \<Rightarrow> people" where
  "save_groups gs st = st\<lparr>pe_db := (pe_db st)\<lparr>groups := gs\<rparr>\<rparr>"

definition save_members :: "group_member list \<Rightarrow> people \<Rightarrow> people" where
  "save_members ms st = st\<lparr>pe_db := (pe_db st)\<lparr>members := ms\<rparr>\<rparr>"

text \<open>Permissions that are no true value are stored as given and read as none.\<close>

definition requested_permissions :: "json option \<Rightarrow> string + string list" where
  "requested_permissions j =
     (case j of None \<Rightarrow> Inr [] | Some v \<Rightarrow> if truthy v then validate_permissions v else Inr [])"

definition requested_group :: "time \<Rightarrow> group_body \<Rightarrow> group list \<Rightarrow> (string \<times> nat) + group" where
  "requested_group now b gs =
     (let name = the (gb_name b) in
      if \<not> nonempty (gb_name b) then Inl (''Group name is required'', 400)
      else if length name > 100 then Inl (''Group name too long (max 100 chars)'', 400)
      else if list_ex (\<lambda>gr. gr_name gr = name) gs then Inl (''Group already exists'', 409)
      else (case requested_permissions (gb_permissions b) of
              Inl err \<Rightarrow> Inl (err, 400)
            | Inr ps \<Rightarrow>
                Inr \<lparr>gr_id = next_id gr_id gs, gr_name = name, gr_description = take 500 (or_else (gb_description b) []),
                     gr_permissions = ps, gr_created_at = now, gr_updated_at = now\<rparr>))"

definition create_group :: "user_env \<Rightarrow> time \<Rightarrow> user \<Rightarrow> group_body \<Rightarrow> people \<Rightarrow> group_view http \<times> people" where
  "create_group e now me b st =
     (if role me \<noteq> ''admin'' then (error_response ''Insufficient permissions'' 403, st)
      else (case requested_group now b (groups (pe_db st)) of
              Inl (err, code) \<Rightarrow> (error_response err code, st)
            | Inr gr \<Rightarrow>
                (let st1 = save_groups (groups (pe_db st) @ [gr]) st
                 in (Success (group_to_dict (pe_db st1) False gr) ''Group created'' 201,
                     log_group e ''group_create'' (gr_id gr) (gr_name gr) (''Created group: '' @ gr_name gr) st1))))"

definition put_group_name :: "int \<Rightarrow> group list \<Rightarrow> group_body \<Rightarrow> group \<Rightarrow> (string \<times> nat) + group" where
  "put_group_name i gs b gr =
     (case gb_name b of
        None \<Rightarrow> Inr gr
      | Some n \<Rightarrow>
          if length n > 100 then Inl (''Group name too long (max 100 chars)'', 400)
          else (case find (\<lambda>x. gr_name x = n) gs of
                  Some x \<Rightarrow> if gr_id x \<noteq> i then Inl (''Group name already exists'', 409) else Inr (gr\<lparr>gr_name := n\<rparr>)
                | None \<Rightarrow> Inr (gr\<lparr>gr_name := n\<rparr>)))"

definition put_group_permissions :: "group_body \<Rightarrow> group \<Rightarrow> (string \<times> nat) + group" where
  "put_group_permissions b gr =
     (case gb_permissions b of
        None \<Rightarrow> Inr gr
      | Some j \<Rightarrow> (case validate_permissions j of Inl err \<Rightarrow> Inl (err, 400) | Inr ps \<Rightarrow> Inr (gr\<lparr>gr_permissions := ps\<rparr>)))"

definition put_group_description :: "group_body \<Rightarrow> group \<Rightarrow> (string \<times> nat) + group" where
  "put_group_description b gr = Inr (case gb_description b of None \<Rightarrow> gr | Some d \<Rightarrow> gr\<lparr>gr_description := take 500 d\<rparr>)"

text \<open>A row is written, with a new time of update, if a column changes.\<close>

definition changed_group :: "time \<Rightarrow> int \<Rightarrow> group list \<Rightarrow> group_body \<Rightarrow> group \<Rightarrow> (string \<times> nat) + group" where
  "changed_group now i gs b gr =
     and_then (put_group_name i gs b gr) (\<lambda>g1.
     and_then (put_group_description b g1) (\<lambda>g2.
     and_then (put_group_permissions b g2) (\<lambda>g3. Inr (if g3 = gr then gr else g3\<lparr>gr_updated_at := now\<rparr>))))"

definition update_group :: "user_env \<Rightarrow> time \<Rightarrow> user \<Rightarrow> int \<Rightarrow> group_body \<Rightarrow> people \<Rightarrow> group_view http \<times> people" where
  "update_group e now me i b st =
     (if role me \<noteq> ''admin'' then (error_response ''Insufficient permissions'' 403, st)
      else (case row_get gr_id (groups (pe_db st)) i of
              None \<Rightarrow> (error_response ''Group not found'' 404, st)
            | Some gr \<Rightarrow>
                (case changed_group now i (groups (pe_db st)) b gr of
                   Inl (err, code) \<Rightarrow> (error_response err code, st)
                 | Inr gr' \<Rightarrow>
                     (let st1 = save_groups (row_update gr_id i (\<lambda>_. gr') (groups (pe_db st))) st
                      in (success_response (group_to_dict (pe_db st1) False gr') ''Group updated'',
                          log_group e ''group_update'' i (gr_name gr') (''Updated group: '' @ gr_name gr') st1)))))"

text \<open>The members of a deleted group are deleted with it.\<close>

definition delete_group :: "user_env \<Rightarrow> user \<Rightarrow> int \<Rightarrow> people \<Rightarrow> unit http \<times> people" where
  "delete_group e me i st =
     (if role me \<noteq> ''admin'' then (error_response ''Insufficient permissions'' 403, st)
      else (case row_get gr_id (groups (pe_db st)) i of
              None \<Rightarrow> (error_response ''Group not found'' 404, st)
            | Some gr \<Rightarrow>
                (Success () [] 204,
                 log_group e ''group_delete'' i (gr_name gr) (''Deleted group: '' @ gr_name gr)
                   (save_members (filter (\<lambda>m. gm_group_id m \<noteq> i) (members (pe_db st)))
                     (save_groups (row_delete gr_id i (groups (pe_db st))) st)))))"

definition requested_member :: "time \<Rightarrow> int \<Rightarrow> int option \<Rightarrow> string option \<Rightarrow> rbac_db \<Rightarrow> (string \<times> nat) + user \<times> group_member" where
  "requested_member now i uid role_arg db =
     (let j = (case uid of None \<Rightarrow> 0 | Some j \<Rightarrow> j); r = (case role_arg of None \<Rightarrow> ''member'' | Some x \<Rightarrow> x) in
      if j = 0 then Inl (''user_id is required'', 400)
      else (case row_get u_id (rb_users db) j of
              None \<Rightarrow> Inl (''User not found'', 404)
            | Some u \<Rightarrow>
                if list_ex (\<lambda>m. gm_group_id m = i \<and> gm_user_id m = j) (members db) then Inl (''User is already a member'', 409)
                else if r \<notin> {''member'', ''admin''}
                then Inl (''Invalid role. Must be '' @ repr_text ''member'' @ '' or '' @ repr_text ''admin'', 400)
                else Inr (u, \<lparr>gm_id = next_id gm_id (members db), gm_group_id = i, gm_user_id = j, gm_role = r, gm_joined_at = now\<rparr>)))"

definition add_group_member :: "user_env \<Rightarrow> time \<Rightarrow> user \<Rightarrow> int \<Rightarrow> int option \<Rightarrow> string option \<Rightarrow> people \<Rightarrow> member_view http \<times> people" where
  "add_group_member e now me i uid role_arg st =
     (if role me \<noteq> ''admin'' then (error_response ''Insufficient permissions'' 403, st)
      else (case row_get gr_id (groups (pe_db st)) i of
              None \<Rightarrow> (error_response ''Group not found'' 404, st)
            | Some gr \<Rightarrow>
                (case requested_member now i uid role_arg (pe_db st) of
                   Inl (err, code) \<Rightarrow> (error_response err code, st)
                 | Inr (u, m) \<Rightarrow>
                     (Success (member_to_dict (pe_db st) m) ''Member added'' 201,
                      log_group e ''group_member_add'' i (gr_name gr)
                        (''Added user '' @ username u @ '' to group '' @ gr_name gr)
                        (save_members (members (pe_db st) @ [m]) st)))))"

definition remove_group_member :: "user_env \<Rightarrow> user \<Rightarrow> int \<Rightarrow> int \<Rightarrow> people \<Rightarrow> unit http \<times> people" where
  "remove_group_member e me i j st =
     (if role me \<noteq> ''admin'' then (error_response ''Insufficient permissions'' 403, st)
      else (case find (\<lambda>m. gm_group_id m = i \<and> gm_user_id m = j) (members (pe_db st)) of
              None \<Rightarrow> (error_response ''Member not found'' 404, st)
            | Some m \<Rightarrow>
                (Success () [] 204,
                 log_group e ''group_member_remove'' i
                   (case row_get gr_id (groups (pe_db st)) i of None \<Rightarrow> str_int i | Some gr \<Rightarrow> gr_name gr)
                   (''Removed user '' @ str_int j @ '' from group '' @ str_int i)
                   (save_members (row_delete gm_id (gm_id m) (members (pe_db st))) st))))"


subsection \<open>Histories\<close>

datatype group_op =
    Create_group group_body
  | Update_group int group_body
  | Delete_group int
  | Add_member int "int option" "string option"
  | Remove_member int int

primrec group_permission :: "group_op \<Rightarrow> string" where
  "group_permission (Create_group b) = ''write:groups''"
| "group_permission (Update_group i b) = ''write:groups''"
| "group_permission (Delete_group i) = ''delete:groups''"
| "group_permission (Add_member i uid r) = ''write:groups''"
| "group_permission (Remove_member i j) = ''delete:groups''"

primrec handle_group :: "user_env \<Rightarrow> time \<Rightarrow> user \<Rightarrow> group_op \<Rightarrow> people \<Rightarrow> people" where
  "handle_group e now me (Create_group b) st = snd (create_group e now me b st)"
| "handle_group e now me (Update_group i b) st = snd (update_group e now me i b st)"
| "handle_group e now me (Delete_group i) st = snd (delete_group e me i st)"
| "handle_group e now me (Add_member i uid r) st = snd (add_group_member e now me i uid r st)"
| "handle_group e now me (Remove_member i j) st = snd (remove_group_member e me i j st)"

datatype people_event =
    User_request user_event
  | Group_request "time \<times> int \<times> string list \<times> group_op"

fun people_step :: "user_env \<Rightarrow> people \<Rightarrow> people_event \<Rightarrow> people" where
  "people_step e st (User_request ev) = user_step e st ev"
| "people_step e st (Group_request (now, caller, perms, op)) =
     (case row_get u_id (rb_users (pe_db st)) caller of
        None \<Rightarrow> st
      | Some me \<Rightarrow> if has_permission (group_permission op) perms then handle_group e now me op st else st)"

subsection \<open>The invariant\<close>

definition groups_fine :: "group list \<Rightarrow> bool" where
  "groups_fine gs \<longleftrightarrow> keys_ok gr_id gs \<and> distinct (map gr_name gs) \<and>
     list_all (\<lambda>gr. set (gr_permissions gr) \<subseteq> set VALID_GROUP_PERMISSIONS \<and> length (gr_name gr) \<le> 100) gs"

definition members_fine :: "int list \<Rightarrow> int list \<Rightarrow> group_member list \<Rightarrow> bool" where
  "members_fine uids gids ms \<longleftrightarrow> keys_ok gm_id ms \<and> distinct (map (\<lambda>m. (gm_group_id m, gm_user_id m)) ms) \<and>
     list_all (\<lambda>m. gm_group_id m \<in> set gids \<and> gm_user_id m \<in> set uids \<and> gm_role m \<in> {''member'', ''admin''}) ms"

definition people_ok :: "people \<Rightarrow> bool" where
  "people_ok st \<longleftrightarrow> users_ok st \<and> groups_fine (groups (pe_db st)) \<and>
     members_fine (map u_id (rb_users (pe_db st))) (map gr_id (groups (pe_db st))) (members (pe_db st))"

lemma validated_permissions:
  "validate_permissions j = Inr ps \<Longrightarrow> set ps \<subseteq> set VALID_GROUP_PERMISSIONS"
  by (auto simp: validate_permissions_def valid_permission_def list_all_iff map_filter_def split: json.splits if_splits option.splits)

lemma requested_permissions_valid:
  "requested_permissions j = Inr ps \<Longrightarrow> set ps \<subseteq> set VALID_GROUP_PERMISSIONS"
  using validated_permissions by (auto simp: requested_permissions_def split: option.splits if_splits)

lemma saved_tables [simp]:
  "pe_db (log_group e act i name text st) = pe_db st"
  "groups (pe_db (save_groups gs st)) = gs" "members (pe_db (save_groups gs st)) = members (pe_db st)"
  "rb_users (pe_db (save_groups gs st)) = rb_users (pe_db st)"
  "members (pe_db (save_members ms st)) = ms" "groups (pe_db (save_members ms st)) = groups (pe_db st)"
  "rb_users (pe_db (save_members ms st)) = rb_users (pe_db st)"
  by (simp_all add: log_group_def save_groups_def save_members_def)

lemma people_okI:
  assumes "people_ok st" "rb_users (pe_db st') = rb_users (pe_db st)" "groups_fine (groups (pe_db st'))"
    "members_fine (map u_id (rb_users (pe_db st))) (map gr_id (groups (pe_db st'))) (members (pe_db st'))"
  shows "people_ok st'"
  using assms same_users_ok [OF assms(2)] by (simp add: people_ok_def)

lemma members_fine_mono:
  "members_fine us gs ms \<Longrightarrow> set us \<subseteq> set us' \<Longrightarrow> set gs \<subseteq> set gs' \<Longrightarrow> members_fine us' gs' ms"
  by (auto simp: members_fine_def list_all_iff)

lemma requested_group_ok:
  assumes "requested_group now b gs = Inr gr"
  shows "gr_id gr = next_id gr_id gs" "\<not> list_ex (\<lambda>x. gr_name x = gr_name gr) gs" "length (gr_name gr) \<le> 100"
    "set (gr_permissions gr) \<subseteq> set VALID_GROUP_PERMISSIONS"
  using assms requested_permissions_valid [of "gb_permissions b"]
  by (auto simp: requested_group_def Let_def split: if_splits sum.splits)

lemma create_group_ok:
  assumes "people_ok st"
  shows "people_ok (snd (create_group e now me b st))"
proof (cases "requested_group now b (groups (pe_db st))")
  case (Inl r)
  then show ?thesis using assms by (cases r) (simp add: create_group_def)
next
  case (Inr gr)
  note gr = requested_group_ok [OF Inr]
  have "groups_fine (groups (pe_db st) @ [gr])"
    using assms gr keys_ok_append [of gr_id "groups (pe_db st)" gr] by (auto simp: people_ok_def groups_fine_def list_ex_iff)
  moreover have "members_fine (map u_id (rb_users (pe_db st))) (map gr_id (groups (pe_db st) @ [gr])) (members (pe_db st))"
    using assms by (auto simp: people_ok_def elim: members_fine_mono)
  ultimately have "people_ok (log_group e ''group_create'' (gr_id gr) (gr_name gr) (''Created group: '' @ gr_name gr)
      (save_groups (groups (pe_db st) @ [gr]) st))"
    by (intro people_okI [OF assms]) simp_all
  then show ?thesis using assms by (simp add: create_group_def Inr Let_def)
qed

lemma changed_group_ok:
  assumes "changed_group now i gs b gr = Inr gr'" "groups_fine gs" "gr \<in> set gs" "gr_id gr = i"
  shows "gr_id gr' = i" "\<And>x. x \<in> set gs \<Longrightarrow> gr_id x \<noteq> i \<Longrightarrow> gr_name gr' \<noteq> gr_name x" "length (gr_name gr') \<le> 100"
    "set (gr_permissions gr') \<subseteq> set VALID_GROUP_PERMISSIONS"
proof -
  obtain g1 g2 g3 where g: "put_group_name i gs b gr = Inr g1" "put_group_description b g1 = Inr g2"
    "put_group_permissions b g2 = Inr g3" "gr' = (if g3 = gr then gr else g3\<lparr>gr_updated_at := now\<rparr>)"
    using assms(1) unfolding changed_group_def and_then_Inr by blast
  have inj: "x = y" if "x \<in> set gs" "y \<in> set gs" "gr_name x = gr_name y" for x y
    using assms(2) that by (auto simp: groups_fine_def distinct_map inj_on_def)
  have gr: "length (gr_name gr) \<le> 100" "set (gr_permissions gr) \<subseteq> set VALID_GROUP_PERMISSIONS"
    using assms(2,3) by (auto simp: groups_fine_def list_all_iff)
  have 1: "gr_id g1 = i" "gr_permissions g1 = gr_permissions gr" "length (gr_name g1) \<le> 100"
    using g(1) gr(1) assms(4) by (auto simp: put_group_name_def split: option.splits if_splits)
  have name: "gr_name g1 \<noteq> gr_name x" if x: "x \<in> set gs" "gr_id x \<noteq> i" for x
  proof (cases "gb_name b")
    case None
    then show ?thesis using g(1) inj [OF assms(3) x(1)] x(2) assms(4) by (auto simp: put_group_name_def)
  next
    case (Some n)
    then have n: "gr_name g1 = n" "\<And>y. find (\<lambda>x. gr_name x = n) gs = Some y \<Longrightarrow> gr_id y = i"
      using g(1) by (auto simp: put_group_name_def split: option.splits if_splits)
    show ?thesis
    proof (cases "find (\<lambda>x. gr_name x = n) gs")
      case (Some y)
      then have "y \<in> set gs" "gr_name y = n" "gr_id y = i" using find_Some_in [OF Some] n(2) by simp_all
      then show ?thesis using inj [of y x] x n(1) by auto
    qed (use n(1) x(1) in \<open>auto simp: find_None_iff\<close>)
  qed
  have 2: "gr_id g2 = gr_id g1" "gr_name g2 = gr_name g1" "gr_permissions g2 = gr_permissions g1"
    using g(2) by (auto simp: put_group_description_def split: option.splits)
  have 3: "gr_id g3 = gr_id g2" "gr_name g3 = gr_name g2" "set (gr_permissions g3) \<subseteq> set VALID_GROUP_PERMISSIONS"
    using g(3) gr(2) 1(2) 2(3) by (auto simp: put_group_permissions_def dest!: validated_permissions split: option.splits sum.splits)
  have 4: "gr_id gr' = gr_id g3" "gr_name gr' = gr_name g3" "gr_permissions gr' = gr_permissions g3" using g(4) by simp_all
  show "gr_id gr' = i" "length (gr_name gr') \<le> 100" "set (gr_permissions gr') \<subseteq> set VALID_GROUP_PERMISSIONS"
    "\<And>x. x \<in> set gs \<Longrightarrow> gr_id x \<noteq> i \<Longrightarrow> gr_name gr' \<noteq> gr_name x"
    using name by (simp_all add: 1 2 3 4)
qed

lemma update_group_ok:
  assumes "people_ok st"
  shows "people_ok (snd (update_group e now me i b st))"
proof (cases "\<exists>gr gr'. row_get gr_id (groups (pe_db st)) i = Some gr \<and> changed_group now i (groups (pe_db st)) b gr = Inr gr'")
  case False
  then have "snd (update_group e now me i b st) = st"
    by (auto simp: update_group_def split: option.split sum.split)
  then show ?thesis using assms by simp
next
  case True
  then obtain gr gr' where gr: "row_get gr_id (groups (pe_db st)) i = Some gr" "changed_group now i (groups (pe_db st)) b gr = Inr gr'" by blast
  let ?gs = "groups (pe_db st)"
  let ?new = "row_update gr_id i (\<lambda>_. gr') ?gs"
  have fine: "groups_fine ?gs" using assms by (simp add: people_ok_def)
  note f = changed_group_ok [OF gr(2) fine row_get_Some [OF gr(1), THEN conjunct1] row_get_Some [OF gr(1), THEN conjunct2]]
  have ids: "map gr_id ?new = map gr_id ?gs" using f(1) by (intro map_row_update) simp
  have "distinct (map gr_name ?new)"
    using fine f(2) by (intro row_update_names) (auto simp: groups_fine_def keys_ok_def)
  moreover have "keys_ok gr_id ?new" using fine f(1) by (intro keys_ok_put) (simp_all add: groups_fine_def)
  moreover have "list_all (\<lambda>gr. set (gr_permissions gr) \<subseteq> set VALID_GROUP_PERMISSIONS \<and> length (gr_name gr) \<le> 100) ?new"
    using fine f(3,4) by (auto simp: groups_fine_def row_update_def list_all_iff)
  ultimately have "groups_fine ?new" by (simp add: groups_fine_def)
  then have "people_ok (log_group e ''group_update'' i (gr_name gr') (''Updated group: '' @ gr_name gr') (save_groups ?new st))"
    using assms ids by (intro people_okI [OF assms]) (simp_all add: people_ok_def)
  then show ?thesis using assms by (simp add: update_group_def gr Let_def)
qed


lemma delete_group_ok:
  assumes "people_ok st"
  shows "people_ok (snd (delete_group e me i st))"
proof (cases "row_get gr_id (groups (pe_db st)) i")
  case None
  then show ?thesis using assms by (simp add: delete_group_def)
next
  case (Some gr)
  let ?gs = "row_delete gr_id i (groups (pe_db st))" and ?ms = "filter (\<lambda>m. gm_group_id m \<noteq> i) (members (pe_db st))"
  have "groups_fine ?gs"
    using assms unfolding people_ok_def groups_fine_def row_delete_def
    by (auto simp: keys_ok_filter distinct_map_filter list_all_iff)
  moreover have "members_fine (map u_id (rb_users (pe_db st))) (map gr_id ?gs) ?ms"
    using assms unfolding people_ok_def members_fine_def row_delete_def
    by (auto simp: keys_ok_filter distinct_map_filter list_all_iff)
  ultimately have "people_ok (log_group e ''group_delete'' i (gr_name gr) (''Deleted group: '' @ gr_name gr) (save_members ?ms (save_groups ?gs st)))"
    by (intro people_okI [OF assms]) simp_all
  then show ?thesis using assms by (simp add: delete_group_def Some)
qed

lemma requested_member_ok:
  assumes "requested_member now i uid r db = Inr (u, m)"
  shows "gm_id m = next_id gm_id (members db)" "gm_group_id m = i" "gm_user_id m \<in> u_id ` set (rb_users db)"
    "\<not> list_ex (\<lambda>x. gm_group_id x = i \<and> gm_user_id x = gm_user_id m) (members db)" "gm_role m \<in> {''member'', ''admin''}"
proof -
  let ?j = "case uid of None \<Rightarrow> 0 | Some j \<Rightarrow> j" and ?r = "case r of None \<Rightarrow> ''member'' | Some x \<Rightarrow> x"
  have "row_get u_id (rb_users db) ?j = Some u" "\<not> list_ex (\<lambda>m. gm_group_id m = i \<and> gm_user_id m = ?j) (members db)"
    "?r \<in> {''member'', ''admin''}" "m = \<lparr>gm_id = next_id gm_id (members db), gm_group_id = i, gm_user_id = ?j, gm_role = ?r, gm_joined_at = now\<rparr>"
    using assms unfolding requested_member_def Let_def by (auto split: if_splits option.split_asm)
  moreover from this(1) have "?j \<in> u_id ` set (rb_users db)" using row_get_Some [of u_id "rb_users db" ?j u] by (metis image_eqI)
  ultimately show "gm_id m = next_id gm_id (members db)" "gm_group_id m = i" "gm_user_id m \<in> u_id ` set (rb_users db)"
    "\<not> list_ex (\<lambda>x. gm_group_id x = i \<and> gm_user_id x = gm_user_id m) (members db)" "gm_role m \<in> {''member'', ''admin''}"
    by simp_all
qed

lemma add_group_member_ok:
  assumes "people_ok st"
  shows "people_ok (snd (add_group_member e now me i uid r st))"
proof (cases "\<exists>gr u m. row_get gr_id (groups (pe_db st)) i = Some gr \<and> requested_member now i uid r (pe_db st) = Inr (u, m)")
  case False
  then have "snd (add_group_member e now me i uid r st) = st"
    by (auto simp: add_group_member_def split: option.split sum.split)
  then show ?thesis using assms by simp
next
  case True
  then obtain gr u m where gr: "row_get gr_id (groups (pe_db st)) i = Some gr" and m: "requested_member now i uid r (pe_db st) = Inr (u, m)"
    by blast
  note f = requested_member_ok [OF m]
  have "i \<in> gr_id ` set (groups (pe_db st))" using row_get_Some [OF gr] by auto
  then have "members_fine (map u_id (rb_users (pe_db st))) (map gr_id (groups (pe_db st))) (members (pe_db st) @ [m])"
    using assms f keys_ok_append [of gm_id "members (pe_db st)" m]
    by (auto simp: people_ok_def members_fine_def list_ex_iff)
  then have "people_ok (log_group e ''group_member_add'' i (gr_name gr) (''Added user '' @ username u @ '' to group '' @ gr_name gr)
      (save_members (members (pe_db st) @ [m]) st))"
    using assms by (intro people_okI [OF assms]) (simp_all add: people_ok_def)
  then show ?thesis using assms by (simp add: add_group_member_def gr m)
qed

lemma remove_group_member_ok:
  assumes "people_ok st"
  shows "people_ok (snd (remove_group_member e me i j st))"
proof -
  have fine: "members_fine (map u_id (rb_users (pe_db st))) (map gr_id (groups (pe_db st))) (row_delete gm_id k (members (pe_db st)))" for k
    using assms unfolding people_ok_def members_fine_def row_delete_def
    by (auto simp: keys_ok_filter distinct_map_filter list_all_iff)
  have ok: "people_ok (log_group e act i n t (save_members (row_delete gm_id k (members (pe_db st))) st))" for act n t k
    using assms fine by (intro people_okI [OF assms]) (simp_all add: people_ok_def)
  show ?thesis
    using assms ok by (cases "find (\<lambda>m. gm_group_id m = i \<and> gm_user_id m = j) (members (pe_db st))") (simp_all add: remove_group_member_def)
qed

text \<open>The handlers of users leave the groups and members alone and remove no user.\<close>

definition only_users :: "people \<Rightarrow> people \<Rightarrow> bool" where
  "only_users st st' \<longleftrightarrow> groups (pe_db st') = groups (pe_db st) \<and> members (pe_db st') = members (pe_db st) \<and>
     u_id ` set (rb_users (pe_db st)) \<subseteq> u_id ` set (rb_users (pe_db st'))"

lemma only_users_simps [simp]:
  "only_users st st" "only_users st (st'\<lparr>pe_logs := ls\<rparr>) = only_users st st'" "only_users st (add_user u st)"
  by (auto simp: only_users_def add_user_def)

lemma only_users_trans: "only_users a b \<Longrightarrow> only_users b c \<Longrightarrow> only_users a c"
  by (auto simp: only_users_def)

lemma only_users_save:
  assumes "row_get u_id (rb_users (pe_db st)) i = Some u" "u_id v = u_id u"
  shows "only_users st (save_user i v st)"
proof -
  have "map u_id (row_update u_id i (\<lambda>_. v) (rb_users (pe_db st))) = map u_id (rb_users (pe_db st))"
    using assms row_get_Some [OF assms(1)] by (intro map_row_update) simp
  then have "u_id ` set (row_update u_id i (\<lambda>_. v) (rb_users (pe_db st))) = u_id ` set (rb_users (pe_db st))"
    by (metis set_map)
  then show ?thesis by (simp add: only_users_def save_user_def)
qed

lemma only_users_bulk: "only_users (snd acc) (snd (foldl (bulk_one me) acc ids))"
proof (induction ids arbitrary: acc)
  case (Cons i ids)
  have "only_users (snd acc) (snd (bulk_one me acc i))"
    by (cases acc; cases "row_get u_id (rb_users (pe_db (snd acc))) i") (simp_all add: bulk_one_def only_users_save)
  then show ?case by (simp add: only_users_trans [OF _ Cons])
qed simp

lemma only_users_import: "only_users (snd acc) (snd (foldl (import_row e now) acc rows))"
proof (induction rows arbitrary: acc)
  case (Cons row rows)
  have "only_users (snd acc) (snd (import_row e now acc row))"
    by (cases rule: import_row_cases [of e now acc row]) simp_all
  then show ?case by (simp add: only_users_trans [OF _ Cons])
qed simp

lemma handle_only_users: "only_users st (handle e now me op st)"
proof (cases op)
  case (Create b)
  then show ?thesis by (simp add: create_user_def split: sum.split)
next
  case (Update i b)
  then show ?thesis
    by (auto simp: update_user_account_def only_users_save update_fields_kept(1) split: option.split sum.split)
next
  case (Delete i)
  then show ?thesis by (simp add: delete_user_def only_users_save split: option.split)
next
  case (Bulk_delete ids)
  then show ?thesis
    using only_users_bulk [of "(\<lparr>bk_success = [], bk_failed = []\<rparr>, st)"] by (simp add: bulk_delete_users_def Let_def split_beta)
next
  case (Reset_password i pw)
  then show ?thesis by (simp add: reset_user_password_def only_users_save split: option.split sum.split)
next
  case (Toggle i)
  then show ?thesis by (simp add: toggle_user_status_def Let_def only_users_save split: option.split)
next
  case (Import_users csv)
  then show ?thesis
    using only_users_import [of "(\<lparr>ic_imported = 0, ic_skipped = 0, ic_errors = []\<rparr>, st)"]
    by (simp add: import_users_def Let_def split_beta split: option.split)
qed

lemma user_step_people_ok:
  assumes "people_ok st"
  shows "people_ok (user_step e st ev)"
proof -
  have "only_users st (user_step e st ev)" by (auto simp: user_step_def handle_only_users split: option.split prod.split)
  then show ?thesis
    using assms user_table.step_inv [of st e ev] members_fine_mono by (auto simp: people_ok_def only_users_def)
qed

lemma handle_group_people_ok: "people_ok st \<Longrightarrow> people_ok (handle_group e now me op st)"
  by (cases op) (simp_all add: create_group_ok update_group_ok delete_group_ok add_group_member_ok remove_group_member_ok)

interpretation people_tables: invariant_system "people_step e" people_ok for e
proof
  show "people_ok st \<Longrightarrow> people_ok (people_step e st ev)" for st ev
    by (cases "(e, st, ev)" rule: people_step.cases) (simp_all add: user_step_people_ok handle_group_people_ok split: option.split)
qed

subsection \<open>Properties\<close>

text \<open>C30. Whatever requests for users and groups arrive, by whomever and in whatever order, the tables stay consistent: identifiers
  are positive and distinct, no two users share a name or a mail address and no two groups a name, roles are the known ones, groups
  carry only the permissions allowed for groups, and every member row joins an existing group and an existing user, once.\<close>

theorem people_consistent:
  assumes "people_ok st"
  shows "people_ok (foldl (people_step e) st evs)"
  using assms by (rule people_tables.run_inv)

theorem people_consistent_witness:
  "people_ok (foldl (people_step demo_user_env) demo_people
     [Group_request (5, 1, [''*''], Create_group \<lparr>gb_name = Some ''ops'', gb_description = None, gb_permissions = Some (JList [JStr ''read:cas''])\<rparr>),
      Group_request (6, 1, [''*''], Add_member 1 (Some 2) None),
      User_request (7, 1, [''*''], Delete 2),
      Group_request (8, 1, [''*''], Delete_group 1)])"
proof (rule people_consistent)
  show "people_ok demo_people" by code_simp
qed

end
