(* ===== verification/Utilities.thy ===== *)
theory Utilities
  imports Prelude
begin

text \<open>
  The helpers of \<^verbatim>\<open>utils\<close>: the validation of distinguished names (\<^verbatim>\<open>dn_validation.py\<close>), pages (\<^verbatim>\<open>pagination.py\<close>), names in
  download headers (\<^verbatim>\<open>sanitize.py\<close>), names of files (\<^verbatim>\<open>file_naming.py\<close>) and uploads (\<^verbatim>\<open>file_validation.py\<close>). The decomposition
  \<^verbatim>\<open>unicodedata.normalize\<close> and werkzeug's \<^verbatim>\<open>secure_filename\<close> are parameters.
\<close>

subsection \<open>Distinguished names\<close>

text \<open>\<^verbatim>\<open>\w\<close> of a regular expression: letters, digits and numerals of Latin-1, and the underscore.\<close>

definition is_word :: "char \<Rightarrow> bool" where
  "is_word c =
     (let n = of_char c :: nat in
      is_digit c \<or> is_upper c \<or> is_lower c \<or> c = CHR ''_'' \<or> n \<in> {170, 178, 179, 181, 185, 186, 188, 189, 190} \<or>
      192 \<le> n \<and> n \<noteq> 215 \<and> n \<noteq> 247)"

definition word_or :: "string \<Rightarrow> char \<Rightarrow> bool" where
  "word_or extra c = (is_word c \<or> is_space c \<or> c \<in> set extra)"

text \<open>The patterns, on a text without leading and trailing space: one or more characters of a class, or two capitals.\<close>

definition DN_FIELD_PATTERNS :: "(string \<times> (string \<Rightarrow> bool)) list" where
  "DN_FIELD_PATTERNS =
     (let some = (\<lambda>extra s. s \<noteq> [] \<and> list_all (word_or extra) s) in
      [(''CN'', some (''-.,@()*'' @ [CHR 0x27])), (''O'', some (''-.,&'' @ [CHR 0x27])), (''OU'', some (''-.,&'' @ [CHR 0x27])),
       (''C'', \<lambda>s. length s = 2 \<and> list_all is_upper s), (''ST'', some ''-.''), (''L'', some ''-.'')])"

definition dangerous_patterns :: "string list" where
  "dangerous_patterns =
     ['';'', ''|'', [CHR 0x60], ''$'', [CHR 0x5C, CHR ''n''], [CHR 0x5C, CHR ''r''], [CHR 0x00], [CHR 0x0A], [CHR 0x0D]]"

definition MAX_DN_FIELD_LENGTH :: nat where
  "MAX_DN_FIELD_LENGTH = 64"

text \<open>The complaint, if any.\<close>

definition validate_dn_field :: "string \<Rightarrow> string option \<Rightarrow> string option" where
  "validate_dn_field field value =
     (if \<not> nonempty value then None
      else
        (let v = strip (the value) in
         if length v > MAX_DN_FIELD_LENGTH then Some (field @ '' must be '' @ str_nat MAX_DN_FIELD_LENGTH @ '' characters or less'')
         else if (case map_of DN_FIELD_PATTERNS field of None \<Rightarrow> False | Some p \<Rightarrow> \<not> p v) then Some (''Invalid characters in '' @ field)
         else if list_ex (\<lambda>p. contains p v) dangerous_patterns then Some (''Invalid character in '' @ field)
         else None))"

fun validate_dn :: "(string \<times> string option) list \<Rightarrow> string option" where
  "validate_dn [] = None"
| "validate_dn ((field, value) # dn) =
     (if nonempty value
      then (case validate_dn_field field value of Some err \<Rightarrow> Some err | None \<Rightarrow> validate_dn dn)
      else validate_dn dn)"

subsection \<open>Pages\<close>

record page_meta =
  pm_total :: nat
  pm_page :: int
  pm_per_page :: int
  pm_total_pages :: int
  pm_has_next :: bool
  pm_has_prev :: bool

definition paginate :: "'a list \<Rightarrow> int \<Rightarrow> int \<Rightarrow> 'a list \<times> page_meta" where
  "paginate rows page per_page =
     (let p = (if page < 1 then 1 else page);
          n = (if per_page < 1 then 20 else if per_page > 100 then 100 else per_page);
          pages = (if rows \<noteq> [] then (int (length rows) + n - 1) div n else 0)
      in (take (nat n) (drop (nat ((p - 1) * n)) rows),
          \<lparr>pm_total = length rows, pm_page = p, pm_per_page = n, pm_total_pages = pages, pm_has_next = p < pages, pm_has_prev = p > 1\<rparr>))"

text \<open>\<^verbatim>\<open>rows[start:end]\<close>, with Python's meaning of negative bounds.\<close>

definition py_slice :: "'a list \<Rightarrow> int \<Rightarrow> int \<Rightarrow> 'a list" where
  "py_slice rows i j =
     (let len = int (length rows); clip = (\<lambda>k. max 0 (min len (if k < 0 then k + len else k)))
      in take (nat (clip j - clip i)) (drop (nat (clip i)) rows))"

subsection \<open>Names in headers and of files\<close>

definition is_control :: "char \<Rightarrow> bool" where
  "is_control c = (let n = of_char c :: nat in n < 32 \<or> n = 127)"

definition sanitize_filename :: "string option \<Rightarrow> string" where
  "sanitize_filename name =
     (if \<not> nonempty name then ''download''
      else
        (let s1 = filter (Not \<circ> is_control) (the name);
             s2 = map (\<lambda>c. if c = CHR ''/'' \<or> c = CHR 0x5C then CHR ''_'' else c) s1;
             s3 = filter (\<lambda>c. c \<noteq> CHR 0x22) s2;
             s4 = take 200 s3
         in if s4 = [] then ''download'' else s4))"

fun collapse :: "char \<Rightarrow> string \<Rightarrow> string" where
  "collapse d (a # b # s) = (if a = d \<and> b = d then collapse d (b # s) else a # collapse d (b # s))"
| "collapse d s = s"

definition strip_char :: "char \<Rightarrow> string \<Rightarrow> string" where
  "strip_char d s = rev (dropWhile (\<lambda>c. c = d) (rev (dropWhile (\<lambda>c. c = d) s)))"

definition slug_char :: "char \<Rightarrow> bool" where
  "slug_char c = (is_word c \<or> c = CHR ''.'' \<or> c = CHR ''-'')"

definition slugify_cn :: "(string \<Rightarrow> string) \<Rightarrow> string \<Rightarrow> string" where
  "slugify_cn nfkd cn =
     (if cn = [] then ''unknown''
      else
        (let s = map (\<lambda>c. if slug_char c then c else CHR ''-'') (nfkd cn);
             s = take 64 (strip_char (CHR ''-'') (collapse (CHR ''-'') s))
         in if s = [] then ''unknown'' else s))"

definition subject_cn :: "string option \<Rightarrow> string" where
  "subject_cn subject =
     (if \<not> nonempty subject then []
      else (case find (\<lambda>p. startswith (upper p) ''CN='') (map strip (split_on (CHR '','') (the subject))) of
              None \<Rightarrow> [] | Some p \<Rightarrow> strip (drop 3 p)))"

definition cert_filename :: "(string \<Rightarrow> string) \<Rightarrow> string \<Rightarrow> string \<Rightarrow> string \<Rightarrow> string" where
  "cert_filename nfkd refid cn ext =
     slugify_cn nfkd cn @ ''-'' @ (if refid \<noteq> [] then take 8 refid else ''norefid'') @ ''.'' @ ext"

text \<open>The names of the files of a row, from its subject, its description and its identifier.\<close>

definition file_cn :: "string option \<Rightarrow> string \<Rightarrow> string" where
  "file_cn subject descr = (if subject_cn subject \<noteq> [] then subject_cn subject else descr)"

definition ca_cert_path :: "(string \<Rightarrow> string) \<Rightarrow> string option \<Rightarrow> string \<Rightarrow> string \<Rightarrow> string" where
  "ca_cert_path nfkd subject descr refid = cert_filename nfkd refid (file_cn subject descr) ''crt''"

definition ca_key_path :: "(string \<Rightarrow> string) \<Rightarrow> string option \<Rightarrow> string \<Rightarrow> string \<Rightarrow> string" where
  "ca_key_path nfkd subject descr refid = ''ca_'' @ cert_filename nfkd refid (file_cn subject descr) ''key''"

definition cert_cert_path :: "(string \<Rightarrow> string) \<Rightarrow> string option \<Rightarrow> string \<Rightarrow> string \<Rightarrow> string" where
  "cert_cert_path nfkd subject descr refid = cert_filename nfkd refid (file_cn subject descr) ''crt''"

definition cert_key_path :: "(string \<Rightarrow> string) \<Rightarrow> string option \<Rightarrow> string \<Rightarrow> string \<Rightarrow> string" where
  "cert_key_path nfkd subject descr refid = ''cert_'' @ cert_filename nfkd refid (file_cn subject descr) ''key''"

definition cert_csr_path :: "(string \<Rightarrow> string) \<Rightarrow> string option \<Rightarrow> string \<Rightarrow> string \<Rightarrow> string" where
  "cert_csr_path nfkd subject descr refid = cert_filename nfkd refid (file_cn subject descr) ''csr''"

subsection \<open>Uploads\<close>

definition MAX_UPLOAD_SIZE :: nat where
  "MAX_UPLOAD_SIZE = 10 * 1024 * 1024"

definition CERT_EXTENSIONS :: "string list" where
  "CERT_EXTENSIONS = [''.pem'', ''.crt'', ''.cer'', ''.p12'', ''.pfx'', ''.p7b'', ''.der'', ''.key'']"

text \<open>\<^verbatim>\<open>Path(name).suffix\<close> of a name without separators: from the last dot, unless it is the first or the last character.\<close>

definition path_suffix :: "string \<Rightarrow> string" where
  "path_suffix name =
     (let r = takeWhile (\<lambda>c. c \<noteq> CHR ''.'') (rev name)
      in if r = [] \<or> length r + 1 \<ge> length name then [] else ''.'' @ rev r)"

text \<open>The upload, its name and its bytes; the error, or the bytes with the safe name.\<close>

definition validate_upload ::
  "(string \<Rightarrow> string) \<Rightarrow> string list \<Rightarrow> (string \<times> string) option \<Rightarrow> string + string \<times> string" where
  "validate_upload secure_filename allowed upload =
     (case upload of
        None \<Rightarrow> Inl ''No file provided''
      | Some (name, data) \<Rightarrow>
          if name = [] then Inl ''No file provided''
          else
            (let filename = secure_filename name; ext = lower (path_suffix filename) in
             if filename = [] then Inl ''Invalid filename''
             else if allowed \<noteq> [] \<and> ext \<notin> set allowed then Inl (''Invalid file type: '' @ ext)
             else if length data > MAX_UPLOAD_SIZE
             then Inl (''File too large (max '' @ str_nat (MAX_UPLOAD_SIZE div (1024 * 1024)) @ ''MB)'')
             else Inr (data, filename)))"

subsection \<open>Lemmas\<close>

lemma concat_pages: "concat (map (\<lambda>k. take n (drop (k * n) rows)) [0..<m]) = take (m * n) rows"
  by (induction m) (simp_all add: take_add [symmetric] add.commute)

lemma collapse_set: "set (collapse d s) \<subseteq> set s"
  by (induction d s rule: collapse.induct) auto

lemma strip_char_set: "set (strip_char d s) \<subseteq> set s"
  unfolding strip_char_def by (metis set_dropWhileD set_rev subsetI)

lemma slugify_chars: "list_all slug_char (slugify_cn nfkd cn)"
proof -
  let ?s = "map (\<lambda>c. if slug_char c then c else CHR ''-'') (nfkd cn)"
  have "\<forall>c \<in> set ?s. slug_char c" by (auto simp: slug_char_def)
  then have "\<forall>c \<in> set (take 64 (strip_char (CHR ''-'') (collapse (CHR ''-'') ?s))). slug_char c"
    using collapse_set strip_char_set by (metis in_set_takeD subsetD)
  then have "list_all slug_char (take 64 (strip_char (CHR ''-'') (collapse (CHR ''-'') ?s)))" by (simp only: list_all_iff)
  moreover have "list_all slug_char ''unknown''" by code_simp
  moreover have "slugify_cn nfkd cn \<in> {''unknown'', take 64 (strip_char (CHR ''-'') (collapse (CHR ''-'') ?s))}"
    unfolding slugify_cn_def Let_def by simp
  ultimately show ?thesis by (elim insertE) (simp_all only: empty_iff)
qed

lemma validate_dn_None:
  "validate_dn dn = None \<Longrightarrow> (f, value) \<in> set dn \<Longrightarrow> validate_dn_field f value = None"
proof (induction dn rule: validate_dn.induct)
  case (2 field v dn)
  have "validate_dn_field field v = None"
    using 2(3) by (cases "nonempty v"; cases "validate_dn_field field v") (simp_all add: validate_dn_field_def)
  moreover have "validate_dn dn = None" using 2(3) calculation by (simp split: if_splits)
  ultimately show ?case using 2 by (cases "nonempty v") auto
qed simp

subsection \<open>Properties\<close>

text \<open>The pages of a query, put together, are its rows, each once and in their order; no page is longer than its size, which is
  between 1 and 100 whatever the request asks for, and the pages asked for beyond the last are empty.\<close>

theorem query_pages_partition:
  "concat (map (\<lambda>k. fst (paginate rows (int k + 1) per_page)) [0..<nat (pm_total_pages (snd (paginate rows 1 per_page)))]) = rows \<and>
   int (length (fst (paginate rows page per_page))) \<le> pm_per_page (snd (paginate rows page per_page)) \<and>
   pm_per_page (snd (paginate rows page per_page)) \<in> {1..100} \<and>
   fst (paginate rows (pm_total_pages (snd (paginate rows 1 per_page)) + 1 + int extra) per_page) = []"
proof -
  define n where "n = (if per_page < 1 then 20 else if per_page > 100 then 100 else per_page)"
  define pages where "pages = nat (pm_total_pages (snd (paginate rows 1 per_page)))"
  have n: "1 \<le> n" "n \<le> 100" by (simp_all add: n_def)
  have page: "fst (paginate rows (int k + 1) per_page) = take (nat n) (drop (k * nat n) rows)" for k
    using n by (simp add: paginate_def n_def [symmetric] Let_def nat_mult_distrib)
  have pages: "pm_total_pages (snd (paginate rows 1 per_page)) = int pages"
    "int pages = (if rows = [] then 0 else (int (length rows) + n - 1) div n)"
    using n by (simp_all add: pages_def paginate_def n_def [symmetric] Let_def pos_imp_zdiv_nonneg_iff)
  have "int (length rows) \<le> int pages * n"
  proof (cases "rows = []")
    case False
    have "int (length rows) + n - 1 = int pages * n + (int (length rows) + n - 1) mod n" using pages(2) False by simp
    moreover have "(int (length rows) + n - 1) mod n < n" using n by simp
    ultimately show ?thesis by linarith
  qed (use n in simp)
  then have "int (length rows) \<le> int (pages * nat n)" using n by simp
  then have len: "length rows \<le> pages * nat n" by (simp only: of_nat_le_iff)
  then have "concat (map (\<lambda>k. fst (paginate rows (int k + 1) per_page)) [0..<pages]) = rows"
    by (simp add: page concat_pages)
  moreover have "fst (paginate rows (int (pages + extra) + 1) per_page) = []"
    unfolding page using len by (simp add: add_mult_distrib)
  moreover have "fst (paginate rows page per_page) = take (nat n) (drop (nat (((if page < 1 then 1 else page) - 1) * n)) rows)"
    "pm_per_page (snd (paginate rows page per_page)) = n"
    by (simp_all add: paginate_def n_def [symmetric] Let_def)
  ultimately show ?thesis
    using n unfolding pages_def [symmetric] pages(1) by (simp add: algebra_simps min_def le_nat_iff)
qed

text \<open>A name made safe for a download header is not empty, has at most 200 characters and no control character, line break,
  quote or path separator; a name that is safe already is kept.\<close>

theorem sanitized_names_safe:
  "sanitize_filename name \<noteq> [] \<and> length (sanitize_filename name) \<le> 200 \<and>
   list_all (\<lambda>c. \<not> is_control c \<and> c \<notin> {CHR ''/'', CHR 0x5C, CHR 0x22}) (sanitize_filename name) \<and>
   sanitize_filename (Some (sanitize_filename name)) = sanitize_filename name"
proof -
  let ?ok = "\<lambda>c. \<not> is_control c \<and> c \<notin> {CHR ''/'', CHR 0x5C, CHR 0x22}"
  have kept: "sanitize_filename (Some s) = s" if "s \<noteq> []" "length s \<le> 200" "list_all ?ok s" for s
  proof -
    have "filter (Not \<circ> is_control) s = s" "filter (\<lambda>c. c \<noteq> CHR 0x22) s = s" using that(3) by (simp_all add: list_all_iff)
    moreover have "map (\<lambda>c. if c = CHR ''/'' \<or> c = CHR 0x5C then CHR ''_'' else c) s = s"
      using that(3) by (simp add: list_all_iff map_idI)
    ultimately show ?thesis using that(1,2) by (simp add: sanitize_filename_def nonempty_def)
  qed
  let ?s = "filter (\<lambda>c. c \<noteq> CHR 0x22) (map (\<lambda>c. if c = CHR ''/'' \<or> c = CHR 0x5C then CHR ''_'' else c) (filter (Not \<circ> is_control) (the name)))"
  have "list_all ?ok (take 200 ?s)"
    by (auto simp: list_all_iff is_control_def dest!: in_set_takeD)
  moreover have "list_all ?ok ''download''" by code_simp
  moreover have "sanitize_filename name \<in> {''download'', take 200 ?s} \<and> sanitize_filename name \<noteq> []"
    unfolding sanitize_filename_def Let_def by simp
  ultimately have ok: "sanitize_filename name \<noteq> []" "length (sanitize_filename name) \<le> 200" "list_all ?ok (sanitize_filename name)"
    by auto
  then show ?thesis using kept [OF ok] by simp
qed

text \<open>The check of a distinguished name reads its values without the space around them, while the caller keeps them as they are:
  a line break at the end of a name passes.\<close>

theorem line_break_passes:
  "validate_dn [(''CN'', Some (''ca'' @ [CHR 0x0A]))] = None \<and> contains [CHR 0x0A] (''ca'' @ [CHR 0x0A])"
  by code_simp

lemma accepted_dn:
  assumes "validate_dn dn = None" "(f, Some v) \<in> set dn" "v \<noteq> []"
  shows "length (strip v) \<le> 64" "list_all (\<lambda>p. \<not> contains p (strip v)) dangerous_patterns"
    "\<And>p. map_of DN_FIELD_PATTERNS f = Some p \<Longrightarrow> p (strip v)"
  using validate_dn_None [OF assms(1,2)] assms(3)
  by (auto simp: validate_dn_field_def Let_def nonempty_def MAX_DN_FIELD_LENGTH_def list_all_iff list_ex_iff split: if_splits option.splits)

end
