(* ===== verification/Base64.thy ===== *)
theory Base64
  imports Prelude
begin

text \<open>
  \<^verbatim>\<open>base64.b64encode\<close> and \<^verbatim>\<open>base64.b64decode\<close>, in which the tables keep certificates, requests and keys. The decoder, as Python's
  in its default mode, skips characters outside the alphabet, stops at padding that completes a group and refuses a text that ends
  within a group (\<open>None\<close>).
\<close>

definition sextet_char :: "nat \<Rightarrow> char" where
  "sextet_char n =
     (if n < 26 then char_of (65 + n) else if n < 52 then char_of (97 + (n - 26)) else if n < 62 then char_of (48 + (n - 52))
      else if n = 62 then CHR ''+'' else CHR ''/'')"

definition sextet_of :: "char \<Rightarrow> nat option" where
  "sextet_of c =
     (let n = of_char c :: nat in
      if 65 \<le> n \<and> n \<le> 90 then Some (n - 65) else if 97 \<le> n \<and> n \<le> 122 then Some (n - 97 + 26)
      else if 48 \<le> n \<and> n \<le> 57 then Some (n - 48 + 52) else if n = 43 then Some 62 else if n = 47 then Some 63 else None)"

fun b64encode :: "string \<Rightarrow> string" where
  "b64encode (x # y # z # s) =
     (let a = of_char x :: nat; b = of_char y; c = of_char z
      in sextet_char (a div 4) # sextet_char (a mod 4 * 16 + b div 16) # sextet_char (b mod 16 * 4 + c div 64) # sextet_char (c mod 64)
         # b64encode s)"
| "b64encode [x, y] =
     (let a = of_char x :: nat; b = of_char y
      in [sextet_char (a div 4), sextet_char (a mod 4 * 16 + b div 16), sextet_char (b mod 16 * 4), CHR ''=''])"
| "b64encode [x] = (let a = of_char x :: nat in [sextet_char (a div 4), sextet_char (a mod 4 * 16), CHR ''='', CHR ''=''])"
| "b64encode [] = []"

text \<open>The decoder: the position in the group, the bits left over and the padding characters just read.\<close>

fun b64_scan :: "nat \<Rightarrow> nat \<Rightarrow> nat \<Rightarrow> string \<Rightarrow> string option" where
  "b64_scan pos left pads [] = (if pos = 0 then Some [] else None)"
| "b64_scan pos left pads (c # s) =
     (if c = CHR ''='' then (if 2 \<le> pos \<and> 4 \<le> pos + (pads + 1) then Some [] else b64_scan pos left (if 2 \<le> pos then pads + 1 else pads) s)
      else (case sextet_of c of
              None \<Rightarrow> b64_scan pos left pads s
            | Some v \<Rightarrow>
                if pos = 0 then b64_scan 1 v 0 s
                else if pos = 1 then map_option (Cons (char_of (left * 4 + v div 16))) (b64_scan 2 (v mod 16) 0 s)
                else if pos = 2 then map_option (Cons (char_of (left * 16 + v div 4))) (b64_scan 3 (v mod 4) 0 s)
                else map_option (Cons (char_of (left * 64 + v))) (b64_scan 0 0 0 s)))"

definition b64decode :: "string \<Rightarrow> string option" where
  "b64decode s = b64_scan 0 0 0 s"

lemma sextet_round: "n < 64 \<Longrightarrow> sextet_of (sextet_char n) = Some n"
  by (auto simp: sextet_of_def sextet_char_def Let_def)

lemma sextet_no_pad: "sextet_char n \<noteq> CHR ''=''"
proof -
  have "(of_char (sextet_char n) :: nat) \<noteq> of_char (CHR ''='')" by (auto simp: sextet_char_def)
  then show ?thesis by metis
qed

lemma scan_sextet:
  "n < 64 \<Longrightarrow> b64_scan pos left pads (sextet_char n # s) =
     (if pos = 0 then b64_scan 1 n 0 s
      else if pos = 1 then map_option (Cons (char_of (left * 4 + n div 16))) (b64_scan 2 (n mod 16) 0 s)
      else if pos = 2 then map_option (Cons (char_of (left * 16 + n div 4))) (b64_scan 3 (n mod 4) 0 s)
      else map_option (Cons (char_of (left * 64 + n))) (b64_scan 0 0 0 s))"
  by (simp add: sextet_round sextet_no_pad)

lemma byte_bounds: "(of_char c :: nat) < 256"
  by simp

lemma sextet_bounds:
  "(of_char x :: nat) div 4 < 64" "(of_char x :: nat) mod 4 * 16 + of_char y div 16 < 64"
  "(of_char y :: nat) mod 16 * 4 + of_char z div 64 < 64" "(of_char z :: nat) mod 64 < 64"
  "(of_char x :: nat) mod 4 * 16 < 64" "(of_char y :: nat) mod 16 * 4 < 64"
proof -
  have x: "(of_char x :: nat) < 256" "(of_char y :: nat) < 256" "(of_char z :: nat) < 256" by simp_all
  have m: "(of_char x :: nat) mod 4 < 4" "(of_char y :: nat) mod 16 < 16" by simp_all
  have d: "(of_char y :: nat) div 16 < 16" "(of_char z :: nat) div 64 < 4" "(of_char x :: nat) div 4 < 64" using x by linarith+
  show "(of_char x :: nat) div 4 < 64" "(of_char x :: nat) mod 4 * 16 + of_char y div 16 < 64"
    "(of_char y :: nat) mod 16 * 4 + of_char z div 64 < 64" "(of_char z :: nat) mod 64 < 64"
    "(of_char x :: nat) mod 4 * 16 < 64" "(of_char y :: nat) mod 16 * 4 < 64"
    using m d by linarith+
qed

lemma byte_1: "char_of ((of_char x :: nat) div 4 * 4 + ((of_char x mod 4 * 16 + k) div 16)) = x" if "k < 16" for k
proof -
  have "(of_char x mod 4 * 16 + k) div 16 = (of_char x :: nat) mod 4" using that by simp
  then show ?thesis by simp
qed

lemma byte_2: "char_of (((a * 16 + of_char y div 16) mod 16) * 16 + ((of_char y mod 16 * 4 + k) div 4)) = y" if "k < 4" for k a :: nat
proof -
  have "(a * 16 + (of_char y :: nat) div 16) mod 16 = of_char y div 16" using sextet_bounds by (simp add: div_less_iff_less_mult)
  moreover have "(of_char y mod 16 * 4 + k) div 4 = (of_char y :: nat) mod 16" using that by simp
  ultimately show ?thesis by simp
qed

lemma byte_3: "char_of (((b * 4 + of_char z div 64) mod 4) * 64 + (of_char z mod 64 :: nat)) = z"
proof -
  have "(b * 4 + (of_char z :: nat) div 64) mod 4 = of_char z div 64" by (simp add: div_less_iff_less_mult)
  then show ?thesis by simp
qed

lemma decode_encode: "b64_scan 0 0 0 (b64encode s) = Some s"
proof (induction s rule: b64encode.induct)
  case (1 x y z s)
  then show ?case
    using byte_1 [where k = "of_char y div 16" and x = x] byte_2 [where k = "of_char z div 64" and a = "of_char x mod 4" and y = y]
      byte_3 [where b = "of_char y mod 16" and z = z]
    by (simp add: scan_sextet sextet_bounds Let_def div_less_iff_less_mult del: b64_scan.simps)
next
  case (2 x y)
  then show ?case
    using byte_1 [where k = "of_char y div 16" and x = x] byte_2 [where k = 0 and a = "of_char x mod 4" and y = y]
    by (simp add: scan_sextet sextet_bounds Let_def div_less_iff_less_mult del: b64_scan.simps) simp
next
  case (3 x)
  then show ?case
    using byte_1 [where k = 0 and x = x] by (simp add: scan_sextet sextet_bounds Let_def del: b64_scan.simps) simp
qed simp

text \<open>A text stored in base64 is read back unchanged.\<close>

theorem b64_roundtrip: "b64decode (b64encode s) = Some s"
  by (simp add: b64decode_def decode_encode)

end
