(* ===== verification/Import_Files.thy ===== *)
theory Import_Files
  imports Crl
begin

text \<open>
  The reading of uploaded certificates, \<^verbatim>\<open>services/import_service.py\<close>: which format a file has, which part of it is read with which
  loader of the cryptography package, and what is kept of a certificate. The loaders are parameters; a loaded certificate is its PEM
  text with the fields the program reads from it.
\<close>

subsection \<open>What the library returns\<close>

record loaded =
  ld_pem :: string
  ld_attributes :: "(string \<times> string) list"
  ld_subject :: string
  ld_issuer :: string
  ld_same_names :: bool
  ld_valid_from :: time
  ld_valid_to :: time
  ld_serial :: int
  ld_ski :: "string option"
  ld_aki :: "string option"
  ld_basic_ca :: "bool option"

record loaders =
  lo_pem :: "string \<Rightarrow> py_error + loaded"
  lo_der :: "string \<Rightarrow> py_error + loaded"
  lo_pkcs7_pem :: "string \<Rightarrow> py_error + loaded list"
  lo_pkcs7_der :: "string \<Rightarrow> py_error + loaded list"
  lo_pkcs12 :: "string \<Rightarrow> string option \<Rightarrow> py_error + string option \<times> loaded option"
  lo_key :: "string \<Rightarrow> string option \<Rightarrow> py_error + string"

subsection \<open>Finding the parts of a file\<close>

text \<open>The shortest beginning of a text that ends with the given one, and the first block that starts with \<open>b\<close> and matches the rest.\<close>

fun until :: "string \<Rightarrow> string \<Rightarrow> (string \<times> string) option" where
  "until e [] = (if e = [] then Some ([], []) else None)"
| "until e (c # s) =
     (if startswith (c # s) e then Some (e, drop (length e) (c # s))
      else map_option (\<lambda>(p, r). (c # p, r)) (until e s))"

definition some_until :: "string \<Rightarrow> string \<Rightarrow> (string \<times> string) option" where
  "some_until e s = (case s of [] \<Rightarrow> None | c # r \<Rightarrow> map_option (\<lambda>(p, q). (c # p, q)) (until e r))"

fun search :: "(string \<Rightarrow> string option) \<Rightarrow> string \<Rightarrow> string option" where
  "search m [] = m []"
| "search m (c # s) = (case m (c # s) of Some t \<Rightarrow> Some t | None \<Rightarrow> search m s)"

definition certificate_block :: "string \<Rightarrow> string option" where
  "certificate_block s =
     (let b = ''-----BEGIN CERTIFICATE-----'' in
      if startswith s b then map_option (\<lambda>(p, _). b @ p) (some_until ''-----END CERTIFICATE-----'' (drop (length b) s)) else None)"

definition key_block :: "string \<Rightarrow> string option" where
  "key_block s =
     (let b = ''-----BEGIN'' in
      if \<not> startswith s b then None
      else (case until ''PRIVATE KEY-----'' (drop (length b) s) of
              None \<Rightarrow> None
            | Some (p, r) \<Rightarrow>
                (case some_until ''-----END'' r of
                   None \<Rightarrow> None
                 | Some (p2, r2) \<Rightarrow> map_option (\<lambda>(p3, _). b @ p @ p2 @ p3) (until ''PRIVATE KEY-----'' r2))))"

subsection \<open>Reading a file\<close>

definition format_of :: "string \<Rightarrow> string \<Rightarrow> string" where
  "format_of data filename =
     (if contains ''-----BEGIN'' data then ''pem''
      else if endswith filename ''.p12'' \<or> endswith filename ''.pfx'' then ''pkcs12''
      else if endswith filename ''.p7b'' \<or> endswith filename ''.p7c'' then ''pkcs7''
      else ''der'')"

definition first_of :: "'a list \<Rightarrow> 'a option" where
  "first_of xs = (case xs of [] \<Rightarrow> None | x # _ \<Rightarrow> Some x)"

definition parse_pem :: "loaders \<Rightarrow> string \<Rightarrow> string option \<Rightarrow> bool \<Rightarrow> py_error + loaded option \<times> string option" where
  "parse_pem l data password import_key =
     (let pem_data = (case search certificate_block data of Some t \<Rightarrow> t | None \<Rightarrow> data);
          p7 = (if contains ''-----BEGIN PKCS7-----'' data
                then (case lo_pkcs7_pem l data of Inl _ \<Rightarrow> None | Inr cs \<Rightarrow> first_of cs) else None);
          key = (if import_key \<and> contains ''PRIVATE KEY'' data
                 then (case search key_block data of
                         None \<Rightarrow> None
                       | Some t \<Rightarrow> (case lo_key l t (if nonempty password then password else None) of Inl _ \<Rightarrow> None | Inr k \<Rightarrow> Some k))
                 else None)
      in (case p7 of
            Some c \<Rightarrow> Inr (Some c, key)
          | None \<Rightarrow> (case lo_pem l pem_data of Inl err \<Rightarrow> Inl err | Inr c \<Rightarrow> Inr (Some c, key))))"

definition parse_der :: "loaders \<Rightarrow> string \<Rightarrow> py_error + loaded option" where
  "parse_der l data =
     (case lo_der l data of
        Inr c \<Rightarrow> Inr (Some c)
      | Inl err \<Rightarrow> (case lo_pkcs7_der l data of Inl _ \<Rightarrow> Inl err | Inr cs \<Rightarrow> Inr (first_of cs)))"

definition parse_pkcs12 :: "loaders \<Rightarrow> string \<Rightarrow> string option \<Rightarrow> py_error + loaded option \<times> string option" where
  "parse_pkcs12 l data password =
     (case lo_pkcs12 l data (if nonempty password then password else None) of
        Inr (k, c) \<Rightarrow> Inr (c, k)
      | Inl err \<Rightarrow>
          if contains ''password'' (lower (error_text err)) \<or> contains ''mac'' (lower (error_text err))
          then Inl (Value_error ''Invalid password for PKCS12 file'') else Inl err)"

definition parse_pkcs7 :: "loaders \<Rightarrow> string \<Rightarrow> py_error + loaded option" where
  "parse_pkcs7 l data =
     (case lo_pkcs7_der l data of
        Inr cs \<Rightarrow> Inr (first_of cs)
      | Inl _ \<Rightarrow> (case lo_pkcs7_pem l data of Inl err \<Rightarrow> Inl err | Inr cs \<Rightarrow> Inr (first_of cs)))"

text \<open>The certificate, the private key, if any, and the format.\<close>

definition parse_certificate_file ::
  "loaders \<Rightarrow> string \<Rightarrow> string \<Rightarrow> string option \<Rightarrow> bool \<Rightarrow> py_error + loaded \<times> string option \<times> string" where
  "parse_certificate_file l data filename password import_key =
     (let fmt = format_of data filename;
          only = (\<lambda>r. case r of Inl err \<Rightarrow> Inl err | Inr c \<Rightarrow> Inr (c, None));
          r = (if fmt = ''pem'' then parse_pem l data password import_key
               else if fmt = ''der'' then only (parse_der l data)
               else if fmt = ''pkcs12'' then parse_pkcs12 l data password
               else only (parse_pkcs7 l data))
      in (case r of
            Inl err \<Rightarrow> Inl err
          | Inr (None, _) \<Rightarrow>
              Inl (Value_error ''Could not parse certificate. Supported formats: PEM, DER, PKCS12 (.p12, .pfx), PKCS7 (.p7b)'')
          | Inr (Some c, key) \<Rightarrow> Inr (c, key, fmt)))"

definition is_ca_certificate :: "loaded \<Rightarrow> bool" where
  "is_ca_certificate c = (case ld_basic_ca c of None \<Rightarrow> False | Some b \<Rightarrow> b)"

record cert_info =
  cf_cn :: string
  cf_org :: string
  cf_country :: string
  cf_subject :: string
  cf_issuer :: string
  cf_is_self_signed :: bool
  cf_valid_from :: time
  cf_valid_to :: time
  cf_serial_number :: int
  cf_serial_hex :: string
  cf_ski :: "string option"
  cf_aki :: "string option"

definition get_name_attr :: "(string \<times> string) list \<Rightarrow> string \<Rightarrow> string" where
  "get_name_attr attrs oid = (case find (\<lambda>a. fst a = oid) attrs of None \<Rightarrow> [] | Some a \<Rightarrow> snd a)"

definition extract_cert_info :: "loaded \<Rightarrow> cert_info" where
  "extract_cert_info c =
     \<lparr>cf_cn = get_name_attr (ld_attributes c) ''commonName'', cf_org = get_name_attr (ld_attributes c) ''organizationName'',
      cf_country = get_name_attr (ld_attributes c) ''countryName'', cf_subject = ld_subject c, cf_issuer = ld_issuer c,
      cf_is_self_signed = ld_same_names c, cf_valid_from = ld_valid_from c, cf_valid_to = ld_valid_to c,
      cf_serial_number = ld_serial c, cf_serial_hex = upper (format_hex (ld_serial c)), cf_ski = ld_ski c, cf_aki = ld_aki c\<rparr>"

definition find_existing_certificate :: "cert_info \<Rightarrow> certificate list \<Rightarrow> certificate option" where
  "find_existing_certificate info certs =
     find (\<lambda>c. ct_subject c = Some (cf_subject info) \<and> ct_issuer c = Some (cf_issuer info)) certs"

subsection \<open>Lemmas\<close>

lemma endswith_append: "endswith q e \<Longrightarrow> endswith (p @ q) e"
  by (auto simp: endswith_def startswith_iff)

lemma until_Some: "until e s = Some (p, r) \<Longrightarrow> s = p @ r \<and> endswith p e"
proof (induction s arbitrary: p)
  case (Cons c s)
  show ?case
  proof (cases "startswith (c # s) e")
    case True
    then show ?thesis using Cons by (auto simp: startswith_def endswith_def) (metis append_take_drop_id)
  next
    case False
    then obtain q where q: "until e s = Some (q, r)" "p = c # q" using Cons(2) by auto
    then have "s = q @ r" "endswith q e" using Cons(1) by auto
    then show ?thesis using q(2) endswith_append [of q e "[c]"] by simp
  qed
qed (simp split: if_splits add: endswith_def startswith_def)

lemma certificate_block_Some:
  assumes "certificate_block s = Some t"
  shows "\<exists>r. s = t @ r" "startswith t ''-----BEGIN CERTIFICATE-----''" "endswith t ''-----END CERTIFICATE-----''"
proof -
  let ?b = "''-----BEGIN CERTIFICATE-----''" and ?e = "''-----END CERTIFICATE-----''"
  obtain p r where s: "startswith s ?b" "some_until ?e (drop (length ?b) s) = Some (p, r)" "t = ?b @ p"
    using assms unfolding certificate_block_def Let_def by (auto split: if_splits)
  then obtain c q u where d: "drop (length ?b) s = c # q" "until ?e q = Some (u, r)" "p = c # u"
    by (auto simp: some_until_def split: list.splits)
  have "s = ?b @ drop (length ?b) s" using s(1) unfolding startswith_def by (metis append_take_drop_id)
  then have "s = ?b @ c # q" unfolding d(1) .
  then show "\<exists>r. s = t @ r" using until_Some [OF d(2)] s(3) d(3) by auto
  show "startswith t ?b" unfolding s(3) by (rule startswith_append)
  have "endswith ((?b @ [c]) @ u) ?e" using until_Some [OF d(2)] by (intro endswith_append) simp
  then show "endswith t ?e" unfolding s(3) d(3) by simp
qed

lemma search_Some: "search m s = Some t \<Longrightarrow> \<exists>p r. s = p @ r \<and> m r = Some t"
proof (induction s)
  case (Cons c s)
  then show ?case
  proof (cases "m (c # s)")
    case None
    then obtain p r where "s = p @ r" "m r = Some t" using Cons by auto
    then show ?thesis by (intro exI [of _ "c # p"] exI [of _ r]) simp
  qed (use Cons in fastforce)
qed auto

text \<open>What is read as the certificate of a PEM file is a part of the file between the two lines that mark a certificate.\<close>

lemma read_block_in_file:
  assumes "search certificate_block file = Some t"
  shows "\<exists>p r. file = p @ t @ r \<and> startswith t ''-----BEGIN CERTIFICATE-----'' \<and> endswith t ''-----END CERTIFICATE-----''"
  using search_Some [OF assms] certificate_block_Some by metis

end
