(* ===== verification/Ca_Tree.thy ===== *)
theory Ca_Tree
  imports Import_Files Import_Checks Base64 Utilities Auth
begin

text \<open>
  The certificate authorities: \<^verbatim>\<open>services/ca_service.py\<close>, \<^verbatim>\<open>api/v2/cas.py\<close> and the class \<^verbatim>\<open>CA\<close> of \<^verbatim>\<open>models/__init__.py\<close>.

  A row extends the part that theory \<open>Crl\<close> uses. Making a certificate with its key (\<open>ve_make\<close>: the trust store service over the
  cryptography package), loading, encrypting and packing are parameters. Files are a dictionary from directory and name to content;
  writing them does not fail. Notifications and WebSocket messages, whose failures the code ignores, are left out. A walk up the tree
  may not end: it takes a number of steps, and \<open>None\<close> says that they do not suffice.
\<close>

subsection \<open>Rows\<close>

record ca_record = authority +
  cw_serial :: "int option"
  cw_caref :: "string option"
  cw_issuer :: "string option"
  cw_ski :: "string option"
  cw_valid_from :: "time option"
  cw_valid_to :: "time option"
  cw_imported_from :: "string option"
  cw_created_at :: time
  cw_created_by :: "string option"
  cw_ocsp_url :: "string option"

record cert_record = certificate +
  cx_aki :: "string option"
  cx_ski :: "string option"
  cx_subject_cn :: "string option"
  cx_created_at :: time
  cx_csr :: "string option"
  cx_cert_type :: "string option"
  cx_san_dns :: "string list option"
  cx_san_ip :: "string list option"
  cx_san_email :: "string list option"
  cx_created_by :: "string option"
  cx_imported_from :: "string option"

record ca_db =
  cb_cas :: "ca_record list"
  cb_certs :: "cert_record list"
  cb_crls :: "crl_metadata list"
  cb_ocsp :: "ocsp_response list"
  cb_files :: "((string \<times> string) \<times> string) list"
  cb_logs :: "audit_log list"

record ca_env =
  ve_log :: "audit_args \<Rightarrow> audit_log list \<Rightarrow> audit_log list"
  ve_nfkd :: "string \<Rightarrow> string"
  ve_make :: "(string \<times> string option) list \<Rightarrow> json \<Rightarrow> int \<Rightarrow> (string \<times> string) option \<Rightarrow> py_error + loaded \<times> string"
  ve_encrypt :: "string \<Rightarrow> string"
  ve_decrypt :: "string \<Rightarrow> py_error + string"
  ve_loaders :: loaders
  ve_secure_filename :: "string \<Rightarrow> string"
  ve_key_type :: "string \<Rightarrow> string"
  ve_hash_algorithm :: "string \<Rightarrow> string"
  ve_lock_key :: "string \<Rightarrow> string \<Rightarrow> py_error + string"
  ve_der :: "string \<Rightarrow> py_error + string"
  ve_pkcs12 :: "string \<Rightarrow> string \<Rightarrow> string \<Rightarrow> string list \<Rightarrow> string \<Rightarrow> py_error + string"
  ve_pkcs7 :: "string \<Rightarrow> py_error + string"

definition unbase64 :: "string \<Rightarrow> py_error + string" where
  "unbase64 s = (case b64decode s of None \<Rightarrow> Inl (Value_error ''Incorrect padding'') | Some t \<Rightarrow> Inr t)"

definition decoded_key :: "ca_env \<Rightarrow> ca_record \<Rightarrow> py_error + string" where
  "decoded_key e ca = and_then (ve_decrypt e (the (au_prv ca))) unbase64"

definition is_root :: "ca_record \<Rightarrow> bool" where
  "is_root ca = (nonempty (au_subject ca) \<and> nonempty (cw_issuer ca) \<and> au_subject ca = cw_issuer ca)"

definition parent_of :: "ca_record list \<Rightarrow> ca_record \<Rightarrow> ca_record option" where
  "parent_of cas ca = (if nonempty (cw_caref ca) then find (\<lambda>p. au_refid p = the (cw_caref ca)) cas else None)"

subsection \<open>Views\<close>

record ca_view =
  vw_id :: int
  vw_refid :: string
  vw_descr :: string
  vw_serial :: "int option"
  vw_caref :: "string option"
  vw_parent_id :: "int option"
  vw_ski :: "string option"
  vw_subject :: "string option"
  vw_issuer :: "string option"
  vw_valid_from :: "time option"
  vw_valid_to :: "time option"
  vw_imported_from :: "string option"
  vw_created_at :: time
  vw_created_by :: "string option"
  vw_has_private_key :: bool
  vw_names :: "(string \<times> string) list"
  vw_is_root :: bool
  vw_type :: string
  vw_status :: string
  vw_certs :: nat
  vw_key_type :: string
  vw_hash_algorithm :: string
  vw_cdp :: "bool \<times> string option \<times> bool \<times> int"
  vw_ocsp :: "bool \<times> string option"
  vw_pem :: "string option"

definition certs_of :: "string \<Rightarrow> cert_record list \<Rightarrow> cert_record list" where
  "certs_of refid certs = filter (\<lambda>c. ct_caref c = Some refid) certs"

definition ca_to_dict :: "ca_env \<Rightarrow> time \<Rightarrow> ca_db \<Rightarrow> ca_record \<Rightarrow> ca_view" where
  "ca_to_dict e now db ca =
     \<lparr>vw_id = au_id ca, vw_refid = au_refid ca, vw_descr = au_descr ca, vw_serial = cw_serial ca, vw_caref = cw_caref ca,
      vw_parent_id = map_option au_id (parent_of (cb_cas db) ca), vw_ski = cw_ski ca, vw_subject = au_subject ca,
      vw_issuer = cw_issuer ca, vw_valid_from = cw_valid_from ca, vw_valid_to = cw_valid_to ca,
      vw_imported_from = cw_imported_from ca, vw_created_at = cw_created_at ca, vw_created_by = cw_created_by ca,
      vw_has_private_key = has_private_key (authority.truncate ca),
      vw_names = map (\<lambda>f. (f, extract_dn_field (au_subject ca) f)) [''CN'', ''O'', ''OU'', ''C'', ''ST'', ''L''],
      vw_is_root = is_root ca, vw_type = (if is_root ca then ''root'' else ''intermediate''),
      vw_status = (case cw_valid_to ca of None \<Rightarrow> ''Active'' | Some t \<Rightarrow> if t < now then ''Expired'' else ''Active''),
      vw_certs = length (certs_of (au_refid ca) (cb_certs db)), vw_key_type = ve_key_type e (au_crt ca),
      vw_hash_algorithm = ve_hash_algorithm e (au_crt ca),
      vw_cdp = (au_cdp_enabled ca, au_cdp_url ca, au_delta_crl_enabled ca,
                (case au_delta_crl_interval ca of None \<Rightarrow> 4 | Some k \<Rightarrow> if k = 0 then 4 else k)),
      vw_ocsp = (au_ocsp_enabled ca, cw_ocsp_url ca), vw_pem = (if au_crt ca = [] then None else b64decode (au_crt ca))\<rparr>"

text \<open>Certificates are counted by the reference, and if there are none by the common name of their issuer.\<close>

definition cert_count :: "ca_db \<Rightarrow> ca_record \<Rightarrow> nat" where
  "cert_count db ca =
     (let n = length (certs_of (au_refid ca) (cb_certs db)); cn = extract_dn_field (au_subject ca) ''CN'' in
      if n = 0 \<and> cn \<noteq> []
      then length (filter (\<lambda>c. ilike (ct_issuer c) (''CN='' @ cn @ '',%'') \<or> ilike (ct_issuer c) (''%,CN='' @ cn @ '',%'') \<or>
                               ilike (ct_issuer c) (''%,CN='' @ cn)) (cb_certs db))
      else n)"

definition list_cas :: "ca_env \<Rightarrow> time \<Rightarrow> int \<Rightarrow> int \<Rightarrow> string \<Rightarrow> string \<Rightarrow> ca_db \<Rightarrow> (ca_view list \<times> nat \<times> int) http" where
  "list_cas e now page per_page search_arg type_arg db =
     (let rows = sort_key (\<lambda>ca. - cw_created_at ca) (cb_cas db);
          found = filter (\<lambda>ca. (search_arg = [] \<or> contains (lower search_arg) (lower (au_descr ca))) \<and>
                     (type_arg = ''orphan'' \<longrightarrow>
                        cw_imported_from ca = Some ''manual'' \<and> \<not> is_root ca \<and> \<not> nonempty (cw_caref ca))) rows;
          start = (page - 1) * per_page;
          shown = py_slice found start (start + per_page)
      in if per_page = 0 then Raised ''ZeroDivisionError''
         else success_response (map (\<lambda>ca. (ca_to_dict e now db ca)\<lparr>vw_certs := cert_count db ca\<rparr>) shown,
                length found, (int (length found) + per_page - 1) div per_page) [])"

text \<open>The call for the state of the CRL names a method that does not exist: the failure is ignored, the state says \<^verbatim>\<open>Not Generated\<close>.\<close>

definition get_ca :: "ca_env \<Rightarrow> time \<Rightarrow> int \<Rightarrow> ca_db \<Rightarrow> (ca_view \<times> string) http" where
  "get_ca e now i db =
     (case row_get au_id (cb_cas db) i of
        None \<Rightarrow> error_response ''CA not found'' 404
      | Some ca \<Rightarrow> success_response ((ca_to_dict e now db ca)\<lparr>vw_certs := cert_count db ca\<rparr>, ''Not Generated'') [])"

definition list_ca_certificates :: "int \<Rightarrow> int \<Rightarrow> int \<Rightarrow> ca_db \<Rightarrow> (cert_record list \<times> page_meta) http" where
  "list_ca_certificates i page per_page db =
     (case row_get au_id (cb_cas db) i of
        None \<Rightarrow> error_response ''CA not found'' 404
      | Some ca \<Rightarrow>
          success_response (paginate (sort_key (\<lambda>c. - cx_created_at c) (certs_of (au_refid ca) (cb_certs db))) page per_page) [])"

subsection \<open>Walking up the tree\<close>

text \<open>Reads the certificates of a CA and its ancestors, one after the other, until a CA has no parent or a reading fails.\<close>

fun read_up :: "(ca_record \<Rightarrow> py_error + 'a list) \<Rightarrow> nat \<Rightarrow> ca_record list \<Rightarrow> ca_record option \<Rightarrow> (py_error + 'a list) option" where
  "read_up rd n cas None = Some (Inr [])"
| "read_up rd 0 cas (Some ca) = None"
| "read_up rd (Suc n) cas (Some ca) =
     (case rd ca of
        Inl err \<Rightarrow> Some (Inl err)
      | Inr ts \<Rightarrow> map_option (map_sum id (\<lambda>us. ts @ us)) (read_up rd n cas (parent_of cas ca)))"

definition ca_text :: "ca_record \<Rightarrow> py_error + string list" where
  "ca_text ca = and_then (unbase64 (au_crt ca)) (\<lambda>t. Inr [t])"

definition get_ca_chain :: "nat \<Rightarrow> int \<Rightarrow> ca_db \<Rightarrow> (py_error + string list) option" where
  "get_ca_chain n i db = read_up ca_text n (cb_cas db) (row_get au_id (cb_cas db) i)"


subsection \<open>Creating\<close>

record ca_body =
  bd_common_name :: "string option"
  bd_organization :: "string option"
  bd_organizational_unit :: "string option"
  bd_country :: "string option"
  bd_state :: "string option"
  bd_locality :: "string option"
  bd_key_algo :: "string option"
  bd_key_size :: json
  bd_type :: "string option"
  bd_parent :: json
  bd_description :: "string option"
  bd_validity_years :: json

definition or_null :: "string option \<Rightarrow> string option" where
  "or_null s = (if nonempty s then s else None)"

definition body_dn :: "ca_body \<Rightarrow> (string \<times> string option) list" where
  "body_dn b =
     [(''CN'', bd_common_name b), (''O'', bd_organization b), (''OU'', or_null (bd_organizational_unit b)),
      (''C'', or_null (map_option upper (bd_country b))), (''ST'', or_null (bd_state b)), (''L'', or_null (bd_locality b))]"

definition int_or :: "json \<Rightarrow> int \<Rightarrow> (string \<times> nat) + int" where
  "int_or j d =
     (if \<not> truthy j then Inr d
      else (case json_to_int j of Int_value i \<Rightarrow> Inr i | _ \<Rightarrow> Inl (''Failed to create CA'', 500)))"

definition key_type_of :: "ca_body \<Rightarrow> (string \<times> nat) + json" where
  "key_type_of b =
     (if bd_key_algo b = Some ''RSA''
      then and_then (int_or (bd_key_size b) 2048) (\<lambda>n.
             if n < 2048 then Inl (''RSA key size must be at least 2048 bits'', 400) else Inr (JStr (str_int n)))
      else if bd_key_algo b = Some ''ECDSA'' then Inr (if truthy (bd_key_size b) then bd_key_size b else JStr ''prime256v1'')
      else Inr (JStr ''2048''))"

text \<open>The parent's reference, for an intermediate CA.\<close>

definition chosen_parent :: "ca_env \<Rightarrow> time \<Rightarrow> ca_body \<Rightarrow> ca_record list \<Rightarrow> (string \<times> nat) + string option" where
  "chosen_parent e now b cas =
     (if bd_type b = Some ''intermediate'' \<and> truthy (bd_parent b)
      then and_then (int_or (bd_parent b) 0) (\<lambda>i.
             case row_get au_id cas i of
               None \<Rightarrow> Inl (''Parent CA not found'', 400)
             | Some p \<Rightarrow>
                 if \<not> nonempty (au_prv p) then Inl (''Parent CA has no private key'', 400)
                 else (case and_then (unbase64 (au_crt p)) (lo_pem (ve_loaders e)) of
                         Inl _ \<Rightarrow> Inl (''Failed to create CA'', 500)
                       | Inr c \<Rightarrow> if now > ld_valid_to c then Inl (''Parent CA certificate has expired'', 400)
                                  else Inr (Some (au_refid p))))
      else Inr None)"

definition new_ca :: "ca_env \<Rightarrow> time \<Rightarrow> int \<Rightarrow> string \<Rightarrow> string \<Rightarrow> loaded \<Rightarrow> string \<Rightarrow> string option \<Rightarrow> string \<Rightarrow> ca_record" where
  "new_ca e now i refid descr c key caref user =
     \<lparr>au_id = i, au_refid = refid, au_descr = descr, au_subject = Some (ld_subject c), au_crt = b64encode (ld_pem c),
      au_prv = Some (ve_encrypt e (b64encode key)), au_hsm_key_id = None, au_cdp_enabled = False, au_cdp_url = None,
      au_delta_crl_enabled = False, au_delta_crl_interval = Some 4, au_ocsp_enabled = False,
      cw_serial = Some 0, cw_caref = caref, cw_issuer = Some (ld_issuer c), cw_ski = ld_ski c,
      cw_valid_from = Some (ld_valid_from c), cw_valid_to = Some (ld_valid_to c), cw_imported_from = Some ''generated'',
      cw_created_at = now, cw_created_by = Some user, cw_ocsp_url = None\<rparr>"

definition next_serial :: "ca_record \<Rightarrow> ca_record" where
  "next_serial ca = ca\<lparr>cw_serial := Some ((case cw_serial ca of None \<Rightarrow> 0 | Some k \<Rightarrow> k) + 1)\<rparr>"

definition signing_parent :: "ca_env \<Rightarrow> string option \<Rightarrow> ca_record list \<Rightarrow> py_error + (string \<times> string) option" where
  "signing_parent e caref cas =
     (if \<not> nonempty caref then Inr None
      else (case find (\<lambda>p. au_refid p = the caref) cas of
              None \<Rightarrow> Inl (Value_error (''Parent CA not found: '' @ the caref))
            | Some p \<Rightarrow>
                and_then (unbase64 (au_crt p)) (\<lambda>pem.
                if \<not> nonempty (au_prv p) then Inl (Value_error ''Parent CA has no private key'')
                else and_then (decoded_key e p) (\<lambda>key. Inr (Some (pem, key))))))"

definition create_internal_ca ::
  "ca_env \<Rightarrow> time \<Rightarrow> string \<Rightarrow> string \<Rightarrow> (string \<times> string option) list \<Rightarrow> json \<Rightarrow> int \<Rightarrow> string option \<Rightarrow> string \<Rightarrow> ca_db \<Rightarrow>
     (py_error + ca_record) \<times> ca_db" where
  "create_internal_ca e now refid descr dn key_type validity caref user db =
     (case and_then (signing_parent e caref (cb_cas db)) (ve_make e dn key_type validity) of
        Inl err \<Rightarrow> (Inl err, db)
      | Inr (c, key) \<Rightarrow>
          (let ca = new_ca e now (next_id au_id (cb_cas db)) refid descr c key caref user;
               cas = (if nonempty caref then map (\<lambda>p. if au_refid p = the caref then next_serial p else p) (cb_cas db) else cb_cas db)
           in if list_ex (\<lambda>p. au_refid p = refid) (cb_cas db) then (Inl (Other_error ''IntegrityError''), db)
              else (Inr ca,
                    db\<lparr>cb_cas := cas @ [ca],
                       cb_logs := ve_log e (log_ca ''ca_created'' (ca_object (authority.truncate ca)) (Some (''Created CA: '' @ descr)) True) (cb_logs db),
                       cb_files := dict_set (''private'', ca_key_path (ve_nfkd e) (au_subject ca) descr refid) key
                          (dict_set (''ca'', ca_cert_path (ve_nfkd e) (au_subject ca) descr refid) (ld_pem c) (cb_files db))\<rparr>)))"

text \<open>The checks before a CA is made: its parent, kind of key and validity.\<close>

definition ca_request :: "ca_env \<Rightarrow> time \<Rightarrow> ca_body \<Rightarrow> ca_record list \<Rightarrow> (string \<times> nat) + json \<times> string option \<times> int" where
  "ca_request e now b cas =
     (if \<not> nonempty (bd_common_name b) then Inl (''Common Name is required'', 400)
      else (case validate_dn (body_dn b) of
              Some err \<Rightarrow> Inl (err, 400)
            | None \<Rightarrow>
                and_then (key_type_of b) (\<lambda>kt.
                and_then (chosen_parent e now b cas) (\<lambda>caref.
                and_then (int_or (bd_validity_years b) 10) (\<lambda>years. Inr (kt, caref, years * 365))))))"

definition create_ca :: "ca_env \<Rightarrow> time \<Rightarrow> string \<Rightarrow> string \<Rightarrow> ca_body \<Rightarrow> ca_db \<Rightarrow> ca_view http \<times> ca_db" where
  "create_ca e now refid user b db =
     (case ca_request e now b (cb_cas db) of
        Inl (err, code) \<Rightarrow> (error_response err code, db)
      | Inr (kt, caref, validity) \<Rightarrow>
          (case create_internal_ca e now refid (or_else (bd_description b) (the (bd_common_name b))) (body_dn b) kt validity caref user db of
             (Inl _, db') \<Rightarrow> (error_response ''Failed to create CA'' 500, db')
           | (Inr ca, db') \<Rightarrow> (Success (ca_to_dict e now db' ca) ''CA created successfully'' 201, db')))"

subsection \<open>Importing\<close>

record ca_upload =
  uf_file :: "(string \<times> string) option"
  uf_pem_content :: "string option"
  uf_password :: "string option"
  uf_name :: string
  uf_import_key :: string
  uf_update_existing :: string

definition upload_data :: "ca_env \<Rightarrow> ca_upload \<Rightarrow> string + string \<times> string" where
  "upload_data e f =
     (case uf_file f of
        Some (name, data) \<Rightarrow>
          if name \<noteq> [] then (case validate_upload (ve_secure_filename e) CERT_EXTENSIONS (Some (name, data)) of
                                Inl _ \<Rightarrow> Inl ''Invalid file upload'' | Inr r \<Rightarrow> Inr r)
          else if nonempty (uf_pem_content f) then Inr (the (uf_pem_content f), ''pasted.pem'')
          else Inl ''No file or PEM content provided''
      | None \<Rightarrow> if nonempty (uf_pem_content f) then Inr (the (uf_pem_content f), ''pasted.pem'')
                else Inl ''No file or PEM content provided'')"

definition find_existing_ca :: "cert_info \<Rightarrow> ca_record list \<Rightarrow> ca_record option" where
  "find_existing_ca info cas = find (\<lambda>ca. au_subject ca = Some (cf_subject info)) cas"

definition pick :: "string list \<Rightarrow> string" where
  "pick names = (case find (\<lambda>s. s \<noteq> []) names of None \<Rightarrow> [] | Some s \<Rightarrow> s)"

definition reimported :: "string \<Rightarrow> loaded \<Rightarrow> string option \<Rightarrow> ca_record \<Rightarrow> ca_record" where
  "reimported name c key ca =
     (let info = extract_cert_info c in
      ca\<lparr>au_descr := pick [name, cf_cn info, au_descr ca], au_crt := b64encode (ld_pem c),
         au_prv := (if nonempty key then Some (b64encode (the key)) else au_prv ca), cw_issuer := Some (cf_issuer info),
         cw_valid_from := Some (cf_valid_from info), cw_valid_to := Some (cf_valid_to info)\<rparr>)"

definition imported_ca :: "time \<Rightarrow> int \<Rightarrow> string \<Rightarrow> string \<Rightarrow> loaded \<Rightarrow> string option \<Rightarrow> ca_record" where
  "imported_ca now i refid descr c key =
     (let info = extract_cert_info c in
      \<lparr>au_id = i, au_refid = refid, au_descr = descr, au_subject = Some (cf_subject info), au_crt = b64encode (ld_pem c),
       au_prv = (if nonempty key then Some (b64encode (the key)) else None), au_hsm_key_id = None, au_cdp_enabled = False,
       au_cdp_url = None, au_delta_crl_enabled = False, au_delta_crl_interval = Some 4, au_ocsp_enabled = False,
       cw_serial = Some 0, cw_caref = None, cw_issuer = Some (cf_issuer info), cw_ski = cf_ski info,
       cw_valid_from = Some (cf_valid_from info), cw_valid_to = Some (cf_valid_to info), cw_imported_from = Some ''manual'',
       cw_created_at = now, cw_created_by = None, cw_ocsp_url = None\<rparr>)"

definition in_quotes :: "string \<Rightarrow> string" where
  "in_quotes s = [CHR 0x22] @ s @ [CHR 0x22]"

definition log_ca_action :: "ca_env \<Rightarrow> string \<Rightarrow> int \<Rightarrow> string \<Rightarrow> string \<Rightarrow> ca_db \<Rightarrow> ca_db" where
  "log_ca_action e act i name text db =
     db\<lparr>cb_logs := ve_log e (audit_call act (Some ''ca'') (Num_id i) (Txt name) (Txt text) True None) (cb_logs db)\<rparr>"

text \<open>What is done with a parsed upload: the row of a CA with the same subject is overwritten, otherwise a row is added.\<close>

definition store_import ::
  "ca_env \<Rightarrow> time \<Rightarrow> string \<Rightarrow> ca_upload \<Rightarrow> string \<Rightarrow> loaded \<Rightarrow> string option \<Rightarrow> ca_db \<Rightarrow> ca_view http \<times> ca_db" where
  "store_import e now refid f filename c key db =
     (let info = extract_cert_info c in
      case find_existing_ca info (cb_cas db) of
        Some old \<Rightarrow>
          if lower (uf_update_existing f) \<noteq> ''true''
          then (error_response (''CA with subject '' @ in_quotes (cf_cn info) @ '' already exists (ID: '' @ str_int (au_id old) @ '')'') 409, db)
          else
            (let ca = reimported (uf_name f) c key old;
                 db' = db\<lparr>cb_cas := row_update au_id (au_id old) (\<lambda>_. ca) (cb_cas db)\<rparr>
             in (success_response (ca_to_dict e now db' ca) (''CA '' @ in_quotes (au_descr ca) @ '' updated (already existed)''),
                 log_ca_action e ''ca_updated'' (au_id ca) (au_descr ca) (''Updated CA via import: '' @ au_descr ca) db'))
      | None \<Rightarrow>
          if list_ex (\<lambda>p. au_refid p = refid) (cb_cas db) then (error_response ''Import failed'' 500, db)
          else
            (let ca = imported_ca now (next_id au_id (cb_cas db)) refid (pick [uf_name f, cf_cn info, filename]) c key;
                 db' = db\<lparr>cb_cas := cb_cas db @ [ca]\<rparr>
             in (Success (ca_to_dict e now db' ca) (''CA '' @ in_quotes (au_descr ca) @ '' imported successfully'') 201,
                 log_ca_action e ''ca_imported'' (au_id ca) (au_descr ca) (''Imported CA: '' @ au_descr ca) db')))"

definition import_ca :: "ca_env \<Rightarrow> time \<Rightarrow> string \<Rightarrow> ca_upload \<Rightarrow> ca_db \<Rightarrow> ca_view http \<times> ca_db" where
  "import_ca e now refid f db =
     (case upload_data e f of
        Inl err \<Rightarrow> (error_response err 400, db)
      | Inr (data, filename) \<Rightarrow>
          (let import_key = lower (uf_import_key f) = ''true'' in
           case parse_certificate_file (ve_loaders e) data filename (uf_password f) import_key of
             Inl (Value_error _) \<Rightarrow> (error_response ''Invalid CA data'' 400, db)
           | Inl (Other_error _) \<Rightarrow> (error_response ''Import failed'' 500, db)
           | Inr (c, key, _) \<Rightarrow> store_import e now refid f filename c (if import_key then key else None) db))"

text \<open>The import of the service, which no route calls, checks that the certificate is one of a CA.\<close>

definition service_import_ca ::
  "ca_env \<Rightarrow> time \<Rightarrow> string \<Rightarrow> string \<Rightarrow> string \<Rightarrow> string option \<Rightarrow> string \<Rightarrow> ca_db \<Rightarrow> (py_error + ca_record) \<times> ca_db" where
  "service_import_ca e now refid descr cert_pem key user db =
     (case lo_pem (ve_loaders e) cert_pem of
        Inl err \<Rightarrow> (Inl err, db)
      | Inr c \<Rightarrow>
          if ld_basic_ca c = None then (Inl (Value_error ''Certificate has no BasicConstraints extension''), db)
          else if ld_basic_ca c = Some False then (Inl (Value_error ''Certificate is not a CA certificate''), db)
          else if list_ex (\<lambda>p. au_refid p = refid) (cb_cas db) then (Inl (Other_error ''IntegrityError''), db)
          else
            (let ca = (imported_ca now (next_id au_id (cb_cas db)) refid descr c key)
                        \<lparr>au_crt := b64encode cert_pem, cw_ski := None, cw_created_by := Some user\<rparr>;
                 cert_file = dict_set (''ca'', ca_cert_path (ve_nfkd e) (au_subject ca) descr refid) cert_pem (cb_files db)
             in (Inr ca,
                 db\<lparr>cb_cas := cb_cas db @ [ca],
                    cb_logs := ve_log e (log_ca ''ca_imported'' (ca_object (authority.truncate ca)) (Some (''Imported CA: '' @ descr)) True) (cb_logs db),
                    cb_files := (if nonempty key
                                 then dict_set (''private'', ca_key_path (ve_nfkd e) (au_subject ca) descr refid) (the key) cert_file
                                 else cert_file)\<rparr>)))"

subsection \<open>Changing and deleting\<close>

record ca_patch =
  pt_name :: "string option"
  pt_ocsp_enabled :: "bool option"
  pt_ocsp_url :: "string option option"
  pt_cdp_enabled :: "bool option"
  pt_cdp_url :: "string option option"
  pt_is_active :: "bool option"

text \<open>\<^verbatim>\<open>is_active\<close> is no column: setting it has no lasting effect.\<close>

definition patched :: "ca_patch \<Rightarrow> ca_record \<Rightarrow> ca_record" where
  "patched p ca =
     ca\<lparr>au_descr := (case pt_name p of None \<Rightarrow> au_descr ca | Some n \<Rightarrow> n),
        au_ocsp_enabled := (case pt_ocsp_enabled p of None \<Rightarrow> au_ocsp_enabled ca | Some b \<Rightarrow> b),
        cw_ocsp_url := (case pt_ocsp_url p of None \<Rightarrow> cw_ocsp_url ca | Some u \<Rightarrow> u),
        au_cdp_enabled := (case pt_cdp_enabled p of None \<Rightarrow> au_cdp_enabled ca | Some b \<Rightarrow> b),
        au_cdp_url := (case pt_cdp_url p of None \<Rightarrow> au_cdp_url ca | Some u \<Rightarrow> u)\<rparr>"

definition update_ca :: "ca_env \<Rightarrow> time \<Rightarrow> int \<Rightarrow> ca_patch \<Rightarrow> ca_db \<Rightarrow> ca_view http \<times> ca_db" where
  "update_ca e now i p db =
     (case row_get au_id (cb_cas db) i of
        None \<Rightarrow> (error_response ''CA not found'' 404, db)
      | Some old \<Rightarrow>
          (let ca = patched p old; db' = db\<lparr>cb_cas := row_update au_id i (\<lambda>_. ca) (cb_cas db)\<rparr>
           in (success_response (ca_to_dict e now db' ca) ''CA updated successfully'',
               log_ca_action e ''ca_updated'' i (au_descr ca) (''CA '' @ au_descr ca @ '' settings updated'') db')))"

text \<open>Why a CA may not be deleted: CAs, or certificates, that refer to it.\<close>

definition dependents :: "ca_record \<Rightarrow> ca_db \<Rightarrow> nat \<times> nat" where
  "dependents ca db =
     (length (filter (\<lambda>c. cw_caref c = Some (au_refid ca)) (cb_cas db)), length (certs_of (au_refid ca) (cb_certs db)))"

definition drop_ca :: "int \<Rightarrow> ca_db \<Rightarrow> ca_db" where
  "drop_ca i db =
     db\<lparr>cb_cas := row_delete au_id i (cb_cas db), cb_crls := filter (\<lambda>m. cm_ca_id m \<noteq> i) (cb_crls db),
        cb_ocsp := filter (\<lambda>r. os_ca_id r \<noteq> i) (cb_ocsp db)\<rparr>"

definition delete_ca :: "ca_env \<Rightarrow> int \<Rightarrow> ca_db \<Rightarrow> unit http \<times> ca_db" where
  "delete_ca e i db =
     (case row_get au_id (cb_cas db) i of
        None \<Rightarrow> (error_response ''CA not found'' 404, db)
      | Some ca \<Rightarrow>
          (let name = (if au_descr ca = [] then ''CA #'' @ str_int i else au_descr ca); (children, certs) = dependents ca db in
           if children > 0
           then (error_response (''Cannot delete CA: '' @ str_nat children @ '' intermediate CA(s) depend on it. Delete them first.'') 409, db)
           else if certs > 0
           then (error_response (''Cannot delete CA: '' @ str_nat certs @ '' certificate(s) were issued by it. Revoke and delete them first.'') 409, db)
           else (Success () [] 204,
                 log_ca_action e ''ca_deleted'' i name
                   (''Deleted CA: '' @ name @ '' (cleaned '' @ str_nat (length (filter (\<lambda>m. cm_ca_id m = i) (cb_crls db))) @ '' CRLs, '' @
                    str_nat (length (filter (\<lambda>r. os_ca_id r = i) (cb_ocsp db))) @ '' OCSP responses)'') (drop_ca i db))))"

record bulk_ids =
  bi_success :: "int list"
  bi_failed :: "(int \<times> string) list"

definition bulk_delete_one :: "bulk_ids \<times> ca_db \<Rightarrow> int \<Rightarrow> bulk_ids \<times> ca_db" where
  "bulk_delete_one acc i =
     (let (r, db) = acc; failed = (\<lambda>msg. (r\<lparr>bi_failed := bi_failed r @ [(i, msg)]\<rparr>, db)) in
      case row_get au_id (cb_cas db) i of
        None \<Rightarrow> failed ''Not found''
      | Some ca \<Rightarrow>
          (let (children, certs) = dependents ca db in
           if children > 0 then failed (str_nat children @ '' intermediate CA(s) depend on it'')
           else if certs > 0 then failed (str_nat certs @ '' certificate(s) issued by it'')
           else (r\<lparr>bi_success := bi_success r @ [i]\<rparr>, drop_ca i db)))"

definition bulk_delete_cas :: "ca_env \<Rightarrow> int list \<Rightarrow> ca_db \<Rightarrow> bulk_ids http \<times> ca_db" where
  "bulk_delete_cas e ids db =
     (if ids = [] then (error_response ''ids array required'' 400, db)
      else
        (let (r, db1) = foldl bulk_delete_one (\<lparr>bi_success = [], bi_failed = []\<rparr>, db) ids; n = str_nat (length (bi_success r))
         in (success_response r (n @ '' CAs deleted''),
             db1\<lparr>cb_logs := ve_log e (audit_call ''cas_bulk_deleted'' (Some ''ca'') (Txt_id (join_with '','' (map str_int (bi_success r))))
                (Txt (n @ '' CAs'')) (Txt (''Bulk deleted '' @ n @ '' CAs'')) True None) (cb_logs db1)\<rparr>)))"

text \<open>The deletion of the service, which no route calls, removes the files too.\<close>

definition ca_files :: "ca_env \<Rightarrow> ca_record \<Rightarrow> (string \<times> string) list" where
  "ca_files e ca =
     [(''ca'', au_refid ca @ ''.crt''), (''private'', ''ca_'' @ au_refid ca @ ''.key''),
      (''ca'', ca_cert_path (ve_nfkd e) (au_subject ca) (au_descr ca) (au_refid ca)),
      (''private'', ca_key_path (ve_nfkd e) (au_subject ca) (au_descr ca) (au_refid ca))]"

definition service_delete_ca :: "ca_env \<Rightarrow> int \<Rightarrow> ca_db \<Rightarrow> (py_error + bool) \<times> ca_db" where
  "service_delete_ca e i db =
     (case row_get au_id (cb_cas db) i of
        None \<Rightarrow> (Inr False, db)
      | Some ca \<Rightarrow>
          (let (children, certs) = dependents ca db in
           if certs > 0 then (Inl (Value_error (''CA is used by '' @ str_nat certs @ '' certificate(s)'')), db)
           else if children > 0 then (Inl (Value_error (''CA is parent of '' @ str_nat children @ '' intermediate CA(s)'')), db)
           else (Inr True,
                 db\<lparr>cb_cas := row_delete au_id i (cb_cas db),
                    cb_logs := ve_log e (log_ca ''ca_deleted'' (ca_object (authority.truncate ca)) (Some (''Deleted CA: '' @ au_descr ca)) True) (cb_logs db),
                    cb_files := filter (\<lambda>f. fst f \<notin> set (ca_files e ca)) (cb_files db)\<rparr>)))"

definition increment_serial :: "int \<Rightarrow> ca_db \<Rightarrow> (py_error + int) \<times> ca_db" where
  "increment_serial i db =
     (case row_get au_id (cb_cas db) i of
        None \<Rightarrow> (Inl (Value_error ''CA not found''), db)
      | Some ca \<Rightarrow> (Inr (the (cw_serial (next_serial ca))), db\<lparr>cb_cas := row_update au_id i next_serial (cb_cas db)\<rparr>))"


subsection \<open>Exporting\<close>

text \<open>A download: its content, its type and its file name.\<close>

type_synonym download = "string \<times> string \<times> string"

definition finish :: "py_error + 'a \<Rightarrow> 'a http" where
  "finish r = (case r of Inl _ \<Rightarrow> error_response ''Export failed'' 500 | Inr d \<Rightarrow> success_response d [])"

definition end_line :: "string \<Rightarrow> string" where
  "end_line s = (if endswith s [CHR 0x0A] then s else s @ [CHR 0x0A])"

definition ca_pem :: "ca_record \<Rightarrow> py_error + string list" where
  "ca_pem ca = (if au_crt ca = [] then Inr [] else ca_text ca)"

definition ca_loaded_pem :: "ca_env \<Rightarrow> ca_record \<Rightarrow> py_error + string list" where
  "ca_loaded_pem e ca =
     (if au_crt ca = [] then Inr [] else and_then (and_then (unbase64 (au_crt ca)) (lo_pem (ve_loaders e))) (\<lambda>c. Inr [ld_pem c]))"

definition download_name :: "ca_record \<Rightarrow> string" where
  "download_name ca = sanitize_filename (Some (if au_descr ca = [] then au_refid ca else au_descr ca))"

definition export_key :: "ca_env \<Rightarrow> string option \<Rightarrow> ca_record \<Rightarrow> download http" where
  "export_key e password ca =
     (if \<not> nonempty (au_prv ca) then error_response ''CA has no private key'' 400
      else finish (and_then (decoded_key e ca) (\<lambda>key.
                   and_then (if nonempty password then ve_lock_key e key (the password) else Inr key) (\<lambda>text.
                   Inr (text, ''application/x-pem-file'', download_name ca @ ''.key'')))))"

definition export_pem :: "ca_env \<Rightarrow> nat \<Rightarrow> bool \<Rightarrow> bool \<Rightarrow> string \<Rightarrow> ca_record \<Rightarrow> ca_record list \<Rightarrow> download http option" where
  "export_pem e n include_key include_chain cert_pem ca cas =
     (let with_key = include_key \<and> nonempty (au_prv ca);
          with_chain = include_chain \<and> nonempty (cw_caref ca);
          name = (if with_chain then (if include_key then ''_full_chain.pem'' else ''_chain.pem'')
                  else if with_key then ''_with_key.pem'' else ''.crt'')
      in (case (if with_key then and_then (decoded_key e ca) (\<lambda>key. Inr (end_line cert_pem @ key)) else Inr cert_pem) of
            Inl err \<Rightarrow> Some (finish (Inl err))
          | Inr result \<Rightarrow>
              map_option (\<lambda>r. finish (and_then r (\<lambda>ts.
                  Inr (foldl (\<lambda>acc t. end_line acc @ t) result ts, ''application/x-pem-file'', download_name ca @ name))))
                (if with_chain then read_up ca_pem n cas (parent_of cas ca) else Some (Inr []))))"

definition export_pkcs12 :: "ca_env \<Rightarrow> nat \<Rightarrow> bool \<Rightarrow> string \<Rightarrow> string option \<Rightarrow> string \<Rightarrow> ca_record \<Rightarrow> ca_record list \<Rightarrow> download http option" where
  "export_pkcs12 e n with_parents fmt password cert_pem ca cas =
     (let label = (if fmt = ''pfx'' then ''PFX'' else ''PKCS12'') in
      if \<not> nonempty password then Some (error_response (''Password required for '' @ label @ '' export'') 400)
      else if \<not> nonempty (au_prv ca) then Some (error_response (''CA has no private key for '' @ label @ '' export'') 400)
      else (case and_then (lo_pem (ve_loaders e) cert_pem) (\<lambda>c. and_then (decoded_key e ca) (\<lambda>key. Inr (ld_pem c, key))) of
              Inl err \<Rightarrow> Some (finish (Inl err))
            | Inr (cert, key) \<Rightarrow>
                map_option (\<lambda>r. finish (and_then r (\<lambda>ts.
                    and_then (ve_pkcs12 e (if au_descr ca = [] then au_refid ca else au_descr ca) key cert ts (the password)) (\<lambda>bytes.
                    Inr (bytes, ''application/x-pkcs12'', download_name ca @ (if fmt = ''pfx'' then ''.pfx'' else ''.p12''))))))
                  (if with_parents \<and> nonempty (cw_caref ca) then read_up (ca_loaded_pem e) n cas (parent_of cas ca) else Some (Inr []))))"

definition export_pkcs7 :: "ca_env \<Rightarrow> nat \<Rightarrow> bool \<Rightarrow> string \<Rightarrow> ca_record \<Rightarrow> ca_record list \<Rightarrow> download http option" where
  "export_pkcs7 e n include_chain cert_pem ca cas =
     map_option (\<lambda>r. finish (and_then r (\<lambda>ts.
         and_then (ve_pkcs7 e (cert_pem @ concat (map (\<lambda>t. [CHR 0x0A] @ t) ts))) (\<lambda>bytes.
         Inr (bytes, ''application/x-pkcs7-certificates'', download_name ca @ ''.p7b'')))))
       (if include_chain \<and> nonempty (cw_caref ca) then read_up ca_pem n cas (parent_of cas ca) else Some (Inr []))"

definition export_ca ::
  "ca_env \<Rightarrow> nat \<Rightarrow> string list \<Rightarrow> string \<Rightarrow> string \<Rightarrow> string \<Rightarrow> string option \<Rightarrow> int \<Rightarrow> ca_db \<Rightarrow> download http option" where
  "export_ca e n permissions format_arg key_arg chain_arg password i db =
     (case row_get au_id (cb_cas db) i of
        None \<Rightarrow> Some (error_response ''CA not found'' 404)
      | Some ca \<Rightarrow>
          (let fmt = lower format_arg; include_key = lower key_arg = ''true''; include_chain = lower chain_arg = ''true'' in
           if au_crt ca = [] then Some (error_response ''CA certificate data not available'' 400)
           else if (include_key \<or> fmt \<in> {''pkcs12'', ''pfx'', ''key''}) \<and> \<not> has_permission ''write:cas'' permissions
           then Some (error_response ''Private key export requires write:cas permission'' 403)
           else (case unbase64 (au_crt ca) of
                   Inl err \<Rightarrow> Some (finish (Inl err))
                 | Inr cert_pem \<Rightarrow>
                     if fmt = ''key'' then Some (export_key e password ca)
                     else if fmt = ''pem'' then export_pem e n include_key include_chain cert_pem ca (cb_cas db)
                     else if fmt = ''der''
                     then Some (finish (and_then (ve_der e cert_pem) (\<lambda>bytes.
                            Inr (bytes, ''application/x-x509-ca-cert'', download_name ca @ ''.der''))))
                     else if fmt = ''pkcs12'' then export_pkcs12 e n True fmt password cert_pem ca (cb_cas db)
                     else if fmt = ''pkcs7'' \<or> fmt = ''p7b'' then export_pkcs7 e n include_chain cert_pem ca (cb_cas db)
                     else if fmt = ''pfx'' then export_pkcs12 e n False fmt password cert_pem ca (cb_cas db)
                     else Some (error_response (''Unsupported format: '' @ fmt) 400))))"

text \<open>The certificates of several rows in one file.\<close>

fun read_all :: "('r \<Rightarrow> py_error + 'a list) \<Rightarrow> 'r list \<Rightarrow> py_error + 'a list" where
  "read_all rd [] = Inr []"
| "read_all rd (ca # cas) = and_then (rd ca) (\<lambda>ts. and_then (read_all rd cas) (\<lambda>us. Inr (ts @ us)))"

definition export_many :: "ca_env \<Rightarrow> string \<Rightarrow> ('r \<Rightarrow> py_error + string list) \<Rightarrow> string \<Rightarrow> string \<Rightarrow> 'r list \<Rightarrow> download http" where
  "export_many e name rd fmt unsupported cas =
     (if fmt = ''pem''
      then finish (and_then (read_all rd cas) (\<lambda>ts.
             Inr (foldl (\<lambda>acc t. end_line (acc @ t)) [] ts, ''application/x-pem-file'', name @ ''.pem'')))
      else if fmt = ''pkcs7'' \<or> fmt = ''p7b''
      then finish (and_then (read_all rd cas) (\<lambda>ts.
             and_then (ve_pkcs7 e (concat (map (\<lambda>t. t @ [CHR 0x0A]) ts))) (\<lambda>bytes.
             Inr (bytes, ''application/x-pkcs7-certificates'', name @ ''.p7b''))))
      else error_response unsupported 400)"

definition export_all_cas :: "ca_env \<Rightarrow> string \<Rightarrow> ca_db \<Rightarrow> download http" where
  "export_all_cas e format_arg db =
     (if cb_cas db = [] then error_response ''No CAs to export'' 404
      else export_many e ''ca-certificates'' ca_pem (lower format_arg)
             ''Bulk export only supports PEM and P7B formats. Use individual export for DER/PKCS12/PFX'' (cb_cas db))"

definition bulk_export_cas :: "ca_env \<Rightarrow> int list \<Rightarrow> string \<Rightarrow> ca_db \<Rightarrow> download http" where
  "bulk_export_cas e ids format_arg db =
     (let cas = filter (\<lambda>ca. au_id ca \<in> set ids) (cb_cas db) in
      if ids = [] then error_response ''ids array required'' 400
      else if cas = [] then error_response ''No CAs found'' 404
      else export_many e ''ca-certificates'' ca_text (lower format_arg) ''Supported formats: pem, p7b'' cas)"

text \<open>The export of the service.\<close>

definition export_ca_with_options ::
  "ca_env \<Rightarrow> nat \<Rightarrow> int \<Rightarrow> string \<Rightarrow> bool \<Rightarrow> bool \<Rightarrow> string option \<Rightarrow> ca_db \<Rightarrow> (py_error + string) option" where
  "export_ca_with_options e n i fmt include_key include_chain password db =
     (case row_get au_id (cb_cas db) i of
        None \<Rightarrow> Some (Inl (Value_error ''CA not found''))
      | Some ca \<Rightarrow>
          (case unbase64 (au_crt ca) of
             Inl err \<Rightarrow> Some (Inl err)
           | Inr cert_pem \<Rightarrow>
               if fmt = ''pkcs12''
               then Some (if \<not> nonempty password then Inl (Value_error ''Password required for PKCS#12 export'')
                          else if \<not> nonempty (au_prv ca) then Inl (Value_error ''CA has no private key'')
                          else and_then (decoded_key e ca) (\<lambda>key. ve_pkcs12 e (au_descr ca) key cert_pem [] (the password)))
               else if fmt = ''der'' then Some (ve_der e cert_pem)
               else if fmt = ''pem''
               then (case (if include_key \<and> nonempty (au_prv ca)
                           then and_then (decoded_key e ca) (\<lambda>key. Inr (cert_pem @ [CHR 0x0A] @ key)) else Inr cert_pem) of
                       Inl err \<Rightarrow> Some (Inl err)
                     | Inr result \<Rightarrow>
                         if include_chain
                         then map_option (\<lambda>r. and_then r (\<lambda>ts. Inr (result @ concat (map (\<lambda>t. [CHR 0x0A] @ t) (drop 1 ts))))) (get_ca_chain n i db)
                         else Some (Inr result))
               else Some (Inl (Value_error (''Unsupported format: '' @ fmt)))))"

subsection \<open>Histories\<close>

datatype ca_op =
    Create_ca string string ca_body
  | Import_ca string ca_upload
  | Update_ca int ca_patch
  | Delete_ca int
  | Bulk_delete_cas "int list"

fun ca_step :: "ca_env \<Rightarrow> ca_db \<Rightarrow> time \<times> ca_op \<Rightarrow> ca_db" where
  "ca_step e db (now, Create_ca refid user b) = snd (create_ca e now refid user b db)"
| "ca_step e db (now, Import_ca refid f) = snd (import_ca e now refid f db)"
| "ca_step e db (now, Update_ca i p) = snd (update_ca e now i p db)"
| "ca_step e db (now, Delete_ca i) = snd (delete_ca e i db)"
| "ca_step e db (now, Bulk_delete_cas ids) = snd (bulk_delete_cas e ids db)"

subsection \<open>The tree\<close>

text \<open>References are distinct, a parent is an older CA, and the issuer of every certificate exists.\<close>

definition linked :: "ca_record list \<Rightarrow> ca_record \<Rightarrow> bool" where
  "linked cas ca \<longleftrightarrow> \<not> nonempty (cw_caref ca) \<or> list_ex (\<lambda>p. cw_caref ca = Some (au_refid p) \<and> au_id p < au_id ca) cas"

definition issuer_exists :: "ca_record list \<Rightarrow> cert_record \<Rightarrow> bool" where
  "issuer_exists cas c \<longleftrightarrow> \<not> nonempty (ct_caref c) \<or> list_ex (\<lambda>p. ct_caref c = Some (au_refid p)) cas"

definition tree_ok :: "ca_db \<Rightarrow> bool" where
  "tree_ok db \<longleftrightarrow> keys_ok au_id (cb_cas db) \<and> distinct (map au_refid (cb_cas db)) \<and>
     list_all (linked (cb_cas db)) (cb_cas db) \<and> list_all (issuer_exists (cb_cas db)) (cb_certs db)"

lemma linked_iff: "linked cas ca \<longleftrightarrow> \<not> nonempty (cw_caref ca) \<or> (\<exists>p \<in> set cas. cw_caref ca = Some (au_refid p) \<and> au_id p < au_id ca)"
  by (auto simp: linked_def list_ex_iff)

lemma issuer_exists_iff: "issuer_exists cas c \<longleftrightarrow> \<not> nonempty (ct_caref c) \<or> (\<exists>p \<in> set cas. ct_caref c = Some (au_refid p))"
  by (auto simp: issuer_exists_def list_ex_iff)

text \<open>Changes that leave the identifiers and links of the rows alone keep the tree.\<close>

definition link :: "ca_record \<Rightarrow> int \<times> string \<times> string option" where
  "link ca = (au_id ca, au_refid ca, cw_caref ca)"

lemma same_links:
  assumes "tree_ok db" "map link (cb_cas db') = map link (cb_cas db)" "cb_certs db' = cb_certs db"
  shows "tree_ok db'"
proof -
  have ids: "map au_id (cb_cas db') = map au_id (cb_cas db)" "map au_refid (cb_cas db') = map au_refid (cb_cas db)"
    using arg_cong [OF assms(2), of "map fst"] arg_cong [OF assms(2), of "map (fst \<circ> snd)"] by (simp_all add: link_def comp_def)
  have set: "link ` set (cb_cas db') = link ` set (cb_cas db)" using assms(2) by (metis set_map)
  have old: "\<exists>a \<in> set (cb_cas db). link a = link b" if "b \<in> set (cb_cas db')" for b using set that by (metis imageE imageI)
  have new: "\<exists>b \<in> set (cb_cas db'). link b = link a" if "a \<in> set (cb_cas db)" for a using set that by (metis imageE imageI)
  have "linked (cb_cas db') b" if b: "b \<in> set (cb_cas db')" for b
  proof -
    obtain a where a: "a \<in> set (cb_cas db)" "link a = link b" using old [OF b] by blast
    have "linked (cb_cas db) a" using assms(1) a(1) by (simp add: tree_ok_def list_all_iff)
    then show ?thesis using a(2) new unfolding linked_iff link_def by (metis prod.inject)
  qed
  moreover have "issuer_exists (cb_cas db') c" if "c \<in> set (cb_certs db)" for c
  proof -
    have "issuer_exists (cb_cas db) c" using assms(1) that by (simp add: tree_ok_def list_all_iff)
    then show ?thesis using new unfolding issuer_exists_iff link_def by (metis prod.inject)
  qed
  moreover have "keys_ok au_id (cb_cas db')"
    using assms(1) ids(1) unfolding tree_ok_def keys_ok_def by (metis list.pred_map comp_def list_all_cong list_all_iff)
  ultimately show ?thesis using assms(1,3) ids(2) by (simp add: tree_ok_def list_all_iff)
qed


lemma tree_append:
  assumes "tree_ok db" "au_id ca = next_id au_id (cb_cas db)" "\<not> list_ex (\<lambda>p. au_refid p = au_refid ca) (cb_cas db)"
    "\<not> nonempty (cw_caref ca) \<or> (\<exists>p \<in> set (cb_cas db). cw_caref ca = Some (au_refid p))"
  shows "tree_ok (db\<lparr>cb_cas := cb_cas db @ [ca]\<rparr>)"
proof -
  have "linked (cb_cas db @ [ca]) ca"
    using assms(2,4) next_id_greater [of _ "cb_cas db" au_id] by (auto simp: linked_iff)
  moreover have "linked (cb_cas db @ [ca]) c" if "c \<in> set (cb_cas db)" for c
    using assms(1) that by (auto simp: tree_ok_def list_all_iff linked_iff)
  moreover have "issuer_exists (cb_cas db @ [ca]) c" if "c \<in> set (cb_certs db)" for c
    using assms(1) that by (auto simp: tree_ok_def list_all_iff issuer_exists_iff)
  moreover have "keys_ok au_id (cb_cas db @ [ca])" using assms(1,2) by (intro keys_ok_append) (simp_all add: tree_ok_def)
  ultimately show ?thesis using assms(1,3) by (auto simp: tree_ok_def list_all_iff list_ex_iff)
qed

lemma tree_ok_simps [simp]:
  "tree_ok (db\<lparr>cb_logs := ls\<rparr>) = tree_ok db" "tree_ok (db\<lparr>cb_files := fs\<rparr>) = tree_ok db"
  "tree_ok (log_ca_action e act i n t db) = tree_ok db"
  by (simp_all add: tree_ok_def log_ca_action_def)

lemma signing_parent_exists:
  "signing_parent e caref cas = Inr r \<Longrightarrow> nonempty caref \<Longrightarrow> \<exists>p \<in> set cas. caref = Some (au_refid p)"
  by (auto simp: signing_parent_def nonempty_def split: option.splits dest!: find_Some_in)

lemma create_internal_ca_tree:
  assumes "tree_ok db"
  shows "tree_ok (snd (create_internal_ca e now refid descr dn kt validity caref user db))"
proof (cases "and_then (signing_parent e caref (cb_cas db)) (ve_make e dn kt validity)")
  case (Inl err)
  then show ?thesis using assms by (simp add: create_internal_ca_def)
next
  case (Inr r)
  obtain c key where r: "r = (c, key)" by fastforce
  let ?cas = "if nonempty caref then map (\<lambda>p. if au_refid p = the caref then next_serial p else p) (cb_cas db) else cb_cas db"
  let ?ca = "new_ca e now (next_id au_id (cb_cas db)) refid descr c key caref user"
  obtain q where "signing_parent e caref (cb_cas db) = Inr q" using Inr by (auto simp: and_then_Inr)
  then have parent: "\<not> nonempty caref \<or> (\<exists>p \<in> set (cb_cas db). caref = Some (au_refid p))" using signing_parent_exists by blast
  have "tree_ok (db\<lparr>cb_cas := ?cas @ [?ca]\<rparr>)" if "\<not> list_ex (\<lambda>p. au_refid p = refid) (cb_cas db)"
  proof (rule same_links)
    show "tree_ok (db\<lparr>cb_cas := cb_cas db @ [?ca]\<rparr>)" using assms parent that by (intro tree_append) (simp_all add: new_ca_def)
    show "map link (cb_cas (db\<lparr>cb_cas := ?cas @ [?ca]\<rparr>)) = map link (cb_cas (db\<lparr>cb_cas := cb_cas db @ [?ca]\<rparr>))"
      by (simp add: link_def next_serial_def)
  qed simp
  then show ?thesis using assms by (simp add: create_internal_ca_def Inr r Let_def)
qed

lemma create_ca_tree: "tree_ok db \<Longrightarrow> tree_ok (snd (create_ca e now refid user b db))"
proof (cases "ca_request e now b (cb_cas db)")
  case (Inr r)
  obtain kt caref validity where r: "r = (kt, caref, validity)" by (cases r) auto
  assume "tree_ok db"
  then show ?thesis
    using create_internal_ca_tree [of db e now refid "or_else (bd_description b) (the (bd_common_name b))" "body_dn b" kt validity caref user]
    by (auto simp: create_ca_def Inr r split: prod.split sum.split)
qed (auto simp: create_ca_def)

lemma row_update_links:
  assumes "row_get au_id cas i = Some old" "distinct (map au_id cas)" "link ca = link old"
  shows "map link (row_update au_id i (\<lambda>_. ca) cas) = map link cas"
proof (rule map_row_update)
  fix r assume "r \<in> set cas" "au_id r = i"
  then have "r = old" using assms(1,2) row_get_Some [OF assms(1)] by (auto simp: distinct_map inj_on_def)
  then show "link ca = link r" using assms(3) by simp
qed

lemma update_row_tree:
  assumes "tree_ok db" "row_get au_id (cb_cas db) i = Some old" "link ca = link old"
  shows "tree_ok (db\<lparr>cb_cas := row_update au_id i (\<lambda>_. ca) (cb_cas db)\<rparr>)"
  using assms row_update_links [of "cb_cas db" i old ca] by (intro same_links [OF assms(1)]) (simp_all add: tree_ok_def keys_ok_def)

lemma find_row:
  assumes "keys_ok key rows" "find P rows = Some r"
  shows "row_get key rows (key r) = Some r"
  using assms find_Some_in [OF assms(2)] unfolding row_get_def keys_ok_def
  by (cases "find (\<lambda>x. key x = key r) rows") (auto simp: find_None_iff distinct_map inj_on_def dest!: find_Some_in)

lemma store_import_tree:
  assumes "tree_ok db"
  shows "tree_ok (snd (store_import e now refid f filename c key db))"
proof (cases "find_existing_ca (extract_cert_info c) (cb_cas db)")
  case None
  have "tree_ok (db\<lparr>cb_cas := cb_cas db @ [imported_ca now (next_id au_id (cb_cas db)) refid d c key]\<rparr>)"
    if "\<not> list_ex (\<lambda>p. au_refid p = refid) (cb_cas db)" for d
    using assms that by (intro tree_append) (simp_all add: imported_ca_def Let_def nonempty_def)
  then show ?thesis using assms None by (simp add: store_import_def Let_def)
next
  case (Some old)
  have "row_get au_id (cb_cas db) (au_id old) = Some old"
    using assms Some by (intro find_row) (auto simp: tree_ok_def find_existing_ca_def)
  then have "tree_ok (db\<lparr>cb_cas := row_update au_id (au_id old) (\<lambda>_. reimported (uf_name f) c key old) (cb_cas db)\<rparr>)"
    using assms by (intro update_row_tree [where old = old]) (simp_all add: link_def reimported_def Let_def)
  then show ?thesis using assms Some by (simp add: store_import_def Let_def)
qed

lemma import_ca_tree: "tree_ok db \<Longrightarrow> tree_ok (snd (import_ca e now refid f db))"
  by (simp add: import_ca_def Let_def store_import_tree split: sum.split prod.split py_error.split)

lemma update_ca_tree: "tree_ok db \<Longrightarrow> tree_ok (snd (update_ca e now i p db))"
  by (simp add: update_ca_def Let_def update_row_tree link_def patched_def split: option.split)

lemma drop_ca_tree:
  assumes "tree_ok db" "row_get au_id (cb_cas db) i = Some ca" "dependents ca db = (0, 0)"
  shows "tree_ok (drop_ca i db)"
proof -
  have other: "p \<in> set (row_delete au_id i (cb_cas db))" if "p \<in> set (cb_cas db)" "au_refid p \<noteq> au_refid ca" for p
    using that assms(1,2) row_get_Some [OF assms(2)] by (auto simp: row_delete_def tree_ok_def keys_ok_def distinct_map inj_on_def)
  have refs: "cw_caref c \<noteq> Some (au_refid ca)" if "c \<in> set (cb_cas db)" for c
    using assms(3) that by (auto simp: dependents_def filter_empty_conv)
  have issued: "ct_caref c \<noteq> Some (au_refid ca)" if "c \<in> set (cb_certs db)" for c
    using assms(3) that by (auto simp: dependents_def certs_of_def filter_empty_conv)
  have "linked (row_delete au_id i (cb_cas db)) c" if "c \<in> set (cb_cas db)" for c
    using assms(1) that refs [OF that] other unfolding tree_ok_def list_all_iff linked_iff by metis
  moreover have "issuer_exists (row_delete au_id i (cb_cas db)) c" if "c \<in> set (cb_certs db)" for c
    using assms(1) that issued [OF that] other unfolding tree_ok_def list_all_iff issuer_exists_iff by metis
  ultimately show ?thesis
    using assms(1) by (auto simp: tree_ok_def drop_ca_def list_all_iff row_delete_def keys_ok_filter distinct_map_filter)
qed

lemma delete_ca_tree: "tree_ok db \<Longrightarrow> tree_ok (snd (delete_ca e i db))"
  using drop_ca_tree [of db i]
  by (cases "row_get au_id (cb_cas db) i") (auto simp: delete_ca_def Let_def split: prod.split)

lemma bulk_delete_one_tree: "tree_ok (snd acc) \<Longrightarrow> tree_ok (snd (bulk_delete_one acc i))"
  using drop_ca_tree [of "snd acc" i]
  by (cases acc; cases "row_get au_id (cb_cas (snd acc)) i") (auto simp: bulk_delete_one_def Let_def split: prod.split)

lemma bulk_delete_cas_tree:
  assumes "tree_ok db"
  shows "tree_ok (snd (bulk_delete_cas e ids db))"
proof -
  have "tree_ok (snd (foldl bulk_delete_one acc ids))" if "tree_ok (snd acc)" for acc
    using that by (induction ids arbitrary: acc) (simp_all add: bulk_delete_one_tree)
  then show ?thesis
    using assms by (simp add: bulk_delete_cas_def Let_def split_beta)
qed

interpretation ca_runs: invariant_system "ca_step e" tree_ok for e
proof
  show "tree_ok db \<Longrightarrow> tree_ok (ca_step e db ev)" for db ev
    by (cases "(e, db, ev)" rule: ca_step.cases)
      (simp_all add: create_ca_tree import_ca_tree update_ca_tree delete_ca_tree bulk_delete_cas_tree)
qed


subsection \<open>The walk ends\<close>

lemma parent_facts:
  assumes "tree_ok db" "ca \<in> set (cb_cas db)" "parent_of (cb_cas db) ca = Some p"
  shows "p \<in> set (cb_cas db)" "au_id p < au_id ca"
proof -
  have p: "p \<in> set (cb_cas db)" "nonempty (cw_caref ca)" "cw_caref ca = Some (au_refid p)"
    using assms(3) by (auto simp: parent_of_def nonempty_def split: if_splits option.splits dest!: find_Some_in)
  then obtain q where q: "q \<in> set (cb_cas db)" "au_refid q = au_refid p" "au_id q < au_id ca"
    using assms(1,2) by (auto simp: tree_ok_def list_all_iff linked_iff)
  have "q = p" using assms(1) p(1) q(1,2) by (auto simp: tree_ok_def distinct_map inj_on_def)
  then show "p \<in> set (cb_cas db)" "au_id p < au_id ca" using p(1) q(3) by simp_all
qed

definition older :: "ca_record list \<Rightarrow> ca_record \<Rightarrow> nat" where
  "older cas ca = card {c \<in> set cas. au_id c < au_id ca}"

lemma older_parent:
  assumes "p \<in> set cas" "au_id p < au_id ca"
  shows "older cas p < older cas ca"
proof -
  have "{c \<in> set cas. au_id c < au_id p} \<subset> {c \<in> set cas. au_id c < au_id ca}" using assms by auto
  then show ?thesis unfolding older_def by (intro psubset_card_mono) simp_all
qed

lemma older_bound: "ca \<in> set cas \<Longrightarrow> older cas ca < length cas"
proof -
  assume ca: "ca \<in> set cas"
  have "{c \<in> set cas. au_id c < au_id ca} \<subset> set cas" using ca by auto
  then have "older cas ca < card (set cas)" unfolding older_def by (intro psubset_card_mono) simp_all
  then show ?thesis using card_length [of cas] by simp
qed

text \<open>The ancestors of a CA, itself first.\<close>

definition ancestors :: "ca_record list \<Rightarrow> ca_record list \<Rightarrow> bool" where
  "ancestors cas cs \<longleftrightarrow> cs \<noteq> [] \<and> set cs \<subseteq> set cas \<and> successively (\<lambda>a b. parent_of cas a = Some b) cs \<and>
     parent_of cas (last cs) = None"

lemma walk_up:
  assumes "tree_ok db" "ca \<in> set (cb_cas db)" "older (cb_cas db) ca < n"
  shows "\<exists>cs. ancestors (cb_cas db) cs \<and> hd cs = ca \<and> (\<forall>rd :: ca_record \<Rightarrow> py_error + 'a list. read_up rd n (cb_cas db) (Some ca) = Some (read_all rd cs))"
  using assms(2,3)
proof (induction n arbitrary: ca)
  case (Suc n)
  show ?case
  proof (cases "parent_of (cb_cas db) ca")
    case None
    have "read_up rd (Suc n) (cb_cas db) (Some ca) = Some (read_all rd [ca])" for rd :: "ca_record \<Rightarrow> py_error + 'a list"
      by (cases "rd ca") (simp_all add: None and_then_def)
    then show ?thesis using None Suc(2) by (intro exI [of _ "[ca]"]) (simp add: ancestors_def)
  next
    case (Some p)
    note p = parent_facts [OF assms(1) Suc(2) Some]
    obtain cs where cs: "ancestors (cb_cas db) cs" "hd cs = p"
      "\<forall>rd :: ca_record \<Rightarrow> py_error + 'a list. read_up rd n (cb_cas db) (Some p) = Some (read_all rd cs)"
      using Suc(1) [OF p(1)] older_parent [OF p] Suc(3) by fastforce
    have "ancestors (cb_cas db) (ca # cs)"
      using cs(1,2) Some Suc(2) by (cases cs) (auto simp: ancestors_def split: if_splits)
    moreover have "read_up rd (Suc n) (cb_cas db) (Some ca) = Some (read_all rd (ca # cs))" for rd :: "ca_record \<Rightarrow> py_error + 'a list"
      by (cases "rd ca"; cases "read_all rd cs") (simp_all add: Some cs(3) and_then_def)
    ultimately show ?thesis by (intro exI [of _ "ca # cs"]) simp
  qed
qed simp

lemma walk_parents:
  assumes "tree_ok db" "ca \<in> set (cb_cas db)"
  shows "read_up rd (length (cb_cas db)) (cb_cas db) (parent_of (cb_cas db) ca) \<noteq> None"
proof (cases "parent_of (cb_cas db) ca")
  case (Some p)
  note p = parent_facts [OF assms Some]
  then show ?thesis using walk_up [OF assms(1) p(1) older_bound [OF p(1)]] Some by (metis option.distinct(1))
qed simp

lemma export_returns:
  assumes "tree_ok db"
  shows "export_ca e (length (cb_cas db)) perms fmt key chain pw i db \<noteq> None"
proof (cases "row_get au_id (cb_cas db) i")
  case (Some ca)
  have ca: "ca \<in> set (cb_cas db)" using row_get_Some [OF Some] by simp
  obtain y z where y: "read_up ca_pem (length (cb_cas db)) (cb_cas db) (parent_of (cb_cas db) ca) = Some y"
    "read_up (ca_loaded_pem e) (length (cb_cas db)) (cb_cas db) (parent_of (cb_cas db) ca) = Some z"
    using walk_parents [OF assms ca] by blast
  have "export_pem e (length (cb_cas db)) k c t ca (cb_cas db) \<noteq> None" for k c t
    by (simp add: export_pem_def Let_def y split: sum.split)
  moreover have "export_pkcs12 e (length (cb_cas db)) w f pw t ca (cb_cas db) \<noteq> None" for w f t
    by (simp add: export_pkcs12_def Let_def y split: sum.split prod.split)
  moreover have "export_pkcs7 e (length (cb_cas db)) c t ca (cb_cas db) \<noteq> None" for c t
    by (simp add: export_pkcs7_def y)
  ultimately show ?thesis by (simp add: export_ca_def Some Let_def split: sum.split)
qed (simp add: export_ca_def)

subsection \<open>Keys stay in\<close>

text \<open>Other private keys in the rows.\<close>

definition rekey :: "(ca_record \<Rightarrow> string option) \<Rightarrow> ca_record \<Rightarrow> ca_record" where
  "rekey f ca = ca\<lparr>au_prv := f ca\<rparr>"

lemma rekey_simps [simp]:
  "au_id (rekey f ca) = au_id ca" "au_refid (rekey f ca) = au_refid ca" "au_crt (rekey f ca) = au_crt ca"
  "cw_caref (rekey f ca) = cw_caref ca" "au_descr (rekey f ca) = au_descr ca"
  by (simp_all add: rekey_def)

lemma find_map: "find P (map g xs) = map_option g (find (P \<circ> g) xs)"
  by (induction xs) simp_all

lemma row_get_rekey: "row_get au_id (map (rekey f) cas) i = map_option (rekey f) (row_get au_id cas i)"
  by (simp add: row_get_def find_map comp_def)

lemma parent_of_rekey: "parent_of (map (rekey f) cas) (rekey f ca) = map_option (rekey f) (parent_of cas ca)"
  by (simp add: parent_of_def find_map comp_def)

lemma read_up_rekey:
  assumes "\<And>ca. rd (rekey f ca) = rd ca"
  shows "read_up rd n (map (rekey f) cas) (map_option (rekey f) start) = read_up rd n cas start"
proof (induction n arbitrary: start)
  case 0
  then show ?case by (cases start) simp_all
next
  case (Suc n)
  show ?case
  proof (cases start)
    case (Some a)
    then show ?thesis by (cases "rd a") (simp_all add: assms parent_of_rekey Suc)
  qed simp
qed

lemma read_all_rekey: "(\<And>ca. rd (rekey f ca) = rd ca) \<Longrightarrow> read_all rd (map (rekey f) cas) = read_all rd cas"
  by (induction cas) simp_all

lemma pems_rekey [simp]: "ca_pem (rekey f ca) = ca_pem ca" "ca_text (rekey f ca) = ca_text ca" "download_name (rekey f ca) = download_name ca"
  by (simp_all add: ca_pem_def ca_text_def download_name_def)

lemma exports_rekey:
  "export_pem e n False chain t (rekey f ca) (map (rekey f) cas) = export_pem e n False chain t ca cas"
  "export_pkcs7 e n chain t (rekey f ca) (map (rekey f) cas) = export_pkcs7 e n chain t ca cas"
  by (simp_all add: export_pem_def export_pkcs7_def Let_def parent_of_rekey read_up_rekey)

lemma filter_rekey: "filter (\<lambda>ca. au_id ca \<in> ids) (map (rekey f) cas) = map (rekey f) (filter (\<lambda>ca. au_id ca \<in> ids) cas)"
  by (simp add: filter_map comp_def)

lemma export_many_rekey:
  "(\<And>ca. rd (rekey f ca) = rd ca) \<Longrightarrow> export_many e name rd fmt u (map (rekey f) cas) = export_many e name rd fmt u cas"
  by (simp add: export_many_def read_all_rekey)


subsection \<open>Properties\<close>

definition demo_loaders :: loaders where
  "demo_loaders = \<lparr>lo_pem = (\<lambda>t. Inr \<lparr>ld_pem = t, ld_attributes = [(''commonName'', t)], ld_subject = ''CN='' @ t, ld_issuer = ''CN=r'',
       ld_same_names = False, ld_valid_from = 0, ld_valid_to = 100, ld_serial = 7, ld_ski = None, ld_aki = None, ld_basic_ca = Some False\<rparr>),
     lo_der = (\<lambda>_. Inl (Value_error ''der'')), lo_pkcs7_pem = (\<lambda>_. Inr []), lo_pkcs7_der = (\<lambda>_. Inr []),
     lo_pkcs12 = (\<lambda>_ _. Inr (None, None)), lo_key = (\<lambda>k _. Inr k)\<rparr>"

definition demo_ca_env :: ca_env where
  "demo_ca_env = \<lparr>ve_log = (\<lambda>_ ls. ls), ve_nfkd = id,
     ve_make = (\<lambda>dn kt vd parent. and_then (lo_pem demo_loaders (case parent of None \<Rightarrow> ''r'' | Some _ \<Rightarrow> ''i'')) (\<lambda>c. Inr (c, ''K''))),
     ve_encrypt = id, ve_decrypt = Inr, ve_loaders = demo_loaders, ve_secure_filename = id, ve_key_type = id, ve_hash_algorithm = id,
     ve_lock_key = (\<lambda>k _. Inr k), ve_der = Inr, ve_pkcs12 = (\<lambda>_ k c ts _. Inr (k @ c @ concat ts)), ve_pkcs7 = Inr\<rparr>"

definition empty_cas :: ca_db where
  "empty_cas = \<lparr>cb_cas = [], cb_certs = [], cb_crls = [], cb_ocsp = [], cb_files = [], cb_logs = []\<rparr>"

definition demo_ca_body :: ca_body where
  "demo_ca_body = \<lparr>bd_common_name = Some ''r'', bd_organization = None, bd_organizational_unit = None, bd_country = None,
     bd_state = None, bd_locality = None, bd_key_algo = None, bd_key_size = JNull, bd_type = None, bd_parent = JNull,
     bd_description = None, bd_validity_years = JNull\<rparr>"

definition demo_ca_events :: "(time \<times> ca_op) list" where
  "demo_ca_events =
     [(1, Create_ca ''a'' ''root'' demo_ca_body),
      (2, Create_ca ''b'' ''root'' (demo_ca_body\<lparr>bd_type := Some ''intermediate'', bd_parent := JInt 1\<rparr>)), (3, Delete_ca 1)]"

text \<open>C23. Whatever CAs are created, imported, changed and deleted, in whatever order: references stay unique, a parent is an existing
  older CA, no certificate loses its issuer, and so the walk from a CA to its ancestors, which nothing else bounds, ends within as many
  steps as there are CAs. It yields the CA, then each parent, up to a CA without one; every export returns.\<close>

theorem ca_chains_end:
  assumes "tree_ok db\<^sub>0" "db = foldl (ca_step e) db\<^sub>0 evs" "row_get au_id (cb_cas db) i = Some ca"
  shows "tree_ok db \<and> export_ca e (length (cb_cas db)) perms fmt key chain pw i db \<noteq> None \<and>
    (\<exists>cs. ancestors (cb_cas db) cs \<and> hd cs = ca \<and> get_ca_chain (length (cb_cas db)) i db = Some (read_all ca_text cs))"
proof -
  have ok: "tree_ok db" using ca_runs.run_inv [OF assms(1)] assms(2) by simp
  have ca: "ca \<in> set (cb_cas db)" using row_get_Some [OF assms(3)] by simp
  then show ?thesis
    using ok export_returns [OF ok] walk_up [OF ok ca older_bound [OF ca]] assms(3) by (fastforce simp: get_ca_chain_def)
qed

theorem ca_chains_end_witness:
  "tree_ok (foldl (ca_step demo_ca_env) empty_cas demo_ca_events) \<and>
   (\<exists>cs. get_ca_chain (length (cb_cas (foldl (ca_step demo_ca_env) empty_cas demo_ca_events))) 2
       (foldl (ca_step demo_ca_env) empty_cas demo_ca_events) = Some (read_all ca_text cs))"
proof -
  let ?db = "foldl (ca_step demo_ca_env) empty_cas demo_ca_events"
  have "row_get au_id (cb_cas ?db) 2 \<noteq> None" by code_simp
  moreover have "tree_ok empty_cas" by code_simp
  ultimately show ?thesis using ca_chains_end [of empty_cas ?db demo_ca_env demo_ca_events 2] by blast
qed

text \<open>Without the permission to write CAs, no export depends on a private key: whatever keys the rows hold, the answers are the
  same. The exports of several CAs never depend on keys.\<close>

theorem keys_not_exported:
  assumes "\<not> has_permission ''write:cas'' perms"
  shows "export_ca e n perms fmt key chain pw i (db\<lparr>cb_cas := map (rekey f) (cb_cas db)\<rparr>) = export_ca e n perms fmt key chain pw i db \<and>
    export_all_cas e fmt (db\<lparr>cb_cas := map (rekey f) (cb_cas db)\<rparr>) = export_all_cas e fmt db \<and>
    bulk_export_cas e ids fmt (db\<lparr>cb_cas := map (rekey f) (cb_cas db)\<rparr>) = bulk_export_cas e ids fmt db"
proof (intro conjI)
  show "export_ca e n perms fmt key chain pw i (db\<lparr>cb_cas := map (rekey f) (cb_cas db)\<rparr>) = export_ca e n perms fmt key chain pw i db"
  proof (cases "row_get au_id (cb_cas db) i")
    case (Some ca)
    then show ?thesis
      using assms by (cases "unbase64 (au_crt ca)") (auto simp: export_ca_def row_get_rekey Let_def exports_rekey)
  qed (simp add: export_ca_def row_get_rekey)
qed (simp_all add: export_all_cas_def bulk_export_cas_def filter_rekey export_many_rekey Let_def)

theorem keys_not_exported_witness:
  "export_ca demo_ca_env 2 [''read:cas''] ''pem'' ''true'' ''true'' None 2
     ((foldl (ca_step demo_ca_env) empty_cas demo_ca_events)
        \<lparr>cb_cas := map (rekey (\<lambda>_. Some ''S'')) (cb_cas (foldl (ca_step demo_ca_env) empty_cas demo_ca_events))\<rparr>) =
   export_ca demo_ca_env 2 [''read:cas''] ''pem'' ''true'' ''true'' None 2 (foldl (ca_step demo_ca_env) empty_cas demo_ca_events)"
proof -
  have "\<not> has_permission ''write:cas'' [''read:cas'']" by code_simp
  from keys_not_exported [OF this] show ?thesis by blast
qed


text \<open>An uploaded certificate becomes a CA whether or not it is one: a certificate whose basic constraints say that it is no CA, or
  that has none, is stored as a new CA, with the key of the file if there is one, whatever certificate that key belongs to.\<close>

theorem leaf_becomes_ca:
  assumes "upload_data e f = Inr (data, filename)"
    and "parse_certificate_file (ve_loaders e) data filename (uf_password f) (lower (uf_import_key f) = ''true'') = Inr (c, key, fmt)"
    and "\<not> is_ca_certificate c" "find_existing_ca (extract_cert_info c) (cb_cas db) = None"
    and "\<not> list_ex (\<lambda>p. au_refid p = refid) (cb_cas db)"
  shows "status_code (fst (import_ca e now refid f db)) = 201 \<and>
    (\<exists>ca. cb_cas (snd (import_ca e now refid f db)) = cb_cas db @ [ca] \<and> au_refid ca = refid \<and> b64decode (au_crt ca) = Some (ld_pem c))"
  using assms
  by (simp add: b64decode_def decode_encode import_ca_def Let_def store_import_def log_ca_action_def status_code_def imported_ca_def)

theorem leaf_becomes_ca_witness:
  "status_code (fst (import_ca demo_ca_env 5 ''c'' \<lparr>uf_file = None, uf_pem_content = Some ''-----BEGIN'', uf_password = None, uf_name = [],
     uf_import_key = ''true'', uf_update_existing = ''true''\<rparr> empty_cas)) = 201"
proof -
  let ?f = "\<lparr>uf_file = None, uf_pem_content = Some ''-----BEGIN'', uf_password = None, uf_name = [],
     uf_import_key = ''true'', uf_update_existing = ''true''\<rparr>"
  let ?c = "\<lparr>ld_pem = ''-----BEGIN'', ld_attributes = [(''commonName'', ''-----BEGIN'')], ld_subject = ''CN=-----BEGIN'', ld_issuer = ''CN=r'',
       ld_same_names = False, ld_valid_from = 0, ld_valid_to = 100, ld_serial = 7, ld_ski = None, ld_aki = None, ld_basic_ca = Some False\<rparr>"
  have "upload_data demo_ca_env ?f = Inr (''-----BEGIN'', ''pasted.pem'')" by code_simp
  moreover have "parse_certificate_file (ve_loaders demo_ca_env) ''-----BEGIN'' ''pasted.pem'' (uf_password ?f) (lower (uf_import_key ?f) = ''true'') =
      Inr (?c, None, ''pem'')" by code_simp
  moreover have "\<not> is_ca_certificate ?c" "find_existing_ca (extract_cert_info ?c) (cb_cas empty_cas) = None"
    "\<not> list_ex (\<lambda>p. au_refid p = ''c'') (cb_cas empty_cas)" by code_simp+
  ultimately show ?thesis by (rule leaf_becomes_ca [THEN conjunct1])
qed

text \<open>A CA that is deleted leaves its key behind: the file with the key, in plain text, is not removed.\<close>

lemma deleted_key_stays:
  "let db = foldl (ca_step demo_ca_env) empty_cas [(1, Create_ca ''a'' ''root'' demo_ca_body), (2, Delete_ca 1)]
   in cb_cas db = [] \<and> map_of (cb_files db) (''private'', ''ca_r-a.key'') = Some ''K''"
  by code_simp

end
