(* ===== verification/Chain_Repair.thy ===== *)
theory Chain_Repair
  imports Ca_Tree "HOL-Library.Char_ord" "HOL-Library.List_Lexorder"
begin

text \<open>
  The hourly repair of the chains, \<^verbatim>\<open>services/ski_aki_backfill.py\<close>: key identifiers are read from the stored certificates, CAs and
  certificates without a parent are linked by them, CAs with the same identifier are merged into one, and missing common names are
  filled in. Rows are read from the database in each phase; the copies that the object mapper keeps are not modelled. Within a group
  of equal CAs the changes of the CA that is kept are written after the statements that move the references.
\<close>

subsection \<open>Key identifiers\<close>

definition load_row :: "ca_env \<Rightarrow> string \<Rightarrow> py_error + loaded" where
  "load_row e crt = and_then (unbase64 crt) (lo_pem (ve_loaders e))"

definition fill_ski :: "ca_env \<Rightarrow> ca_record \<Rightarrow> ca_record" where
  "fill_ski e ca =
     (if cw_ski ca \<noteq> None then ca
      else (case load_row e (au_crt ca) of Inl _ \<Rightarrow> ca | Inr c \<Rightarrow> ca\<lparr>cw_ski := ld_ski c\<rparr>))"

definition fill_ids :: "ca_env \<Rightarrow> cert_record \<Rightarrow> cert_record" where
  "fill_ids e c =
     (case ct_crt c of
        None \<Rightarrow> c
      | Some crt \<Rightarrow>
          if cx_aki c \<noteq> None then c
          else (case load_row e crt of
                  Inl _ \<Rightarrow> c
                | Inr l \<Rightarrow> c\<lparr>cx_aki := ld_aki l, cx_ski := (case ld_ski l of None \<Rightarrow> cx_ski c | Some k \<Rightarrow> Some k)\<rparr>))"

subsection \<open>Missing parents\<close>

definition rechain_ca :: "ca_env \<Rightarrow> ca_record list \<Rightarrow> ca_record \<Rightarrow> ca_record" where
  "rechain_ca e cas ca =
     (if nonempty (cw_caref ca) then ca
      else (case load_row e (au_crt ca) of
              Inl _ \<Rightarrow> ca
            | Inr l \<Rightarrow>
                (case ld_aki l of
                   None \<Rightarrow> ca
                 | Some aki \<Rightarrow>
                     if cw_ski ca = Some aki then ca
                     else (case find (\<lambda>p. cw_ski p = Some aki \<and> au_id p \<noteq> au_id ca) cas of
                             None \<Rightarrow> ca | Some p \<Rightarrow> ca\<lparr>cw_caref := Some (au_refid p)\<rparr>))))"

definition rechain_cert :: "ca_record list \<Rightarrow> cert_record \<Rightarrow> cert_record" where
  "rechain_cert cas c =
     (if nonempty (ct_caref c) then c
      else (case cx_aki c of
              None \<Rightarrow> c
            | Some aki \<Rightarrow> (case find (\<lambda>p. cw_ski p = Some aki) cas of None \<Rightarrow> c | Some p \<Rightarrow> c\<lparr>ct_caref := Some (au_refid p)\<rparr>)))"

subsection \<open>Equal CAs\<close>

definition duplicate_skis :: "ca_record list \<Rightarrow> string list" where
  "duplicate_skis cas =
     (let skis = List.map_filter cw_ski cas in filter (\<lambda>k. length (filter (\<lambda>j. j = k) skis) > 1) (sort (remdups skis)))"

definition group_of :: "string \<Rightarrow> ca_record list \<Rightarrow> ca_record list" where
  "group_of k cas = filter (\<lambda>ca. cw_ski ca = Some k) cas"

text \<open>The first CA of the group with a parent and a key, or with a parent, or with a key, or the first.\<close>

definition keeper_of :: "ca_record list \<Rightarrow> ca_record" where
  "keeper_of grp =
     (case find (\<lambda>c. nonempty (cw_caref c) \<and> nonempty (au_prv c)) grp of
        Some c \<Rightarrow> c
      | None \<Rightarrow>
          (case find (\<lambda>c. nonempty (cw_caref c)) grp of
             Some c \<Rightarrow> c
           | None \<Rightarrow> (case find (\<lambda>c. nonempty (au_prv c)) grp of Some c \<Rightarrow> c | None \<Rightarrow> hd grp)))"

definition first_text :: "(ca_record \<Rightarrow> string option) \<Rightarrow> ca_record list \<Rightarrow> string option" where
  "first_text f grp = (case find (\<lambda>c. nonempty (f c)) grp of None \<Rightarrow> None | Some c \<Rightarrow> f c)"

definition moved :: "ca_record \<Rightarrow> ca_record list \<Rightarrow> string option \<Rightarrow> string option" where
  "moved keeper others r = (if r \<in> set (map (\<lambda>c. Some (au_refid c)) others) then Some (au_refid keeper) else r)"

definition complete_keeper :: "ca_record \<Rightarrow> ca_record list \<Rightarrow> ca_record \<Rightarrow> ca_record" where
  "complete_keeper keeper grp ca =
     ca\<lparr>au_descr := au_descr (last grp),
        cw_caref := (if nonempty (cw_caref keeper) \<or> first_text cw_caref grp = None then cw_caref ca else first_text cw_caref grp),
        au_prv := (if nonempty (au_prv keeper) \<or> first_text au_prv grp = None then au_prv ca else first_text au_prv grp)\<rparr>"

text \<open>The CAs that a merge removes.\<close>

definition others_of :: "string \<Rightarrow> ca_record list \<Rightarrow> ca_record list" where
  "others_of k cas = filter (\<lambda>c. au_id c \<noteq> au_id (keeper_of (group_of k cas))) (group_of k cas)"

definition merge_group :: "ca_record list \<times> cert_record list \<Rightarrow> string \<Rightarrow> ca_record list \<times> cert_record list" where
  "merge_group db k =
     (let (cas, certs) = db; grp = group_of k cas; keeper = keeper_of grp;
          others = others_of k cas; ids = map au_id others;
          kept = map (\<lambda>ca. ca\<lparr>cw_caref := moved keeper others (cw_caref ca)\<rparr>) (filter (\<lambda>ca. au_id ca \<notin> set ids) cas)
      in (row_update au_id (au_id keeper) (complete_keeper keeper grp) kept,
          map (\<lambda>c. c\<lparr>ct_caref := moved keeper others (ct_caref c)\<rparr>) certs))"

subsection \<open>Common names\<close>

definition cn_text :: "string \<Rightarrow> string option" where
  "cn_text s =
     (if startswith s ''CN='' \<and> takeWhile (\<lambda>c. c \<noteq> CHR '','') (drop 3 s) \<noteq> []
      then Some (takeWhile (\<lambda>c. c \<noteq> CHR '','') (drop 3 s)) else None)"

definition fill_cn :: "ca_env \<Rightarrow> cert_record \<Rightarrow> cert_record" where
  "fill_cn e c =
     (if nonempty (cx_subject_cn c) then c
      else
        (let named = (case ct_subject c of None \<Rightarrow> [] | Some s \<Rightarrow> (case search cn_text s of None \<Rightarrow> [] | Some t \<Rightarrow> strip t));
             read = (case ct_crt c of
                       None \<Rightarrow> []
                     | Some crt \<Rightarrow> (case load_row e crt of Inl _ \<Rightarrow> [] | Inr l \<Rightarrow> get_name_attr (ld_attributes l) ''commonName''));
             cn = pick [named, read, ct_descr c]
         in if cn = [] then c else c\<lparr>cx_subject_cn := Some cn\<rparr>))"

subsection \<open>The task\<close>

record repair_stats =
  rs_updated_cas :: nat
  rs_updated_certs :: nat
  rs_rechained_cas :: nat
  rs_rechained_certs :: nat
  rs_deduplicated :: nat
  rs_orphan_cas :: nat
  rs_orphan_certs :: nat
  rs_total_cas :: nat
  rs_total_certs :: nat

definition changes :: "('a \<Rightarrow> 'a) \<Rightarrow> 'a list \<Rightarrow> nat" where
  "changes f xs = length (filter (\<lambda>x. f x \<noteq> x) xs)"

definition read_cert :: "ca_env \<Rightarrow> cert_record \<Rightarrow> bool" where
  "read_cert e c = (cx_aki c = None \<and> (case ct_crt c of None \<Rightarrow> False | Some crt \<Rightarrow> isl (load_row e crt) = False))"

definition orphan_ca :: "ca_record \<Rightarrow> bool" where
  "orphan_ca ca = (\<not> nonempty (cw_caref ca) \<and> cw_ski ca \<noteq> None \<and>
     au_subject ca \<noteq> None \<and> cw_issuer ca \<noteq> None \<and> au_subject ca \<noteq> cw_issuer ca)"

definition linked_tables :: "ca_env \<Rightarrow> ca_db \<Rightarrow> ca_record list \<times> cert_record list" where
  "linked_tables e db =
     (let cas = map (fill_ski e) (cb_cas db); certs = map (fill_ids e) (cb_certs db);
          cas2 = map (rechain_ca e cas) cas
      in (cas2, map (rechain_cert cas2) certs))"

definition merged_tables :: "ca_env \<Rightarrow> ca_db \<Rightarrow> ca_record list \<times> cert_record list" where
  "merged_tables e db =
     (let (cas, certs) = linked_tables e db in foldl merge_group (cas, certs) (duplicate_skis cas))"

definition backfill_ski_aki :: "ca_env \<Rightarrow> ca_db \<Rightarrow> repair_stats \<times> ca_db" where
  "backfill_ski_aki e db =
     (let cas1 = map (fill_ski e) (cb_cas db); certs1 = map (fill_ids e) (cb_certs db);
          (cas2, certs2) = linked_tables e db; (cas3, certs3) = merged_tables e db; certs4 = map (fill_cn e) certs3
      in (\<lparr>rs_updated_cas = changes (fill_ski e) (cb_cas db), rs_updated_certs = length (filter (read_cert e) (cb_certs db)),
           rs_rechained_cas = changes (rechain_ca e cas1) cas1, rs_rechained_certs = changes (rechain_cert cas2) certs1,
           rs_deduplicated = length cas2 - length cas3, rs_orphan_cas = length (filter orphan_ca cas3),
           rs_orphan_certs = length (filter (\<lambda>c. \<not> nonempty (ct_caref c) \<and> cx_aki c \<noteq> None) certs4),
           rs_total_cas = length (cb_cas db), rs_total_certs = length (cb_certs db)\<rparr>,
          db\<lparr>cb_cas := cas3, cb_certs := certs4\<rparr>))"

subsection \<open>What a merge keeps\<close>

text \<open>The columns that identify a CA; a reference leads to a CA with the given key identifier.\<close>

definition core :: "ca_record \<Rightarrow> int \<times> string \<times> string option" where
  "core ca = (au_id ca, au_refid ca, cw_ski ca)"

definition leads_to :: "ca_record list \<Rightarrow> string option \<Rightarrow> string option \<Rightarrow> bool" where
  "leads_to cas r k = list_ex (\<lambda>ca. r = Some (au_refid ca) \<and> cw_ski ca = k) cas"

definition rows_ok :: "ca_record list \<Rightarrow> bool" where
  "rows_ok cas \<longleftrightarrow> distinct (map au_id cas) \<and> distinct (map au_refid cas) \<and> [] \<notin> set (map au_refid cas)"

lemma core_fields:
  assumes "map core cas' = map core cas"
  shows "map au_id cas' = map au_id cas" "map au_refid cas' = map au_refid cas" "map cw_ski cas' = map cw_ski cas"
  using arg_cong [OF assms, of "map fst"] arg_cong [OF assms, of "map (fst \<circ> snd)"] arg_cong [OF assms, of "map (snd \<circ> snd)"]
  by (simp_all add: core_def comp_def)

lemma leads_to_core: "leads_to cas r k \<longleftrightarrow> (\<exists>i ref. (i, ref, k) \<in> set (map core cas) \<and> r = Some ref)"
  by (auto simp: leads_to_def core_def list_ex_iff)

lemma keeper_in: "grp \<noteq> [] \<Longrightarrow> keeper_of grp \<in> set grp"
  by (auto simp: keeper_of_def split: option.splits dest: find_Some_in)

lemma merge_core:
  "map core (fst (merge_group (cas, certs) k)) = map core (filter (\<lambda>ca. au_id ca \<notin> au_id ` set (others_of k cas)) cas)"
proof -
  let ?keeper = "keeper_of (group_of k cas)" and ?rows = "filter (\<lambda>ca. au_id ca \<notin> au_id ` set (others_of k cas)) cas"
  let ?kept = "map (\<lambda>ca. ca\<lparr>cw_caref := moved ?keeper (others_of k cas) (cw_caref ca)\<rparr>) ?rows"
  have "map core (row_update au_id (au_id ?keeper) (complete_keeper ?keeper (group_of k cas)) ?kept) = map core ?kept"
    by (rule map_row_update) (simp add: core_def complete_keeper_def)
  moreover have "map core ?kept = map core ?rows" by (simp add: core_def)
  ultimately show ?thesis by (simp add: merge_group_def Let_def)
qed

lemma merge_rows_ok:
  assumes "rows_ok cas"
  shows "rows_ok (fst (merge_group (cas, certs) k))"
  using assms core_fields [OF merge_core [of cas certs k]] by (auto simp: rows_ok_def distinct_map_filter)

lemma merge_leads:
  assumes ok: "rows_ok cas" and r: "leads_to cas r s"
  shows "leads_to (fst (merge_group (cas, certs) k)) (moved (keeper_of (group_of k cas)) (others_of k cas) r) s"
proof -
  let ?keeper = "keeper_of (group_of k cas)" and ?rows = "filter (\<lambda>ca. au_id ca \<notin> au_id ` set (others_of k cas)) cas"
  obtain ca where ca: "ca \<in> set cas" "r = Some (au_refid ca)" "cw_ski ca = s" using r by (auto simp: leads_to_def list_ex_iff)
  have "leads_to ?rows (moved ?keeper (others_of k cas) r) s"
  proof (cases "r \<in> set (map (\<lambda>c. Some (au_refid c)) (others_of k cas))")
    case True
    then obtain c where c: "c \<in> set (others_of k cas)" "au_refid c = au_refid ca" using ca(2) by auto
    then have "c = ca" using ok ca(1) by (auto simp: rows_ok_def distinct_map inj_on_def others_of_def group_of_def)
    then have "ca \<in> set (group_of k cas)" using c(1) by (simp add: others_of_def)
    then have "s = Some k" "group_of k cas \<noteq> []" using ca(3) by (simp add: group_of_def, force)
    then have "?keeper \<in> set cas" "cw_ski ?keeper = s" using keeper_in [of "group_of k cas"] by (auto simp: group_of_def)
    moreover have "au_id ?keeper \<notin> au_id ` set (others_of k cas)" by (auto simp: others_of_def)
    ultimately show ?thesis using True by (auto simp: leads_to_def list_ex_iff moved_def)
  next
    case False
    have "au_id ca \<notin> au_id ` set (others_of k cas)"
      using False ca(1,2) ok by (auto simp: rows_ok_def distinct_map inj_on_def others_of_def group_of_def)
    moreover have "moved ?keeper (others_of k cas) r = r" using False by (simp add: moved_def)
    ultimately show ?thesis using ca by (auto simp: leads_to_def list_ex_iff)
  qed
  then show ?thesis unfolding leads_to_core merge_core .
qed

lemma count_key: "distinct (map f xs) \<Longrightarrow> length (filter (\<lambda>x. f x = i) xs) \<le> 1"
proof (induction xs)
  case (Cons x xs)
  have "filter (\<lambda>y. f y = f x) xs = []" using Cons(2) by (auto simp: filter_empty_conv image_iff)
  then show ?case using Cons by auto
qed simp

lemma merge_unique:
  assumes "rows_ok cas"
  shows "length (group_of k (fst (merge_group (cas, certs) k))) \<le> 1"
    "j \<noteq> k \<Longrightarrow> length (group_of j (fst (merge_group (cas, certs) k))) = length (group_of j cas)"
proof -
  have len: "length (group_of j cas') = length (filter (\<lambda>s. s = Some j) (map cw_ski cas'))" for j cas'
    by (simp add: group_of_def filter_map comp_def)
  have skis: "map cw_ski (fst (merge_group (cas, certs) k)) = map cw_ski (filter (\<lambda>ca. au_id ca \<notin> au_id ` set (others_of k cas)) cas)"
    using core_fields(3) [OF merge_core] .
  have gone: "ca \<in> set cas \<Longrightarrow> au_id ca \<in> au_id ` set (others_of k cas) \<longleftrightarrow> cw_ski ca = Some k \<and> au_id ca \<noteq> au_id (keeper_of (group_of k cas))" for ca
    using assms by (auto simp: rows_ok_def distinct_map inj_on_def others_of_def group_of_def)
  show "length (group_of j (fst (merge_group (cas, certs) k))) = length (group_of j cas)" if "j \<noteq> k"
  proof -
    have "filter (\<lambda>ca. au_id ca \<notin> au_id ` set (others_of k cas) \<and> cw_ski ca = Some j) cas = filter (\<lambda>ca. cw_ski ca = Some j) cas"
      using gone that by (intro filter_cong) auto
    then show ?thesis unfolding len skis by (simp add: filter_map comp_def group_of_def conj_commute)
  qed
  have "filter (\<lambda>ca. au_id ca \<notin> au_id ` set (others_of k cas) \<and> cw_ski ca = Some k) cas =
      filter (\<lambda>ca. cw_ski ca = Some k \<and> au_id ca = au_id (keeper_of (group_of k cas))) cas"
    using gone by (intro filter_cong) auto
  moreover have "length (filter (\<lambda>ca. cw_ski ca = Some k \<and> au_id ca = i) cas) \<le> 1" for i
  proof -
    have "length (filter (\<lambda>ca. au_id ca = i) cas) \<le> 1" using assms by (intro count_key) (simp add: rows_ok_def)
    moreover have "length (filter (\<lambda>ca. cw_ski ca = Some k \<and> au_id ca = i) cas) \<le> length (filter (\<lambda>ca. au_id ca = i) cas)"
      by (induction cas) auto
    ultimately show ?thesis by linarith
  qed
  ultimately show "length (group_of k (fst (merge_group (cas, certs) k))) \<le> 1"
    unfolding len skis by (simp add: filter_map comp_def)
qed


text \<open>No certificate and no CA loses its parent, up to equal key identifiers.\<close>

definition certs_follow :: "ca_record list \<Rightarrow> cert_record list \<Rightarrow> ca_record list \<Rightarrow> cert_record list \<Rightarrow> bool" where
  "certs_follow cas certs cas' certs' \<longleftrightarrow>
     list_all2 (\<lambda>c c'. ct_id c' = ct_id c \<and> (\<forall>s. leads_to cas (ct_caref c) s \<longrightarrow> leads_to cas' (ct_caref c') s)) certs certs'"

definition cas_follow :: "ca_record list \<Rightarrow> ca_record list \<Rightarrow> bool" where
  "cas_follow cas cas' \<longleftrightarrow>
     (\<forall>ca' \<in> set cas'. \<exists>ca \<in> set cas. au_id ca = au_id ca' \<and> (\<forall>s. leads_to cas (cw_caref ca) s \<longrightarrow> leads_to cas' (cw_caref ca') s)) \<and>
     (\<forall>ca \<in> set cas. \<exists>ca' \<in> set cas'. cw_ski ca' = cw_ski ca)"

lemma follow_refl: "certs_follow cas certs cas certs" "cas_follow cas cas"
  by (auto simp: certs_follow_def cas_follow_def list_all2_refl)

lemma follow_trans:
  assumes "certs_follow a ca b cb" "certs_follow b cb c cc"
  shows "certs_follow a ca c cc"
  using assms unfolding certs_follow_def by (rule list_all2_trans [rotated]) auto

lemma cas_follow_trans: "cas_follow a b \<Longrightarrow> cas_follow b c \<Longrightarrow> cas_follow a c"
  unfolding cas_follow_def by (metis (no_types, lifting))

lemma merge_follow:
  assumes "rows_ok cas"
  shows "certs_follow cas certs (fst (merge_group (cas, certs) k)) (snd (merge_group (cas, certs) k))"
    "cas_follow cas (fst (merge_group (cas, certs) k))"
proof -
  let ?grp = "group_of k cas" and ?others = "others_of k cas" and ?cas = "fst (merge_group (cas, certs) k)"
  let ?keeper = "keeper_of ?grp"
  note leads = merge_leads [OF assms, where certs = certs and k = k]
  show "certs_follow cas certs ?cas (snd (merge_group (cas, certs) k))"
    using leads by (simp add: certs_follow_def merge_group_def Let_def list_all2_map2 list_all2_refl)
  have parent: "first_text cw_caref ?grp = None \<or> nonempty (cw_caref ?keeper)"
    by (auto simp: keeper_of_def first_text_def split: option.splits dest!: find_Some_in)
  have "\<exists>ca \<in> set cas. au_id ca = au_id ca' \<and> cw_caref ca' = moved ?keeper ?others (cw_caref ca)" if "ca' \<in> set ?cas" for ca'
    using that parent
    by (auto simp: merge_group_def Let_def row_update_def complete_keeper_def)
  then have "\<exists>ca \<in> set cas. au_id ca = au_id ca' \<and> (\<forall>s. leads_to cas (cw_caref ca) s \<longrightarrow> leads_to ?cas (cw_caref ca') s)" if "ca' \<in> set ?cas" for ca'
    using that leads by metis
  moreover have "\<exists>ca' \<in> set ?cas. cw_ski ca' = cw_ski ca" if "ca \<in> set cas" for ca
    using leads [of "Some (au_refid ca)" "cw_ski ca"] that by (auto simp: leads_to_def list_ex_iff)
  ultimately show "cas_follow cas ?cas" by (simp add: cas_follow_def)
qed

lemma merges_follow:
  assumes "rows_ok cas"
  shows "rows_ok (fst (foldl merge_group (cas, certs) ks)) \<and>
    certs_follow cas certs (fst (foldl merge_group (cas, certs) ks)) (snd (foldl merge_group (cas, certs) ks)) \<and>
    cas_follow cas (fst (foldl merge_group (cas, certs) ks))"
proof (induction ks rule: rev_induct)
  case (snoc k ks)
  obtain cas1 certs1 where db: "foldl merge_group (cas, certs) ks = (cas1, certs1)" by fastforce
  then show ?case
    using snoc merge_rows_ok [of cas1 certs1 k] merge_follow [of cas1 certs1 k] follow_trans cas_follow_trans by (simp, blast)
qed (simp add: assms follow_refl)

lemma merges_unique:
  assumes "rows_ok cas"
  shows "length (group_of k (fst (foldl merge_group (cas, certs) ks))) \<le> (if k \<in> set ks then 1 else length (group_of k cas))"
proof (induction ks rule: rev_induct)
  case (snoc j ks)
  obtain cas1 certs1 where db: "foldl merge_group (cas, certs) ks = (cas1, certs1)" by fastforce
  have "rows_ok cas1" using merges_follow [OF assms, of certs ks] db by simp
  note u = merge_unique(1) [OF this, of j certs1] merge_unique(2) [OF this, of k j certs1]
  show ?case using u snoc db by (cases "k = j") (auto split: if_splits)
qed simp

lemma distinct_skis: "(\<And>k. length (group_of k cas) \<le> 1) \<Longrightarrow> distinct (List.map_filter cw_ski cas)"
proof (induction cas)
  case (Cons ca cas)
  have "length (group_of k cas) \<le> 1" for k using Cons(2) [of k] by (simp add: group_of_def split: if_splits)
  moreover have "x \<notin> set (List.map_filter cw_ski cas)" if "cw_ski ca = Some x" for x
    using Cons(2) [of x] that by (auto simp: group_of_def map_filter_def filter_empty_conv)
  ultimately show ?case using Cons(1) by (cases "cw_ski ca") (simp_all add: map_filter_simps)
qed (simp add: map_filter_simps)

lemma group_duplicate: "length (group_of k cas) > 1 \<Longrightarrow> k \<in> set (duplicate_skis cas)"
proof -
  assume *: "length (group_of k cas) > 1"
  have "length (filter (\<lambda>j. j = k) (List.map_filter cw_ski cas)) = length (group_of k cas)" for cas
    by (induction cas) (auto simp: group_of_def map_filter_simps split: option.split)
  moreover have "k \<in> set (List.map_filter cw_ski cas)"
  proof -
    obtain ca where "ca \<in> set (group_of k cas)" using * by (cases "group_of k cas") auto
    then show ?thesis by (force simp: group_of_def map_filter_def)
  qed
  ultimately show ?thesis using * by (simp add: duplicate_skis_def Let_def)
qed


text \<open>The first phases change no identifier of a CA and only references that are missing.\<close>

lemma rechain_core: "map core (map (rechain_ca e cas) cas1) = map core cas1"
  by (simp add: core_def rechain_ca_def split: sum.split option.split)

lemma leads_to_nonempty: "rows_ok cas \<Longrightarrow> leads_to cas r k \<Longrightarrow> nonempty r"
  by (auto simp: rows_ok_def leads_to_def list_ex_iff nonempty_def image_iff)

lemma linked_tables_follow:
  assumes "rows_ok (cb_cas db)"
  shows "rows_ok (fst (linked_tables e db))"
    "certs_follow (map (fill_ski e) (cb_cas db)) (cb_certs db) (fst (linked_tables e db)) (snd (linked_tables e db))"
    "cas_follow (map (fill_ski e) (cb_cas db)) (fst (linked_tables e db))"
proof -
  let ?cas = "map (fill_ski e) (cb_cas db)" and ?cas2 = "fst (linked_tables e db)"
  have fill: "map au_id ?cas = map au_id (cb_cas db)" "map au_refid ?cas = map au_refid (cb_cas db)"
    by (simp_all add: fill_ski_def split: sum.split)
  have ok: "rows_ok ?cas" using assms unfolding rows_ok_def fill .
  have core: "map core ?cas2 = map core ?cas" unfolding linked_tables_def Let_def fst_conv by (rule rechain_core)
  show "rows_ok ?cas2" using ok unfolding rows_ok_def core_fields [OF core] .
  have leads: "leads_to ?cas2 r k = leads_to ?cas r k" for r k unfolding leads_to_core core ..
  have kept: "leads_to ?cas (ct_caref (rechain_cert ?cas2 (fill_ids e c))) k" if "leads_to ?cas (ct_caref c) k" for c k
  proof -
    have "ct_caref (fill_ids e c) = ct_caref c" by (simp add: fill_ids_def split: option.split sum.split)
    then show ?thesis using that leads_to_nonempty [OF ok that] by (simp add: rechain_cert_def)
  qed
  have ids: "ct_id (rechain_cert ?cas2 (fill_ids e c)) = ct_id c" for c
    by (simp add: rechain_cert_def fill_ids_def split: option.split sum.split)
  show "certs_follow ?cas (cb_certs db) ?cas2 (snd (linked_tables e db))"
    using kept ids unfolding certs_follow_def leads
    by (simp add: linked_tables_def Let_def list_all2_map2 list_all2_refl)
  have "cw_caref (rechain_ca e ?cas ca) = cw_caref ca" if "leads_to ?cas (cw_caref ca) k" for ca k
    using leads_to_nonempty [OF ok that] by (simp add: rechain_ca_def)
  moreover have "au_id (rechain_ca e ?cas ca) = au_id ca \<and> cw_ski (rechain_ca e ?cas ca) = cw_ski ca" for ca
    by (simp add: rechain_ca_def split: option.split sum.split)
  ultimately show "cas_follow ?cas ?cas2"
    unfolding cas_follow_def leads by (simp add: linked_tables_def Let_def) metis
qed

subsection \<open>Properties\<close>

text \<open>After the repair no two CAs have the same key identifier, and every identifier that a CA had is still that of a CA. No
  certificate and no CA loses its parent: whatever reference led to a CA, directly or filled in, leads to a CA with the same key
  identifier.\<close>

theorem repair_keeps_parents:
  assumes "rows_ok (cb_cas db)" "db' = snd (backfill_ski_aki e db)"
  shows "distinct (List.map_filter cw_ski (cb_cas db')) \<and> rows_ok (cb_cas db') \<and>
    certs_follow (map (fill_ski e) (cb_cas db)) (cb_certs db) (cb_cas db') (cb_certs db') \<and>
    cas_follow (map (fill_ski e) (cb_cas db)) (cb_cas db')"
proof -
  obtain cas certs where l: "linked_tables e db = (cas, certs)" by fastforce
  obtain cas3 certs3 where m: "merged_tables e db = (cas3, certs3)" by fastforce
  have db': "cb_cas db' = cas3" "cb_certs db' = map (fill_cn e) certs3" by (simp_all add: assms(2) backfill_ski_aki_def Let_def l m)
  note link = linked_tables_follow [OF assms(1), of e, unfolded l fst_conv snd_conv]
  have f: "foldl merge_group (cas, certs) (duplicate_skis cas) = (cas3, certs3)" using m by (simp add: merged_tables_def l)
  note merge = merges_follow [OF link(1), of certs "duplicate_skis cas", unfolded f fst_conv snd_conv]
  have "length (group_of k cas3) \<le> 1" for k
    using merges_unique [OF link(1), of k certs "duplicate_skis cas", unfolded f fst_conv] group_duplicate [of k cas] by (cases "length (group_of k cas) > 1") (auto split: if_splits)
  moreover have "certs_follow cas3 certs3 cas3 (map (fill_cn e) certs3)"
    unfolding certs_follow_def by (simp add: list_all2_map2 list_all2_refl fill_cn_def Let_def)
  ultimately show ?thesis
    using link merge distinct_skis [of cas3] follow_trans cas_follow_trans unfolding db' by blast
qed

definition repair_loaders :: loaders where
  "repair_loaders = demo_loaders\<lparr>lo_pem := (\<lambda>t. Inr \<lparr>ld_pem = t, ld_attributes = [], ld_subject = ''CN='' @ t, ld_issuer = ''CN=o'',
     ld_same_names = False, ld_valid_from = 0, ld_valid_to = 100, ld_serial = 7, ld_ski = Some t,
     ld_aki = Some (if t = ''a'' then ''b'' else ''a''), ld_basic_ca = Some True\<rparr>)\<rparr>"

definition repair_env :: ca_env where
  "repair_env = demo_ca_env\<lparr>ve_loaders := repair_loaders\<rparr>"

definition demo_row :: "int \<Rightarrow> string \<Rightarrow> string \<Rightarrow> ca_record" where
  "demo_row i refid text =
     \<lparr>au_id = i, au_refid = refid, au_descr = refid, au_subject = Some (''CN='' @ text), au_crt = b64encode text, au_prv = None,
      au_hsm_key_id = None, au_cdp_enabled = False, au_cdp_url = None, au_delta_crl_enabled = False, au_delta_crl_interval = None,
      au_ocsp_enabled = False, cw_serial = None, cw_caref = None, cw_issuer = Some ''CN=o'', cw_ski = None, cw_valid_from = None,
      cw_valid_to = None, cw_imported_from = None, cw_created_at = 0, cw_created_by = None, cw_ocsp_url = None\<rparr>"

theorem repair_keeps_parents_witness:
  "distinct (List.map_filter cw_ski (cb_cas (snd (backfill_ski_aki repair_env
     (empty_cas\<lparr>cb_cas := [demo_row 1 ''x'' ''a'', demo_row 2 ''y'' ''b'', demo_row 3 ''z'' ''a'']\<rparr>)))))"
  by (rule repair_keeps_parents [OF _ refl, THEN conjunct1]) code_simp


text \<open>Rows that point at each other: no number of steps ends the walk.\<close>

lemma walk_in_circle:
  assumes "parent_of cas a = Some b" "parent_of cas b = Some a" "\<not> isl (rd a)" "\<not> isl (rd b)"
  shows "read_up rd n cas (Some a) = None \<and> read_up rd n cas (Some b) = None"
  using assms(3,4) by (induction n) (auto simp: assms(1,2) split: sum.split)

lemma repair_pair:
  assumes "cb_cas db = [a, b]" "au_id a \<noteq> au_id b"
    and "\<not> nonempty (cw_caref a)" "\<not> nonempty (cw_caref b)" "cw_ski a = Some s" "cw_ski b = Some t" "s \<noteq> t"
    and "load_row e (au_crt a) = Inr l" "ld_aki l = Some t" "load_row e (au_crt b) = Inr m" "ld_aki m = Some s"
  shows "cb_cas (snd (backfill_ski_aki e db)) = [a\<lparr>cw_caref := Some (au_refid b)\<rparr>, b\<lparr>cw_caref := Some (au_refid a)\<rparr>]"
proof -
  have "map (fill_ski e) [a, b] = [a, b]" using assms(5,6) by (simp add: fill_ski_def)
  moreover have "map (rechain_ca e [a, b]) [a, b] = [a\<lparr>cw_caref := Some (au_refid b)\<rparr>, b\<lparr>cw_caref := Some (au_refid a)\<rparr>]"
    using assms by (simp add: rechain_ca_def)
  ultimately have l: "fst (linked_tables e db) = [a\<lparr>cw_caref := Some (au_refid b)\<rparr>, b\<lparr>cw_caref := Some (au_refid a)\<rparr>]"
    by (simp add: linked_tables_def Let_def assms(1))
  have "duplicate_skis (fst (linked_tables e db)) = []"
    unfolding l duplicate_skis_def using assms(5-7) by (simp add: map_filter_simps insort_key.simps Let_def)
  then have "fst (merged_tables e db) = fst (linked_tables e db)" by (simp add: merged_tables_def split_beta)
  then show ?thesis using l by (simp add: backfill_ski_aki_def Let_def split_beta)
qed

text \<open>Two CAs that have certified each other, as in a migration, make each other's parent in the repair. From then on the walk up
  from either of them does not end: a request for its chain, or for an export with the chain, never returns.\<close>

theorem cross_signed_loop:
  assumes "cb_cas db = [a, b]" "au_id a \<noteq> au_id b" "au_refid a \<noteq> au_refid b" "au_refid a \<noteq> []" "au_refid b \<noteq> []"
    and "\<not> nonempty (cw_caref a)" "\<not> nonempty (cw_caref b)" "cw_ski a = Some s" "cw_ski b = Some t" "s \<noteq> t"
    and "load_row e (au_crt a) = Inr l" "ld_aki l = Some t" "load_row e (au_crt b) = Inr m" "ld_aki m = Some s"
  shows "get_ca_chain n (au_id a) (snd (backfill_ski_aki e db)) = None"
proof -
  let ?a = "a\<lparr>cw_caref := Some (au_refid b)\<rparr>" and ?b = "b\<lparr>cw_caref := Some (au_refid a)\<rparr>"
  have db': "cb_cas (snd (backfill_ski_aki e db)) = [?a, ?b]" by (rule repair_pair [OF assms(1,2,6-14)])
  have "parent_of [?a, ?b] ?a = Some ?b" "parent_of [?a, ?b] ?b = Some ?a"
    using assms(3-5) by (simp_all add: parent_of_def nonempty_def)
  moreover have "\<not> isl (ca_text ?a)" "\<not> isl (ca_text ?b)"
    using assms(11,13) by (auto simp: ca_text_def load_row_def and_then_Inr and_then_def split: sum.splits)
  ultimately show ?thesis
    using walk_in_circle [of "[?a, ?b]" ?a ?b ca_text n] by (simp add: get_ca_chain_def db' row_get_def)
qed

theorem cross_signed_loop_witness:
  "get_ca_chain 1000 1 (snd (backfill_ski_aki repair_env
     (empty_cas\<lparr>cb_cas := [(demo_row 1 ''x'' ''a'')\<lparr>cw_ski := Some ''a''\<rparr>, (demo_row 2 ''y'' ''b'')\<lparr>cw_ski := Some ''b''\<rparr>]\<rparr>))) = None"
proof -
  let ?a = "(demo_row 1 ''x'' ''a'')\<lparr>cw_ski := Some ''a''\<rparr>" and ?b = "(demo_row 2 ''y'' ''b'')\<lparr>cw_ski := Some ''b''\<rparr>"
  let ?l = "\<lambda>t u. \<lparr>ld_pem = t, ld_attributes = [], ld_subject = ''CN='' @ t, ld_issuer = ''CN=o'', ld_same_names = False, ld_valid_from = 0,
     ld_valid_to = 100, ld_serial = 7, ld_ski = Some t, ld_aki = Some u, ld_basic_ca = Some True\<rparr>"
  have "load_row repair_env (au_crt ?a) = Inr (?l ''a'' ''b'')" "load_row repair_env (au_crt ?b) = Inr (?l ''b'' ''a'')" by code_simp+
  then show ?thesis
    using cross_signed_loop [of "empty_cas\<lparr>cb_cas := [?a, ?b]\<rparr>" ?a ?b "''a''" "''b''" repair_env "?l ''a'' ''b''" "?l ''b'' ''a''" 1000]
    by (simp add: demo_row_def nonempty_def)
qed

text \<open>A CA that was renewed with its key is taken for a copy: of two rows with the same identifier, each with a parent and a key, the
  older certificate is kept, under the newer name, and the renewed certificate is deleted.\<close>

lemma renewed_ca_dropped:
  assumes "cw_ski a = Some k" "cw_ski b = Some k" "nonempty (cw_caref a)" "nonempty (au_prv a)" "au_id a \<noteq> au_id b"
    and "cw_caref a \<noteq> Some (au_refid b)"
  shows "fst (merge_group ([a, b], certs) k) = [a\<lparr>au_descr := au_descr b\<rparr>]"
proof -
  have "group_of k [a, b] = [a, b]" "keeper_of [a, b] = a" using assms by (simp_all add: group_of_def keeper_of_def)
  moreover from this have "others_of k [a, b] = [b]" using assms(5) by (simp add: others_of_def)
  ultimately show ?thesis
    using assms by (simp add: merge_group_def complete_keeper_def moved_def row_update_def Let_def)
qed

end
