(* ===== verification/Encryption.thy ===== *)
theory Encryption
  imports Audit_Log Crl Base64
begin

text \<open>
  The encryption of stored private keys: \<^verbatim>\<open>security/encryption.py\<close>, its routes in \<^verbatim>\<open>api/v2/system.py\<close> and the check for safe mode at
  the start of the application. Fernet, of the cryptography package, is a parameter: which texts are keys, its encryption, which draws
  a random nonce, and its decryption, \<open>None\<close> for a token of another key. The key file is part of the state; writing it does not fail.
\<close>

subsection \<open>State\<close>

record fernet =
  fe_valid :: "string \<Rightarrow> bool"
  fe_encrypt :: "string \<Rightarrow> nat \<Rightarrow> string \<Rightarrow> string"
  fe_decrypt :: "string \<Rightarrow> string \<Rightarrow> string option"

text \<open>The key in memory, where it comes from, and the columns \<^verbatim>\<open>prv\<close> of CAs and certificates with the references of their rows.\<close>

record vault =
  va_file :: "string option"
  va_environ :: "string option"
  va_fernet :: "string option"
  va_source :: "string option"
  va_cas :: "(string \<times> string option) list"
  va_certs :: "(string \<times> string option) list"
  va_logs :: "audit_log list"

definition key_enabled :: "vault \<Rightarrow> bool" where
  "key_enabled st = (va_fernet st \<noteq> None)"

definition ENCRYPTED_MARKER :: string where
  "ENCRYPTED_MARKER = ''ENC:''"

definition file_key :: "vault \<Rightarrow> string" where
  "file_key st = (case va_file st of None \<Rightarrow> [] | Some s \<Rightarrow> strip s)"

definition loaded_key :: "vault \<Rightarrow> string \<times> string option" where
  "loaded_key st =
     (if file_key st \<noteq> [] then (file_key st, Some ''file'')
      else if nonempty (va_environ st) then (the (va_environ st), Some ''env'')
      else ([], None))"

definition reload_vault :: "fernet \<Rightarrow> vault \<Rightarrow> vault" where
  "reload_vault f st =
     (let (key, source) = loaded_key st
      in st\<lparr>va_fernet := (if key \<noteq> [] \<and> fe_valid f key then Some key else None), va_source := source\<rparr>)"

subsection \<open>One key\<close>

definition encrypt :: "fernet \<Rightarrow> string option \<Rightarrow> nat \<Rightarrow> string \<Rightarrow> string" where
  "encrypt f k nonce data =
     (case k of
        None \<Rightarrow> data
      | Some key \<Rightarrow>
          if data = [] then data
          else (case b64decode data of
                  None \<Rightarrow> data
                | Some raw \<Rightarrow>
                    if startswith raw ENCRYPTED_MARKER then data else b64encode (ENCRYPTED_MARKER @ fe_encrypt f key nonce raw)))"

definition decrypt :: "fernet \<Rightarrow> string option \<Rightarrow> string \<Rightarrow> py_error + string" where
  "decrypt f k data =
     (if data = [] then Inr data
      else (case b64decode data of
              None \<Rightarrow> Inl (Value_error ''Incorrect padding'')
            | Some raw \<Rightarrow>
                if \<not> startswith raw ENCRYPTED_MARKER then Inr data
                else (case k of
                        None \<Rightarrow> Inl (Value_error ''Encryption key not configured'')
                      | Some key \<Rightarrow>
                          (case fe_decrypt f key (drop (length ENCRYPTED_MARKER) raw) of
                             None \<Rightarrow> Inl (Value_error ''Failed to decrypt private key - wrong encryption key'')
                           | Some text \<Rightarrow> Inr (b64encode text)))))"

definition is_encrypted :: "string \<Rightarrow> bool" where
  "is_encrypted data = (data \<noteq> [] \<and> (case b64decode data of None \<Rightarrow> False | Some raw \<Rightarrow> startswith raw ENCRYPTED_MARKER))"

subsection \<open>All keys\<close>

record key_counts =
  kc_done :: nat
  kc_skipped :: nat
  kc_errors :: "string list"

definition keys_in :: "(string \<times> string option) list \<Rightarrow> string list" where
  "keys_in rows = List.map_filter snd rows"

definition decrypt_errors :: "fernet \<Rightarrow> string option \<Rightarrow> string \<Rightarrow> (string \<times> string option) list \<Rightarrow> string list" where
  "decrypt_errors f k label rows =
     List.map_filter (\<lambda>(refid, prv). case prv of
        None \<Rightarrow> None
      | Some d \<Rightarrow> if is_encrypted d
                  then (case decrypt f k d of Inl err \<Rightarrow> Some (label @ refid @ '': '' @ error_text err) | Inr _ \<Rightarrow> None) else None) rows"

definition decrypt_row :: "fernet \<Rightarrow> string option \<Rightarrow> string \<times> string option \<Rightarrow> string \<times> string option" where
  "decrypt_row f k row =
     (fst row, map_option (\<lambda>d. if is_encrypted d then (case decrypt f k d of Inl _ \<Rightarrow> d | Inr p \<Rightarrow> p) else d) (snd row))"

definition not_enabled :: key_counts where
  "not_enabled = \<lparr>kc_done = 0, kc_skipped = 0, kc_errors = [''Encryption not enabled'']\<rparr>"

text \<open>A dry run counts every encrypted key without decrypting it.\<close>

definition decrypt_all_keys :: "fernet \<Rightarrow> bool \<Rightarrow> vault \<Rightarrow> key_counts \<times> vault" where
  "decrypt_all_keys f dry_run st =
     (if \<not> key_enabled st then (not_enabled, st)
      else
        (let k = va_fernet st; ks = keys_in (va_cas st @ va_certs st);
             errs = (if dry_run then [] else decrypt_errors f k ''CA '' (va_cas st) @ decrypt_errors f k ''Certificate '' (va_certs st))
         in (\<lparr>kc_done = length (filter is_encrypted ks) - length errs, kc_skipped = length (filter (Not \<circ> is_encrypted) ks), kc_errors = errs\<rparr>,
             if dry_run then st
             else st\<lparr>va_cas := map (decrypt_row f k) (va_cas st), va_certs := map (decrypt_row f k) (va_certs st)\<rparr>)))"

definition encrypt_row :: "fernet \<Rightarrow> string option \<Rightarrow> nat \<times> string \<times> string option \<Rightarrow> string \<times> string option" where
  "encrypt_row f k row =
     (fst (snd row), map_option (\<lambda>d. if is_encrypted d then d else encrypt f k (fst row) d) (snd (snd row)))"

definition encrypt_all_keys :: "fernet \<Rightarrow> nat list \<Rightarrow> bool \<Rightarrow> vault \<Rightarrow> key_counts \<times> vault" where
  "encrypt_all_keys f nonces dry_run st =
     (if \<not> key_enabled st then (not_enabled, st)
      else
        (let k = va_fernet st; ks = keys_in (va_cas st @ va_certs st); nth_nonce = (\<lambda>i. if i < length nonces then nonces ! i else i)
         in (\<lparr>kc_done = length (filter (Not \<circ> is_encrypted) ks), kc_skipped = length (filter is_encrypted ks), kc_errors = []\<rparr>,
             if dry_run then st
             else st\<lparr>va_cas := map (encrypt_row f k) (zip (map nth_nonce [0..<length (va_cas st)]) (va_cas st)),
                     va_certs := map (encrypt_row f k)
                       (zip (map nth_nonce [length (va_cas st)..<length (va_cas st) + length (va_certs st)]) (va_certs st))\<rparr>)))"

definition has_encrypted_keys_in_db :: "vault \<Rightarrow> bool" where
  "has_encrypted_keys_in_db st = list_ex is_encrypted (keys_in (va_cas st @ va_certs st))"

subsection \<open>Routes\<close>

definition safe_mode :: "vault \<Rightarrow> bool" where
  "safe_mode st = (\<not> key_enabled st \<and> has_encrypted_keys_in_db st)"

definition get_encryption_status :: "vault \<Rightarrow> (bool \<times> string option \<times> bool \<times> nat \<times> nat) http" where
  "get_encryption_status st =
     (let ks = keys_in (va_cas st @ va_certs st)
      in success_response (key_enabled st, va_source st, va_file st \<noteq> None, length (filter is_encrypted ks),
           length (filter (Not \<circ> is_encrypted) ks)) [])"

definition log_vault :: "(audit_args \<Rightarrow> audit_log list \<Rightarrow> audit_log list) \<Rightarrow> string \<Rightarrow> string \<Rightarrow> string \<Rightarrow> vault \<Rightarrow> vault" where
  "log_vault lg act name text st =
     st\<lparr>va_logs := lg (audit_call act (Some ''system'') No_id (Txt name) (Txt text) True None) (va_logs st)\<rparr>"

definition enable_encryption ::
  "fernet \<Rightarrow> (audit_args \<Rightarrow> audit_log list \<Rightarrow> audit_log list) \<Rightarrow> string \<Rightarrow> nat list \<Rightarrow> vault \<Rightarrow> key_counts http \<times> vault" where
  "enable_encryption f lg new_key nonces st =
     (if key_enabled st then (error_response ''Encryption is already enabled'' 400, st)
      else
        (let st1 = reload_vault f (st\<lparr>va_file := Some (new_key @ [CHR 0x0A])\<rparr>) in
         if \<not> key_enabled st1 then (error_response ''Failed to initialize encryption after key generation'' 500, st1\<lparr>va_file := None\<rparr>)
         else
           (let (n, st2) = encrypt_all_keys f nonces False st1
            in (success_response n (''Encryption enabled. '' @ str_nat (kc_done n) @ '' keys encrypted.''),
                log_vault lg ''encryption_enabled'' ''Private Key Encryption''
                  (''Encryption enabled. Encrypted '' @ str_nat (kc_done n) @ '' keys, '' @ str_nat (kc_skipped n) @ '' already encrypted.'') st2))))"

definition disable_encryption ::
  "fernet \<Rightarrow> (audit_args \<Rightarrow> audit_log list \<Rightarrow> audit_log list) \<Rightarrow> vault \<Rightarrow> key_counts http \<times> vault" where
  "disable_encryption f lg st =
     (if \<not> key_enabled st then (error_response ''Encryption is not enabled'' 400, st)
      else
        (let (n, st1) = decrypt_all_keys f False st in
         if kc_errors n \<noteq> []
         then (error_response (''Failed to decrypt some keys: '' @ join_with '', '' (take 3 (kc_errors n)) @
                 ''. Encryption NOT disabled to prevent data loss.'') 500, st1)
         else
           (success_response n (''Encryption disabled. '' @ str_nat (kc_done n) @ '' keys decrypted.''),
            log_vault lg ''encryption_disabled'' ''Private Key Encryption''
              (''Encryption disabled. Decrypted '' @ str_nat (kc_done n) @ '' keys.'') (reload_vault f (st1\<lparr>va_file := None\<rparr>)))))"

definition encrypt_keys_route ::
  "fernet \<Rightarrow> (audit_args \<Rightarrow> audit_log list \<Rightarrow> audit_log list) \<Rightarrow> nat list \<Rightarrow> bool \<Rightarrow> vault \<Rightarrow> key_counts http \<times> vault" where
  "encrypt_keys_route f lg nonces dry_run st =
     (let (n, st1) = encrypt_all_keys f nonces dry_run st in
      if dry_run
      then (success_response n (''[DRY RUN] Would encrypt '' @ str_nat (kc_done n) @ '' keys, '' @ str_nat (kc_skipped n) @ '' already encrypted''), st1)
      else (success_response n (''Encrypted '' @ str_nat (kc_done n) @ '' keys, skipped '' @ str_nat (kc_skipped n) @ '' (already encrypted)''),
            log_vault lg ''system_encrypt'' ''Private Keys''
              (''Encrypted '' @ str_nat (kc_done n) @ '' private keys, skipped '' @ str_nat (kc_skipped n)) st1))"

datatype vault_op =
    Enable string "nat list"
  | Disable
  | Encrypt_all "nat list" bool
  | Restart

primrec vault_step :: "fernet \<Rightarrow> (audit_args \<Rightarrow> audit_log list \<Rightarrow> audit_log list) \<Rightarrow> vault \<Rightarrow> vault_op \<Rightarrow> vault" where
  "vault_step f lg st (Enable key nonces) = snd (enable_encryption f lg key nonces st)"
| "vault_step f lg st Disable = snd (disable_encryption f lg st)"
| "vault_step f lg st (Encrypt_all nonces dry) = snd (encrypt_keys_route f lg nonces dry st)"
| "vault_step f lg st Restart = reload_vault f st"

text \<open>A generated key is a key for Fernet and has no blanks around it.\<close>

primrec op_valid :: "fernet \<Rightarrow> vault_op \<Rightarrow> bool" where
  "op_valid f (Enable key nonces) = (key \<noteq> [] \<and> fe_valid f key \<and> strip (key @ [CHR 0x0A]) = key)"
| "op_valid f Disable = True"
| "op_valid f (Encrypt_all nonces dry) = True"
| "op_valid f Restart = True"

subsection \<open>Keys stay readable\<close>

text \<open>What a user of a key gets: the decrypted column, decoded.\<close>

definition reads :: "fernet \<Rightarrow> string option \<Rightarrow> string \<Rightarrow> string option" where
  "reads f k d = (case decrypt f k d of Inl _ \<Rightarrow> None | Inr p \<Rightarrow> b64decode p)"

definition row_view :: "fernet \<Rightarrow> string option \<Rightarrow> (string \<times> string option) list \<Rightarrow> (string \<times> string option option) list" where
  "row_view f k rows = map (\<lambda>(r, p). (r, map_option (reads f k) p)) rows"

definition contents :: "fernet \<Rightarrow> vault \<Rightarrow> (string \<times> string option option) list" where
  "contents f st = row_view f (va_fernet st) (va_cas st @ va_certs st)"

text \<open>Every stored key can be read, is no encrypted text itself, and the key in memory is the one a restart loads.\<close>

definition readable :: "fernet \<Rightarrow> string option \<Rightarrow> string \<Rightarrow> bool" where
  "readable f k d = (case reads f k d of None \<Rightarrow> False | Some t \<Rightarrow> \<not> startswith t ENCRYPTED_MARKER)"

definition vault_ok :: "fernet \<Rightarrow> vault \<Rightarrow> bool" where
  "vault_ok f st \<longleftrightarrow> list_all (readable f (va_fernet st)) (keys_in (va_cas st @ va_certs st)) \<and>
     va_fernet (reload_vault f st) = va_fernet st \<and> (case va_fernet st of None \<Rightarrow> True | Some k \<Rightarrow> fe_valid f k)"

definition fernet_ok :: "fernet \<Rightarrow> bool" where
  "fernet_ok f \<longleftrightarrow> (\<forall>k n x. fe_valid f k \<longrightarrow> fe_decrypt f k (fe_encrypt f k n x) = Some x)"

lemma reads_plain: "\<not> is_encrypted d \<Longrightarrow> reads f k d = b64decode d"
  by (auto simp: reads_def decrypt_def is_encrypted_def split: option.splits)

lemma b64decode_encode [simp]: "b64decode (b64encode s) = Some s"
  by (simp add: b64decode_def decode_encode)

lemma b64encode_Nil [simp]: "b64encode s = [] \<longleftrightarrow> s = []"
  by (cases s rule: b64encode.cases) (simp_all add: Let_def)

lemma marker_Nil [simp]: "ENCRYPTED_MARKER \<noteq> []"
  by (simp add: ENCRYPTED_MARKER_def)

lemma reads_encrypt:
  assumes "fernet_ok f" "fe_valid f key" "\<not> is_encrypted d"
  shows "reads f (Some key) (encrypt f (Some key) n d) = b64decode d"
proof (cases "d = [] \<or> b64decode d = None")
  case True
  then have "encrypt f (Some key) n d = d" by (auto simp: encrypt_def)
  then show ?thesis using reads_plain [OF assms(3)] by simp
next
  case False
  then obtain raw where raw: "b64decode d = Some raw" "d \<noteq> []" by auto
  then have "\<not> startswith raw ENCRYPTED_MARKER" using assms(3) by (simp add: is_encrypted_def)
  then show ?thesis
    using assms(1,2) raw by (simp add: encrypt_def reads_def decrypt_def fernet_ok_def)
qed

lemma reads_decrypt:
  assumes "readable f k d" "is_encrypted d" "decrypt f k d = Inr p"
  shows "reads f k' p = reads f k d" "\<not> is_encrypted p"
proof -
  obtain t where p: "p = b64encode t"
    using assms(2,3) by (auto simp: decrypt_def is_encrypted_def split: option.splits if_splits)
  have t: "reads f k d = Some t" using assms(3) p by (simp add: reads_def)
  then show "\<not> is_encrypted p" using assms(1) p by (simp add: readable_def is_encrypted_def)
  then show "reads f k' p = reads f k d" using t p by (simp add: reads_plain)
qed


lemma readable_plain: "readable f k d \<Longrightarrow> k = None \<Longrightarrow> \<not> is_encrypted d"
  by (auto simp: readable_def reads_def decrypt_def is_encrypted_def split: option.splits sum.splits if_splits)

lemma encrypt_view:
  assumes "fernet_ok f" "fe_valid f key" "length ns = length rows"
  shows "row_view f (Some key) (map (encrypt_row f (Some key)) (zip ns rows)) = row_view f (Some key) rows"
proof -
  have "map_option (reads f (Some key)) (snd (encrypt_row f (Some key) (n, r, p))) = map_option (reads f (Some key)) p" for n r p
    using reads_encrypt [OF assms(1,2)] reads_plain by (cases p) (simp_all add: encrypt_row_def)
  then have "row_view f (Some key) (map (encrypt_row f (Some key)) (zip ns rows)) = row_view f (Some key) (map snd (zip ns rows))"
    by (auto simp: encrypt_row_def row_view_def)
  then show ?thesis using assms(3) by simp
qed

lemma keys_in_Cons: "keys_in ((r, p) # rows) = (case p of None \<Rightarrow> keys_in rows | Some d \<Rightarrow> d # keys_in rows)"
  by (simp add: keys_in_def map_filter_def split: option.split)

lemma decrypt_errors_Cons:
  "decrypt_errors f k l ((r, p) # rows) =
     (case p of None \<Rightarrow> decrypt_errors f k l rows
      | Some d \<Rightarrow> if is_encrypted d then (case decrypt f k d of Inl err \<Rightarrow> (l @ r @ '': '' @ error_text err) # decrypt_errors f k l rows
                                        | Inr _ \<Rightarrow> decrypt_errors f k l rows)
                  else decrypt_errors f k l rows)"
  by (simp add: decrypt_errors_def map_filter_def split: option.split sum.split)

lemma readable_decrypts: "readable f k d \<Longrightarrow> \<exists>p. decrypt f k d = Inr p"
  by (auto simp: readable_def reads_def split: option.splits sum.splits)

lemma decrypt_row_reads:
  assumes "readable f k d"
  shows "map_option (reads f k') (snd (decrypt_row f k (r, Some d))) = Some (reads f k d)"
proof (cases "is_encrypted d")
  case True
  obtain p where "decrypt f k d = Inr p" using readable_decrypts [OF assms] by blast
  then show ?thesis using reads_decrypt [OF assms True] True by (simp add: decrypt_row_def)
next
  case False
  then show ?thesis by (simp add: decrypt_row_def reads_plain)
qed

lemma decrypt_view:
  assumes "list_all (readable f k) (keys_in rows)"
  shows "row_view f k' (map (decrypt_row f k) rows) = row_view f k rows"
  using assms
proof (induction rows)
  case (Cons row rows)
  obtain r p where row: "row = (r, p)" by (cases row)
  have "row_view f k' [decrypt_row f k row] = row_view f k [row]"
    using Cons.prems decrypt_row_reads [where f = f and k = k and k' = k' and r = r] row
    by (cases p) (simp_all add: row_view_def keys_in_Cons decrypt_row_def)
  moreover have "row_view f k' (map (decrypt_row f k) rows) = row_view f k rows"
    using Cons row by (cases p) (simp_all add: keys_in_Cons)
  ultimately show ?case by (simp add: row_view_def)
qed (simp add: row_view_def)

lemma decrypt_no_errors: "list_all (readable f k) (keys_in rows) \<Longrightarrow> decrypt_errors f k l rows = []"
proof (induction rows)
  case (Cons row rows)
  obtain r p where row: "row = (r, p)" by (cases row)
  show ?case
  proof (cases p)
    case (Some d)
    then have "readable f k d" using Cons.prems row by (simp add: keys_in_Cons)
    then obtain q where "decrypt f k d = Inr q" using readable_decrypts by blast
    then show ?thesis using Cons row Some by (simp add: decrypt_errors_Cons keys_in_Cons)
  qed (use Cons row in \<open>simp add: decrypt_errors_Cons keys_in_Cons\<close>)
qed (simp add: decrypt_errors_def map_filter_def)

lemma readable_None_reads: "readable f None d \<Longrightarrow> reads f k d = reads f None d"
  using readable_plain [of f None d] by (simp add: reads_plain)

lemma plain_view:
  assumes "list_all (readable f None) (keys_in rows)"
  shows "row_view f k rows = row_view f None rows"
  using assms
proof (induction rows)
  case (Cons row rows)
  obtain r p where row: "row = (r, p)" by (cases row)
  show ?case using Cons row readable_None_reads [of f _ k]
    by (cases p) (simp_all add: keys_in_Cons row_view_def)
qed (simp add: row_view_def)

lemma keys_in_append [simp]: "keys_in (xs @ ys) = keys_in xs @ keys_in ys"
  by (simp add: keys_in_def map_filter_def)

lemma row_view_append [simp]: "row_view f k (xs @ ys) = row_view f k xs @ row_view f k ys"
  by (simp add: row_view_def)

text \<open>Whether every key can be read is a matter of the contents alone.\<close>

lemma readable_contents:
  "list_all (readable f k) (keys_in rows) \<longleftrightarrow>
     list_all (\<lambda>(r, c). case c of None \<Rightarrow> True | Some x \<Rightarrow> (case x of None \<Rightarrow> False | Some t \<Rightarrow> \<not> startswith t ENCRYPTED_MARKER)) (row_view f k rows)"
proof (induction rows)
  case (Cons row rows)
  then show ?case by (cases row; cases "snd row") (simp_all add: keys_in_Cons row_view_def readable_def)
qed (simp_all add: keys_in_def map_filter_def row_view_def)

definition key_ok :: "fernet \<Rightarrow> vault \<Rightarrow> bool" where
  "key_ok f st \<longleftrightarrow> va_fernet (reload_vault f st) = va_fernet st \<and> (case va_fernet st of None \<Rightarrow> True | Some k \<Rightarrow> fe_valid f k)"

lemma vault_ok_step:
  assumes "vault_ok f st" "contents f st' = contents f st" "key_ok f st'"
  shows "vault_ok f st'"
  using assms unfolding vault_ok_def key_ok_def readable_contents contents_def by simp

lemma reload_fields [simp]:
  "va_cas (reload_vault f st) = va_cas st" "va_certs (reload_vault f st) = va_certs st" "va_file (reload_vault f st) = va_file st"
  "va_environ (reload_vault f st) = va_environ st"
  by (simp_all add: reload_vault_def Let_def split: prod.split)

lemma reload_cong: "va_file s = va_file t \<Longrightarrow> va_environ s = va_environ t \<Longrightarrow> va_fernet (reload_vault f s) = va_fernet (reload_vault f t)"
  by (simp add: reload_vault_def loaded_key_def file_key_def Let_def split: prod.split)

lemma reload_key_ok: "key_ok f (reload_vault f st)"
  by (auto simp: key_ok_def reload_vault_def loaded_key_def file_key_def Let_def split: prod.split option.splits if_splits)

lemma key_ok_cong:
  "key_ok f s \<Longrightarrow> va_file t = va_file s \<Longrightarrow> va_environ t = va_environ s \<Longrightarrow> va_fernet t = va_fernet s \<Longrightarrow> key_ok f t"
  using reload_cong [of t s f] by (simp add: key_ok_def)

lemma log_vault_vault [simp]:
  "va_cas (log_vault lg a n t st) = va_cas st" "va_certs (log_vault lg a n t st) = va_certs st" "va_file (log_vault lg a n t st) = va_file st"
  "va_environ (log_vault lg a n t st) = va_environ st" "va_fernet (log_vault lg a n t st) = va_fernet st"
  by (simp_all add: log_vault_def)

lemma encrypt_all_keys_fields [simp]:
  "va_file (snd (encrypt_all_keys f ns dry st)) = va_file st" "va_environ (snd (encrypt_all_keys f ns dry st)) = va_environ st"
  "va_fernet (snd (encrypt_all_keys f ns dry st)) = va_fernet st"
  by (simp_all add: encrypt_all_keys_def Let_def)

lemma encrypt_all_contents:
  assumes "fernet_ok f" "va_fernet st = Some k" "fe_valid f k"
  shows "contents f (snd (encrypt_all_keys f ns dry st)) = contents f st"
  using assms by (simp add: contents_def encrypt_all_keys_def key_enabled_def Let_def encrypt_view)

lemma enable_contents:
  assumes "fernet_ok f" "vault_ok f st" "op_valid f (Enable key ns)"
  shows "contents f (vault_step f lg st (Enable key ns)) = contents f st \<and> key_ok f (vault_step f lg st (Enable key ns))"
proof (cases "key_enabled st")
  case True
  then show ?thesis using assms(2) by (simp add: enable_encryption_def vault_ok_def key_ok_def)
next
  case False
  let ?s = "reload_vault f (st\<lparr>va_file := Some (key @ [CHR 0x0A])\<rparr>)"
  have key: "va_fernet ?s = Some key"
    using assms(3) by (simp add: reload_vault_def loaded_key_def file_key_def)
  have none: "va_fernet st = None" using False by (simp add: key_enabled_def)
  have plain: "contents f ?s = contents f st"
    using assms(2) none plain_view [of f _ "Some key"] key by (simp add: contents_def vault_ok_def)
  have step: "vault_step f lg st (Enable key ns) = log_vault lg ''encryption_enabled'' ''Private Key Encryption'' t (snd (encrypt_all_keys f ns False ?s))"
    if "t = ''Encryption enabled. Encrypted '' @ str_nat (kc_done (fst (encrypt_all_keys f ns False ?s))) @ '' keys, '' @
            str_nat (kc_skipped (fst (encrypt_all_keys f ns False ?s))) @ '' already encrypted.''" for t
    using False key that by (simp add: enable_encryption_def key_enabled_def Let_def split_beta)
  have "contents f (snd (encrypt_all_keys f ns False ?s)) = contents f ?s"
    using assms(1,3) key by (intro encrypt_all_contents [where k = key]) simp_all
  then show ?thesis
    unfolding step [OF refl] using plain key_ok_cong [OF reload_key_ok [of f "st\<lparr>va_file := Some (key @ [CHR 0x0A])\<rparr>"]] by (simp add: contents_def)
qed

lemma disable_contents:
  assumes "vault_ok f st"
  shows "contents f (vault_step f lg st Disable) = contents f st \<and> key_ok f (vault_step f lg st Disable)"
proof (cases "key_enabled st")
  case True
  let ?k = "va_fernet st"
  let ?d = "st\<lparr>va_cas := map (decrypt_row f ?k) (va_cas st), va_certs := map (decrypt_row f ?k) (va_certs st)\<rparr>"
  let ?r = "reload_vault f (?d\<lparr>va_file := None\<rparr>)"
  have readable: "list_all (readable f ?k) (keys_in (va_cas st))" "list_all (readable f ?k) (keys_in (va_certs st))"
    using assms by (simp_all add: vault_ok_def)
  obtain t where step: "vault_step f lg st Disable = log_vault lg ''encryption_disabled'' ''Private Key Encryption'' t ?r"
    using True readable by (simp add: disable_encryption_def decrypt_all_keys_def decrypt_no_errors Let_def)
  have "contents f ?r = contents f st"
    using readable by (simp add: contents_def decrypt_view)
  then show ?thesis
    unfolding step using key_ok_cong [OF reload_key_ok [of f "?d\<lparr>va_file := None\<rparr>"]] by (simp add: contents_def)
next
  case False
  then show ?thesis using assms by (simp add: disable_encryption_def vault_ok_def key_ok_def)
qed

lemma encrypt_route_contents:
  assumes "fernet_ok f" "vault_ok f st"
  shows "contents f (vault_step f lg st (Encrypt_all ns dry)) = contents f st \<and> key_ok f (vault_step f lg st (Encrypt_all ns dry))"
proof -
  let ?e = "snd (encrypt_all_keys f ns dry st)"
  have key: "key_ok f st" using assms(2) by (simp add: vault_ok_def key_ok_def)
  have "contents f ?e = contents f st"
  proof (cases "va_fernet st")
    case None
    then show ?thesis by (simp add: encrypt_all_keys_def key_enabled_def)
  next
    case (Some k)
    then show ?thesis using assms key by (intro encrypt_all_contents [where k = k]) (simp_all add: key_ok_def)
  qed
  moreover obtain t where "vault_step f lg st (Encrypt_all ns dry) = (if dry then ?e else log_vault lg ''system_encrypt'' ''Private Keys'' t ?e)"
    by (cases dry) (simp_all add: encrypt_keys_route_def Let_def split_beta)
  ultimately show ?thesis
    using key_ok_cong [OF key] key by (cases dry) (simp_all add: contents_def)
qed

lemma restart_contents:
  "vault_ok f st \<Longrightarrow> contents f (vault_step f lg st Restart) = contents f st \<and> key_ok f (vault_step f lg st Restart)"
  using reload_key_ok by (simp add: vault_ok_def contents_def)

lemma vault_step_keeps:
  assumes "fernet_ok f" "vault_ok f st" "op_valid f op"
  shows "contents f (vault_step f lg st op) = contents f st \<and> key_ok f (vault_step f lg st op)"
  using assms enable_contents disable_contents encrypt_route_contents restart_contents by (cases op) blast+

text \<open>C17. However an administrator enables and disables encryption, encrypts the remaining keys and restarts the service, in any order:
  every private key reads as the same key, and stays readable with the key a restart loads. This rests on Fernet decrypting what it
  encrypted, on a start in which every key is readable, and on no stored key beginning with the marker.\<close>

theorem keys_stay_readable:
  assumes "fernet_ok f" "vault_ok f st" "list_all (op_valid f) ops"
  shows "contents f (foldl (vault_step f lg) st ops) = contents f st \<and> vault_ok f (foldl (vault_step f lg) st ops)"
  using assms(2,3)
proof (induction ops arbitrary: st)
  case (Cons op ops)
  have step: "contents f (vault_step f lg st op) = contents f st" "key_ok f (vault_step f lg st op)"
    using vault_step_keeps [OF assms(1) Cons.prems(1)] Cons.prems(2) by simp_all
  then have "vault_ok f (vault_step f lg st op)" using vault_ok_step [OF Cons.prems(1)] by blast
  then show ?case using Cons step by simp
qed simp

definition demo_fernet :: fernet where
  "demo_fernet = \<lparr>fe_valid = (\<lambda>k. k \<noteq> []), fe_encrypt = (\<lambda>k n x. k @ CHR '':'' # x),
     fe_decrypt = (\<lambda>k t. if startswith t (k @ '':'') then Some (drop (length k + 1) t) else None)\<rparr>"

definition demo_vault :: vault where
  "demo_vault = \<lparr>va_file = None, va_environ = None, va_fernet = None, va_source = None,
     va_cas = [(''c1'', Some (b64encode ''RK'')), (''c2'', None)], va_certs = [(''x1'', Some (b64encode ''LK''))], va_logs = []\<rparr>"

theorem keys_stay_readable_witness:
  "contents demo_fernet (foldl (vault_step demo_fernet (\<lambda>_ ls. ls)) demo_vault [Enable ''K'' [], Restart, Encrypt_all [] False]) =
     [(''c1'', Some (Some ''RK'')), (''c2'', None), (''x1'', Some (Some ''LK''))] \<and>
   has_encrypted_keys_in_db (foldl (vault_step demo_fernet (\<lambda>_ ls. ls)) demo_vault [Enable ''K'' [], Restart, Encrypt_all [] False])"
proof -
  have ok: "fernet_ok demo_fernet" by (simp add: fernet_ok_def demo_fernet_def startswith_def)
  have "vault_ok demo_fernet demo_vault" "list_all (op_valid demo_fernet) [Enable ''K'' [], Restart, Encrypt_all [] False]"
    by code_simp+
  from keys_stay_readable [OF ok this, of "\<lambda>_ ls. ls"]
  have "contents demo_fernet (foldl (vault_step demo_fernet (\<lambda>_ ls. ls)) demo_vault [Enable ''K'' [], Restart, Encrypt_all [] False]) =
    contents demo_fernet demo_vault" by blast
  moreover have "contents demo_fernet demo_vault = [(''c1'', Some (Some ''RK'')), (''c2'', None), (''x1'', Some (Some ''LK''))]"
    by code_simp
  moreover have "has_encrypted_keys_in_db (foldl (vault_step demo_fernet (\<lambda>_ ls. ls)) demo_vault [Enable ''K'' [], Restart, Encrypt_all [] False])"
    by code_simp
  ultimately show ?thesis by simp
qed

end
