(* ===== verification/Cert_List.thy ===== *)
theory Cert_List
  imports Compliance Utilities "HOL-Library.Char_ord" "HOL-Library.List_Lexorder" "HOL-Library.Option_ord" "HOL-Library.Multiset"
begin

text \<open>
  The list of certificates and its statistics: \<^verbatim>\<open>list_certificates\<close> and \<^verbatim>\<open>get_certificate_stats\<close> of \<^verbatim>\<open>api/v2/certificates.py\<close>.

  The parts of SQL that the queries use are defined here: \<^verbatim>\<open>LIKE\<close> with an escape character, comparisons that are false on
  \<^verbatim>\<open>NULL\<close>, and \<^verbatim>\<open>ORDER BY\<close> as a stable sort of the rows in the order of their delivery, in which \<^verbatim>\<open>NULL\<close> comes first and texts are compared by character codes, as SQLite does.
\<close>

subsection \<open>SQL\<close>

text \<open>\<^verbatim>\<open>text LIKE pattern ESCAPE '\'\<close>; the escape character is 92.\<close>

fun sql_like :: "string \<Rightarrow> string \<Rightarrow> bool" where
  "sql_like [] t = (t = [])"
| "sql_like (c # p) t =
     (if c = CHR 0x5C
      then (case p of [] \<Rightarrow> False | d # q \<Rightarrow> (case t of [] \<Rightarrow> False | x # u \<Rightarrow> x = d \<and> sql_like q u))
      else if c = CHR ''%'' then sql_like p t \<or> (case t of [] \<Rightarrow> False | x # u \<Rightarrow> sql_like (c # p) u)
      else (case t of [] \<Rightarrow> False | x # u \<Rightarrow> (c = CHR ''_'' \<or> x = c) \<and> sql_like p u))"

text \<open>\<^verbatim>\<open>column.ilike(pattern, escape)\<close> compares in lower case; \<^verbatim>\<open>NULL\<close> matches nothing.\<close>

definition ilike_escaped :: "string option \<Rightarrow> string \<Rightarrow> bool" where
  "ilike_escaped v pattern = (case v of None \<Rightarrow> False | Some t \<Rightarrow> sql_like (lower pattern) (lower t))"

definition replace_by :: "char \<Rightarrow> string \<Rightarrow> string \<Rightarrow> string" where
  "replace_by c new s = concat (map (\<lambda>x. if x = c then new else [x]) s)"

text \<open>Rows with equal keys come in the order in which the rows are delivered. SQL leaves that order open, so a property of a list holds for the
  rows in any order; every order that \<^verbatim>\<open>ORDER BY\<close> allows is the result for some order of delivery.\<close>

definition order_by :: "bool \<Rightarrow> ('r \<Rightarrow> 'k :: linorder) \<Rightarrow> 'r list \<Rightarrow> 'r list" where
  "order_by desc key rows = (if desc then rev (sort_key key (rev rows)) else sort_key key rows)"

definition no_later :: "time option \<Rightarrow> time \<Rightarrow> bool" where
  "no_later v t = (case v of None \<Rightarrow> False | Some x \<Rightarrow> x \<le> t)"

definition later :: "time option \<Rightarrow> time \<Rightarrow> bool" where
  "later v t = (case v of None \<Rightarrow> False | Some x \<Rightarrow> x > t)"

subsection \<open>The list\<close>

record list_row = scored_row +
  ct_subject_cn :: "string option"
  ct_created_at :: "time option"

record list_args =
  la_page :: int
  la_per_page :: int
  la_status :: "string option"
  la_ca_id :: "int option"
  la_search :: string
  la_sort_by :: string
  la_sort_order :: string

definition status_filter :: "time \<Rightarrow> string option \<Rightarrow> list_row \<Rightarrow> bool" where
  "status_filter now status c =
     (if status = Some ''revoked'' then ct_revoked c
      else if status = Some ''valid'' then \<not> ct_revoked c \<and> later (ct_valid_to c) now
      else if status = Some ''expired'' then no_later (ct_valid_to c) now
      else if status = Some ''expiring''
      then no_later (ct_valid_to c) (now + days 30) \<and> later (ct_valid_to c) now \<and> \<not> ct_revoked c
      else True)"

definition safe_search :: "string \<Rightarrow> string" where
  "safe_search s =
     replace_by (CHR ''_'') [CHR 0x5C, CHR ''_''] (replace_by (CHR ''%'') [CHR 0x5C, CHR ''%''] (replace_by (CHR 0x5C) [CHR 0x5C, CHR 0x5C] s))"

definition search_filter :: "string \<Rightarrow> list_row \<Rightarrow> bool" where
  "search_filter s c =
     (let pattern = ''%'' @ safe_search (strip s) @ ''%''
      in strip s = [] \<or> ilike_escaped (ct_subject c) pattern \<or> ilike_escaped (ct_issuer c) pattern \<or> ilike_escaped (Some (ct_descr c)) pattern \<or>
         ilike_escaped (ct_serial_number c) pattern)"

definition cn_sort :: "list_row \<Rightarrow> string" where
  "cn_sort c = (case ct_subject_cn c of None \<Rightarrow> ct_descr c | Some cn \<Rightarrow> cn)"

definition status_order :: "time \<Rightarrow> list_row \<Rightarrow> nat" where
  "status_order now c =
     (if ct_revoked c then 1 else if no_later (ct_valid_to c) now then 2 else if no_later (ct_valid_to c) (now + days 30) then 3 else 4)"

definition compliance_order :: "time \<Rightarrow> list_row \<Rightarrow> nat" where
  "compliance_order now c =
     (let is_like = (\<lambda>p. ilike (ct_key_algo c) (''%'' @ p @ ''%''))
      in (if is_like ''4096'' \<or> is_like ''EC'' \<or> is_like ''P-256'' \<or> is_like ''P-384'' \<or> is_like ''Ed25519'' then 30
          else if is_like ''2048'' then 20 else if is_like ''1024'' then 5 else 15) +
         (if ct_revoked c \<or> no_later (ct_valid_to c) now then 0 else if no_later (ct_valid_to c) (now + days 30) then 15 else 25))"

definition sort_rows :: "time \<Rightarrow> string \<Rightarrow> bool \<Rightarrow> list_row list \<Rightarrow> list_row list" where
  "sort_rows now by desc rows =
     (if by = ''status'' then order_by desc (status_order now) (order_by False ct_subject rows)
      else if by = ''compliance_grade'' then order_by desc (compliance_order now) (order_by False cn_sort rows)
      else if by = ''subject'' \<or> by = ''subject_cn'' then order_by desc cn_sort rows
      else if by = ''issuer'' then order_by desc ct_issuer rows
      else if by = ''valid_to'' then order_by desc ct_valid_to rows
      else if by = ''valid_from'' then order_by desc ct_valid_from rows
      else if by = ''created_at'' then order_by desc ct_created_at rows
      else if by = ''serial_number'' then order_by desc ct_serial_number rows
      else if by = ''revoked'' then order_by desc ct_revoked rows
      else if by = ''descr'' then order_by desc ct_descr rows
      else if by = ''key_algo'' then order_by desc ct_key_algo rows
      else order_by desc ct_subject rows)"

record cert_list =
  li_items :: "(cert_dict \<times> int \<times> string) list"
  li_total :: nat
  li_page :: int
  li_per_page :: int

text \<open>The table has no column \<^verbatim>\<open>ca_id\<close>, so a filter by CA raises.\<close>

definition list_certificates :: "cert_lib \<Rightarrow> time \<Rightarrow> list_args \<Rightarrow> list_row list \<Rightarrow> cert_list http" where
  "list_certificates l now a rows =
     (if la_ca_id a \<noteq> None \<and> la_ca_id a \<noteq> Some 0 then Raised ''InvalidRequestError''
      else
        (let page = max 1 (la_page a); per_page = min (max 1 (la_per_page a)) 100;
             found = filter (\<lambda>c. status_filter now (la_status a) c \<and> search_filter (la_search a) c) rows;
             sorted_rows = sort_rows now (la_sort_by a) (la_sort_order a = ''desc'') found;
             items = take (nat per_page) (drop (nat ((page - 1) * per_page)) sorted_rows)
         in success_response
              \<lparr>li_items = map (\<lambda>c. let d = to_dict l now (scored_row.truncate c); r = calculate_compliance_score d
                                    in (d, co_score r, co_grade r)) items,
               li_total = length found, li_page = page, li_per_page = per_page\<rparr> []))"

subsection \<open>Statistics\<close>

record cert_stats =
  st_total :: nat
  st_valid :: int
  st_expiring :: nat
  st_expired :: nat
  st_revoked :: nat

definition get_certificate_stats :: "time \<Rightarrow> list_row list \<Rightarrow> cert_stats http" where
  "get_certificate_stats now rows =
     (let count = (\<lambda>P. length (filter P rows));
          expiring = count (\<lambda>c. no_later (ct_valid_to c) (now + days 30) \<and> later (ct_valid_to c) now \<and> \<not> ct_revoked c)
      in success_response
           \<lparr>st_total = length rows,
            st_valid = int (count (\<lambda>c. later (ct_valid_to c) now \<and> \<not> ct_revoked c)) - int expiring,
            st_expiring = expiring, st_expired = count (\<lambda>c. no_later (ct_valid_to c) now \<and> \<not> ct_revoked c),
            st_revoked = count ct_revoked\<rparr> [])"

subsection \<open>Searching\<close>

lemma lower_Cons [simp]: "lower (c # s) = lower_char c # lower s" "lower [] = []"
  by (simp_all add: lower_def)

definition special :: "char \<Rightarrow> bool" where
  "special c = (c \<in> {CHR 0x5C, CHR ''%'', CHR ''_''})"

lemma safe_search_Cons:
  "safe_search (c # s) = (if special c then [CHR 0x5C, c] else [c]) @ safe_search s"
  by (auto simp: safe_search_def replace_by_def special_def)

text \<open>No letter is lowered to a character with a meaning in patterns, nor are these changed.\<close>

lemma of_lower_char: "(of_char (lower_char c) :: nat) = (let n = of_char c in if 65 \<le> n \<and> n \<le> 90 then n + 32 else n)"
  by (simp add: lower_char_def Let_def)

lemma special_code: "special c \<longleftrightarrow> (of_char c :: nat) \<in> {92, 37, 95}"
proof -
  have "c = d \<longleftrightarrow> (of_char c :: nat) = of_char d" for d by simp
  from this [of "CHR 0x5C"] this [of "CHR ''%''"] this [of "CHR ''_''"]
  show ?thesis by (simp add: special_def)
qed

lemma lower_special: "special (lower_char c) = special c"
  by (auto simp: special_code of_lower_char Let_def)

lemma special_lower: "special c \<Longrightarrow> lower_char c = c"
  by (auto simp: special_code lower_char_def Let_def)

lemma safe_search_Nil: "safe_search [] = []"
  by (simp add: safe_search_def replace_by_def)

lemma like_special: "special c \<Longrightarrow> sql_like (CHR 0x5C # c # p) t = (case t of [] \<Rightarrow> False | x # u \<Rightarrow> x = c \<and> sql_like p u)"
  by (simp split: list.split)

lemma like_plain: "\<not> special c \<Longrightarrow> sql_like (c # p) t = (case t of [] \<Rightarrow> False | x # u \<Rightarrow> x = c \<and> sql_like p u)"
  by (simp add: special_def split: list.split)

lemma like_rest: "sql_like ''%'' t"
  by (induction t) simp_all

lemma like_prefix: "sql_like (lower (safe_search s) @ ''%'') t = startswith t (lower s)"
proof (induction s arbitrary: t)
  case Nil
  show ?case using like_rest by (simp add: safe_search_Nil startswith_def)
next
  case (Cons c s)
  have esc: "lower_char (CHR 0x5C) = CHR 0x5C" by (simp add: special_lower special_def)
  have "sql_like (lower (safe_search (c # s)) @ ''%'') t =
    (case t of [] \<Rightarrow> False | x # u \<Rightarrow> x = lower_char c \<and> sql_like (lower (safe_search s) @ ''%'') u)"
  proof (cases "special c")
    case True
    then show ?thesis using like_special [of "lower_char c"] by (simp add: safe_search_Cons esc lower_special del: sql_like.simps)
  next
    case False
    then show ?thesis using like_plain [of "lower_char c"] by (simp add: safe_search_Cons lower_special del: sql_like.simps)
  qed
  then show ?case using Cons.IH by (cases t) (simp_all add: startswith_def)
qed

lemma escaped_contains: "sql_like (lower (''%'' @ safe_search s @ ''%'')) t = contains (lower s) t"
proof -
  have pc: "lower_char (CHR ''%'') = CHR ''%''" by (simp add: special_lower special_def)
  have step: "sql_like (CHR ''%'' # p) t = (sql_like p t \<or> (case t of [] \<Rightarrow> False | x # u \<Rightarrow> sql_like (CHR ''%'' # p) u))" for p t
    by simp
  have "sql_like (CHR ''%'' # lower (safe_search s) @ ''%'') t = contains (lower s) t"
  proof (induction t)
    case Nil
    show ?case by (subst step) (auto simp add: like_prefix startswith_def simp del: sql_like.simps)
  next
    case (Cons x t)
    show ?case by (subst step) (simp add: like_prefix Cons.IH del: sql_like.simps)
  qed
  then show ?thesis by (simp add: pc lower_def del: sql_like.simps)
qed

lemma ilike_contains: "ilike_escaped v (''%'' @ safe_search s @ ''%'') = (case v of None \<Rightarrow> False | Some t \<Rightarrow> contains (lower s) (lower t))"
  using escaped_contains by (simp add: ilike_escaped_def split: option.split)

subsection \<open>What the pages hold\<close>

text \<open>The reference: the rows in which one of the texts has the search text as a part, whatever the case of letters.\<close>

definition row_texts :: "list_row \<Rightarrow> string list" where
  "row_texts c = List.map_filter id [ct_subject c, ct_issuer c, Some (ct_descr c), ct_serial_number c]"

definition list_wanted :: "time \<Rightarrow> list_args \<Rightarrow> list_row \<Rightarrow> bool" where
  "list_wanted now a c = (status_filter now (la_status a) c \<and> list_ex (\<lambda>t. contains (lower (strip (la_search a))) (lower t)) (row_texts c))"

definition list_entry :: "cert_lib \<Rightarrow> time \<Rightarrow> list_row \<Rightarrow> cert_dict \<times> int \<times> string" where
  "list_entry l now c = (let d = to_dict l now (scored_row.truncate c); r = calculate_compliance_score d in (d, co_score r, co_grade r))"

definition list_page :: "cert_lib \<Rightarrow> time \<Rightarrow> list_args \<Rightarrow> list_row list \<Rightarrow> nat \<Rightarrow> (cert_dict \<times> int \<times> string) list" where
  "list_page l now a rows k =
     (case list_certificates l now (a\<lparr>la_page := int k + 1\<rparr>) rows of Success d _ _ \<Rightarrow> li_items d | _ \<Rightarrow> [])"

lemma contains_Nil [simp]: "contains [] t"
  by (cases t) (simp_all add: startswith_def)

lemma search_wanted: "search_filter s c = list_ex (\<lambda>t. contains (lower (strip s)) (lower t)) (row_texts c)"
proof -
  have "list_ex P (row_texts c) \<longleftrightarrow>
    (case ct_subject c of None \<Rightarrow> False | Some t \<Rightarrow> P t) \<or> (case ct_issuer c of None \<Rightarrow> False | Some t \<Rightarrow> P t) \<or> P (ct_descr c) \<or>
    (case ct_serial_number c of None \<Rightarrow> False | Some t \<Rightarrow> P t)" for P
    by (simp add: row_texts_def map_filter_def split: option.split)
  moreover have "P \<or> Q" if "strip s = []" "Q = contains (lower (strip s)) t" for P Q t using that by simp
  ultimately show ?thesis
    unfolding search_filter_def Let_def ilike_contains by (cases "strip s = []") simp_all
qed

lemma found_wanted: "(status_filter now (la_status a) c \<and> search_filter (la_search a) c) = list_wanted now a c"
  by (simp add: list_wanted_def search_wanted)

lemma mset_order_by [simp]: "mset (order_by desc key rows) = mset rows"
  by (simp add: order_by_def)

lemma mset_sort_rows [simp]: "mset (sort_rows now by desc rows) = mset rows"
  by (simp add: sort_rows_def)

lemma list_page_slice:
  assumes "la_ca_id a = None"
  shows "list_page l now a rows k =
    (let n = nat (min (max 1 (la_per_page a)) 100)
     in map (list_entry l now) (take n (drop (k * n) (sort_rows now (la_sort_by a) (la_sort_order a = ''desc'') (filter (list_wanted now a) rows)))))"
proof -
  have w: "list_wanted now (a\<lparr>la_page := p\<rparr>) = list_wanted now a" for p by (simp add: list_wanted_def fun_eq_iff)
  show ?thesis
    using assms by (simp add: list_page_def list_certificates_def success_response_def found_wanted [where a = "a\<lparr>la_page := _\<rparr>", simplified]
      found_wanted w list_entry_def Let_def nat_mult_distrib)
qed

text \<open>Rows that are equal in all columns a list is ordered by. The order of such rows is open; without them the order of the rows that a query
  delivers does not matter.\<close>

definition tied :: "time \<Rightarrow> string \<Rightarrow> list_row \<Rightarrow> list_row \<Rightarrow> bool" where
  "tied now by c d =
     (if by = ''status'' then status_order now c = status_order now d \<and> ct_subject c = ct_subject d
      else if by = ''compliance_grade'' then compliance_order now c = compliance_order now d \<and> cn_sort c = cn_sort d
      else if by = ''subject'' \<or> by = ''subject_cn'' then cn_sort c = cn_sort d
      else if by = ''issuer'' then ct_issuer c = ct_issuer d
      else if by = ''valid_to'' then ct_valid_to c = ct_valid_to d
      else if by = ''valid_from'' then ct_valid_from c = ct_valid_from d
      else if by = ''created_at'' then ct_created_at c = ct_created_at d
      else if by = ''serial_number'' then ct_serial_number c = ct_serial_number d
      else if by = ''revoked'' then ct_revoked c = ct_revoked d
      else if by = ''descr'' then ct_descr c = ct_descr d
      else if by = ''key_algo'' then ct_key_algo c = ct_key_algo d
      else ct_subject c = ct_subject d)"

definition no_ties :: "time \<Rightarrow> list_args \<Rightarrow> list_row list \<Rightarrow> bool" where
  "no_ties now a rows \<longleftrightarrow>
     (\<forall>c \<in> set rows. \<forall>d \<in> set rows. list_wanted now a c \<and> list_wanted now a d \<and> tied now (la_sort_by a) c d \<longrightarrow> c = d)"

lemma sort_key_unique:
  assumes "mset xs = mset ys" "inj_on key (set xs)"
  shows "sort_key key xs = sort_key key ys"
  using assms by (intro sort_key_inj_key_eq) simp_all

lemma order_by_unique:
  assumes "mset xs = mset ys" "\<And>c d. c \<in> set xs \<Longrightarrow> d \<in> set xs \<Longrightarrow> key c = key d \<Longrightarrow> c = d"
  shows "order_by desc key xs = order_by desc key ys"
  using assms sort_key_unique [of xs ys key] sort_key_unique [of "rev xs" "rev ys" key] by (simp add: order_by_def inj_on_def)

lemma sort_key_classes:
  assumes "mset xs = mset ys" "\<And>k. filter (\<lambda>x. key x = k) xs = filter (\<lambda>x. key x = k) ys"
  shows "sort_key key xs = sort_key key ys"
proof (rule properties_for_sort_key)
  fix k
  show "filter (\<lambda>x. key k = key x) (sort_key key ys) = filter (\<lambda>x. key k = key x) xs"
    using sort_key_stable [of key "key k" ys] assms(2) [of "key k"] by (simp add: eq_commute)
qed (simp_all add: assms(1))

lemma order_by_two:
  assumes perm: "mset xs = mset ys"
    and keys: "\<And>c d. c \<in> set xs \<Longrightarrow> d \<in> set xs \<Longrightarrow> key1 c = key1 d \<Longrightarrow> key2 c = key2 d \<Longrightarrow> c = d"
  shows "order_by desc key1 (order_by False key2 xs) = order_by desc key1 (order_by False key2 ys)"
proof -
  have same: "filter (\<lambda>x. key1 x = k) (sort_key key2 xs) = filter (\<lambda>x. key1 x = k) (sort_key key2 ys)" for k
    unfolding filter_sort using perm keys by (intro sort_key_unique) (auto simp: inj_on_def)
  have "filter (\<lambda>x. key1 x = k) (rev (sort_key key2 xs)) = filter (\<lambda>x. key1 x = k) (rev (sort_key key2 ys))" for k
    using same [of k] by (simp flip: rev_filter)
  then show ?thesis
    using same perm sort_key_classes [of "sort_key key2 xs" "sort_key key2 ys" key1]
      sort_key_classes [of "rev (sort_key key2 xs)" "rev (sort_key key2 ys)" key1]
    by (simp add: order_by_def)
qed

lemma sort_rows_unique:
  assumes "mset xs = mset ys" "\<And>c d. c \<in> set xs \<Longrightarrow> d \<in> set xs \<Longrightarrow> tied now by c d \<Longrightarrow> c = d"
  shows "sort_rows now by desc xs = sort_rows now by desc ys"
  unfolding sort_rows_def
  by (intro if_cong refl order_by_unique order_by_two) (use assms in \<open>auto simp: tied_def\<close>)

lemma length_pages:
  assumes "0 < n" "length xs \<le> m * n"
  shows "(\<Sum>k<m. length (take n (drop (k * n) xs))) = length xs"
proof -
  have "length (concat (map (\<lambda>k. take n (drop (k * n) xs)) [0..<m])) = length xs" using assms(2) by (simp add: concat_pages)
  then show ?thesis by (simp add: length_concat comp_def interv_sum_list_conv_sum_set_nat atLeast0LessThan)
qed

text \<open>The rows a page is cut out of: those that are wanted, sorted from the order \<open>scan k\<close> in which the database delivers the rows to the query of
  page \<open>k\<close>.\<close>

definition page_size :: "list_args \<Rightarrow> nat" where
  "page_size a = nat (min (max 1 (la_per_page a)) 100)"

definition page_rows :: "time \<Rightarrow> list_args \<Rightarrow> list_row list \<Rightarrow> list_row list" where
  "page_rows now a rows = sort_rows now (la_sort_by a) (la_sort_order a = ''desc'') (filter (list_wanted now a) rows)"

lemma page_size_bounds: "0 < page_size a" "page_size a \<le> 100"
  by (simp_all add: page_size_def)

lemma list_page_rows:
  "la_ca_id a = None \<Longrightarrow> list_page l now a rows k = map (list_entry l now) (take (page_size a) (drop (k * page_size a) (page_rows now a rows)))"
  using list_page_slice by (simp add: page_size_def page_rows_def Let_def)

lemma page_rows_perm:
  assumes "mset xs = mset rows"
  shows "mset (page_rows now a xs) = mset (filter (list_wanted now a) rows)" "length (page_rows now a xs) = length (filter (list_wanted now a) rows)"
proof -
  show m: "mset (page_rows now a xs) = mset (filter (list_wanted now a) rows)" by (simp add: page_rows_def assms)
  then show "length (page_rows now a xs) = length (filter (list_wanted now a) rows)" by (metis size_mset)
qed

lemma wanted_fit: "length (filter (list_wanted now a) rows) \<le> length rows * page_size a"
proof -
  have "length (filter (list_wanted now a) rows) \<le> length rows * 1" by simp
  also have "\<dots> \<le> length rows * page_size a" using page_size_bounds(1) [of a] by (intro mult_le_mono2) simp
  finally show ?thesis .
qed

lemma page_rows_same:
  assumes "\<And>k. mset (scan k) = mset rows" "no_ties now a rows \<or> (\<forall>k. scan k = scan 0)"
  shows "page_rows now a (scan k) = page_rows now a (scan 0)"
  using assms(2)
proof
  assume "no_ties now a rows"
  moreover have "set (scan k) = set rows" for k using assms(1) mset_eq_setD by blast
  ultimately show ?thesis unfolding page_rows_def by (intro sort_rows_unique) (simp_all add: assms(1) no_ties_def)
next
  assume "\<forall>k. scan k = scan 0"
  then have "scan k = scan 0" by blast
  then show ?thesis by simp
qed

lemma part_of_page: "mset (take n (drop m xs)) \<subseteq># mset xs"
  by (metis append_take_drop_id mset_append mset_subset_eq_add_left mset_subset_eq_add_right subset_mset.order_trans)

text \<open>C34. Every page of the list of certificates, which is a query of its own over the unchanged table, holds only certificates that have the
  status asked for and that have the search text in their subject, issuer, description or serial number, whatever the case of letters (characters
  with a meaning in SQL patterns are found as themselves), none twice, and at most a hundred. All pages together have as many entries as there are
  such certificates. They hold each of them exactly once provided that no two of them agree in the columns the list is ordered by, or that the
  database delivers ties in the same order to every query. SQL promises neither, as the query names no last column to decide ties: \<open>scan k\<close> is the
  order in which the rows come to the query of page \<open>k\<close>.\<close>

theorem list_pages_complete:
  assumes "la_ca_id a = None" "\<And>k. mset (scan k) = mset rows"
  shows "mset (list_page l now a (scan k) k) \<subseteq># image_mset (list_entry l now) (mset (filter (list_wanted now a) rows)) \<and>
    length (list_page l now a (scan k) k) \<le> 100 \<and>
    length (concat (map (\<lambda>k. list_page l now a (scan k) k) [0..<length rows])) = length (filter (list_wanted now a) rows) \<and>
    (no_ties now a rows \<or> (\<forall>k. scan k = scan 0) \<longrightarrow>
      mset (concat (map (\<lambda>k. list_page l now a (scan k) k) [0..<length rows])) = image_mset (list_entry l now) (mset (filter (list_wanted now a) rows)))"
proof (intro conjI impI)
  note page = list_page_rows [OF assms(1)] and perm = page_rows_perm [OF assms(2)]
  show "mset (list_page l now a (scan k) k) \<subseteq># image_mset (list_entry l now) (mset (filter (list_wanted now a) rows))"
    unfolding page mset_map perm(1) [of now a k, symmetric] by (intro image_mset_subseteq_mono part_of_page)
  show "length (list_page l now a (scan k) k) \<le> 100" using page_size_bounds(2) [of a] by (simp add: page)
  have "length (concat (map (\<lambda>k. list_page l now a (scan k) k) [0..<length rows])) =
      (\<Sum>k<length rows. length (take (page_size a) (drop (k * page_size a) (page_rows now a (scan 0)))))"
    by (simp add: length_concat comp_def interv_sum_list_conv_sum_set_nat atLeast0LessThan page perm(2))
  also have "\<dots> = length (page_rows now a (scan 0))" using page_size_bounds(1) wanted_fit perm(2) by (intro length_pages) simp_all
  finally show "length (concat (map (\<lambda>k. list_page l now a (scan k) k) [0..<length rows])) = length (filter (list_wanted now a) rows)"
    by (simp only: perm(2))
  assume fixed: "no_ties now a rows \<or> (\<forall>k. scan k = scan 0)"
  have "page_rows now a (scan k) = page_rows now a (scan 0)" for k by (rule page_rows_same [of scan rows, OF assms(2) fixed])
  then have "list_page l now a (scan k) k = map (list_entry l now) (take (page_size a) (drop (k * page_size a) (page_rows now a (scan 0))))" for k
    by (metis page)
  then have "concat (map (\<lambda>k. list_page l now a (scan k) k) [0..<length rows]) =
      map (list_entry l now) (concat (map (\<lambda>k. take (page_size a) (drop (k * page_size a) (page_rows now a (scan 0)))) [0..<length rows]))"
    by (simp add: map_concat comp_def)
  also have "\<dots> = map (list_entry l now) (page_rows now a (scan 0))" using wanted_fit by (simp add: concat_pages perm(2))
  finally show "mset (concat (map (\<lambda>k. list_page l now a (scan k) k) [0..<length rows])) =
      image_mset (list_entry l now) (mset (filter (list_wanted now a) rows))" by (simp add: perm(1))
qed

definition demo_list_row :: "int \<Rightarrow> string \<Rightarrow> list_row" where
  "demo_list_row i d = \<lparr>ct_id = i, ct_refid = d, ct_descr = d, ct_subject = None, ct_issuer = None, ct_caref = None,
     ct_crt = None, ct_prv = None, ct_valid_from = None, ct_valid_to = Some 5, ct_serial_number = None,
     ct_revoked = False, ct_revoked_at = None, ct_revoke_reason = None, ct_csr = None, ct_cert_type = None,
     ct_key_algo = None, ct_san_dns = None, ct_san_ip = None, ct_san_email = None, ct_subject_cn = None, ct_created_at = None\<rparr>"

definition demo_list_args :: list_args where
  "demo_list_args = \<lparr>la_page = 1, la_per_page = 0, la_status = Some ''valid'', la_ca_id = None, la_search = ''A_b'', la_sort_by = [], la_sort_order = []\<rparr>"

text \<open>The underscore finds the certificate that has one and not the other, in whatever order the rows come to the queries.\<close>

theorem list_pages_complete_witness:
  "mset (concat (map (\<lambda>k. list_page demo_cert_lib 0 demo_list_args ((if even k then id else rev) [demo_list_row 1 ''axB'', demo_list_row 2 ''a_B'']) k) [0..<2])) =
   {#list_entry demo_cert_lib 0 (demo_list_row 2 ''a_B'')#}"
proof -
  let ?rows = "[demo_list_row 1 ''axB'', demo_list_row 2 ''a_B'']"
  have "la_ca_id demo_list_args = None" by (simp add: demo_list_args_def)
  moreover have "mset ((if even k then id else rev) ?rows) = mset ?rows" for k :: nat by simp
  ultimately have "no_ties 0 demo_list_args ?rows \<longrightarrow>
      mset (concat (map (\<lambda>k. list_page demo_cert_lib 0 demo_list_args ((if even k then id else rev) ?rows) k) [0..<length ?rows])) =
      image_mset (list_entry demo_cert_lib 0) (mset (filter (list_wanted 0 demo_list_args) ?rows))"
    using list_pages_complete [of demo_list_args "\<lambda>k. (if even k then id else rev) ?rows" ?rows demo_cert_lib 0 0] by blast
  moreover have f: "filter (list_wanted 0 demo_list_args) ?rows = [demo_list_row 2 ''a_B'']"
  proof -
    have "\<not> list_wanted 0 demo_list_args (demo_list_row 1 ''axB'')" "list_wanted 0 demo_list_args (demo_list_row 2 ''a_B'')" by code_simp+
    then show ?thesis by simp
  qed
  moreover have "no_ties 0 demo_list_args ?rows"
  proof -
    have "c = demo_list_row 2 ''a_B''" if "c \<in> set ?rows" "list_wanted 0 demo_list_args c" for c
    proof -
      have "c \<in> set (filter (list_wanted 0 demo_list_args) ?rows)" using that by (simp only: set_filter mem_Collect_eq simp_thms)
      then show ?thesis unfolding f by simp
    qed
    then show ?thesis unfolding no_ties_def by blast
  qed
  ultimately have "mset (concat (map (\<lambda>k. list_page demo_cert_lib 0 demo_list_args ((if even k then id else rev) ?rows) k) [0..<length ?rows])) =
      image_mset (list_entry demo_cert_lib 0) (mset [demo_list_row 2 ''a_B''])" by (simp only: f)
  then show ?thesis by (simp add: numeral_2_eq_2)
qed

text \<open>With ties, a certificate can be on two pages and another on none.\<close>

lemma ties_repeat:
  "concat (map (\<lambda>k. list_page demo_cert_lib 0 (demo_list_args\<lparr>la_search := []\<rparr>)
     ((if even k then id else rev) [demo_list_row 1 ''a'', demo_list_row 2 ''b'']) k) [0..<2]) =
   [list_entry demo_cert_lib 0 (demo_list_row 1 ''a''), list_entry demo_cert_lib 0 (demo_list_row 1 ''a'')]"
proof -
  let ?a = "demo_list_args\<lparr>la_search := []\<rparr>" and ?r = "[demo_list_row 1 ''a'', demo_list_row 2 ''b'']"
  have "la_ca_id ?a = None" "nat (min (max 1 (la_per_page ?a)) 100) = 1" by (simp_all add: demo_list_args_def)
  note slice = list_page_slice [OF this(1), of demo_cert_lib 0, unfolded this(2) Let_def]
  have "sort_rows 0 (la_sort_by ?a) (la_sort_order ?a = ''desc'') (filter (list_wanted 0 ?a) ?r) = ?r"
    "sort_rows 0 (la_sort_by ?a) (la_sort_order ?a = ''desc'') (filter (list_wanted 0 ?a) (rev ?r)) = rev ?r" by code_simp+
  then show ?thesis by (simp add: slice numeral_2_eq_2)
qed

subsection \<open>Statistics and lists\<close>

definition count_status :: "time \<Rightarrow> string \<Rightarrow> list_row list \<Rightarrow> int" where
  "count_status now status rows = int (length (filter (status_filter now (Some status)) rows))"

lemma count_split: "length (filter P xs) = length (filter (\<lambda>x. P x \<and> Q x) xs) + length (filter (\<lambda>x. P x \<and> \<not> Q x) xs)"
  by (induction xs) auto

text \<open>The numbers on the overview agree with the lists: as many revoked and expiring certificates as the lists of these have, the
  list of valid certificates has the valid and the expiring ones, the list of expired ones has those and the expired ones that are revoked. Each
  certificate with an end date is counted once, so the numbers add up.\<close>

theorem stats_match_lists:
  "\<exists>s. get_certificate_stats now rows = success_response s [] \<and>
     int (st_revoked s) = count_status now ''revoked'' rows \<and> int (st_expiring s) = count_status now ''expiring'' rows \<and>
     st_valid s + int (st_expiring s) = count_status now ''valid'' rows \<and> 0 \<le> st_valid s \<and>
     int (st_expired s) + int (length (filter (\<lambda>c. ct_revoked c \<and> no_later (ct_valid_to c) now) rows)) = count_status now ''expired'' rows \<and>
     int (st_total s) = st_valid s + int (st_expiring s) + int (st_expired s) + int (st_revoked s) +
       int (length (filter (\<lambda>c. \<not> ct_revoked c \<and> ct_valid_to c = None) rows))"
proof -
  define count where "count P = length (filter P rows)" for P
  let ?live = "\<lambda>c. later (ct_valid_to c) now \<and> \<not> ct_revoked c"
  let ?soon = "\<lambda>c. no_later (ct_valid_to c) (now + days 30)"
  let ?over = "\<lambda>c. no_later (ct_valid_to c) now"
  have filters: "status_filter now (Some ''revoked'') = ct_revoked" "status_filter now (Some ''valid'') = ?live"
    "status_filter now (Some ''expired'') = ?over" "status_filter now (Some ''expiring'') = (\<lambda>c. ?live c \<and> ?soon c)"
    by (auto simp: status_filter_def fun_eq_iff)
  have same: "count (\<lambda>c. ?soon c \<and> later (ct_valid_to c) now \<and> \<not> ct_revoked c) = count (\<lambda>c. ?live c \<and> ?soon c)"
    by (simp add: count_def conj_ac)
  have live: "count ?live = count (\<lambda>c. ?live c \<and> ?soon c) + count (\<lambda>c. ?live c \<and> \<not> ?soon c)"
    unfolding count_def by (rule count_split)
  have over: "count ?over = count (\<lambda>c. ?over c \<and> ct_revoked c) + count (\<lambda>c. ?over c \<and> \<not> ct_revoked c)"
    unfolding count_def by (rule count_split)
  have open_ended: "count (\<lambda>c. \<not> ct_revoked c) = count ?live + count (\<lambda>c. ?over c \<and> \<not> ct_revoked c) + count (\<lambda>c. \<not> ct_revoked c \<and> ct_valid_to c = None)"
    unfolding count_def by (induction rows) (auto simp: later_def no_later_def split: option.splits)
  have all: "length rows = count ct_revoked + count (\<lambda>c. \<not> ct_revoked c)"
    unfolding count_def by (simp add: sum_length_filter_compl)
  have stats: "get_certificate_stats now rows =
    success_response \<lparr>st_total = length rows, st_valid = int (count ?live) - int (count (\<lambda>c. ?live c \<and> ?soon c)),
      st_expiring = count (\<lambda>c. ?live c \<and> ?soon c), st_expired = count (\<lambda>c. ?over c \<and> \<not> ct_revoked c), st_revoked = count ct_revoked\<rparr> []"
    unfolding get_certificate_stats_def Let_def same [unfolded count_def] count_def by (rule refl)
  have revoked: "count (\<lambda>c. ct_revoked c \<and> ?over c) = count (\<lambda>c. ?over c \<and> ct_revoked c)"
    by (simp add: count_def conj_commute)
  show ?thesis
    unfolding stats count_status_def filters count_def [symmetric]
    by (rule exI, rule conjI, rule refl, unfold cert_stats.simps) (use live over open_ended all revoked in linarith)
qed

end
