(* ===== verification/Account.thy ===== *)
theory Account
  imports Users
begin

text \<open>
  The account of the caller, \<^verbatim>\<open>api/v2/account.py\<close>: profile, password, API keys, second factor, sessions and activity. Every route asks for
  an authenticated caller and no permission; what the guard hands to the route is the context of theory \<open>Auth\<close>.

  Password hashes, one-time codes, random texts and the audit service are parameters. Texts in request bodies are texts, and a body with none of the keys is empty. A caller whose user
  row is gone, possible with an API key, has no current user: the attribute error is \<open>Raised\<close>. The QR code and the link in it are left out.
\<close>

subsection \<open>State\<close>

record user_session =
  us_id :: int
  us_user_id :: int
  us_ip_address :: "string option"
  us_user_agent :: "string option"
  us_created_at :: "time option"
  us_last_activity :: "time option"

record account_db =
  ac_auth :: auth_db
  ac_sessions :: "user_session list"
  ac_logs :: "audit_log list"

record account_env =
  ae_sha256 :: "string \<Rightarrow> string"
  ae_hash_pw :: "string \<Rightarrow> string"
  ae_check_pw :: "string \<Rightarrow> string \<Rightarrow> bool"
  ae_totp_ok :: "string \<Rightarrow> string \<Rightarrow> bool"
  ae_log :: "audit_args \<Rightarrow> audit_log list \<Rightarrow> audit_log list"
  ae_max_keys :: nat

definition log_account :: "account_env \<Rightarrow> string \<Rightarrow> string \<Rightarrow> ident \<Rightarrow> string \<Rightarrow> string \<Rightarrow> account_db \<Rightarrow> account_db" where
  "log_account e act kind rid name text st =
     st\<lparr>ac_logs := ae_log e (audit_call act (Some kind) rid (Txt name) (Txt text) True None) (ac_logs st)\<rparr>"

definition put_own_user :: "user \<Rightarrow> account_db \<Rightarrow> account_db" where
  "put_own_user u st = st\<lparr>ac_auth := (ac_auth st)\<lparr>users := row_update u_id (u_id u) (\<lambda>_. u) (users (ac_auth st))\<rparr>\<rparr>"

definition own_user :: "g_context \<Rightarrow> account_db \<Rightarrow> user option" where
  "own_user g st = (case g_current_user g of None \<Rightarrow> None | Some u \<Rightarrow> row_get u_id (users (ac_auth st)) (u_id u))"

definition no_caller :: "'a http" where
  "no_caller = Raised ''AttributeError''"

subsection \<open>Profile and password\<close>

definition get_profile :: "g_context \<Rightarrow> account_db \<Rightarrow> user http" where
  "get_profile g st =
     (if g_current_user g = None then no_caller
      else (case own_user g st of None \<Rightarrow> error_response ''User not found'' 404 | Some u \<Rightarrow> success_response u []))"

record profile_body =
  pb_email :: "string option option"
  pb_full_name :: "string option option"
  pb_other :: bool

definition local_char :: "char \<Rightarrow> bool" where
  "local_char c = (is_lower c \<or> is_upper c \<or> is_digit c \<or> c \<in> set ''._%+-'')"

definition domain_char :: "char \<Rightarrow> bool" where
  "domain_char c = (is_lower c \<or> is_upper c \<or> is_digit c \<or> c \<in> set ''.-'')"

text \<open>The pattern of an address; \<^verbatim>\<open>$\<close> also matches before a line break at the end.\<close>

definition is_email_text :: "string \<Rightarrow> bool" where
  "is_email_text s =
     (let name = takeWhile local_char s; rest = drop (length name) s; domain = drop 1 rest;
          top = rev (takeWhile (\<lambda>c. c \<noteq> CHR ''.'') (rev domain)); host = take (length domain - length top - 1) domain
      in name \<noteq> [] \<and> startswith rest ''@'' \<and> CHR ''.'' \<in> set domain \<and> host \<noteq> [] \<and> list_all domain_char host \<and>
         2 \<le> length top \<and> list_all (\<lambda>c. is_lower c \<or> is_upper c) top)"

definition email_format_ok :: "string \<Rightarrow> bool" where
  "email_format_ok s = (is_email_text s \<or> (s \<noteq> [] \<and> last s = CHR 0x0A \<and> is_email_text (butlast s)))"

definition update_profile :: "g_context \<Rightarrow> profile_body \<Rightarrow> account_db \<Rightarrow> user http \<times> account_db" where
  "update_profile g b st =
     (if pb_email b = None \<and> pb_full_name b = None \<and> \<not> pb_other b then (error_response ''No data provided'' 400, st)
      else (case own_user g st of
              None \<Rightarrow> (no_caller, st)
            | Some u \<Rightarrow>
                (case pb_email b of
                   None \<Rightarrow>
                     (let u' = u\<lparr>full_name := (case pb_full_name b of None \<Rightarrow> full_name u | Some n \<Rightarrow> n)\<rparr>
                      in (success_response u' ''Profile updated successfully'', put_own_user u' st))
                 | Some None \<Rightarrow> (Raised ''IntegrityError'', st)
                 | Some (Some mail) \<Rightarrow>
                     if mail \<noteq> [] \<and> \<not> email_format_ok mail then (error_response ''Invalid email format'' 400, st)
                     else if list_ex (\<lambda>v. email v = mail \<and> u_id v \<noteq> u_id u) (users (ac_auth st)) then (Raised ''IntegrityError'', st)
                     else
                       (let u' = u\<lparr>email := mail, full_name := (case pb_full_name b of None \<Rightarrow> full_name u | Some n \<Rightarrow> n)\<rparr>
                        in (success_response u' ''Profile updated successfully'', put_own_user u' st)))))"

record account_password =
  pw_current :: "string option"
  pw_new :: "string option"
  pw_force :: bool

definition change_own_password :: "account_env \<Rightarrow> g_context \<Rightarrow> account_password \<Rightarrow> account_db \<Rightarrow> unit http \<times> account_db" where
  "change_own_password e g b st =
     (if pw_current b = None \<and> pw_new b = None \<and> \<not> pw_force b then (error_response ''No data provided'' 400, st)
      else if \<not> pw_force b \<and> \<not> nonempty (pw_current b) then (error_response ''Current password is required'' 400, st)
      else if \<not> nonempty (pw_new b) then (error_response ''New password is required'' 400, st)
      else if length (the (pw_new b)) < 8 then (error_response ''Password must be at least 8 characters'' 400, st)
      else if g_current_user g = None then (no_caller, st)
      else (case own_user g st of
              None \<Rightarrow> (error_response ''User not found'' 404, st)
            | Some u \<Rightarrow>
                if \<not> (pw_force b \<and> force_password_change u) \<and> (\<not> nonempty (pw_current b) \<or> \<not> ae_check_pw e (password_hash u) (the (pw_current b)))
                then (error_response ''Current password is incorrect'' 401, st)
                else (success_response () ''Password changed successfully'',
                      log_account e ''password_change'' ''user'' (Txt_id (str_int (u_id u))) (username u)
                        (''Password changed by user: '' @ username u)
                        (put_own_user (u\<lparr>password_hash := ae_hash_pw e (the (pw_new b)), force_password_change := False\<rparr>) st))))"

subsection \<open>API keys\<close>

definition own_keys :: "g_context \<Rightarrow> account_db \<Rightarrow> api_key list" where
  "own_keys g st = filter (\<lambda>k. k_user_id k = g_user_id g) (api_keys (ac_auth st))"

definition own_key :: "g_context \<Rightarrow> int \<Rightarrow> account_db \<Rightarrow> api_key option" where
  "own_key g i st = find (\<lambda>k. k_id k = i \<and> k_user_id k = g_user_id g) (api_keys (ac_auth st))"

definition put_key :: "api_key \<Rightarrow> account_db \<Rightarrow> account_db" where
  "put_key k st = st\<lparr>ac_auth := (ac_auth st)\<lparr>api_keys := row_update k_id (k_id k) (\<lambda>_. k) (api_keys (ac_auth st))\<rparr>\<rparr>"

definition list_api_keys :: "g_context \<Rightarrow> account_db \<Rightarrow> api_key list http" where
  "list_api_keys g st = success_response (sort_key (\<lambda>k. - k_created_at k) (own_keys g st)) []"

definition valid_categories :: "string list" where
  "valid_categories = [''read'', ''write'', ''delete'', ''admin'']"

definition valid_resources :: "string list" where
  "valid_resources = [''cas'', ''certificates'', ''acme'', ''scep'', ''crl'', ''settings'', ''users'', ''system'']"

definition permission_error :: "string \<Rightarrow> string option" where
  "permission_error perm =
     (if perm = ''*'' then None
      else if CHR '':'' \<notin> set perm then Some (''Invalid permission format: '' @ perm)
      else
        (let category = takeWhile (\<lambda>c. c \<noteq> CHR '':'') perm; resource = drop (length category + 1) perm in
         if category \<notin> set valid_categories \<and> category \<noteq> ''*'' then Some (''Invalid permission category: '' @ category)
         else if resource \<notin> set valid_resources \<and> resource \<noteq> ''*'' then Some (''Invalid permission resource: '' @ resource)
         else None))"

record key_body =
  kb_name :: "string option"
  kb_permissions :: "string list option"
  kb_expires_days :: "int option"

definition create_key_route :: "account_env \<Rightarrow> time \<Rightarrow> string \<Rightarrow> g_context \<Rightarrow> key_body \<Rightarrow> account_db \<Rightarrow> new_key http \<times> account_db" where
  "create_key_route e now token g b st =
     (if \<not> nonempty (kb_name b) then (error_response ''Name is required'' 400, st)
      else (case kb_permissions b of
              None \<Rightarrow> (error_response ''Permissions are required'' 400, st)
            | Some [] \<Rightarrow> (error_response ''Permissions are required'' 400, st)
            | Some (p # ps) \<Rightarrow>
                (case find (\<lambda>x. permission_error x \<noteq> None) (p # ps) of
                   Some bad \<Rightarrow> (error_response (the (permission_error bad)) 400, st)
                 | None \<Rightarrow>
                     if ae_max_keys e \<le> length (filter is_active (own_keys g st))
                     then (error_response (''Maximum '' @ str_nat (ae_max_keys e) @ '' active API keys per user'') 400, st)
                     else (case create_api_key (ae_sha256 e) now token (ac_auth st) (g_user_id g) (the (kb_name b)) (p # ps)
                                  (case kb_expires_days b of None \<Rightarrow> 365 | Some d \<Rightarrow> d) of
                             (Inl _, _) \<Rightarrow> (error_response ''Failed to create API key'' 500, st)
                           | (Inr nk, db) \<Rightarrow>
                               (Success nk (''API key created successfully. Save the key now - it won'' @ [CHR 0x27] @ ''t be shown again!'') 201,
                                log_account e ''apikey_create'' ''api_key'' No_id (the (kb_name b)) (''Created API key: '' @ the (kb_name b))
                                  (st\<lparr>ac_auth := db\<rparr>))))))"

definition get_api_key :: "g_context \<Rightarrow> int \<Rightarrow> account_db \<Rightarrow> api_key http" where
  "get_api_key g i st = (case own_key g i st of None \<Rightarrow> error_response ''API key not found'' 404 | Some k \<Rightarrow> success_response k [])"

definition rename_api_key :: "g_context \<Rightarrow> int \<Rightarrow> string option \<Rightarrow> account_db \<Rightarrow> api_key http \<times> account_db" where
  "rename_api_key g i name st =
     (case own_key g i st of
        None \<Rightarrow> (error_response ''API key not found'' 404, st)
      | Some k \<Rightarrow>
          (let k' = (case name of None \<Rightarrow> k | Some n \<Rightarrow> k\<lparr>k_name := n\<rparr>)
           in (success_response k' ''API key updated'', put_key k' st)))"

definition delete_api_key :: "account_env \<Rightarrow> g_context \<Rightarrow> int \<Rightarrow> account_db \<Rightarrow> unit http \<times> account_db" where
  "delete_api_key e g i st =
     (case own_key g i st of
        None \<Rightarrow> (error_response ''API key not found'' 404, st)
      | Some k \<Rightarrow>
          (success_response () ''API key revoked'',
           log_account e ''apikey_delete'' ''api_key'' (Txt_id (str_int i)) (k_name k) (''Revoked API key: '' @ k_name k)
             (put_key (k\<lparr>is_active := False\<rparr>) st)))"

definition regenerate_api_key :: "account_env \<Rightarrow> time \<Rightarrow> string \<Rightarrow> g_context \<Rightarrow> int \<Rightarrow> account_db \<Rightarrow> new_key http \<times> account_db" where
  "regenerate_api_key e now token g i st =
     (case own_key g i st of
        None \<Rightarrow> (error_response ''API key not found'' 404, st)
      | Some k \<Rightarrow>
          (case k_permissions k of
             None \<Rightarrow> (error_response ''Failed to regenerate API key'' 500, st)
           | Some ps \<Rightarrow>
               (case create_api_key (ae_sha256 e) now token (ac_auth st) (g_user_id g) (k_name k @ '' (regenerated)'') ps 365 of
                  (Inl _, _) \<Rightarrow> (error_response ''Failed to regenerate API key'' 500, st)
                | (Inr nk, db) \<Rightarrow>
                    (Success nk ''API key regenerated. Old key revoked. Save the new key now!'' 201,
                     log_account e ''apikey_regenerate'' ''api_key'' (Txt_id (str_int i)) (k_name k) (''Regenerated API key: '' @ k_name k)
                       (put_key (k\<lparr>is_active := False\<rparr>) (st\<lparr>ac_auth := db\<rparr>))))))"

subsection \<open>Second factor\<close>

definition enable_2fa :: "string \<Rightarrow> g_context \<Rightarrow> account_db \<Rightarrow> string http \<times> account_db" where
  "enable_2fa secret g st =
     (if g_current_user g = None then (no_caller, st)
      else (case own_user g st of
              None \<Rightarrow> (error_response ''User not found'' 404, st)
            | Some u \<Rightarrow> (success_response secret ''Scan QR code with authenticator app, then verify with code'',
                         put_own_user (u\<lparr>totp_secret := Some secret\<rparr>) st)))"

definition confirm_2fa :: "account_env \<Rightarrow> string list \<Rightarrow> g_context \<Rightarrow> string option \<Rightarrow> account_db \<Rightarrow> string list http \<times> account_db" where
  "confirm_2fa e codes g code st =
     (if \<not> nonempty code then (error_response ''Verification code required'' 400, st)
      else if g_current_user g = None then (no_caller, st)
      else (case own_user g st of
              None \<Rightarrow> (error_response ''2FA setup not initiated'' 400, st)
            | Some u \<Rightarrow>
                if \<not> nonempty (totp_secret u) then (error_response ''2FA setup not initiated'' 400, st)
                else if \<not> ae_totp_ok e (the (totp_secret u)) (the code) then (error_response ''Invalid verification code'' 400, st)
                else (success_response codes ''2FA enabled successfully. Save backup codes!'',
                      log_account e ''mfa_enable'' ''user'' (Txt_id (str_int (u_id u))) (username u) (''2FA enabled for user: '' @ username u)
                        (put_own_user (u\<lparr>totp_confirmed := True, backup_codes := Some (join_with '','' codes)\<rparr>) st))))"

definition stored_codes :: "user \<Rightarrow> string list" where
  "stored_codes u = split_on (CHR '','') (or_else (backup_codes u) [])"

definition disable_2fa :: "account_env \<Rightarrow> g_context \<Rightarrow> string option \<Rightarrow> string option \<Rightarrow> account_db \<Rightarrow> unit http \<times> account_db" where
  "disable_2fa e g code backup_code st =
     (if code = None \<and> backup_code = None then (error_response ''Verification required'' 400, st)
      else if \<not> nonempty code \<and> \<not> nonempty backup_code then (error_response ''Code or backup code required'' 400, st)
      else if g_current_user g = None then (no_caller, st)
      else (case own_user g st of
              None \<Rightarrow> (error_response ''User not found'' 404, st)
            | Some u \<Rightarrow>
                if nonempty code \<and> \<not> nonempty (totp_secret u) then (error_response ''2FA not enabled'' 400, st)
                else if nonempty code \<and> \<not> ae_totp_ok e (the (totp_secret u)) (the code) then (error_response ''Invalid verification code'' 400, st)
                else if \<not> nonempty code \<and> the backup_code \<notin> set (stored_codes u) then (error_response ''Invalid backup code'' 400, st)
                else (success_response () ''2FA disabled successfully'',
                      log_account e ''mfa_disable'' ''user'' (Txt_id (str_int (u_id u))) (username u) (''2FA disabled for user: '' @ username u)
                        (put_own_user (u\<lparr>totp_confirmed := False, totp_secret := None, backup_codes := None\<rparr>) st))))"

definition masked_code :: "string \<Rightarrow> string" where
  "masked_code c = (if length c > 8 then take 4 c @ ''...'' @ drop (length c - 4) c else ''****'')"

definition get_recovery_codes :: "g_context \<Rightarrow> account_db \<Rightarrow> (string list \<times> nat) http" where
  "get_recovery_codes g st =
     (if g_current_user g = None then no_caller
      else (case own_user g st of
              None \<Rightarrow> error_response ''2FA not enabled'' 400
            | Some u \<Rightarrow>
                if \<not> totp_confirmed u then error_response ''2FA not enabled'' 400
                else (let cs = filter (\<lambda>c. c \<noteq> []) (stored_codes u) in success_response (map masked_code cs, length cs) [])))"

definition regenerate_recovery_codes :: "account_env \<Rightarrow> string list \<Rightarrow> g_context \<Rightarrow> string option \<Rightarrow> account_db \<Rightarrow> string list http \<times> account_db" where
  "regenerate_recovery_codes e codes g code st =
     (if \<not> nonempty code then (error_response ''2FA code required'' 400, st)
      else if g_current_user g = None then (no_caller, st)
      else (case own_user g st of
              None \<Rightarrow> (error_response ''2FA not enabled'' 400, st)
            | Some u \<Rightarrow>
                if \<not> totp_confirmed u then (error_response ''2FA not enabled'' 400, st)
                else (case totp_secret u of
                        None \<Rightarrow> (Raised ''TypeError'', st)
                      | Some secret \<Rightarrow>
                          if \<not> ae_totp_ok e secret (the code) then (error_response ''Invalid verification code'' 400, st)
                          else (success_response codes ''Recovery codes regenerated. Save them now!'',
                                put_own_user (u\<lparr>backup_codes := Some (join_with '','' codes)\<rparr>) st))))"

subsection \<open>Sessions and activity\<close>

text \<open>The sessions of the table; no code of the program adds one, and no check of a request reads them.\<close>

definition list_sessions :: "g_context \<Rightarrow> string option \<Rightarrow> account_db \<Rightarrow> (user_session \<times> bool) list http" where
  "list_sessions g cookie st =
     (case g_current_user g of
        None \<Rightarrow> no_caller
      | Some u \<Rightarrow> success_response (map (\<lambda>s. (s, Some (str_int (us_id s)) = cookie)) (filter (\<lambda>s. us_user_id s = u_id u) (ac_sessions st))) [])"

definition revoke_session :: "account_env \<Rightarrow> g_context \<Rightarrow> int \<Rightarrow> account_db \<Rightarrow> unit http \<times> account_db" where
  "revoke_session e g i st =
     (case g_current_user g of
        None \<Rightarrow> (no_caller, st)
      | Some u \<Rightarrow>
          (case find (\<lambda>s. us_id s = i \<and> us_user_id s = u_id u) (ac_sessions st) of
             None \<Rightarrow> (error_response ''Session not found'' 404, st)
           | Some s \<Rightarrow>
               (success_response () ''Session revoked successfully'',
                log_account e ''session_revoke'' ''session'' (Txt_id (str_int i)) (''Session '' @ str_int i) (''Revoked session '' @ str_int i)
                  (st\<lparr>ac_sessions := row_delete us_id i (ac_sessions st)\<rparr>))))"

text \<open>Without the cookie the comparison is with \<^verbatim>\<open>NULL\<close>, which keeps no session.\<close>

definition revoke_all_sessions :: "g_context \<Rightarrow> string option \<Rightarrow> account_db \<Rightarrow> unit http \<times> account_db" where
  "revoke_all_sessions g cookie st =
     (case g_current_user g of
        None \<Rightarrow> (no_caller, st)
      | Some u \<Rightarrow>
          (success_response () ''All other sessions revoked'',
           st\<lparr>ac_sessions := filter (\<lambda>s. us_user_id s \<noteq> u_id u \<or> (case cookie of None \<Rightarrow> False | Some c \<Rightarrow> py_int 10 c = Some (us_id s))) (ac_sessions st)\<rparr>))"

definition get_activity_log :: "g_context \<Rightarrow> nat \<Rightarrow> nat \<Rightarrow> account_db \<Rightarrow> (audit_log list \<times> nat) http" where
  "get_activity_log g page per_page st =
     (case g_current_user g of
        None \<Rightarrow> no_caller
      | Some u \<Rightarrow>
          (let rows = sort_key (\<lambda>l. - al_timestamp l) (filter (\<lambda>l. al_username l = Some (username u)) (ac_logs st));
               p = max 1 page; n = (if per_page = 0 then 20 else per_page)
           in success_response (take n (drop ((p - 1) * n) rows), length rows) []))"

subsection \<open>Histories\<close>

datatype account_op =
    Update_profile profile_body
  | Change_password account_password
  | Create_key string key_body
  | Rename_key int "string option"
  | Delete_key int
  | Regenerate_key string int
  | Enable_2fa string
  | Confirm_2fa "string list" "string option"
  | Disable_2fa "string option" "string option"
  | Regenerate_codes "string list" "string option"
  | Revoke_session int
  | Revoke_all "string option"

fun account_step :: "account_env \<Rightarrow> g_context \<Rightarrow> account_db \<Rightarrow> time \<times> account_op \<Rightarrow> account_db" where
  "account_step e g st (now, Update_profile b) = snd (update_profile g b st)"
| "account_step e g st (now, Change_password b) = snd (change_own_password e g b st)"
| "account_step e g st (now, Create_key token b) = snd (create_key_route e now token g b st)"
| "account_step e g st (now, Rename_key i name) = snd (rename_api_key g i name st)"
| "account_step e g st (now, Delete_key i) = snd (delete_api_key e g i st)"
| "account_step e g st (now, Regenerate_key token i) = snd (regenerate_api_key e now token g i st)"
| "account_step e g st (now, Enable_2fa secret) = snd (enable_2fa secret g st)"
| "account_step e g st (now, Confirm_2fa codes code) = snd (confirm_2fa e codes g code st)"
| "account_step e g st (now, Disable_2fa code backup) = snd (disable_2fa e g code backup st)"
| "account_step e g st (now, Regenerate_codes codes code) = snd (regenerate_recovery_codes e codes g code st)"
| "account_step e g st (now, Revoke_session i) = snd (revoke_session e g i st)"
| "account_step e g st (now, Revoke_all cookie) = snd (revoke_all_sessions g cookie st)"

subsection \<open>Other accounts\<close>

text \<open>What belongs to others: their rows, keys and sessions.\<close>

definition others :: "int \<Rightarrow> account_db \<Rightarrow> user list \<times> api_key list \<times> user_session list" where
  "others i st = (filter (\<lambda>u. u_id u \<noteq> i) (users (ac_auth st)), filter (\<lambda>k. k_user_id k \<noteq> i) (api_keys (ac_auth st)),
     filter (\<lambda>s. us_user_id s \<noteq> i) (ac_sessions st))"

definition account_ok :: "account_db \<Rightarrow> bool" where
  "account_ok st \<longleftrightarrow> keys_ok k_id (api_keys (ac_auth st)) \<and> keys_ok us_id (ac_sessions st)"

definition context_of :: "g_context \<Rightarrow> int \<Rightarrow> bool" where
  "context_of g i \<longleftrightarrow> g_user_id g = i \<and> (case g_current_user g of None \<Rightarrow> True | Some u \<Rightarrow> u_id u = i)"

definition isolated :: "int \<Rightarrow> account_db \<Rightarrow> account_db \<Rightarrow> bool" where
  "isolated i st st' \<longleftrightarrow> account_ok st' \<and> others i st' = others i st"

lemma isolated_refl [simp]: "account_ok st \<Longrightarrow> isolated i st st"
  by (simp add: isolated_def)

lemma log_account_isolated [simp]: "isolated i st (log_account e a k rid n t st') = isolated i st st'"
  by (simp add: isolated_def account_ok_def others_def log_account_def)

lemma filter_own_update: "key v = i \<Longrightarrow> filter (\<lambda>r. key r \<noteq> i) (row_update key i (\<lambda>_. v) rows) = filter (\<lambda>r. key r \<noteq> i) rows"
  by (induction rows) (simp_all add: row_update_def)

lemma put_own_user_isolated: "account_ok st \<Longrightarrow> u_id u = i \<Longrightarrow> isolated i st (put_own_user u st)"
  by (simp add: isolated_def account_ok_def others_def put_own_user_def filter_own_update)

lemma filter_owned_update:
  assumes "keys_ok key rows" "old \<in> set rows" "key v = key old" "owner v = owner old" "owner old = i"
  shows "filter (\<lambda>r. owner r \<noteq> i) (row_update key (key old) (\<lambda>_. v) rows) = filter (\<lambda>r. owner r \<noteq> i) rows"
proof -
  have "r = old" if "r \<in> set rows" "key r = key old" for r
    using assms(1,2) that by (auto simp: keys_ok_def distinct_map inj_on_def)
  then have "filter (\<lambda>r. owner r \<noteq> i) (map (\<lambda>r. if key r = key old then v else r) xs) = filter (\<lambda>r. owner r \<noteq> i) xs" if "set xs \<subseteq> set rows" for xs
    using that assms(4,5) by (induction xs) auto
  then show ?thesis by (simp add: row_update_def)
qed

lemma own_key_Some: "own_key g i st = Some k \<Longrightarrow> k \<in> set (api_keys (ac_auth st)) \<and> k_id k = i \<and> k_user_id k = g_user_id g"
  unfolding own_key_def by (auto dest!: find_Some_in)

lemma put_key_isolated:
  assumes "account_ok st" "old \<in> set (api_keys (ac_auth st))" "k_user_id old = i" "k_id k = k_id old" "k_user_id k = i"
  shows "isolated i st (put_key k st)"
  using assms filter_owned_update [of k_id "api_keys (ac_auth st)" old k k_user_id i]
  by (auto simp: isolated_def account_ok_def others_def put_key_def intro: keys_ok_put)

lemma create_api_key_isolated:
  assumes "account_ok st" "create_api_key h now token (ac_auth st) i name ps d = (Inr nk, db)"
  shows "isolated i st (st\<lparr>ac_auth := db\<rparr>)" "set (api_keys (ac_auth st)) \<subseteq> set (api_keys db)"
proof -
  obtain r where db: "db = (ac_auth st)\<lparr>api_keys := api_keys (ac_auth st) @ [r]\<rparr>" "k_id r = next_id k_id (api_keys (ac_auth st))" "k_user_id r = i"
    using assms(2) by (auto simp: create_api_key_def Let_def split: if_splits)
  show "isolated i st (st\<lparr>ac_auth := db\<rparr>)" "set (api_keys (ac_auth st)) \<subseteq> set (api_keys db)"
    using assms(1) db keys_ok_append [of k_id "api_keys (ac_auth st)" r] by (auto simp: isolated_def account_ok_def others_def)
qed

lemma own_user_id: "own_user g st = Some u \<Longrightarrow> context_of g i \<Longrightarrow> u_id u = i"
  by (auto simp: own_user_def context_of_def split: option.splits dest!: row_get_Some)

lemma isolated_trans: "isolated i a b \<Longrightarrow> isolated i b c \<Longrightarrow> isolated i a c"
  by (simp add: isolated_def)

lemma profile_isolated: "account_ok st \<Longrightarrow> context_of g i \<Longrightarrow> isolated i st (snd (update_profile g b st))"
  using own_user_id [of g st _ i] put_own_user_isolated [of st _ i]
  by (cases "own_user g st") (simp_all add: update_profile_def Let_def split: option.split)

lemma password_isolated: "account_ok st \<Longrightarrow> context_of g i \<Longrightarrow> isolated i st (snd (change_own_password e g b st))"
  using own_user_id [of g st _ i] put_own_user_isolated [of st _ i]
  by (cases "own_user g st") (simp_all add: change_own_password_def)

lemma second_factor_isolated:
  assumes "account_ok st" "context_of g i"
  shows "isolated i st (snd (enable_2fa secret g st))" "isolated i st (snd (confirm_2fa e codes g code st))"
    "isolated i st (snd (disable_2fa e g code backup st))" "isolated i st (snd (regenerate_recovery_codes e codes g code st))"
  using assms own_user_id [of g st _ i] put_own_user_isolated [of st _ i]
  by (cases "own_user g st"; simp add: enable_2fa_def confirm_2fa_def disable_2fa_def regenerate_recovery_codes_def split: option.split)+

lemma create_key_isolated:
  assumes "account_ok st" "context_of g i"
  shows "isolated i st (snd (create_key_route e now token g b st))"
proof -
  have "isolated i st (snd (case create_api_key (ae_sha256 e) now token (ac_auth st) (g_user_id g) n ps d of
      (Inl x, y) \<Rightarrow> (error_response m c, st) | (Inr nk, db) \<Rightarrow> (Success nk t 201, log_account e a k r n' t' (st\<lparr>ac_auth := db\<rparr>))))"
    for n ps d m c t a k r n' t'
    using assms create_api_key_isolated(1) [OF assms(1)] by (simp add: context_of_def split: prod.split sum.split)
  then show ?thesis
    using assms(1) by (simp add: create_key_route_def split: option.split list.split)
qed

lemma key_changes_isolated:
  assumes "account_ok st" "context_of g i"
  shows "isolated i st (snd (rename_api_key g j name st))" "isolated i st (snd (delete_api_key e g j st))"
proof -
  have put: "isolated i st (put_key k' st)" if "own_key g j st = Some k" "k_id k' = k_id k" "k_user_id k' = k_user_id k" for k k'
    using own_key_Some [OF that(1)] that(2,3) assms by (intro put_key_isolated [where old = k]) (simp_all add: context_of_def)
  show "isolated i st (snd (rename_api_key g j name st))"
    using assms(1) put by (cases "own_key g j st"; cases name) (simp_all add: rename_api_key_def Let_def)
  show "isolated i st (snd (delete_api_key e g j st))"
    using assms(1) put by (cases "own_key g j st") (simp_all add: delete_api_key_def)
qed

lemma regenerate_isolated:
  assumes "account_ok st" "context_of g i"
  shows "isolated i st (snd (regenerate_api_key e now token g j st))"
proof (cases "own_key g j st")
  case (Some k)
  note k = own_key_Some [OF Some]
  have "isolated i st (put_key (k\<lparr>is_active := False\<rparr>) (st\<lparr>ac_auth := db\<rparr>))"
    if "create_api_key (ae_sha256 e) now token (ac_auth st) (g_user_id g) n ps 365 = (Inr nk, db)" for n ps nk db
  proof -
    have "isolated i st (st\<lparr>ac_auth := db\<rparr>)" "set (api_keys (ac_auth st)) \<subseteq> set (api_keys db)"
      using create_api_key_isolated [OF assms(1), of "ae_sha256 e" now token i n ps 365 nk db] that assms(2) by (simp_all add: context_of_def)
    moreover have "account_ok (st\<lparr>ac_auth := db\<rparr>)" using calculation(1) by (simp add: isolated_def)
    ultimately show ?thesis
      using put_key_isolated [of "st\<lparr>ac_auth := db\<rparr>" k i "k\<lparr>is_active := False\<rparr>"] isolated_trans k assms(2)
      by (simp add: context_of_def subset_iff)
  qed
  then show ?thesis
    using assms(1) by (cases "k_permissions k"; cases "create_api_key (ae_sha256 e) now token (ac_auth st) (g_user_id g) (k_name k @ '' (regenerated)'') (the (k_permissions k)) 365";
      cases "fst (create_api_key (ae_sha256 e) now token (ac_auth st) (g_user_id g) (k_name k @ '' (regenerated)'') (the (k_permissions k)) 365)")
      (simp_all add: regenerate_api_key_def Some)
qed (use assms in \<open>simp add: regenerate_api_key_def\<close>)

lemma sessions_isolated:
  assumes "account_ok st" "context_of g i"
  shows "isolated i st (snd (revoke_session e g j st))" "isolated i st (snd (revoke_all_sessions g cookie st))"
proof -
  show "isolated i st (snd (revoke_all_sessions g cookie st))"
    using assms by (auto simp: revoke_all_sessions_def isolated_def account_ok_def others_def context_of_def keys_ok_filter filter_filter
      intro!: filter_cong split: option.split)
  show "isolated i st (snd (revoke_session e g j st))"
  proof (cases "g_current_user g")
    case (Some u)
    show ?thesis
    proof (cases "find (\<lambda>s. us_id s = j \<and> us_user_id s = u_id u) (ac_sessions st)")
      case found: (Some s)
      have s: "s \<in> set (ac_sessions st)" "us_id s = j" "us_user_id s = i"
        using find_Some_in [OF found] assms(2) Some by (auto simp: context_of_def)
      have "us_user_id r = i" if "r \<in> set (ac_sessions st)" "us_id r = j" for r
        using assms(1) s that by (auto simp: account_ok_def keys_ok_def distinct_map inj_on_def)
      then have "isolated i st (st\<lparr>ac_sessions := row_delete us_id j (ac_sessions st)\<rparr>)"
        using assms(1) by (auto simp: isolated_def account_ok_def others_def row_delete_def keys_ok_filter intro!: filter_cong)
      then show ?thesis by (simp add: revoke_session_def Some found)
    qed (use assms Some in \<open>simp add: revoke_session_def\<close>)
  qed (use assms in \<open>simp add: revoke_session_def\<close>)
qed

interpretation account_runs: invariant_system "account_step e g" "\<lambda>st. isolated (g_user_id g) st\<^sub>0 st \<and> context_of g (g_user_id g)" for e g st\<^sub>0
proof
  fix st ev
  assume st: "isolated (g_user_id g) st\<^sub>0 st \<and> context_of g (g_user_id g)"
  then have ok: "account_ok st" by (simp add: isolated_def)
  have "isolated (g_user_id g) st (account_step e g st ev)"
    using ok st by (cases "(e, g, st, ev)" rule: account_step.cases)
      (simp_all add: profile_isolated password_isolated second_factor_isolated create_key_isolated key_changes_isolated regenerate_isolated sessions_isolated)
  then show "isolated (g_user_id g) st\<^sub>0 (account_step e g st ev) \<and> context_of g (g_user_id g)"
    using st isolated_trans by blast
qed

subsection \<open>Properties\<close>

definition demo_account_env :: account_env where
  "demo_account_env = \<lparr>ae_sha256 = (\<lambda>s. s), ae_hash_pw = (\<lambda>p. p), ae_check_pw = (\<lambda>h p. h = p), ae_totp_ok = (\<lambda>s c. c = ''1''),
     ae_log = (\<lambda>_ ls. ls), ae_max_keys = 10\<rparr>"

definition demo_viewer :: user where
  "demo_viewer = demo_user\<lparr>u_id := 2, role := ''viewer'', password_hash := ''old'', totp_secret := Some ''s'', totp_confirmed := True\<rparr>"

definition demo_account_db :: account_db where
  "demo_account_db = \<lparr>ac_auth = \<lparr>users = [demo_user, demo_viewer], api_keys = [], sys_config = []\<rparr>,
     ac_sessions = [\<lparr>us_id = 1, us_user_id = 1, us_ip_address = None, us_user_agent = None, us_created_at = None, us_last_activity = None\<rparr>],
     ac_logs = []\<rparr>"

definition demo_viewer_context :: g_context where
  "demo_viewer_context = \<lparr>g_current_user = Some demo_viewer, g_auth_method = ''session'', g_permissions = get_role_permissions ''viewer'', g_user_id = 2\<rparr>"

text \<open>C18. Whatever a caller does to the own account, in any order, with any bodies, identifiers and codes: the rows, the API keys and the sessions of
  all other users stay as they are.\<close>

theorem accounts_isolated:
  assumes "account_ok st" "context_of g i"
  shows "others i (foldl (account_step e g) st evs) = others i st"
proof -
  have g: "g_user_id g = i" using assms(2) by (simp add: context_of_def)
  then have "isolated (g_user_id g) st (foldl (account_step e g) st evs)"
    using account_runs.run_inv [of g st st e evs] assms by simp
  then show ?thesis by (simp add: isolated_def g)
qed

theorem accounts_isolated_witness:
  "others 2 (foldl (account_step demo_account_env demo_viewer_context) demo_account_db
     [(1, Create_key ''t'' \<lparr>kb_name = Some ''k'', kb_permissions = Some [''*''], kb_expires_days = None\<rparr>), (2, Revoke_session 1), (3, Enable_2fa ''x'')]) =
   ([demo_user], [], ac_sessions demo_account_db)"
proof -
  have "account_ok demo_account_db" "context_of demo_viewer_context 2" by code_simp+
  note others = accounts_isolated [OF this, of demo_account_env]
  have "others 2 demo_account_db = ([demo_user], [], ac_sessions demo_account_db)"
    by (simp add: others_def demo_account_db_def demo_viewer_def demo_user_def)
  then show ?thesis by (rule trans [OF others])
qed

text \<open>A password is changed only for a caller who gave the current password, or whose account is marked for a forced change and who asks for that; the new
  one has at least eight characters, and only the hash and that mark of the own row change.\<close>

theorem password_change_authorized:
  assumes "change_own_password e g b st = (success_response () msg, st')"
  shows "\<exists>u. own_user g st = Some u \<and>
    (pw_force b \<and> force_password_change u \<or> ae_check_pw e (password_hash u) (or_else (pw_current b) [])) \<and> 8 \<le> length (or_else (pw_new b) []) \<and>
    ac_auth st' = ac_auth (put_own_user (u\<lparr>password_hash := ae_hash_pw e (or_else (pw_new b) []), force_password_change := False\<rparr>) st)"
proof -
  obtain u where u: "own_user g st = Some u" "g_current_user g \<noteq> None" "nonempty (pw_new b)" "8 \<le> length (the (pw_new b))"
    using assms by (cases "own_user g st") (auto simp: change_own_password_def success_response_def error_response_def no_caller_def split: if_splits)
  have new: "or_else (pw_new b) [] = the (pw_new b)" using u(3) by (cases "pw_new b") (simp_all add: or_else_def nonempty_def)
  have current: "or_else (pw_current b) [] = the (pw_current b)" if "nonempty (pw_current b)"
    using that by (cases "pw_current b") (simp_all add: or_else_def nonempty_def)
  show ?thesis
    using assms u new current
    by (auto simp: change_own_password_def success_response_def error_response_def log_account_def split: if_splits)
qed

theorem password_change_authorized_witness:
  "\<exists>u. own_user demo_viewer_context demo_account_db = Some u \<and>
    (force_password_change u \<or> ae_check_pw demo_account_env (password_hash u) ''old'')"
proof -
  let ?b = "\<lparr>pw_current = Some ''old'', pw_new = Some ''12345678'', pw_force = False\<rparr>"
  let ?r = "change_own_password demo_account_env demo_viewer_context ?b demo_account_db"
  have "case fst ?r of Success x msg n \<Rightarrow> n = 200 | _ \<Rightarrow> False" by code_simp
  then obtain msg where "?r = (success_response () msg, snd ?r)" by (cases "fst ?r") (auto simp: prod_eq_iff success_response_def)
  from password_change_authorized [OF this] show ?thesis by (auto simp: or_else_def)
qed

text \<open>An API key may carry more permissions than its owner has: whatever the role of the caller, a key with all permissions is made, and with it every
  permission check of the program passes.\<close>

theorem key_outranks_owner:
  assumes "nonempty (kb_name b)" "kb_permissions b = Some [''*'']" "kb_expires_days b = None" "now \<le> later" "later \<le> now + days 365"
    and "length (filter is_active (own_keys g st)) < ae_max_keys e" "\<not> list_ex (\<lambda>k. key_hash k = ae_sha256 e (''ucm_ak_'' @ token)) (api_keys (ac_auth st))"
  shows "status_code (fst (create_key_route e now token g b st)) = 201 \<and>
    (\<exists>ctx db. require_auth (ae_sha256 e) later perms (Some (''ucm_ak_'' @ token)) f (ac_auth (snd (create_key_route e now token g b st)), s) =
       (let (r, rest) = f ctx (db, s) in (Handled r, rest)) \<and> g_user_id ctx = g_user_id g)"
proof -
  let ?row = "\<lparr>k_id = next_id k_id (api_keys (ac_auth st)), k_user_id = g_user_id g, key_hash = ae_sha256 e (''ucm_ak_'' @ token), k_name = the (kb_name b),
    k_permissions = Some [''*''], k_created_at = now, k_expires_at = Some (now + days 365), last_used_at = None, is_active = True\<rparr>"
  have perm: "permission_error ''*'' = None" by (simp add: permission_error_def)
  have made: "status_code (fst (create_key_route e now token g b st)) = 201"
    "ac_auth (snd (create_key_route e now token g b st)) = (ac_auth st)\<lparr>api_keys := api_keys (ac_auth st) @ [?row]\<rparr>"
    using assms perm by (simp_all add: create_key_route_def create_api_key_def Let_def status_code_def log_account_def)
  have found: "find (\<lambda>k. key_hash k = ae_sha256 e (''ucm_ak_'' @ token) \<and> is_active k) (api_keys (ac_auth st) @ [?row]) = Some ?row"
    using assms(7) by (auto simp: find_append find_None_iff list_ex_iff split: option.split dest: find_Some_in)
  have "find (\<lambda>perm. \<not> has_permission perm [''*'']) ps = None" for ps by (simp add: find_None_iff has_permission_def)
  then show ?thesis
    using made found assms(5)
    by (simp add: require_auth_def authenticate_request_def verify_api_key_def g_of_def split_beta) (metis (no_types, lifting) g_context.select_convs(4))
qed

theorem key_outranks_owner_witness:
  "\<exists>(ctx :: g_context) db. require_auth (ae_sha256 demo_account_env) 5 [''admin:system''] (Some (''ucm_ak_'' @ ''t'')) (\<lambda>ctx st. (g_permissions ctx, st))
     (ac_auth (snd (create_key_route demo_account_env 1 ''t'' demo_viewer_context \<lparr>kb_name = Some ''k'', kb_permissions = Some [''*''], kb_expires_days = None\<rparr> demo_account_db)), demo_session) =
     (let (r, rest) = (g_permissions ctx, (db, demo_session)) in (Handled r, rest)) \<and> g_user_id ctx = 2"
proof -
  let ?b = "\<lparr>kb_name = Some ''k'', kb_permissions = Some [''*''], kb_expires_days = None\<rparr>"
  have "nonempty (kb_name ?b)" "kb_permissions ?b = Some [''*'']" "kb_expires_days ?b = None" "(1::int) \<le> 5" "(5::int) \<le> 1 + days 365"
    "length (filter is_active (own_keys demo_viewer_context demo_account_db)) < ae_max_keys demo_account_env"
    "\<not> list_ex (\<lambda>k. key_hash k = ae_sha256 demo_account_env (''ucm_ak_'' @ ''t'')) (api_keys (ac_auth demo_account_db))" by code_simp+
  note key = conjunct2 [OF key_outranks_owner [OF this, of "[''admin:system'']" "\<lambda>ctx st. (g_permissions ctx, st)" demo_session]]
  have g: "g_user_id demo_viewer_context = 2" by (simp add: demo_viewer_context_def)
  show ?thesis using key unfolding g .
qed

text \<open>A second factor can be replaced without it: the request to set one up changes the secret of an account whose second factor is confirmed, which stays
  confirmed, and its answer is the new secret. Codes of the old secret are no longer asked for.\<close>

theorem second_factor_replaced:
  assumes "own_user g st = Some u" "totp_confirmed u"
  shows "fst (enable_2fa secret g st) = success_response secret ''Scan QR code with authenticator app, then verify with code'' \<and>
    (\<exists>u'. own_user g (snd (enable_2fa secret g st)) = Some u' \<and> totp_confirmed u' \<and> totp_secret u' = Some secret)"
proof -
  obtain me where me: "g_current_user g = Some me" "row_get u_id (users (ac_auth st)) (u_id me) = Some u"
    using assms(1) by (auto simp: own_user_def split: option.splits)
  have "u_id u = u_id me" using row_get_Some [OF me(2)] by simp
  then have "row_get u_id (row_update u_id (u_id u) (\<lambda>_. u\<lparr>totp_secret := Some secret\<rparr>) (users (ac_auth st))) (u_id me) = Some (u\<lparr>totp_secret := Some secret\<rparr>)"
    using me(2) by (simp add: row_get_put)
  then show ?thesis
    using assms me by (simp add: enable_2fa_def own_user_def put_own_user_def)
qed

theorem second_factor_replaced_witness:
  "\<exists>u. own_user demo_viewer_context (snd (enable_2fa ''mine'' demo_viewer_context demo_account_db)) = Some u \<and> totp_confirmed u \<and> totp_secret u = Some ''mine''"
proof -
  have "own_user demo_viewer_context demo_account_db = Some demo_viewer"
    by (simp add: own_user_def demo_viewer_context_def demo_account_db_def demo_viewer_def demo_user_def row_get_def)
  moreover have "totp_confirmed demo_viewer" by (simp add: demo_viewer_def)
  ultimately show ?thesis using second_factor_replaced by blast
qed

end
