(* ===== verification/Mtls.thy ===== *)
theory Mtls
  imports Certificates Login
begin

text \<open>
  Authentication with client certificates: the enrolled certificates (\<^verbatim>\<open>models/auth_certificate.py\<close>), the reading of a certificate
  from the connection or from the headers of a proxy (\<^verbatim>\<open>services/certificate_parser.py\<close>), \<^verbatim>\<open>services/mtls_auth_service.py\<close>, the
  hook before each request (\<^verbatim>\<open>middleware/mtls_middleware.py\<close>) and the login of \<^verbatim>\<open>api/v2/auth_methods.py\<close>.

  Loading certificates, their fingerprints and mail addresses are functions of the cryptography package, so parameters. The dictionary of
  headers is what the framework makes of a request. The worker (\<^verbatim>\<open>workers.py\<close>) hands over the DER form of the certificate of the
  connection; the older form of a dictionary is left out.
\<close>

subsection \<open>State\<close>

record auth_certificate =
  ac_id :: int
  ac_user_id :: int
  ac_cert_pem :: "string option"
  ac_serial :: string
  ac_subject :: string
  ac_issuer :: "string option"
  ac_fingerprint :: "string option"
  ac_name :: "string option"
  ac_enabled :: bool
  ac_valid_from :: "time option"
  ac_valid_until :: "time option"
  ac_created_at :: time
  ac_last_used_at :: "time option"

record mtls_db =
  md_auth :: auth_db
  md_ca :: ca_db
  md_enrolled :: "auth_certificate list"

record mtls_session = web_session +
  s_role :: "string option"
  s_cert_id :: "int option"
  s_cert_serial :: "string option"

definition mtls_clear :: mtls_session where
  "mtls_clear = web_session.extend web_clear \<lparr>s_role = None, s_cert_id = None, s_cert_serial = None\<rparr>"

record client_request =
  rq_peercert :: "string option"
  rq_remote_addr :: "string option"
  rq_headers :: "(string \<times> string) list"
  rq_api_key :: "string option"

record service_spec =
  ss_dn :: "(string \<times> string) list"
  ss_cert_type :: string
  ss_days :: int
  ss_key_type :: string
  ss_ocsp :: "string option"
  ss_cdp :: "string option"

record mtls_env =
  me_cert :: cert_env
  me_fingerprint :: "loaded \<Rightarrow> string"
  me_email :: "loaded \<Rightarrow> string option"
  me_sign :: "loaded \<Rightarrow> string \<Rightarrow> service_spec \<Rightarrow> py_error + string \<times> string"
  me_sha256 :: "string \<Rightarrow> string"
  me_trusted_proxies :: string

definition mtls_loaders :: "mtls_env \<Rightarrow> loaders" where
  "mtls_loaders e = ve_loaders (xe_ca (me_cert e))"

definition log_mtls :: "mtls_env \<Rightarrow> audit_args \<Rightarrow> mtls_db \<Rightarrow> mtls_db" where
  "log_mtls e args db = db\<lparr>md_ca := (md_ca db)\<lparr>cb_logs := ve_log (xe_ca (me_cert e)) args (cb_logs (md_ca db))\<rparr>\<rparr>"

definition find_by_serial :: "string \<Rightarrow> auth_certificate list \<Rightarrow> auth_certificate option" where
  "find_by_serial s rows = find (\<lambda>r. ac_serial r = s) rows"

subsection \<open>Reading certificates\<close>

record presented =
  pr_subject :: string
  pr_issuer :: "string option"
  pr_serial :: "string option"
  pr_fingerprint :: "string option"
  pr_common_name :: "string option"
  pr_email :: "string option"
  pr_valid_from :: "time option"
  pr_valid_until :: "time option"
  pr_is_valid :: bool

definition client_pem_begin :: string where "client_pem_begin = ''-----BEGIN CERTIFICATE-----''"

definition client_pem_end :: string where "client_pem_end = ''-----END CERTIFICATE-----''"

definition framed_pem :: "string \<Rightarrow> string" where
  "framed_pem text =
     (let nl = [CHR 0x0A];
          s = replace_text 0 ''%0A'' nl (replace_text 0 (CHR 0x5C # ''n'') nl (strip text));
          s1 = (if startswith s client_pem_begin then s else client_pem_begin @ nl @ s)
      in if endswith s1 client_pem_end then s1 else s1 @ nl @ client_pem_end)"

definition parse_pem_certificate :: "mtls_env \<Rightarrow> string \<Rightarrow> loaded option" where
  "parse_pem_certificate e text = (case lo_pem (mtls_loaders e) (framed_pem text) of Inl _ \<Rightarrow> None | Inr x \<Rightarrow> Some x)"

definition hex_serial :: "int \<Rightarrow> string" where
  "hex_serial n = upper (format_hex n)"

definition attr_of :: "(string \<times> string) list \<Rightarrow> string \<Rightarrow> string option" where
  "attr_of attrs oid = map_option snd (find (\<lambda>a. fst a = oid) attrs)"

definition extract_certificate_info :: "mtls_env \<Rightarrow> time \<Rightarrow> loaded \<Rightarrow> presented" where
  "extract_certificate_info e now x =
     \<lparr>pr_subject = ld_subject x, pr_issuer = Some (ld_issuer x), pr_serial = Some (hex_serial (ld_serial x)),
      pr_fingerprint = Some (me_fingerprint e x), pr_common_name = attr_of (ld_attributes x) ''commonName'',
      pr_email = me_email e x, pr_valid_from = Some (ld_valid_from x), pr_valid_until = Some (ld_valid_to x),
      pr_is_valid = (ld_valid_from x \<le> now \<and> now \<le> ld_valid_to x)\<rparr>"

text \<open>A name is split at commas that do not follow a backslash; a later part with the same key wins.\<close>

fun unescaped_parts :: "bool \<Rightarrow> string \<Rightarrow> string \<Rightarrow> string list" where
  "unescaped_parts escaped part [] = [rev part]"
| "unescaped_parts escaped part (c # s) =
     (if c = CHR '','' \<and> \<not> escaped then rev part # unescaped_parts False [] s
      else unescaped_parts (c = CHR 0x5C) (c # part) s)"

definition parse_dn_string :: "string \<Rightarrow> (string \<times> string) list" where
  "parse_dn_string dn =
     foldl (\<lambda>d p. let part = strip p; key = takeWhile (\<lambda>c. c \<noteq> CHR ''='') part; value = drop (length key + 1) part
                  in if CHR ''='' \<in> set part
                     then dict_set (upper (strip key)) (replace_text 0 (CHR 0x5C # '','') '','' (strip value)) d else d)
       [] (unescaped_parts False [] dn)"

definition proxy_certificate :: "mtls_env \<Rightarrow> time \<Rightarrow> string \<Rightarrow> string option \<Rightarrow> (string \<times> string) list \<Rightarrow> presented option" where
  "proxy_certificate e now serial_header fingerprint headers =
     (let get = map_of headers in
      if upper (case get ''X-SSL-Client-Verify'' of None \<Rightarrow> [] | Some v \<Rightarrow> v) \<noteq> ''SUCCESS'' then None
      else (case (if nonempty (get ''X-SSL-Client-Cert'') then parse_pem_certificate e (the (get ''X-SSL-Client-Cert'')) else None) of
              Some x \<Rightarrow> Some (extract_certificate_info e now x)
            | None \<Rightarrow>
                if nonempty (get ''X-SSL-Client-S-DN'')
                then (let subject = the (get ''X-SSL-Client-S-DN''); parts = map_of (parse_dn_string subject) in
                      Some \<lparr>pr_subject = subject, pr_issuer = get ''X-SSL-Client-I-DN'', pr_serial = get serial_header,
                            pr_fingerprint = fingerprint, pr_common_name = parts ''CN'',
                            pr_email = (if nonempty (parts ''EMAILADDRESS'') then parts ''EMAILADDRESS'' else parts ''EMAIL''),
                            pr_valid_from = None, pr_valid_until = None, pr_is_valid = True\<rparr>)
                else None))"

definition extract_from_nginx_headers :: "mtls_env \<Rightarrow> time \<Rightarrow> (string \<times> string) list \<Rightarrow> presented option" where
  "extract_from_nginx_headers e now headers =
     proxy_certificate e now ''X-SSL-Client-Serial'' (map_of headers ''X-SSL-Client-Fingerprint'') headers"

definition extract_from_apache_headers :: "mtls_env \<Rightarrow> time \<Rightarrow> (string \<times> string) list \<Rightarrow> presented option" where
  "extract_from_apache_headers e now headers = proxy_certificate e now ''X-SSL-Client-M-Serial'' None headers"

definition extract_from_flask_native :: "mtls_env \<Rightarrow> string \<Rightarrow> presented option" where
  "extract_from_flask_native e der =
     (case lo_der (mtls_loaders e) der of
        Inl _ \<Rightarrow> None
      | Inr x \<Rightarrow>
          (let parts = attr_of (rev (ld_attributes x)) in
           Some \<lparr>pr_subject = ld_subject x, pr_issuer = Some (ld_issuer x), pr_serial = Some (hex_serial (ld_serial x)),
                 pr_fingerprint = Some (me_fingerprint e x), pr_common_name = parts ''commonName'', pr_email = parts ''emailAddress'',
                 pr_valid_from = Some (ld_valid_from x), pr_valid_until = Some (ld_valid_to x), pr_is_valid = True\<rparr>))"

subsection \<open>The service\<close>

definition is_hex_char :: "char \<Rightarrow> bool" where
  "is_hex_char c = (c \<in> set ''0123456789ABCDEFabcdef'')"

text \<open>The same number in the other spelling: as a decimal number, or as a hexadecimal one of the text read as decimal.\<close>

definition find_other_spelling :: "string \<Rightarrow> auth_certificate list \<Rightarrow> auth_certificate option" where
  "find_other_spelling s rows =
     (case (if list_all is_hex_char s then Option.bind (py_int 16 s) (\<lambda>n. find_by_serial (str_int n) rows) else None) of
        Some r \<Rightarrow> Some r
      | None \<Rightarrow> Option.bind (py_int 10 s) (\<lambda>n. find_by_serial (hex_serial n) rows))"

definition find_enrolled :: "presented \<Rightarrow> auth_certificate list \<Rightarrow> auth_certificate option" where
  "find_enrolled info rows =
     (let s = the (pr_serial info) in
      case (case find_by_serial s rows of Some r \<Rightarrow> Some r | None \<Rightarrow> find_other_spelling s rows) of
        Some r \<Rightarrow> Some r
      | None \<Rightarrow> if nonempty (pr_fingerprint info) then find (\<lambda>r. ac_fingerprint r = pr_fingerprint info) rows else None)"

definition authenticate_certificate :: "time \<Rightarrow> presented \<Rightarrow> mtls_db \<Rightarrow> (string + user \<times> auth_certificate) \<times> mtls_db" where
  "authenticate_certificate now info db =
     (if \<not> nonempty (pr_serial info) then (Inl ''Certificate serial number not found'', db)
      else (case find_enrolled info (md_enrolled db) of
              None \<Rightarrow> (Inl ''Certificate not enrolled'', db)
            | Some ac \<Rightarrow>
                if \<not> ac_enabled ac then (Inl ''Certificate is disabled'', db)
                else if (case pr_valid_until info of None \<Rightarrow> False | Some t \<Rightarrow> t < now) then (Inl ''Certificate has expired'', db)
                else if (case pr_valid_from info of None \<Rightarrow> False | Some t \<Rightarrow> now < t) then (Inl ''Certificate is not yet valid'', db)
                else (case row_get u_id (users (md_auth db)) (ac_user_id ac) of
                        None \<Rightarrow> (Inl ''User not found'', db)
                      | Some u \<Rightarrow>
                          if \<not> active u then (Inl ''User account is disabled'', db)
                          else (let ac' = ac\<lparr>ac_last_used_at := Some now\<rparr>
                                in (Inr (u, ac'), db\<lparr>md_enrolled := row_update ac_id (ac_id ac) (\<lambda>_. ac') (md_enrolled db)\<rparr>)))))"

text \<open>A new row; the column of serial numbers is unique, and a second row with the same text raises.\<close>

definition add_enrolled :: "auth_certificate \<Rightarrow> mtls_db \<Rightarrow> mtls_db option" where
  "add_enrolled row db =
     (if list_ex (\<lambda>r. ac_serial r = ac_serial row) (md_enrolled db) then None
      else Some (db\<lparr>md_enrolled := md_enrolled db @ [row]\<rparr>))"

definition enrolled_row :: "time \<Rightarrow> int \<Rightarrow> string \<Rightarrow> string option \<Rightarrow> presented \<Rightarrow> mtls_db \<Rightarrow> auth_certificate" where
  "enrolled_row now uid serial name info db =
     \<lparr>ac_id = next_id ac_id (md_enrolled db), ac_user_id = uid, ac_cert_pem = None, ac_serial = serial, ac_subject = pr_subject info,
      ac_issuer = pr_issuer info, ac_fingerprint = pr_fingerprint info,
      ac_name = Some (if nonempty name then the name else if nonempty (pr_common_name info) then the (pr_common_name info)
                      else ''Certificate '' @ take 8 serial),
      ac_enabled = True, ac_valid_from = pr_valid_from info, ac_valid_until = pr_valid_until info, ac_created_at = now,
      ac_last_used_at = None\<rparr>"

definition enroll_certificate :: "mtls_env \<Rightarrow> time \<Rightarrow> int \<Rightarrow> string \<Rightarrow> string option \<Rightarrow> mtls_db \<Rightarrow> (string + auth_certificate) \<times> mtls_db" where
  "enroll_certificate e now uid pem name db =
     (case parse_pem_certificate e pem of
        None \<Rightarrow> (Inl ''Invalid certificate format'', db)
      | Some x \<Rightarrow>
          (let info = extract_certificate_info e now x; serial = the (pr_serial info) in
           if find_by_serial serial (md_enrolled db) \<noteq> None then (Inl ''Certificate already enrolled'', db)
           else if \<not> pr_is_valid info then (Inl ''Certificate is not valid (expired or not yet valid)'', db)
           else (let row = enrolled_row now uid serial name info db in (Inr row, the (add_enrolled row db)))))"

text \<open>Disabling and deleting, for a caller with an identifier: the owner or an administrator.\<close>

definition may_change :: "int option \<Rightarrow> auth_certificate \<Rightarrow> mtls_db \<Rightarrow> bool" where
  "may_change uid ac db =
     (case uid of
        None \<Rightarrow> True
      | Some i \<Rightarrow>
          i = 0 \<or> ac_user_id ac = i \<or>
          (case row_get u_id (users (md_auth db)) i of None \<Rightarrow> False | Some u \<Rightarrow> role u = ''admin''))"

definition revoke_enrolled :: "int \<Rightarrow> int option \<Rightarrow> mtls_db \<Rightarrow> (bool \<times> string) \<times> mtls_db" where
  "revoke_enrolled i uid db =
     (case row_get ac_id (md_enrolled db) i of
        None \<Rightarrow> ((False, ''Certificate not found''), db)
      | Some ac \<Rightarrow>
          if \<not> may_change uid ac db then ((False, ''Not authorized to revoke this certificate''), db)
          else ((True, ''Certificate revoked successfully''),
                db\<lparr>md_enrolled := row_update ac_id i (\<lambda>r. r\<lparr>ac_enabled := False\<rparr>) (md_enrolled db)\<rparr>))"

definition delete_enrolled :: "int \<Rightarrow> int option \<Rightarrow> mtls_db \<Rightarrow> (bool \<times> string) \<times> mtls_db" where
  "delete_enrolled i uid db =
     (case row_get ac_id (md_enrolled db) i of
        None \<Rightarrow> ((False, ''Certificate not found''), db)
      | Some ac \<Rightarrow>
          if \<not> may_change uid ac db then ((False, ''Not authorized to delete this certificate''), db)
          else ((True, ''Certificate deleted successfully''), db\<lparr>md_enrolled := row_delete ac_id i (md_enrolled db)\<rparr>))"

definition is_mtls_enabled :: "mtls_db \<Rightarrow> bool" where
  "is_mtls_enabled db =
     (case map_of (sys_config (md_auth db)) ''mtls_enabled'' of
        Some (Some v) \<Rightarrow> v \<noteq> [] \<and> lower v \<in> {''true'', ''1'', ''yes''}
      | _ \<Rightarrow> False)"

definition get_user_certificates :: "int \<Rightarrow> mtls_db \<Rightarrow> auth_certificate list" where
  "get_user_certificates uid db = filter (\<lambda>r. ac_user_id r = uid) (md_enrolled db)"

subsection \<open>The hook before each request\<close>

definition get_trusted_proxies :: "string \<Rightarrow> string list option" where
  "get_trusted_proxies text =
     (if text = [] then Some [''127.0.0.1'', ''::1'']
      else if text = ''*'' then None
      else Some (filter (\<lambda>p. p \<noteq> []) (map strip (split_on (CHR '','') text))))"

text \<open>An empty set of proxies is as good as none: the test \<^verbatim>\<open>trusted_proxies and ...\<close> is then false for every address.\<close>

definition from_trusted :: "string \<Rightarrow> client_request \<Rightarrow> bool" where
  "from_trusted text rq =
     (case get_trusted_proxies text of
        None \<Rightarrow> True
      | Some ps \<Rightarrow> ps = [] \<or> (case rq_remote_addr rq of None \<Rightarrow> [] | Some a \<Rightarrow> a) \<in> set ps)"

definition has_header :: "string \<Rightarrow> client_request \<Rightarrow> bool" where
  "has_header name rq = (map_of (rq_headers rq) name \<noteq> None)"

definition extract_certificate :: "mtls_env \<Rightarrow> time \<Rightarrow> client_request \<Rightarrow> presented option" where
  "extract_certificate e now rq =
     (case (if nonempty (rq_peercert rq) then extract_from_flask_native e (the (rq_peercert rq)) else None) of
        Some info \<Rightarrow> Some info
      | None \<Rightarrow>
          if \<not> from_trusted (me_trusted_proxies e) rq then None
          else (case (if has_header ''X-SSL-Client-Verify'' rq then extract_from_nginx_headers e now (rq_headers rq) else None) of
                  Some info \<Rightarrow> Some info
                | None \<Rightarrow> if has_header ''X-SSL-Client-S-DN'' rq then extract_from_apache_headers e now (rq_headers rq) else None))"

definition certificate_session :: "time \<Rightarrow> user \<Rightarrow> auth_certificate \<Rightarrow> mtls_session \<Rightarrow> mtls_session" where
  "certificate_session now u ac s =
     s\<lparr>s_user_id := Some (u_id u), s_username := Some (username u), s_role := Some (role u), s_auth_method := Some ''certificate'',
       s_cert_id := Some (ac_id ac), s_cert_serial := Some (ac_serial ac), s_login_time := Some (Iso now),
       s_last_activity := Some (Iso now), s_permanent := True\<rparr>"

definition mtls_auto_login :: "mtls_env \<Rightarrow> time \<Rightarrow> client_request \<Rightarrow> mtls_db \<times> mtls_session \<Rightarrow> mtls_db \<times> mtls_session" where
  "mtls_auto_login e now rq st =
     (let (db, s) = st in
      if \<not> is_mtls_enabled db then st
      else (case extract_certificate e now rq of
              None \<Rightarrow> st
            | Some info \<Rightarrow>
                (case authenticate_certificate now info db of
                   (Inl _, db') \<Rightarrow> (db', s)
                 | (Inr (u, ac), db') \<Rightarrow>
                     (log_mtls e (log_auth ''login_success'' (username u) (Some (u_id u))
                        (Some (''mTLS auto-login (cert: '' @ ac_serial ac @ '')'')) True) db',
                      certificate_session now u ac s))))"

definition process_client_certificate :: "mtls_env \<Rightarrow> time \<Rightarrow> client_request \<Rightarrow> mtls_db \<times> mtls_session \<Rightarrow> mtls_db \<times> mtls_session" where
  "process_client_certificate e now rq st =
     (let (db, s) = st in
      if s_user_id s = None \<or> s_user_id s = Some 0 then mtls_auto_login e now rq st
      else if s_auth_method s = Some ''certificate'' then st
      else (case verify_request_auth (me_sha256 e) now (md_auth db) (session.truncate s) (rq_api_key rq) of
              (Some _, adb, s') \<Rightarrow> (db\<lparr>md_auth := adb\<rparr>, s\<lparr>s_last_activity := s_last_activity s'\<rparr>)
            | (None, adb, _) \<Rightarrow> mtls_auto_login e now rq (db\<lparr>md_auth := adb\<rparr>, mtls_clear)))"

text \<open>The decorator for routes that need a certificate.\<close>

definition require_client_certificate :: "mtls_session \<Rightarrow> (unit \<Rightarrow> 'r http) \<Rightarrow> 'r http" where
  "require_client_certificate s f =
     (if s_auth_method s \<noteq> Some ''certificate'' then error_response ''Client certificate required'' 403 else f ())"

subsection \<open>The login route\<close>

text \<open>Here, and when a presented certificate is enrolled, headers come first and are read whatever address they come from.\<close>

definition presented_anywhere :: "mtls_env \<Rightarrow> time \<Rightarrow> client_request \<Rightarrow> presented option" where
  "presented_anywhere e now rq =
     (if has_header ''X-SSL-Client-Verify'' rq then extract_from_nginx_headers e now (rq_headers rq)
      else if has_header ''X-SSL-Client-S-DN'' rq then extract_from_apache_headers e now (rq_headers rq)
      else if nonempty (rq_peercert rq) then extract_from_flask_native e (the (rq_peercert rq)) else None)"

definition login_mtls :: "mtls_env \<Rightarrow> time \<Rightarrow> client_request \<Rightarrow> mtls_db \<times> mtls_session \<Rightarrow> (user \<times> string list) http \<times> mtls_db \<times> mtls_session" where
  "login_mtls e now rq st =
     (let (db, s) = st in
      case presented_anywhere e now rq of
        None \<Rightarrow> (error_response ''No client certificate presented'' 401, st)
      | Some info \<Rightarrow>
          (case authenticate_certificate now info db of
             (Inl err, db') \<Rightarrow> (error_response err 401, db', s)
           | (Inr (u, ac), db') \<Rightarrow>
               (let u' = u\<lparr>last_login := Some now, login_count := Some ((case login_count u of None \<Rightarrow> 0 | Some n \<Rightarrow> n) + 1),
                           failed_logins := Some 0\<rparr>
                in (success_response (u', get_role_permissions (role u)) ''Login successful via mTLS'',
                    db'\<lparr>md_auth := (md_auth db')\<lparr>users := row_update u_id (u_id u) (\<lambda>_. u') (users (md_auth db'))\<rparr>\<rparr>,
                    mtls_clear\<lparr>s_user_id := Some (u_id u), s_username := Some (username u), s_auth_method := Some ''mtls'',
                               s_cert_serial := Some (ac_serial ac), s_permanent := True\<rparr>))))"

subsection \<open>What a login with a certificate rests on\<close>

text \<open>A row fits a certificate by the text of its serial number, by the other spelling of the number, or by the fingerprint. The issuer is not compared.\<close>

definition identifies :: "presented \<Rightarrow> auth_certificate \<Rightarrow> bool" where
  "identifies info r \<longleftrightarrow>
     pr_serial info = Some (ac_serial r) \<or>
     (\<exists>s n. pr_serial info = Some s \<and> py_int 16 s = Some n \<and> ac_serial r = str_int n) \<or>
     (\<exists>s n. pr_serial info = Some s \<and> py_int 10 s = Some n \<and> ac_serial r = hex_serial n) \<or>
     nonempty (pr_fingerprint info) \<and> ac_fingerprint r = pr_fingerprint info"

lemma find_by_serial_Some: "find_by_serial s rows = Some r \<Longrightarrow> r \<in> set rows \<and> ac_serial r = s"
  unfolding find_by_serial_def by (drule find_Some_in) simp

lemma find_other_spelling_Some:
  assumes "find_other_spelling s rows = Some r"
  shows "r \<in> set rows \<and> ((\<exists>n. py_int 16 s = Some n \<and> ac_serial r = str_int n) \<or> (\<exists>n. py_int 10 s = Some n \<and> ac_serial r = hex_serial n))"
  using assms unfolding find_other_spelling_def
  by (auto split: option.splits if_splits simp: bind_eq_Some_conv dest!: find_by_serial_Some)

lemma find_enrolled_Some:
  assumes "find_enrolled info rows = Some r" "nonempty (pr_serial info)"
  shows "r \<in> set rows \<and> identifies info r"
proof -
  obtain s where s: "pr_serial info = Some s" using assms(2) by (cases "pr_serial info") (auto simp: nonempty_def)
  from assms(1) consider "find_by_serial s rows = Some r" | "find_other_spelling s rows = Some r"
    | "nonempty (pr_fingerprint info)" "find (\<lambda>r. ac_fingerprint r = pr_fingerprint info) rows = Some r"
    by (auto simp: find_enrolled_def s Let_def split: option.splits if_splits)
  then show ?thesis
  proof cases
    case 1
    then show ?thesis using find_by_serial_Some [OF 1] s by (simp add: identifies_def)
  next
    case 2
    then show ?thesis using find_other_spelling_Some [OF 2] s by (auto simp: identifies_def)
  next
    case 3
    then show ?thesis using find_Some_in [OF 3(2)] by (simp add: identifies_def)
  qed
qed

definition usable :: "time \<Rightarrow> presented \<Rightarrow> mtls_db \<Rightarrow> user \<Rightarrow> auth_certificate \<Rightarrow> bool" where
  "usable now info db u r \<longleftrightarrow>
     r \<in> set (md_enrolled db) \<and> identifies info r \<and> ac_enabled r \<and> row_get u_id (users (md_auth db)) (ac_user_id r) = Some u \<and> active u \<and>
     (\<forall>t. pr_valid_from info = Some t \<longrightarrow> t \<le> now) \<and> (\<forall>t. pr_valid_until info = Some t \<longrightarrow> now \<le> t)"

lemma authenticate_certificate_Inr:
  assumes "authenticate_certificate now info db = (Inr (u, ac), db')"
  shows "\<exists>r. usable now info db u r \<and> ac = r\<lparr>ac_last_used_at := Some now\<rparr>"
proof -
  have serial: "nonempty (pr_serial info)" using assms by (auto simp: authenticate_certificate_def split: if_splits)
  obtain r where r: "find_enrolled info (md_enrolled db) = Some r"
    using assms serial by (auto simp: authenticate_certificate_def split: option.splits)
  have "ac_enabled r" "\<not> (case pr_valid_until info of None \<Rightarrow> False | Some t \<Rightarrow> t < now)"
    "\<not> (case pr_valid_from info of None \<Rightarrow> False | Some t \<Rightarrow> now < t)"
    using assms serial by (auto simp: authenticate_certificate_def r split: if_splits)
  moreover from this have "row_get u_id (users (md_auth db)) (ac_user_id r) = Some u" "active u" "ac = r\<lparr>ac_last_used_at := Some now\<rparr>"
    using assms serial by (auto simp: authenticate_certificate_def r Let_def split: option.splits if_splits)
  ultimately show ?thesis
    using find_enrolled_Some [OF r serial] by (auto simp: usable_def not_less split: option.splits)
qed

lemma authenticate_request_tables:
  assumes "authenticate_request h now db s k = (r, db', s')"
  shows "users db' = users db \<and> sys_config db' = sys_config db"
proof -
  have v: "users (snd (verify_api_key h now db x)) = users db \<and> sys_config (snd (verify_api_key h now db x)) = sys_config db" for x
    by (simp add: verify_api_key_def split: option.split)
  show ?thesis
    using assms v [of "the k"] unfolding authenticate_request_def
    by (auto split: option.splits prod.splits if_splits)
qed

definition trusted_source :: "mtls_env \<Rightarrow> client_request \<Rightarrow> bool" where
  "trusted_source e rq \<longleftrightarrow> nonempty (rq_peercert rq) \<or> from_trusted (me_trusted_proxies e) rq"

lemma extract_certificate_trusted: "extract_certificate e now rq = Some info \<Longrightarrow> trusted_source e rq"
  by (auto simp: extract_certificate_def trusted_source_def split: if_splits)

lemma auto_login_sound:
  assumes "mtls_auto_login e now rq (db, s) = (db', s')" "s_user_id s' = Some i" "s_user_id s \<noteq> Some i"
  shows "is_mtls_enabled db \<and> (\<exists>info u r. extract_certificate e now rq = Some info \<and> usable now info db u r \<and> ac_user_id r = i)"
proof -
  have on: "is_mtls_enabled db" using assms by (cases "is_mtls_enabled db") (auto simp: mtls_auto_login_def)
  obtain info where info: "extract_certificate e now rq = Some info"
    using assms on by (cases "extract_certificate e now rq") (auto simp: mtls_auto_login_def)
  obtain u ac d where a: "authenticate_certificate now info db = (Inr (u, ac), d)"
    using assms on info by (auto simp: mtls_auto_login_def split: prod.splits sum.splits)
  obtain r where r: "usable now info db u r" "ac = r\<lparr>ac_last_used_at := Some now\<rparr>"
    using authenticate_certificate_Inr [OF a] by blast
  have "s_user_id s' = Some (u_id u)" using assms(1) on info a by (auto simp: mtls_auto_login_def certificate_session_def)
  moreover have "u_id u = ac_user_id r" using r(1) row_get_Some by (fastforce simp: usable_def)
  ultimately show ?thesis using on info r(1) assms(2) by auto
qed

lemma blank_proxies_trust_everyone:
  "text \<noteq> [] \<Longrightarrow> \<forall>p \<in> set (split_on (CHR '','') text). strip p = [] \<Longrightarrow> from_trusted text rq"
  by (auto simp: from_trusted_def get_trusted_proxies_def filter_empty_conv)

subsection \<open>Properties\<close>

text \<open>C8. The hook that logs callers in by their certificate gives a session to a user only if the feature is on and the certificate comes from the TLS
  connection or from the headers of a trusted proxy, is within its dates and fits an enrolled, enabled row of that user, who is active.\<close>

theorem certificate_login_sound:
  assumes "process_client_certificate e now rq (db, s) = (db', s')" "s_user_id s' = Some i" "s_user_id s \<noteq> Some i"
  shows "is_mtls_enabled db \<and> trusted_source e rq \<and>
    (\<exists>info u r. extract_certificate e now rq = Some info \<and> usable now info db u r \<and> ac_user_id r = i)"
proof -
  have goal: ?thesis if a: "mtls_auto_login e now rq (d, s0) = (db', s')" and "s_user_id s0 \<noteq> Some i"
    and same: "users (md_auth d) = users (md_auth db)" "sys_config (md_auth d) = sys_config (md_auth db)" "md_enrolled d = md_enrolled db" for d s0
    using auto_login_sound [OF a assms(2) that(2)] same extract_certificate_trusted
    by (auto simp: usable_def is_mtls_enabled_def)
  show ?thesis
  proof (cases "s_user_id s = None \<or> s_user_id s = Some 0")
    case True
    then show ?thesis using assms by (intro goal [of db s]) (simp_all add: process_client_certificate_def)
  next
    case False
    then have other: "s_auth_method s \<noteq> Some ''certificate''" using assms by (auto simp: process_client_certificate_def)
    obtain v adb s1 where v: "verify_request_auth (me_sha256 e) now (md_auth db) (session.truncate s) (rq_api_key rq) = (v, adb, s1)"
      by (metis prod_cases3)
    have "v = None" using assms False other v by (cases v) (auto simp: process_client_certificate_def)
    moreover have "users adb = users (md_auth db) \<and> sys_config adb = sys_config (md_auth db)"
      using v by (auto simp: verify_request_auth_def split: prod.splits dest: authenticate_request_tables)
    ultimately show ?thesis
      using assms False other v
      by (intro goal [of "db\<lparr>md_auth := adb\<rparr>" mtls_clear])
        (simp_all add: process_client_certificate_def mtls_clear_def web_clear_def session_clear_def web_session.extend_def session.extend_def)
  qed
qed

definition demo_leaf :: loaded where
  "demo_leaf = \<lparr>ld_pem = ''-----BEGIN L'', ld_attributes = [], ld_subject = ''CN=l'', ld_issuer = ''CN=r'', ld_same_names = False,
     ld_valid_from = 0, ld_valid_to = 100, ld_serial = 171, ld_ski = None, ld_aki = None, ld_basic_ca = None\<rparr>"

definition demo_client_env :: mtls_env where
  "demo_client_env = \<lparr>me_cert = demo_cert_env\<lparr>xe_ca := demo_ca_env\<lparr>ve_loaders := demo_loaders\<lparr>lo_der := (\<lambda>_. Inr demo_leaf), lo_pem := (\<lambda>_. Inr demo_leaf)\<rparr>\<rparr>\<rparr>,
     me_fingerprint = (\<lambda>_. ''F''), me_email = (\<lambda>_. None), me_sign = (\<lambda>_ _ _. Inr (''-----BEGIN L'', ''K'')), me_sha256 = id, me_trusted_proxies = []\<rparr>"

definition demo_client_row :: auth_certificate where
  "demo_client_row = \<lparr>ac_id = 1, ac_user_id = 1, ac_cert_pem = None, ac_serial = ''171'', ac_subject = [], ac_issuer = None, ac_fingerprint = None,
     ac_name = None, ac_enabled = True, ac_valid_from = None, ac_valid_until = None, ac_created_at = 0, ac_last_used_at = None\<rparr>"

definition demo_clients :: mtls_db where
  "demo_clients = \<lparr>md_auth = demo_db\<lparr>sys_config := [(''mtls_enabled'', Some ''true'')]\<rparr>, md_ca = empty_cas, md_enrolled = [demo_client_row]\<rparr>"

definition demo_presented :: client_request where
  "demo_presented = \<lparr>rq_peercert = Some ''D'', rq_remote_addr = None, rq_headers = [], rq_api_key = None\<rparr>"

lemma demo_login: "s_user_id (snd (process_client_certificate demo_client_env 50 demo_presented (demo_clients, mtls_clear))) = Some 1"
  "s_user_id mtls_clear = None"
  by code_simp+

theorem certificate_login_sound_witness:
  "is_mtls_enabled demo_clients \<and> trusted_source demo_client_env demo_presented \<and>
   (\<exists>info u r. extract_certificate demo_client_env 50 demo_presented = Some info \<and> usable 50 info demo_clients u r \<and> ac_user_id r = 1)"
  using certificate_login_sound [of demo_client_env 50 demo_presented demo_clients mtls_clear _ _ 1, OF prod.collapse [symmetric]] demo_login by simp

end
