(* ===== verification/Mtls_Api.thy ===== *)
theory Mtls_Api
  imports Mtls
begin

text \<open>
  The routes by which users manage their client certificates, \<^verbatim>\<open>api/v2/mtls.py\<close>, with \<^verbatim>\<open>create_certificate\<close> of
  \<^verbatim>\<open>services/cert_service.py\<close>, which they call.

  The caller is \<^verbatim>\<open>g.current_user\<close>; most of these routes ask for a login and no permission. Building and signing a certificate (\<open>me_sign\<close>) is a
  function of the cryptography package. The restart of the service after a change of the settings is left out.
\<close>

subsection \<open>Issuing by the service\<close>

definition clamped_days :: "time \<Rightarrow> loaded \<Rightarrow> int \<Rightarrow> int" where
  "clamped_days now ca d = (if ld_valid_to ca < now + days d then max 1 ((ld_valid_to ca - now) div days 1) else d)"

definition service_row :: "mtls_env \<Rightarrow> time \<Rightarrow> int \<Rightarrow> string \<Rightarrow> string \<Rightarrow> string \<Rightarrow> string \<Rightarrow> string \<Rightarrow> loaded \<Rightarrow> string \<Rightarrow> string \<Rightarrow> cert_record" where
  "service_row e now i refid descr caref cert_type user x pem key =
     \<lparr>ct_id = i, ct_refid = refid, ct_descr = descr, ct_subject = Some (ld_subject x), ct_issuer = Some (ld_issuer x), ct_caref = Some caref,
      ct_crt = Some (b64encode pem), ct_prv = Some (ve_encrypt (xe_ca (me_cert e)) (b64encode key)), ct_valid_from = Some (ld_valid_from x),
      ct_valid_to = Some (ld_valid_to x), ct_serial_number = Some (service_serial (ld_serial x)), ct_revoked = False, ct_revoked_at = None,
      ct_revoke_reason = None, cx_aki = None, cx_ski = None, cx_subject_cn = None, cx_created_at = now, cx_csr = None,
      cx_cert_type = Some cert_type, cx_san_dns = None, cx_san_ip = None, cx_san_email = None, cx_created_by = Some user,
      cx_imported_from = Some ''generated''\<rparr>"

definition service_sign :: "mtls_env \<Rightarrow> time \<Rightarrow> (string \<times> string) list \<Rightarrow> string \<Rightarrow> string \<Rightarrow> int \<Rightarrow> ca_record \<Rightarrow> py_error + loaded \<times> string \<times> string" where
  "service_sign e now dn cert_type key_type validity ca =
     (let l = mtls_loaders e in
      and_then (and_then (unbase64 (au_crt ca)) (lo_pem l)) (\<lambda>cert.
      and_then (case and_then (decoded_key (xe_ca (me_cert e)) ca) (\<lambda>k. lo_key l k None) of
                  Inl err \<Rightarrow> Inl (Value_error (''Failed to load CA private key: '' @ error_text err)) | Inr k \<Rightarrow> Inr k) (\<lambda>key.
      and_then (me_sign e cert key
        \<lparr>ss_dn = dn, ss_cert_type = cert_type, ss_days = clamped_days now cert validity, ss_key_type = key_type,
         ss_ocsp = (if au_ocsp_enabled ca \<and> nonempty (cw_ocsp_url ca) then cw_ocsp_url ca else None),
         ss_cdp = (if au_cdp_enabled ca \<and> nonempty (au_cdp_url ca)
                   then Some (replace_text 0 ''{ca_refid}'' (au_refid ca) (the (au_cdp_url ca))) else None)\<rparr>) (\<lambda>(pem, key_pem).
      and_then (lo_pem l pem) (\<lambda>x. Inr (x, pem, key_pem))))))"

definition service_create_certificate ::
  "mtls_env \<Rightarrow> time \<Rightarrow> string \<Rightarrow> string \<Rightarrow> string \<Rightarrow> (string \<times> string) list \<Rightarrow> string \<Rightarrow> string \<Rightarrow> int \<Rightarrow> string \<Rightarrow> ca_db \<Rightarrow>
     (py_error + cert_record) \<times> ca_db" where
  "service_create_certificate e now refid descr caref dn cert_type key_type validity user db =
     (case find (\<lambda>a. au_refid a = caref) (cb_cas db) of
        None \<Rightarrow> (Inl (Value_error (''CA not found: '' @ caref)), db)
      | Some ca \<Rightarrow>
          if \<not> nonempty (au_prv ca) then (Inl (Value_error ''CA has no private key - cannot sign certificates''), db)
          else (case service_sign e now dn cert_type key_type validity ca of
                  Inl err \<Rightarrow> (Inl err, db)
                | Inr (x, pem, key) \<Rightarrow>
                    if list_ex (\<lambda>r. ct_refid r = refid) (cb_certs db) then (Inl (Other_error ''IntegrityError''), db)
                    else
                      (let row = service_row e now (next_id ct_id (cb_certs db)) refid descr caref cert_type user x pem key;
                           nfkd = ve_nfkd (xe_ca (me_cert e))
                       in (Inr row,
                           db\<lparr>cb_cas := row_update au_id (au_id ca) next_serial (cb_cas db), cb_certs := cb_certs db @ [row],
                              cb_logs := ve_log (xe_ca (me_cert e)) (log_certificate ''cert_created'' (cert_object (certificate.truncate row))
                                 (Some (''Created certificate: '' @ descr)) True) (cb_logs db),
                              cb_files := dict_set (''private'', cert_key_path nfkd (ct_subject row) descr refid) key
                                 (dict_set (''certs'', cert_cert_path nfkd (ct_subject row) descr refid) pem (cb_files db))\<rparr>))))"

subsection \<open>Settings\<close>

record mtls_settings =
  st_enabled :: "bool option"
  st_required :: "bool option"
  st_trusted_ca :: "string option"

definition mtls_config :: "string \<Rightarrow> mtls_db \<Rightarrow> string option" where
  "mtls_config key db = (case map_of (sys_config (md_auth db)) key of None \<Rightarrow> None | Some v \<Rightarrow> v)"

definition get_mtls_settings :: "mtls_db \<Rightarrow> (bool \<times> bool \<times> string option \<times> ca_record option) http" where
  "get_mtls_settings db =
     (let refid = mtls_config ''mtls_trusted_ca_id'' db in
      success_response
        (mtls_config ''mtls_enabled'' db = Some ''true'', mtls_config ''mtls_required'' db = Some ''true'', refid,
         if nonempty refid then find (\<lambda>a. au_refid a = the refid) (cb_cas (md_ca db)) else None) [])"

definition truth_text :: "bool \<Rightarrow> string" where
  "truth_text b = (if b then ''true'' else ''false'')"

definition set_setting :: "string \<Rightarrow> string option \<Rightarrow> (string \<times> string option) list \<Rightarrow> (string \<times> string option) list" where
  "set_setting key v cfg = (if v = None then cfg else dict_set key v cfg)"

definition admin_enrolled :: "mtls_db \<Rightarrow> bool" where
  "admin_enrolled db =
     list_ex (\<lambda>r. ac_enabled r \<and> list_ex (\<lambda>u. u_id u = ac_user_id r \<and> role u = ''admin'' \<and> active u) (users (md_auth db))) (md_enrolled db)"

definition update_mtls_settings :: "mtls_env \<Rightarrow> mtls_settings option \<Rightarrow> mtls_db \<Rightarrow> bool http \<times> mtls_db" where
  "update_mtls_settings e body db =
     (case body of
        None \<Rightarrow> (error_response ''No data provided'' 400, db)
      | Some b \<Rightarrow>
          if st_enabled b = Some True \<and> nonempty (st_trusted_ca b) \<and>
             find (\<lambda>a. au_refid a = the (st_trusted_ca b)) (cb_cas (md_ca db)) = None
          then (error_response ''Trusted CA not found'' 404, db)
          else if st_required b = Some True \<and> st_enabled b = Some True \<and> \<not> admin_enrolled db
          then (error_response ''Cannot require mTLS: no admin user has an enrolled certificate. Enroll at least one admin certificate first.'' 400, db)
          else
            (let on = map_option truth_text (st_enabled b); req = map_option truth_text (st_required b); ca = st_trusted_ca b;
                 cfg = set_setting ''mtls_trusted_ca_id'' ca (set_setting ''mtls_required'' req (set_setting ''mtls_enabled'' on (sys_config (md_auth db))));
                 note = (\<lambda>name v. case v of None \<Rightarrow> [] | Some t \<Rightarrow> [name @ ''='' @ t]);
                 changes = note ''enabled'' on @ note ''required'' req @ note ''trusted_ca_id'' ca
             in (success_response (changes \<noteq> []) ''mTLS settings updated'',
                 log_mtls e (audit_call ''mtls_settings_update'' (Some ''settings'') No_id (Txt ''mTLS'')
                    (Txt (''Updated mTLS settings: '' @ join_with '', '' changes)) True None)
                   (db\<lparr>md_auth := (md_auth db)\<lparr>sys_config := cfg\<rparr>\<rparr>))))"

subsection \<open>Own certificates\<close>

definition list_mtls_certificates :: "user \<Rightarrow> mtls_db \<Rightarrow> auth_certificate list http" where
  "list_mtls_certificates u db =
     success_response (sort_key (\<lambda>r. - ac_created_at r) (get_user_certificates (u_id u) db)) []"

record client_body =
  cl_ca_id :: "(int + string) option"
  cl_validity_days :: "json option"
  cl_name :: "string option"
  cl_organization :: "string option"

definition chosen_ca :: "client_body \<Rightarrow> mtls_db \<Rightarrow> ca_record option" where
  "chosen_ca b db =
     (let cas = cb_cas (md_ca db); by_refid = (\<lambda>s. find (\<lambda>a. au_refid a = s) cas);
          first_of = (\<lambda>x y. case x of Some a \<Rightarrow> Some a | None \<Rightarrow> y);
          asked = (case cl_ca_id b of
                     None \<Rightarrow> None
                   | Some (Inl i) \<Rightarrow> if i = 0 then None else first_of (row_get au_id cas i) (by_refid (str_int i))
                   | Some (Inr s) \<Rightarrow> if s = [] then None else first_of (find (\<lambda>a. str_int (au_id a) = s) cas) (by_refid s));
          trusted = mtls_config ''mtls_trusted_ca_id'' db
      in first_of asked (first_of (if nonempty trusted then by_refid (the trusted) else None) (case cas of [] \<Rightarrow> None | a # _ \<Rightarrow> Some a)))"

definition organization_ok :: "string \<Rightarrow> bool" where
  "organization_ok s =
     (let ok = (\<lambda>t. t \<noteq> [] \<and> length t \<le> 64 \<and> list_all (\<lambda>c. is_digit c \<or> is_upper c \<or> is_lower c \<or> is_space c \<or> c = CHR ''-'' \<or> c = CHR ''.'') t)
      in ok s \<or> (s \<noteq> [] \<and> last s = CHR 0x0A \<and> ok (butlast s)))"

definition issued_enrollment :: "time \<Rightarrow> user \<Rightarrow> string \<Rightarrow> cert_record \<Rightarrow> mtls_db \<Rightarrow> auth_certificate" where
  "issued_enrollment now u name c db =
     \<lparr>ac_id = next_id ac_id (md_enrolled db), ac_user_id = u_id u, ac_cert_pem = None, ac_serial = or_else (ct_serial_number c) [],
      ac_subject = or_else (ct_subject c) [], ac_issuer = Some (or_else (ct_issuer c) []), ac_fingerprint = Some [], ac_name = Some name,
      ac_enabled = True, ac_valid_from = ct_valid_from c, ac_valid_until = ct_valid_to c, ac_created_at = now, ac_last_used_at = None\<rparr>"

definition create_mtls_certificate ::
  "mtls_env \<Rightarrow> time \<Rightarrow> string \<Rightarrow> user \<Rightarrow> client_body \<Rightarrow> mtls_db \<Rightarrow> (cert_record \<times> string) http \<times> mtls_db" where
  "create_mtls_certificate e now refid u b db =
     (case chosen_ca b db of
        None \<Rightarrow> (error_response ''No CA available'' 400, db)
      | Some ca \<Rightarrow>
          (case (case cl_validity_days b of None \<Rightarrow> Int_value 365 | Some j \<Rightarrow> json_to_int j) of
             Int_value d \<Rightarrow>
               (let org = (case cl_organization b of None \<Rightarrow> ''UCM Users'' | Some s \<Rightarrow> s);
                    name = (case cl_name b of None \<Rightarrow> username u @ '' mTLS'' | Some s \<Rightarrow> s)
                in if \<not> organization_ok org then (error_response ''Invalid organization name'' 400, db)
                   else (case service_create_certificate e now refid name (au_refid ca)
                                [(''CN'', username u @ ''@mtls''), (''O'', org), (''OU'', ''mTLS Clients'')] ''usr_cert'' ''2048''
                                (min (max d 1) 3650) (username u) (md_ca db) of
                           (Inl _, _) \<Rightarrow> (error_response ''Failed to create certificate'' 500, db)
                         | (Inr c, ca_db') \<Rightarrow>
                             (let db1 = db\<lparr>md_ca := ca_db'\<rparr>;
                                  key = map_of (cb_files ca_db')
                                    (''private'', cert_key_path (ve_nfkd (xe_ca (me_cert e))) (ct_subject c) (ct_descr c) (ct_refid c))
                              in (case add_enrolled (issued_enrollment now u name c db1) db1 of
                                    None \<Rightarrow> (error_response ''Failed to create certificate'' 500, db1)
                                  | Some db2 \<Rightarrow>
                                      (Success (c, or_else key []) ''mTLS certificate created'' 201,
                                       log_mtls e (audit_call ''mtls_cert_create'' (Some ''certificate'') (Txt_id (str_int (ct_id c))) (Txt name)
                                          (Txt (''Created mTLS certificate for user: '' @ username u)) True None) db2)))))
           | Bad_value \<Rightarrow> (Raised ''ValueError'', db)
           | Bad_type \<Rightarrow> (Raised ''TypeError'', db)))"

definition delete_mtls_certificate :: "mtls_env \<Rightarrow> user \<Rightarrow> int \<Rightarrow> mtls_db \<Rightarrow> unit http \<times> mtls_db" where
  "delete_mtls_certificate e u i db =
     (case row_get ac_id (md_enrolled db) i of
        None \<Rightarrow> (error_response ''Certificate not found'' 404, db)
      | Some ac \<Rightarrow>
          if ac_user_id ac \<noteq> u_id u \<and> role u \<noteq> ''admin'' then (error_response ''Not authorized'' 403, db)
          else (success_response () ''Certificate deleted'',
                log_mtls e (audit_call ''mtls_cert_delete'' (Some ''certificate'') (Txt_id (str_int i)) (Txt (or_else (ac_name ac) (ac_serial ac)))
                   (Txt (''Deleted mTLS certificate for user: '' @ username u)) True None)
                  (db\<lparr>md_enrolled := row_delete ac_id i (md_enrolled db)\<rparr>)))"

subsection \<open>Downloads\<close>

definition linked_certificate :: "auth_certificate \<Rightarrow> mtls_db \<Rightarrow> cert_record option" where
  "linked_certificate ac db = find (\<lambda>c. ct_serial_number c = Some (ac_serial ac)) (cb_certs (md_ca db))"

lemma fewer_unseen: "find p xs = Some x \<Longrightarrow> length (filter (\<lambda>a. \<not> p a) xs) < length xs"
  by (metis find_Some_iff length_filter_less nth_mem)

text \<open>The certificates above, up to a number of them; a CA that was seen ends the walk. A certificate that does not load is left out or ends it.\<close>

function chain_up :: "bool \<Rightarrow> (ca_record \<Rightarrow> py_error + string list) \<Rightarrow> ca_record list \<Rightarrow> nat \<Rightarrow> string option \<Rightarrow> string list" where
  "chain_up skip rd unseen n ref =
     (if \<not> nonempty ref \<or> n = 0 then []
      else (case find (\<lambda>a. au_refid a = the ref) unseen of
              None \<Rightarrow> []
            | Some ca \<Rightarrow>
                (let rest = filter (\<lambda>a. au_refid a \<noteq> the ref) unseen in
                 case rd ca of
                   Inl _ \<Rightarrow> if skip then chain_up skip rd rest n (cw_caref ca) else []
                 | Inr ts \<Rightarrow> ts @ chain_up skip rd rest (n - length ts) (cw_caref ca))))"
  by pat_completeness auto

termination
  by (relation "measure (\<lambda>(_, _, unseen, _, _). length unseen)") (use fewer_unseen in fastforce)+

declare chain_up.simps [simp del]

definition plain_key :: "mtls_env \<Rightarrow> cert_record \<Rightarrow> py_error + string" where
  "plain_key e c = and_then (unbase64 (the (ct_prv c))) (\<lambda>k. lo_key (mtls_loaders e) k None)"

definition download_mtls_certificate ::
  "mtls_env \<Rightarrow> user \<Rightarrow> int \<Rightarrow> string \<Rightarrow> string \<Rightarrow> mtls_db \<Rightarrow> download http \<times> mtls_db" where
  "download_mtls_certificate e u i fmt password db =
     (let name = sanitize_filename (Some (username u)) @ ''-mtls'';
          raised = (\<lambda>err. (Raised (error_text err), db));
          logged = (\<lambda>ac kind. log_mtls e (audit_call ''mtls_cert_download'' (Some ''certificate'') (Txt_id (str_int i))
             (Txt (or_else (ac_name ac) (str_int i))) (Txt (''Downloaded certificate as '' @ kind @ '' by user: '' @ username u)) True None) db)
      in case (if role u = ''admin'' then row_get ac_id (md_enrolled db) i
               else find (\<lambda>r. ac_id r = i \<and> ac_user_id r = u_id u) (md_enrolled db)) of
           None \<Rightarrow> (error_response (if role u = ''admin'' then ''Certificate not found'' else ''Certificate not found or not authorized'') 404, db)
         | Some ac \<Rightarrow>
             (case linked_certificate ac db of
                None \<Rightarrow> (error_response ''Certificate data not available'' 404, db)
              | Some c \<Rightarrow>
                  if \<not> nonempty (ct_crt c) then (error_response ''Certificate data not available'' 404, db)
                  else (case unbase64 (the (ct_crt c)) of
                          Inl err \<Rightarrow> raised err
                        | Inr cert_pem \<Rightarrow>
                            if fmt = ''p12'' \<or> fmt = ''pkcs12''
                            then
                              if length password < 8 then (error_response ''PKCS12 export requires a password of at least 8 characters'' 400, db)
                              else if \<not> nonempty (ct_prv c) then (error_response ''Private key not available for PKCS12 export'' 400, db)
                              else (case and_then (plain_key e c) (\<lambda>key. and_then (lo_pem (mtls_loaders e) cert_pem) (\<lambda>x.
                                           ve_pkcs12 (xe_ca (me_cert e)) (username u @ ''-mtls'') key (ld_pem x)
                                             (chain_up False (ca_loaded_pem (xe_ca (me_cert e))) (cb_cas (md_ca db)) 10 (ct_caref c)) password)) of
                                      Inl err \<Rightarrow> raised err
                                    | Inr bytes \<Rightarrow> (success_response (bytes, ''application/x-pkcs12'', name @ ''.p12'') [], logged ac ''PKCS12''))
                            else (success_response (cert_pem, ''application/x-pem-file'', name @ ''.pem'') [], logged ac ''PEM''))))"

subsection \<open>Enrolling\<close>

text \<open>The certificate of the connection comes first here, then headers, read whatever address they come from.\<close>

definition presented_to_enroll :: "mtls_env \<Rightarrow> time \<Rightarrow> client_request \<Rightarrow> presented option" where
  "presented_to_enroll e now rq =
     (case (if nonempty (rq_peercert rq) then extract_from_flask_native e (the (rq_peercert rq)) else None) of
        Some info \<Rightarrow> Some info
      | None \<Rightarrow>
          if has_header ''X-SSL-Client-Verify'' rq then extract_from_nginx_headers e now (rq_headers rq)
          else if has_header ''X-SSL-Client-S-DN'' rq then extract_from_apache_headers e now (rq_headers rq) else None)"

definition enroll_presented_certificate ::
  "mtls_env \<Rightarrow> time \<Rightarrow> client_request \<Rightarrow> user \<Rightarrow> string option \<Rightarrow> mtls_db \<Rightarrow> auth_certificate http \<times> mtls_db" where
  "enroll_presented_certificate e now rq u name db =
     (case presented_to_enroll e now rq of
        None \<Rightarrow> (error_response ''No client certificate detected in this request'' 400, db)
      | Some info \<Rightarrow>
          if (case pr_valid_until info of None \<Rightarrow> False | Some t \<Rightarrow> t < now) then (error_response ''Cannot enroll expired certificate'' 400, db)
          else if (case pr_valid_from info of None \<Rightarrow> False | Some t \<Rightarrow> now < t)
          then (error_response ''Cannot enroll certificate that is not yet valid'' 400, db)
          else (case pr_serial info of
                  None \<Rightarrow> (Raised (if nonempty name \<or> nonempty (pr_common_name info) then ''IntegrityError'' else ''TypeError''), db)
                | Some serial \<Rightarrow>
                    if find_by_serial serial (md_enrolled db) \<noteq> None then (error_response ''This certificate is already enrolled'' 409, db)
                    else
                      (let row = enrolled_row now (u_id u) serial name info db
                       in (success_response row ''Certificate enrolled'',
                           log_mtls e (audit_call ''mtls_cert_enroll'' (Some ''certificate'') No_id (Txt (the (ac_name row)))
                              (Txt (''Enrolled presented certificate for user: '' @ username u)) True None)
                             (db\<lparr>md_enrolled := md_enrolled db @ [row]\<rparr>)))))"

record import_body =
  eb_pem :: string
  eb_name :: string
  eb_user_id :: "int option"

definition target_user :: "int option \<Rightarrow> user \<Rightarrow> mtls_db \<Rightarrow> user option" where
  "target_user uid u db =
     (if uid \<noteq> None \<and> uid \<noteq> Some 0 \<and> role u = ''admin'' then row_get u_id (users (md_auth db)) (the uid) else Some u)"

definition loaded_enrollment :: "mtls_env \<Rightarrow> time \<Rightarrow> int \<Rightarrow> string \<Rightarrow> string \<Rightarrow> string \<Rightarrow> loaded \<Rightarrow> mtls_db \<Rightarrow> auth_certificate" where
  "loaded_enrollment e now uid serial name pem x db =
     \<lparr>ac_id = next_id ac_id (md_enrolled db), ac_user_id = uid, ac_cert_pem = Some pem, ac_serial = serial, ac_subject = ld_subject x,
      ac_issuer = Some (ld_issuer x), ac_fingerprint = Some (me_fingerprint e x), ac_name = Some name, ac_enabled = True,
      ac_valid_from = Some (ld_valid_from x), ac_valid_until = Some (ld_valid_to x), ac_created_at = now, ac_last_used_at = None\<rparr>"

definition imported_client_row :: "time \<Rightarrow> string \<Rightarrow> string \<Rightarrow> string \<Rightarrow> string \<Rightarrow> loaded \<Rightarrow> ca_db \<Rightarrow> cert_record" where
  "imported_client_row now refid name user pem x db =
     \<lparr>ct_id = next_id ct_id (cb_certs db), ct_refid = refid, ct_descr = name, ct_subject = Some (ld_subject x), ct_issuer = Some (ld_issuer x),
      ct_caref = map_option au_refid (find (\<lambda>a. au_subject a = Some (ld_issuer x)) (cb_cas db)), ct_crt = Some (b64encode pem), ct_prv = None,
      ct_valid_from = Some (ld_valid_from x), ct_valid_to = Some (ld_valid_to x), ct_serial_number = Some (str_int (ld_serial x)),
      ct_revoked = False, ct_revoked_at = None, ct_revoke_reason = None, cx_aki = None, cx_ski = None,
      cx_subject_cn = Some (or_else (attr_of (ld_attributes x) ''commonName'') []), cx_created_at = now, cx_csr = None,
      cx_cert_type = Some ''usr_cert'', cx_san_dns = None, cx_san_ip = None, cx_san_email = None, cx_created_by = Some user,
      cx_imported_from = None\<rparr>"

definition pem_of_text :: "string \<Rightarrow> string option" where
  "pem_of_text s = (if startswith s ''-----BEGIN'' then Some s else b64decode s)"

definition enroll_import_certificate ::
  "mtls_env \<Rightarrow> time \<Rightarrow> string \<Rightarrow> user \<Rightarrow> import_body \<Rightarrow> mtls_db \<Rightarrow> (auth_certificate \<times> int) http \<times> mtls_db" where
  "enroll_import_certificate e now refid u b db =
     (let text = strip (eb_pem b) in
      if text = [] then (error_response ''PEM certificate data is required'' 400, db)
      else (case pem_of_text text of
              None \<Rightarrow> (error_response ''Invalid certificate format. Expected PEM data.'' 400, db)
            | Some pem \<Rightarrow>
                (case lo_pem (mtls_loaders e) pem of
                   Inl _ \<Rightarrow> (error_response ''Invalid PEM certificate data'' 400, db)
                 | Inr x \<Rightarrow>
                     (let serial = str_int (ld_serial x); cn = or_else (attr_of (ld_attributes x) ''commonName'') [];
                          name = (if strip (eb_name b) \<noteq> [] then strip (eb_name b) else if cn \<noteq> [] then cn else ''Imported '' @ take 8 serial);
                          target = (case target_user (eb_user_id b) u db of None \<Rightarrow> u | Some t \<Rightarrow> t);
                          certs = cb_certs (md_ca db)
                      in if ld_valid_to x < now then (error_response ''Cannot enroll expired certificate'' 400, db)
                         else (case find_by_serial serial (md_enrolled db) of
                                 Some r \<Rightarrow>
                                   (error_response (if ac_user_id r = u_id u then ''This certificate is already enrolled to your account''
                                                    else ''This certificate is already enrolled to another user'') 409, db)
                               | None \<Rightarrow>
                                   (let known = find (\<lambda>c. ct_serial_number c = Some serial) certs;
                                        new = imported_client_row now refid name (username target) pem x (md_ca db);
                                        row = loaded_enrollment e now (u_id target) serial name pem x db;
                                        note = log_mtls e (audit_call ''mtls_cert_import'' (Some ''certificate'') No_id (Txt name)
                                          (Txt (''Imported PEM certificate for user: '' @ username target)) True None);
                                        add = (\<lambda>d. d\<lparr>md_enrolled := md_enrolled d @ [row]\<rparr>)
                                    in case known of
                                         Some c \<Rightarrow> (Success (row, ct_id c) ''Certificate imported successfully'' 201, note (add db))
                                       | None \<Rightarrow>
                                           if list_ex (\<lambda>c. ct_refid c = refid) certs then (Raised ''IntegrityError'', db)
                                           else (Success (row, ct_id new) ''Certificate imported successfully'' 201,
                                                 note (add (db\<lparr>md_ca := (md_ca db)\<lparr>cb_certs := certs @ [new]\<rparr>\<rparr>)))))))))"

subsection \<open>Assigning\<close>

definition list_available_certificates :: "user \<Rightarrow> mtls_db \<Rightarrow> cert_record list http" where
  "list_available_certificates u db =
     (let enrolled = map (\<lambda>r. Some (ac_serial r)) (md_enrolled db);
          free = (\<lambda>c. enrolled = [] \<or> ct_serial_number c \<noteq> None \<and> ct_serial_number c \<notin> set enrolled)
      in success_response
           (rev (filter (\<lambda>c. cx_cert_type c = Some ''usr_cert'' \<and> \<not> ct_revoked c \<and> free c \<and>
                   (role u \<in> {''admin'', ''operator''} \<or> cx_created_by c = Some (username u))) (cb_certs (md_ca db)))) [])"

record assign_body =
  ab_cert_id :: "int option"
  ab_user_id :: "int option"
  ab_name :: "string option"

text \<open>For whom a certificate is assigned, or the refusal.\<close>

definition assign_target :: "user \<Rightarrow> assign_body \<Rightarrow> cert_record \<Rightarrow> mtls_db \<Rightarrow> (string \<times> nat) + user" where
  "assign_target u b c db =
     (if ab_user_id b \<noteq> None \<and> ab_user_id b \<noteq> Some 0 \<and> role u = ''admin''
      then (case row_get u_id (users (md_auth db)) (the (ab_user_id b)) of None \<Rightarrow> Inl (''Target user not found'', 404) | Some t \<Rightarrow> Inr t)
      else if role u \<notin> {''admin'', ''operator''} \<and> cx_created_by c \<noteq> Some (username u)
      then Inl (''Not authorized to assign this certificate'', 403) else Inr u)"

definition assign_certificate :: "mtls_env \<Rightarrow> time \<Rightarrow> user \<Rightarrow> assign_body \<Rightarrow> mtls_db \<Rightarrow> (auth_certificate \<times> int) http \<times> mtls_db" where
  "assign_certificate e now u b db =
     (if ab_cert_id b = None \<or> ab_cert_id b = Some 0 then (error_response ''cert_id is required'' 400, db)
      else (case row_get ct_id (cb_certs (md_ca db)) (the (ab_cert_id b)) of
              None \<Rightarrow> (error_response ''Certificate not found'' 404, db)
            | Some c \<Rightarrow>
                if cx_cert_type c \<noteq> Some ''usr_cert'' then (error_response ''Only user certificates can be assigned for mTLS'' 400, db)
                else (case assign_target u b c db of
                        Inl (msg, code) \<Rightarrow> (error_response msg code, db)
                      | Inr t \<Rightarrow>
                          (case (case ct_serial_number c of None \<Rightarrow> None | Some s \<Rightarrow> find_by_serial s (md_enrolled db)) of
                             Some r \<Rightarrow>
                               (error_response (if ac_user_id r = u_id t then ''This certificate is already assigned to this account''
                                                else ''This certificate is already assigned to another user'') 409, db)
                           | None \<Rightarrow>
                               (case (case ct_crt c of None \<Rightarrow> Inl (Other_error ''TypeError'')
                                      | Some t \<Rightarrow> and_then (unbase64 t) (\<lambda>pem. and_then (lo_pem (mtls_loaders e) pem) (\<lambda>x. Inr (pem, x)))) of
                                  Inl _ \<Rightarrow> (error_response ''Failed to parse certificate'' 500, db)
                                | Inr (pem, x) \<Rightarrow>
                                    (let given_names = filter (\<lambda>s. s \<noteq> []) [or_else (ab_name b) [], ct_descr c, or_else (cx_subject_cn c) []] in
                                     case ct_serial_number c of
                                       None \<Rightarrow> (Raised (if given_names = [] then ''TypeError'' else ''IntegrityError''), db)
                                     | Some serial \<Rightarrow>
                                         (let name = (case given_names of [] \<Rightarrow> ''Certificate '' @ take 8 serial | n # _ \<Rightarrow> n);
                                              row = loaded_enrollment e now (u_id t) serial name pem x db
                                          in (Success (row, ct_id c) ''Certificate assigned successfully'' 201,
                                              log_mtls e (audit_call ''mtls_cert_assign'' (Some ''certificate'') (Txt_id (str_int (ct_id c))) (Txt name)
                                                 (Txt (''Assigned certificate to user: '' @ username t)) True None)
                                                (db\<lparr>md_enrolled := md_enrolled db @ [row]\<rparr>)))))))))"

subsection \<open>Histories\<close>

datatype mtls_op =
    Issue_client string client_body
  | Remove_client int
  | Enroll_presented client_request "string option"
  | Enroll_import string import_body
  | Assign_client assign_body

fun mtls_step :: "mtls_env \<Rightarrow> mtls_db \<Rightarrow> time \<times> user \<times> mtls_op \<Rightarrow> mtls_db" where
  "mtls_step e db (now, u, Issue_client refid b) = snd (create_mtls_certificate e now refid u b db)"
| "mtls_step e db (now, u, Remove_client i) = snd (delete_mtls_certificate e u i db)"
| "mtls_step e db (now, u, Enroll_presented rq name) = snd (enroll_presented_certificate e now rq u name db)"
| "mtls_step e db (now, u, Enroll_import refid b) = snd (enroll_import_certificate e now refid u b db)"
| "mtls_step e db (now, u, Assign_client b) = snd (assign_certificate e now u b db)"

definition enrolled_ok :: "mtls_db \<Rightarrow> bool" where
  "enrolled_ok db \<longleftrightarrow> keys_ok ac_id (md_enrolled db) \<and> distinct (map ac_serial (md_enrolled db))"

text \<open>What one operation of a caller does to the table: nothing, a new row under a new serial number, or one row less.\<close>

definition adds_own :: "int \<Rightarrow> bool \<Rightarrow> auth_certificate list \<Rightarrow> auth_certificate list \<Rightarrow> bool" where
  "adds_own i admin old new \<longleftrightarrow>
     (\<exists>row. new = old @ [row] \<and> ac_id row = next_id ac_id old \<and> find_by_serial (ac_serial row) old = None \<and> (admin \<or> ac_user_id row = i))"

definition drops_own :: "int \<Rightarrow> bool \<Rightarrow> auth_certificate list \<Rightarrow> auth_certificate list \<Rightarrow> bool" where
  "drops_own i admin old new \<longleftrightarrow> (\<exists>r \<in> set old. new = row_delete ac_id (ac_id r) old \<and> (admin \<or> ac_user_id r = i))"

lemma enrolled_log [simp]: "md_enrolled (log_mtls e args db) = md_enrolled db" "md_auth (log_mtls e args db) = md_auth db"
  by (simp_all add: log_mtls_def)

lemma add_enrolled_Some: "add_enrolled row db = Some db' \<longleftrightarrow> find_by_serial (ac_serial row) (md_enrolled db) = None \<and> db' = db\<lparr>md_enrolled := md_enrolled db @ [row]\<rparr>"
  by (auto simp: add_enrolled_def find_by_serial_def find_None_iff list_ex_iff)

lemma create_mtls_enrolled:
  "md_enrolled (snd (create_mtls_certificate e now refid u b db)) = md_enrolled db \<or> adds_own (u_id u) False (md_enrolled db) (md_enrolled (snd (create_mtls_certificate e now refid u b db)))"
proof (cases "chosen_ca b db")
  case None
  then show ?thesis by (simp add: create_mtls_certificate_def)
next
  case (Some ca)
  show ?thesis
  proof (cases "case cl_validity_days b of None \<Rightarrow> Int_value 365 | Some j \<Rightarrow> json_to_int j")
    case (Int_value d)
    then show ?thesis
      by (auto simp: create_mtls_certificate_def Some Let_def add_enrolled_Some adds_own_def issued_enrollment_def
          split: prod.split sum.split option.split)
  qed (simp_all add: create_mtls_certificate_def Some)
qed

lemma delete_mtls_enrolled:
  "md_enrolled (snd (delete_mtls_certificate e u i db)) = md_enrolled db \<or> drops_own (u_id u) (role u = ''admin'') (md_enrolled db) (md_enrolled (snd (delete_mtls_certificate e u i db)))"
  using row_get_Some [of ac_id "md_enrolled db" i]
  by (cases "row_get ac_id (md_enrolled db) i") (auto simp: delete_mtls_certificate_def drops_own_def)

lemma enroll_presented_enrolled:
  "md_enrolled (snd (enroll_presented_certificate e now rq u name db)) = md_enrolled db \<or> adds_own (u_id u) False (md_enrolled db) (md_enrolled (snd (enroll_presented_certificate e now rq u name db)))"
proof (cases "presented_to_enroll e now rq")
  case (Some info)
  show ?thesis
  proof (cases "pr_serial info")
    case serial: (Some s)
    then show ?thesis
      by (cases "find_by_serial s (md_enrolled db)")
        (simp_all add: enroll_presented_certificate_def Some adds_own_def enrolled_row_def Let_def)
  qed (simp add: enroll_presented_certificate_def Some)
qed (simp add: enroll_presented_certificate_def)

lemma target_user_own: "u_id (case target_user uid u db of None \<Rightarrow> u | Some t \<Rightarrow> t) \<noteq> u_id u \<Longrightarrow> role u = ''admin''"
  by (auto simp: target_user_def split: if_splits)

lemma enroll_import_enrolled:
  "md_enrolled (snd (enroll_import_certificate e now refid u b db)) = md_enrolled db \<or> adds_own (u_id u) (role u = ''admin'') (md_enrolled db) (md_enrolled (snd (enroll_import_certificate e now refid u b db)))"
proof (cases "pem_of_text (strip (eb_pem b))")
  case (Some pem)
  show ?thesis
  proof (cases "lo_pem (mtls_loaders e) pem")
    case (Inr x)
    show ?thesis
    proof (cases "find_by_serial (str_int (ld_serial x)) (md_enrolled db)")
      case None
      show ?thesis
      proof (cases "find (\<lambda>c. ct_serial_number c = Some (str_int (ld_serial x))) (cb_certs (md_ca db))")
        case none: None
        then show ?thesis
          by (cases "list_ex (\<lambda>c. ct_refid c = refid) (cb_certs (md_ca db))")
            (auto simp: enroll_import_certificate_def Some Inr None Let_def adds_own_def loaded_enrollment_def dest: target_user_own)
      next
        case some: (Some c)
        then show ?thesis
          by (auto simp: enroll_import_certificate_def Some Inr None Let_def adds_own_def loaded_enrollment_def dest: target_user_own)
      qed
    qed (simp add: enroll_import_certificate_def Some Inr Let_def)
  qed (simp add: enroll_import_certificate_def Some Let_def)
qed (simp add: enroll_import_certificate_def Let_def)

lemma assign_target_own: "assign_target u b c db = Inr t \<Longrightarrow> role u \<noteq> ''admin'' \<Longrightarrow> t = u"
  by (auto simp: assign_target_def split: if_splits)

lemma assign_enrolled:
  "md_enrolled (snd (assign_certificate e now u b db)) = md_enrolled db \<or> adds_own (u_id u) (role u = ''admin'') (md_enrolled db) (md_enrolled (snd (assign_certificate e now u b db)))"
proof (cases "row_get ct_id (cb_certs (md_ca db)) (the (ab_cert_id b))")
  case (Some c)
  show ?thesis
  proof (cases "assign_target u b c db")
    case (Inr t)
    show ?thesis
    proof (cases "ct_serial_number c")
      case None
      then show ?thesis by (simp add: assign_certificate_def Some Inr Let_def split: sum.split option.split)
    next
      case serial: (Some s)
      show ?thesis
      proof (cases "find_by_serial s (md_enrolled db)")
        case None
        show ?thesis
          using assign_target_own [OF Inr]
          by (simp add: assign_certificate_def Some Inr serial None Let_def adds_own_def loaded_enrollment_def split: sum.split) blast
      qed (simp add: assign_certificate_def Some Inr serial)
    qed
  qed (auto simp: assign_certificate_def Some)
qed (simp add: assign_certificate_def)

lemmas enrolled_effects = create_mtls_enrolled delete_mtls_enrolled enroll_presented_enrolled enroll_import_enrolled assign_enrolled

lemma mtls_step_enrolled:
  "md_enrolled (mtls_step e db (now, u, op)) = md_enrolled db \<or>
   adds_own (u_id u) (role u = ''admin'') (md_enrolled db) (md_enrolled (mtls_step e db (now, u, op))) \<or>
   drops_own (u_id u) (role u = ''admin'') (md_enrolled db) (md_enrolled (mtls_step e db (now, u, op)))"
proof -
  have weak: "adds_own i False old new \<Longrightarrow> adds_own i a old new" for i a old new by (auto simp: adds_own_def)
  show ?thesis
    by (cases op) (use weak enrolled_effects in fastforce)+
qed

interpretation mtls_runs: invariant_system "mtls_step e" enrolled_ok for e
proof
  fix e and db :: mtls_db and ev :: "time \<times> user \<times> mtls_op"
  assume ok: "enrolled_ok db"
  obtain now u op where ev: "ev = (now, u, op)" by (cases ev)
  have added: "enrolled_ok (mtls_step e db ev)" if "md_enrolled (mtls_step e db ev) = md_enrolled db @ [row]"
    "ac_id row = next_id ac_id (md_enrolled db)" "find_by_serial (ac_serial row) (md_enrolled db) = None" for row
    using ok that keys_ok_append [of ac_id "md_enrolled db" row] by (auto simp: enrolled_ok_def find_by_serial_def find_None_iff)
  have dropped: "enrolled_ok (mtls_step e db ev)" if "md_enrolled (mtls_step e db ev) = row_delete ac_id j (md_enrolled db)" for j
    using ok that by (simp add: enrolled_ok_def row_delete_def keys_ok_filter distinct_map_filter)
  show "enrolled_ok (mtls_step e db ev)"
    using mtls_step_enrolled [of e db now u op] added dropped ok
    unfolding ev adds_own_def drops_own_def by (auto simp: enrolled_ok_def)
qed

definition others_enrolled :: "int \<Rightarrow> mtls_db \<Rightarrow> auth_certificate list" where
  "others_enrolled i db = filter (\<lambda>r. ac_user_id r \<noteq> i) (md_enrolled db)"

lemma step_others:
  assumes "enrolled_ok db" "role u \<noteq> ''admin''"
  shows "others_enrolled (u_id u) (mtls_step e db (now, u, op)) = others_enrolled (u_id u) db"
proof -
  have dropped: "filter (\<lambda>x. ac_user_id x \<noteq> u_id u) (row_delete ac_id (ac_id r) (md_enrolled db)) = filter (\<lambda>x. ac_user_id x \<noteq> u_id u) (md_enrolled db)"
    if r: "r \<in> set (md_enrolled db)" "ac_user_id r = u_id u" for r
  proof -
    have "x = r" if "x \<in> set (md_enrolled db)" "ac_id x = ac_id r" for x
      using assms(1) that r(1) by (auto simp: enrolled_ok_def keys_ok_def distinct_map inj_on_def)
    then show ?thesis using r(2) unfolding row_delete_def by (auto intro: filter_cong)
  qed
  show ?thesis
    using mtls_step_enrolled [of e db now u op] assms(2) dropped unfolding others_enrolled_def adds_own_def drops_own_def by auto
qed

subsection \<open>Serial numbers in both spellings\<close>

lemma digit_value_upper [simp]: "digit_value b (upper_char c) = digit_value b c"
  by (auto simp: digit_value_def upper_char_def Let_def)

lemma parse_digits_upper: "parse_digits b acc f (upper s) = parse_digits b acc f s"
proof -
  have us: "upper_char c = CHR ''_'' \<longleftrightarrow> c = CHR ''_''" for c
  proof
    assume a: "upper_char c = CHR ''_''"
    then have "of_char (upper_char c) = (95 :: nat)" by simp
    then have n: "of_char c = (95 :: nat)" by (auto simp: upper_char_def Let_def split: if_splits)
    have "c = char_of (of_char c :: nat)" by simp
    then show "c = CHR ''_''" unfolding n by (simp add: char_of_def bit_0)
  qed (simp add: upper_char_def)
  show ?thesis by (induction s arbitrary: acc f) (auto simp: upper_def us split: option.splits)
qed

lemma hex_char_upper: "plain_digit c \<Longrightarrow> is_hex_char (upper_char c)"
proof -
  assume a: "plain_digit c"
  define n :: nat where "n = of_char c"
  have c: "c = char_of n" by (simp add: n_def)
  have "48 \<le> n \<and> n \<le> 57 \<or> 97 \<le> n \<and> n \<le> 102" using a by (simp add: plain_digit_def is_digit_def n_def Let_def)
  then have "n \<in> {48, 49, 50, 51, 52, 53, 54, 55, 56, 57, 97, 98, 99, 100, 101, 102}" unfolding insert_iff empty_iff by presburger
  then show ?thesis unfolding c by (elim insertE) (simp_all add: is_hex_char_def upper_char_def char_of_def bit_0)
qed

lemma py_int_hex_char:
  assumes "list_all is_hex_char s" "s \<noteq> []"
  shows "py_int 16 s = parse_digits 16 0 False s"
proof -
  have p: "\<not> is_space c" "c \<noteq> CHR ''-''" "c \<noteq> CHR ''+''" "c \<noteq> CHR ''x''" "c \<noteq> CHR ''X''" if "is_hex_char c" for c
    using that by (auto simp: is_hex_char_def is_space_def Let_def)
  have in_s: "is_hex_char c" if "c \<in> set s" for c using assms(1) that by (simp add: list_all_iff)
  have "strip s = s" using in_s p(1) by (intro strip_no_space) blast
  moreover obtain c cs where s: "s = c # cs" using assms(2) by (cases s) auto
  moreover have "c \<noteq> CHR ''-''" "c \<noteq> CHR ''+''" using in_s [of c] p(2,3) by (auto simp: s)
  moreover have "\<not> startswith s ''0x''" "\<not> startswith s ''0X''"
    using in_s [of "CHR ''x''"] in_s [of "CHR ''X''"] p(4) [of "CHR ''x''"] p(5) [of "CHR ''X''"]
    unfolding startswith_iff by auto
  ultimately show ?thesis by (simp add: py_int_def parse_magnitude_def)
qed

lemma py_int_hex_serial:
  assumes "0 \<le> n"
  shows "list_all is_hex_char (hex_serial n)" "py_int 16 (hex_serial n) = Some n" "hex_serial n \<noteq> []"
proof -
  have h: "hex_serial n = upper (hex_nat (nat n))" using assms by (simp add: hex_serial_def format_hex_def)
  show hex: "list_all is_hex_char (hex_serial n)" using hex_nat_plain hex_char_upper by (force simp: h upper_def list_all_iff)
  show ne: "hex_serial n \<noteq> []" by (simp add: h upper_def)
  show "py_int 16 (hex_serial n) = Some n" using py_int_hex_char [OF hex ne] assms by (simp add: h parse_digits_upper parse_hex_nat)
qed

lemma find_by_serial_append: "find_by_serial s (rows @ [r]) = (case find_by_serial s rows of None \<Rightarrow> if ac_serial r = s then Some r else None | Some x \<Rightarrow> Some x)"
  by (simp add: find_by_serial_def find_append split: option.split)

lemma find_hex_spelling:
  assumes "0 \<le> n" "ac_serial r = str_int n" "find_by_serial (str_int n) rows = None" "find_by_serial (hex_serial n) rows = None"
    "pr_serial info = Some (hex_serial n)"
  shows "find_enrolled info (rows @ [r]) = Some r"
proof (cases "str_int n = hex_serial n")
  case True
  then show ?thesis using assms by (simp add: find_enrolled_def find_by_serial_append)
next
  case False
  then show ?thesis
    using assms py_int_hex_serial [OF assms(1)] by (simp add: find_enrolled_def find_other_spelling_def find_by_serial_append)
qed

lemma create_mtls_Success:
  assumes "create_mtls_certificate e now refid u b db = (Success (c, key) msg code, db')"
  shows "\<exists>name db1. md_enrolled db' = md_enrolled db @ [issued_enrollment now u name c db1] \<and>
    find_by_serial (or_else (ct_serial_number c) []) (md_enrolled db) = None \<and> md_auth db' = md_auth db"
proof -
  obtain ca where ca: "chosen_ca b db = Some ca"
    using assms by (cases "chosen_ca b db") (simp_all add: create_mtls_certificate_def error_response_def)
  obtain d where d: "(case cl_validity_days b of None \<Rightarrow> Int_value 365 | Some j \<Rightarrow> json_to_int j) = Int_value d"
    using assms ca by (cases "case cl_validity_days b of None \<Rightarrow> Int_value 365 | Some j \<Rightarrow> json_to_int j") (simp_all add: create_mtls_certificate_def)
  note simps = create_mtls_certificate_def ca d Let_def error_response_def
  have org: "organization_ok (case cl_organization b of None \<Rightarrow> ''UCM Users'' | Some s \<Rightarrow> s)"
    using assms by (rule_tac ccontr) (simp add: simps)
  define name where "name = (case cl_name b of None \<Rightarrow> username u @ '' mTLS'' | Some s \<Rightarrow> s)"
  define made where "made = service_create_certificate e now refid name (au_refid ca)
     [(''CN'', username u @ ''@mtls''), (''O'', case cl_organization b of None \<Rightarrow> ''UCM Users'' | Some s \<Rightarrow> s), (''OU'', ''mTLS Clients'')]
     ''usr_cert'' ''2048'' (min (max d 1) 3650) (username u) (md_ca db)"
  note simps = simps org name_def [symmetric] made_def [symmetric]
  obtain c' cdb where m: "made = (Inr c', cdb)"
    using assms by (cases "fst made") (auto simp: simps split: prod.splits)
  define row where "row = issued_enrollment now u name c' (db\<lparr>md_ca := cdb\<rparr>)"
  note simps = simps m row_def [symmetric]
  obtain db2 where a: "add_enrolled row (db\<lparr>md_ca := cdb\<rparr>) = Some db2"
    using assms by (cases "add_enrolled row (db\<lparr>md_ca := cdb\<rparr>)") (simp_all add: simps)
  have "c' = c" "md_enrolled db' = md_enrolled db2" "md_auth db' = md_auth db2" using assms by (auto simp: simps a)
  then show ?thesis using a by (auto simp: add_enrolled_Some row_def issued_enrollment_def)
qed

subsection \<open>Properties\<close>

text \<open>C21. A client certificate that a user has issued for the own account logs that user in when it is presented in the TLS connection within its
  dates, although the table keeps its serial number in decimal and the connection yields it in hexadecimal digits. The exception is a row of the
  table that holds the hexadecimal text already.\<close>

theorem issued_certificate_logs_in:
  assumes "create_mtls_certificate e now refid u b db = (Success (c, key) msg code, db')"
    and "lo_der (mtls_loaders e) der = Inr x" "ct_serial_number c = Some (service_serial (ld_serial x))" "0 \<le> ld_serial x"
    and "ld_valid_from x \<le> t" "t \<le> ld_valid_to x"
    and "row_get u_id (users (md_auth db)) (u_id u) = Some u'" "active u'"
    and "find_by_serial (hex_serial (ld_serial x)) (md_enrolled db) = None"
  shows "\<exists>ac db''. authenticate_certificate t (the (extract_from_flask_native e der)) db' = (Inr (u', ac), db'') \<and> ac_user_id ac = u_id u"
proof -
  define info where "info = the (extract_from_flask_native e der)"
  have info: "pr_serial info = Some (hex_serial (ld_serial x))" "pr_valid_from info = Some (ld_valid_from x)"
    "pr_valid_until info = Some (ld_valid_to x)"
    using assms(2) by (simp_all add: info_def extract_from_flask_native_def Let_def)
  obtain row where row: "md_enrolled db' = md_enrolled db @ [row]" "ac_serial row = str_int (ld_serial x)" "ac_user_id row = u_id u" "ac_enabled row"
    and new: "find_by_serial (str_int (ld_serial x)) (md_enrolled db) = None" and auth: "md_auth db' = md_auth db"
    using create_mtls_Success [OF assms(1)] assms(3)
    by (auto simp: issued_enrollment_def service_serial_def or_else_def str_int_def)
  have "find_enrolled info (md_enrolled db') = Some row"
    unfolding row(1) by (rule find_hex_spelling [OF assms(4) row(2) new assms(9) info(1)])
  then show ?thesis
    using assms(5-8) info py_int_hex_serial(3) [OF assms(4)] row(3,4)
    by (simp add: info_def [symmetric] authenticate_certificate_def auth Let_def nonempty_def)
qed

definition demo_client_body :: client_body where
  "demo_client_body = \<lparr>cl_ca_id = None, cl_validity_days = None, cl_name = None, cl_organization = None\<rparr>"

definition demo_issuing :: mtls_db where
  "demo_issuing = demo_clients\<lparr>md_ca := so_db demo_ca_store, md_enrolled := []\<rparr>"

definition demo_issued :: "(cert_record \<times> string) http \<times> mtls_db" where
  "demo_issued = create_mtls_certificate demo_client_env 50 ''m'' demo_user demo_client_body demo_issuing"

theorem issued_certificate_logs_in_witness:
  "\<exists>ac db''. authenticate_certificate 60 (the (extract_from_flask_native demo_client_env ''D'')) (snd demo_issued) = (Inr (demo_user, ac), db'') \<and>
     ac_user_id ac = u_id demo_user"
proof -
  have "case fst demo_issued of Success (c, key) msg n \<Rightarrow> ct_serial_number c = Some (service_serial (ld_serial demo_leaf)) | _ \<Rightarrow> False"
    by code_simp
  then obtain c key msg n where r: "demo_issued = (Success (c, key) msg n, snd demo_issued)"
    "ct_serial_number c = Some (service_serial (ld_serial demo_leaf))"
    by (cases "fst demo_issued") (auto simp: prod_eq_iff)
  have facts: "lo_der (mtls_loaders demo_client_env) ''D'' = Inr demo_leaf" "0 \<le> ld_serial demo_leaf" "ld_valid_from demo_leaf \<le> 60" "60 \<le> ld_valid_to demo_leaf"
    "row_get u_id (users (md_auth demo_issuing)) (u_id demo_user) = Some demo_user" "active demo_user"
    "find_by_serial (hex_serial (ld_serial demo_leaf)) (md_enrolled demo_issuing) = None"
    by (simp_all add: demo_client_env_def mtls_loaders_def demo_leaf_def demo_issuing_def demo_clients_def demo_db_def demo_user_def row_get_def
        find_by_serial_def)
  have "create_mtls_certificate demo_client_env 50 ''m'' demo_user demo_client_body demo_issuing = (Success (c, key) msg n, snd demo_issued)"
    using r(1) by (simp add: demo_issued_def)
  then show ?thesis by (rule issued_certificate_logs_in [OF _ facts(1) r(2) facts(2-7)])
qed

definition demo_other :: user where "demo_other = demo_user\<lparr>u_id := 2, username := ''bob''\<rparr>"

text \<open>Certificates are only required when an administrator has one, if the same request switches the feature on. A request that only requires them
  is not checked.\<close>

lemma required_unchecked:
  assumes "\<not> admin_enrolled db"
  shows "status_code (fst (update_mtls_settings e (Some \<lparr>st_enabled = Some True, st_required = Some True, st_trusted_ca = None\<rparr>) db)) = 400"
    "mtls_config ''mtls_required'' (snd (update_mtls_settings e (Some \<lparr>st_enabled = None, st_required = Some True, st_trusted_ca = None\<rparr>) db)) = Some ''true''"
  using assms
  by (simp_all add: update_mtls_settings_def error_response_def status_code_def nonempty_def set_setting_def truth_text_def mtls_config_def log_mtls_def
      map_of_dict_set Let_def)

end
