(* ===== verification/User_Certs.thy ===== *)
theory User_Certs
  imports Mtls_Api Cert_List
begin

text \<open>
  The client certificates of all users, \<^verbatim>\<open>api/v2/user_certificates.py\<close>: listing, exporting, revoking and deleting, over the tables of
  theory \<open>Mtls\<close>. A row of the table of enrolled certificates is linked to a certificate by the text of the serial number alone.

  Revocation is that of theory \<open>Crl\<close>, on the tables as the CRL service sees them. Approval requests that name a deleted certificate are left out.
\<close>

subsection \<open>Who may see what\<close>

definition is_admin_or_operator :: "user \<Rightarrow> bool" where
  "is_admin_or_operator u = (role u \<in> {''admin'', ''operator''})"

definition is_auditor :: "user \<Rightarrow> bool" where
  "is_auditor u = (role u = ''auditor'')"

definition can_access_cert :: "user \<Rightarrow> auth_certificate \<Rightarrow> bool" where
  "can_access_cert u ac = (is_admin_or_operator u \<or> is_auditor u \<or> ac_user_id ac = u_id u)"

subsection \<open>Views\<close>

record user_cert_view =
  uv_row :: auth_certificate
  uv_cert_id :: "int option"
  uv_revoked :: bool
  uv_has_private_key :: bool
  uv_common_name :: string
  uv_status :: string
  uv_days_remaining :: "int option"
  uv_owner :: "(string \<times> int) option"

definition subject_name :: "string option \<Rightarrow> string" where
  "subject_name subject =
     (case find (\<lambda>p. startswith (upper p) ''CN='') (map strip (split_on (CHR '','') (or_else subject []))) of None \<Rightarrow> [] | Some p \<Rightarrow> drop 3 p)"

definition client_status :: "time \<Rightarrow> cert_record \<Rightarrow> string" where
  "client_status now c =
     (if ct_revoked c then ''revoked''
      else (case ct_valid_to c of
              None \<Rightarrow> ''valid''
            | Some t \<Rightarrow> if t \<le> now then ''expired'' else if t \<le> now + days 30 then ''expiring'' else ''valid''))"

definition build_cert_response :: "time \<Rightarrow> auth_certificate \<Rightarrow> cert_record option \<Rightarrow> user option \<Rightarrow> user_cert_view" where
  "build_cert_response now ac cert owner =
     (let own = map_option (\<lambda>u. (username u, u_id u)) owner in
      case cert of
        None \<Rightarrow> \<lparr>uv_row = ac, uv_cert_id = None, uv_revoked = False, uv_has_private_key = False, uv_common_name = or_else (ac_name ac) [],
                 uv_status = ''orphan'', uv_days_remaining = None, uv_owner = own\<rparr>
      | Some c \<Rightarrow> \<lparr>uv_row = ac, uv_cert_id = Some (ct_id c), uv_revoked = ct_revoked c, uv_has_private_key = nonempty (ct_prv c),
                   uv_common_name = pick [subject_name (ct_subject c), or_else (ac_name ac) [], ct_descr c],
                   uv_status = client_status now c, uv_days_remaining = map_option (\<lambda>t. (t - now) div days 1) (ct_valid_to c), uv_owner = own\<rparr>)"

definition view_of :: "time \<Rightarrow> mtls_db \<Rightarrow> auth_certificate \<Rightarrow> user_cert_view" where
  "view_of now db ac = build_cert_response now ac (linked_certificate ac db) (row_get u_id (users (md_auth db)) (ac_user_id ac))"

subsection \<open>Lists\<close>

record client_list_args =
  ua_page :: int
  ua_per_page :: int
  ua_status :: "string option"
  ua_user_id :: "int option"
  ua_search :: string
  ua_sort_by :: string
  ua_sort_order :: string

definition visible_rows :: "user \<Rightarrow> int option \<Rightarrow> mtls_db \<Rightarrow> auth_certificate list" where
  "visible_rows u uid db =
     (if \<not> is_admin_or_operator u \<and> \<not> is_auditor u then get_user_certificates (u_id u) db
      else if uid \<noteq> None \<and> uid \<noteq> Some 0 then get_user_certificates (the uid) db else md_enrolled db)"

definition sort_clients :: "string \<Rightarrow> bool \<Rightarrow> auth_certificate list \<Rightarrow> auth_certificate list" where
  "sort_clients by desc rows =
     (if by = ''name'' then order_by desc ac_name rows
      else if by = ''valid_until'' then order_by desc ac_valid_until rows
      else if by = ''last_used_at'' then order_by desc ac_last_used_at rows
      else order_by desc ac_created_at rows)"

text \<open>The filter by status comes after the page is cut out; rows without a certificate pass it.\<close>

definition has_status :: "time \<Rightarrow> string option \<Rightarrow> cert_record option \<Rightarrow> bool" where
  "has_status now status cert =
     (case cert of
        None \<Rightarrow> True
      | Some c \<Rightarrow>
          (let to = ct_valid_to c; live = \<not> ct_revoked c in
           if status = Some ''revoked'' then ct_revoked c
           else if status = Some ''expired'' then (case to of None \<Rightarrow> False | Some t \<Rightarrow> t \<le> now \<and> live)
           else if status = Some ''valid'' then (case to of None \<Rightarrow> False | Some t \<Rightarrow> now < t \<and> live)
           else if status = Some ''expiring'' then (case to of None \<Rightarrow> False | Some t \<Rightarrow> now < t \<and> t \<le> now + days 30 \<and> live)
           else True))"

definition list_user_certificates :: "time \<Rightarrow> user \<Rightarrow> client_list_args \<Rightarrow> mtls_db \<Rightarrow> (user_cert_view list \<times> nat) http" where
  "list_user_certificates now u a db =
     (let search = strip (ua_search a); pattern = ''%'' @ search @ ''%'';
          rows = filter (\<lambda>r. search = [] \<or> ilike (ac_name r) pattern \<or> ilike (Some (ac_subject r)) pattern \<or> ilike (Some (ac_serial r)) pattern)
                   (visible_rows u (ua_user_id a) db);
          p = (if ua_page a < 1 then 1 else ua_page a);
          n = (if min (ua_per_page a) 100 < 1 then 20 else min (ua_per_page a) 100);
          items = take (nat n) (drop (nat ((p - 1) * n)) (sort_clients (ua_sort_by a) (ua_sort_order a \<noteq> ''asc'') rows))
      in success_response
           (map (view_of now db) (filter (\<lambda>r. has_status now (ua_status a) (linked_certificate r db)) items), length rows) [])"

record client_stats =
  us_total :: nat
  us_valid :: nat
  us_expiring :: nat
  us_expired :: nat
  us_revoked :: nat
  us_users :: "nat option"

definition get_user_certificate_stats :: "time \<Rightarrow> user \<Rightarrow> mtls_db \<Rightarrow> client_stats http" where
  "get_user_certificate_stats now u db =
     (let rows = visible_rows u None db;
          states = List.map_filter (\<lambda>r. map_option (client_status now) (linked_certificate r db)) rows;
          count = (\<lambda>s. length (filter (\<lambda>x. x = s) states))
      in success_response
           \<lparr>us_total = length rows, us_valid = count ''valid'', us_expiring = count ''expiring'', us_expired = count ''expired'',
            us_revoked = count ''revoked'',
            us_users = (if is_admin_or_operator u \<or> is_auditor u then Some (length (remdups (map ac_user_id (md_enrolled db)))) else None)\<rparr> [])"

definition get_user_certificate :: "time \<Rightarrow> user \<Rightarrow> int \<Rightarrow> mtls_db \<Rightarrow> user_cert_view http" where
  "get_user_certificate now u i db =
     (case row_get ac_id (md_enrolled db) i of
        None \<Rightarrow> error_response ''Certificate not found'' 404
      | Some ac \<Rightarrow> if can_access_cert u ac then success_response (view_of now db ac) [] else error_response ''Certificate not found'' 404)"

subsection \<open>Exports\<close>

function pem_up :: "ca_record list \<Rightarrow> string option \<Rightarrow> py_error + string list" where
  "pem_up unseen ref =
     (if \<not> nonempty ref then Inr []
      else (case find (\<lambda>a. au_refid a = the ref) unseen of
              None \<Rightarrow> Inr []
            | Some ca \<Rightarrow>
                (case ca_pem ca of
                   Inl err \<Rightarrow> Inl err
                 | Inr ts \<Rightarrow>
                     (case pem_up (filter (\<lambda>a. au_refid a \<noteq> the ref) unseen) (cw_caref ca) of Inl err \<Rightarrow> Inl err | Inr us \<Rightarrow> Inr (ts @ us)))))"
  by pat_completeness auto

termination
  by (relation "measure (\<lambda>(unseen, _). length unseen)") (use fewer_unseen in fastforce)+

declare pem_up.simps [simp del]

definition client_pem :: "bool \<Rightarrow> bool \<Rightarrow> string \<Rightarrow> string \<Rightarrow> cert_record \<Rightarrow> ca_record list \<Rightarrow> py_error + download" where
  "client_pem include_key include_chain base cert_pem c cas =
     (let with_key = include_key \<and> nonempty (ct_prv c) in
      and_then (if with_key then and_then (unbase64 (the (ct_prv c))) (\<lambda>key. Inr (end_line cert_pem @ key)) else Inr cert_pem) (\<lambda>result.
      and_then (if include_chain then pem_up cas (ct_caref c) else Inr []) (\<lambda>ts.
      Inr (foldl (\<lambda>acc t. end_line acc @ t) result ts, ''application/x-pem-file'', base @ (if with_key then ''.pem'' else ''.crt'')))))"

definition client_pkcs12 :: "mtls_env \<Rightarrow> bool \<Rightarrow> string \<Rightarrow> string \<Rightarrow> string \<Rightarrow> cert_record \<Rightarrow> ca_record list \<Rightarrow> py_error + download" where
  "client_pkcs12 e include_chain base password cert_pem c cas =
     and_then (lo_pem (mtls_loaders e) cert_pem) (\<lambda>x. and_then (plain_key e c) (\<lambda>key.
     and_then (ve_pkcs12 (xe_ca (me_cert e)) base key (ld_pem x)
       (if include_chain then chain_up True (ca_loaded_pem (xe_ca (me_cert e))) cas 10 (ct_caref c) else []) password) (\<lambda>bytes.
     Inr (bytes, ''application/x-pkcs12'', base @ ''.p12''))))"

definition export_user_certificate ::
  "mtls_env \<Rightarrow> user \<Rightarrow> int \<Rightarrow> string \<Rightarrow> string \<Rightarrow> string \<Rightarrow> string \<Rightarrow> mtls_db \<Rightarrow> download http \<times> mtls_db" where
  "export_user_certificate e u i format_arg password key_arg chain_arg db =
     (let fmt = lower format_arg; include_key = lower key_arg = ''true''; include_chain = lower chain_arg = ''true'';
          missing = (error_response ''Certificate not found'' 404, db) in
      if is_auditor u then (error_response ''Auditors cannot export certificates'' 403, db)
      else (case row_get ac_id (md_enrolled db) i of
              None \<Rightarrow> missing
            | Some ac \<Rightarrow>
                if \<not> can_access_cert u ac then missing
                else (case linked_certificate ac db of
                        None \<Rightarrow> (error_response ''Certificate data not found'' 404, db)
                      | Some c \<Rightarrow>
                          (let base = sanitize_filename (Some (pick [or_else (ac_name ac) [], ct_descr c, ct_refid c]));
                               cas = cb_cas (md_ca db);
                               reply = (\<lambda>kind r. case r of
                                   Inl _ \<Rightarrow> (error_response ''Failed to export certificate'' 500, db)
                                 | Inr d \<Rightarrow> (success_response d [],
                                     log_mtls e (audit_call ''user_certificate_exported'' (Some ''user_certificate'') (Num_id i) (Txt base)
                                       (Txt (''Exported '' @ kind @ '' for user cert: '' @ base)) True None) db))
                           in case (case ct_crt c of None \<Rightarrow> Inl (Other_error ''TypeError'') | Some t \<Rightarrow> unbase64 t) of
                                Inl err \<Rightarrow> reply [] (Inl err)
                              | Inr cert_pem \<Rightarrow>
                                  if fmt \<in> {''pkcs12'', ''p12'', ''pfx''}
                                  then
                                    if length password < 8 then (error_response ''Password required (minimum 8 characters) for PKCS12 export'' 400, db)
                                    else if \<not> nonempty (ct_prv c) then (error_response ''Certificate has no private key for PKCS12 export'' 400, db)
                                    else reply ''PKCS12'' (client_pkcs12 e include_chain base password cert_pem c cas)
                                  else reply ''PEM'' (client_pem include_key include_chain base cert_pem c cas)))))"

subsection \<open>Revoking and deleting\<close>

text \<open>The tables after an operation of the CRL service, which keeps the rows and their order.\<close>

definition with_pki :: "pki_db \<Rightarrow> ca_db \<Rightarrow> ca_db" where
  "with_pki p db =
     db\<lparr>cb_certs := map2 (\<lambda>old c. certificate.extend c (certificate.more old)) (cb_certs db) (certificates p), cb_crls := crls p,
        cb_ocsp := ocsp_cache p, cb_logs := logs p\<rparr>"

definition revoke_user_certificate ::
  "mtls_env \<Rightarrow> crl_env \<Rightarrow> time \<Rightarrow> user \<Rightarrow> int \<Rightarrow> string option \<Rightarrow> mtls_db \<Rightarrow> user_cert_view http \<times> mtls_db" where
  "revoke_user_certificate e ce now u i reason_arg db =
     (case row_get ac_id (md_enrolled db) i of
        None \<Rightarrow> (error_response ''Certificate not found'' 404, db)
      | Some ac \<Rightarrow>
          (case linked_certificate ac db of
             None \<Rightarrow> (error_response ''Certificate data not found'' 404, db)
           | Some c \<Rightarrow>
               if ct_revoked c then (error_response ''Certificate already revoked'' 400, db)
               else
                 (let reason = (case reason_arg of None \<Rightarrow> ''unspecified'' | Some r \<Rightarrow> r);
                      (r, p) = revoke_certificate ce now (ct_id c) reason (username u) (pki_of (md_ca db));
                      db1 = db\<lparr>md_ca := with_pki p (md_ca db)\<rparr>
                  in case r of
                       Inl (Value_error _) \<Rightarrow> (error_response ''Invalid revocation request'' 400, db1)
                     | Inl (Other_error _) \<Rightarrow> (error_response ''Failed to revoke certificate'' 500, db1)
                     | Inr _ \<Rightarrow>
                         (let name = pick [or_else (ac_name ac) [], ct_descr c];
                              db2 = db1\<lparr>md_enrolled := row_update ac_id i (\<lambda>x. x\<lparr>ac_enabled := False\<rparr>) (md_enrolled db1)\<rparr>
                          in (success_response (view_of now db2 (ac\<lparr>ac_enabled := False\<rparr>)) ''Certificate revoked successfully'',
                              log_mtls e (audit_call ''user_certificate_revoked'' (Some ''user_certificate'') (Num_id i) (Txt name)
                                 (Txt (''Revoked user certificate: '' @ name @ '' (reason: '' @ reason @ '')'')) True None) db2)))))"

definition delete_user_certificate :: "mtls_env \<Rightarrow> user \<Rightarrow> int \<Rightarrow> mtls_db \<Rightarrow> unit http \<times> mtls_db" where
  "delete_user_certificate e u i db =
     (case row_get ac_id (md_enrolled db) i of
        None \<Rightarrow> (error_response ''Certificate not found'' 404, db)
      | Some ac \<Rightarrow>
          (let name = (if nonempty (ac_name ac) then the (ac_name ac) else ''User Certificate #'' @ str_int i);
               certs = (case linked_certificate ac db of None \<Rightarrow> cb_certs (md_ca db) | Some c \<Rightarrow> row_delete ct_id (ct_id c) (cb_certs (md_ca db)))
           in (Success () [] 204,
               log_mtls e (audit_call ''user_certificate_deleted'' (Some ''user_certificate'') (Num_id i) (Txt name)
                  (Txt (''Deleted user certificate: '' @ name @ '' (by: '' @ username u @ '')'')) True None)
                 (db\<lparr>md_enrolled := row_delete ac_id i (md_enrolled db), md_ca := (md_ca db)\<lparr>cb_certs := certs\<rparr>\<rparr>))))"

subsection \<open>Properties\<close>

lemma row_get_new: "key r = next_id key rows \<Longrightarrow> row_get key (rows @ [r]) (key r) = Some r"
  by (auto simp: row_get_def find_append split: option.split dest!: find_Some_in next_id_greater [of _ rows key])

lemma enroll_import_known:
  assumes "linked_certificate (loaded_enrollment e now uid serial name pem x db) db = Some c" "serial = str_int (ld_serial x)"
    "startswith pem ''-----BEGIN''" "strip pem = pem" "lo_pem (mtls_loaders e) pem = Inr x" "now \<le> ld_valid_to x"
    "find_by_serial serial (md_enrolled db) = None"
  shows "\<exists>row n. enroll_import_certificate e now refid u \<lparr>eb_pem = pem, eb_name = nm, eb_user_id = None\<rparr> db =
      (Success (row, ct_id c) ''Certificate imported successfully'' 201, n) \<and>
    ac_id row = next_id ac_id (md_enrolled db) \<and> ac_user_id row = u_id u \<and> ac_serial row = serial \<and>
    md_enrolled n = md_enrolled db @ [row] \<and> cb_certs (md_ca n) = cb_certs (md_ca db)"
proof -
  have known: "find (\<lambda>c. ct_serial_number c = Some serial) (cb_certs (md_ca db)) = Some c"
    using assms(1) by (simp add: linked_certificate_def loaded_enrollment_def)
  have "pem \<noteq> []" using assms(3) by (auto simp: startswith_def)
  then show ?thesis
    using assms(3-7) known unfolding enroll_import_certificate_def assms(2)
    by (auto simp: pem_of_text_def target_user_def Let_def loaded_enrollment_def log_mtls_def)
qed

text \<open>C38. Any user but an auditor gets the private key of a certificate from the public certificate alone, if the certificate has not expired and
  is not enrolled under its serial number in decimal digits, and its row is found by that text (as the service for certificates stores it; the route that creates
  certificates stores it in hexadecimal digits and such rows are not found) and holds the key unencrypted: importing the certificate enrolls it for
  the caller, without a proof that the caller has its key, and the export of enrolled certificates then finds the row by its serial number and adds
  the key. The permission it asks for is one that a viewer has.\<close>

theorem private_key_by_import:
  assumes "linked_certificate (loaded_enrollment e now (u_id u) (str_int (ld_serial x)) [] pem x db) db = Some c"
    and "startswith pem ''-----BEGIN''" "strip pem = pem" "lo_pem (mtls_loaders e) pem = Inr x" "now \<le> ld_valid_to x"
    and "find_by_serial (str_int (ld_serial x)) (md_enrolled db) = None"
    and "ct_crt c = Some t" "b64decode t = Some cert_pem" "nonempty (ct_prv c)" "b64decode (the (ct_prv c)) = Some key"
    and "role u \<noteq> ''auditor''"
  shows "has_permission ''read:user_certificates'' (get_role_permissions ''viewer'') \<and>
    (\<exists>row db' name.
       enroll_import_certificate e now refid u \<lparr>eb_pem = pem, eb_name = nm, eb_user_id = None\<rparr> db =
         (Success (row, ct_id c) ''Certificate imported successfully'' 201, db') \<and>
       fst (export_user_certificate e u (ac_id row) ''pem'' [] ''true'' ''false'' db') =
         success_response (end_line cert_pem @ key, ''application/x-pem-file'', name) [])"
proof
  show "has_permission ''read:user_certificates'' (get_role_permissions ''viewer'')" by code_simp
  obtain row db' where e: "enroll_import_certificate e now refid u \<lparr>eb_pem = pem, eb_name = nm, eb_user_id = None\<rparr> db =
      (Success (row, ct_id c) ''Certificate imported successfully'' 201, db')"
    and row: "ac_id row = next_id ac_id (md_enrolled db)" "ac_user_id row = u_id u" "ac_serial row = str_int (ld_serial x)"
    and db': "md_enrolled db' = md_enrolled db @ [row]" "cb_certs (md_ca db') = cb_certs (md_ca db)"
    using enroll_import_known [OF assms(1) refl assms(2-6)] by blast
  have get: "row_get ac_id (md_enrolled db') (ac_id row) = Some row" using row_get_new [of ac_id row "md_enrolled db"] row(1) db'(1) by simp
  have link: "linked_certificate row db' = Some c" using assms(1) row(3) db'(2) by (simp add: linked_certificate_def loaded_enrollment_def)
  have low: "lower ''true'' = ''true''" "lower ''false'' = ''false''" "lower ''pem'' = ''pem''" by code_simp+
  show "\<exists>row db' name. enroll_import_certificate e now refid u \<lparr>eb_pem = pem, eb_name = nm, eb_user_id = None\<rparr> db =
         (Success (row, ct_id c) ''Certificate imported successfully'' 201, db') \<and>
       fst (export_user_certificate e u (ac_id row) ''pem'' [] ''true'' ''false'' db') =
         success_response (end_line cert_pem @ key, ''application/x-pem-file'', name) []"
    using e get link assms(7-11) row(2)
    unfolding export_user_certificate_def low
    by (simp add: is_auditor_def can_access_cert_def client_pem_def unbase64_def and_then_def Let_def) blast
qed

definition demo_secret :: mtls_db where
  "demo_secret = demo_clients\<lparr>md_ca := empty_cas\<lparr>cb_certs := [service_row demo_client_env 0 1 ''m'' [] [] [] [] demo_leaf ''-----BEGIN L'' ''K'']\<rparr>,
     md_enrolled := []\<rparr>"

lemma demo_secret_facts:
  "find (\<lambda>c. ct_serial_number c = Some (str_int (ld_serial demo_leaf))) (cb_certs (md_ca demo_secret)) =
     Some (service_row demo_client_env 0 1 ''m'' [] [] [] [] demo_leaf ''-----BEGIN L'' ''K'')"
  "startswith ''-----BEGIN L'' ''-----BEGIN''" "strip ''-----BEGIN L'' = ''-----BEGIN L''"
  "b64decode (b64encode ''-----BEGIN L'') = Some ''-----BEGIN L''" "b64encode ''K'' \<noteq> []" "b64decode (b64encode ''K'') = Some ''K''"
  by code_simp+

theorem private_key_by_import_witness:
  "\<exists>row db' name.
     enroll_import_certificate demo_client_env 50 ''n'' (demo_user\<lparr>role := ''viewer''\<rparr>) \<lparr>eb_pem = ''-----BEGIN L'', eb_name = [], eb_user_id = None\<rparr> demo_secret =
       (Success (row, 1) ''Certificate imported successfully'' 201, db') \<and>
     fst (export_user_certificate demo_client_env (demo_user\<lparr>role := ''viewer''\<rparr>) (ac_id row) ''pem'' [] ''true'' ''false'' db') =
       success_response (end_line ''-----BEGIN L'' @ ''K'', ''application/x-pem-file'', name) []"
proof -
  let ?u = "demo_user\<lparr>role := ''viewer''\<rparr>"
  let ?c = "service_row demo_client_env 0 1 ''m'' [] [] [] [] demo_leaf ''-----BEGIN L'' ''K''"
  have c: "linked_certificate (loaded_enrollment demo_client_env 50 (u_id ?u) (str_int (ld_serial demo_leaf)) [] ''-----BEGIN L'' demo_leaf demo_secret) demo_secret = Some ?c"
    using demo_secret_facts(1) by (simp add: linked_certificate_def loaded_enrollment_def)
  have l: "lo_pem (mtls_loaders demo_client_env) ''-----BEGIN L'' = Inr demo_leaf" "50 \<le> ld_valid_to demo_leaf"
    "find_by_serial (str_int (ld_serial demo_leaf)) (md_enrolled demo_secret) = None"
    by (simp_all add: mtls_loaders_def demo_client_env_def demo_leaf_def demo_secret_def demo_clients_def find_by_serial_def)
  have k: "ct_prv ?c = Some (b64encode ''K'')" "ct_crt ?c = Some (b64encode ''-----BEGIN L'')" "ct_id ?c = 1"
    by (simp_all add: service_row_def demo_client_env_def demo_cert_env_def demo_ca_env_def)
  show ?thesis
    using private_key_by_import [OF c demo_secret_facts(2,3) l k(2) demo_secret_facts(4), of "''K''" "''n''" "[]"] k demo_secret_facts(5,6)
    by (simp add: nonempty_def)
qed

subsection \<open>Enrolments of others\<close>

text \<open>A request to one of the routes for client certificates, with the permissions of the caller that the decorator of the route tests.\<close>

datatype client_op =
    Own_route mtls_op
  | Revoke_enrolled int "string option"
  | Delete_enrolled int

fun client_step :: "mtls_env \<Rightarrow> crl_env \<Rightarrow> mtls_db \<Rightarrow> time \<times> user \<times> string list \<times> client_op \<Rightarrow> mtls_db" where
  "client_step e ce db (now, u, perms, Own_route op) = mtls_step e db (now, u, op)"
| "client_step e ce db (now, u, perms, Revoke_enrolled i reason) =
     (if has_permission ''write:user_certificates'' perms then snd (revoke_user_certificate e ce now u i reason db) else db)"
| "client_step e ce db (now, u, perms, Delete_enrolled i) =
     (if has_permission ''delete:user_certificates'' perms then snd (delete_user_certificate e u i db) else db)"

lemma revoke_user_certificate_enrolled:
  "md_enrolled (snd (revoke_user_certificate e ce now u i reason db)) = md_enrolled db \<or>
   md_enrolled (snd (revoke_user_certificate e ce now u i reason db)) = row_update ac_id i (\<lambda>x. x\<lparr>ac_enabled := False\<rparr>) (md_enrolled db)"
  by (simp add: revoke_user_certificate_def case_prod_beta Let_def log_mtls_def split: option.split sum.split py_error.split)

lemma delete_user_certificate_enrolled:
  "md_enrolled (snd (delete_user_certificate e u i db)) = md_enrolled db \<or>
   md_enrolled (snd (delete_user_certificate e u i db)) = row_delete ac_id i (md_enrolled db)"
  by (simp add: delete_user_certificate_def Let_def log_mtls_def split: option.split)

interpretation client_runs: invariant_system "client_step e ce" enrolled_ok for e ce
proof
  fix e ce and db :: mtls_db and ev :: "time \<times> user \<times> string list \<times> client_op"
  assume ok: "enrolled_ok db"
  obtain now u perms op where ev: "ev = (now, u, perms, op)" by (cases ev)
  have disabled: "enrolled_ok db'" if "md_enrolled db' = row_update ac_id i (\<lambda>x. x\<lparr>ac_enabled := False\<rparr>) (md_enrolled db)" for db' :: mtls_db and i
    using ok that by (simp add: enrolled_ok_def keys_ok_update map_row_update)
  have dropped: "enrolled_ok db'" if "md_enrolled db' = row_delete ac_id i (md_enrolled db)" for db' :: mtls_db and i
    using ok that by (simp add: enrolled_ok_def row_delete_def keys_ok_filter distinct_map_filter)
  have same: "enrolled_ok db'" if "md_enrolled db' = md_enrolled db" for db' :: mtls_db using ok that by (simp add: enrolled_ok_def)
  show "enrolled_ok (client_step e ce db ev)"
  proof (cases op)
    case (Own_route op')
    then show ?thesis using mtls_runs.step_inv [OF ok] by (simp add: ev)
  next
    case (Revoke_enrolled i reason)
    then show ?thesis
      using ok revoke_user_certificate_enrolled [of e ce now u i reason db] disabled same by (auto simp: ev)
  next
    case (Delete_enrolled i)
    then show ?thesis using ok delete_user_certificate_enrolled [of e u i db] dropped same by (auto simp: ev)
  qed
qed

definition enrolled_of :: "int \<Rightarrow> mtls_db \<Rightarrow> auth_certificate list" where
  "enrolled_of j db = filter (\<lambda>r. ac_user_id r = j) (md_enrolled db)"

definition reader :: "user \<Rightarrow> string list \<Rightarrow> bool" where
  "reader u perms \<longleftrightarrow>
     role u \<noteq> ''admin'' \<and> \<not> has_permission ''write:user_certificates'' perms \<and> \<not> has_permission ''delete:user_certificates'' perms"

lemma readers: "role u = ''viewer'' \<or> role u = ''auditor'' \<Longrightarrow> reader u (get_role_permissions (role u))"
proof -
  have "\<not> has_permission p (get_role_permissions r)"
    if "r = ''viewer'' \<or> r = ''auditor''" "p = ''write:user_certificates'' \<or> p = ''delete:user_certificates''" for r p
    using that by (elim disjE; hypsubst) code_simp+
  then show "role u = ''viewer'' \<or> role u = ''auditor'' \<Longrightarrow> reader u (get_role_permissions (role u))" by (auto simp: reader_def)
qed

lemma client_step_others:
  assumes "enrolled_ok db" "reader u perms" "u_id u \<noteq> j"
  shows "enrolled_of j (client_step e ce db (now, u, perms, op)) = enrolled_of j db"
proof (cases op)
  case (Own_route op')
  have part: "enrolled_of j d = filter (\<lambda>r. ac_user_id r = j) (others_enrolled (u_id u) d)" for d
    using assms(3) by (auto simp: enrolled_of_def others_enrolled_def intro: filter_cong)
  show ?thesis
    using step_others [OF assms(1), of u e now op'] assms(2) by (simp add: Own_route part reader_def)
qed (use assms(2) in \<open>simp_all add: reader_def\<close>)

text \<open>C19. Whatever callers do through the routes for client certificates, those under \<^verbatim>\<open>/mtls\<close> (issuing, enrolling, importing, assigning,
  deleting) and those under \<^verbatim>\<open>/user-certificates\<close> (revoking, deleting), as long as they are not administrators and have neither the permission to
  write nor the one to delete user certificates, as viewers and auditors have not: the enrolled certificates of every other user stay exactly as
  they are, and serial numbers and identifiers stay unique. Operators have both permissions and can revoke and delete the enrolments of others.\<close>

theorem enrollments_isolated:
  assumes "enrolled_ok db" "\<forall>(t, u, perms, op) \<in> set evs. reader u perms \<and> u_id u \<noteq> j"
  shows "enrolled_ok (foldl (client_step e ce) db evs) \<and> enrolled_of j (foldl (client_step e ce) db evs) = enrolled_of j db"
proof
  show "enrolled_ok (foldl (client_step e ce) db evs)" by (rule client_runs.run_inv [OF assms(1)])
  show "enrolled_of j (foldl (client_step e ce) db evs) = enrolled_of j db"
    using assms
  proof (induction evs arbitrary: db)
    case (Cons ev evs)
    then show ?case using client_runs.step_inv [OF Cons.prems(1)] client_step_others [OF Cons.prems(1)] by (cases ev) fastforce
  qed simp
qed

definition demo_client_events :: "(time \<times> user \<times> string list \<times> client_op) list" where
  "demo_client_events =
     [(50, demo_other, get_role_permissions ''auditor'', Own_route (Remove_client 1)),
      (51, demo_other, get_role_permissions ''auditor'', Own_route (Issue_client ''m'' demo_client_body)),
      (52, demo_other, [], Own_route (Enroll_presented demo_presented None)), (53, demo_other, [], Own_route (Remove_client 3)),
      (54, demo_other, get_role_permissions ''auditor'', Delete_enrolled 1), (55, demo_other, [], Revoke_enrolled 1 None)]"

theorem enrollments_isolated_witness:
  "enrolled_ok (foldl (client_step demo_client_env demo_crl_env) demo_clients demo_client_events) \<and>
   enrolled_of 1 (foldl (client_step demo_client_env demo_crl_env) demo_clients demo_client_events) = [demo_client_row]"
proof -
  have "enrolled_ok demo_clients" "enrolled_of 1 demo_clients = [demo_client_row]"
    by (simp_all add: enrolled_ok_def keys_ok_def demo_clients_def demo_client_row_def enrolled_of_def)
  moreover have "reader demo_other (get_role_permissions ''auditor'')" "reader demo_other []" "u_id demo_other = 2" by code_simp+
  ultimately show ?thesis
    using enrollments_isolated [of demo_clients demo_client_events 1] by (simp add: demo_client_events_def)
qed

text \<open>An operator deletes the enrolment of another user.\<close>

lemma operator_deletes:
  "has_permission ''delete:user_certificates'' (get_role_permissions ''operator'')"
  "enrolled_of 1 (client_step demo_client_env demo_crl_env demo_clients
     (50, demo_other\<lparr>role := ''operator''\<rparr>, get_role_permissions ''operator'', Delete_enrolled 1)) = []"
  by code_simp+

subsection \<open>Revocation and login\<close>

lemma find_by_serial_map: "(\<And>r. ac_serial (g r) = ac_serial r) \<Longrightarrow> find_by_serial s (map g rows) = map_option g (find_by_serial s rows)"
  by (simp add: find_by_serial_def find_map comp_def)

lemma find_enrolled_map:
  assumes "\<And>r. ac_serial (g r) = ac_serial r" "\<And>r. ac_fingerprint (g r) = ac_fingerprint r"
  shows "find_enrolled info (map g rows) = map_option g (find_enrolled info rows)"
proof -
  note f = find_by_serial_map [of g, OF assms(1)]
  have o: "find_other_spelling s (map g rows) = map_option g (find_other_spelling s rows)" for s
    by (cases "py_int 16 s"; cases "py_int 10 s") (simp_all add: find_other_spelling_def f split: option.split)
  show ?thesis
    by (simp add: find_enrolled_def f o Let_def find_map comp_def assms(2) split: option.split)
qed

lemma revoke_user_certificate_Success:
  assumes "revoke_user_certificate e ce now u i reason db = (Success v msg code, db')"
  shows "md_enrolled db' = row_update ac_id i (\<lambda>x. x\<lparr>ac_enabled := False\<rparr>) (md_enrolled db)"
proof -
  obtain ac where ac: "row_get ac_id (md_enrolled db) i = Some ac"
    using assms by (cases "row_get ac_id (md_enrolled db) i") (simp_all add: revoke_user_certificate_def error_response_def)
  obtain c where c: "linked_certificate ac db = Some c" "\<not> ct_revoked c"
    using assms by (cases "linked_certificate ac db") (auto simp: revoke_user_certificate_def ac error_response_def split: if_splits)
  define r where "r = revoke_certificate ce now (ct_id c) (case reason of None \<Rightarrow> ''unspecified'' | Some r \<Rightarrow> r) (username u) (pki_of (md_ca db))"
  show ?thesis
  proof (cases "fst r")
    case (Inl err)
    then show ?thesis
      using assms by (cases err) (simp_all add: revoke_user_certificate_def ac c Let_def r_def [symmetric] case_prod_beta error_response_def)
  next
    case (Inr c')
    then show ?thesis
      using assms by (auto simp: revoke_user_certificate_def ac c Let_def r_def [symmetric] case_prod_beta)
  qed
qed

text \<open>Revoking a certificate through the routes for client certificates ends its use for logging in, whatever the certificate then presented. Revoking
  the same certificate through the routes for certificates does not: the answer to the presented certificate stays what it was.\<close>

theorem revocation_and_login:
  assumes "find_enrolled info (md_enrolled db) = Some ac" "nonempty (pr_serial info)"
    and "revoke_user_certificate e ce now u (ac_id ac) reason db = (Success v msg code, db')"
  shows "fst (authenticate_certificate t info db') = Inl ''Certificate is disabled'' \<and>
    fst (authenticate_certificate t info (db\<lparr>md_ca := with_pki (snd (revoke_endpoint ce now j reason name (pki_of (md_ca db)))) (md_ca db)\<rparr>)) =
      fst (authenticate_certificate t info db)"
proof
  let ?g = "\<lambda>r. if ac_id r = ac_id ac then r\<lparr>ac_enabled := False\<rparr> else r"
  have rows: "md_enrolled db' = map ?g (md_enrolled db)" using revoke_user_certificate_Success [OF assms(3)] by (simp add: row_update_def)
  have "find_enrolled info (md_enrolled db') = Some (?g ac)"
    unfolding rows by (subst find_enrolled_map) (simp_all add: assms(1))
  then show "fst (authenticate_certificate t info db') = Inl ''Certificate is disabled''" using assms(2) by (simp add: authenticate_certificate_def)
  show "fst (authenticate_certificate t info (db\<lparr>md_ca := with_pki (snd (revoke_endpoint ce now j reason name (pki_of (md_ca db)))) (md_ca db)\<rparr>)) =
      fst (authenticate_certificate t info db)"
    by (simp add: authenticate_certificate_def Let_def split: option.split)
qed

definition demo_revocable :: mtls_db where
  "demo_revocable = demo_secret\<lparr>md_enrolled := [demo_client_row]\<rparr>"

definition demo_info :: presented where
  "demo_info = the (extract_from_flask_native demo_client_env ''D'')"

theorem revocation_and_login_witness:
  "fst (authenticate_certificate 50 demo_info (snd (revoke_user_certificate demo_client_env demo_crl_env 50 demo_user 1 None demo_revocable))) =
     Inl ''Certificate is disabled'' \<and>
   fst (authenticate_certificate 50 demo_info
     (demo_revocable\<lparr>md_ca := with_pki (snd (revoke_endpoint demo_crl_env 50 1 None ''n'' (pki_of (md_ca demo_revocable)))) (md_ca demo_revocable)\<rparr>)) =
     fst (authenticate_certificate 50 demo_info demo_revocable)"
proof -
  have i: "find_enrolled demo_info (md_enrolled demo_revocable) = Some demo_client_row" "nonempty (pr_serial demo_info)" by code_simp+
  have "case fst (revoke_user_certificate demo_client_env demo_crl_env 50 demo_user 1 None demo_revocable) of Success _ _ _ \<Rightarrow> True | _ \<Rightarrow> False"
    by code_simp
  then obtain v msg code where r: "revoke_user_certificate demo_client_env demo_crl_env 50 demo_user (ac_id demo_client_row) None demo_revocable =
      (Success v msg code, snd (revoke_user_certificate demo_client_env demo_crl_env 50 demo_user 1 None demo_revocable))"
    by (cases "fst (revoke_user_certificate demo_client_env demo_crl_env 50 demo_user 1 None demo_revocable)")
      (auto simp: prod_eq_iff demo_client_row_def)
  show ?thesis by (rule revocation_and_login [OF i r])
qed

end
