(* ===== verification/Sso.thy ===== *)
theory Sso
  imports Login Users Base64 Crl
begin

text \<open>
  Single sign-on: \<^verbatim>\<open>api/v2/sso.py\<close>, the tables of \<^verbatim>\<open>models/sso.py\<close> and the sealing of secrets in columns, \<^verbatim>\<open>utils/encryption.py\<close>.

  The directory server, the OAuth2 server, the SAML library, the XML reader of the fall-back, \<^verbatim>\<open>json.loads\<close> and Fernet are parameters. Settings of a
  provider that only its protocol uses are a dictionary; columns of JSON text hold its value. A field of a request is absent or a value of
  the field's type. Connection tests, the reading of metadata and their output are left out, as they are calls of libraries.
\<close>

subsection \<open>State\<close>

record sso_provider =
  pv_id :: int
  pv_name :: string
  pv_type :: string
  pv_enabled :: bool
  pv_is_default :: bool
  pv_display_name :: "string option"
  pv_icon :: "string option"
  pv_settings :: "(string \<times> json) list"
  pv_secret :: "string option"
  pv_attribute_mapping :: "json option"
  pv_role_mapping :: "json option"
  pv_default_role :: string
  pv_auto_create :: bool
  pv_auto_update :: bool

record sso_session =
  sn_id :: int
  sn_user_id :: int
  sn_provider_id :: int
  sn_session_id :: "string option"
  sn_name_id :: "string option"
  sn_created_at :: time
  sn_expires_at :: time

record sso_web = web_session +
  sw_role :: "string option"
  sw_state :: "string option"
  sw_provider_id :: "int option"

record sso_db =
  od_auth :: auth_db
  od_providers :: "sso_provider list"
  od_sessions :: "sso_session list"
  od_session :: sso_web
  od_logs :: "audit_log list"

record ldap_entry =
  lx_dn :: string
  lx_text :: "string \<Rightarrow> string option"
  lx_values :: "string \<Rightarrow> string list option"

datatype oauth_reply = Oauth_raises | Oauth_refused | Oauth_json "(string \<times> json) list"

datatype saml_reply = Saml_raises | Saml_errors | Saml_attributes "(string \<times> string list) list" "string option"

record sso_env =
  oe_log :: "audit_args \<Rightarrow> audit_log list \<Rightarrow> audit_log list"
  oe_json_loads :: "string \<Rightarrow> json option"
  oe_encrypt :: "string \<Rightarrow> string"
  oe_decrypt :: "string \<Rightarrow> string option"
  oe_keys_enabled :: bool
  oe_ldap_open :: "sso_provider \<Rightarrow> string option \<Rightarrow> bool"
  oe_ldap_search :: "sso_provider \<Rightarrow> string \<Rightarrow> string \<Rightarrow> string list \<Rightarrow> ldap_entry list option"
  oe_ldap_bind :: "sso_provider \<Rightarrow> string \<Rightarrow> string \<Rightarrow> bool option"
  oe_escape :: "string \<Rightarrow> string"
  oe_token :: "sso_provider \<Rightarrow> string option \<Rightarrow> string \<Rightarrow> oauth_reply"
  oe_userinfo :: "sso_provider \<Rightarrow> json \<Rightarrow> oauth_reply"
  oe_saml :: "sso_provider \<Rightarrow> string option \<Rightarrow> saml_reply"
  oe_saml_xml :: "string \<Rightarrow> (string option \<times> (string \<times> string list) list) option"
  oe_csrf :: "int \<Rightarrow> string"

subsection \<open>Secrets in columns\<close>

definition looks_sealed :: "string \<Rightarrow> bool" where
  "looks_sealed v = (startswith v ''gAAAAA'' \<and> length v > 50)"

definition encrypt_if_needed :: "sso_env \<Rightarrow> string \<Rightarrow> string" where
  "encrypt_if_needed e v = (if v = [] \<or> looks_sealed v then v else oe_encrypt e v)"

definition decrypt_if_needed :: "sso_env \<Rightarrow> string \<Rightarrow> string option" where
  "decrypt_if_needed e v = (if v = [] \<or> \<not> looks_sealed v then Some v else oe_decrypt e v)"

definition put_secret :: "sso_env \<Rightarrow> string option \<Rightarrow> string option" where
  "put_secret e v = (if nonempty v then Some (encrypt_if_needed e (the v)) else None)"

definition secret_of :: "sso_env \<Rightarrow> sso_provider \<Rightarrow> string option" where
  "secret_of e p = (if nonempty (pv_secret p) then decrypt_if_needed e (the (pv_secret p)) else None)"

lemma secret_roundtrip:
  assumes "\<And>v. looks_sealed (oe_encrypt e v) \<and> oe_decrypt e (oe_encrypt e v) = Some v" "v \<noteq> []" "\<not> looks_sealed v"
  shows "secret_of e (p\<lparr>pv_secret := put_secret e (Some v)\<rparr>) = Some v"
proof -
  have "oe_encrypt e v \<noteq> []" using assms(1) [of v] by (auto simp: looks_sealed_def)
  then show ?thesis using assms by (simp add: secret_of_def put_secret_def encrypt_if_needed_def decrypt_if_needed_def nonempty_def)
qed

text \<open>
  The password for the directory takes another way first, \<^verbatim>\<open>key_encryption.encrypt_string\<close> and \<^verbatim>\<open>decrypt_string\<close>. In \<^verbatim>\<open>security/encryption.py\<close> these
  are indented under a function and are no methods of the class, so the calls raise \<^verbatim>\<open>AttributeError\<close> when the encryption of keys is on.
\<close>

definition ldap_secret_raises :: "sso_env \<Rightarrow> string option \<Rightarrow> bool" where
  "ldap_secret_raises e v = (nonempty v \<and> oe_keys_enabled e)"

subsection \<open>Roles\<close>

definition parse_json_field :: "sso_env \<Rightarrow> json option \<Rightarrow> (string \<times> json) list" where
  "parse_json_field e col =
     (case col of
        Some (JObj d) \<Rightarrow> d
      | Some (JStr s) \<Rightarrow> (case oe_json_loads e s of Some (JObj d) \<Rightarrow> d | _ \<Rightarrow> [])
      | _ \<Rightarrow> [])"

text \<open>\<^verbatim>\<open>x in external_roles\<close>: membership in a list or a dictionary; other values raise.\<close>

definition external_roles :: "(string \<times> json) list \<Rightarrow> string list option" where
  "external_roles d =
     (case jget_or d ''roles'' (jget_or d ''groups'' (JList [])) of
        JStr s \<Rightarrow> Some [s]
      | JList js \<Rightarrow> Some (List.map_filter (\<lambda>j. case j of JStr s \<Rightarrow> Some s | _ \<Rightarrow> None) js)
      | JObj kvs \<Rightarrow> Some (map fst kvs)
      | _ \<Rightarrow> None)"

definition known_role :: "string \<Rightarrow> string" where
  "known_role r = (if r \<in> set valid_roles then r else ''viewer'')"

definition mapped_role :: "json \<Rightarrow> string option" where
  "mapped_role j = (case j of JStr r \<Rightarrow> Some (known_role r) | JList _ \<Rightarrow> None | JObj _ \<Rightarrow> None | _ \<Rightarrow> Some ''viewer'')"

definition resolve_role :: "sso_env \<Rightarrow> sso_provider \<Rightarrow> (string \<times> json) list \<Rightarrow> string option" where
  "resolve_role e p external =
     (let mapping = parse_json_field e (pv_role_mapping p); fallback = known_role (pv_default_role p) in
      if mapping = [] then Some fallback
      else (case external_roles external of
              None \<Rightarrow> None
            | Some rs \<Rightarrow> (case find (\<lambda>(ext, r). ext \<in> set rs) mapping of None \<Rightarrow> Some fallback | Some (ext, r) \<Rightarrow> mapped_role r)))"

lemma mapped_role_valid: "mapped_role j = Some r \<Longrightarrow> r \<in> set valid_roles"
  by (auto simp: mapped_role_def known_role_def valid_roles_def split: json.splits if_splits)

lemma resolve_role_valid: "resolve_role e p external = Some r \<Longrightarrow> r \<in> set valid_roles"
  by (auto simp: resolve_role_def Let_def known_role_def valid_roles_def split: if_splits option.splits dest: mapped_role_valid)

subsection \<open>Providers\<close>

record provider_body =
  vb_name :: "string option"
  vb_type :: "string option"
  vb_display_name :: "string option"
  vb_icon :: "string option"
  vb_enabled :: "bool option"
  vb_is_default :: "bool option"
  vb_default_role :: "string option"
  vb_auto_create :: "bool option"
  vb_auto_update :: "bool option"
  vb_settings :: "(string \<times> json) list"
  vb_secret :: "string option"
  vb_attribute_mapping :: "json option"
  vb_role_mapping :: "json option"
  vb_keys :: "string list"

definition or_default :: "'a option \<Rightarrow> 'a \<Rightarrow> 'a" where
  "or_default v d = (case v of None \<Rightarrow> d | Some x \<Rightarrow> x)"

text \<open>The settings of a protocol with their values at creation. Scopes and the secret are handled apart.\<close>

definition protocol_fields :: "string \<Rightarrow> (string \<times> json) list" where
  "protocol_fields t =
     (if t = ''saml''
      then [(''saml_metadata_url'', JNull), (''saml_entity_id'', JNull), (''saml_sso_url'', JNull), (''saml_slo_url'', JNull),
            (''saml_certificate'', JNull), (''saml_sign_requests'', JBool True), (''saml_sp_cert_source'', JStr ''https''), (''saml_verify_ssl'', JBool True)]
      else if t = ''oauth2''
      then [(''oauth2_client_id'', JNull), (''oauth2_auth_url'', JNull), (''oauth2_token_url'', JNull), (''oauth2_userinfo_url'', JNull),
            (''oauth2_verify_ssl'', JBool True), (''oauth2_scopes'', JList [JStr ''openid'', JStr ''profile'', JStr ''email''])]
      else [(''ldap_server'', JNull), (''ldap_port'', JInt 389), (''ldap_use_ssl'', JBool False), (''ldap_verify_ssl'', JBool True),
            (''ldap_bind_dn'', JNull), (''ldap_base_dn'', JNull), (''ldap_user_filter'', JStr ''(uid={username})''), (''ldap_group_filter'', JNull),
            (''ldap_group_member_attr'', JStr ''member''), (''ldap_username_attr'', JStr ''uid''), (''ldap_email_attr'', JStr ''mail''),
            (''ldap_fullname_attr'', JStr ''cn'')])"

definition bundle_key :: "string \<Rightarrow> string" where
  "bundle_key t = t @ ''_ca_bundle''"

definition new_bundle :: "json \<Rightarrow> json" where
  "new_bundle j = (case j of JStr s \<Rightarrow> if strip s = [] then JNull else j | _ \<Rightarrow> JNull)"

definition created_settings :: "string \<Rightarrow> (string \<times> json) list \<Rightarrow> (string \<times> json) list" where
  "created_settings t d = map (\<lambda>(k, dflt). (k, jget_or d k dflt)) (protocol_fields t) @ [(bundle_key t, new_bundle (jget d (bundle_key t)))]"

definition updated_settings :: "string \<Rightarrow> (string \<times> json) list \<Rightarrow> (string \<times> json) list \<Rightarrow> (string \<times> json) list" where
  "updated_settings t d old =
     (let s = foldl (\<lambda>acc (k, _). if jhas d k then dict_set k (jget d k) acc else acc) old (protocol_fields t) in
      case map_of d (bundle_key t) of
        Some (JStr b) \<Rightarrow> dict_set (bundle_key t) (if b = [] then JNull else JStr b) s
      | _ \<Rightarrow> s)"

definition mapping_value :: "sso_env \<Rightarrow> json \<Rightarrow> json option" where
  "mapping_value e j = (case j of JStr s \<Rightarrow> oe_json_loads e s | _ \<Rightarrow> Some j)"

text \<open>A mapping in a request: \<open>None\<close> if its text does not parse, which raises; else the new value of the column.\<close>

definition put_mapping :: "sso_env \<Rightarrow> bool \<Rightarrow> json option \<Rightarrow> json option \<Rightarrow> json option option" where
  "put_mapping e if_true v old =
     (case v of
        None \<Rightarrow> Some old
      | Some j \<Rightarrow> if if_true \<and> \<not> truthy j then Some old else map_option Some (mapping_value e j))"

definition no_default :: "(sso_provider \<Rightarrow> bool) \<Rightarrow> sso_provider list \<Rightarrow> sso_provider list" where
  "no_default others ps = map (\<lambda>p. if others p then p\<lparr>pv_is_default := False\<rparr> else p) ps"

text \<open>The reply shows the secret to callers that ask for it, and else whether there is one.\<close>

definition provider_view :: "sso_env \<Rightarrow> bool \<Rightarrow> sso_provider \<Rightarrow> sso_provider \<times> string option" where
  "provider_view e include_secrets p =
     (p\<lparr>pv_secret := None\<rparr>,
      if pv_type p = ''saml'' then None
      else if include_secrets then secret_of e p else if nonempty (secret_of e p) then Some ''***'' else None)"

definition log_provider :: "sso_env \<Rightarrow> string \<Rightarrow> int \<Rightarrow> string \<Rightarrow> string \<Rightarrow> sso_db \<Rightarrow> sso_db" where
  "log_provider e act i name text st =
     st\<lparr>od_logs := oe_log e (audit_call act (Some ''sso_provider'') (Num_id i) (Txt name) (Txt text) True None) (od_logs st)\<rparr>"

definition list_providers :: "sso_env \<Rightarrow> sso_db \<Rightarrow> (sso_provider \<times> string option) list http" where
  "list_providers e st = success_response (map (provider_view e False) (od_providers st)) []"

definition get_provider :: "sso_env \<Rightarrow> int \<Rightarrow> string option \<Rightarrow> sso_db \<Rightarrow> (sso_provider \<times> string option) http" where
  "get_provider e i secrets_arg st =
     (case row_get pv_id (od_providers st) i of
        None \<Rightarrow> error_response ''Not Found'' 404
      | Some p \<Rightarrow> success_response (provider_view e (secrets_arg = Some ''true'') p) [])"

definition new_provider :: "sso_env \<Rightarrow> provider_body \<Rightarrow> json option \<Rightarrow> json option \<Rightarrow> sso_db \<Rightarrow> sso_provider" where
  "new_provider e b am rm st =
     (let t = the (vb_type b) in
      \<lparr>pv_id = next_id pv_id (od_providers st), pv_name = the (vb_name b), pv_type = t, pv_enabled = or_default (vb_enabled b) False,
       pv_is_default = or_default (vb_is_default b) False, pv_display_name = vb_display_name b, pv_icon = vb_icon b,
       pv_settings = created_settings t (vb_settings b), pv_secret = (if t = ''saml'' then None else put_secret e (vb_secret b)),
       pv_attribute_mapping = am, pv_role_mapping = rm, pv_default_role = known_role (or_default (vb_default_role b) ''viewer''),
       pv_auto_create = or_default (vb_auto_create b) True, pv_auto_update = or_default (vb_auto_update b) True\<rparr>)"

definition create_provider :: "sso_env \<Rightarrow> provider_body \<Rightarrow> sso_db \<Rightarrow> (sso_provider \<times> string option) http \<times> sso_db" where
  "create_provider e b st =
     (if \<not> nonempty (vb_name b) then (error_response ''Provider name is required'' 400, st)
      else if \<not> nonempty (vb_type b) then (error_response ''Provider type is required'' 400, st)
      else if the (vb_type b) \<notin> {''saml'', ''oauth2'', ''ldap''} then (error_response ''Invalid provider type. Must be: saml, oauth2, ldap'' 400, st)
      else if list_ex (\<lambda>p. pv_name p = the (vb_name b)) (od_providers st) then (error_response ''Provider name already exists'' 400, st)
      else if list_ex (\<lambda>p. pv_type p = the (vb_type b)) (od_providers st)
      then (error_response (''A '' @ upper (the (vb_type b)) @ '' provider already exists. Only one provider per type is allowed.'') 400, st)
      else if the (vb_type b) = ''ldap'' \<and> ldap_secret_raises e (vb_secret b) then (Raised ''AttributeError'', st)
      else (case (put_mapping e True (vb_attribute_mapping b) None, put_mapping e True (vb_role_mapping b) None) of
              (Some am, Some rm) \<Rightarrow>
                (let p = new_provider e b am rm st;
                     ps = (if pv_is_default p then no_default (\<lambda>_. True) (od_providers st) else od_providers st)
                 in (success_response (provider_view e False p) ''SSO provider created'',
                     log_provider e ''sso_provider_created'' (pv_id p) (pv_name p) (''Type: '' @ pv_type p) (st\<lparr>od_providers := ps @ [p]\<rparr>)))
            | _ \<Rightarrow> (Raised ''JSONDecodeError'', st)))"

definition changed_provider :: "sso_env \<Rightarrow> provider_body \<Rightarrow> json option \<Rightarrow> json option \<Rightarrow> sso_provider \<Rightarrow> sso_provider" where
  "changed_provider e b am rm p =
     (let pick_field = (\<lambda>v old. case v of None \<Rightarrow> old | Some x \<Rightarrow> Some x) in
      p\<lparr>pv_name := or_default (vb_name b) (pv_name p), pv_display_name := pick_field (vb_display_name b) (pv_display_name p),
        pv_icon := pick_field (vb_icon b) (pv_icon p), pv_enabled := or_default (vb_enabled b) (pv_enabled p),
        pv_is_default := or_default (vb_is_default b) (pv_is_default p),
        pv_default_role := (case vb_default_role b of None \<Rightarrow> pv_default_role p | Some r \<Rightarrow> known_role r),
        pv_auto_create := or_default (vb_auto_create b) (pv_auto_create p), pv_auto_update := or_default (vb_auto_update b) (pv_auto_update p),
        pv_settings := updated_settings (pv_type p) (vb_settings b) (pv_settings p),
        pv_secret := (if pv_type p \<noteq> ''saml'' \<and> nonempty (vb_secret b) then put_secret e (vb_secret b) else pv_secret p),
        pv_attribute_mapping := am, pv_role_mapping := rm\<rparr>)"

text \<open>The provider by its identifier or, where the address has no number, by its type.\<close>

definition update_provider :: "sso_env \<Rightarrow> int + string \<Rightarrow> provider_body \<Rightarrow> sso_db \<Rightarrow> (sso_provider \<times> string option) http \<times> sso_db" where
  "update_provider e which b st =
     (if which = Inl 0 then (error_response ''Provider ID or type required'' 400, st)
      else case (case which of Inl i \<Rightarrow> row_get pv_id (od_providers st) i | Inr t \<Rightarrow> find (\<lambda>p. pv_type p = t) (od_providers st)) of
        None \<Rightarrow> (error_response (case which of Inl _ \<Rightarrow> ''Not Found'' | Inr t \<Rightarrow> ''No provider found with type: '' @ t) 404, st)
      | Some p \<Rightarrow>
          if vb_name b \<noteq> None \<and> list_ex (\<lambda>q. pv_name q = the (vb_name b) \<and> pv_id q \<noteq> pv_id p) (od_providers st)
          then (error_response ''Provider name already exists'' 400, st)
          else if pv_type p = ''ldap'' \<and> ldap_secret_raises e (vb_secret b) then (Raised ''AttributeError'', st)
          else (case (put_mapping e False (vb_attribute_mapping b) (pv_attribute_mapping p), put_mapping e False (vb_role_mapping b) (pv_role_mapping p)) of
                  (Some am, Some rm) \<Rightarrow>
                    (let p' = changed_provider e b am rm p;
                         ps = (if vb_is_default b = Some True then no_default (\<lambda>q. pv_id q \<noteq> pv_id p) (od_providers st) else od_providers st)
                     in (success_response (provider_view e False p') ''SSO provider updated'',
                         log_provider e ''sso_provider_updated'' (pv_id p) (pv_name p') (''Updated fields: '' @ join_with '', '' (vb_keys b))
                           (st\<lparr>od_providers := row_update pv_id (pv_id p) (\<lambda>_. p') ps\<rparr>)))
                | _ \<Rightarrow> (Raised ''JSONDecodeError'', st)))"

definition delete_provider :: "sso_env \<Rightarrow> int \<Rightarrow> sso_db \<Rightarrow> unit http \<times> sso_db" where
  "delete_provider e i st =
     (case row_get pv_id (od_providers st) i of
        None \<Rightarrow> (error_response ''Not Found'' 404, st)
      | Some p \<Rightarrow>
          (success_response () ''SSO provider deleted'',
           log_provider e ''sso_provider_deleted'' i (pv_name p) (''Type: '' @ pv_type p)
             (st\<lparr>od_sessions := filter (\<lambda>s. sn_provider_id s \<noteq> i) (od_sessions st), od_providers := row_delete pv_id i (od_providers st)\<rparr>)))"

definition toggle_provider :: "sso_env \<Rightarrow> int \<Rightarrow> sso_db \<Rightarrow> (sso_provider \<times> string option) http \<times> sso_db" where
  "toggle_provider e i st =
     (case row_get pv_id (od_providers st) i of
        None \<Rightarrow> (error_response ''Not Found'' 404, st)
      | Some p \<Rightarrow>
          (let p' = p\<lparr>pv_enabled := \<not> pv_enabled p\<rparr>; word = (if pv_enabled p' then ''enabled'' else ''disabled'')
           in (success_response (provider_view e False p') (''SSO provider '' @ word),
               log_provider e (''sso_provider_'' @ word) i (pv_name p) (''Type: '' @ pv_type p)
                 (st\<lparr>od_providers := row_update pv_id i (\<lambda>_. p') (od_providers st)\<rparr>))))"

definition list_sso_sessions :: "time \<Rightarrow> sso_db \<Rightarrow> sso_session list http" where
  "list_sso_sessions now st = success_response (filter (\<lambda>s. sn_expires_at s > now) (od_sessions st)) []"

definition get_available_providers :: "sso_db \<Rightarrow> sso_provider list http" where
  "get_available_providers st = success_response (filter pv_enabled (od_providers st)) []"

subsection \<open>Users from a provider\<close>

text \<open>Why there is no user: a code for the caller, a violated constraint of the database, or another exception.\<close>

datatype sso_failure = Refused string | Db_raised | Py_raised

definition sso_changes :: "time \<Rightarrow> string \<Rightarrow> string \<Rightarrow> string \<Rightarrow> user \<Rightarrow> user" where
  "sso_changes now mail fullname r u =
     u\<lparr>email := (if mail = [] then email u else mail), full_name := (if fullname = [] then full_name u else Some fullname), role := r,
       last_login := Some now\<rparr>"

definition created_sso_user :: "time \<Rightarrow> int \<Rightarrow> string \<Rightarrow> string \<Rightarrow> string \<Rightarrow> string \<Rightarrow> user" where
  "created_sso_user now i name mail fullname r =
     \<lparr>u_id = i, username = name, email = (if mail = [] then name @ ''@sso.local'' else mail), password_hash = [],
      full_name = Some (if fullname = [] then name else fullname), role = r, custom_role_id = None, active = True, mfa_enabled = False,
      totp_secret = None, totp_confirmed = False, backup_codes = None, force_password_change = False, password_reset_token = None,
      password_reset_expires = None, u_created_at = Some now, last_login = Some now, login_count = Some 0, failed_logins = Some 0,
      locked_until = None\<rparr>"

definition get_or_create_sso_user ::
  "sso_env \<Rightarrow> time \<Rightarrow> sso_provider \<Rightarrow> string \<Rightarrow> string \<Rightarrow> string \<Rightarrow> (string \<times> json) list \<Rightarrow> auth_db \<Rightarrow> (sso_failure + user) \<times> auth_db" where
  "get_or_create_sso_user e now p name mail fullname external db =
     (case find_user name db of
        Some u \<Rightarrow>
          if \<not> pv_auto_update p then (Inr u, db)
          else (case resolve_role e p external of
                  None \<Rightarrow> (Inl Py_raised, db)
                | Some r \<Rightarrow>
                    (let u' = sso_changes now mail fullname r u in
                     if list_ex (\<lambda>x. u_id x \<noteq> u_id u \<and> email x = email u') (users db) then (Inl Db_raised, db)
                     else (Inr u', update_user (u_id u) (\<lambda>_. u') db)))
      | None \<Rightarrow>
          if \<not> pv_auto_create p then (Inl (Refused ''auto_create_disabled''), db)
          else (case resolve_role e p external of
                  None \<Rightarrow> (Inl Py_raised, db)
                | Some r \<Rightarrow>
                    (let u = created_sso_user now (next_id u_id (users db)) name mail fullname r in
                     if list_ex (\<lambda>x. email x = email u) (users db) then (Inl Db_raised, db)
                     else (Inr u, db\<lparr>users := users db @ [u]\<rparr>))))"

text \<open>A session identifier of \<^verbatim>\<open>None\<close> is looked up as \<^verbatim>\<open>IS NULL\<close>, so it finds a row without one.\<close>

definition track_session :: "time \<Rightarrow> int \<Rightarrow> int \<Rightarrow> string option \<Rightarrow> string option \<Rightarrow> sso_session list \<Rightarrow> sso_session list" where
  "track_session now uid pid sid name_id rows =
     (case find (\<lambda>s. sn_session_id s = sid) rows of
        Some s \<Rightarrow> row_update sn_id (sn_id s) (\<lambda>x. x\<lparr>sn_expires_at := now + hours 8\<rparr>) rows
      | None \<Rightarrow> rows @ [\<lparr>sn_id = next_id sn_id rows, sn_user_id = uid, sn_provider_id = pid, sn_session_id = sid, sn_name_id = name_id,
                         sn_created_at = now, sn_expires_at = now + hours 8\<rparr>])"

definition sso_web_session :: "string \<Rightarrow> user \<Rightarrow> sso_web \<Rightarrow> sso_web" where
  "sso_web_session meth u s =
     s\<lparr>s_user_id := Some (u_id u), s_username := Some (username u), sw_role := Some (role u), s_auth_method := Some meth, s_permanent := True\<rparr>"

definition enter :: "sso_env \<Rightarrow> time \<Rightarrow> sso_provider \<Rightarrow> string \<Rightarrow> string \<Rightarrow> string option \<Rightarrow> string option \<Rightarrow> user \<Rightarrow> sso_db \<Rightarrow> sso_db" where
  "enter e now p meth text sid name_id u st =
     st\<lparr>od_sessions := track_session now (u_id u) (pv_id p) sid name_id (od_sessions st), od_session := sso_web_session meth u (od_session st),
        od_logs := oe_log e (audit_call ''login_success'' (Some ''user'') (Num_id (u_id u)) (Txt (username u))
          (Txt (text @ '' login via '' @ pv_name p)) True (Some (username u))) (od_logs st)\<rparr>"

subsection \<open>OAuth2 and SAML\<close>

definition redirect :: "string \<Rightarrow> string http" where
  "redirect url = Success url [] 302"

definition enabled_provider :: "string \<Rightarrow> sso_db \<Rightarrow> sso_provider option" where
  "enabled_provider t st = find (\<lambda>p. pv_type p = t \<and> pv_enabled p) (od_providers st)"

definition initiate_sso_login :: "(sso_provider \<Rightarrow> string \<Rightarrow> string option) \<Rightarrow> string \<Rightarrow> string \<Rightarrow> sso_db \<Rightarrow> string http \<times> sso_db" where
  "initiate_sso_login start token t st =
     (if t \<notin> {''saml'', ''oauth2''} then (error_response ''Use /api/v2/sso/ldap/login for LDAP authentication'' 400, st)
      else (case enabled_provider t st of
              None \<Rightarrow> (error_response (''No enabled '' @ upper t @ '' provider found'') 404, st)
            | Some p \<Rightarrow>
                (let st' = st\<lparr>od_session := (od_session st)\<lparr>sw_state := Some token, sw_provider_id := Some (pv_id p)\<rparr>\<rparr> in
                 if t = ''saml'' \<and> \<not> truthy (jget (pv_settings p) ''saml_sso_url'') then (error_response ''SAML SSO URL not configured'' 400, st')
                 else (case start p token of
                         None \<Rightarrow> (if t = ''saml'' then error_response ''SAML login failed. Check SAML configuration.'' 500 else Raised ''TypeError'', st')
                       | Some url \<Rightarrow> (redirect url, st')))))"

definition login_error :: "string \<Rightarrow> string http" where
  "login_error code = redirect (''/login?error='' @ code)"

definition text_at :: "(string \<times> json) list \<Rightarrow> string \<Rightarrow> string" where
  "text_at d k = (case jget d k of JStr s \<Rightarrow> s | _ \<Rightarrow> [])"

definition mapped_key :: "sso_env \<Rightarrow> sso_provider \<Rightarrow> string \<Rightarrow> string \<Rightarrow> string" where
  "mapped_key e p k dflt = (case jget (parse_json_field e (pv_attribute_mapping p)) k of JStr s \<Rightarrow> s | _ \<Rightarrow> dflt)"

text \<open>The failure of a callback: it is logged, unless the session of the database is the one that failed.\<close>

definition callback_failed :: "sso_env \<Rightarrow> string \<Rightarrow> sso_provider \<Rightarrow> bool \<Rightarrow> sso_db \<Rightarrow> string http \<times> sso_db" where
  "callback_failed e text p logged st =
     (login_error ''callback_error'',
      if logged then st\<lparr>od_logs := oe_log e (audit_call ''login_failure'' (Some ''sso'') No_id No_text
        (Txt (text @ '' callback error for provider '' @ pv_name p)) False None) (od_logs st)\<rparr> else st)"

definition callback_user ::
  "sso_env \<Rightarrow> time \<Rightarrow> sso_provider \<Rightarrow> string \<Rightarrow> string \<Rightarrow> string \<Rightarrow> string \<Rightarrow> (string \<times> json) list \<Rightarrow> string option \<Rightarrow> sso_db \<Rightarrow>
     string http \<times> sso_db" where
  "callback_user e now p text name mail fullname external sid st =
     (if name = [] then (login_error ''no_username'', st)
      else (case get_or_create_sso_user e now p name mail fullname external (od_auth st) of
              (Inl (Refused code), _) \<Rightarrow> (login_error code, st)
            | (Inl Db_raised, _) \<Rightarrow> callback_failed e text p False st
            | (Inl Py_raised, _) \<Rightarrow> callback_failed e text p True st
            | (Inr u, db') \<Rightarrow> (redirect ''/login/sso-complete'', enter e now p ''sso'' (text @ '' SSO'') sid sid u (st\<lparr>od_auth := db'\<rparr>))))"

text \<open>The user name: a claim, or the mail address up to the first \<^verbatim>\<open>@\<close>; \<open>None\<close> if splitting a value that is no text raises.\<close>

definition oauth_username :: "sso_env \<Rightarrow> sso_provider \<Rightarrow> (string \<times> json) list \<Rightarrow> string option" where
  "oauth_username e p info =
     (let name = text_at info (mapped_key e p ''username'' ''preferred_username'') in
      if name \<noteq> [] then Some name
      else (case jget_or info ''email'' (JStr []) of JStr m \<Rightarrow> Some (hd (split_on (CHR ''@'') m)) | _ \<Rightarrow> None))"

definition oauth_callback :: "sso_env \<Rightarrow> time \<Rightarrow> sso_provider \<Rightarrow> string \<Rightarrow> sso_db \<Rightarrow> string http \<times> sso_db" where
  "oauth_callback e now p code st =
     (case oe_token e p (secret_of e p) code of
        Oauth_raises \<Rightarrow> callback_failed e ''OAuth2'' p True st
      | Oauth_refused \<Rightarrow> (login_error ''token_exchange_failed'', st)
      | Oauth_json tokens \<Rightarrow>
          if \<not> truthy (jget tokens ''access_token'') then (login_error ''no_access_token'', st)
          else (case oe_userinfo e p (jget tokens ''access_token'') of
                  Oauth_raises \<Rightarrow> callback_failed e ''OAuth2'' p True st
                | Oauth_refused \<Rightarrow> (login_error ''userinfo_failed'', st)
                | Oauth_json info \<Rightarrow>
                    (case oauth_username e p info of
                       None \<Rightarrow> callback_failed e ''OAuth2'' p True st
                     | Some name \<Rightarrow>
                         callback_user e now p ''OAuth2'' name (text_at info (mapped_key e p ''email'' ''email''))
                           (text_at info (mapped_key e p ''fullname'' ''name'')) info
                           (Some (case jget_or info ''sub'' (JStr name) of JStr s \<Rightarrow> s | _ \<Rightarrow> name)) st)))"

text \<open>The fall-back when the library raises reads the names and attributes of the XML text, without a look at its signature.\<close>

definition saml_fallback :: "sso_env \<Rightarrow> string option \<Rightarrow> ((string \<times> string list) list \<times> string option) option" where
  "saml_fallback e response =
     (case b64decode (or_default response []) of
        None \<Rightarrow> None
      | Some xml \<Rightarrow>
          (case oe_saml_xml e xml of
             None \<Rightarrow> None
           | Some (name_id, attrs) \<Rightarrow>
               Some (foldl (\<lambda>d (k, vs). if k \<noteq> [] \<and> map_of d k = None then d @ [(k, vs)] else d) [] attrs, name_id)))"

definition first_value :: "(string \<times> string list) list \<Rightarrow> string \<Rightarrow> string option option" where
  "first_value attrs k = (case map_of attrs k of None \<Rightarrow> Some None | Some [] \<Rightarrow> None | Some (v # _) \<Rightarrow> Some (Some v))"

definition saml_accept :: "sso_env \<Rightarrow> time \<Rightarrow> sso_provider \<Rightarrow> (string \<times> string list) list \<Rightarrow> string option \<Rightarrow> sso_db \<Rightarrow> string http \<times> sso_db" where
  "saml_accept e now p attrs name_id st =
     (case (first_value attrs (mapped_key e p ''username'' ''username''), first_value attrs (mapped_key e p ''email'' ''email''),
            first_value attrs (mapped_key e p ''fullname'' ''name'')) of
        (Some n, Some m, Some f) \<Rightarrow>
          callback_user e now p ''SAML'' (strip (or_else n (or_default name_id []))) (strip (or_default m [])) (strip (or_default f []))
            [(''name_id'', case name_id of None \<Rightarrow> JNull | Some s \<Rightarrow> JStr s),
             (''attributes'', JObj (map (\<lambda>(k, vs). (k, JList (map JStr vs))) attrs))] name_id st
      | _ \<Rightarrow> callback_failed e ''SAML'' p True st)"

definition saml_callback :: "sso_env \<Rightarrow> time \<Rightarrow> sso_provider \<Rightarrow> string option \<Rightarrow> sso_db \<Rightarrow> string http \<times> sso_db" where
  "saml_callback e now p response st =
     (case oe_saml e p response of
        Saml_errors \<Rightarrow> (login_error ''saml_validation_failed'', st)
      | Saml_attributes attrs name_id \<Rightarrow> saml_accept e now p attrs name_id st
      | Saml_raises \<Rightarrow>
          (case saml_fallback e response of
             None \<Rightarrow> callback_failed e ''SAML'' p True st
           | Some (attrs, name_id) \<Rightarrow> saml_accept e now p attrs name_id st))"

record callback_args =
  ka_state :: "string option"
  ka_code :: "string option"
  ka_error :: "string option"
  ka_saml_response :: "string option"

definition sso_callback :: "sso_env \<Rightarrow> time \<Rightarrow> string \<Rightarrow> callback_args \<Rightarrow> sso_db \<Rightarrow> string http \<times> sso_db" where
  "sso_callback e now t a st =
     (if t \<notin> {''saml'', ''oauth2''} then (login_error ''invalid_provider_type'', st)
      else (case enabled_provider t st of
              None \<Rightarrow> (login_error ''provider_not_found'', st)
            | Some p \<Rightarrow>
                if t = ''saml'' then saml_callback e now p (ka_saml_response a) st
                else if \<not> nonempty (ka_state a) then (login_error ''invalid_state'', st)
                else if list_ex (\<lambda>c. (128 :: nat) \<le> of_char c) (the (ka_state a) @ or_default (sw_state (od_session st)) []) then (Raised ''TypeError'', st)
                else if the (ka_state a) \<noteq> or_default (sw_state (od_session st)) [] then (login_error ''invalid_state'', st)
                else if \<not> nonempty (ka_code a) then (login_error (or_default (ka_error a) ''no_code''), st)
                else oauth_callback e now p (the (ka_code a)) st))"

subsection \<open>The directory\<close>

record ldap_user =
  lu_dn :: string
  lu_username :: string
  lu_email :: string
  lu_fullname :: string
  lu_groups :: "string list"

definition replace_username :: "string \<Rightarrow> string \<Rightarrow> string" where
  "replace_username safe filt = replace_text 0 ''{username}'' safe filt"

text \<open>The first part of a group's name that is a common name.\<close>

definition group_cn :: "string \<Rightarrow> string option" where
  "group_cn dn = map_option (drop 3) (find (\<lambda>part. startswith (upper part) ''CN='') (map strip (split_on (CHR '','') dn)))"

definition groups_by_member_of :: "sso_env \<Rightarrow> sso_provider \<Rightarrow> string \<Rightarrow> string \<Rightarrow> string list" where
  "groups_by_member_of e p name dn =
     (let base = text_at (pv_settings p) ''ldap_base_dn'';
          first = oe_ldap_search e p base (''(distinguishedName='' @ oe_escape e dn @ '')'') [''memberOf''];
          entries = (case first of
                       Some [] \<Rightarrow> oe_ldap_search e p base (replace_username (oe_escape e name) (text_at (pv_settings p) ''ldap_user_filter'')) [''memberOf'']
                     | r \<Rightarrow> r)
      in case entries of
           Some (x # _) \<Rightarrow> (case lx_values x ''memberOf'' of None \<Rightarrow> [] | Some dns \<Rightarrow> List.map_filter group_cn dns)
         | _ \<Rightarrow> [])"

definition groups_by_member :: "sso_env \<Rightarrow> sso_provider \<Rightarrow> string \<Rightarrow> string \<Rightarrow> string list" where
  "groups_by_member e p attr dn =
     (let base = text_at (pv_settings p) ''ldap_base_dn''; above = join_with '','' (tl (split_on (CHR '','') base));
          gf = strip (text_at (pv_settings p) ''ldap_group_filter''); gf1 = (if startswith gf ''('' then gf else ''('' @ gf @ '')'')
      in case oe_ldap_search e p (if above = [] then base else above) (''(&'' @ gf1 @ ''('' @ attr @ ''='' @ oe_escape e dn @ ''))'') [''cn''] of
           None \<Rightarrow> []
         | Some es \<Rightarrow> List.map_filter (\<lambda>x. lx_text x ''cn'') es)"

definition ldap_groups :: "sso_env \<Rightarrow> sso_provider \<Rightarrow> string \<Rightarrow> string \<Rightarrow> string list" where
  "ldap_groups e p name dn =
     (let attr = lower (strip (or_else (Some (text_at (pv_settings p) ''ldap_group_member_attr'')) ''member'')) in
      if text_at (pv_settings p) ''ldap_group_filter'' = [] \<or> \<not> oe_ldap_open e p (secret_of e p) then []
      else if attr = ''memberof'' then groups_by_member_of e p name dn else groups_by_member e p attr dn)"

definition ldap_authenticate_user :: "sso_env \<Rightarrow> sso_provider \<Rightarrow> string \<Rightarrow> string \<Rightarrow> string + ldap_user" where
  "ldap_authenticate_user e p name password =
     (let s = pv_settings p; failed = Inl ''LDAP authentication failed'';
          attrs = map (text_at s) [''ldap_username_attr'', ''ldap_email_attr'', ''ldap_fullname_attr'']
      in if ldap_secret_raises e (secret_of e p) \<or> \<not> oe_ldap_open e p (secret_of e p) then failed
         else (case oe_ldap_search e p (text_at s ''ldap_base_dn'') (replace_username (oe_escape e name) (text_at s ''ldap_user_filter'')) attrs of
                 None \<Rightarrow> failed
               | Some [] \<Rightarrow> Inl ''Invalid credentials''
               | Some (x # _) \<Rightarrow>
                   (case oe_ldap_bind e p (lx_dn x) password of
                      None \<Rightarrow> failed
                    | Some False \<Rightarrow> Inl ''Invalid credentials''
                    | Some True \<Rightarrow>
                        Inr \<lparr>lu_dn = lx_dn x, lu_username = or_default (lx_text x (attrs ! 0)) name, lu_email = or_default (lx_text x (attrs ! 1)) [],
                             lu_fullname = or_default (lx_text x (attrs ! 2)) [], lu_groups = ldap_groups e p name (lx_dn x)\<rparr>)))"

subsection \<open>Login with the directory\<close>

definition LDAP_MAX_FAILED_ATTEMPTS :: int where "LDAP_MAX_FAILED_ATTEMPTS = 5"

definition LDAP_LOCKOUT_MINUTES :: int where "LDAP_LOCKOUT_MINUTES = 15"

definition ldap_unlock :: "user \<Rightarrow> user" where
  "ldap_unlock u = u\<lparr>locked_until := None, failed_logins := Some 0\<rparr>"

definition check_ldap_lockout :: "time \<Rightarrow> string \<Rightarrow> auth_db \<Rightarrow> bool \<times> auth_db" where
  "check_ldap_lockout now name db =
     (case find_user name db of
        None \<Rightarrow> (False, db)
      | Some u \<Rightarrow>
          (case locked_until u of
             None \<Rightarrow> (False, db)
           | Some t \<Rightarrow> if now < t then (True, db) else (False, update_user (u_id u) ldap_unlock db)))"

definition count_ldap_failure :: "time \<Rightarrow> user \<Rightarrow> user" where
  "count_ldap_failure now u =
     (let n = or_default (failed_logins u) 0 + 1 in
      if n \<ge> LDAP_MAX_FAILED_ATTEMPTS then u\<lparr>failed_logins := Some n, locked_until := Some (now + minutes LDAP_LOCKOUT_MINUTES)\<rparr>
      else u\<lparr>failed_logins := Some n\<rparr>)"

definition record_ldap_failed_attempt :: "time \<Rightarrow> string \<Rightarrow> auth_db \<Rightarrow> auth_db" where
  "record_ldap_failed_attempt now name db =
     (case find_user name db of None \<Rightarrow> db | Some u \<Rightarrow> update_user (u_id u) (count_ldap_failure now) db)"

definition clear_ldap_failed_attempts :: "string \<Rightarrow> auth_db \<Rightarrow> auth_db" where
  "clear_ldap_failed_attempts name db =
     (case find_user name db of
        None \<Rightarrow> db
      | Some u \<Rightarrow> if or_default (failed_logins u) 0 \<noteq> 0 \<or> locked_until u \<noteq> None then update_user (u_id u) ldap_unlock db else db)"

definition ldap_provider :: "int option \<Rightarrow> sso_db \<Rightarrow> sso_provider option" where
  "ldap_provider i st =
     (if i \<noteq> None \<and> i \<noteq> Some 0 then row_get pv_id (od_providers st) (the i) else enabled_provider ''ldap'' st)"

definition ldap_enter ::
  "sso_env \<Rightarrow> time \<Rightarrow> sso_provider \<Rightarrow> string \<Rightarrow> ldap_user \<Rightarrow> sso_db \<Rightarrow> (user \<times> string list \<times> string) http \<times> sso_db" where
  "ldap_enter e now p name info st =
     (case get_or_create_sso_user e now p (lu_username info) (lu_email info) (lu_fullname info) [(''groups'', JList (map JStr (lu_groups info)))] (od_auth st) of
        (Inl (Refused code), _) \<Rightarrow>
          (error_response ''User not found and automatic account creation is disabled. Contact your administrator.'' 403, st)
      | (Inl Db_raised, _) \<Rightarrow> (Raised ''IntegrityError'', st)
      | (Inl Py_raised, _) \<Rightarrow> (Raised ''TypeError'', st)
      | (Inr u0, db) \<Rightarrow>
          (let db' = clear_ldap_failed_attempts name db; u = or_default (row_get u_id (users db') (u_id u0)) u0
           in (success_response (u, get_role_permissions (role u), oe_csrf e (u_id u)) ''LDAP authentication successful'',
               enter e now p ''ldap'' ''LDAP'' (Some (lu_dn info)) (Some (lu_dn info)) u (st\<lparr>od_auth := db'\<rparr>))))"

definition ldap_login ::
  "sso_env \<Rightarrow> time \<Rightarrow> string option \<Rightarrow> string option \<Rightarrow> int option \<Rightarrow> sso_db \<Rightarrow> (user \<times> string list \<times> string) http \<times> sso_db" where
  "ldap_login e now name_arg pw provider st =
     (if \<not> nonempty name_arg \<or> \<not> nonempty pw then (error_response ''Username and password required'' 400, st)
      else
        (let name = the name_arg; (locked, db1) = check_ldap_lockout now name (od_auth st); st1 = st\<lparr>od_auth := db1\<rparr> in
         if locked then (error_response ''Account temporarily locked due to too many failed attempts'' 429, st1)
         else (case ldap_provider provider st1 of
                 None \<Rightarrow> (error_response ''No LDAP provider configured'' 400, st1)
               | Some p \<Rightarrow>
                   if \<not> pv_enabled p then (error_response ''LDAP provider is disabled'' 400, st1)
                   else (case ldap_authenticate_user e p name (the pw) of
                           Inl _ \<Rightarrow>
                             (error_response ''Invalid credentials'' 401,
                              st1\<lparr>od_auth := record_ldap_failed_attempt now name db1,
                                  od_logs := oe_log e (audit_call ''login_failure'' (Some ''user'') No_id No_text
                                    (Txt (''LDAP authentication failed for '' @ name)) False (Some name)) (od_logs st1)\<rparr>)
                         | Inr info \<Rightarrow> ldap_enter e now p name info st1))))"

subsection \<open>Guessing passwords of the directory\<close>

definition ldap_fail :: "user \<Rightarrow> time \<Rightarrow> user" where
  "ldap_fail u t = count_ldap_failure t (if locked_until u = None then u else ldap_unlock u)"

interpretation ldap_accounts: attempt_limiter user_locked ldap_fail user_failures locked_until
  LDAP_MAX_FAILED_ATTEMPTS "minutes LDAP_LOCKOUT_MINUTES"
  by unfold_locales
    (auto simp: user_locked_def ldap_fail_def user_failures_def count_ldap_failure_def ldap_unlock_def or_default_def Let_def
      LDAP_MAX_FAILED_ATTEMPTS_def split: option.splits)

lemma ldap_lockout_result:
  assumes "find_user name db = Some u"
  shows "fst (check_ldap_lockout now name db) = user_locked u now"
    "user_locked u now \<Longrightarrow> snd (check_ldap_lockout now name db) = db"
    "\<not> user_locked u now \<Longrightarrow> find_user name (record_ldap_failed_attempt now name (snd (check_ldap_lockout now name db))) = Some (ldap_fail u now)"
proof -
  have names: "username (ldap_unlock x) = username x" "username (count_ldap_failure now x) = username x" "u_id (ldap_unlock x) = u_id x"
    "u_id (count_ldap_failure now x) = u_id x" for x
    by (simp_all add: ldap_unlock_def count_ldap_failure_def Let_def)
  show "fst (check_ldap_lockout now name db) = user_locked u now"
    using assms by (simp add: check_ldap_lockout_def user_locked_def split: option.split)
  show "snd (check_ldap_lockout now name db) = db" if "user_locked u now"
    using assms that by (cases "locked_until u") (simp_all add: check_ldap_lockout_def user_locked_def)
  show "find_user name (record_ldap_failed_attempt now name (snd (check_ldap_lockout now name db))) = Some (ldap_fail u now)"
    if "\<not> user_locked u now"
    using assms that
    by (cases "locked_until u")
      (simp_all add: check_ldap_lockout_def user_locked_def record_ldap_failed_attempt_def find_user_update names ldap_fail_def)
qed

lemma ldap_wrong:
  assumes "find_user name (od_auth st) = Some u" "name \<noteq> []" "pw \<noteq> []" "enabled_provider ''ldap'' st = Some p"
    and "ldap_authenticate_user e p name pw = Inl err"
  shows "status_code (fst (ldap_login e now (Some name) (Some pw) None st)) = (if user_locked u now then 429 else 401)
    \<and> find_user name (od_auth (snd (ldap_login e now (Some name) (Some pw) None st))) = Some (if user_locked u now then u else ldap_fail u now)
    \<and> od_providers (snd (ldap_login e now (Some name) (Some pw) None st)) = od_providers st"
proof -
  have p: "find (\<lambda>p. pv_type p = ''ldap'' \<and> pv_enabled p) (od_providers st) = Some p" "pv_enabled p"
    using assms(4) find_Some_in [of _ "od_providers st" p] by (auto simp: enabled_provider_def)
  show ?thesis
    using assms(2,3,5) p ldap_lockout_result [OF assms(1), of now] assms(1)
    by (cases "user_locked u now")
      (simp_all add: ldap_login_def nonempty_def case_prod_beta Let_def ldap_provider_def enabled_provider_def error_response_def status_code_def)
qed

fun ldap_statuses :: "sso_env \<Rightarrow> string \<Rightarrow> (time \<times> string) list \<Rightarrow> sso_db \<Rightarrow> (time \<times> nat) list" where
  "ldap_statuses e name [] st = []"
| "ldap_statuses e name ((t, pw) # as) st =
     (let (r, st') = ldap_login e t (Some name) (Some pw) None st in (t, status_code r) # ldap_statuses e name as st')"

lemma ldap_statuses_evaluated:
  assumes "find_user name (od_auth st) = Some u" "name \<noteq> []" "enabled_provider ''ldap'' st = Some p"
    "\<forall>(t, pw) \<in> set as. pw \<noteq> [] \<and> (\<exists>err. ldap_authenticate_user e p name pw = Inl err)"
  shows "map fst (filter (\<lambda>(t, s). s = 401) (ldap_statuses e name as st)) = ldap_accounts.evaluated u (map fst as)"
  using assms
proof (induction as arbitrary: st u)
  case (Cons a as)
  obtain t pw where a: "a = (t, pw)" by (cases a)
  then obtain err where pw: "pw \<noteq> []" "ldap_authenticate_user e p name pw = Inl err" using Cons.prems(4) by auto
  let ?r = "ldap_login e t (Some name) (Some pw) None st"
  note r = ldap_wrong [OF Cons.prems(1,2) pw(1) Cons.prems(3) pw(2), of t]
  have "enabled_provider ''ldap'' (snd ?r) = Some p" using r Cons.prems(3) by (simp add: enabled_provider_def)
  then have "map fst (filter (\<lambda>(t, s). s = 401) (ldap_statuses e name as (snd ?r))) =
      ldap_accounts.evaluated (if user_locked u t then u else ldap_fail u t) (map fst as)"
    using Cons.IH [of "snd ?r"] r Cons.prems(2,4) by simp
  then show ?case using r by (cases ?r) (auto simp: a)
qed simp

text \<open>A name that is not the exact name of a user is never locked out: the state of the lockouts stays as it is.\<close>

lemma ldap_unknown_unbounded:
  assumes "find_user name (od_auth st) = None" "name \<noteq> []" "pw \<noteq> []" "enabled_provider ''ldap'' st = Some p"
    "ldap_authenticate_user e p name pw = Inl err"
  shows "status_code (fst (ldap_login e now (Some name) (Some pw) None st)) = 401 \<and> od_auth (snd (ldap_login e now (Some name) (Some pw) None st)) = od_auth st"
proof -
  have p: "find (\<lambda>p. pv_type p = ''ldap'' \<and> pv_enabled p) (od_providers st) = Some p" "pv_enabled p"
    using assms(4) find_Some_in [of _ "od_providers st" p] by (auto simp: enabled_provider_def)
  show ?thesis
    using assms(1-3,5) p
    by (simp add: ldap_login_def nonempty_def check_ldap_lockout_def record_ldap_failed_attempt_def ldap_provider_def enabled_provider_def
        error_response_def status_code_def)
qed

subsection \<open>Properties\<close>

text \<open>C20. However many wrong passwords are tried for the directory account of a user, at whatever instants, at most five of them in any fifteen minutes
  reach the directory; the others are refused as locked.\<close>

theorem ldap_guesses_bounded:
  assumes "find_user name (od_auth st) = Some u" "name \<noteq> []" "enabled_provider ''ldap'' st = Some p" "0 \<le> user_failures u" "sorted (map fst as)"
    and "\<forall>(t, pw) \<in> set as. pw \<noteq> [] \<and> (\<exists>err. ldap_authenticate_user e p name pw = Inl err)"
  shows "length (filter (\<lambda>(t, s). s = 401 \<and> a \<le> t \<and> t < a + minutes 15) (ldap_statuses e name as st)) \<le> 5"
proof -
  have "int (length (filter (\<lambda>t. a \<le> t \<and> t < a + minutes 15) (ldap_accounts.evaluated u (map fst as)))) \<le> 5"
    using ldap_accounts.window_bound [OF assms(5,4), of a, unfolded ldap_accounts.in_window_def]
    by (simp only: LDAP_MAX_FAILED_ATTEMPTS_def LDAP_LOCKOUT_MINUTES_def)
  then show ?thesis unfolding window_statuses ldap_statuses_evaluated [OF assms(1-3,6)] by simp
qed

definition demo_sso_env :: sso_env where
  "demo_sso_env = \<lparr>oe_log = (\<lambda>_ ls. ls), oe_json_loads = (\<lambda>_. None), oe_encrypt = id, oe_decrypt = Some, oe_keys_enabled = False,
     oe_ldap_open = (\<lambda>_ _. True), oe_ldap_search = (\<lambda>_ _ _ _. Some []), oe_ldap_bind = (\<lambda>_ _ _. None), oe_escape = id,
     oe_token = (\<lambda>_ _ _. Oauth_refused), oe_userinfo = (\<lambda>_ _. Oauth_refused), oe_saml = (\<lambda>_ _. Saml_raises),
     oe_saml_xml = (\<lambda>_. Some (Some ''alice'', [])), oe_csrf = (\<lambda>_. [])\<rparr>"

definition demo_provider :: "string \<Rightarrow> sso_provider" where
  "demo_provider t = \<lparr>pv_id = 1, pv_name = t, pv_type = t, pv_enabled = True, pv_is_default = False, pv_display_name = None, pv_icon = None,
     pv_settings = [], pv_secret = None, pv_attribute_mapping = None, pv_role_mapping = None, pv_default_role = ''viewer'', pv_auto_create = True,
     pv_auto_update = False\<rparr>"

definition sso_clear :: sso_web where
  "sso_clear = web_session.extend web_clear \<lparr>sw_role = None, sw_state = None, sw_provider_id = None\<rparr>"

definition demo_sso :: "string \<Rightarrow> sso_db" where
  "demo_sso t = \<lparr>od_auth = demo_db, od_providers = [demo_provider t], od_sessions = [], od_session = sso_clear, od_logs = []\<rparr>"

theorem ldap_guesses_bounded_witness:
  "length (filter (\<lambda>(t, s). s = 401 \<and> 0 \<le> t \<and> t < 0 + minutes 15) (ldap_statuses demo_sso_env ''alice'' demo_guesses (demo_sso ''ldap''))) \<le> 5"
  by (rule ldap_guesses_bounded [where u = demo_user and p = "demo_provider ''ldap''"])
    (simp_all add: find_user_def demo_sso_def demo_db_def demo_user_def enabled_provider_def demo_provider_def user_failures_def demo_guesses_def
      seconds_def ldap_authenticate_user_def demo_sso_env_def ldap_secret_raises_def)

text \<open>C37. When the SAML library raises on a response, the text of the response is believed without a signature: whoever sends one that names a user is
  logged in as that user, with the user's role unless logins change it to the default role of the provider.\<close>

theorem saml_unsigned_login:
  assumes "enabled_provider ''saml'' st = Some p" "oe_saml e p (Some r) = Saml_raises" "b64decode r = Some xml"
    and "oe_saml_xml e xml = Some (Some name, [])" "name \<noteq> []" "strip name = name" "find_user name (od_auth st) = Some u"
    and "\<forall>x \<in> set (users (od_auth st)). u_id x = u_id u \<or> email x \<noteq> email u"
  shows "\<exists>st'. sso_callback e now ''saml'' \<lparr>ka_state = None, ka_code = None, ka_error = None, ka_saml_response = Some r\<rparr> st =
      (redirect ''/login/sso-complete'', st') \<and> s_user_id (od_session st') = Some (u_id u) \<and>
    sw_role (od_session st') = Some (if pv_auto_update p then known_role (pv_default_role p) else role u)"
proof -
  have fb: "saml_fallback e (Some r) = Some ([], Some name)" using assms(3,4) by (simp add: saml_fallback_def or_default_def)
  have nowhere: "find (\<lambda>(ext, r). False) xs = None" for xs :: "(string \<times> json) list" by (induction xs) auto
  have role: "resolve_role e p [(''name_id'', JStr name), (''attributes'', JObj [])] = Some (known_role (pv_default_role p))"
    by (auto simp: resolve_role_def external_roles_def jget_or_def Let_def map_filter_simps nowhere split: option.split)
  have user: "\<exists>u' db. get_or_create_sso_user e now p name [] [] [(''name_id'', JStr name), (''attributes'', JObj [])] (od_auth st) = (Inr u', db) \<and>
      u_id u' = u_id u \<and> role u' = (if pv_auto_update p then known_role (pv_default_role p) else role u)"
    using assms(7,8) role by (auto simp: get_or_create_sso_user_def sso_changes_def Let_def list_ex_iff)
  have strips: "strip [] = []" by (simp add: strip_def)
  then show ?thesis
    using assms(1,2,5,6) fb user
    by (auto simp: sso_callback_def saml_callback_def saml_accept_def first_value_def callback_user_def enter_def sso_web_session_def or_else_def or_default_def)
qed

theorem saml_unsigned_login_witness:
  "\<exists>st'. sso_callback demo_sso_env 5 ''saml'' \<lparr>ka_state = None, ka_code = None, ka_error = None, ka_saml_response = Some []\<rparr> (demo_sso ''saml'') =
      (redirect ''/login/sso-complete'', st') \<and> s_user_id (od_session st') = Some 1 \<and> sw_role (od_session st') = Some ''auditor''"
  using saml_unsigned_login [of "demo_sso ''saml''" "demo_provider ''saml''" demo_sso_env "[]" "[]" "''alice''" demo_user 5]
  by (simp add: enabled_provider_def demo_sso_def demo_provider_def demo_sso_env_def demo_db_def demo_user_def find_user_def b64decode_def strip_def is_space_def)

end
