(* ===== verification/Sso_Runs.thy ===== *)
theory Sso_Runs
  imports Sso
begin

text \<open>
  Histories of single sign-on: changes of providers and logins through them, in any order. The tables stay consistent.
\<close>

subsection \<open>Histories\<close>

datatype sso_event =
    Make_provider provider_body
  | Change_provider "int + string" provider_body
  | Drop_provider int
  | Switch_provider int
  | Begin_login string string
  | Come_back string callback_args
  | Enter_directory "string option" "string option" "int option"

fun sso_step :: "sso_env \<Rightarrow> (sso_provider \<Rightarrow> string \<Rightarrow> string option) \<Rightarrow> sso_db \<Rightarrow> time \<times> sso_event \<Rightarrow> sso_db" where
  "sso_step e start st (now, Make_provider b) = snd (create_provider e b st)"
| "sso_step e start st (now, Change_provider which b) = snd (update_provider e which b st)"
| "sso_step e start st (now, Drop_provider i) = snd (delete_provider e i st)"
| "sso_step e start st (now, Switch_provider i) = snd (toggle_provider e i st)"
| "sso_step e start st (now, Begin_login token t) = snd (initiate_sso_login start token t st)"
| "sso_step e start st (now, Come_back t a) = snd (sso_callback e now t a st)"
| "sso_step e start st (now, Enter_directory name pw i) = snd (ldap_login e now name pw i st)"

subsection \<open>Consistency\<close>

definition providers_ok :: "sso_provider list \<Rightarrow> bool" where
  "providers_ok ps \<longleftrightarrow>
     keys_ok pv_id ps \<and> distinct (map pv_name ps) \<and> distinct (map pv_type ps) \<and>
     (\<forall>p \<in> set ps. pv_type p \<in> {''saml'', ''oauth2'', ''ldap''} \<and> pv_default_role p \<in> set valid_roles) \<and>
     (\<forall>p \<in> set ps. \<forall>q \<in> set ps. pv_is_default p \<and> pv_is_default q \<longrightarrow> pv_id p = pv_id q)"

definition accounts_ok :: "user list \<Rightarrow> bool" where
  "accounts_ok us \<longleftrightarrow>
     keys_ok u_id us \<and> distinct (map username us) \<and> distinct (map email us) \<and> (\<forall>u \<in> set us. role u \<in> set valid_roles)"

definition sessions_ok :: "int set \<Rightarrow> int set \<Rightarrow> sso_session list \<Rightarrow> bool" where
  "sessions_ok uids pids ss \<longleftrightarrow>
     keys_ok sn_id ss \<and> distinct (List.map_filter sn_session_id ss) \<and> (\<forall>s \<in> set ss. sn_user_id s \<in> uids \<and> sn_provider_id s \<in> pids)"

definition sso_ok :: "sso_db \<Rightarrow> bool" where
  "sso_ok st \<longleftrightarrow>
     providers_ok (od_providers st) \<and> accounts_ok (users (od_auth st)) \<and>
     sessions_ok (u_id ` set (users (od_auth st))) (pv_id ` set (od_providers st)) (od_sessions st)"

subsection \<open>Users\<close>

definition keeps_users :: "auth_db \<Rightarrow> auth_db \<Rightarrow> bool" where
  "keeps_users db db' \<longleftrightarrow>
     (accounts_ok (users db) \<longrightarrow> accounts_ok (users db')) \<and> u_id ` set (users db) \<subseteq> u_id ` set (users db')"

lemma keeps_users_refl [simp]: "keeps_users db db"
  by (simp add: keeps_users_def)

lemma keeps_users_trans: "keeps_users a b \<Longrightarrow> keeps_users b c \<Longrightarrow> keeps_users a c"
  by (auto simp: keeps_users_def)

lemma keeps_update:
  assumes "\<And>u. u_id (f u) = u_id u \<and> username (f u) = username u \<and> email (f u) = email u \<and> role (f u) = role u"
  shows "keeps_users db (update_user i f db)"
proof -
  let ?us = "users db" and ?us' = "row_update u_id i f (users db)"
  have same: "map u_id ?us' = map u_id ?us" "map username ?us' = map username ?us" "map email ?us' = map email ?us"
    "map role ?us' = map role ?us"
    using assms by (intro map_row_update; simp)+
  have sets: "u_id ` set ?us' = u_id ` set ?us" "role ` set ?us' = role ` set ?us"
    using arg_cong [OF same(1), of set] arg_cong [OF same(4), of set] by simp_all
  have "keys_ok u_id ?us \<Longrightarrow> keys_ok u_id ?us'" using assms by (intro keys_ok_update) simp_all
  moreover have "(\<forall>u \<in> set ?us. role u \<in> set valid_roles) \<longleftrightarrow> (\<forall>u \<in> set ?us'. role u \<in> set valid_roles)"
    unfolding image_subset_iff [symmetric] sets(2) ..
  ultimately show ?thesis using same(2,3) sets(1) by (auto simp: keeps_users_def accounts_ok_def update_user_def)
qed

lemma keeps_put:
  assumes u: "u \<in> set (users db)" and v: "u_id v = u_id u" "username v = username u" "role v \<in> set valid_roles"
    and mail: "\<not> list_ex (\<lambda>x. u_id x \<noteq> u_id u \<and> email x = email v) (users db)"
  shows "keeps_users db (update_user (u_id u) (\<lambda>_. v) db)" "u_id v \<in> u_id ` set (users (update_user (u_id u) (\<lambda>_. v) db))"
proof -
  let ?us = "users db" and ?us' = "row_update u_id (u_id u) (\<lambda>_. v) (users db)"
  have ids: "map u_id ?us' = map u_id ?us" using v(1) by (intro map_row_update) simp
  have sets: "u_id ` set ?us' = u_id ` set ?us" using arg_cong [OF ids, of set] by simp
  show "u_id v \<in> u_id ` set (users (update_user (u_id u) (\<lambda>_. v) db))" using sets u v(1) by (auto simp: update_user_def)
  have "accounts_ok ?us'" if ok: "accounts_ok ?us"
  proof -
    have same: "x = u" if "x \<in> set ?us" "u_id x = u_id u" for x
      using ok u that by (auto simp: accounts_ok_def keys_ok_def distinct_map inj_on_def)
    have "map username ?us' = map username ?us" using same v(2) by (intro map_row_update) metis
    moreover have "distinct (map email ?us')"
      using ok mail by (intro row_update_names) (auto simp: accounts_ok_def keys_ok_def list_ex_iff)
    moreover have "keys_ok u_id ?us'" using ok v(1) by (intro keys_ok_put) (simp_all add: accounts_ok_def)
    moreover have "\<forall>x \<in> set ?us'. role x \<in> set valid_roles" using ok v(3) by (auto simp: accounts_ok_def row_update_def)
    ultimately show ?thesis using ok by (simp add: accounts_ok_def)
  qed
  then show "keeps_users db (update_user (u_id u) (\<lambda>_. v) db)" using sets by (simp add: keeps_users_def update_user_def)
qed

lemma get_or_create_keeps:
  assumes "get_or_create_sso_user e now p name mail fullname external db = (r, db')"
  shows "keeps_users db db'" "r = Inr u \<Longrightarrow> u_id u \<in> u_id ` set (users db')"
proof -
  let ?g = "get_or_create_sso_user e now p name mail fullname external db"
  have "keeps_users db (snd ?g) \<and> (\<forall>u. fst ?g = Inr u \<longrightarrow> u_id u \<in> u_id ` set (users (snd ?g)))"
  proof (cases "find_user name db")
    case (Some x)
    then have x: "x \<in> set (users db)" "username x = name" using find_Some_in by (fastforce simp: find_user_def)+
    show ?thesis
    proof (cases "resolve_role e p external")
      case (Some ro)
      let ?v = "sso_changes now mail fullname ro x"
      have v: "u_id ?v = u_id x" "username ?v = username x" "role ?v \<in> set valid_roles"
        using resolve_role_valid [OF Some] by (simp_all add: sso_changes_def)
      then show ?thesis
        using Some \<open>find_user name db = Some x\<close> keeps_put [OF x(1) v] x(1)
        by (simp add: get_or_create_sso_user_def Let_def)
    qed (use Some x in \<open>simp add: get_or_create_sso_user_def\<close>)
  next
    case None
    then have new: "\<not> list_ex (\<lambda>x. username x = name) (users db)" by (simp add: find_user_def find_None_iff list_ex_iff)
    show ?thesis
    proof (cases "resolve_role e p external")
      case (Some ro)
      let ?u = "created_sso_user now (next_id u_id (users db)) name mail fullname ro"
      have "accounts_ok (users db @ [?u])"
        if "accounts_ok (users db)" "\<not> list_ex (\<lambda>x. email x = email ?u) (users db)"
        using that new keys_ok_append [of u_id "users db" ?u] resolve_role_valid [OF Some]
        by (auto simp: accounts_ok_def list_ex_iff created_sso_user_def)
      then show ?thesis
        using Some None by (auto simp: get_or_create_sso_user_def keeps_users_def Let_def)
    qed (use None in \<open>simp add: get_or_create_sso_user_def\<close>)
  qed
  then show "keeps_users db db'" "r = Inr u \<Longrightarrow> u_id u \<in> u_id ` set (users db')" using assms by simp_all
qed

subsection \<open>Sessions\<close>

lemma sessions_ok_mono: "sessions_ok a b ss \<Longrightarrow> a \<subseteq> c \<Longrightarrow> b \<subseteq> d \<Longrightarrow> sessions_ok c d ss"
  by (auto simp: sessions_ok_def)

lemma track_session_ok:
  assumes "sessions_ok uids pids ss" "uid \<in> uids" "pid \<in> pids"
  shows "sessions_ok uids pids (track_session now uid pid sid name_id ss)"
proof (cases "find (\<lambda>s. sn_session_id s = sid) ss")
  case None
  then have "\<forall>s \<in> set ss. sn_session_id s \<noteq> sid" by (auto simp: find_None_iff)
  then show ?thesis
    using assms None keys_ok_append [of sn_id ss]
    by (cases sid) (auto simp: track_session_def sessions_ok_def map_filter_def)
next
  case (Some s)
  let ?ss = "row_update sn_id (sn_id s) (\<lambda>x. x\<lparr>sn_expires_at := now + hours 8\<rparr>) ss"
  have "map sn_session_id ?ss = map sn_session_id ss" by (intro map_row_update) simp
  then have "List.map_filter id (map sn_session_id ?ss) = List.map_filter id (map sn_session_id ss)" by simp
  then have "List.map_filter sn_session_id ?ss = List.map_filter sn_session_id ss" by (simp add: map_filter_def filter_map comp_def)
  moreover have "keys_ok sn_id ss \<Longrightarrow> keys_ok sn_id ?ss" by (intro keys_ok_update) simp_all
  ultimately show ?thesis using assms Some by (auto simp: track_session_def sessions_ok_def row_update_def)
qed

text \<open>A login through a provider keeps the providers and leaves a session of an existing user.\<close>

definition enters :: "sso_db \<Rightarrow> sso_db \<Rightarrow> bool" where
  "enters st st' \<longleftrightarrow>
     od_providers st' = od_providers st \<and> keeps_users (od_auth st) (od_auth st') \<and>
     (od_sessions st' = od_sessions st \<or>
      (\<exists>now uid p sid name_id. uid \<in> u_id ` set (users (od_auth st')) \<and> p \<in> set (od_providers st) \<and>
         od_sessions st' = track_session now uid (pv_id p) sid name_id (od_sessions st)))"

lemma enters_refl [simp]: "enters st st"
  by (simp add: enters_def)

lemma entersI:
  assumes "od_providers st' = od_providers st" "keeps_users (od_auth st) (od_auth st')" "uid \<in> u_id ` set (users (od_auth st'))"
    "p \<in> set (od_providers st)" "od_sessions st' = track_session now uid (pv_id p) sid name_id (od_sessions st)"
  shows "enters st st'"
  using assms unfolding enters_def by blast

lemma enters_ok:
  assumes "enters st st'" "sso_ok st"
  shows "sso_ok st'"
proof -
  have "sessions_ok (u_id ` set (users (od_auth st'))) (pv_id ` set (od_providers st)) (od_sessions st)"
    using assms by (auto simp: enters_def sso_ok_def keeps_users_def intro: sessions_ok_mono)
  then show ?thesis
    using assms track_session_ok by (fastforce simp: enters_def sso_ok_def keeps_users_def)
qed

lemma provider_in: "enabled_provider t st = Some p \<Longrightarrow> p \<in> set (od_providers st)"
  using find_Some_in by (fastforce simp: enabled_provider_def)

lemma enter_fields [simp]:
  "od_providers (enter e now p meth text sid name_id u st) = od_providers st"
  "od_auth (enter e now p meth text sid name_id u st) = od_auth st"
  "od_sessions (enter e now p meth text sid name_id u st) = track_session now (u_id u) (pv_id p) sid name_id (od_sessions st)"
  by (simp_all add: enter_def)

lemma callback_failed_enters [simp]: "enters st (snd (callback_failed e text p logged st))"
  by (simp add: callback_failed_def enters_def)

lemma callback_user_enters:
  assumes "p \<in> set (od_providers st)"
  shows "enters st (snd (callback_user e now p text name mail fullname external sid st))"
proof -
  obtain r db where r: "get_or_create_sso_user e now p name mail fullname external (od_auth st) = (r, db)" by fastforce
  note g = get_or_create_keeps [OF r]
  show ?thesis
  proof (cases r)
    case (Inl f)
    then show ?thesis using r by (cases f) (simp_all add: callback_user_def)
  next
    case (Inr u)
    then show ?thesis using r g(1) g(2) [of u] assms unfolding callback_user_def enters_def by (simp add: image_iff) blast
  qed
qed

lemma saml_accept_enters: "p \<in> set (od_providers st) \<Longrightarrow> enters st (snd (saml_accept e now p attrs name_id st))"
  using callback_user_enters by (simp add: saml_accept_def split: option.split)

lemma saml_callback_enters: "p \<in> set (od_providers st) \<Longrightarrow> enters st (snd (saml_callback e now p response st))"
  using saml_accept_enters by (simp add: saml_callback_def split: saml_reply.split option.split)

lemma oauth_callback_enters: "p \<in> set (od_providers st) \<Longrightarrow> enters st (snd (oauth_callback e now p code st))"
  using callback_user_enters by (simp add: oauth_callback_def split: oauth_reply.split option.split)

lemma sso_callback_enters: "enters st (snd (sso_callback e now t a st))"
proof (cases "enabled_provider t st")
  case (Some p)
  note p = provider_in [OF Some]
  show ?thesis
    unfolding sso_callback_def Some option.case
    using saml_callback_enters [OF p] oauth_callback_enters [OF p] by simp
qed (simp add: sso_callback_def)

lemma initiate_enters: "enters st (snd (initiate_sso_login start token t st))"
  by (simp add: initiate_sso_login_def enters_def Let_def split: option.split)

lemma check_lockout_keeps: "check_ldap_lockout now name db = (l, db') \<Longrightarrow> keeps_users db db'"
  using keeps_update [of ldap_unlock db] by (auto simp: check_ldap_lockout_def ldap_unlock_def split: option.splits if_splits)

lemma record_failed_keeps [simp]: "keeps_users db (record_ldap_failed_attempt now name db)"
  using keeps_update [of "count_ldap_failure now" db]
  by (simp add: record_ldap_failed_attempt_def count_ldap_failure_def Let_def split: option.split)

lemma clear_failed_keeps [simp]: "keeps_users db (clear_ldap_failed_attempts name db)"
  using keeps_update [of ldap_unlock db] by (simp add: clear_ldap_failed_attempts_def ldap_unlock_def split: option.split)

lemma ldap_enter_enters:
  assumes "p \<in> set (od_providers st)"
  shows "enters st (snd (ldap_enter e now p name info st))"
proof -
  let ?g = "get_or_create_sso_user e now p (lu_username info) (lu_email info) (lu_fullname info) [(''groups'', JList (map JStr (lu_groups info)))]
    (od_auth st)"
  obtain r db where r: "?g = (r, db)" by fastforce
  note g = get_or_create_keeps [OF r]
  show ?thesis
  proof (cases r)
    case (Inl f)
    then show ?thesis using r by (cases f) (simp_all add: ldap_enter_def)
  next
    case (Inr u)
    let ?db = "clear_ldap_failed_attempts name db"
    let ?u = "or_default (row_get u_id (users ?db) (u_id u)) u"
    have keeps: "keeps_users (od_auth st) ?db" "u_id u \<in> u_id ` set (users ?db)"
      using g(1) g(2) [OF Inr] keeps_users_trans [OF g(1) clear_failed_keeps] clear_failed_keeps [of db name]
      by (auto simp: keeps_users_def)
    have "u_id ?u = u_id u" using row_get_Some [of u_id "users ?db" "u_id u"]
      by (cases "row_get u_id (users ?db) (u_id u)") (simp_all add: or_default_def)
    then have "enters st (enter e now p ''ldap'' ''LDAP'' (Some (lu_dn info)) (Some (lu_dn info)) ?u (st\<lparr>od_auth := ?db\<rparr>))"
      using keeps assms by (intro entersI [where uid = "u_id u" and p = p]) simp_all
    then show ?thesis using r Inr by (simp add: ldap_enter_def Let_def)
  qed
qed

lemma enters_trans: "enters st (st\<lparr>od_auth := db\<rparr>) \<Longrightarrow> enters (st\<lparr>od_auth := db\<rparr>) st' \<Longrightarrow> enters st st'"
  by (auto simp: enters_def intro: keeps_users_trans)

lemma enters_auth: "keeps_users (od_auth st) db \<Longrightarrow> enters st (st\<lparr>od_auth := db\<rparr>)"
  by (simp add: enters_def)

lemma ldap_login_enters: "enters st (snd (ldap_login e now name_arg pw i st))"
proof (cases "\<not> nonempty name_arg \<or> \<not> nonempty pw")
  case False
  let ?name = "the name_arg"
  obtain locked db where c: "check_ldap_lockout now ?name (od_auth st) = (locked, db)" by fastforce
  let ?st = "st\<lparr>od_auth := db\<rparr>"
  have first: "enters st ?st" by (rule enters_auth) (rule check_lockout_keeps [OF c])
  have second: "enters ?st (?st\<lparr>od_auth := record_ldap_failed_attempt now ?name db, od_logs := ls\<rparr>)" for ls
    by (simp add: enters_def)
  show ?thesis
  proof (cases "ldap_provider i ?st")
    case None
    then show ?thesis using False c first by (simp add: ldap_login_def Let_def)
  next
    case (Some p)
    have "p \<in> set (od_providers ?st)"
      using Some row_get_Some provider_in by (fastforce simp: ldap_provider_def split: if_splits)
    note entered = ldap_enter_enters [OF this]
    show ?thesis
      using False c first Some enters_trans [OF first second] enters_trans [OF first entered]
      by (simp add: ldap_login_def Let_def split: sum.split)
  qed
qed (simp add: ldap_login_def)

subsection \<open>Providers\<close>

lemma no_default_fields [simp]:
  "map pv_id (no_default f ps) = map pv_id ps" "map pv_name (no_default f ps) = map pv_name ps" "map pv_type (no_default f ps) = map pv_type ps"
  by (simp_all add: no_default_def)

lemma no_default_sets [simp]:
  "pv_id ` set (no_default f ps) = pv_id ` set ps" "pv_name ` set (no_default f ps) = pv_name ` set ps"
  "pv_type ` set (no_default f ps) = pv_type ` set ps"
  by (simp_all only: set_map [symmetric] no_default_fields)

lemma no_default_member:
  assumes "q \<in> set (no_default f ps)"
  obtains p where "p \<in> set ps" "pv_id q = pv_id p" "pv_type q = pv_type p" "pv_default_role q = pv_default_role p"
    "pv_is_default q \<longleftrightarrow> pv_is_default p \<and> \<not> f p" "pv_name q = pv_name p"
  using assms by (auto simp: no_default_def split: if_splits)

lemma providers_okD:
  assumes "providers_ok ps" "p \<in> set ps"
  shows "pv_type p \<in> {''saml'', ''oauth2'', ''ldap''} \<and> pv_default_role p \<in> set valid_roles"
    and "q \<in> set ps \<Longrightarrow> pv_is_default p \<Longrightarrow> pv_is_default q \<Longrightarrow> pv_id p = pv_id q"
  using assms unfolding providers_ok_def by blast+

lemma providers_okI:
  assumes "keys_ok pv_id ps" "distinct (map pv_name ps)" "distinct (map pv_type ps)"
    and "\<And>p. p \<in> set ps \<Longrightarrow> pv_type p \<in> {''saml'', ''oauth2'', ''ldap''} \<and> pv_default_role p \<in> set valid_roles"
    and "\<And>p q. p \<in> set ps \<Longrightarrow> q \<in> set ps \<Longrightarrow> pv_is_default p \<Longrightarrow> pv_is_default q \<Longrightarrow> pv_id p = pv_id q"
  shows "providers_ok ps"
  using assms unfolding providers_ok_def by blast

lemma no_default_ok:
  assumes "providers_ok ps"
  shows "providers_ok (no_default f ps)"
proof -
  have "keys_ok pv_id (no_default f ps)"
    using assms no_default_member [of _ f ps] by (fastforce simp: providers_ok_def keys_ok_def list_all_iff)
  moreover have "pv_type q \<in> {''saml'', ''oauth2'', ''ldap''} \<and> pv_default_role q \<in> set valid_roles" if q: "q \<in> set (no_default f ps)" for q
  proof -
    from q obtain p where "p \<in> set ps" "pv_type q = pv_type p" "pv_default_role q = pv_default_role p" by (rule no_default_member)
    then show ?thesis using providers_okD(1) [OF assms, of p] by (simp only: simp_thms)
  qed
  moreover have "pv_id q = pv_id r"
    if q: "q \<in> set (no_default f ps)" and r: "r \<in> set (no_default f ps)" and d: "pv_is_default q" "pv_is_default r" for q r
  proof -
    from q obtain q' where q': "q' \<in> set ps" "pv_id q = pv_id q'" "pv_is_default q \<longleftrightarrow> pv_is_default q' \<and> \<not> f q'" by (rule no_default_member)
    from r obtain r' where r': "r' \<in> set ps" "pv_id r = pv_id r'" "pv_is_default r \<longleftrightarrow> pv_is_default r' \<and> \<not> f r'" by (rule no_default_member)
    show ?thesis using providers_okD(2) [OF assms q'(1) r'(1)] q' r' d by simp
  qed
  moreover have "distinct (map pv_name (no_default f ps))" "distinct (map pv_type (no_default f ps))"
    using assms by (simp_all add: providers_ok_def)
  ultimately show ?thesis by (intro providers_okI)
qed

lemma sso_ok_log [simp]: "sso_ok (log_provider e act i name text st) = sso_ok st"
  by (simp add: sso_ok_def log_provider_def)

lemma known_role_valid [simp]: "known_role r \<in> set valid_roles"
  by (simp add: known_role_def valid_roles_def)

lemma add_provider_ok:
  assumes "providers_ok ps" "pv_id p = next_id pv_id ps" "pv_name p \<notin> pv_name ` set ps" "pv_type p \<notin> pv_type ` set ps"
    and "pv_type p \<in> {''saml'', ''oauth2'', ''ldap''}" "pv_default_role p \<in> set valid_roles" "\<And>q. q \<in> set ps \<Longrightarrow> pv_is_default p \<Longrightarrow> \<not> pv_is_default q"
  shows "providers_ok (ps @ [p])"
proof -
  have "keys_ok pv_id (ps @ [p])" using assms(1,2) by (simp add: providers_ok_def keys_ok_append)
  moreover have "distinct (map pv_name (ps @ [p]))" "distinct (map pv_type (ps @ [p]))" using assms(1,3,4) by (simp_all add: providers_ok_def)
  moreover have "pv_type q \<in> {''saml'', ''oauth2'', ''ldap''} \<and> pv_default_role q \<in> set valid_roles" if "q \<in> set (ps @ [p])" for q
    using that assms(5,6) providers_okD(1) [OF assms(1), of q] by (cases "q = p") (simp_all only: set_append list.set Un_iff insert_iff empty_iff simp_thms)
  moreover have "pv_id q = pv_id r" if "q \<in> set (ps @ [p])" "r \<in> set (ps @ [p])" "pv_is_default q" "pv_is_default r" for q r
    using that assms(7) [of q] assms(7) [of r] providers_okD(2) [OF assms(1), of q r]
    by (simp only: set_append list.set Un_iff insert_iff empty_iff simp_thms) blast
  ultimately show ?thesis by (intro providers_okI)
qed

lemma next_id_no_default [simp]: "next_id pv_id (no_default f ps) = next_id pv_id ps"
  by (induction ps) (simp_all add: next_id_def no_default_def)

lemma create_provider_cases:
  obtains "snd (create_provider e b st) = st"
  | am rm act name d where "the (vb_name b) \<notin> pv_name ` set (od_providers st)" "the (vb_type b) \<notin> pv_type ` set (od_providers st)"
    "the (vb_type b) \<in> {''saml'', ''oauth2'', ''ldap''}"
    "snd (create_provider e b st) = log_provider e act (pv_id (new_provider e b am rm st)) name d
      (st\<lparr>od_providers := (if pv_is_default (new_provider e b am rm st) then no_default (\<lambda>_. True) (od_providers st) else od_providers st)
            @ [new_provider e b am rm st]\<rparr>)"
proof -
  define types where "types = {''saml'', ''oauth2'', ''ldap''}"
  define ldap where "ldap \<longleftrightarrow> the (vb_type b) = ''ldap''"
  let ?fresh = "the (vb_name b) \<notin> pv_name ` set (od_providers st) \<and> the (vb_type b) \<notin> pv_type ` set (od_providers st) \<and> the (vb_type b) \<in> types"
  have fresh: "?fresh" if "\<not> (the (vb_type b) \<notin> types)" "\<not> list_ex (\<lambda>p. pv_name p = the (vb_name b)) (od_providers st)"
    "\<not> list_ex (\<lambda>p. pv_type p = the (vb_type b)) (od_providers st)"
    using that by (auto simp: list_ex_iff)
  have "snd (create_provider e b st) = st \<or> (?fresh \<and> (\<exists>am rm act name d.
    snd (create_provider e b st) = log_provider e act (pv_id (new_provider e b am rm st)) name d
      (st\<lparr>od_providers := (if pv_is_default (new_provider e b am rm st) then no_default (\<lambda>_. True) (od_providers st) else od_providers st)
            @ [new_provider e b am rm st]\<rparr>)))"
    unfolding create_provider_def types_def [symmetric] ldap_def [symmetric] Let_def if_distrib [of snd] snd_conv
    using fresh by (simp split: option.split) blast
  then show ?thesis unfolding types_def using that by blast
qed

lemma create_provider_ok:
  assumes ok: "sso_ok st"
  shows "sso_ok (snd (create_provider e b st))"
proof (cases rule: create_provider_cases [of e b st])
  case (2 am rm act name d)
  let ?p = "new_provider e b am rm st" and ?ps = "od_providers st"
  let ?qs = "if pv_is_default ?p then no_default (\<lambda>_. True) ?ps else ?ps"
  have "providers_ok (?qs @ [?p])"
  proof (rule add_provider_ok)
    show "providers_ok ?qs" using ok no_default_ok by (simp add: sso_ok_def)
    show "pv_id ?p = next_id pv_id ?qs" by (simp add: new_provider_def Let_def)
    show "pv_name ?p \<notin> pv_name ` set ?qs" "pv_type ?p \<notin> pv_type ` set ?qs" "pv_type ?p \<in> {''saml'', ''oauth2'', ''ldap''}"
      using 2 by (simp_all add: new_provider_def Let_def)
    show "pv_default_role ?p \<in> set valid_roles" by (simp add: new_provider_def Let_def)
    show "\<not> pv_is_default q" if "q \<in> set ?qs" "pv_is_default ?p" for q using that by (auto elim: no_default_member)
  qed
  moreover have "sessions_ok (u_id ` set (users (od_auth st))) (pv_id ` set (?qs @ [?p])) (od_sessions st)"
    using ok by (auto simp: sso_ok_def intro: sessions_ok_mono)
  ultimately show ?thesis using ok unfolding 2(4) sso_ok_log by (simp add: sso_ok_def)
qed (use ok in simp)

text \<open>A changed provider keeps its identifier and type.\<close>

lemma put_provider_ok:
  assumes "providers_ok ps" "p \<in> set ps" "pv_id p' = pv_id p" "pv_type p' = pv_type p" "pv_default_role p' \<in> set valid_roles"
    and name: "\<And>q. q \<in> set ps \<Longrightarrow> pv_id q \<noteq> pv_id p \<Longrightarrow> pv_name q \<noteq> pv_name p'"
    and dflt: "\<And>q. q \<in> set ps \<Longrightarrow> pv_id q \<noteq> pv_id p \<Longrightarrow> pv_is_default p' \<Longrightarrow> \<not> pv_is_default q"
  shows "providers_ok (row_update pv_id (pv_id p) (\<lambda>_. p') ps)"
proof (rule providers_okI)
  let ?ps = "row_update pv_id (pv_id p) (\<lambda>_. p') ps"
  have mem: "r = p' \<or> r \<in> set ps \<and> pv_id r \<noteq> pv_id p" if "r \<in> set ?ps" for r using that by (auto simp: row_update_def)
  have ids: "distinct (map pv_id ps)" using assms(1) by (simp add: providers_ok_def keys_ok_def)
  have same: "q = p" if "q \<in> set ps" "pv_id q = pv_id p" for q using ids that assms(2) by (auto simp: distinct_map inj_on_def)
  show "keys_ok pv_id ?ps" using assms(1,3) by (intro keys_ok_put) (simp_all add: providers_ok_def)
  show "distinct (map pv_name ?ps)" using assms(1) ids name by (intro row_update_names) (auto simp: providers_ok_def dest: name)
  have "map pv_type ?ps = map pv_type ps" using same assms(4) by (intro map_row_update) metis
  then show "distinct (map pv_type ?ps)" using assms(1) by (simp add: providers_ok_def)
  show "pv_type r \<in> {''saml'', ''oauth2'', ''ldap''} \<and> pv_default_role r \<in> set valid_roles" if "r \<in> set ?ps" for r
    using mem [OF that] providers_okD(1) [OF assms(1), of r] providers_okD(1) [OF assms(1,2)] assms(4,5) by (elim disjE) (simp_all only: simp_thms)
  show "pv_id q = pv_id r" if "q \<in> set ?ps" "r \<in> set ?ps" "pv_is_default q" "pv_is_default r" for q r
    using mem [OF that(1)] mem [OF that(2)] that(3,4) dflt providers_okD(2) [OF assms(1)] by blast
qed

lemma row_update_ids: "pv_id v = i \<Longrightarrow> pv_id ` set (row_update pv_id i (\<lambda>_. v) ps) = pv_id ` set ps"
proof -
  assume "pv_id v = i"
  then have "map pv_id (row_update pv_id i (\<lambda>_. v) ps) = map pv_id ps" by (intro map_row_update) simp
  from arg_cong [OF this, of set] show ?thesis by simp
qed

lemma put_sso_ok:
  assumes "sso_ok st" "providers_ok (row_update pv_id i (\<lambda>_. v) ps)" "pv_id v = i" "pv_id ` set ps = pv_id ` set (od_providers st)"
  shows "sso_ok (st\<lparr>od_providers := row_update pv_id i (\<lambda>_. v) ps\<rparr>)"
  using assms by (simp add: sso_ok_def row_update_ids)

lemma toggle_provider_ok:
  assumes ok: "sso_ok st"
  shows "sso_ok (snd (toggle_provider e i st))"
proof (cases "row_get pv_id (od_providers st) i")
  case (Some p)
  then have p: "p \<in> set (od_providers st)" "pv_id p = i" using row_get_Some by metis+
  let ?p = "p\<lparr>pv_enabled := \<not> pv_enabled p\<rparr>"
  have ps: "providers_ok (od_providers st)" using ok by (simp add: sso_ok_def)
  have "providers_ok (row_update pv_id (pv_id p) (\<lambda>_. ?p) (od_providers st))"
  proof (rule put_provider_ok [OF ps p(1)])
    show "pv_default_role ?p \<in> set valid_roles" using providers_okD(1) [OF ps p(1)] by simp
    show "pv_name q \<noteq> pv_name ?p" if "q \<in> set (od_providers st)" "pv_id q \<noteq> pv_id p" for q
      using ps p(1) that by (auto simp: providers_ok_def distinct_map inj_on_def)
    show "\<not> pv_is_default q" if "q \<in> set (od_providers st)" "pv_id q \<noteq> pv_id p" "pv_is_default ?p" for q
      using providers_okD(2) [OF ps that(1) p(1)] that by auto
  qed simp_all
  then have "sso_ok (st\<lparr>od_providers := row_update pv_id i (\<lambda>_. ?p) (od_providers st)\<rparr>)"
    using put_sso_ok [OF ok, of i ?p] p(2) by simp
  then show ?thesis using Some by (simp add: toggle_provider_def Let_def)
qed (use ok in \<open>simp add: toggle_provider_def\<close>)

lemma in_map_filter_filter: "y \<in> set (List.map_filter f (filter P xs)) \<Longrightarrow> y \<in> set (List.map_filter f xs)"
  by (induction xs) (auto simp: map_filter_simps split: option.splits if_splits)

lemma distinct_map_filter_filter: "distinct (List.map_filter f xs) \<Longrightarrow> distinct (List.map_filter f (filter P xs))"
  by (induction xs) (auto simp: map_filter_simps dest: in_map_filter_filter split: option.splits)

lemma delete_provider_ok:
  assumes ok: "sso_ok st"
  shows "sso_ok (snd (delete_provider e i st))"
proof (cases "row_get pv_id (od_providers st) i")
  case (Some p)
  have "providers_ok (row_delete pv_id i (od_providers st))"
    using ok keys_ok_filter unfolding sso_ok_def providers_ok_def row_delete_def by (auto intro: distinct_map_filter)
  moreover have "sessions_ok (u_id ` set (users (od_auth st))) (pv_id ` set (row_delete pv_id i (od_providers st)))
    (filter (\<lambda>s. sn_provider_id s \<noteq> i) (od_sessions st))"
    using ok by (auto simp: sso_ok_def sessions_ok_def row_delete_def keys_ok_filter distinct_map_filter_filter)
  ultimately show ?thesis using ok Some by (simp add: delete_provider_def) (simp add: sso_ok_def)
qed (use ok in \<open>simp add: delete_provider_def\<close>)

lemma update_provider_cases:
  obtains "snd (update_provider e which b st) = st"
  | p am rm act name d where "p \<in> set (od_providers st)"
    "vb_name b \<noteq> None \<Longrightarrow> \<forall>q \<in> set (od_providers st). pv_id q \<noteq> pv_id p \<longrightarrow> pv_name q \<noteq> the (vb_name b)"
    "snd (update_provider e which b st) = log_provider e act (pv_id p) name d
      (st\<lparr>od_providers := row_update pv_id (pv_id p) (\<lambda>_. changed_provider e b am rm p)
        (if vb_is_default b = Some True then no_default (\<lambda>q. pv_id q \<noteq> pv_id p) (od_providers st) else od_providers st)\<rparr>)"
proof (cases "case which of Inl i \<Rightarrow> row_get pv_id (od_providers st) i | Inr t \<Rightarrow> find (\<lambda>p. pv_type p = t) (od_providers st)")
  case (Some p)
  then have p: "p \<in> set (od_providers st)" by (auto split: sum.splits dest: row_get_Some find_Some_in)
  define ldap where "ldap \<longleftrightarrow> pv_type p = ''ldap''"
  have "snd (update_provider e which b st) = st \<or>
    (vb_name b \<noteq> None \<longrightarrow> (\<forall>q \<in> set (od_providers st). pv_id q \<noteq> pv_id p \<longrightarrow> pv_name q \<noteq> the (vb_name b))) \<and>
    (\<exists>am rm act name d. snd (update_provider e which b st) = log_provider e act (pv_id p) name d
      (st\<lparr>od_providers := row_update pv_id (pv_id p) (\<lambda>_. changed_provider e b am rm p)
        (if vb_is_default b = Some True then no_default (\<lambda>q. pv_id q \<noteq> pv_id p) (od_providers st) else od_providers st)\<rparr>))"
    unfolding update_provider_def Some option.case ldap_def [symmetric] Let_def if_distrib [of snd] snd_conv
    by (simp add: list_ex_iff split: option.split) blast
  then show ?thesis using that p by blast
qed (use that in \<open>simp add: update_provider_def\<close>)

lemma changed_provider_fields:
  "pv_id (changed_provider e b am rm p) = pv_id p" "pv_type (changed_provider e b am rm p) = pv_type p"
  "pv_name (changed_provider e b am rm p) = or_default (vb_name b) (pv_name p)"
  "pv_is_default (changed_provider e b am rm p) = or_default (vb_is_default b) (pv_is_default p)"
  "pv_default_role p \<in> set valid_roles \<Longrightarrow> pv_default_role (changed_provider e b am rm p) \<in> set valid_roles"
  by (simp_all add: changed_provider_def Let_def split: option.split)

lemma update_provider_ok:
  assumes ok: "sso_ok st"
  shows "sso_ok (snd (update_provider e which b st))"
proof (cases rule: update_provider_cases [of e which b st])
  case (2 p am rm act name d)
  let ?p = "changed_provider e b am rm p" and ?ps = "od_providers st"
  let ?qs = "if vb_is_default b = Some True then no_default (\<lambda>q. pv_id q \<noteq> pv_id p) ?ps else ?ps"
  note f = changed_provider_fields [where e = e and b = b and am = am and rm = rm and p = p]
  have ps: "providers_ok ?ps" using ok by (simp add: sso_ok_def)
  have p: "p \<in> set ?qs" using 2(1) by (auto simp: no_default_def image_iff intro!: bexI [of _ p])
  have old: "\<exists>r \<in> set ?ps. pv_id q = pv_id r \<and> pv_name q = pv_name r \<and> (pv_is_default q \<longrightarrow> pv_is_default r \<and> (vb_is_default b = Some True \<longrightarrow> pv_id r = pv_id p))"
    if "q \<in> set ?qs" for q using that by (auto elim: no_default_member split: if_splits)
  have "providers_ok (row_update pv_id (pv_id p) (\<lambda>_. ?p) ?qs)"
  proof (rule put_provider_ok [OF _ p])
    show "providers_ok ?qs" using ps no_default_ok by simp
    show "pv_id ?p = pv_id p" "pv_type ?p = pv_type p" using f(1,2) by simp_all
    show "pv_default_role ?p \<in> set valid_roles" using f(5) providers_okD(1) [OF ps 2(1)] by blast
    show "pv_name q \<noteq> pv_name ?p" if q: "q \<in> set ?qs" "pv_id q \<noteq> pv_id p" for q
    proof -
      obtain r where r: "r \<in> set ?ps" "pv_id q = pv_id r" "pv_name q = pv_name r" using old [OF q(1)] by blast
      have "pv_name r \<noteq> pv_name p" using ps r(1,2) 2(1) q(2) by (auto simp: providers_ok_def distinct_map inj_on_def)
      then show ?thesis using 2(2) r q(2) f(3) by (cases "vb_name b") (auto simp: or_default_def)
    qed
    show "\<not> pv_is_default q" if q: "q \<in> set ?qs" "pv_id q \<noteq> pv_id p" "pv_is_default ?p" for q
    proof
      assume d: "pv_is_default q"
      obtain r where r: "r \<in> set ?ps" "pv_id q = pv_id r" "pv_is_default r" "vb_is_default b = Some True \<longrightarrow> pv_id r = pv_id p"
        using old [OF q(1)] d by blast
      show False using r q f(4) providers_okD(2) [OF ps r(1) 2(1)] by (cases "vb_is_default b") (auto simp: or_default_def)
    qed
  qed
  then have "sso_ok (st\<lparr>od_providers := row_update pv_id (pv_id p) (\<lambda>_. ?p) ?qs\<rparr>)"
    using f(1) by (intro put_sso_ok [OF ok]) simp_all
  then show ?thesis unfolding 2(3) sso_ok_log .
qed (use ok in simp)

subsection \<open>Every history\<close>

interpretation sso_runs: invariant_system "sso_step e start" sso_ok for e start
proof
  fix e start st and ev :: "time \<times> sso_event"
  assume ok: "sso_ok st"
  obtain now v where ev: "ev = (now, v)" by (cases ev)
  show "sso_ok (sso_step e start st ev)"
    unfolding ev
    using ok create_provider_ok update_provider_ok delete_provider_ok toggle_provider_ok enters_ok [OF initiate_enters ok]
      enters_ok [OF sso_callback_enters ok] enters_ok [OF ldap_login_enters ok]
    by (cases v) simp_all
qed

text \<open>C31. Over every history of changes to providers and logins through them, begun on consistent tables, identifiers, names and types of
  providers stay unique, at most one provider is the default, user names and mail addresses stay unique, roles stay the known ones, and every
  tracked session has a session identifier of its own, an existing user and an existing provider.\<close>

theorem sso_tables_consistent:
  assumes "sso_ok st"
  shows "sso_ok (foldl (sso_step e start) st evs)"
  by (rule sso_runs.run_inv [OF assms])

definition demo_sso_history :: "(time \<times> sso_event) list" where
  "demo_sso_history =
     [(1, Switch_provider 1), (2, Switch_provider 1), (3, Begin_login ''t'' ''saml''),
      (5, Come_back ''saml'' \<lparr>ka_state = None, ka_code = None, ka_error = None, ka_saml_response = Some []\<rparr>), (6, Drop_provider 1)]"

theorem sso_tables_consistent_witness:
  "sso_ok (foldl (sso_step demo_sso_env (\<lambda>_ _. None)) (demo_sso ''saml'') demo_sso_history)"
  by (rule sso_tables_consistent)
    (simp add: sso_ok_def providers_ok_def accounts_ok_def sessions_ok_def keys_ok_def demo_sso_def demo_provider_def demo_db_def demo_user_def
      valid_roles_def map_filter_simps)

subsection \<open>What a login through OAuth2 rests on\<close>

lemma get_or_create_user:
  assumes "get_or_create_sso_user e now p name mail fullname external db = (Inr u, db')"
  shows "username u = name \<and> u \<in> set (users db') \<and> (find_user name db = None \<longrightarrow> pv_auto_create p)"
proof (cases "find_user name db")
  case (Some x)
  then have x: "x \<in> set (users db)" "username x = name" using find_Some_in by (fastforce simp: find_user_def)+
  then have "sso_changes now mail fullname r x \<in> set (users (update_user (u_id x) (\<lambda>_. sso_changes now mail fullname r x) db))" for r
    by (force simp: update_user_def row_update_def)
  then show ?thesis
    using assms Some x by (auto simp: get_or_create_sso_user_def sso_changes_def Let_def split: if_splits option.splits)
qed (use assms in \<open>auto simp: get_or_create_sso_user_def created_sso_user_def Let_def split: if_splits option.splits\<close>)

lemma login_error_other [simp]: "login_error code \<noteq> redirect ''/login/sso-complete''"
  by (simp add: login_error_def redirect_def)

lemma callback_user_done:
  assumes "fst (callback_user e now p text name mail fullname external sid st) = redirect ''/login/sso-complete''"
  shows "\<exists>u \<in> set (users (od_auth (snd (callback_user e now p text name mail fullname external sid st)))).
    username u = name \<and> (find_user name (od_auth st) = None \<longrightarrow> pv_auto_create p) \<and>
    s_user_id (od_session (snd (callback_user e now p text name mail fullname external sid st))) = Some (u_id u) \<and>
    sw_role (od_session (snd (callback_user e now p text name mail fullname external sid st))) = Some (role u)"
proof -
  obtain r db where r: "get_or_create_sso_user e now p name mail fullname external (od_auth st) = (r, db)" by fastforce
  show ?thesis
  proof (cases r)
    case (Inl f)
    then show ?thesis using r assms by (cases f) (auto simp: callback_user_def callback_failed_def split: if_splits)
  next
    case (Inr u)
    then show ?thesis
      using r assms get_or_create_user by (fastforce simp: callback_user_def enter_def sso_web_session_def split: if_splits)
  qed
qed

text \<open>C9. A login through OAuth2 succeeds only with a provider that is enabled, with the state that the same browser session got when the login
  began, and with a code for which the provider gave a token and, for this token, the claims about a user. The session is that of the user whom the
  claims name, who exists already unless the provider may create users.\<close>

theorem oauth_login_sound:
  assumes "fst (sso_callback e now ''oauth2'' a st) = redirect ''/login/sso-complete''"
  shows "\<exists>p s c tokens info u. enabled_provider ''oauth2'' st = Some p \<and> ka_state a = Some s \<and> s \<noteq> [] \<and> sw_state (od_session st) = Some s \<and>
    ka_code a = Some c \<and> oe_token e p (secret_of e p) c = Oauth_json tokens \<and> truthy (jget tokens ''access_token'') \<and>
    oe_userinfo e p (jget tokens ''access_token'') = Oauth_json info \<and> oauth_username e p info = Some (username u) \<and>
    (find_user (username u) (od_auth st) = None \<longrightarrow> pv_auto_create p) \<and>
    u \<in> set (users (od_auth (snd (sso_callback e now ''oauth2'' a st)))) \<and>
    s_user_id (od_session (snd (sso_callback e now ''oauth2'' a st))) = Some (u_id u) \<and>
    sw_role (od_session (snd (sso_callback e now ''oauth2'' a st))) = Some (role u)"
proof -
  obtain p where p: "enabled_provider ''oauth2'' st = Some p" using assms by (cases "enabled_provider ''oauth2'' st") (auto simp: sso_callback_def)
  have guards: "nonempty (ka_state a)" "the (ka_state a) = or_default (sw_state (od_session st)) []" "nonempty (ka_code a)"
    and eq: "sso_callback e now ''oauth2'' a st = oauth_callback e now p (the (ka_code a)) st"
    using assms by (auto simp: sso_callback_def p redirect_def [of "''/login/sso-complete''"] login_error_def redirect_def split: if_splits)
  obtain s c where s: "ka_state a = Some s" "s \<noteq> []" "ka_code a = Some c" using guards(1,3) by (auto simp: nonempty_def split: option.splits)
  then have st: "sw_state (od_session st) = Some s" using guards(2) by (cases "sw_state (od_session st)") (auto simp: or_default_def)
  have ok: "fst (oauth_callback e now p c st) = redirect ''/login/sso-complete''" using assms eq s(3) by simp
  obtain tokens where t: "oe_token e p (secret_of e p) c = Oauth_json tokens" "truthy (jget tokens ''access_token'')"
    using ok by (cases "oe_token e p (secret_of e p) c") (auto simp: oauth_callback_def callback_failed_def split: if_splits)
  obtain info where i: "oe_userinfo e p (jget tokens ''access_token'') = Oauth_json info"
    using ok t by (cases "oe_userinfo e p (jget tokens ''access_token'')") (auto simp: oauth_callback_def callback_failed_def)
  obtain name where n: "oauth_username e p info = Some name"
    using ok t i by (cases "oauth_username e p info") (auto simp: oauth_callback_def callback_failed_def)
  let ?r = "callback_user e now p ''OAuth2'' name (text_at info (mapped_key e p ''email'' ''email''))
    (text_at info (mapped_key e p ''fullname'' ''name'')) info (Some (case jget_or info ''sub'' (JStr name) of JStr s \<Rightarrow> s | _ \<Rightarrow> name)) st"
  have r: "sso_callback e now ''oauth2'' a st = ?r" unfolding eq s(3) option.sel by (simp add: oauth_callback_def t i n)
  obtain u where u: "u \<in> set (users (od_auth (snd ?r)))" "username u = name \<and> (find_user name (od_auth st) = None \<longrightarrow> pv_auto_create p) \<and>
      s_user_id (od_session (snd ?r)) = Some (u_id u) \<and> sw_role (od_session (snd ?r)) = Some (role u)"
    using callback_user_done [OF assms [unfolded r]] by (rule bexE)
  have name: "oauth_username e p info = Some (username u)" "find_user (username u) (od_auth st) = None \<longrightarrow> pv_auto_create p"
    using n u(2) by simp_all
  have session: "s_user_id (od_session (snd ?r)) = Some (u_id u)" "sw_role (od_session (snd ?r)) = Some (role u)"
    by (rule u(2) [THEN conjunct2, THEN conjunct2, THEN conjunct1], rule u(2) [THEN conjunct2, THEN conjunct2, THEN conjunct2])
  show ?thesis
    unfolding r
    by (rule exI [of _ p], rule exI [of _ s], rule exI [of _ c], rule exI [of _ tokens], rule exI [of _ info], rule exI [of _ u],
        intro conjI)
      (rule p s st t i name u(1) session)+
qed

definition demo_oauth_env :: sso_env where
  "demo_oauth_env = demo_sso_env\<lparr>oe_token := (\<lambda>_ _ _. Oauth_json [(''access_token'', JStr ''t'')]),
     oe_userinfo := (\<lambda>_ _. Oauth_json [(''preferred_username'', JStr ''alice'')])\<rparr>"

definition demo_oauth :: sso_db where
  "demo_oauth = (demo_sso ''oauth2'')\<lparr>od_session := sso_clear\<lparr>sw_state := Some ''s''\<rparr>\<rparr>"

definition demo_return :: callback_args where
  "demo_return = \<lparr>ka_state = Some ''s'', ka_code = Some ''c'', ka_error = None, ka_saml_response = None\<rparr>"

lemma demo_return_done: "fst (sso_callback demo_oauth_env 5 ''oauth2'' demo_return demo_oauth) = redirect ''/login/sso-complete''"
  by code_simp

theorem oauth_login_sound_witness:
  "\<exists>s (u :: user). sw_state (od_session demo_oauth) = Some s \<and>
    s_user_id (od_session (snd (sso_callback demo_oauth_env 5 ''oauth2'' demo_return demo_oauth))) = Some (u_id u) \<and>
    sw_role (od_session (snd (sso_callback demo_oauth_env 5 ''oauth2'' demo_return demo_oauth))) = Some (role u)"
  using oauth_login_sound [OF demo_return_done] by (elim exE conjE, intro exI conjI)

end
