(* ===== verification/Templates.thy ===== *)
theory Templates
  imports Cert_List Utilities
begin

text \<open>
  Certificate templates: \<^verbatim>\<open>api/v2/templates.py\<close>, \<^verbatim>\<open>services/template_service.py\<close> and \<^verbatim>\<open>models/certificate_template.py\<close>.

  \<^verbatim>\<open>json.loads\<close>, the indented \<^verbatim>\<open>json.dumps\<close> of exports and the audit service are parameters; the compact \<^verbatim>\<open>json.dumps\<close> is that of theory
  \<open>Text_Format\<close>. A field of a request is absent or a value of the field's type. In an imported file a value of another type than the column's is
  refused by the database; the conversions SQLite makes between texts and numbers are outside the model, and so is the time of the last change.
\<close>

subsection \<open>State\<close>

record cert_template =
  tp_id :: int
  tp_name :: string
  tp_description :: "string option"
  tp_type :: string
  tp_key_type :: "string option"
  tp_validity :: "int option"
  tp_digest :: "string option"
  tp_dn :: "string option"
  tp_extensions :: string
  tp_system :: bool
  tp_active :: "bool option"
  tp_created_at :: time
  tp_created_by :: "string option"
  tp_updated_by :: "string option"

record template_db =
  tb_templates :: "cert_template list"
  tb_logs :: "audit_log list"

record template_env =
  tv_log :: "audit_args \<Rightarrow> audit_log list \<Rightarrow> audit_log list"
  tv_loads :: "string \<Rightarrow> json option"
  tv_indented :: "json \<Rightarrow> string"

definition given_or :: "'a option \<Rightarrow> 'a \<Rightarrow> 'a" where
  "given_or v d = (case v of None \<Rightarrow> d | Some x \<Rightarrow> x)"

text \<open>A column with a default takes it when a row is inserted without a value, and the object mapper leaves a \<^verbatim>\<open>None\<close> out of the \<^verbatim>\<open>INSERT\<close>. An
  \<^verbatim>\<open>UPDATE\<close> writes it.\<close>

definition column_defaults :: "cert_template \<Rightarrow> cert_template" where
  "column_defaults t =
     t\<lparr>tp_key_type := Some (given_or (tp_key_type t) ''RSA-2048''), tp_validity := Some (given_or (tp_validity t) 397),
       tp_digest := Some (given_or (tp_digest t) ''sha256''), tp_active := Some (given_or (tp_active t) True)\<rparr>"

lemma column_defaults_fields [simp]:
  "tp_id (column_defaults t) = tp_id t" "tp_name (column_defaults t) = tp_name t" "tp_system (column_defaults t) = tp_system t"
  by (simp_all add: column_defaults_def)

definition log_template :: "template_env \<Rightarrow> string \<Rightarrow> ident \<Rightarrow> string \<Rightarrow> string \<Rightarrow> template_db \<Rightarrow> template_db" where
  "log_template e act i name d st =
     st\<lparr>tb_logs := tv_log e (audit_call act (Some ''template'') i (Txt name) (Txt d) True None) (tb_logs st)\<rparr>"

text \<open>\<^verbatim>\<open>to_dict\<close>: the row with its two texts read as JSON; \<open>None\<close> when reading raises.\<close>

definition json_column :: "template_env \<Rightarrow> string \<Rightarrow> json option" where
  "json_column e s = (if s = [] then Some (JObj []) else tv_loads e s)"

definition template_view :: "template_env \<Rightarrow> cert_template \<Rightarrow> (cert_template \<times> json \<times> json) option" where
  "template_view e t =
     (case (json_column e (case tp_dn t of None \<Rightarrow> [] | Some s \<Rightarrow> s), json_column e (tp_extensions t)) of
        (Some d, Some x) \<Rightarrow> Some (t, d, x)
      | _ \<Rightarrow> None)"

subsection \<open>Reading\<close>

record template_args =
  ta_type :: "string option"
  ta_active :: "string option"
  ta_search :: string

definition list_templates :: "template_env \<Rightarrow> template_args \<Rightarrow> template_db \<Rightarrow> (cert_template \<times> json \<times> json) list http" where
  "list_templates e a st =
     (let search = strip (ta_search a); pattern = ''%'' @ search @ ''%'';
          rows = filter (\<lambda>t. (\<not> nonempty (ta_type a) \<or> tp_type t = the (ta_type a)) \<and>
                   (\<not> nonempty (ta_active a) \<or> tp_active t = Some (lower (the (ta_active a)) = ''true'')) \<and>
                   (search = [] \<or> ilike (Some (tp_name t)) pattern \<or> ilike (tp_description t) pattern)) (tb_templates st);
          views = map (template_view e) (order_by True tp_created_at rows)
      in if None \<in> set views then Raised ''JSONDecodeError'' else success_response (map the views) [])"

definition get_template :: "template_env \<Rightarrow> int \<Rightarrow> template_db \<Rightarrow> (cert_template \<times> json \<times> json) http" where
  "get_template e i st =
     (case row_get tp_id (tb_templates st) i of
        None \<Rightarrow> error_response ''Template not found'' 404
      | Some t \<Rightarrow> (case template_view e t of None \<Rightarrow> Raised ''JSONDecodeError'' | Some v \<Rightarrow> success_response v []))"

subsection \<open>Writing\<close>

definition template_types :: "string list" where
  "template_types = [''web_server'', ''email'', ''vpn_server'', ''vpn_client'', ''code_signing'', ''client_auth'', ''piv'', ''custom'']"

definition usages :: "string list \<Rightarrow> string list \<Rightarrow> json" where
  "usages ku eku =
     JObj [(''key_usage'', JList (map JStr ku)), (''extended_key_usage'', JList (map JStr eku)), (''basic_constraints'', JObj [(''ca'', JBool False)])]"

definition default_extensions :: "string \<Rightarrow> json \<Rightarrow> json" where
  "default_extensions t x =
     (if truthy x then x
      else if t = ''web_server'' then usages [''digitalSignature'', ''keyEncipherment''] [''serverAuth'']
      else if t = ''email'' then usages [''digitalSignature'', ''keyEncipherment''] [''emailProtection'']
      else if t = ''code_signing'' then usages [''digitalSignature''] [''codeSigning''] else x)"

record template_body =
  tm_name :: "string option"
  tm_description :: "string option"
  tm_type :: "string option"
  tm_key_type :: "string option"
  tm_validity :: "json option"
  tm_digest :: "string option"
  tm_dn :: "json option"
  tm_extensions :: "json option"
  tm_active :: "json option"

definition int_column :: "json \<Rightarrow> int option option" where
  "int_column j = (case j of JNull \<Rightarrow> Some None | JInt n \<Rightarrow> Some (Some n) | _ \<Rightarrow> None)"

definition text_column :: "json \<Rightarrow> string option option" where
  "text_column j = (case j of JNull \<Rightarrow> Some None | JStr s \<Rightarrow> Some (Some s) | _ \<Rightarrow> None)"

definition flag_column :: "json \<Rightarrow> bool option option" where
  "flag_column j =
     (case j of JNull \<Rightarrow> Some None | JBool b \<Rightarrow> Some (Some b) | JInt n \<Rightarrow> if n = 0 then Some (Some False) else if n = 1 then Some (Some True) else None
      | _ \<Rightarrow> None)"

definition store_template :: "template_env \<Rightarrow> string \<Rightarrow> string \<Rightarrow> string \<Rightarrow> string \<Rightarrow> cert_template \<Rightarrow> template_db \<Rightarrow> (cert_template \<times> json \<times> json) http \<times> template_db" where
  "store_template e act what d msg t st =
     (let st' = log_template e act (Txt_id (str_int (tp_id t))) (tp_name t) d st in
      case template_view e t of
        None \<Rightarrow> (error_response (''Failed to '' @ what @ '' template'') 500, st')
      | Some v \<Rightarrow> (Success v msg (if what = ''update'' then 200 else 201), st'))"

definition create_template :: "template_env \<Rightarrow> time \<Rightarrow> string \<Rightarrow> template_body \<Rightarrow> template_db \<Rightarrow> (cert_template \<times> json \<times> json) http \<times> template_db" where
  "create_template e now user b st =
     (if \<not> nonempty (tm_name b) then (error_response ''Template name is required'' 400, st)
      else if \<not> nonempty (tm_type b) then (error_response ''Template type is required'' 400, st)
      else if list_ex (\<lambda>t. tp_name t = the (tm_name b)) (tb_templates st) then (error_response ''Template name already exists'' 409, st)
      else if the (tm_type b) \<notin> set template_types
      then (error_response (''Invalid template type. Must be one of: '' @ join_with '', '' template_types) 400, st)
      else
        (case int_column (given_or (tm_validity b) (JInt 397)) of
           None \<Rightarrow> (error_response ''Failed to create template'' 500, st)
         | Some valid_for \<Rightarrow>
             (let t = column_defaults \<lparr>tp_id = next_id tp_id (tb_templates st), tp_name = the (tm_name b), tp_description = Some (given_or (tm_description b) []),
                       tp_type = the (tm_type b), tp_key_type = Some (given_or (tm_key_type b) ''RSA-2048''), tp_validity = valid_for,
                       tp_digest = Some (given_or (tm_digest b) ''sha256''), tp_dn = Some (json_dumps (given_or (tm_dn b) (JObj []))),
                       tp_extensions = json_dumps (default_extensions (the (tm_type b)) (given_or (tm_extensions b) (JObj []))), tp_system = False,
                       tp_active = Some True, tp_created_at = now, tp_created_by = Some user, tp_updated_by = None\<rparr>
              in store_template e ''template_create'' ''create'' (''Created template: '' @ tp_name t @ '' ('' @ tp_type t @ '')'')
                   (''Template '' @ tp_name t @ '' created successfully'') t (st\<lparr>tb_templates := tb_templates st @ [t]\<rparr>))))"

definition changed_template :: "string \<Rightarrow> template_body \<Rightarrow> int option \<Rightarrow> cert_template \<Rightarrow> cert_template" where
  "changed_template user b valid_for t =
     t\<lparr>tp_name := given_or (tm_name b) (tp_name t),
       tp_description := (case tm_description b of None \<Rightarrow> tp_description t | Some d \<Rightarrow> Some d),
       tp_type := given_or (tm_type b) (tp_type t), tp_key_type := (case tm_key_type b of None \<Rightarrow> tp_key_type t | Some k \<Rightarrow> Some k), tp_validity := valid_for,
       tp_digest := (case tm_digest b of None \<Rightarrow> tp_digest t | Some d \<Rightarrow> Some d),
       tp_dn := (case tm_dn b of None \<Rightarrow> tp_dn t | Some j \<Rightarrow> Some (json_dumps j)),
       tp_extensions := (case tm_extensions b of None \<Rightarrow> tp_extensions t | Some j \<Rightarrow> json_dumps j),
       tp_active := (case tm_active b of None \<Rightarrow> tp_active t | Some j \<Rightarrow> Some (truthy j)), tp_updated_by := Some user\<rparr>"

definition update_template :: "template_env \<Rightarrow> string \<Rightarrow> int \<Rightarrow> template_body \<Rightarrow> template_db \<Rightarrow> (cert_template \<times> json \<times> json) http \<times> template_db" where
  "update_template e user i b st =
     (case row_get tp_id (tb_templates st) i of
        None \<Rightarrow> (error_response ''Template not found'' 404, st)
      | Some t \<Rightarrow>
          if tp_system t then (error_response ''Cannot modify system templates'' 403, st)
          else if tm_name b \<noteq> None \<and> list_ex (\<lambda>x. tp_name x = the (tm_name b) \<and> tp_id x \<noteq> i) (tb_templates st)
          then (error_response ''Template name already in use'' 409, st)
          else if tm_type b \<noteq> None \<and> the (tm_type b) \<notin> set template_types then (error_response ''Invalid template type'' 400, st)
          else
            (case (case tm_validity b of None \<Rightarrow> Int_value 0 | Some j \<Rightarrow> json_to_int j) of
               Int_value n \<Rightarrow>
                 (let t' = changed_template user b (if tm_validity b = None then tp_validity t else Some n) t
                  in store_template e ''template_update'' ''update'' (''Updated template: '' @ tp_name t') (''Template '' @ tp_name t' @ '' updated successfully'') t'
                       (st\<lparr>tb_templates := row_update tp_id i (\<lambda>_. t') (tb_templates st)\<rparr>))
             | Bad_value \<Rightarrow> (Raised ''ValueError'', st)
             | Bad_type \<Rightarrow> (Raised ''TypeError'', st)))"

definition delete_template :: "template_env \<Rightarrow> int \<Rightarrow> template_db \<Rightarrow> unit http \<times> template_db" where
  "delete_template e i st =
     (case row_get tp_id (tb_templates st) i of
        None \<Rightarrow> (error_response ''Template not found'' 404, st)
      | Some t \<Rightarrow>
          if tp_system t then (error_response ''Cannot delete system templates'' 403, st)
          else (Success () [] 204,
                log_template e ''template_delete'' (Txt_id (str_int i)) (tp_name t) (''Deleted template: '' @ tp_name t)
                  (st\<lparr>tb_templates := row_delete tp_id i (tb_templates st)\<rparr>)))"

fun bulk_remove :: "int list \<Rightarrow> cert_template list \<Rightarrow> int list \<times> (int \<times> string) list \<times> cert_template list" where
  "bulk_remove [] rows = ([], [], rows)"
| "bulk_remove (i # is) rows =
     (case row_get tp_id rows i of
        None \<Rightarrow> (let (ok, bad, rest) = bulk_remove is rows in (ok, (i, ''Not found'') # bad, rest))
      | Some t \<Rightarrow>
          if tp_system t then (let (ok, bad, rest) = bulk_remove is rows in (ok, (i, ''Cannot delete system template'') # bad, rest))
          else (let (ok, bad, rest) = bulk_remove is (row_delete tp_id i rows) in (i # ok, bad, rest)))"

definition bulk_delete_templates :: "template_env \<Rightarrow> int list option \<Rightarrow> template_db \<Rightarrow> (int list \<times> (int \<times> string) list) http \<times> template_db" where
  "bulk_delete_templates e ids st =
     (if ids = None \<or> ids = Some [] then (error_response ''ids array required'' 400, st)
      else
        (let (ok, bad, rows) = bulk_remove (the ids) (tb_templates st); n = str_nat (length ok)
         in (success_response (ok, bad) (n @ '' templates deleted''),
             log_template e ''templates_bulk_deleted'' (Txt_id (join_with '','' (map str_int ok))) (n @ '' templates'') (''Bulk deleted '' @ n @ '' templates'')
               (st\<lparr>tb_templates := rows\<rparr>))))"

subsection \<open>Copies\<close>

text \<open>The first free name: the base name, then the base name with a number from 2 on. The search takes a number of tries.\<close>

definition copy_name :: "string \<Rightarrow> nat \<Rightarrow> string" where
  "copy_name base n = (if n = 1 then base else base @ '' '' @ str_nat n)"

fun free_name :: "string \<Rightarrow> string list \<Rightarrow> nat \<Rightarrow> nat \<Rightarrow> string option" where
  "free_name base names n 0 = None"
| "free_name base names n (Suc tries) =
     (if copy_name base n \<in> set names then free_name base names (Suc n) tries else Some (copy_name base n))"

definition template_copy :: "time \<Rightarrow> string \<Rightarrow> string \<Rightarrow> int \<Rightarrow> cert_template \<Rightarrow> cert_template" where
  "template_copy now user name i t =
     column_defaults (t\<lparr>tp_id := i, tp_name := name, tp_system := False, tp_created_at := now, tp_created_by := Some user, tp_updated_by := None\<rparr>)"

definition duplicate_template ::
  "template_env \<Rightarrow> nat \<Rightarrow> time \<Rightarrow> string \<Rightarrow> int \<Rightarrow> template_db \<Rightarrow> ((cert_template \<times> json \<times> json) http \<times> template_db) option" where
  "duplicate_template e tries now user i st =
     (case row_get tp_id (tb_templates st) i of
        None \<Rightarrow> Some (error_response ''Template not found'' 404, st)
      | Some t \<Rightarrow>
          map_option (\<lambda>name. let c = template_copy now user name (next_id tp_id (tb_templates st)) t in
              store_template e ''template_duplicate'' ''duplicate'' (''Duplicated from template: '' @ tp_name t @ '' (id='' @ str_int (tp_id t) @ '')'')
                (''Template duplicated as '' @ name) c (st\<lparr>tb_templates := tb_templates st @ [c]\<rparr>))
            (free_name (tp_name t @ '' (Copy)'') (map tp_name (tb_templates st)) 1 tries))"

subsection \<open>Exports and imports\<close>

definition text_json :: "string option \<Rightarrow> json" where
  "text_json v = (case v of None \<Rightarrow> JNull | Some s \<Rightarrow> JStr s)"

definition exported :: "cert_template \<Rightarrow> json" where
  "exported t =
     JObj [(''name'', JStr (tp_name t)), (''description'', text_json (tp_description t)), (''template_type'', JStr (tp_type t)),
           (''key_type'', text_json (tp_key_type t)), (''validity_days'', case tp_validity t of None \<Rightarrow> JNull | Some n \<Rightarrow> JInt n),
           (''digest'', text_json (tp_digest t)), (''dn_template'', text_json (tp_dn t)), (''extensions_template'', JStr (tp_extensions t)),
           (''is_system'', JBool False), (''is_active'', case tp_active t of None \<Rightarrow> JNull | Some b \<Rightarrow> JBool b)]"

definition export_template :: "template_env \<Rightarrow> int \<Rightarrow> template_db \<Rightarrow> (string \<times> string) http" where
  "export_template e i st =
     (case row_get tp_id (tb_templates st) i of
        None \<Rightarrow> error_response ''Template not found'' 404
      | Some t \<Rightarrow> success_response (tv_indented e (exported t), sanitize_filename (Some (tp_name t)) @ ''.json'') [])"

definition export_all_templates :: "template_env \<Rightarrow> template_db \<Rightarrow> (string \<times> string) http" where
  "export_all_templates e st =
     success_response (tv_indented e (JList (map exported (filter (Not \<circ> tp_system) (tb_templates st)))), ''templates_export.json'') []"

text \<open>The columns from an imported object, over the values they have otherwise; \<open>None\<close> when the database refuses one.\<close>

definition imported_columns :: "(string \<times> json) list \<Rightarrow> cert_template \<Rightarrow> cert_template option" where
  "imported_columns d t =
     (let text = (\<lambda>k v. text_column (jget_or d k (text_json v)));
          valid_for = int_column (jget_or d ''validity_days'' (case tp_validity t of None \<Rightarrow> JNull | Some n \<Rightarrow> JInt n));
          on = flag_column (jget_or d ''is_active'' (case tp_active t of None \<Rightarrow> JNull | Some b \<Rightarrow> JBool b))
      in case (text ''description'' (tp_description t), text ''template_type'' (Some (tp_type t)), text ''key_type'' (tp_key_type t), valid_for,
               text ''digest'' (tp_digest t), text ''dn_template'' (tp_dn t), text ''extensions_template'' (Some (tp_extensions t)), on) of
           (Some descr, Some (Some ty), Some kt, Some n, Some dig, Some dn, Some (Some x), Some a) \<Rightarrow>
             Some (t\<lparr>tp_description := descr, tp_type := ty, tp_key_type := kt, tp_validity := n, tp_digest := dig, tp_dn := dn, tp_extensions := x,
                     tp_active := a\<rparr>)
         | _ \<Rightarrow> None)"

definition blank_template :: "time \<Rightarrow> int \<Rightarrow> string \<Rightarrow> cert_template" where
  "blank_template now i name =
     \<lparr>tp_id = i, tp_name = name, tp_description = Some [], tp_type = ''server'', tp_key_type = Some ''rsa:2048'', tp_validity = Some 365,
      tp_digest = Some ''sha256'', tp_dn = None, tp_extensions = [], tp_system = False, tp_active = Some True, tp_created_at = now,
      tp_created_by = None, tp_updated_by = None\<rparr>"

record import_run =
  ir_rows :: "cert_template list"
  ir_imported :: "string list"
  ir_updated :: "string list"
  ir_skipped :: "string list"

text \<open>One object of the file; \<open>None\<close> is an exception, after which the import is rolled back. A new template needs the column of extensions.\<close>

definition import_object :: "time \<Rightarrow> bool \<Rightarrow> import_run \<Rightarrow> json \<Rightarrow> import_run option" where
  "import_object now update r j =
     (case j of
        JObj d \<Rightarrow>
          if \<not> truthy (jget d ''name'') then Some (r\<lparr>ir_skipped := ir_skipped r @ [''Template without name'']\<rparr>)
          else (case jget d ''name'' of
                  JStr name \<Rightarrow>
                    (case find (\<lambda>t. tp_name t = name) (ir_rows r) of
                       Some t \<Rightarrow>
                         if tp_system t then Some (r\<lparr>ir_skipped := ir_skipped r @ [name @ '' (system template)'']\<rparr>)
                         else if \<not> update then Some (r\<lparr>ir_skipped := ir_skipped r @ [name @ '' (already exists)'']\<rparr>)
                         else map_option (\<lambda>t'. r\<lparr>ir_rows := row_update tp_id (tp_id t) (\<lambda>_. t') (ir_rows r), ir_updated := ir_updated r @ [name]\<rparr>)
                                (imported_columns d t)
                     | None \<Rightarrow>
                         if jget d ''extensions_template'' = JNull then None
                         else map_option (\<lambda>t'. r\<lparr>ir_rows := ir_rows r @ [column_defaults t'], ir_imported := ir_imported r @ [name]\<rparr>)
                                (imported_columns d (blank_template now (next_id tp_id (ir_rows r)) name)))
                | _ \<Rightarrow> None)
      | _ \<Rightarrow> None)"

fun import_objects :: "time \<Rightarrow> bool \<Rightarrow> json list \<Rightarrow> import_run \<Rightarrow> import_run option" where
  "import_objects now update [] r = Some r"
| "import_objects now update (j # js) r = Option.bind (import_object now update r j) (import_objects now update js)"

record template_upload =
  tu_file :: "(string \<times> string) option"
  tu_content :: "string option"
  tu_update :: string

definition import_template ::
  "template_env \<Rightarrow> (string \<Rightarrow> string) \<Rightarrow> time \<Rightarrow> template_upload \<Rightarrow> template_db \<Rightarrow> (nat \<times> nat \<times> nat) http \<times> template_db" where
  "import_template e secure_filename now u st =
     (case (if (case tu_file u of None \<Rightarrow> False | Some (n, _) \<Rightarrow> n \<noteq> [])
            then (case validate_upload secure_filename [''.json''] (tu_file u) of Inl _ \<Rightarrow> Inl ''Invalid file upload'' | Inr (raw, _) \<Rightarrow> Inr raw)
            else if nonempty (tu_content u) then Inr (the (tu_content u)) else Inl ''No file or JSON content provided'') of
        Inl msg \<Rightarrow> (error_response msg 400, st)
      | Inr text \<Rightarrow>
          (case tv_loads e text of
             None \<Rightarrow> (error_response ''Invalid JSON format'' 400, st)
           | Some j \<Rightarrow>
               (case import_objects now (lower (tu_update u) = ''true'') (case j of JList js \<Rightarrow> js | _ \<Rightarrow> [j])
                       \<lparr>ir_rows = tb_templates st, ir_imported = [], ir_updated = [], ir_skipped = []\<rparr> of
                  None \<Rightarrow> (error_response ''Import failed'' 500, st)
                | Some r \<Rightarrow>
                    (let part = (\<lambda>label names. if names = [] then [] else [label @ join_with '', '' names]);
                         msg = join_with '' | '' (part ''Imported: '' (ir_imported r) @ part ''Updated: '' (ir_updated r) @ part ''Skipped: '' (ir_skipped r));
                         n = length (ir_imported r); m = length (ir_updated r); k = length (ir_skipped r)
                     in (success_response (n, m, k) (if msg = [] then ''No templates imported'' else msg),
                         log_template e ''template_import'' No_id ''Template Import''
                           (''Imported '' @ str_nat n @ '' templates, updated '' @ str_nat m @ '', skipped '' @ str_nat k) (st\<lparr>tb_templates := ir_rows r\<rparr>))))))"

subsection \<open>The service\<close>

text \<open>Placeholders in the name of the subject are replaced, one variable after the other.\<close>

definition render_text :: "(string \<times> string) list \<Rightarrow> string \<Rightarrow> string" where
  "render_text vars s = foldl (\<lambda>v (name, value). replace_text 0 (CHR 0x7B # name @ [CHR 0x7D]) value v) s vars"

definition render_template :: "template_env \<Rightarrow> int \<Rightarrow> (string \<times> string) list \<Rightarrow> template_db \<Rightarrow> (py_error + cert_template \<times> (string \<times> json) list \<times> json)" where
  "render_template e i vars st =
     (case row_get tp_id (tb_templates st) i of
        None \<Rightarrow> Inl (Value_error ''Template not found'')
      | Some t \<Rightarrow>
          (case template_view e t of
             Some (_, JObj dn, x) \<Rightarrow> Inr (t, map (\<lambda>(k, v). (k, case v of JStr s \<Rightarrow> JStr (render_text vars s) | _ \<Rightarrow> v)) dn, x)
           | Some _ \<Rightarrow> Inl (Other_error ''AttributeError'')
           | None \<Rightarrow> Inl (Other_error ''JSONDecodeError'')))"

definition get_all_templates :: "bool \<Rightarrow> template_db \<Rightarrow> cert_template list" where
  "get_all_templates active_only st =
     sort_key (\<lambda>t. \<not> tp_system t) (order_by False tp_name (filter (\<lambda>t. active_only \<longrightarrow> tp_active t = Some True) (tb_templates st)))"

text \<open>Deleting through the service looks at the certificates that name the template, \<open>uses\<close>; the route above does not.\<close>

definition service_delete_template :: "int list \<Rightarrow> int \<Rightarrow> template_db \<Rightarrow> (py_error + bool) \<times> template_db" where
  "service_delete_template uses i st =
     (case row_get tp_id (tb_templates st) i of
        None \<Rightarrow> (Inl (Value_error ''Template not found''), st)
      | Some t \<Rightarrow>
          if tp_system t then (Inl (Value_error ''Cannot delete system templates''), st)
          else (let n = length (filter (\<lambda>x. x = i) uses) in
                if n > 0 then (Inl (Value_error (''Cannot delete template: '' @ str_nat n @ '' certificate(s) using this template'')), st)
                else (Inr True, st\<lparr>tb_templates := row_delete tp_id i (tb_templates st)\<rparr>)))"

text \<open>The templates that come with the program.\<close>

definition packaged :: "string \<Rightarrow> string \<Rightarrow> string \<Rightarrow> int \<Rightarrow> string \<Rightarrow> string \<Rightarrow> string list \<Rightarrow> string list \<Rightarrow> string list \<Rightarrow> cert_template" where
  "packaged name descr ty valid_for cn ou ku eku san =
     \<lparr>tp_id = 0, tp_name = name, tp_description = Some descr, tp_type = ty, tp_key_type = Some ''RSA-2048'', tp_validity = Some valid_for,
      tp_digest = Some ''sha256'',
      tp_dn = Some (json_dumps (JObj [(''CN'', JStr cn), (''O'', JStr []), (''OU'', JStr ou), (''C'', JStr []), (''ST'', JStr []), (''L'', JStr [])])),
      tp_extensions = json_dumps (JObj [(''key_usage'', JList (map JStr ku)), (''extended_key_usage'', JList (map JStr eku)),
        (''basic_constraints'', JObj [(''ca'', JBool False)]), (''san_types'', JList (map JStr san))]),
      tp_system = True, tp_active = Some True, tp_created_at = 0, tp_created_by = None, tp_updated_by = None\<rparr>"

definition SYSTEM_TEMPLATES :: "cert_template list" where
  "SYSTEM_TEMPLATES =
     [packaged ''Web Server (TLS/SSL)''
        ''SSL/TLS certificate for web servers (HTTPS). Compatible with Apache, Nginx, IIS. Validity: 397 days (Apple/Chrome limit).''
        ''web_server'' 397 ''{hostname}'' ''IT'' [''digitalSignature'', ''keyEncipherment''] [''serverAuth''] [''dns'', ''ip''],
      packaged ''Email Certificate (S/MIME)''
        ''S/MIME certificate for email encryption and digital signatures. Compatible with Outlook, Thunderbird, Apple Mail.''
        ''email'' 397 ''{email}'' ''Users'' [''digitalSignature'', ''keyEncipherment'', ''dataEncipherment''] [''emailProtection''] [''email''],
      packaged ''VPN Server''
        ''VPN server certificate for OpenVPN, IPsec, WireGuard. Includes serverAuth and ipsecEndSystem extended key usage.''
        ''vpn_server'' 825 ''{hostname}'' ''VPN'' [''digitalSignature'', ''keyEncipherment''] [''serverAuth'', ''ipsecEndSystem''] [''dns'', ''ip''],
      packaged ''VPN Client''
        ''VPN client certificate for user authentication. Compatible with OpenVPN, IPsec clients.''
        ''vpn_client'' 397 ''{username}'' ''VPN Users'' [''digitalSignature'', ''keyEncipherment''] [''clientAuth'', ''ipsecUser''] [''email''],
      packaged ''Code Signing''
        ''Code signing certificate for software developers. Sign executables, scripts, packages. Validity: 3 years max.''
        ''code_signing'' 1095 ''{username}'' ''Development'' [''digitalSignature''] [''codeSigning''] [],
      packaged ''Client Authentication''
        ''Client authentication certificate for user/device authentication. Compatible with 802.1X, RADIUS, mTLS.''
        ''client_auth'' 397 ''{username}'' ''Users'' [''digitalSignature'', ''keyEncipherment''] [''clientAuth''] [''email'']]"

text \<open>Seeding adds those whose names are not taken.\<close>

definition seed_system_templates :: "time \<Rightarrow> template_db \<Rightarrow> nat \<times> template_db" where
  "seed_system_templates now st =
     foldl (\<lambda>(n, d) t. if list_ex (\<lambda>x. tp_name x = tp_name t) (tb_templates d) then (n, d)
                       else (n + 1, d\<lparr>tb_templates := tb_templates d @ [t\<lparr>tp_id := next_id tp_id (tb_templates d), tp_created_at := now,
                                                                         tp_created_by := Some ''system''\<rparr>]\<rparr>))
       (0, st) SYSTEM_TEMPLATES"

lemma seed_once: "seed_system_templates t (snd (seed_system_templates now st)) = (0, snd (seed_system_templates now st))"
proof -
  let ?f = "\<lambda>t (n, d) x. if list_ex (\<lambda>y. tp_name y = tp_name x) (tb_templates d) then (n, d)
      else (n + 1 :: nat, d\<lparr>tb_templates := tb_templates d @ [x\<lparr>tp_id := next_id tp_id (tb_templates d), tp_created_at := t, tp_created_by := Some ''system''\<rparr>]\<rparr>)"
  have names: "tp_name ` set xs \<union> tp_name ` set (tb_templates (snd acc)) \<subseteq> tp_name ` set (tb_templates (snd (foldl (?f t) acc xs)))" for t xs acc
  proof (induction xs arbitrary: acc)
    case (Cons x xs)
    have "insert (tp_name x) (tp_name ` set (tb_templates (snd acc))) \<subseteq> tp_name ` set (tb_templates (snd (?f t acc x)))"
      by (cases acc, auto simp: list_ex_iff image_iff) metis+
    then show ?case using Cons.IH [of "?f t acc x"] unfolding foldl_Cons list.set image_insert by blast
  qed simp
  have again: "foldl (?f t) (n, d) xs = (n, d)" if "tp_name ` set xs \<subseteq> tp_name ` set (tb_templates d)" for n d xs
    using that by (induction xs) (auto simp: list_ex_iff image_iff)
  have "tp_name ` set SYSTEM_TEMPLATES \<subseteq> tp_name ` set (tb_templates (snd (seed_system_templates now st)))"
    using names [of SYSTEM_TEMPLATES "(0, st)" now] by (simp add: seed_system_templates_def)
  from again [OF this, of 0] show ?thesis unfolding seed_system_templates_def [of t] .
qed

subsection \<open>System templates\<close>

datatype template_event =
    Add_template string template_body
  | Edit_template string int template_body
  | Remove_template int
  | Remove_templates "int list option"
  | Copy_template string int
  | Load_templates template_upload

text \<open>One request. The search for the name of a copy has enough tries, see below.\<close>

fun template_step :: "template_env \<Rightarrow> (string \<Rightarrow> string) \<Rightarrow> template_db \<Rightarrow> time \<times> template_event \<Rightarrow> template_db" where
  "template_step e sf st (now, Add_template user b) = snd (create_template e now user b st)"
| "template_step e sf st (now, Edit_template user i b) = snd (update_template e user i b st)"
| "template_step e sf st (now, Remove_template i) = snd (delete_template e i st)"
| "template_step e sf st (now, Remove_templates ids) = snd (bulk_delete_templates e ids st)"
| "template_step e sf st (now, Copy_template user i) =
     (case duplicate_template e (Suc (length (tb_templates st))) now user i st of None \<Rightarrow> st | Some (_, st') \<Rightarrow> st')"
| "template_step e sf st (now, Load_templates u) = snd (import_template e sf now u st)"

definition templates_ok :: "cert_template list \<Rightarrow> bool" where
  "templates_ok rows \<longleftrightarrow> keys_ok tp_id rows \<and> distinct (map tp_name rows)"

definition system_templates :: "cert_template list \<Rightarrow> cert_template list" where
  "system_templates rows = filter tp_system rows"

text \<open>Tables that differ in custom templates only.\<close>

definition custom_change :: "cert_template list \<Rightarrow> cert_template list \<Rightarrow> bool" where
  "custom_change rows rows' \<longleftrightarrow> (templates_ok rows \<longrightarrow> templates_ok rows' \<and> system_templates rows' = system_templates rows)"

lemma custom_change_refl [simp]: "custom_change rows rows"
  by (simp add: custom_change_def)

lemma custom_change_trans: "custom_change a b \<Longrightarrow> custom_change b c \<Longrightarrow> custom_change a c"
  by (simp add: custom_change_def)

lemma custom_append:
  assumes "tp_id t = next_id tp_id rows" "tp_name t \<notin> tp_name ` set rows" "\<not> tp_system t"
  shows "custom_change rows (rows @ [t])"
  using assms keys_ok_append [of tp_id rows t] by (simp add: custom_change_def templates_ok_def system_templates_def)

lemma custom_delete:
  assumes "row_get tp_id rows i = Some t" "\<not> tp_system t"
  shows "custom_change rows (row_delete tp_id i rows)"
proof -
  have t: "t \<in> set rows" "tp_id t = i" using row_get_Some [OF assms(1)] by simp_all
  have "filter tp_system (row_delete tp_id i rows) = filter tp_system rows" if "templates_ok rows"
  proof -
    have "tp_system x \<Longrightarrow> tp_id x \<noteq> i" if "x \<in> set rows" for x
      using \<open>templates_ok rows\<close> t assms(2) that by (auto simp: templates_ok_def keys_ok_def distinct_map inj_on_def)
    then show ?thesis by (auto simp: row_delete_def intro: filter_cong)
  qed
  then show ?thesis
    by (simp add: custom_change_def templates_ok_def system_templates_def row_delete_def keys_ok_filter distinct_map_filter)
qed

lemma custom_put:
  assumes t: "t \<in> set rows" "\<not> tp_system t" and v: "tp_id v = tp_id t" "\<not> tp_system v"
    and name: "\<And>x. x \<in> set rows \<Longrightarrow> tp_id x \<noteq> tp_id t \<Longrightarrow> tp_name x \<noteq> tp_name v"
  shows "custom_change rows (row_update tp_id (tp_id t) (\<lambda>_. v) rows)"
  unfolding custom_change_def
proof
  assume ok: "templates_ok rows"
  let ?rows = "row_update tp_id (tp_id t) (\<lambda>_. v) rows"
  have same: "x = t" if "x \<in> set rows" "tp_id x = tp_id t" for x
    using ok t(1) that by (auto simp: templates_ok_def keys_ok_def distinct_map inj_on_def)
  have "keys_ok tp_id ?rows" using ok v(1) by (intro keys_ok_put) (simp_all add: templates_ok_def)
  moreover have "distinct (map tp_name ?rows)"
    using ok name by (intro row_update_names) (auto simp: templates_ok_def keys_ok_def dest: name)
  moreover have "system_templates ?rows = system_templates rows"
    using same t(2) v(2) unfolding row_update_def system_templates_def by (induction rows) auto
  ultimately show "templates_ok ?rows \<and> system_templates ?rows = system_templates rows" by (simp add: templates_ok_def)
qed

lemma store_template_rows [simp]: "tb_templates (snd (store_template e act what d msg t st)) = tb_templates st"
  by (simp add: store_template_def log_template_def Let_def split: option.split)

lemma log_template_rows [simp]: "tb_templates (log_template e act i name d st) = tb_templates st"
  by (simp add: log_template_def)

lemma create_template_change: "custom_change (tb_templates st) (tb_templates (snd (create_template e now user b st)))"
proof -
  define types where "types = set template_types"
  show ?thesis
    unfolding create_template_def types_def [symmetric] Let_def
    by (auto simp: list_ex_iff split: option.split intro!: custom_append)
qed

lemma update_template_change: "custom_change (tb_templates st) (tb_templates (snd (update_template e user i b st)))"
proof (cases "row_get tp_id (tb_templates st) i")
  case (Some t)
  define types where "types = set template_types"
  have t: "t \<in> set (tb_templates st)" "tp_id t = i" using row_get_Some [OF Some] by simp_all
  have put: "custom_change (tb_templates st) (row_update tp_id i (\<lambda>_. changed_template user b d t) (tb_templates st))"
    if "\<not> tp_system t" "\<not> (tm_name b \<noteq> None \<and> list_ex (\<lambda>x. tp_name x = the (tm_name b) \<and> tp_id x \<noteq> i) (tb_templates st))"
      and names: "templates_ok (tb_templates st)" for d
  proof -
    have "tp_name x \<noteq> tp_name (changed_template user b d t)" if "x \<in> set (tb_templates st)" "tp_id x \<noteq> tp_id t" for x
      using that t names \<open>\<not> (tm_name b \<noteq> None \<and> _)\<close>
      by (cases "tm_name b") (auto simp: changed_template_def given_or_def list_ex_iff templates_ok_def distinct_map inj_on_def)
    then show ?thesis using custom_put [OF t(1) that(1), of "changed_template user b d t"] that(1) t(2) by (simp add: changed_template_def)
  qed
  have "templates_ok (tb_templates st) \<Longrightarrow> custom_change (tb_templates st) (tb_templates (snd (update_template e user i b st)))"
    unfolding update_template_def Some types_def [symmetric] option.case Let_def
    using put by (auto split: int_of.split)
  then show ?thesis by (auto simp: custom_change_def)
qed (simp add: update_template_def)

lemma delete_template_change: "custom_change (tb_templates st) (tb_templates (snd (delete_template e i st)))"
  using custom_delete by (auto simp: delete_template_def split: option.split)

lemma bulk_remove_change: "custom_change rows (snd (snd (bulk_remove is rows)))"
proof (induction "is" rows rule: bulk_remove.induct)
  case (2 i "is" rows)
  show ?case
  proof (cases "row_get tp_id rows i")
    case None
    then show ?thesis using 2(1) [OF None] by (simp add: case_prod_beta Let_def)
  next
    case (Some t)
    show ?thesis
    proof (cases "tp_system t")
      case True
      then show ?thesis using 2(2) [OF Some True] Some by (simp add: case_prod_beta Let_def)
    next
      case False
      show ?thesis
        using custom_change_trans [OF custom_delete [OF Some False] 2(3) [OF Some False]] Some False by (simp add: case_prod_beta Let_def)
    qed
  qed
qed simp

lemma bulk_delete_change: "custom_change (tb_templates st) (tb_templates (snd (bulk_delete_templates e ids st)))"
  using bulk_remove_change [of "tb_templates st" "the ids"] by (simp add: bulk_delete_templates_def case_prod_beta Let_def)

lemma free_name_fresh: "free_name base names n tries = Some m \<Longrightarrow> m \<notin> set names"
  by (induction base names n tries rule: free_name.induct) (auto split: if_splits)

lemma duplicate_template_change:
  assumes "duplicate_template e tries now user i st = Some (r, st')"
  shows "custom_change (tb_templates st) (tb_templates st')"
proof (cases "row_get tp_id (tb_templates st) i")
  case (Some t)
  then obtain name where n: "free_name (tp_name t @ '' (Copy)'') (map tp_name (tb_templates st)) 1 tries = Some name"
    and st': "tb_templates st' = tb_templates st @ [template_copy now user name (next_id tp_id (tb_templates st)) t]"
    using assms by (auto simp: duplicate_template_def Let_def dest!: arg_cong [where f = "\<lambda>p. tb_templates (snd p)"])
  show ?thesis unfolding st' using free_name_fresh [OF n] by (intro custom_append) (simp_all add: template_copy_def)
qed (use assms in \<open>simp add: duplicate_template_def\<close>)

lemma imported_columns_fields:
  assumes "imported_columns d t = Some t'"
  shows "tp_id t' = tp_id t \<and> tp_name t' = tp_name t \<and> tp_system t' = tp_system t"
  using assms by (auto simp: imported_columns_def Let_def split: option.splits)

lemma import_object_change:
  assumes "import_object now update r j = Some r'"
  shows "custom_change (ir_rows r) (ir_rows r')"
proof (cases j)
  case (JObj d)
  show ?thesis
  proof (cases "jget d ''name''")
    case (JStr name)
    show ?thesis
    proof (cases "find (\<lambda>t. tp_name t = name) (ir_rows r)")
      case (Some t)
      have t: "t \<in> set (ir_rows r)" using find_Some_in [OF Some] by simp
      show ?thesis
      proof (cases "truthy (jget d ''name'') \<and> \<not> tp_system t \<and> update")
        case True
        then obtain t' where t': "imported_columns d t = Some t'" "ir_rows r' = row_update tp_id (tp_id t) (\<lambda>_. t') (ir_rows r)"
          using assms JObj JStr Some by (auto simp: import_object_def)
        note f = imported_columns_fields [OF t'(1)]
        have "custom_change (ir_rows r) (row_update tp_id (tp_id t) (\<lambda>_. t') (ir_rows r))" if ok: "templates_ok (ir_rows r)"
          using f True ok t by (intro custom_put) (auto simp: templates_ok_def distinct_map inj_on_def)
        then show ?thesis unfolding t'(2) by (auto simp: custom_change_def)
      qed (use assms JObj JStr Some in \<open>auto simp: import_object_def split: if_splits\<close>)
    next
      case None
      then have new: "name \<notin> tp_name ` set (ir_rows r)" by (auto simp: find_None_iff)
      show ?thesis
      proof (cases "truthy (jget d ''name'') \<and> jget d ''extensions_template'' \<noteq> JNull")
        case True
        then obtain t' where t': "imported_columns d (blank_template now (next_id tp_id (ir_rows r)) name) = Some t'" "ir_rows r' = ir_rows r @ [column_defaults t']"
          using assms JObj JStr None by (auto simp: import_object_def)
        show ?thesis unfolding t'(2) using imported_columns_fields [OF t'(1)] new by (intro custom_append) (simp_all add: blank_template_def)
      qed (use assms JObj JStr None in \<open>auto simp: import_object_def split: if_splits\<close>)
    qed
  qed (use assms JObj in \<open>auto simp: import_object_def split: if_splits\<close>)
qed (use assms in \<open>simp_all add: import_object_def\<close>)

lemma import_objects_change: "import_objects now update js r = Some r' \<Longrightarrow> custom_change (ir_rows r) (ir_rows r')"
proof (induction js arbitrary: r)
  case (Cons j js)
  then obtain r1 where "import_object now update r j = Some r1" "import_objects now update js r1 = Some r'" by (auto simp: bind_eq_Some_conv)
  then show ?case using Cons.IH custom_change_trans import_object_change by blast
qed simp

lemma import_template_change: "custom_change (tb_templates st) (tb_templates (snd (import_template e sf now u st)))"
  unfolding import_template_def Let_def
  by (auto split: sum.split option.split dest: import_objects_change)

lemma template_step_change: "custom_change (tb_templates st) (tb_templates (template_step e sf st ev))"
proof -
  obtain now v where ev: "ev = (now, v)" by (cases ev)
  show ?thesis
    unfolding ev
    using create_template_change update_template_change delete_template_change bulk_delete_change import_template_change duplicate_template_change
    by (cases v) (simp_all split: option.split prod.split)
qed

interpretation template_runs: invariant_system "template_step e sf" "\<lambda>st. templates_ok (tb_templates st) \<and> system_templates (tb_templates st) = sys"
  for e sf sys
  by unfold_locales (use template_step_change in \<open>fastforce simp: custom_change_def\<close>)

text \<open>C29. Whatever sequence of requests creates, changes, deletes, copies and imports templates, the templates that came with the program stay as they
  are, and names and identifiers stay unique.\<close>

theorem system_templates_fixed:
  assumes "templates_ok (tb_templates st)"
  shows "system_templates (tb_templates (foldl (template_step e sf) st evs)) = system_templates (tb_templates st) \<and>
    templates_ok (tb_templates (foldl (template_step e sf) st evs))"
  using template_runs.run_inv [of st "system_templates (tb_templates st)" e sf evs] assms by simp

subsection \<open>Copies end\<close>

lemma free_name_None: "free_name base names n tries = None \<Longrightarrow> k < tries \<Longrightarrow> copy_name base (n + k) \<in> set names"
proof (induction base names n tries arbitrary: k rule: free_name.induct)
  case (2 base names n tries)
  then have "copy_name base n \<in> set names" "free_name base names (Suc n) tries = None" by (auto split: if_splits)
  then show ?case using 2(1) [of "k - 1"] 2(3) by (cases k) simp_all
qed simp

lemma str_nat_inject: "str_nat a = str_nat b \<longleftrightarrow> a = b"
  by (metis py_int_str_nat option.inject of_nat_eq_iff)

lemma copy_name_inject: "inj_on (copy_name base) {1..}"
  by (intro inj_onI) (auto simp: copy_name_def str_nat_inject split: if_splits)

text \<open>Copying a template always ends: among as many candidates as there are templates and one more, one name is free. The copy has the content of its
  original (with the defaults for columns that had no value), is no system template, and has a name no other template has.\<close>

theorem copying_ends:
  assumes "row_get tp_id (tb_templates st) i = Some t" "length (tb_templates st) < tries"
  shows "\<exists>r st' c. duplicate_template e tries now user i st = Some (r, st') \<and> tb_templates st' = tb_templates st @ [c] \<and> exported c = exported (column_defaults (t\<lparr>tp_name := tp_name c\<rparr>)) \<and>
    \<not> tp_system c \<and> tp_name c \<notin> tp_name ` set (tb_templates st)"
proof -
  let ?names = "map tp_name (tb_templates st)" and ?base = "tp_name t @ '' (Copy)''"
  have "free_name ?base ?names 1 tries \<noteq> None"
  proof
    assume "free_name ?base ?names 1 tries = None"
    then have "copy_name ?base ` {1..<1 + tries} \<subseteq> set ?names"
      using free_name_None by (metis (no_types, lifting) atLeastLessThan_iff image_subsetI le_add_diff_inverse nat_add_left_cancel_less)
    moreover have "card (copy_name ?base ` {1..<1 + tries}) = tries"
      by (subst card_image) (auto intro: inj_on_subset [OF copy_name_inject])
    ultimately have "tries \<le> card (set ?names)" by (metis List.finite_set card_mono)
    then show False using assms(2) card_length [of ?names] by simp
  qed
  then obtain name where n: "free_name ?base ?names 1 tries = Some name" by blast
  let ?c = "template_copy now user name (next_id tp_id (tb_templates st)) t"
  obtain r st' where d: "duplicate_template e tries now user i st = Some (r, st')" and rows: "tb_templates st' = tb_templates st @ [?c]"
  proof
    let ?p = "store_template e ''template_duplicate'' ''duplicate'' (''Duplicated from template: '' @ tp_name t @ '' (id='' @ str_int (tp_id t) @ '')'')
      (''Template duplicated as '' @ name) ?c (st\<lparr>tb_templates := tb_templates st @ [?c]\<rparr>)"
    show "duplicate_template e tries now user i st = Some (fst ?p, snd ?p)" using assms(1) n by (simp add: duplicate_template_def Let_def)
    show "tb_templates (snd ?p) = tb_templates st @ [?c]" by simp
  qed
  have "exported ?c = exported (column_defaults (t\<lparr>tp_name := tp_name ?c\<rparr>))" "\<not> tp_system ?c" "tp_name ?c \<notin> tp_name ` set (tb_templates st)"
    using free_name_fresh [OF n] by (simp_all add: template_copy_def exported_def column_defaults_def)
  then show ?thesis using d rows by blast
qed

subsection \<open>Exports can be imported\<close>

definition imported_copy :: "time \<Rightarrow> int \<Rightarrow> cert_template \<Rightarrow> cert_template" where
  "imported_copy now i t = t\<lparr>tp_id := i, tp_system := False, tp_created_at := now, tp_created_by := None, tp_updated_by := None\<rparr>"

lemma exported_imported_copy: "exported (column_defaults (imported_copy now i t)) = exported (column_defaults t)"
  by (simp add: imported_copy_def exported_def column_defaults_def)

lemma text_column_text [simp]: "text_column (text_json v) = Some v"
  by (cases v) (simp_all add: text_column_def text_json_def)

lemma imported_exported:
  assumes "tp_name t \<noteq> []" "tp_name t \<notin> tp_name ` set (ir_rows r)"
  shows "import_object now update r (exported t) =
    Some (r\<lparr>ir_rows := ir_rows r @ [column_defaults (imported_copy now (next_id tp_id (ir_rows r)) t)], ir_imported := ir_imported r @ [tp_name t]\<rparr>)"
proof -
  obtain d where d: "exported t = JObj d" by (simp add: exported_def)
  have keys: "jget d ''name'' = JStr (tp_name t)" "jget d ''extensions_template'' = JStr (tp_extensions t)"
    "jget_or d ''description'' v = text_json (tp_description t)" "jget_or d ''template_type'' v = JStr (tp_type t)"
    "jget_or d ''key_type'' v = text_json (tp_key_type t)" "jget_or d ''validity_days'' v = (case tp_validity t of None \<Rightarrow> JNull | Some n \<Rightarrow> JInt n)"
    "jget_or d ''digest'' v = text_json (tp_digest t)" "jget_or d ''dn_template'' v = text_json (tp_dn t)"
    "jget_or d ''extensions_template'' v = JStr (tp_extensions t)" "jget_or d ''is_active'' v = (case tp_active t of None \<Rightarrow> JNull | Some b \<Rightarrow> JBool b)" for v
    using d by (auto simp: exported_def jget_def jget_or_def)
  have cols: "int_column (case n of None \<Rightarrow> JNull | Some n \<Rightarrow> JInt n) = Some n" "flag_column (case b of None \<Rightarrow> JNull | Some b \<Rightarrow> JBool b) = Some b"
    "text_column (JStr x) = Some (Some x)" for n b x
    by (simp_all add: int_column_def flag_column_def text_column_def split: option.split)
  have "imported_columns d (blank_template now i (tp_name t)) = Some (imported_copy now i t)" for i
    by (simp add: imported_columns_def keys cols Let_def blank_template_def imported_copy_def)
  moreover have "find (\<lambda>x. tp_name x = tp_name t) (ir_rows r) = None" using assms(2) by (auto simp: find_None_iff image_iff)
  ultimately show ?thesis using assms(1) by (simp add: import_object_def d keys truthy_def)
qed

lemma import_exported:
  assumes "\<forall>t \<in> set ts. tp_name t \<noteq> [] \<and> tp_name t \<notin> tp_name ` set (ir_rows r)" "distinct (map tp_name ts)"
  shows "\<exists>new. import_objects now update (map exported ts) r =
      Some (r\<lparr>ir_rows := ir_rows r @ new, ir_imported := ir_imported r @ map tp_name ts\<rparr>) \<and> map exported new = map (exported \<circ> column_defaults) ts"
  using assms
proof (induction ts arbitrary: r)
  case (Cons t ts)
  let ?t = "column_defaults (imported_copy now (next_id tp_id (ir_rows r)) t)"
  let ?r = "r\<lparr>ir_rows := ir_rows r @ [?t], ir_imported := ir_imported r @ [tp_name t]\<rparr>"
  have "\<forall>x \<in> set ts. tp_name x \<noteq> [] \<and> tp_name x \<notin> tp_name ` set (ir_rows ?r)" using Cons.prems by (auto simp: imported_copy_def image_iff)
  with Cons.IH [of ?r] Cons.prems(2) obtain new where new: "import_objects now update (map exported ts) ?r =
      Some (?r\<lparr>ir_rows := ir_rows ?r @ new, ir_imported := ir_imported ?r @ map tp_name ts\<rparr>)" "map exported new = map (exported \<circ> column_defaults) ts" by auto
  show ?case
    by (intro exI [of _ "?t # new"]) (use Cons.prems(1) new in \<open>simp add: imported_exported exported_imported_copy\<close>)
qed simp

text \<open>C35. What an export of all templates gives, another installation can import: every custom template arrives with its content, the
  defaults standing for columns that had no value, provided that names are not empty and not taken there, and that \<^verbatim>\<open>json.loads\<close> reads what \<^verbatim>\<open>json.dumps\<close> wrote.\<close>

theorem export_import_roundtrip:
  assumes "export_all_templates e st = Success (text, file) msg code"
    and "tv_loads e text = Some (JList (map exported (filter (Not \<circ> tp_system) (tb_templates st))))" "text \<noteq> []"
    and "distinct (map tp_name (tb_templates st))"
    and "\<forall>t \<in> set (filter (Not \<circ> tp_system) (tb_templates st)). tp_name t \<noteq> [] \<and> tp_name t \<notin> tp_name ` set (tb_templates st2)"
  shows "\<exists>reply new st3. import_template e sf now \<lparr>tu_file = None, tu_content = Some text, tu_update = upd\<rparr> st2 = (reply, st3) \<and> status_code reply = 200 \<and>
    tb_templates st3 = tb_templates st2 @ new \<and> map exported new = map (exported \<circ> column_defaults) (filter (Not \<circ> tp_system) (tb_templates st))"
proof -
  let ?ts = "filter (Not \<circ> tp_system) (tb_templates st)"
  let ?r = "\<lparr>ir_rows = tb_templates st2, ir_imported = [], ir_updated = [], ir_skipped = []\<rparr>"
  obtain new where new: "import_objects now (lower upd = ''true'') (map exported ?ts) ?r =
      Some (?r\<lparr>ir_rows := ir_rows ?r @ new, ir_imported := ir_imported ?r @ map tp_name ?ts\<rparr>)" "map exported new = map (exported \<circ> column_defaults) ?ts"
    using import_exported [of ?ts ?r now "lower upd = ''true''"] assms(4,5) by (auto simp: distinct_map_filter)
  define r where "r = import_template e sf now \<lparr>tu_file = None, tu_content = Some text, tu_update = upd\<rparr> st2"
  have "status_code (fst r) = 200" "tb_templates (snd r) = tb_templates st2 @ new"
    using new(1) assms(2,3) unfolding r_def import_template_def
    by (simp_all add: nonempty_def Let_def success_response_def status_code_def)
  then show ?thesis using new(2) by (intro exI [of _ "fst r"] exI [of _ new] exI [of _ "snd r"]) (simp add: r_def)
qed

text \<open>An imported text that is no JSON is stored. From then on every list that holds its template fails.\<close>

lemma bad_import_breaks_list:
  assumes "t \<in> set (tb_templates st)" "tp_extensions t \<noteq> []" "tv_loads e (tp_extensions t) = None"
  shows "list_templates e \<lparr>ta_type = None, ta_active = None, ta_search = []\<rparr> st = Raised ''JSONDecodeError''"
proof -
  have "template_view e t = None" using assms(2,3) by (simp add: template_view_def json_column_def split: option.split)
  moreover have "t \<in> set (order_by True tp_created_at (tb_templates st))" using assms(1) by (simp add: order_by_def)
  ultimately have "None \<in> set (map (template_view e) (order_by True tp_created_at (tb_templates st)))" by (metis image_eqI list.set_map)
  then show ?thesis by (simp add: list_templates_def nonempty_def strip_def Let_def)
qed

subsection \<open>Examples\<close>

definition demo_template :: cert_template where
  "demo_template = (blank_template 1 1 ''W'')\<lparr>tp_system := True, tp_extensions := ''{}''\<rparr>"

definition demo_custom :: cert_template where
  "demo_custom = (blank_template 2 2 ''C'')\<lparr>tp_extensions := ''{}''\<rparr>"

definition demo_templates :: template_db where
  "demo_templates = \<lparr>tb_templates = [demo_template, demo_custom], tb_logs = []\<rparr>"

definition demo_template_env :: template_env where
  "demo_template_env = \<lparr>tv_log = (\<lambda>_ ls. ls), tv_loads = (\<lambda>_. Some (JList (map exported (filter (Not \<circ> tp_system) (tb_templates demo_templates))))),
     tv_indented = (\<lambda>_. ''x'')\<rparr>"

theorem system_templates_fixed_witness:
  "system_templates (tb_templates (foldl (template_step demo_template_env id) demo_templates [(5, Remove_template 1), (6, Copy_template ''a'' 1), (7, Remove_templates (Some [1, 2]))])) =
    [demo_template]"
proof -
  have "templates_ok (tb_templates demo_templates)" "system_templates (tb_templates demo_templates) = [demo_template]"
    by (simp_all add: templates_ok_def keys_ok_def system_templates_def demo_templates_def demo_template_def demo_custom_def blank_template_def)
  then show ?thesis
    using system_templates_fixed [of demo_templates demo_template_env id "[(5, Remove_template 1), (6, Copy_template ''a'' 1), (7, Remove_templates (Some [1, 2]))]"]
    by simp
qed

theorem copying_ends_witness:
  "\<exists>r st' c. duplicate_template demo_template_env 3 9 ''a'' 1 demo_templates = Some (r, st') \<and> tb_templates st' = tb_templates demo_templates @ [c] \<and> \<not> tp_system c"
  using copying_ends [of demo_templates 1 demo_template 3 demo_template_env 9 "''a''"]
  by (auto simp: row_get_def demo_templates_def demo_template_def blank_template_def)

theorem export_import_roundtrip_witness:
  "\<exists>reply new st3. import_template demo_template_env id 9 \<lparr>tu_file = None, tu_content = Some ''x'', tu_update = []\<rparr> \<lparr>tb_templates = [demo_template], tb_logs = []\<rparr> = (reply, st3) \<and>
    status_code reply = 200 \<and> tb_templates st3 = [demo_template] @ new \<and> map exported new = [exported demo_custom]"
  using export_import_roundtrip [of demo_template_env demo_templates "''x''" "''templates_export.json''" "[]" 200 "\<lparr>tb_templates = [demo_template], tb_logs = []\<rparr>" id 9 "[]"]
  by (simp add: export_all_templates_def success_response_def demo_template_env_def demo_templates_def demo_template_def demo_custom_def blank_template_def column_defaults_def given_or_def)

end
