(* ===== verification/Expiry.thy ===== *)
theory Expiry
  imports Crl
begin

text \<open>
  Mails about certificates that are going to expire, \<^verbatim>\<open>services/expiry_alert_service.py\<close>.

  Sending a mail is a parameter: whether it worked, with a message. The HTML of the mail is left out. A run reads the clock once; the code reads it again
  for every setting. The days of the settings are whole numbers.
\<close>

record alert_settings =
  as_enabled :: bool
  as_days :: "int list"
  as_include_revoked :: bool
  as_recipients :: "string list"
  as_last_run :: "time option"
  as_total :: nat


record alert_update =
  au_enabled_arg :: "bool option"
  au_days_arg :: "int list option"
  au_include_arg :: "bool option"
  au_recipients_arg :: "string list option"

definition initial_settings :: alert_settings where
  "initial_settings = \<lparr>as_enabled = True, as_days = [30, 14, 7, 1], as_include_revoked = False, as_recipients = [], as_last_run = None, as_total = 0\<rparr>"

definition or_keep :: "'a option \<Rightarrow> 'a \<Rightarrow> 'a" where
  "or_keep v old = (case v of None \<Rightarrow> old | Some x \<Rightarrow> x)"

definition update_alert_settings :: "alert_update \<Rightarrow> alert_settings \<Rightarrow> alert_settings" where
  "update_alert_settings u s =
     s\<lparr>as_enabled := or_keep (au_enabled_arg u) (as_enabled s),
       as_days := (case au_days_arg u of None \<Rightarrow> as_days s | Some ds \<Rightarrow> rev (sort (filter (\<lambda>d. d > 0) ds))),
       as_include_revoked := or_keep (au_include_arg u) (as_include_revoked s), as_recipients := or_keep (au_recipients_arg u) (as_recipients s)\<rparr>"

text \<open>The certificates that expire within a number of days, the next one first, with the whole days that are left.\<close>

definition expires_at :: "certificate \<Rightarrow> time" where
  "expires_at c = the (ct_valid_to c)"

definition days_left :: "time \<Rightarrow> certificate \<Rightarrow> int" where
  "days_left now c = (expires_at c - now) div days 1"












subsection \<open>Who is warned\<close>

text \<open>A certificate is due when the whole days left, at least one, are at most as many as a setting says and less than seven fewer.\<close>

definition due_alert :: "time \<Rightarrow> alert_settings \<Rightarrow> certificate \<Rightarrow> bool" where
  "due_alert now s c \<longleftrightarrow>
     ct_valid_to c \<noteq> None \<and> now < expires_at c \<and> (as_include_revoked s \<or> \<not> ct_revoked c) \<and>
     (\<exists>a \<in> set (as_days s). 0 < days_left now c \<and> a - 7 < days_left now c \<and> days_left now c \<le> a)"

text \<open>What the comments of the code ask for: the days left are those of a setting, up to one day.\<close>

definition announced_alert :: "time \<Rightarrow> alert_settings \<Rightarrow> certificate \<Rightarrow> bool" where
  "announced_alert now s c \<longleftrightarrow>
     ct_valid_to c \<noteq> None \<and> now < expires_at c \<and> (as_include_revoked s \<or> \<not> ct_revoked c) \<and> (\<exists>a \<in> set (as_days s). \<bar>days_left now c - a\<bar> \<le> 1)"


lemma days_pos: "0 < days 1"
  by code_simp











text \<open>A run does not know of the runs before it: a certificate with fourteen days left or less is warned about in every run until its last day, in which
  it is never warned about. Between 23 and 15 days there is no warning.\<close>

lemma alert_again:
  "expires_at c = now + days n + k \<Longrightarrow> 0 \<le> k \<Longrightarrow> k < days 1 \<Longrightarrow> 1 \<le> n \<Longrightarrow> n \<le> 14 \<Longrightarrow> ct_valid_to c \<noteq> None \<Longrightarrow> \<not> ct_revoked c \<Longrightarrow>
    due_alert now initial_settings c"
proof -
  assume a: "expires_at c = now + days n + k" "0 \<le> k" "k < days 1" "1 \<le> n" "n \<le> 14" "ct_valid_to c \<noteq> None" "\<not> ct_revoked c"
  have n: "days n = n * days 1" by (simp add: days_def hours_def minutes_def seconds_def)
  then have left: "days_left now c = n" using a(1-3) days_pos by (simp add: days_left_def)
  have "days 1 \<le> days n" using a(4) days_pos by (simp add: n)
  then have "now < expires_at c" using a(1,2) days_pos by linarith
  then show ?thesis using a(4-7) left by (auto simp: due_alert_def initial_settings_def)
qed

text \<open>With the settings the program starts with, the range and the announced tolerance differ in both directions.\<close>

lemma alerts_beyond_announced:
  assumes "ct_valid_to c \<noteq> None" "now < expires_at c" "\<not> ct_revoked c"
  shows "2 \<le> 14 - days_left now c \<and> 14 - days_left now c \<le> 5 \<Longrightarrow> due_alert now initial_settings c \<and> \<not> announced_alert now initial_settings c"
    and "days_left now c = 15 \<or> days_left now c = 0 \<Longrightarrow> announced_alert now initial_settings c \<and> \<not> due_alert now initial_settings c"
  using assms by (auto simp: due_alert_def announced_alert_def initial_settings_def)

lemma no_alert:
  assumes "days_left now c = 0 \<or> 15 \<le> days_left now c \<and> days_left now c \<le> 23"
  shows "\<not> due_alert now initial_settings c"
  using assms by (auto simp: due_alert_def initial_settings_def)

end
