(* ===== verification/Spec2Isabelle.thy ===== *)
theory Spec2Isabelle
  imports Prelude Auth Rbac Rate_Limit Text_Format Audit_Log Csrf Password_Policy Policy_Approval Acme Acme_Api Crl Crl_Runs Ocsp Anomaly Attempt_Limiter Login
    Scheduler Compliance Smart_Import Import_Checks Users User_Groups Utilities Base64 Import_Files Ca_Tree Chain_Repair Encryption Cert_List Certificates Account
    Mtls Mtls_Api User_Certs Sso Sso_Runs Templates Expiry
begin

text \<open>
  \<^bold>\<open>Verification of UCM, a certificate-authority manager\<close>

  UCM is a Flask application (\<^verbatim>\<open>src/backend\<close>) over an SQL database. A request passes the rate limiter
  (\<^verbatim>\<open>security/rate_limiter.py\<close>) and the CSRF hook (\<^verbatim>\<open>security/csrf.py\<close>), is authenticated and
  authorized by the decorator \<^verbatim>\<open>require_auth\<close> (\<^verbatim>\<open>auth/unified.py\<close>, \<^verbatim>\<open>auth/permissions.py\<close>) and
  reaches a handler under \<^verbatim>\<open>api/v2\<close>, which changes the tables of \<^verbatim>\<open>models\<close> through a service and
  writes the audit log (\<^verbatim>\<open>services/audit_service.py\<close>). The ACME server (\<^verbatim>\<open>api/acme/acme_api.py\<close>,
  \<^verbatim>\<open>services/acme/acme_service.py\<close>) has no such login: its requests are signed, and its state machine of
  orders, authorizations and challenges decides which certificates are issued.

  \<^bold>\<open>How the code is represented.\<close> A table is the list of its rows in the order of their primary key, a row
  a record, and the database of a component a record of tables. An operation takes the state and returns
  its answer with the new state; exceptions, error replies and early returns are values of the answer
  (\<open>Inl\<close>, constructors of \<open>http\<close>, \<open>acme_reply\<close> and so on). A commit that violates a unique column raises
  \<^verbatim>\<open>IntegrityError\<close> and leaves the tables as they were. Instants are microseconds (type \<open>time\<close>); the clock, random
  tokens, hash and MAC functions, the signature, CSR and signing libraries, HTTP and DNS are arguments of
  the definitions. Python's floats in the rate limiter are rationals. SQL leaves the order of rows with equal sort keys
  open: \<open>order_by\<close> takes the rows in the order of their delivery, and the property on pages holds for every such order. Characters are 8-bit; JSON
  values are the datatype
  \<open>json\<close>.

  \<^bold>\<open>Theories.\<close>

  \<^item> \<open>Prelude\<close>: Python's string, integer and dictionary operations, tables, JSON values, replies. The
    locale \<open>keyed_rows\<close> is the contract of a table with a primary key (interpreted by the list operations
    as \<open>table\<close>); the locale \<open>invariant_system\<close> is a step function with an invariant that each step keeps, and gives
    the invariant of every run. Each component with a state interprets it on its own step function.

  \<^item> \<open>Auth\<close>: the role table, the two permission tests (\<^verbatim>\<open>permissions.has_permission\<close>,
    \<^verbatim>\<open>unified.has_permission\<close>; both interpret the locale \<open>permission_policy\<close>), sessions, API keys and
    \<^verbatim>\<open>require_auth\<close>. Shown: which permissions are granted, that the roles form a hierarchy, that a session
    is accepted only within its two timeouts, that a created API key authenticates its owner, and that a
    guarded route runs only for callers with every required permission.

  \<^item> \<open>Rbac\<close>: custom roles with inheritance (\<^verbatim>\<open>models/rbac.py\<close>, \<^verbatim>\<open>api/v2/rbac.py\<close>, \<^verbatim>\<open>models/group.py\<close>).
    The recursion over parent roles may not end; it takes a depth, and \<open>None\<close> is its exhaustion. On
    acyclic inheritance the number of roles plus one is enough; on a role that is its own parent no depth is.
    \<open>role_table\<close> keeps names unique over every sequence of operations.

  \<^item> \<open>Rate_Limit\<close>: configuration, path limits, the token bucket with its sliding window, the middleware.
    The map of buckets refines one bucket per key; a bucket keeps both bounds, per window and per
    burst and rate.

  \<^item> \<open>Text_Format\<close>: dates, \<^verbatim>\<open>json.dumps\<close>, titles and SQL patterns, which the hashed text of the audit log uses.

  \<^item> \<open>Audit_Log\<close>: the log with its hash chain, verification, queries, cleanup and the retention service.
    The locale \<open>hash_chain\<close> proves for any injective rendering that the last hash commits to
    every entry up to a collision; \<open>audit_chain\<close> interprets it on the rows of the log. \<open>audit_history\<close> and
    \<open>retention_history\<close> are the invariants over histories. The loop over batches of deletions takes fuel: one round more than
    there are expired rows is enough.

  \<^item> \<open>Csrf\<close> and \<open>Password_Policy\<close>: tokens, the hook with its exemptions; validation and strength of passwords.

  \<^item> \<open>Policy_Approval\<close>: certificate policies and approval requests (\<^verbatim>\<open>models/policy.py\<close>,
    \<^verbatim>\<open>api/v2/policies.py\<close>), with the workflow invariant \<open>policy_workflow\<close>.

  \<^item> \<open>Acme\<close> and \<open>Acme_Api\<close>: the service and the endpoints of the ACME server. The invariant \<open>acme_ok\<close> (interpretation
    \<open>acme_runs\<close>) says that valid authorizations are proven by validated challenges and that orders which are
    ready have valid authorizations; with it every issued certificate is authorized. \<open>nonce_runs\<close> is the
    nonce table. The chain of a downloaded certificate is a total function: the set of CAs seen bounds it.

  \<^item> \<open>Crl\<close>, \<open>Crl_Runs\<close> and \<open>Ocsp\<close>: revocation, holds and renewal (\<^verbatim>\<open>services/cert_service.py\<close>, \<^verbatim>\<open>api/v2/certificates.py\<close>), full and
    delta CRLs (\<^verbatim>\<open>services/crl_service.py\<close>, \<^verbatim>\<open>api/v2/crl.py\<close>) and the OCSP responder. The interpretation \<open>revocations\<close> is the invariant
    of histories: CRLs are numbered in order, and what is revoked is listed in the last full CRL or the delta CRL on top of it.

  \<^item> \<open>Anomaly\<close>, \<open>Attempt_Limiter\<close> and \<open>Login\<close>: the detector of unusual logins, and logging in (\<^verbatim>\<open>api/v2/auth.py\<close>, \<^verbatim>\<open>api/v2/auth_methods.py\<close>).
    The locale \<open>attempt_limiter\<close> is the contract of a lockout and bounds the attempts that are evaluated in any window; \<open>accounts\<close> and
    \<open>second_factor\<close> interpret it for passwords and one-time codes, \<open>ldap_accounts\<close> of theory \<open>Sso\<close> for the directory.

  \<^item> \<open>Scheduler\<close>, \<open>Compliance\<close>: the background loop (\<^verbatim>\<open>services/scheduler_service.py\<close>), whose number of iterations is an argument as it runs
    until it is stopped, and the score of a certificate (\<^verbatim>\<open>services/compliance_service.py\<close>).

  \<^item> \<open>Smart_Import\<close>, \<open>Import_Checks\<close> and \<open>Import_Files\<close>: the chains, matches and checks of an upload (\<^verbatim>\<open>services/smart_import\<close>) and the reading of
    certificate files (\<^verbatim>\<open>services/import_service.py\<close>). The walk to a root stops at depth ten as in the code.

  \<^item> \<open>Users\<close>, \<open>User_Groups\<close> and \<open>Account\<close>: accounts (\<^verbatim>\<open>api/v2/users.py\<close>), groups (\<^verbatim>\<open>api/v2/groups.py\<close>) and the caller's own account
    (\<^verbatim>\<open>api/v2/account.py\<close>). \<open>user_table\<close> and \<open>people_tables\<close> are the invariants of the tables; \<open>account_runs\<close> says that a caller changes only own rows.

  \<^item> \<open>Utilities\<close>, \<open>Base64\<close>: distinguished names, pages, file names and uploads (\<^verbatim>\<open>utils\<close>); Python's \<^verbatim>\<open>base64\<close> with its round trip.

  \<^item> \<open>Ca_Tree\<close> and \<open>Chain_Repair\<close>: the CAs (\<^verbatim>\<open>services/ca_service.py\<close>, \<^verbatim>\<open>api/v2/cas.py\<close>) and the hourly repair of chains
    (\<^verbatim>\<open>services/ski_aki_backfill.py\<close>). \<open>ca_runs\<close> keeps the CAs a tree; a walk to the root takes a number of steps, and on a tree as many steps
    as there are CAs are enough.

  \<^item> \<open>Encryption\<close>, \<open>Cert_List\<close> and \<open>Certificates\<close>: the encryption of stored keys (\<^verbatim>\<open>security/encryption.py\<close>), the list of certificates and their
    issuing, import, export and deletion (\<^verbatim>\<open>api/v2/certificates.py\<close>). \<open>cert_runs\<close> keeps the tree and the issuers over every interleaving of the
    operations on CAs and certificates.

  \<^item> \<open>Mtls\<close>, \<open>Mtls_Api\<close> and \<open>User_Certs\<close>: login by client certificate (\<^verbatim>\<open>services/mtls_auth_service.py\<close>, \<^verbatim>\<open>services/certificate_parser.py\<close>,
    \<^verbatim>\<open>middleware/mtls_middleware.py\<close>), the routes by which users enrol certificates (\<^verbatim>\<open>api/v2/mtls.py\<close>) and those for the certificates of all users
    (\<^verbatim>\<open>api/v2/user_certificates.py\<close>). \<open>mtls_runs\<close> and \<open>client_runs\<close> keep serial numbers unique;
    \<open>enrollments_isolated\<close> needs callers without the permissions of operators. The walks up a chain leave out the CAs that were seen, so they end.

  \<^item> \<open>Sso\<close> and \<open>Sso_Runs\<close>: providers, OAuth2, SAML and the directory (\<^verbatim>\<open>api/v2/sso.py\<close>, \<^verbatim>\<open>models/sso.py\<close>, \<^verbatim>\<open>utils/encryption.py\<close>).
    \<open>sso_runs\<close> is the invariant of the tables over changes of providers and logins through them.

  \<^item> \<open>Templates\<close> and \<open>Expiry\<close>: templates of certificates (\<^verbatim>\<open>api/v2/templates.py\<close>, \<^verbatim>\<open>services/template_service.py\<close>), where \<open>template_runs\<close>
    keeps those that come with the program, and the mails about certificates that expire (\<^verbatim>\<open>services/expiry_alert_service.py\<close>). The search for the
    name of a copy takes a number of tries; one more than there are templates is enough.

  \<^bold>\<open>Where the code does not do what it means to\<close>, the development states what it does instead. Requests of the ACME
  server that name an account are not checked against a signature, and validating a challenge again reopens a finished order. The OCSP responder
  refuses every request. \<^verbatim>\<open>/auth/login\<close> leaves out the second factor. The fall-back for SAML believes unsigned text. Any caller can make an API key with
  all permissions, and get the private key of a stored certificate by enrolling its public text. A role
  may become its own ancestor, permissions of custom roles are reported and not enforced, a forwarded
  address of 127.0.0.1 passes the limiter, cleaning up the log breaks its chain, the batched cleanup is refused by
  the database library, any API-key header switches the CSRF check off, and a rejection can approve. Deleting a revoked certificate removes it
  from later CRLs, an imported one has no serial number to be listed by, and two CAs that certified each other become each other's parent in the repair.

  \<^bold>\<open>Not modelled.\<close> X.509, CMS and key handling by the cryptography package, and what consists of calls of it: certificate requests, SCEP and EST,
  the parsers of uploads, trust store. Remote and hardware services: the ACME client and DNS providers, HSM and Microsoft CA connectors, mail,
  webhooks, syslog, network scans, WebAuthn. Backup files, reports, dashboards, settings pages, updates, start-up and migrations, which read and write
  files or call the operating system. The frontend. Concurrency between requests, which the database serializes
  per commit.
\<close>

end
